(* ===== verification/Prelude.thy ===== *)
theory Prelude
  imports Main
begin

text \<open>
  What the component theories share: the collections of rewrite rules their proofs use,
  and generic facts about lists and options that belong to no component.
\<close>

named_theorems run_simps \<open>equations that run a store operation on a world\<close>
named_theorems text_simps \<open>facts about byte strings and their runes\<close>
named_theorems time_simps \<open>facts about instants, calendar dates and wall clocks\<close>
named_theorems table_simps \<open>facts about the rows of a table after an update\<close>

subsection \<open>Lists\<close>

definition drop_while_end :: "('a \<Rightarrow> bool) \<Rightarrow> 'a list \<Rightarrow> 'a list" where
  "drop_while_end p xs = rev (dropWhile p (rev xs))"

lemma drop_while_end_Nil [simp]: "drop_while_end p [] = []"
  by (simp add: drop_while_end_def)

lemma drop_while_end_snoc [simp]:
  "drop_while_end p (xs @ [x]) = (if p x then drop_while_end p xs else xs @ [x])"
  by (simp add: drop_while_end_def)

lemma drop_while_end_prefix: "\<exists>ys. xs = drop_while_end p xs @ ys"
  by (metis drop_while_end_def rev_append rev_rev_ident takeWhile_dropWhile_id)

lemma set_drop_while_end: "set (drop_while_end p xs) \<subseteq> set xs"
  by (metis Un_upper1 drop_while_end_prefix set_append)

lemma length_drop_while_end: "length (drop_while_end p xs) \<le> length xs"
  by (metis drop_while_end_def length_dropWhile_le length_rev)

lemma last_drop_while_end:
  "drop_while_end p xs \<noteq> [] \<Longrightarrow> \<not> p (last (drop_while_end p xs))"
  by (simp add: drop_while_end_def last_rev hd_dropWhile)

lemma drop_while_end_id:
  "xs = [] \<or> \<not> p (last xs) \<Longrightarrow> drop_while_end p xs = xs"
  by (cases xs rule: rev_cases) auto

text \<open>The first element that satisfies a test: a loop with an early return.\<close>

lemma find_Some_iff_first:
  "List.find p xs = Some x \<Longrightarrow> x \<in> set xs \<and> p x"
  by (auto simp: find_Some_iff)

lemma find_None_all: "List.find p xs = None \<longleftrightarrow> (\<forall>x \<in> set xs. \<not> p x)"
  by (induction xs) auto

text \<open>\<open>strings.Join\<close> on lists of anything.\<close>

fun join_with :: "'a list \<Rightarrow> 'a list list \<Rightarrow> 'a list" where
  "join_with sep [] = []"
| "join_with sep [x] = x"
| "join_with sep (x # y # ys) = x @ sep @ join_with sep (y # ys)"

lemma set_join_with:
  "set (join_with sep xss) \<subseteq> set sep \<union> \<Union> (set ` set xss)"
  by (induction sep xss rule: join_with.induct) auto

subsection \<open>Optional deadlines\<close>

text \<open>A nullable column compared with an instant: NULL never satisfies the comparison.\<close>

definition opt_all :: "('a \<Rightarrow> bool) \<Rightarrow> 'a option \<Rightarrow> bool" where
  "opt_all p x = (case x of None \<Rightarrow> True | Some y \<Rightarrow> p y)"

definition opt_ex :: "('a \<Rightarrow> bool) \<Rightarrow> 'a option \<Rightarrow> bool" where
  "opt_ex p x = (case x of None \<Rightarrow> False | Some y \<Rightarrow> p y)"

lemma opt_all_simps [simp]: "opt_all p None" "opt_all p (Some y) = p y"
  by (simp_all add: opt_all_def)

lemma opt_ex_simps [simp]: "\<not> opt_ex p None" "opt_ex p (Some y) = p y"
  by (simp_all add: opt_ex_def)

lemma opt_ex_iff: "opt_ex p x \<longleftrightarrow> (\<exists>y. x = Some y \<and> p y)"
  by (cases x) auto

lemma opt_all_iff: "opt_all p x \<longleftrightarrow> (\<forall>y. x = Some y \<longrightarrow> p y)"
  by (cases x) auto

end
