(* ===== verification/GoText.thy ===== *)
theory GoText
  imports Prelude
begin

text \<open>
  Go strings. A Go string is a sequence of bytes, which an Isabelle \<open>string\<close> is too
  (a \<open>char\<close> is eight bits). What the program does with runes goes through the decoding
  of the \<open>unicode/utf8\<close> package: an invalid byte counts as one rune, U+FFFD, of width 1.
\<close>

subsection \<open>Decoding\<close>

abbreviation byte_of :: "char \<Rightarrow> nat" where
  "byte_of c \<equiv> of_char c"

text \<open>The byte at an index; past the end it is 0, which continues no sequence.\<close>

definition byte_at :: "string \<Rightarrow> nat \<Rightarrow> nat" where
  "byte_at s i = (if i < length s then byte_of (s ! i) else 0)"

definition cont :: "nat \<Rightarrow> bool" where
  "cont b \<longleftrightarrow> 128 \<le> b \<and> b \<le> 191"

definition ok2 :: "nat \<Rightarrow> nat \<Rightarrow> bool" where
  "ok2 b0 b1 \<longleftrightarrow> 194 \<le> b0 \<and> b0 \<le> 223 \<and> cont b1"

definition ok3 :: "nat \<Rightarrow> nat \<Rightarrow> nat \<Rightarrow> bool" where
  "ok3 b0 b1 b2 \<longleftrightarrow> 224 \<le> b0 \<and> b0 \<le> 239 \<and> cont b1 \<and> cont b2
     \<and> (b0 = 224 \<longrightarrow> 160 \<le> b1) \<and> (b0 = 237 \<longrightarrow> b1 \<le> 159)"

definition ok4 :: "nat \<Rightarrow> nat \<Rightarrow> nat \<Rightarrow> nat \<Rightarrow> bool" where
  "ok4 b0 b1 b2 b3 \<longleftrightarrow> 240 \<le> b0 \<and> b0 \<le> 244 \<and> cont b1 \<and> cont b2 \<and> cont b3
     \<and> (b0 = 240 \<longrightarrow> 144 \<le> b1) \<and> (b0 = 244 \<longrightarrow> b1 \<le> 143)"

text \<open>\<open>utf8.DecodeRuneInString\<close>: the rune and how many bytes it takes.\<close>

definition decode_rune :: "string \<Rightarrow> nat \<times> nat" where
  "decode_rune s =
     (let b0 = byte_at s 0; b1 = byte_at s 1; b2 = byte_at s 2; b3 = byte_at s 3 in
      if b0 < 128 then (b0, 1)
      else if ok2 b0 b1 then ((b0 - 192) * 64 + (b1 - 128), 2)
      else if ok3 b0 b1 b2 then ((b0 - 224) * 4096 + (b1 - 128) * 64 + (b2 - 128), 3)
      else if ok4 b0 b1 b2 b3
        then ((b0 - 240) * 262144 + (b1 - 128) * 4096 + (b2 - 128) * 64 + (b3 - 128), 4)
      else (65533, 1))"

lemma cont_0 [simp]: "\<not> cont 0" by (simp add: cont_def)

lemma byte_at_past [simp]: "length s \<le> i \<Longrightarrow> byte_at s i = 0"
  by (simp add: byte_at_def)

lemma byte_at_Cons [simp]:
  "byte_at (c # s) 0 = byte_of c"
  "byte_at (c # s) (Suc i) = byte_at s i"
  "byte_at (c # s) 1 = byte_at s 0"
  "byte_at (c # s) 2 = byte_at s 1"
  "byte_at (c # s) 3 = byte_at s 2"
  by (simp_all add: byte_at_def nth_Cons')

lemma cont_byte_at: "cont (byte_at s i) \<Longrightarrow> i < length s"
  by (rule ccontr) (simp add: byte_at_def)

lemma decode_rune_width_pos: "1 \<le> snd (decode_rune s)"
  by (simp add: decode_rune_def Let_def)

lemma decode_rune_width: "s \<noteq> [] \<Longrightarrow> snd (decode_rune s) \<le> length s"
proof -
  assume "s \<noteq> []"
  then have "1 \<le> length s" by (cases s) auto
  then show ?thesis
    by (auto simp: decode_rune_def Let_def ok2_def ok3_def ok4_def dest!: cont_byte_at)
qed

text \<open>
  The string cut into the byte sequences of its runes, each with the rune it decodes to:
  what \<open>for _, r := range s\<close> walks over.
\<close>

function chunks :: "string \<Rightarrow> (nat \<times> string) list" where
  "chunks [] = []"
| "chunks (c # s) =
     (let n = snd (decode_rune (c # s)) in
      (fst (decode_rune (c # s)), take n (c # s)) # chunks (drop n (c # s)))"
  by pat_completeness auto
termination
proof (relation "measure length")
  show "wf (measure length)" by simp
next
  fix c s x
  assume "x = snd (decode_rune (c # s))"
  moreover have "1 \<le> snd (decode_rune (c # s))" by (rule decode_rune_width_pos)
  ultimately show "(drop x (c # s), c # s) \<in> measure length" by simp
qed

declare chunks.simps(2) [simp del]

definition runes :: "string \<Rightarrow> nat list" where
  "runes s = map fst (chunks s)"

definition rune_count :: "string \<Rightarrow> nat" where
  "rune_count s = length (chunks s)"

lemma chunks_unfold:
  "s \<noteq> [] \<Longrightarrow> chunks s =
     (fst (decode_rune s), take (snd (decode_rune s)) s) # chunks (drop (snd (decode_rune s)) s)"
  by (cases s) (simp_all add: chunks.simps(2) Let_def)

lemma chunks_ascii:
  "byte_of c < (128::nat) \<Longrightarrow> chunks (c # s) = (byte_of c, [c]) # chunks s"
  by (simp add: chunks.simps(2) decode_rune_def Let_def)

lemma concat_chunks [simp]: "concat (map snd (chunks s)) = s"
proof (induction s rule: chunks.induct)
  case 1
  then show ?case by simp
next
  case (2 c s)
  then show ?case by (simp add: chunks.simps(2) Let_def)
qed

lemma chunk_bytes_nonempty: "p \<in> set (chunks s) \<Longrightarrow> snd p \<noteq> []"
proof (induction s rule: chunks.induct)
  case 1
  then show ?case by simp
next
  case (2 c s)
  have "take (snd (decode_rune (c # s))) (c # s) \<noteq> []"
    using decode_rune_width_pos [of "c # s"] by simp
  with 2 show ?case by (auto simp: chunks.simps(2) Let_def)
qed

lemma chunks_eq_Nil [simp]: "chunks s = [] \<longleftrightarrow> s = []"
  by (cases s) (simp_all add: chunks.simps(2) Let_def)

lemma rune_count_simps [simp]: "rune_count [] = 0" "rune_count s = 0 \<longleftrightarrow> s = []"
  by (simp_all add: rune_count_def)

lemma rune_count_ascii: "byte_of c < (128::nat) \<Longrightarrow> rune_count (c # s) = Suc (rune_count s)"
  by (simp add: rune_count_def chunks_ascii)

lemma length_runes [simp]: "length (runes s) = rune_count s"
  by (simp add: runes_def rune_count_def)

lemma rune_count_le: "rune_count s \<le> length s"
proof (induction s rule: chunks.induct)
  case 1
  then show ?case by simp
next
  case (2 c s)
  have "1 \<le> snd (decode_rune (c # s))" by (rule decode_rune_width_pos)
  moreover have "rune_count (c # s) = Suc (rune_count (drop (snd (decode_rune (c # s))) (c # s)))"
    by (simp add: rune_count_def chunks.simps(2) Let_def)
  ultimately show ?case using "2.IH" [OF refl] by simp
qed

text \<open>
  An ASCII byte never continues a sequence, so decoding before it does not depend on what
  follows: the string can be cut there.
\<close>

lemma decode_rune_append_ascii:
  assumes "a \<noteq> []" and c: "byte_of c < (128::nat)"
  shows "decode_rune (a @ c # b) = decode_rune a"
proof -
  have nc: "\<not> cont (byte_of c)" using c by (simp add: cont_def)
  have same: "byte_at (a @ c # b) i = byte_at a i" if "i < length a" for i
    using that by (simp add: byte_at_def nth_append)
  have stop: "\<not> cont (byte_at (a @ c # b) (length a))"
    using nc by (simp add: byte_at_def)
  have len: "length a = 1 \<or> length a = 2 \<or> length a = 3 \<or> 4 \<le> length a"
  proof -
    from assms(1) have "0 < length a" by simp
    then show ?thesis by arith
  qed
  then show ?thesis
  proof (elim disjE)
    assume l: "length a = 1"
    with stop have "\<not> cont (byte_at (a @ c # b) 1)" by simp
    with l same [of 0] show ?thesis
      by (simp add: decode_rune_def Let_def ok2_def ok3_def ok4_def)
  next
    assume l: "length a = 2"
    with stop have "\<not> cont (byte_at (a @ c # b) 2)" by simp
    with l same [of 0] same [of 1] show ?thesis
      by (simp add: decode_rune_def Let_def ok2_def ok3_def ok4_def)
  next
    assume l: "length a = 3"
    with stop have "\<not> cont (byte_at (a @ c # b) 3)" by simp
    with l same [of 0] same [of 1] same [of 2] show ?thesis
      by (simp add: decode_rune_def Let_def ok2_def ok3_def ok4_def)
  next
    assume "4 \<le> length a"
    then have "byte_at (a @ c # b) 0 = byte_at a 0" "byte_at (a @ c # b) 1 = byte_at a 1"
      "byte_at (a @ c # b) 2 = byte_at a 2" "byte_at (a @ c # b) 3 = byte_at a 3"
      by (auto intro: same)
    then show ?thesis by (simp only: decode_rune_def)
  qed
qed

lemma chunks_append_decode:
  assumes "s \<noteq> []" and "decode_rune (s @ t) = decode_rune s"
  shows "chunks (s @ t) = (fst (decode_rune s), take (snd (decode_rune s)) s)
           # chunks (drop (snd (decode_rune s)) s @ t)"
  using chunks_unfold [of "s @ t"] decode_rune_width [OF assms(1)] assms by simp

lemma chunks_append_ascii:
  "byte_of c < (128::nat) \<Longrightarrow> chunks (a @ c # b) = chunks a @ (byte_of c, [c]) # chunks b"
proof (induction a rule: chunks.induct)
  case 1
  then show ?case by (simp add: chunks_ascii)
next
  case (2 x a)
  let ?w = "snd (decode_rune (x # a))"
  have dec: "decode_rune ((x # a) @ c # b) = decode_rune (x # a)"
    by (rule decode_rune_append_ascii) (simp_all add: "2.prems")
  have "chunks ((x # a) @ c # b)
      = (fst (decode_rune (x # a)), take ?w (x # a)) # chunks (drop ?w (x # a) @ c # b)"
    by (rule chunks_append_decode) (simp_all only: dec list.distinct not_False_eq_True)
  also have "chunks (drop ?w (x # a) @ c # b)
      = chunks (drop ?w (x # a)) @ (byte_of c, [c]) # chunks b"
    by (rule "2.IH") (simp_all add: "2.prems")
  finally show ?case by (simp add: chunks_unfold [of "x # a"])
qed

lemma rune_count_append_ascii [text_simps]:
  "byte_of c < (128::nat) \<Longrightarrow> rune_count (a @ c # b) = rune_count a + Suc (rune_count b)"
  by (simp add: rune_count_def chunks_append_ascii)

subsection \<open>Encoding\<close>

text \<open>A Unicode scalar value: what a decoded rune always is.\<close>

definition valid_rune :: "nat \<Rightarrow> bool" where
  "valid_rune r \<longleftrightarrow> r < 55296 \<or> 57344 \<le> r \<and> r \<le> 1114111"

text \<open>\<open>utf8.AppendRune\<close>: an invalid rune is written as U+FFFD.\<close>

definition encode_rune :: "nat \<Rightarrow> string" where
  "encode_rune r =
     (if r < 128 then [char_of r]
      else if r < 2048 then map char_of [192 + r div 64, 128 + r mod 64]
      else if \<not> valid_rune r then map char_of [239::nat, 191, 189]
      else if r < 65536
        then map char_of [224 + r div 4096, 128 + r div 64 mod 64, 128 + r mod 64]
      else map char_of [240 + r div 262144, 128 + r div 4096 mod 64,
             128 + r div 64 mod 64, 128 + r mod 64])"

definition encode_runes :: "nat list \<Rightarrow> string" where
  "encode_runes rs = concat (map encode_rune rs)"

lemma byte_of_char_of [simp]: "n < 256 \<Longrightarrow> byte_of (char_of n) = (n::nat)"
  by (simp add: of_char_of)

lemma byte_of_less: "byte_of c < (256::nat)"
  using of_char_mod_256 [of c, where ?'a = nat] by (metis mod_less_divisor zero_less_numeral)

lemma byte_at_less: "byte_at s i < 256"
  by (simp add: byte_at_def byte_of_less)

lemma valid_rune3:
  assumes "x \<le> 15" "y \<le> 63" "z \<le> 63" "x = 13 \<longrightarrow> y \<le> 31"
  shows "valid_rune (x * 4096 + y * 64 + z)"
proof -
  consider "x \<le> 12" | "x = 13" | "14 \<le> x" by linarith
  then show ?thesis
  proof cases
    case 1
    then have "x * 4096 \<le> 12 * 4096" by simp
    with assms show ?thesis unfolding valid_rune_def by linarith
  next
    case 2
    with assms show ?thesis by (simp add: valid_rune_def)
  next
    case 3
    then have "14 * 4096 \<le> x * 4096" "x * 4096 \<le> 15 * 4096" using assms(1) by simp_all
    with assms show ?thesis unfolding valid_rune_def by linarith
  qed
qed

lemma valid_rune4:
  assumes "x \<le> 4" "y \<le> 63" "z \<le> 63" "u \<le> 63" "x = 0 \<longrightarrow> 16 \<le> y" "x = 4 \<longrightarrow> y \<le> 15"
  shows "valid_rune (x * 262144 + y * 4096 + z * 64 + u)"
proof -
  consider "x = 0" | "1 \<le> x" "x \<le> 3" | "x = 4" using assms(1) by linarith
  then show ?thesis
  proof cases
    case 2
    then have "262144 \<le> x * 262144" "x * 262144 \<le> 3 * 262144" by simp_all
    with assms show ?thesis unfolding valid_rune_def by linarith
  qed (use assms in \<open>simp_all add: valid_rune_def\<close>)
qed

lemma valid_decode_rune: "valid_rune (fst (decode_rune s))"
proof -
  consider "byte_at s 0 < 128" | "ok2 (byte_at s 0) (byte_at s 1)"
    | "ok3 (byte_at s 0) (byte_at s 1) (byte_at s 2)"
    | "ok4 (byte_at s 0) (byte_at s 1) (byte_at s 2) (byte_at s 3)"
    | "\<not> byte_at s 0 < 128" "\<not> ok2 (byte_at s 0) (byte_at s 1)"
      "\<not> ok3 (byte_at s 0) (byte_at s 1) (byte_at s 2)"
      "\<not> ok4 (byte_at s 0) (byte_at s 1) (byte_at s 2) (byte_at s 3)"
    by blast
  then show ?thesis
  proof cases
    case 1 then show ?thesis by (simp add: decode_rune_def valid_rune_def)
  next
    case 2 then show ?thesis
      by (auto simp: decode_rune_def Let_def ok2_def cont_def valid_rune_def)
  next
    case 3
    then have "\<not> ok2 (byte_at s 0) (byte_at s 1)" "\<not> byte_at s 0 < 128"
      by (auto simp: ok2_def ok3_def)
    with 3 show ?thesis
      by (simp add: decode_rune_def Let_def) (rule valid_rune3, auto simp: ok3_def cont_def)
  next
    case 4
    then have "\<not> ok2 (byte_at s 0) (byte_at s 1)" "\<not> byte_at s 0 < 128"
      "\<not> ok3 (byte_at s 0) (byte_at s 1) (byte_at s 2)"
      by (auto simp: ok2_def ok3_def ok4_def)
    with 4 show ?thesis
      by (simp add: decode_rune_def Let_def) (rule valid_rune4, auto simp: ok4_def cont_def)
  next
    case 5 then show ?thesis by (simp add: decode_rune_def Let_def valid_rune_def)
  qed
qed

lemma valid_runes: "\<forall>r \<in> set (runes s). valid_rune r"
proof (induction s rule: chunks.induct)
  case 1
  then show ?case by (simp add: runes_def)
next
  case (2 c s)
  then show ?case
    by (simp add: runes_def chunks.simps(2) Let_def valid_decode_rune)
qed

lemma encode_rune_length: "1 \<le> length (encode_rune r)"
  by (simp add: encode_rune_def)

lemma mod64_le: "(n::nat) mod 64 \<le> 63"
  using mod_less_divisor [of 64 n] by simp

lemma split64_3: "(r::nat) = (r div 4096) * 4096 + (r div 64 mod 64) * 64 + r mod 64"
proof -
  have "r div 4096 = r div 64 div 64" by (simp add: div_mult2_eq [symmetric])
  then have "r div 64 = (r div 4096) * 64 + r div 64 mod 64" by simp
  moreover have "r = (r div 64) * 64 + r mod 64" by simp
  ultimately show ?thesis by linarith
qed

lemma split64_4:
  "(r::nat) = (r div 262144) * 262144 + (r div 4096 mod 64) * 4096 + (r div 64 mod 64) * 64
     + r mod 64"
proof -
  have "r div 262144 = r div 4096 div 64" by (simp add: div_mult2_eq [symmetric])
  then have "r div 4096 = (r div 262144) * 64 + r div 4096 mod 64" by simp
  with split64_3 [of r] show ?thesis by linarith
qed

lemma decode_encode_rune:
  assumes "valid_rune r"
  shows "decode_rune (encode_rune r @ s) = (r, length (encode_rune r))"
proof -
  have r: "r < 1114112" using assms by (auto simp: valid_rune_def)
  consider "r < 128" | "128 \<le> r" "r < 2048" | "2048 \<le> r" "r < 65536" | "65536 \<le> r" by linarith
  then show ?thesis
  proof cases
    case 1
    then show ?thesis by (simp add: encode_rune_def decode_rune_def)
  next
    case 2
    then have d: "2 \<le> r div 64" "r div 64 < 32" by auto
    have m: "r mod 64 < 64" by simp
    have e: "encode_rune r = map char_of [192 + r div 64, 128 + r mod 64]"
      using 2 by (simp add: encode_rune_def)
    have "ok2 (192 + r div 64) (128 + r mod 64)" using d m by (simp add: ok2_def cont_def)
    with d m show ?thesis by (simp add: e decode_rune_def Let_def)
  next
    case 3
    then have d: "r div 4096 < 16" by auto
    have m: "r mod 64 \<le> 63" "r div 64 mod 64 \<le> 63" by (rule mod64_le)+
    have v: "r = (r div 4096) * 4096 + (r div 64 mod 64) * 64 + r mod 64"
      by (rule split64_3)
    have e: "encode_rune r
        = map char_of [224 + r div 4096, 128 + r div 64 mod 64, 128 + r mod 64]"
      using 3 assms by (simp add: encode_rune_def)
    have "ok3 (224 + r div 4096) (128 + r div 64 mod 64) (128 + r mod 64)"
    proof -
      have "r div 4096 = 0 \<longrightarrow> 32 \<le> r div 64 mod 64"
        using 3 v m by linarith
      moreover have "r div 4096 = 13 \<longrightarrow> r div 64 mod 64 \<le> 31"
        using assms v m unfolding valid_rune_def by linarith
      ultimately show ?thesis using d m by (simp add: ok3_def cont_def)
    qed
    moreover have "\<not> ok2 (224 + r div 4096) (128 + r div 64 mod 64)" by (simp add: ok2_def)
    ultimately show ?thesis using d m v by (simp add: e decode_rune_def Let_def)
  next
    case 4
    then have d: "r div 262144 \<le> 4" using r by auto
    have m: "r mod 64 \<le> 63" "r div 64 mod 64 \<le> 63" "r div 4096 mod 64 \<le> 63"
      by (rule mod64_le)+
    have v: "r = (r div 262144) * 262144 + (r div 4096 mod 64) * 4096 + (r div 64 mod 64) * 64
        + r mod 64" by (rule split64_4)
    have e: "encode_rune r = map char_of [240 + r div 262144, 128 + r div 4096 mod 64,
        128 + r div 64 mod 64, 128 + r mod 64]"
      using 4 assms by (simp add: encode_rune_def)
    have "ok4 (240 + r div 262144) (128 + r div 4096 mod 64) (128 + r div 64 mod 64)
        (128 + r mod 64)"
    proof -
      have "r div 262144 = 0 \<longrightarrow> 16 \<le> r div 4096 mod 64"
        using 4 v m by linarith
      moreover have "r div 262144 = 4 \<longrightarrow> r div 4096 mod 64 \<le> 15"
        using r v m by linarith
      ultimately show ?thesis using d m by (simp add: ok4_def cont_def)
    qed
    moreover have "\<not> ok2 (240 + r div 262144) b" "\<not> ok3 (240 + r div 262144) b b'" for b b'
      by (simp_all add: ok2_def ok3_def)
    ultimately show ?thesis using d m v by (simp add: e decode_rune_def Let_def)
  qed
qed

lemma encode_rune_nonempty [simp]: "encode_rune r \<noteq> []"
  using encode_rune_length [of r] by auto

lemma chunks_encode_rune [text_simps]:
  "valid_rune r \<Longrightarrow> chunks (encode_rune r @ s) = (r, encode_rune r) # chunks s"
  using chunks_unfold [of "encode_rune r @ s"] by (simp add: decode_encode_rune)

lemma encode_runes_simps [simp]:
  "encode_runes [] = []"
  "encode_runes (r # rs) = encode_rune r @ encode_runes rs"
  "encode_runes (rs @ rs') = encode_runes rs @ encode_runes rs'"
  by (simp_all add: encode_runes_def)

text \<open>The round trip: encoding runes and decoding the bytes again gives the runes back.\<close>

lemma runes_encode_append [text_simps]:
  "\<forall>r \<in> set rs. valid_rune r \<Longrightarrow> runes (encode_runes rs @ s) = rs @ runes s"
  by (induction rs) (simp_all add: runes_def chunks_encode_rune)

lemma runes_Nil [simp]: "runes [] = []"
  by (simp add: runes_def)

lemma runes_encode_runes [text_simps]:
  "\<forall>r \<in> set rs. valid_rune r \<Longrightarrow> runes (encode_runes rs) = rs"
  using runes_encode_append [of rs "[]"] by simp

lemma rune_count_encode_append [text_simps]:
  "\<forall>r \<in> set rs. valid_rune r \<Longrightarrow> rune_count (encode_runes rs @ s) = length rs + rune_count s"
  using runes_encode_append [of rs s] length_runes [of "encode_runes rs @ s"] by simp

lemma encode_rune_ascii: "r < 128 \<Longrightarrow> encode_rune r = [char_of r]"
  by (simp add: encode_rune_def)

subsection \<open>White space, trimming, fields\<close>

text \<open>\<open>unicode.IsSpace\<close>: the Latin-1 spaces and the code points with the White_Space property.\<close>

definition is_space_rune :: "nat \<Rightarrow> bool" where
  "is_space_rune r \<longleftrightarrow> r \<in> set [9, 10, 11, 12, 13, 32, 133, 160, 5760, 8232, 8233, 8239, 8287, 12288]
     \<or> 8192 \<le> r \<and> r \<le> 8202"

definition unchunk :: "(nat \<times> string) list \<Rightarrow> string" where
  "unchunk cs = concat (map snd cs)"

text \<open>\<open>strings.TrimSpace\<close>.\<close>

definition trim_space :: "string \<Rightarrow> string" where
  "trim_space s = unchunk (drop_while_end (\<lambda>c. is_space_rune (fst c))
     (dropWhile (\<lambda>c. is_space_rune (fst c)) (chunks s)))"

text \<open>\<open>strings.Fields\<close>: the maximal runs of runes that are not white space.\<close>

fun split_fields :: "string \<Rightarrow> (nat \<times> string) list \<Rightarrow> string list" where
  "split_fields cur [] = (if cur = [] then [] else [cur])"
| "split_fields cur ((r, b) # cs) =
     (if is_space_rune r then (if cur = [] then [] else [cur]) @ split_fields [] cs
      else split_fields (cur @ b) cs)"

definition string_fields :: "string \<Rightarrow> string list" where
  "string_fields s = split_fields [] (chunks s)"

text \<open>\<open>strings.TrimRight(s, " ")\<close>: the cutset is the ASCII space alone.\<close>

definition trim_right_space :: "string \<Rightarrow> string" where
  "trim_right_space s = drop_while_end (\<lambda>c. c = CHR '' '') s"

text \<open>ASCII text: every byte is its own rune.\<close>

definition is_ascii :: "string \<Rightarrow> bool" where
  "is_ascii s \<longleftrightarrow> list_all (\<lambda>c. byte_of c < (128::nat)) s"

text \<open>SQLite's \<open>lower\<close>: the ASCII letters, byte by byte.\<close>

definition lower_byte :: "char \<Rightarrow> char" where
  "lower_byte c = (if 65 \<le> byte_of c \<and> byte_of c \<le> (90::nat) then char_of (byte_of c + (32::nat)) else c)"

definition ascii_lower :: "string \<Rightarrow> string" where
  "ascii_lower s = map lower_byte s"

text \<open>
  The lower-case column of the table \<open>unicode.CaseRanges\<close> above ASCII: the runes from the first to
  the second number, in steps of the third, are moved by the fourth. These are the simple
  lower-case mappings of Unicode 15.
\<close>

definition lower_ranges :: "(nat \<times> nat \<times> nat \<times> int) list" where
  "lower_ranges =
    [(192, 214, 1, 32), (216, 222, 1, 32), (256, 302, 2, 1), (304, 304, 1, -199), (306, 310, 2, 1),
     (313, 327, 2, 1), (330, 374, 2, 1), (376, 376, 1, -121), (377, 381, 2, 1), (385, 385, 1, 210),
     (386, 388, 2, 1), (390, 390, 1, 206), (391, 391, 1, 1), (393, 394, 1, 205), (395, 395, 1, 1),
     (398, 398, 1, 79), (399, 399, 1, 202), (400, 400, 1, 203), (401, 401, 1, 1),
     (403, 403, 1, 205), (404, 404, 1, 207), (406, 406, 1, 211), (407, 407, 1, 209),
     (408, 408, 1, 1), (412, 412, 1, 211), (413, 413, 1, 213), (415, 415, 1, 214),
     (416, 420, 2, 1), (422, 422, 1, 218), (423, 423, 1, 1), (425, 425, 1, 218), (428, 428, 1, 1),
     (430, 430, 1, 218), (431, 431, 1, 1), (433, 434, 1, 217), (435, 437, 2, 1),
     (439, 439, 1, 219), (440, 440, 1, 1), (444, 444, 1, 1), (452, 452, 1, 2), (453, 453, 1, 1),
     (455, 455, 1, 2), (456, 456, 1, 1), (458, 458, 1, 2), (459, 475, 2, 1), (478, 494, 2, 1),
     (497, 497, 1, 2), (498, 500, 2, 1), (502, 502, 1, -97), (503, 503, 1, -56), (504, 542, 2, 1),
     (544, 544, 1, -130), (546, 562, 2, 1), (570, 570, 1, 10795), (571, 571, 1, 1),
     (573, 573, 1, -163), (574, 574, 1, 10792), (577, 577, 1, 1), (579, 579, 1, -195),
     (580, 580, 1, 69), (581, 581, 1, 71), (582, 590, 2, 1), (880, 882, 2, 1), (886, 886, 1, 1),
     (895, 895, 1, 116), (902, 902, 1, 38), (904, 906, 1, 37), (908, 908, 1, 64),
     (910, 911, 1, 63), (913, 929, 1, 32), (931, 939, 1, 32), (975, 975, 1, 8), (984, 1006, 2, 1),
     (1012, 1012, 1, -60), (1015, 1015, 1, 1), (1017, 1017, 1, -7), (1018, 1018, 1, 1),
     (1021, 1023, 1, -130), (1024, 1039, 1, 80), (1040, 1071, 1, 32), (1120, 1152, 2, 1),
     (1162, 1214, 2, 1), (1216, 1216, 1, 15), (1217, 1229, 2, 1), (1232, 1326, 2, 1),
     (1329, 1366, 1, 48), (4256, 4293, 1, 7264), (4295, 4295, 1, 7264), (4301, 4301, 1, 7264),
     (5024, 5103, 1, 38864), (5104, 5109, 1, 8), (7312, 7354, 1, -3008), (7357, 7359, 1, -3008),
     (7680, 7828, 2, 1), (7838, 7838, 1, -7615), (7840, 7934, 2, 1), (7944, 7951, 1, -8),
     (7960, 7965, 1, -8), (7976, 7983, 1, -8), (7992, 7999, 1, -8), (8008, 8013, 1, -8),
     (8025, 8031, 2, -8), (8040, 8047, 1, -8), (8072, 8079, 1, -8), (8088, 8095, 1, -8),
     (8104, 8111, 1, -8), (8120, 8121, 1, -8), (8122, 8123, 1, -74), (8124, 8124, 1, -9),
     (8136, 8139, 1, -86), (8140, 8140, 1, -9), (8152, 8153, 1, -8), (8154, 8155, 1, -100),
     (8168, 8169, 1, -8), (8170, 8171, 1, -112), (8172, 8172, 1, -7), (8184, 8185, 1, -128),
     (8186, 8187, 1, -126), (8188, 8188, 1, -9), (8486, 8486, 1, -7517), (8490, 8490, 1, -8383),
     (8491, 8491, 1, -8262), (8498, 8498, 1, 28), (8544, 8559, 1, 16), (8579, 8579, 1, 1),
     (9398, 9423, 1, 26), (11264, 11311, 1, 48), (11360, 11360, 1, 1), (11362, 11362, 1, -10743),
     (11363, 11363, 1, -3814), (11364, 11364, 1, -10727), (11367, 11371, 2, 1),
     (11373, 11373, 1, -10780), (11374, 11374, 1, -10749), (11375, 11375, 1, -10783),
     (11376, 11376, 1, -10782), (11378, 11378, 1, 1), (11381, 11381, 1, 1),
     (11390, 11391, 1, -10815), (11392, 11490, 2, 1), (11499, 11501, 2, 1), (11506, 11506, 1, 1),
     (42560, 42604, 2, 1), (42624, 42650, 2, 1), (42786, 42798, 2, 1), (42802, 42862, 2, 1),
     (42873, 42875, 2, 1), (42877, 42877, 1, -35332), (42878, 42886, 2, 1), (42891, 42891, 1, 1),
     (42893, 42893, 1, -42280), (42896, 42898, 2, 1), (42902, 42920, 2, 1),
     (42922, 42922, 1, -42308), (42923, 42923, 1, -42319), (42924, 42924, 1, -42315),
     (42925, 42925, 1, -42305), (42926, 42926, 1, -42308), (42928, 42928, 1, -42258),
     (42929, 42929, 1, -42282), (42930, 42930, 1, -42261), (42931, 42931, 1, 928),
     (42932, 42946, 2, 1), (42948, 42948, 1, -48), (42949, 42949, 1, -42307),
     (42950, 42950, 1, -35384), (42951, 42953, 2, 1), (42960, 42960, 1, 1), (42966, 42968, 2, 1),
     (42997, 42997, 1, 1), (65313, 65338, 1, 32), (66560, 66599, 1, 40), (66736, 66771, 1, 40),
     (66928, 66938, 1, 39), (66940, 66954, 1, 39), (66956, 66962, 1, 39), (66964, 66965, 1, 39),
     (68736, 68786, 1, 64), (71840, 71871, 1, 32), (93760, 93791, 1, 32), (125184, 125217, 1, 34)]"

definition lower_rune :: "nat \<Rightarrow> nat" where
  "lower_rune r =
     (if r < 128 then (if 65 \<le> r \<and> r \<le> 90 then r + 32 else r)
      else case List.find (\<lambda>(lo, hi, step, _). lo \<le> r \<and> r \<le> hi \<and> (r - lo) mod step = 0) lower_ranges of
        None \<Rightarrow> r
      | Some (_, _, _, delta) \<Rightarrow> nat (int r + delta))"

text \<open>
  \<open>strings.ToLower\<close>: ASCII text goes byte by byte; other text is decoded, each rune lower-cased and
  encoded again (\<open>strings.Map\<close>), so that a byte that is not UTF-8 becomes U+FFFD.
\<close>

definition to_lower :: "string \<Rightarrow> string" where
  "to_lower s = (if is_ascii s then map lower_byte s else encode_runes (map lower_rune (runes s)))"

lemma to_lower_ascii: "is_ascii s \<Longrightarrow> to_lower s = map lower_byte s"
  by (simp add: to_lower_def)

lemma lower_rune_ascii: "byte_of c < (128::nat) \<Longrightarrow> encode_rune (lower_rune (byte_of c)) = [lower_byte c]"
  by (simp add: lower_rune_def lower_byte_def encode_rune_ascii)

lemma lower_rune_samples: "lower_rune 201 = 233" "lower_rune 304 = 105" "lower_rune 233 = 233" "lower_rune 66 = 98"
  by (simp_all add: lower_rune_def lower_ranges_def)

lemma to_lower_samples:
  "to_lower [CHR 0xC3, CHR 0x89, CHR ''B''] = [CHR 0xC3, CHR 0xA9, CHR ''b'']"
  "to_lower [CHR 0xC4, CHR 0xB0] = ''i''"
  by (simp_all add: to_lower_def is_ascii_def runes_def chunks.simps(2) decode_rune_def ok2_def cont_def
      encode_runes_def encode_rune_def lower_rune_samples char_of_eq_iff)

text \<open>
  The control-character test every package repeats
  (\<open>for _, r := range value { if r < 0x20 || r == 0x7f ... }\<close>) and the hexadecimal test.
\<close>

definition contains_control :: "string \<Rightarrow> bool" where
  "contains_control s \<longleftrightarrow> list_ex (\<lambda>r. r < 32 \<or> r = 127) (runes s)"

definition is_hex :: "string \<Rightarrow> bool" where
  "is_hex s \<longleftrightarrow> list_all (\<lambda>r. 48 \<le> r \<and> r \<le> 57 \<or> 97 \<le> r \<and> r \<le> 102) (runes s)"

lemma unchunk_simps [simp]:
  "unchunk [] = []" "unchunk (c # cs) = snd c @ unchunk cs" "unchunk (cs @ ds) = unchunk cs @ unchunk ds"
  "unchunk (chunks s) = s"
  by (simp_all add: unchunk_def)

lemma chunks_ascii_append [text_simps]:
  "is_ascii a \<Longrightarrow> chunks (a @ s) = map (\<lambda>c. (byte_of c, [c])) a @ chunks s"
  by (induction a) (simp_all add: is_ascii_def chunks_ascii)

lemma rune_count_ascii_append [text_simps]:
  "is_ascii a \<Longrightarrow> rune_count (a @ s) = length a + rune_count s"
  by (simp add: rune_count_def chunks_ascii_append)

lemma rune_count_is_ascii [text_simps]: "is_ascii a \<Longrightarrow> rune_count a = length a"
  using rune_count_ascii_append [of a "[]"] by simp

text \<open>A prefix of the chunks and what follows it decode as they did inside the string.\<close>

lemma ok_0 [simp]:
  "\<not> ok2 b 0" "\<not> ok3 b 0 c" "\<not> ok3 b c 0" "\<not> ok4 b 0 c d" "\<not> ok4 b c 0 d" "\<not> ok4 b c d 0"
  by (simp_all add: ok2_def ok3_def ok4_def)

lemma decode_rune_width_cases:
  "snd (decode_rune s) \<le> 1 \<Longrightarrow> \<not> byte_at s 0 < 128 \<Longrightarrow> \<not> ok2 (byte_at s 0) (byte_at s 1)"
  "snd (decode_rune s) \<le> 2 \<Longrightarrow> \<not> byte_at s 0 < 128 \<Longrightarrow> \<not> ok2 (byte_at s 0) (byte_at s 1)
     \<Longrightarrow> \<not> ok3 (byte_at s 0) (byte_at s 1) (byte_at s 2)"
  "snd (decode_rune s) \<le> 3 \<Longrightarrow> \<not> byte_at s 0 < 128 \<Longrightarrow> \<not> ok2 (byte_at s 0) (byte_at s 1)
     \<Longrightarrow> \<not> ok3 (byte_at s 0) (byte_at s 1) (byte_at s 2)
     \<Longrightarrow> \<not> ok4 (byte_at s 0) (byte_at s 1) (byte_at s 2) (byte_at s 3)"
  by (simp_all add: decode_rune_def Let_def split: if_splits)

lemma decode_rune_take:
  assumes w: "snd (decode_rune s) \<le> n"
  shows "decode_rune (take n s) = decode_rune s"
proof (cases "n = 0")
  case True
  then show ?thesis using w decode_rune_width_pos [of s] by simp
next
  case False
  have b: "byte_at (take n s) i = (if i < n then byte_at s i else 0)" for i
    by (simp add: byte_at_def)
  note ws = decode_rune_width_cases [of s]
  let ?B = "byte_at s"
  consider "n = 1" | "n = 2" | "n = 3" | "4 \<le> n" using False by linarith
  then show ?thesis
  proof cases
    case 1
    have "?B 0 < 128 \<or> \<not> ok2 (?B 0) (?B 1) \<and> \<not> ok3 (?B 0) (?B 1) (?B 2)
        \<and> \<not> ok4 (?B 0) (?B 1) (?B 2) (?B 3)"
      using ws w 1 by linarith
    then show ?thesis unfolding decode_rune_def b by (auto simp: Let_def 1)
  next
    case 2
    have "?B 0 < 128 \<or> ok2 (?B 0) (?B 1) \<or> \<not> ok3 (?B 0) (?B 1) (?B 2)
        \<and> \<not> ok4 (?B 0) (?B 1) (?B 2) (?B 3)"
      using ws(2,3) w 2 by linarith
    then show ?thesis unfolding decode_rune_def b by (auto simp: Let_def 2)
  next
    case 3
    have "?B 0 < 128 \<or> ok2 (?B 0) (?B 1) \<or> ok3 (?B 0) (?B 1) (?B 2)
        \<or> \<not> ok4 (?B 0) (?B 1) (?B 2) (?B 3)"
      using ws(3) w 3 by linarith
    then show ?thesis unfolding decode_rune_def b by (auto simp: Let_def 3)
  next
    case 4
    then show ?thesis by (simp add: decode_rune_def b)
  qed
qed

lemma chunks_split:
  "chunks s = cs @ ds \<Longrightarrow> chunks (unchunk cs) = cs \<and> chunks (unchunk ds) = ds"
proof (induction cs arbitrary: s)
  case Nil
  then show ?case by (metis append_Nil chunks.simps(1) unchunk_simps(1,4))
next
  case (Cons c cs)
  let ?w = "snd (decode_rune s)"
  from Cons.prems have ne: "s \<noteq> []" by auto
  from Cons.prems have c: "c = (fst (decode_rune s), take ?w s)"
    and rest: "chunks (drop ?w s) = cs @ ds"
    by (simp_all add: chunks_unfold [OF ne])
  from Cons.IH [OF rest] have IH: "chunks (unchunk cs) = cs" "chunks (unchunk ds) = ds" by simp_all
  have w: "?w \<le> length s" by (rule decode_rune_width [OF ne])
  have s: "s = take ?w s @ unchunk cs @ unchunk ds"
    by (metis append_take_drop_id rest unchunk_simps(3,4))
  define n where "n = ?w + length (unchunk cs)"
  have lw: "length (take ?w s) = ?w" using w by simp
  have t: "take n s = take ?w s @ unchunk cs"
  proof -
    have "take n (take ?w s @ unchunk cs @ unchunk ds) = take ?w s @ unchunk cs"
      using lw by (simp add: n_def)
    then show ?thesis using s by simp
  qed
  have d: "decode_rune (take n s) = decode_rune s"
    by (rule decode_rune_take) (simp add: n_def)
  have "take n s \<noteq> []" using ne decode_rune_width_pos [of s] by (simp add: n_def)
  from chunks_unfold [OF this]
  have "chunks (take n s) = (fst (decode_rune s), take ?w (take n s)) # chunks (drop ?w (take n s))"
    by (simp only: d)
  also have "take ?w (take n s) = take ?w s" using lw by (simp add: t)
  also have "drop ?w (take n s) = unchunk cs" using lw by (simp add: t)
  finally have "chunks (take n s) = c # cs" by (simp add: IH c)
  moreover have "unchunk (c # cs) = take n s" by (simp add: t c)
  ultimately show ?case using IH by simp
qed

lemma chunks_sub:
  assumes "chunks s = as @ bs @ cs"
  shows "chunks (unchunk bs) = bs"
proof -
  have "chunks (unchunk (bs @ cs)) = bs @ cs" using chunks_split [OF assms] by simp
  then show ?thesis by (rule chunks_split [THEN conjunct1])
qed

lemma chunks_trim_space [text_simps]:
  "chunks (trim_space s) = drop_while_end (\<lambda>c. is_space_rune (fst c))
     (dropWhile (\<lambda>c. is_space_rune (fst c)) (chunks s))"
proof -
  let ?p = "\<lambda>c::nat \<times> string. is_space_rune (fst c)"
  obtain ds where "dropWhile ?p (chunks s) = drop_while_end ?p (dropWhile ?p (chunks s)) @ ds"
    using drop_while_end_prefix by blast
  then have "chunks s = takeWhile ?p (chunks s) @ drop_while_end ?p (dropWhile ?p (chunks s)) @ ds"
    by (metis takeWhile_dropWhile_id)
  then show ?thesis unfolding trim_space_def by (rule chunks_sub)
qed

lemma dropWhile_drop_while_end_id:
  "xs = [] \<or> \<not> p (hd xs) \<Longrightarrow> dropWhile p (drop_while_end p xs) = drop_while_end p xs"
  by (metis append_is_Nil_conv drop_while_end_prefix dropWhile_eq_self_iff hd_append2)

text \<open>Trimming twice is trimming once.\<close>

lemma trim_space_idem [simp]: "trim_space (trim_space s) = trim_space s"
proof -
  let ?p = "\<lambda>c::nat \<times> string. is_space_rune (fst c)"
  let ?t = "dropWhile ?p (chunks s)"
  have hd: "?t = [] \<or> \<not> ?p (hd ?t)" using hd_dropWhile by blast
  have "dropWhile ?p (drop_while_end ?p ?t) = drop_while_end ?p ?t"
    by (rule dropWhile_drop_while_end_id) (rule hd)
  moreover have "drop_while_end ?p (drop_while_end ?p ?t) = drop_while_end ?p ?t"
    by (rule drop_while_end_id) (use last_drop_while_end in blast)
  moreover have "trim_space (trim_space s)
      = unchunk (drop_while_end ?p (dropWhile ?p (drop_while_end ?p ?t)))"
    by (simp only: trim_space_def [of "trim_space s"] chunks_trim_space)
  ultimately show ?thesis by (simp only: trim_space_def [of s])
qed

end
