(* ===== verification/Domain.thy ===== *)
theory Domain
  imports GoText
begin

text \<open>
  The shared data of \<open>internal/domain/domain.go\<close>: enumerations, rows and the predicates on
  them. A Go string enumeration has one constructor per constant and one for any other
  string. An instant is an \<open>int\<close>, the nanoseconds since the Unix epoch in UTC; a \<open>*time.Time\<close>
  is an \<open>option\<close>. Row identifiers and pull-request numbers are \<open>int\<close>.
\<close>

type_synonym instant = int

text \<open>\<open>time.Time{}\<close>: 1 January of year 1, 00:00 UTC.\<close>

definition zero_time :: instant where
  "zero_time = -62135596800 * 1000000000"

definition is_zero :: "instant \<Rightarrow> bool" where
  "is_zero t \<longleftrightarrow> t = zero_time"

subsection \<open>Enumerations\<close>

definition required_status_context :: string where
  "required_status_context = ''thawguard/freeze''"

definition setup_status_context :: string where
  "setup_status_context = ''thawguard/setup''"

datatype commit_status_state =
    CommitStatusSuccess
  | CommitStatusFailure
  | CommitStatusPending
  | CommitStatusError
  | OtherCommitStatus string

datatype enforcement_state =
    EnforcementSetupIncomplete
  | EnforcementReady
  | EnforcementActive
  | EnforcementUnhealthy
  | OtherEnforcement string

fun enforcement_state_valid :: "enforcement_state \<Rightarrow> bool" where
  "enforcement_state_valid EnforcementSetupIncomplete = True"
| "enforcement_state_valid EnforcementReady = True"
| "enforcement_state_valid EnforcementActive = True"
| "enforcement_state_valid EnforcementUnhealthy = True"
| "enforcement_state_valid (OtherEnforcement _) = False"

definition failure_readiness_checks :: string where
  "failure_readiness_checks = ''readiness checks failed''"
definition failure_setup_status_post :: string where
  "failure_setup_status_post = ''controlled setup status post failed''"
definition failure_open_pr_sync :: string where
  "failure_open_pr_sync = ''open pull request synchronization failed''"
definition failure_evaluation :: string where
  "failure_evaluation = ''status decision evaluation failed''"
definition failure_publication :: string where
  "failure_publication = ''status publication failed''"
definition failure_runtime :: string where
  "failure_runtime = ''runtime enforcement convergence failed''"

definition valid_enforcement_failure_reason :: "string \<Rightarrow> bool" where
  "valid_enforcement_failure_reason reason \<longleftrightarrow>
     reason \<in> set [failure_readiness_checks, failure_setup_status_post, failure_open_pr_sync,
       failure_evaluation, failure_publication, failure_runtime]"

definition enforcement_not_active_message :: string where
  "enforcement_not_active_message = ''Repository enforcement is not active. Complete setup and activate enforcement before performing this action.''"

definition branch_not_managed_message :: string where
  "branch_not_managed_message = ''Branch is not managed for this repository. Add it in repository setup before creating a freeze.''"

datatype freeze_status =
    FreezeScheduled
  | FreezeActive
  | FreezeEnded
  | FreezeCancelled
  | OtherFreezeStatus string

fun freeze_status_text :: "freeze_status \<Rightarrow> string" where
  "freeze_status_text FreezeScheduled = ''scheduled''"
| "freeze_status_text FreezeActive = ''active''"
| "freeze_status_text FreezeEnded = ''ended''"
| "freeze_status_text FreezeCancelled = ''cancelled''"
| "freeze_status_text (OtherFreezeStatus s) = s"

datatype schedule_kind = Weekly | Dated | OtherKind string

fun schedule_kind_valid :: "schedule_kind \<Rightarrow> bool" where
  "schedule_kind_valid Weekly = True"
| "schedule_kind_valid Dated = True"
| "schedule_kind_valid (OtherKind _) = False"

fun schedule_kind_text :: "schedule_kind \<Rightarrow> string" where
  "schedule_kind_text Weekly = ''weekly''"
| "schedule_kind_text Dated = ''dated''"
| "schedule_kind_text (OtherKind s) = s"

subsection \<open>Rows\<close>

record repository =
  repo_id :: int
  repo_forge :: string
  repo_base_url :: string
  repo_owner :: string
  repo_name :: string
  repo_default_branch :: string
  repo_has_webhook_secret :: bool
  repo_has_status_token :: bool
  repo_active :: bool
  repo_enforcement :: enforcement_state
  repo_status_post_verified_at :: "instant option"
  repo_failure_reason :: string
  repo_failed_at :: "instant option"
  repo_created_at :: instant
  repo_updated_at :: instant

definition enforcement_active :: "repository \<Rightarrow> bool" where
  "enforcement_active r \<longleftrightarrow> repo_enforcement r = EnforcementActive"

definition repo_full_name :: "repository \<Rightarrow> string" where
  "repo_full_name r =
     (if repo_owner r = [] then repo_name r else repo_owner r @ ''/'' @ repo_name r)"

record repository_branch =
  rb_id :: int
  rb_repository_id :: int
  rb_name :: string
  rb_protected :: bool
  rb_setup_status :: string
  rb_last_checked_at :: "instant option"

record actor =
  actor_user_id :: "int option"
  actor_kind :: string
  actor_role :: string

definition actor_kind_bootstrap_admin :: string where
  "actor_kind_bootstrap_admin = ''bootstrap_admin''"
definition actor_kind_user :: string where
  "actor_kind_user = ''user''"
definition actor_kind_system :: string where
  "actor_kind_system = ''system''"

record pull_request =
  pr_id :: int
  pr_repository_id :: int
  pr_index :: int
  pr_title :: string
  pr_state :: string
  pr_target_branch :: string
  pr_head_sha :: string
  pr_url :: string

definition pr_is_open :: "pull_request \<Rightarrow> bool" where
  "pr_is_open pr \<longleftrightarrow> pr_state pr = ''open'' \<or> pr_state pr = []"

record branch_freeze =
  fr_id :: int
  fr_repository_id :: int
  fr_branch :: string
  fr_status :: freeze_status
  fr_active :: bool
  fr_scheduled :: bool
  fr_needs_recompute :: bool
  fr_reason :: string
  fr_starts_at :: "instant option"
  fr_ends_at :: "instant option"
  fr_planned_ends_at :: "instant option"
  fr_schedule_id :: "int option"
  fr_schedule_name :: string
  fr_created_by :: "int option"
  fr_created_by_kind :: string
  fr_created_at :: instant
  fr_updated_at :: instant

record schedule =
  sc_id :: int
  sc_repository_id :: int
  sc_branch :: string
  sc_name :: string
  sc_kind :: schedule_kind
  sc_timezone :: string
  sc_reason :: string
  sc_active :: bool
  sc_suppressed_until :: "instant option"
  sc_created_by :: "int option"
  sc_created_by_kind :: string
  sc_created_at :: instant
  sc_updated_at :: instant

text \<open>Weekdays are numbered as \<open>time.Weekday\<close>: Sunday is 0.\<close>

record weekly_rule =
  wr_id :: int
  wr_schedule_id :: int
  wr_start_weekday :: int
  wr_start_time :: string
  wr_end_weekday :: int
  wr_end_time :: string
  wr_created_at :: instant

record dated_window =
  dw_id :: int
  dw_schedule_id :: int
  dw_name :: string
  dw_starts_at :: string
  dw_ends_at :: string
  dw_created_at :: instant

record thaw_exception =
  th_id :: int
  th_repository_id :: int
  th_pull_request_id :: int
  th_pull_request_index :: int
  th_pull_request_url :: string
  th_head_sha :: string
  th_target_branch :: string
  th_status :: string
  th_active :: bool
  th_reason :: string
  th_expires_at :: "instant option"
  th_created_at :: instant
  th_updated_at :: instant

definition thaw_is_active :: "thaw_exception \<Rightarrow> instant \<Rightarrow> bool" where
  "thaw_is_active t now \<longleftrightarrow> th_active t \<and> opt_all (\<lambda>e. now < e) (th_expires_at t)"

end
