(* ===== verification/Policy.thy ===== *)
theory Policy
  imports Domain
begin

text \<open>
  The policy evaluator (\<open>internal/policy\<close>): \<open>description.go\<close> renders the commit-status text
  of a frozen branch, \<open>evaluator.go\<close> decides the state of one pull request. A slice
  expression out of range panics in Go; here it is \<open>None\<close>, and C1 shows it never happens.
\<close>

subsection \<open>Descriptions\<close>

definition freeze_description_max_length :: int where
  "freeze_description_max_length = 255"

definition manual_freeze_description :: string where
  "manual_freeze_description = ''Branch is frozen; merge is blocked by Thawguard''"

definition scheduled_freeze_description :: string where
  "scheduled_freeze_description = ''Frozen by Thawguard scheduler''"

text \<open>U+2026, HORIZONTAL ELLIPSIS.\<close>

definition description_ellipsis :: string where
  "description_ellipsis = encode_rune 8230"

definition minimum_reason_runes :: int where
  "minimum_reason_runes = 8"

record freeze_description_input =
  fdi_schedule_name :: string
  fdi_reason :: string

definition collapse_description_whitespace :: "string \<Rightarrow> string" where
  "collapse_description_whitespace value = join_with '' '' (string_fields value)"

definition truncate_runes :: "string \<Rightarrow> int \<Rightarrow> string option" where
  "truncate_runes s mx =
     (if int (rune_count s) \<le> mx then Some s
      else if mx - 1 < 0 then None
      else Some (trim_right_space (encode_runes (take (nat (mx - 1)) (runes s)))
             @ description_ellipsis))"

definition build_scheduled_lead :: "string \<Rightarrow> string option" where
  "build_scheduled_lead name =
     (let prefix = scheduled_freeze_description @ ''; Scheduled (''; suffix = '')'';
          budget = freeze_description_max_length - int (rune_count prefix) - int (length suffix) in
      if budget < minimum_reason_runes then Some scheduled_freeze_description
      else map_option (\<lambda>t. prefix @ t @ suffix) (truncate_runes name budget))"

definition build_freeze_description :: "freeze_description_input \<Rightarrow> string option" where
  "build_freeze_description inp =
     (let name = collapse_description_whitespace (fdi_schedule_name inp);
          reason = collapse_description_whitespace (fdi_reason inp) in
      case (if name \<noteq> [] then build_scheduled_lead name else Some manual_freeze_description) of
        None \<Rightarrow> None
      | Some lead \<Rightarrow>
          if reason = [] then Some lead
          else
            (let separator = '': '';
                 budget = freeze_description_max_length - int (rune_count lead)
                   - int (length separator) in
             if budget < minimum_reason_runes then Some lead
             else map_option (\<lambda>t. lead @ separator @ t) (truncate_runes reason budget)))"

subsection \<open>Decisions\<close>

record decision =
  de_state :: commit_status_state
  de_context :: string
  de_description :: string
  de_reason :: string

definition success :: "string \<Rightarrow> string \<Rightarrow> decision" where
  "success description reason = \<lparr>de_state = CommitStatusSuccess,
     de_context = required_status_context, de_description = description, de_reason = reason\<rparr>"

definition failure :: "string \<Rightarrow> string \<Rightarrow> decision" where
  "failure description reason = \<lparr>de_state = CommitStatusFailure,
     de_context = required_status_context, de_description = description, de_reason = reason\<rparr>"

record policy_input =
  pi_pull_request :: pull_request
  pi_active_freeze :: "branch_freeze option"
  pi_thaw_exception :: "thaw_exception option"
  pi_open_pull_requests :: "pull_request list"
  pi_shared_head_approved :: bool
  pi_now :: instant

definition thaw_matches_pull_request :: "thaw_exception \<Rightarrow> pull_request \<Rightarrow> bool" where
  "thaw_matches_pull_request thaw pr =
     (if th_head_sha thaw \<noteq> pr_head_sha pr then False
      else if th_pull_request_id thaw > 0 \<and> pr_id pr > 0
        then th_pull_request_id thaw = pr_id pr
      else th_repository_id thaw = pr_repository_id pr
        \<and> th_pull_request_index thaw = pr_index pr
        \<and> th_target_branch thaw = pr_target_branch pr)"

fun duplicate_open_head :: "pull_request \<Rightarrow> pull_request list \<Rightarrow> pull_request option" where
  "duplicate_open_head pr [] = None"
| "duplicate_open_head pr (other # rest) =
     (if pr_repository_id other = pr_repository_id pr \<and> pr_index other = pr_index pr
        then duplicate_open_head pr rest
      else if \<not> pr_is_open other then duplicate_open_head pr rest
      else if pr_repository_id other = pr_repository_id pr \<and> pr_head_sha other = pr_head_sha pr
        then Some other
      else duplicate_open_head pr rest)"

text \<open>The clock is read when the input carries no time; \<open>clock\<close> is that reading.\<close>

definition evaluate_policy :: "instant \<Rightarrow> policy_input \<Rightarrow> decision option" where
  "evaluate_policy clock inp =
     (let now = (if is_zero (pi_now inp) then clock else pi_now inp);
          pr = pi_pull_request inp in
      if pr_head_sha pr = []
        then Some (failure ''PR head SHA is missing'' ''missing_head_sha'')
      else
        (case pi_active_freeze inp of
           None \<Rightarrow> Some (success ''No active freeze applies to this PR'' ''not_frozen'')
         | Some fr \<Rightarrow>
             if \<not> fr_active fr \<or> fr_branch fr \<noteq> pr_target_branch pr
               then Some (success ''No active freeze applies to this PR'' ''not_frozen'')
             else
               (let blocked = map_option (\<lambda>d. failure d ''active_freeze'')
                      (build_freeze_description \<lparr>fdi_schedule_name = fr_schedule_name fr,
                         fdi_reason = fr_reason fr\<rparr>) in
                case pi_thaw_exception inp of
                  None \<Rightarrow> blocked
                | Some thaw \<Rightarrow>
                    if thaw_matches_pull_request thaw pr \<and> thaw_is_active thaw now then
                      (if duplicate_open_head pr (pi_open_pull_requests inp) \<noteq> None
                           \<and> \<not> pi_shared_head_approved inp
                       then Some (failure
                         ''Thaw blocked because another open PR shares this head SHA''
                         ''duplicate_head_sha'')
                       else Some (success ''PR is explicitly thawed during an active freeze''
                         ''thawed_exception''))
                    else blocked)))"

subsection \<open>The length bound\<close>

lemma space_iff: "c = CHR '' '' \<longleftrightarrow> byte_of c = (32::nat)"
proof -
  have "byte_of c = byte_of (CHR '' '') \<longleftrightarrow> c = CHR '' ''"
    by (rule of_char_eq_iff)
  moreover have "byte_of (CHR '' '') = (32::nat)" by simp
  ultimately show ?thesis by metis
qed

lemma last_encode_rune:
  assumes "valid_rune r"
  shows "last (encode_rune r) = CHR '' '' \<longleftrightarrow> r = 32"
  using assms mod64_le [of r] unfolding space_iff by (simp add: encode_rune_def)

lemma trim_right_space_encode:
  "\<forall>r \<in> set rs. valid_rune r \<Longrightarrow>
     trim_right_space (encode_runes rs) = encode_runes (drop_while_end (\<lambda>r. r = 32) rs)"
proof (induction rs rule: rev_induct)
  case Nil
  then show ?case by (simp add: trim_right_space_def)
next
  case (snoc r rs)
  then have v: "valid_rune r" by simp
  show ?case
  proof (cases "r = 32")
    case True
    then have "encode_runes (rs @ [r]) = encode_runes rs @ [CHR '' '']"
      using space_iff [of "char_of (32::nat)"] by (simp add: encode_rune_def)
    with snoc True show ?thesis by (simp add: trim_right_space_def)
  next
    case False
    then have "last (encode_runes (rs @ [r])) \<noteq> CHR '' ''"
      using last_encode_rune [OF v] by simp
    then have "trim_right_space (encode_runes (rs @ [r])) = encode_runes (rs @ [r])"
      unfolding trim_right_space_def by (intro drop_while_end_id disjI2)
    with False show ?thesis by simp
  qed
qed

lemma ellipsis_valid: "valid_rune 8230"
  by (simp add: valid_rune_def)

lemma rune_count_ellipsis [simp]: "rune_count description_ellipsis = 1"
  using rune_count_encode_append [of "[8230]" "[]"]
  by (simp add: description_ellipsis_def ellipsis_valid)

lemma truncate_runes_bound:
  assumes "1 \<le> mx"
  shows "\<exists>t. truncate_runes s mx = Some t \<and> int (rune_count t) \<le> mx"
proof (cases "int (rune_count s) \<le> mx")
  case True
  then show ?thesis by (simp add: truncate_runes_def)
next
  case False
  let ?k = "take (nat (mx - 1)) (runes s)"
  let ?r = "drop_while_end (\<lambda>r. r = 32) ?k"
  have v: "\<forall>r \<in> set ?k. valid_rune r" using valid_runes by (meson in_set_takeD)
  then have v': "\<forall>r \<in> set ?r. valid_rune r" using set_drop_while_end by fast
  have "rune_count (trim_right_space (encode_runes ?k) @ description_ellipsis) = length ?r + 1"
    using v v' by (simp add: trim_right_space_encode rune_count_encode_append)
  moreover have "length ?r \<le> length ?k" by (rule length_drop_while_end)
  moreover have "length ?k \<le> nat (mx - 1)" by simp
  ultimately have "int (rune_count (trim_right_space (encode_runes ?k) @ description_ellipsis)) \<le> mx"
    using assms by linarith
  then show ?thesis using False assms by (simp add: truncate_runes_def)
qed

lemma truncate_runes_nonempty:
  "truncate_runes s mx = Some t \<Longrightarrow> s \<noteq> [] \<Longrightarrow> t \<noteq> []"
  by (auto simp: truncate_runes_def description_ellipsis_def split: if_splits)

lemma truncate_runes_short: "int (rune_count s) \<le> mx \<Longrightarrow> truncate_runes s mx = Some s"
  by (simp add: truncate_runes_def)

abbreviation scheduled_prefix :: string where
  "scheduled_prefix \<equiv> scheduled_freeze_description @ ''; Scheduled (''"

lemma scheduled_prefix_ascii: "is_ascii scheduled_prefix"
  by (simp add: is_ascii_def scheduled_freeze_description_def)

lemma rune_count_scheduled_prefix [simp]: "rune_count scheduled_prefix = 42"
  using rune_count_is_ascii [OF scheduled_prefix_ascii]
  by (simp add: scheduled_freeze_description_def)

lemma manual_description_ascii: "is_ascii manual_freeze_description"
  by (simp add: is_ascii_def manual_freeze_description_def)

lemma rune_count_manual [simp]: "rune_count manual_freeze_description = 47"
  using rune_count_is_ascii [OF manual_description_ascii]
  by (simp add: manual_freeze_description_def)

lemma build_scheduled_lead_eq:
  "build_scheduled_lead name
     = map_option (\<lambda>t. scheduled_prefix @ t @ '')'') (truncate_runes name 212)"
  unfolding build_scheduled_lead_def Let_def rune_count_scheduled_prefix
  by (simp add: freeze_description_max_length_def minimum_reason_runes_def)

lemma rune_count_scheduled_lead:
  "rune_count (scheduled_prefix @ t @ '')'') = 43 + rune_count t"
proof -
  have "rune_count (t @ '')'') = rune_count t + 1"
    using rune_count_append_ascii [of "CHR '')''" t "[]"] by simp
  then show ?thesis
    using rune_count_ascii_append [OF scheduled_prefix_ascii, of "t @ '')''"]
      rune_count_is_ascii [OF scheduled_prefix_ascii] rune_count_scheduled_prefix
    by simp
qed

lemma rune_count_separator:
  "rune_count (lead @ '': '' @ t) = rune_count lead + 2 + rune_count t"
  using rune_count_append_ascii [of "CHR '':''" lead "CHR '' '' # t"]
    rune_count_ascii [of "CHR '' ''" t] by simp

text \<open>The attribution: the part of the description that names who froze the branch.\<close>

definition attribution :: "string \<Rightarrow> string option" where
  "attribution schedule_name =
     (let name = collapse_description_whitespace schedule_name in
      if name = [] then Some manual_freeze_description else build_scheduled_lead name)"

lemma attribution_bound:
  "\<exists>lead. attribution n = Some lead \<and> lead \<noteq> [] \<and> rune_count lead \<le> 255"
proof (cases "collapse_description_whitespace n = []")
  case True
  then show ?thesis
    by (simp add: attribution_def) (simp add: manual_freeze_description_def)
next
  case False
  obtain t where t: "truncate_runes (collapse_description_whitespace n) 212 = Some t"
    "int (rune_count t) \<le> 212" using truncate_runes_bound [of 212] by auto
  then have "rune_count (scheduled_prefix @ t @ '')'') \<le> 255"
    unfolding rune_count_scheduled_lead by simp
  with t False show ?thesis by (simp add: attribution_def build_scheduled_lead_eq)
qed

lemma build_freeze_description_cases:
  assumes "attribution (fdi_schedule_name i) = Some lead"
  shows "build_freeze_description i = Some lead
    \<or> (\<exists>t. build_freeze_description i = Some (lead @ '': '' @ t)
         \<and> collapse_description_whitespace (fdi_reason i) \<noteq> []
         \<and> int (rune_count t) \<le> 253 - int (rune_count lead)
         \<and> truncate_runes (collapse_description_whitespace (fdi_reason i))
              (253 - int (rune_count lead)) = Some t)"
proof -
  let ?b = "253 - int (rune_count lead)"
  let ?r = "collapse_description_whitespace (fdi_reason i)"
  have eq: "build_freeze_description i =
      (if ?r = [] then Some lead else if ?b < 8 then Some lead
       else map_option (\<lambda>t. lead @ '': '' @ t) (truncate_runes ?r ?b))"
    using assms by (simp add: build_freeze_description_def attribution_def Let_def
        freeze_description_max_length_def minimum_reason_runes_def split: if_splits)
  show ?thesis
  proof (cases "?r = [] \<or> ?b < 8")
    case True
    then show ?thesis by (auto simp: eq)
  next
    case False
    then obtain t where "truncate_runes ?r ?b = Some t" "int (rune_count t) \<le> ?b"
      using truncate_runes_bound [of ?b ?r] by auto
    with False show ?thesis by (simp add: eq)
  qed
qed

subsection \<open>One line\<close>

text \<open>A text that renders on one line: its only white space is the ASCII space.\<close>

definition single_line :: "string \<Rightarrow> bool" where
  "single_line s \<longleftrightarrow> (\<forall>r \<in> set (runes s). is_space_rune r \<longrightarrow> r = 32)"

lemma runes_append_ascii:
  "byte_of c < (128::nat) \<Longrightarrow> runes (a @ c # b) = runes a @ byte_of c # runes b"
  by (simp add: runes_def chunks_append_ascii)

lemma runes_ascii_append: "is_ascii a \<Longrightarrow> runes (a @ s) = map byte_of a @ runes s"
  by (simp add: runes_def chunks_ascii_append comp_def)

lemma split_fields_no_space:
  assumes "chunks s = pre @ acc @ cs" and "\<forall>c \<in> set acc. \<not> is_space_rune (fst c)"
    and "f \<in> set (split_fields (unchunk acc) cs)" and "r \<in> set (runes f)"
  shows "\<not> is_space_rune r"
  using assms
proof (induction cs arbitrary: pre acc)
  case Nil
  from Nil.prems(1) have "chunks (unchunk acc) = acc" by (intro chunks_sub [of s pre acc "[]"]) simp
  with Nil.prems show ?case by (auto simp: runes_def split: if_splits)
next
  case (Cons c cs)
  obtain q b where c: "c = (q, b)" by (cases c)
  from Cons.prems(1) have acc: "chunks (unchunk acc) = acc" by (rule chunks_sub)
  show ?case
  proof (cases "is_space_rune q")
    case True
    from Cons.prems(3) c True have "f = unchunk acc \<or> f \<in> set (split_fields (unchunk []) cs)"
      by (auto split: if_splits)
    then show ?thesis
    proof
      assume "f = unchunk acc"
      with Cons.prems(2,4) acc show ?thesis by (auto simp: runes_def)
    next
      assume "f \<in> set (split_fields (unchunk []) cs)"
      then show ?thesis
        by (rule Cons.IH [of "pre @ acc @ [c]" "[]", rotated 2]) (simp_all add: Cons.prems)
    qed
  next
    case False
    with c Cons.prems(3) have "f \<in> set (split_fields (unchunk (acc @ [c])) cs)" by simp
    then show ?thesis
      by (rule Cons.IH [of pre "acc @ [c]", rotated 2]) (use Cons.prems c False in auto)
  qed
qed

lemma string_fields_no_space:
  "f \<in> set (string_fields s) \<Longrightarrow> r \<in> set (runes f) \<Longrightarrow> \<not> is_space_rune r"
  using split_fields_no_space [of s "[]" "[]" "chunks s"] by (simp add: string_fields_def)

lemma runes_join_space:
  "r \<in> set (runes (join_with '' '' fs)) \<Longrightarrow> r = 32 \<or> (\<exists>f \<in> set fs. r \<in> set (runes f))"
  by (induction "'' ''" fs rule: join_with.induct) (auto simp: runes_append_ascii)

lemma single_line_collapse: "single_line (collapse_description_whitespace s)"
  unfolding single_line_def collapse_description_whitespace_def
  using runes_join_space string_fields_no_space by blast

lemma single_line_ascii_append:
  "is_ascii a \<Longrightarrow> \<forall>c \<in> set a. is_space_rune (byte_of c) \<longrightarrow> c = CHR '' '' \<Longrightarrow>
     single_line (a @ s) \<longleftrightarrow> single_line s"
  by (auto simp: single_line_def runes_ascii_append)

lemma single_line_append_ascii:
  "byte_of c < (128::nat) \<Longrightarrow>
     single_line (a @ c # b) \<longleftrightarrow> single_line a \<and> (is_space_rune (byte_of c) \<longrightarrow> byte_of c = (32::nat))
       \<and> single_line b"
  by (auto simp: single_line_def runes_append_ascii)

lemma single_line_truncate:
  assumes "truncate_runes s mx = Some t" and "single_line s"
  shows "single_line t"
proof (cases "int (rune_count s) \<le> mx")
  case True
  with assms show ?thesis by (simp add: truncate_runes_def)
next
  case False
  let ?k = "take (nat (mx - 1)) (runes s)"
  let ?r = "drop_while_end (\<lambda>r. r = 32) ?k"
  have v: "\<forall>r \<in> set ?k. valid_rune r" using valid_runes by (meson in_set_takeD)
  have sub: "set ?r \<subseteq> set (runes s)" using set_drop_while_end set_take_subset by fast
  have v': "\<forall>r \<in> set ?r. valid_rune r" using v set_drop_while_end by fast
  from False assms have "t = encode_runes ?r @ description_ellipsis"
    by (simp add: truncate_runes_def trim_right_space_encode [OF v] split: if_splits)
  then have "runes t = ?r @ runes description_ellipsis"
    using v' by (simp add: runes_encode_append)
  moreover have "runes description_ellipsis = [8230]"
    using runes_encode_runes [of "[8230]"] by (simp add: description_ellipsis_def ellipsis_valid)
  moreover have "\<not> is_space_rune 8230" by (simp add: is_space_rune_def)
  ultimately show ?thesis using assms(2) sub by (auto simp: single_line_def)
qed

lemma single_line_Nil [simp]: "single_line []"
  by (simp add: single_line_def)

lemma single_line_lead: "single_line (scheduled_prefix @ t) \<longleftrightarrow> single_line t"
  by (rule single_line_ascii_append [OF scheduled_prefix_ascii])
    (simp add: scheduled_freeze_description_def is_space_rune_def)

lemma single_line_manual: "single_line manual_freeze_description"
  using single_line_ascii_append [OF manual_description_ascii, of "[]"]
  by (simp add: manual_freeze_description_def is_space_rune_def)

lemma single_line_attribution:
  assumes "attribution n = Some lead"
  shows "single_line lead"
proof (cases "collapse_description_whitespace n = []")
  case True
  with assms show ?thesis by (simp add: attribution_def single_line_manual)
next
  case False
  with assms obtain t where "lead = scheduled_prefix @ t @ '')''"
    and t: "truncate_runes (collapse_description_whitespace n) 212 = Some t"
    by (auto simp: attribution_def build_scheduled_lead_eq)
  then have "single_line lead \<longleftrightarrow> single_line (t @ '')'')"
    using single_line_lead [of "t @ '')''"] by simp
  with single_line_truncate [OF t single_line_collapse] show ?thesis
    by (simp add: single_line_append_ascii is_space_rune_def)
qed

lemma build_freeze_description_total:
  "\<exists>d. build_freeze_description i = Some d \<and> d \<noteq> [] \<and> rune_count d \<le> 255"
proof -
  obtain lead where l: "attribution (fdi_schedule_name i) = Some lead" "lead \<noteq> []"
    "rune_count lead \<le> 255" using attribution_bound by blast
  from build_freeze_description_cases [OF l(1)] show ?thesis
    using l rune_count_separator [of lead] by (elim disjE exE conjE) auto
qed

subsection \<open>The description a commit status carries\<close>

text \<open>
  C38: A freeze description is always built (no slice expression panics), is not empty and has
  at most 255 runes, whatever the schedule name and the reason are.
\<close>

theorem build_freeze_description_bounded:
  "\<exists>d. build_freeze_description i = Some d \<and> d \<noteq> [] \<and> rune_count d \<le> 255"
  by (rule build_freeze_description_total)


text \<open>
  A freeze description always begins with the whole attribution (who froze the branch);
  it is the attribution alone when the reason is blank, and otherwise anything more is the
  separator and a text cut from the reason.
\<close>

theorem build_freeze_description_attribution:
  "\<exists>lead rest. attribution (fdi_schedule_name i) = Some lead
     \<and> build_freeze_description i = Some (lead @ rest)
     \<and> rest \<in> (if collapse_description_whitespace (fdi_reason i) = [] then {[]}
               else {[]} \<union> {'': '' @ t | t. truncate_runes
                      (collapse_description_whitespace (fdi_reason i))
                      (253 - int (rune_count lead)) = Some t})"
proof -
  obtain lead where l: "attribution (fdi_schedule_name i) = Some lead"
    using attribution_bound by blast
  from build_freeze_description_cases [OF l] l show ?thesis
    by (auto simp: build_freeze_description_def attribution_def)
qed

text \<open>
  A freeze description renders on one line: every white-space rune in it is a plain space,
  even when the schedule name or the reason contain newlines or tabs.
\<close>

theorem build_freeze_description_single_line:
  "\<exists>d. build_freeze_description i = Some d \<and> single_line d"
proof -
  obtain lead where l: "attribution (fdi_schedule_name i) = Some lead"
    using attribution_bound by blast
  note line = single_line_attribution [OF l]
  from build_freeze_description_cases [OF l] show ?thesis
  proof (elim disjE exE conjE)
    fix t
    assume "build_freeze_description i = Some (lead @ '': '' @ t)"
      and t: "truncate_runes (collapse_description_whitespace (fdi_reason i))
                (253 - int (rune_count lead)) = Some t"
    moreover have "single_line (lead @ '': '' @ t)"
      using line single_line_truncate [OF t single_line_collapse]
        single_line_append_ascii [of "CHR '':''" lead "CHR '' '' # t"]
        single_line_append_ascii [of "CHR '' ''" "[]" t] by (simp add: is_space_rune_def)
    ultimately show ?thesis by blast
  qed (use line in blast)
qed

subsection \<open>The decision\<close>

definition frozen :: "policy_input \<Rightarrow> bool" where
  "frozen inp \<longleftrightarrow> opt_ex (\<lambda>fr. fr_active fr
     \<and> fr_branch fr = pr_target_branch (pi_pull_request inp)) (pi_active_freeze inp)"

definition effective_now :: "instant \<Rightarrow> policy_input \<Rightarrow> instant" where
  "effective_now clock inp = (if is_zero (pi_now inp) then clock else pi_now inp)"

text \<open>The exception in force, if any, names this head commit and this pull request.\<close>

definition thaw_in_force :: "instant \<Rightarrow> policy_input \<Rightarrow> bool" where
  "thaw_in_force clock inp \<longleftrightarrow> opt_ex (\<lambda>thaw. thaw_matches_pull_request thaw (pi_pull_request inp)
     \<and> thaw_is_active thaw (effective_now clock inp)) (pi_thaw_exception inp)"

definition shares_open_head :: "policy_input \<Rightarrow> bool" where
  "shares_open_head inp \<longleftrightarrow> (\<exists>other \<in> set (pi_open_pull_requests inp).
     pr_repository_id other = pr_repository_id (pi_pull_request inp)
     \<and> pr_index other \<noteq> pr_index (pi_pull_request inp)
     \<and> pr_is_open other \<and> pr_head_sha other = pr_head_sha (pi_pull_request inp))"

lemma duplicate_open_head_None:
  "duplicate_open_head (pi_pull_request inp) (pi_open_pull_requests inp) = None
     \<longleftrightarrow> \<not> shares_open_head inp"
proof -
  have "duplicate_open_head pr prs = None \<longleftrightarrow> \<not> (\<exists>other \<in> set prs.
     pr_repository_id other = pr_repository_id pr \<and> pr_index other \<noteq> pr_index pr
     \<and> pr_is_open other \<and> pr_head_sha other = pr_head_sha pr)" for pr prs
    by (induction pr prs rule: duplicate_open_head.induct) auto
  then show ?thesis by (simp add: shares_open_head_def)
qed

lemma evaluate_policy_spec:
  assumes "build_freeze_description \<lparr>fdi_schedule_name = n, fdi_reason = r\<rparr> = Some d"
    and "opt_all (\<lambda>fr. fr_schedule_name fr = n \<and> fr_reason fr = r) (pi_active_freeze inp)"
  shows "evaluate_policy clock inp = Some
    (if pr_head_sha (pi_pull_request inp) = [] then failure ''PR head SHA is missing'' ''missing_head_sha''
     else if \<not> frozen inp then success ''No active freeze applies to this PR'' ''not_frozen''
     else if \<not> thaw_in_force clock inp then failure d ''active_freeze''
     else if shares_open_head inp \<and> \<not> pi_shared_head_approved inp
       then failure ''Thaw blocked because another open PR shares this head SHA'' ''duplicate_head_sha''
     else success ''PR is explicitly thawed during an active freeze'' ''thawed_exception'')"
  using assms
  by (cases "pi_active_freeze inp"; cases "pi_thaw_exception inp")
    (simp_all add: evaluate_policy_def Let_def duplicate_open_head_None frozen_def thaw_in_force_def
      effective_now_def)

lemma evaluate_policy_cases:
  obtains d where "evaluate_policy clock inp = Some
    (if pr_head_sha (pi_pull_request inp) = [] then failure ''PR head SHA is missing'' ''missing_head_sha''
     else if \<not> frozen inp then success ''No active freeze applies to this PR'' ''not_frozen''
     else if \<not> thaw_in_force clock inp then failure d ''active_freeze''
     else if shares_open_head inp \<and> \<not> pi_shared_head_approved inp
       then failure ''Thaw blocked because another open PR shares this head SHA'' ''duplicate_head_sha''
     else success ''PR is explicitly thawed during an active freeze'' ''thawed_exception'')"
    and "rune_count d \<le> 255"
proof (cases "pi_active_freeze inp")
  case None
  obtain d where d: "build_freeze_description \<lparr>fdi_schedule_name = [], fdi_reason = []\<rparr> = Some d"
    "rune_count d \<le> 255" using build_freeze_description_total by blast
  have "opt_all (\<lambda>fr. fr_schedule_name fr = [] \<and> fr_reason fr = []) (pi_active_freeze inp)"
    using None by simp
  from that [OF evaluate_policy_spec [OF d(1) this] d(2)] show ?thesis .
next
  case (Some fr)
  obtain d where d: "build_freeze_description
      \<lparr>fdi_schedule_name = fr_schedule_name fr, fdi_reason = fr_reason fr\<rparr> = Some d"
    "rune_count d \<le> 255" using build_freeze_description_total by blast
  have "opt_all (\<lambda>f. fr_schedule_name f = fr_schedule_name fr \<and> fr_reason f = fr_reason fr)
      (pi_active_freeze inp)"
    using Some by simp
  from that [OF evaluate_policy_spec [OF d(1) this] d(2)] show ?thesis .
qed

text \<open>
  C2: The evaluator's decision table. It never panics; it always reports under the required
  context, as success or failure only, with a description of at most 255 runes; and success is
  reported exactly when the head commit is known and the branch is not frozen, or it is frozen
  and an exception in force names this very head commit, with no other open pull request of the
  repository on the same commit unless the shared head was approved.
\<close>

theorem evaluate_policy_decides:
  "\<exists>d. evaluate_policy clock inp = Some d
     \<and> de_context d = required_status_context
     \<and> de_state d = (if pr_head_sha (pi_pull_request inp) \<noteq> []
          \<and> (if \<not> frozen inp then True else thaw_in_force clock inp
               \<and> (if shares_open_head inp then pi_shared_head_approved inp else True))
        then CommitStatusSuccess else CommitStatusFailure)
     \<and> rune_count (de_description d) \<le> 255"
proof -
  obtain d where d: "rune_count d \<le> 255" and e: "evaluate_policy clock inp = Some
    (if pr_head_sha (pi_pull_request inp) = [] then failure ''PR head SHA is missing'' ''missing_head_sha''
     else if \<not> frozen inp then success ''No active freeze applies to this PR'' ''not_frozen''
     else if \<not> thaw_in_force clock inp then failure d ''active_freeze''
     else if shares_open_head inp \<and> \<not> pi_shared_head_approved inp
       then failure ''Thaw blocked because another open PR shares this head SHA'' ''duplicate_head_sha''
     else success ''PR is explicitly thawed during an active freeze'' ''thawed_exception'')"
    by (rule evaluate_policy_cases)
  have texts: "rune_count ''PR head SHA is missing'' \<le> 255"
    "rune_count ''No active freeze applies to this PR'' \<le> 255"
    "rune_count ''Thaw blocked because another open PR shares this head SHA'' \<le> 255"
    "rune_count ''PR is explicitly thawed during an active freeze'' \<le> 255"
    by (rule order_trans [OF rune_count_le], simp)+
  show ?thesis unfolding e by (use d texts in \<open>simp add: success_def failure_def\<close>)
qed

definition sample_pull_request :: pull_request where
  "sample_pull_request = \<lparr>pr_id = 7, pr_repository_id = 1, pr_index = 12, pr_title = ''Fix'',
     pr_state = ''open'', pr_target_branch = ''main'', pr_head_sha = ''abc123'', pr_url = []\<rparr>"

definition sample_freeze :: branch_freeze where
  "sample_freeze = \<lparr>fr_id = 3, fr_repository_id = 1, fr_branch = ''main'',
     fr_status = FreezeActive, fr_active = True, fr_scheduled = False, fr_needs_recompute = False,
     fr_reason = ''release'', fr_starts_at = None, fr_ends_at = None, fr_planned_ends_at = None,
     fr_schedule_id = None, fr_schedule_name = [], fr_created_by = None, fr_created_by_kind = [],
     fr_created_at = 0, fr_updated_at = 0\<rparr>"

definition sample_thaw :: thaw_exception where
  "sample_thaw = \<lparr>th_id = 5, th_repository_id = 1, th_pull_request_id = 7,
     th_pull_request_index = 12, th_pull_request_url = [], th_head_sha = ''abc123'',
     th_target_branch = ''main'', th_status = ''active'', th_active = True, th_reason = ''hotfix'',
     th_expires_at = Some 100, th_created_at = 0, th_updated_at = 0\<rparr>"

definition sample_input :: policy_input where
  "sample_input = \<lparr>pi_pull_request = sample_pull_request, pi_active_freeze = Some sample_freeze,
     pi_thaw_exception = Some sample_thaw, pi_open_pull_requests = [sample_pull_request],
     pi_shared_head_approved = False, pi_now = 50\<rparr>"

lemmas sample_defs = sample_pull_request_def sample_freeze_def sample_thaw_def sample_input_def

text \<open>
  C28: A thaw is bound to one commit: on a frozen branch, an exception that names another head
  commit never lets the pull request through, however it is dated.
\<close>

theorem stale_thaw_blocks:
  assumes "frozen inp"
    and "opt_all (\<lambda>thaw. th_head_sha thaw \<noteq> pr_head_sha (pi_pull_request inp)) (pi_thaw_exception inp)"
  shows "\<exists>d. evaluate_policy clock inp = Some d \<and> de_state d = CommitStatusFailure"
proof -
  have "\<not> thaw_in_force clock inp"
    using assms(2) by (auto simp: thaw_in_force_def thaw_matches_pull_request_def opt_ex_iff)
  with assms(1) show ?thesis
    by (rule_tac evaluate_policy_cases [of clock inp]) (simp add: failure_def split: if_splits)
qed

lemma stale_thaw_blocks_witness:
  "\<exists>d. evaluate_policy 0 (sample_input
     \<lparr>pi_pull_request := sample_pull_request \<lparr>pr_head_sha := ''def456''\<rparr>\<rparr>) = Some d
       \<and> de_state d = CommitStatusFailure"
  by (rule stale_thaw_blocks) (simp_all add: frozen_def sample_defs)

end
