(* ===== verification/GoTime.thy ===== *)
theory GoTime
  imports Domain
begin

text \<open>
  The part of Go's \<open>time\<close> package the program computes with: the proleptic Gregorian calendar,
  \<open>time.Date\<close>, \<open>AddDate\<close>, \<open>Weekday\<close> and the wall clock of an instant in a location. A
  location is what its time-zone data says: the offset from UTC, in seconds, at every Unix
  second. The zone database itself is not part of the program and stays a parameter.
\<close>

type_synonym zone = "int \<Rightarrow> int"
type_synonym date = "int \<times> int \<times> int"

definition nanos :: int where
  "nanos = 1000000000"

abbreviation minute_ns :: int where "minute_ns \<equiv> 60000000000"
abbreviation hour_ns :: int where "hour_ns \<equiv> 3600000000000"

definition utc :: zone where
  "utc s = 0"

subsection \<open>The calendar\<close>

definition is_leap :: "int \<Rightarrow> bool" where
  "is_leap y \<longleftrightarrow> y mod 4 = 0 \<and> (y mod 100 \<noteq> 0 \<or> y mod 400 = 0)"

text \<open>Days from 1 January of year 1 to 1 January of year \<open>y\<close>.\<close>

definition days_before_year :: "int \<Rightarrow> int" where
  "days_before_year y = 365 * (y - 1) + (y - 1) div 4 - (y - 1) div 100 + (y - 1) div 400"

text \<open>Days from 1 January to the first of month \<open>m\<close>, which is 1 to 12.\<close>

definition days_before_month :: "bool \<Rightarrow> int \<Rightarrow> int" where
  "days_before_month leap m =
     [0, 31, 59, 90, 120, 151, 181, 212, 243, 273, 304, 334] ! nat (m - 1)
       + (if leap \<and> 2 < m then 1 else 0)"

definition days_in_month :: "bool \<Rightarrow> int \<Rightarrow> int" where
  "days_in_month leap m =
     [31, 28, 31, 30, 31, 30, 31, 31, 30, 31, 30, 31] ! nat (m - 1)
       + (if leap \<and> m = 2 then 1 else 0)"

text \<open>
  Days since the epoch of a date, for \<open>time.Date\<close>: a month outside 1 to 12 carries into the
  year, a day outside its month into the following or preceding days.
\<close>

definition days_from_civil :: "int \<Rightarrow> int \<Rightarrow> int \<Rightarrow> int" where
  "days_from_civil y m d =
     (let y' = y + (m - 1) div 12; m' = (m - 1) mod 12 + 1 in
      days_before_year y' + days_before_month (is_leap y') m' + (d - 1) - 719162)"

text \<open>The year and the day of the year, counted from 0, of a day since 1 January of year 1.\<close>

definition year_of_days :: "int \<Rightarrow> int \<times> int" where
  "year_of_days n =
     (let n400 = n div 146097; r400 = n mod 146097;
          n100 = min 3 (r400 div 36524); r100 = r400 - 36524 * n100;
          n4 = r100 div 1461; r4 = r100 mod 1461;
          n1 = min 3 (r4 div 365) in
      (400 * n400 + 100 * n100 + 4 * n4 + n1 + 1, r4 - 365 * n1))"

definition month_of_yday :: "bool \<Rightarrow> int \<Rightarrow> int" where
  "month_of_yday leap yd =
     (case List.find (\<lambda>m. days_before_month leap m \<le> yd) [12, 11, 10, 9, 8, 7, 6, 5, 4, 3, 2] of
        Some m \<Rightarrow> m | None \<Rightarrow> 1)"

definition civil_from_days :: "int \<Rightarrow> date" where
  "civil_from_days n =
     (let (y, yd) = year_of_days (n + 719162); m = month_of_yday (is_leap y) yd in
      (y, m, yd - days_before_month (is_leap y) m + 1))"

definition weekday_of_days :: "int \<Rightarrow> int" where
  "weekday_of_days n = (n + 4) mod 7"

subsection \<open>Wall clocks\<close>

definition local_seconds :: "zone \<Rightarrow> instant \<Rightarrow> int" where
  "local_seconds z t = t div nanos + z (t div nanos)"

definition local_date :: "zone \<Rightarrow> instant \<Rightarrow> date" where
  "local_date z t = civil_from_days (local_seconds z t div 86400)"

definition local_weekday :: "zone \<Rightarrow> instant \<Rightarrow> int" where
  "local_weekday z t = weekday_of_days (local_seconds z t div 86400)"

text \<open>\<open>t.Hour()*60 + t.Minute()\<close>.\<close>

definition local_minutes :: "zone \<Rightarrow> instant \<Rightarrow> int" where
  "local_minutes z t = local_seconds z t mod 86400 div 60"

definition unix_wall :: "int \<Rightarrow> int \<Rightarrow> int \<Rightarrow> int \<Rightarrow> int" where
  "unix_wall y m d secs = days_from_civil y m d * 86400 + secs"

text \<open>
  \<open>time.Date\<close> on whole seconds: the offset is looked up at the wall clock read as UTC and,
  when it is not zero, again at the instant that offset gives.
\<close>

definition go_date :: "int \<Rightarrow> int \<Rightarrow> int \<Rightarrow> int \<Rightarrow> zone \<Rightarrow> instant" where
  "go_date y m d secs z =
     (let u = unix_wall y m d secs; off = z u in
      (if off = 0 then u else u - z (u - off)) * nanos)"

text \<open>\<open>t.AddDate(0, 0, n)\<close> of an instant on a whole second.\<close>

definition add_days :: "zone \<Rightarrow> instant \<Rightarrow> int \<Rightarrow> instant" where
  "add_days z t n =
     (case local_date z t of (y, m, d) \<Rightarrow> go_date y m (d + n) (local_seconds z t mod 86400) z)"

subsection \<open>The calendar is a bijection\<close>

lemma capped_div:
  assumes "(0::int) < k" and "0 \<le> r" and "r \<le> 4 * k"
  shows "0 \<le> r - k * min 3 (r div k)" and "r - k * min 3 (r div k) \<le> k"
    and "min 3 (r div k) < 3 \<Longrightarrow> r - k * min 3 (r div k) < k"
proof -
  show "0 \<le> r - k * min 3 (r div k)" and "r - k * min 3 (r div k) \<le> k"
    and "min 3 (r div k) < 3 \<Longrightarrow> r - k * min 3 (r div k) < k"
  proof (atomize (full), cases "r div k \<le> 3")
    case True
    then have "r - k * min 3 (r div k) = r mod k" by (simp add: minus_mult_div_eq_mod min_def)
    with assms pos_mod_bound [of k r] pos_mod_sign [of k r]
    show "0 \<le> r - k * min 3 (r div k) \<and> r - k * min 3 (r div k) \<le> k
        \<and> (min 3 (r div k) < 3 \<longrightarrow> r - k * min 3 (r div k) < k)"
      by linarith
  next
    case False
    then have "4 \<le> r div k" by simp
    then have "k * 4 \<le> k * (r div k)" using assms(1) by simp
    then have "k * 4 \<le> r" using assms(1) mult_div_mod_eq [of k r] pos_mod_sign [of k r] by linarith
    with assms False show "0 \<le> r - k * min 3 (r div k) \<and> r - k * min 3 (r div k) \<le> k
        \<and> (min 3 (r div k) < 3 \<longrightarrow> r - k * min 3 (r div k) < k)"
      by simp
  qed
qed

lemma year_of_days_correct:
  assumes "year_of_days n = (y, yd)"
  shows "days_before_year y + yd = n" and "0 \<le> yd" and "yd < 365 + (if is_leap y then 1 else 0)"
proof -
  define a where "a = n div 146097"
  define r where "r = n mod 146097"
  define b where "b = min 3 (r div 36524)"
  define s where "s = r - 36524 * b"
  define c where "c = s div 1461"
  define q where "q = s mod 1461"
  define d where "d = min 3 (q div 365)"
  have n: "n = 146097 * a + r" by (simp add: a_def r_def)
  have r: "0 \<le> r" "r < 146097" by (simp_all add: r_def)
  have b: "0 \<le> b" "b \<le> 3" using r by (auto simp: b_def)
  have s: "0 \<le> s" "s < 36525" "b < 3 \<Longrightarrow> s < 36524"
    unfolding s_def b_def using r capped_div [of 36524 r] by simp_all
  have c: "0 \<le> c" "c \<le> 24" using s by (auto simp: c_def)
  have q: "0 \<le> q" "q < 1461" "s = 1461 * c + q" by (simp_all add: q_def c_def)
  have d: "0 \<le> d" "d \<le> 3" using q by (auto simp: d_def)
  have y: "y = 400 * a + 100 * b + 4 * c + d + 1" and yd: "yd = q - 365 * d"
  proof -
    have "year_of_days n = (400 * a + 100 * b + 4 * c + d + 1, q - 365 * d)"
      by (simp only: year_of_days_def Let_def a_def r_def b_def s_def c_def q_def d_def)
    with assms show "y = 400 * a + 100 * b + 4 * c + d + 1" "yd = q - 365 * d"
      by (simp_all only: prod.inject)
  qed
  have yd0: "0 \<le> yd" "yd < 366" "d < 3 \<Longrightarrow> yd < 365"
    unfolding yd d_def using q(1,2) capped_div [of 365 q] by simp_all
  have div4: "(y - 1) div 4 = 100 * a + 25 * b + c" using d by (simp add: y)
  have div100: "(y - 1) div 100 = 4 * a + b" using c d by (simp add: y)
  have div400: "(y - 1) div 400 = a" using b c d by (simp add: y)
  show "days_before_year y + yd = n"
    unfolding days_before_year_def div4 div100 div400 yd using s_def q n by (simp add: y)
  show "0 \<le> yd" by (rule yd0)
  show "yd < 365 + (if is_leap y then 1 else 0)"
  proof (cases "d = 3")
    case False
    then have "yd < 365" using yd0 d by auto
    then show ?thesis by simp
  next
    case True
    show ?thesis
    proof (cases "c = 24 \<and> b < 3")
      case True
      with \<open>d = 3\<close> q s yd have "yd < 365" by auto
      then show ?thesis by simp
    next
      case False
      have mod4: "y mod 4 = 0" using \<open>d = 3\<close> by (simp add: y)
      have "y mod 100 \<noteq> 0 \<or> y mod 400 = 0"
      proof (cases "c = 24")
        case True
        with False b \<open>d = 3\<close> have "y = 400 * (a + 1)" by (simp add: y)
        then show ?thesis by simp
      next
        case False
        have "y = 100 * (4 * a + b) + (4 * c + 4)" using \<open>d = 3\<close> by (simp add: y)
        then have "y mod 100 = (4 * c + 4) mod 100" by (simp only: mod_mult_self4)
        also have "\<dots> = 4 * c + 4" using False c by (simp add: mod_pos_pos_trivial)
        finally show ?thesis using c by simp
      qed
      with mod4 yd0 show ?thesis by (simp add: is_leap_def)
    qed
  qed
qed

lemma leap_arith:
  fixes y :: int
  assumes "d4 = e4 + (if p4 then 1 else 0)" and "d100 = e100 + (if p100 then 1 else 0)"
    and "d400 = e400 + (if p400 then 1 else 0)" and "p400 \<Longrightarrow> p100" and "p100 \<Longrightarrow> p4"
  shows "365 * y + d4 - d100 + d400
     = 365 * (y - 1) + e4 - e100 + e400 + 365 + (if p4 \<and> (\<not> p100 \<or> p400) then 1 else 0)"
  using assms by (cases p4; cases p100; cases p400; simp only: if_True if_False) simp_all

lemma days_before_year_Suc:
  "days_before_year (y + 1) = days_before_year y + 365 + (if is_leap y then 1 else 0)"
proof -
  have div: "y div k = (y - 1) div k + (if y mod k = 0 then 1 else 0)" if "0 < k" for k :: int
  proof -
    have "(y - 1) div k = y div k - (if y mod k = 0 then 1 else 0)"
    proof -
      define a r where "a = y div k" and "r = y mod k"
      have y: "y = k * a + r" "0 \<le> r" "r < k" using that by (simp_all add: a_def r_def)
      show ?thesis
      proof (cases "r = 0")
        case True
        have "(y - 1) div k = (k * (a - 1) + (k - 1)) div k" by (simp add: y True algebra_simps)
        also have "\<dots> = a - 1" using that by (simp add: div_pos_pos_trivial)
        finally show ?thesis using True by (simp add: a_def r_def)
      next
        case False
        have "(y - 1) div k = (k * a + (r - 1)) div k" by (simp add: y add_diff_eq)
        also have "\<dots> = a" using that y False by (simp add: div_pos_pos_trivial)
        finally show ?thesis using False by (simp add: a_def r_def)
      qed
    qed
    then show ?thesis by simp
  qed
  have m: "y mod 400 = 0 \<Longrightarrow> y mod 100 = 0" "y mod 100 = 0 \<Longrightarrow> y mod 4 = 0"
    by (simp_all only: dvd_eq_mod_eq_0 [symmetric]) (auto elim: dvd_trans [rotated])
  have d: "y div 4 = (y - 1) div 4 + (if y mod 4 = 0 then 1 else 0)"
    "y div 100 = (y - 1) div 100 + (if y mod 100 = 0 then 1 else 0)"
    "y div 400 = (y - 1) div 400 + (if y mod 400 = 0 then 1 else 0)"
    by (rule div, simp)+
  show ?thesis
    unfolding days_before_year_def is_leap_def add_diff_cancel_right'
    by (rule leap_arith [OF d]) (erule m)+
qed

lemma days_before_year_less:
  assumes "y < y'"
  shows "days_before_year y + 365 + (if is_leap y then 1 else 0) \<le> days_before_year y'"
proof -
  have "days_before_year (y + 1) \<le> days_before_year (y + 1 + int k)" for k
  proof (induction k)
    case (Suc k)
    have "y + 1 + int (Suc k) = (y + 1 + int k) + 1" by simp
    with Suc days_before_year_Suc [of "y + 1 + int k"] show ?case by simp
  qed simp
  from this [of "nat (y' - (y + 1))"] assms show ?thesis
    by (simp add: days_before_year_Suc)
qed

lemma year_of_days_unique:
  assumes "0 \<le> yd" and "yd < 365 + (if is_leap y then 1 else 0)"
  shows "year_of_days (days_before_year y + yd) = (y, yd)"
proof -
  obtain y' yd' where e: "year_of_days (days_before_year y + yd) = (y', yd')" by fastforce
  note c = year_of_days_correct [OF e]
  have "y' = y"
  proof (rule ccontr)
    assume "y' \<noteq> y"
    then have "y' < y \<or> y < y'" by arith
    then show False
    proof
      assume "y' < y"
      from days_before_year_less [OF this] c assms show False by linarith
    next
      assume "y < y'"
      from days_before_year_less [OF this] c assms show False by linarith
    qed
  qed
  with e c show ?thesis by simp
qed

lemma month_cases:
  assumes "(1::int) \<le> m" and "m \<le> 12"
  shows "m \<in> {1, 2, 3, 4, 5, 6, 7, 8, 9, 10, 11, 12}"
proof -
  have "nat m \<in> set [1..<13]" using assms by (auto simp: nat_less_iff le_nat_iff)
  then have "int (nat m) \<in> int ` set [1..<13]" by (rule imageI)
  moreover have "int ` set [1..<13] = {1, 2, 3, 4, 5, 6, 7, 8, 9, 10, 11, 12}"
    by (simp add: upt_rec)
  ultimately show ?thesis using assms by simp
qed

lemma days_before_month_next:
  assumes "1 \<le> m" and "m \<le> 11"
  shows "days_before_month leap (m + 1) = days_before_month leap m + days_in_month leap m"
  using month_cases [of m] assms by (auto simp: days_before_month_def days_in_month_def)

lemma month_of_yday_correct:
  assumes "0 \<le> yd" and "yd < 365 + (if leap then 1 else 0)" and "m = month_of_yday leap yd"
  shows "1 \<le> m" and "m \<le> 12" and "days_before_month leap m \<le> yd"
    and "yd < days_before_month leap m + days_in_month leap m"
proof -
  let ?ms = "[12, 11, 10, 9, 8, 7, 6, 5, 4, 3, 2::int]"
  let ?p = "\<lambda>m. days_before_month leap m \<le> yd"
  have range: "1 \<le> m \<and> m \<le> 12 \<and> ?p m \<and> (m < 12 \<longrightarrow> \<not> ?p (m + 1))"
  proof (cases "List.find ?p ?ms")
    case None
    then have "\<forall>m \<in> set ?ms. \<not> ?p m" by (simp only: find_None_all)
    then have "\<not> ?p 2" by simp
    moreover have "m = 1" using assms(3) None by (simp add: month_of_yday_def)
    moreover have "days_before_month leap 1 = 0" by (simp add: days_before_month_def)
    ultimately show ?thesis using assms(1) by simp
  next
    case (Some k)
    then have k: "k \<in> set ?ms" "?p k" using find_Some_iff_first [OF Some] by blast+
    have m: "m = k" using assms(3) Some by (simp add: month_of_yday_def)
    have "k < 12 \<longrightarrow> \<not> ?p (k + 1)" using Some by (auto split: if_splits)
    with k m show ?thesis by auto
  qed
  then show "1 \<le> m" "m \<le> 12" "days_before_month leap m \<le> yd" by auto
  show "yd < days_before_month leap m + days_in_month leap m"
  proof (cases "m < 12")
    case True
    with range show ?thesis using days_before_month_next [of m leap] by simp
  next
    case False
    with range have "m = 12" by simp
    then show ?thesis using assms(2) by (simp add: days_before_month_def days_in_month_def)
  qed
qed

lemma days_in_month_pos: "1 \<le> m \<Longrightarrow> m \<le> 12 \<Longrightarrow> 28 \<le> days_in_month leap m"
  using month_cases [of m] by (auto simp: days_in_month_def)

lemma days_before_month_less:
  assumes "1 \<le> m" and "m < m'" and "m' \<le> 12"
  shows "days_before_month leap m + days_in_month leap m \<le> days_before_month leap m'"
proof -
  have "m + 1 + int k \<le> 12 \<Longrightarrow>
      days_before_month leap m + days_in_month leap m \<le> days_before_month leap (m + 1 + int k)" for k
  proof (induction k)
    case 0
    then show ?case using days_before_month_next [of m leap] assms(1) by simp
  next
    case (Suc k)
    let ?n = "m + 1 + int k"
    have "days_before_month leap (?n + 1) = days_before_month leap ?n + days_in_month leap ?n"
      using Suc.prems assms(1) by (intro days_before_month_next) simp_all
    moreover have "28 \<le> days_in_month leap ?n"
      using Suc.prems assms(1) by (intro days_in_month_pos) simp_all
    moreover have "m + 1 + int (Suc k) = ?n + 1" by simp
    ultimately show ?case using Suc by simp
  qed
  from this [of "nat (m' - (m + 1))"] assms show ?thesis by simp
qed

lemma month_of_yday_unique:
  assumes "1 \<le> m" and "m \<le> 12" and "1 \<le> d" and "d \<le> days_in_month leap m"
  shows "month_of_yday leap (days_before_month leap m + d - 1) = m"
    and "0 \<le> days_before_month leap m + d - 1"
    and "days_before_month leap m + d - 1 < 365 + (if leap then 1 else 0)"
proof -
  let ?yd = "days_before_month leap m + d - 1"
  have "days_before_month leap 1 = 0" by (simp add: days_before_month_def)
  moreover have "m = 1 \<or> 1 < m" using assms by auto
  ultimately show lo: "0 \<le> ?yd"
    using days_before_month_less [of 1 m leap] days_in_month_pos [of 1 leap] assms by auto
  have "days_before_month leap 12 + days_in_month leap 12 = 365 + (if leap then 1 else 0)"
    by (simp add: days_before_month_def days_in_month_def)
  moreover have "m = 12 \<or> m < 12" using assms by auto
  ultimately show hi: "?yd < 365 + (if leap then 1 else 0)"
    using days_before_month_less [of m 12 leap] days_in_month_pos [of 12 leap] assms by auto
  define m' where "m' = month_of_yday leap ?yd"
  note c = month_of_yday_correct [OF lo hi m'_def]
  have "m' = m"
  proof (rule ccontr)
    assume "m' \<noteq> m"
    then consider "m' < m" | "m < m'" by linarith
    then show False
    proof cases
      case 1
      from days_before_month_less [OF c(1) this assms(2), of leap] c assms show False by linarith
    next
      case 2
      from days_before_month_less [OF assms(1) this c(2), of leap] c assms show False by linarith
    qed
  qed
  then show "month_of_yday leap ?yd = m" by (simp add: m'_def)
qed

definition valid_date :: "date \<Rightarrow> bool" where
  "valid_date dt \<longleftrightarrow> (case dt of (y, m, d) \<Rightarrow>
     1 \<le> m \<and> m \<le> 12 \<and> 1 \<le> d \<and> d \<le> days_in_month (is_leap y) m)"

abbreviation days_of :: "date \<Rightarrow> int" where
  "days_of dt \<equiv> (case dt of (y, m, d) \<Rightarrow> days_from_civil y m d)"

lemma month_norm:
  assumes "(1::int) \<le> m" and "m \<le> 12"
  shows "(m - 1) div 12 = 0" and "(m - 1) mod 12 = m - 1"
  using assms by (simp_all add: div_pos_pos_trivial mod_pos_pos_trivial)

lemma days_from_civil_plain:
  "1 \<le> m \<Longrightarrow> m \<le> 12 \<Longrightarrow> days_from_civil y m d
     = days_before_year y + days_before_month (is_leap y) m + (d - 1) - 719162"
  by (simp add: days_from_civil_def Let_def month_norm)

lemma civil_from_days_valid [time_simps, simp]: "valid_date (civil_from_days n)"
  and days_of_civil_from_days [time_simps, simp]: "days_of (civil_from_days n) = n"
proof -
  obtain y yd where e: "year_of_days (n + 719162) = (y, yd)" by fastforce
  note c = year_of_days_correct [OF e]
  define m where "m = month_of_yday (is_leap y) yd"
  note mo = month_of_yday_correct [OF c(2,3) m_def]
  have eq: "civil_from_days n = (y, m, yd - days_before_month (is_leap y) m + 1)"
    by (simp add: civil_from_days_def e m_def Let_def)
  show "valid_date (civil_from_days n)" using mo by (simp add: eq valid_date_def)
  show "days_of (civil_from_days n) = n"
    using c(1) mo by (simp add: eq days_from_civil_plain)
qed

lemma civil_from_days_of [time_simps]:
  "valid_date (y, m, d) \<Longrightarrow> civil_from_days (days_from_civil y m d) = (y, m, d)"
  using month_of_yday_unique [of m d "is_leap y"]
    year_of_days_unique [of "days_before_month (is_leap y) m + d - 1" y]
  by (simp add: valid_date_def days_from_civil_plain civil_from_days_def algebra_simps)

lemma days_from_civil_add: "days_from_civil y m (d + k) = days_from_civil y m d + k"
  by (simp add: days_from_civil_def Let_def)

end
