(* ===== verification/Intervals.thy ===== *)
theory Intervals
  imports GoTime
begin

text \<open>
  Half-open intervals of instants, shared by \<open>schedule.Segment\<close> (which extends the record) and
  \<open>scheduler.interval\<close>, and the merge loop both packages contain.
\<close>

record interval =
  iv_start :: instant
  iv_end :: instant

text \<open>
  The loop of \<open>mergeSegments\<close> and of \<open>unionBlockContaining\<close>: \<open>cur\<close> is the last element of
  \<open>merged\<close>. (\<open>merged\<close> shares the array of its argument, but only overwrites elements the range
  loop has passed.)
\<close>

fun merge_from :: "'a interval_scheme \<Rightarrow> 'a interval_scheme list \<Rightarrow> 'a interval_scheme list" where
  "merge_from cur [] = [cur]"
| "merge_from cur (x # xs) =
     (if \<not> iv_start x > iv_end cur
      then merge_from (if iv_end x > iv_end cur then cur \<lparr>iv_end := iv_end x\<rparr> else cur) xs
      else cur # merge_from x xs)"

definition merge_sorted :: "'a interval_scheme list \<Rightarrow> 'a interval_scheme list" where
  "merge_sorted xs = (case xs of [] \<Rightarrow> [] | x # rest \<Rightarrow> merge_from x rest)"

text \<open>The instants a list of intervals covers.\<close>

definition covers :: "'a interval_scheme list \<Rightarrow> instant \<Rightarrow> bool" where
  "covers xs t \<longleftrightarrow> list_ex (\<lambda>s. iv_start s \<le> t \<and> t < iv_end s) xs"

text \<open>In order, and with a gap between any two.\<close>

definition block_list :: "'a interval_scheme list \<Rightarrow> bool" where
  "block_list = sorted_wrt (\<lambda>a b. iv_start a \<le> iv_start b \<and> iv_end a < iv_start b)"

lemma covers_simps [simp]:
  "\<not> covers [] t"
  "covers (x # xs) t \<longleftrightarrow> iv_start x \<le> t \<and> t < iv_end x \<or> covers xs t"
  "covers (xs @ ys) t \<longleftrightarrow> covers xs t \<or> covers ys t"
  by (auto simp: covers_def)

lemma covers_iff: "covers xs t \<longleftrightarrow> (\<exists>s \<in> set xs. iv_start s \<le> t \<and> t < iv_end s)"
  by (auto simp: covers_def list_ex_iff)

lemma covers_sort [simp]: "covers (sort_key f xs) t = covers xs t"
  by (simp add: covers_iff)

lemma merge_from_origin:
  "s \<in> set (merge_from cur xs) \<Longrightarrow>
     \<exists>s' \<in> set (cur # xs). s = s' \<lparr>iv_end := iv_end s\<rparr> \<and> iv_end s' \<le> iv_end s
       \<and> iv_end s \<in> iv_end ` set (cur # xs)"
proof (induction cur xs rule: merge_from.induct)
  case (1 cur)
  then show ?case by simp
next
  case (2 cur x xs)
  show ?case
  proof (cases "iv_start x > iv_end cur")
    case True
    with 2 show ?thesis by fastforce
  next
    case False
    let ?c = "if iv_end x > iv_end cur then cur \<lparr>iv_end := iv_end x\<rparr> else cur"
    from False 2 obtain s' where s': "s' \<in> set (?c # xs)" "s = s' \<lparr>iv_end := iv_end s\<rparr>"
      "iv_end s' \<le> iv_end s" "iv_end s \<in> iv_end ` set (?c # xs)" by auto
    have e: "iv_end s \<in> iv_end ` set (cur # x # xs)" using s'(4) by (auto split: if_splits)
    show ?thesis
    proof (cases "s' \<in> set xs")
      case True
      with s' e show ?thesis by auto
    next
      case False
      with s'(1) have c: "s' = ?c" by simp
      have "s = cur \<lparr>iv_end := iv_end s\<rparr>"
        by (subst s'(2)) (simp add: c)
      moreover have "iv_end cur \<le> iv_end s" using s'(3) c by (auto split: if_splits)
      ultimately show ?thesis using e by auto
    qed
  qed
qed

lemma merge_from_starts:
  assumes "sorted (map iv_start (cur # xs))" and "s \<in> set (merge_from cur xs)"
  shows "iv_start cur \<le> iv_start s"
proof -
  obtain s' where "s' \<in> set (cur # xs)" "s = s' \<lparr>iv_end := iv_end s\<rparr>"
    using merge_from_origin [OF assms(2)] by blast
  then have "iv_start s = iv_start s'" by (metis interval.select_convs(1) interval.surjective interval.update_convs(2))
  with assms(1) \<open>s' \<in> _\<close> show ?thesis by auto
qed

lemma covers_merge_from:
  "sorted (map iv_start (cur # xs)) \<Longrightarrow> covers (merge_from cur xs) t = covers (cur # xs) t"
  by (induction cur xs rule: merge_from.induct) auto

lemma block_list_merge_from:
  "sorted (map iv_start (cur # xs)) \<Longrightarrow> block_list (merge_from cur xs)"
proof (induction cur xs rule: merge_from.induct)
  case (1 cur)
  then show ?case by (simp add: block_list_def)
next
  case (2 cur x xs)
  show ?case
  proof (cases "iv_start x > iv_end cur")
    case True
    have "sorted (map iv_start (x # xs))" using 2(3) by simp
    from merge_from_starts [OF this] True 2(2,3) show ?thesis
      by (force simp: block_list_def)
  next
    case False
    with 2 show ?thesis by (auto simp: block_list_def)
  qed
qed

lemma covers_merge_sorted: "sorted (map iv_start xs) \<Longrightarrow> covers (merge_sorted xs) t = covers xs t"
  by (cases xs) (simp_all add: merge_sorted_def covers_merge_from)

lemma block_list_merge_sorted: "sorted (map iv_start xs) \<Longrightarrow> block_list (merge_sorted xs)"
  by (cases xs) (simp add: merge_sorted_def block_list_def,
    simp add: merge_sorted_def block_list_merge_from)

lemma merge_sorted_origin:
  "s \<in> set (merge_sorted xs) \<Longrightarrow>
     \<exists>s' \<in> set xs. s = s' \<lparr>iv_end := iv_end s\<rparr> \<and> iv_end s' \<le> iv_end s \<and> iv_end s \<in> iv_end ` set xs"
  using merge_from_origin [of s "hd xs" "tl xs"] by (cases xs) (simp_all add: merge_sorted_def)

text \<open>A block of such a list is a maximal covered interval.\<close>

lemma block_list_end:
  assumes "block_list xs" and "b \<in> set xs" and "iv_start b \<le> iv_end b"
  shows "\<not> covers xs (iv_end b)"
proof
  assume "covers xs (iv_end b)"
  then obtain s where s: "s \<in> set xs" "iv_start s \<le> iv_end b" "iv_end b < iv_end s"
    by (auto simp: covers_iff)
  then have ne: "s \<noteq> b" by auto
  from assms(1) assms(2) s(1) ne have "iv_end b < iv_start s \<or> iv_end s < iv_start b"
    by (induction xs) (auto simp: block_list_def)
  with s assms(3) show False by auto
qed

lemma block_list_before:
  assumes "block_list xs" and "b \<in> set xs"
  shows "\<not> (\<exists>s \<in> set xs. iv_start s < iv_start b \<and> iv_start b \<le> iv_end s)"
proof
  assume "\<exists>s \<in> set xs. iv_start s < iv_start b \<and> iv_start b \<le> iv_end s"
  then obtain s where s: "s \<in> set xs" "iv_start s < iv_start b" "iv_start b \<le> iv_end s" by blast
  from assms s(1,2) have "iv_end s < iv_start b"
    by (induction xs) (auto simp: block_list_def)
  with s show False by auto
qed

end
