(* ===== verification/Coverage.thy ===== *)
theory Coverage
  imports Intervals "HOL-Library.Product_Lexorder"
begin

text \<open>
  Recurrence (\<open>internal/schedule/expand.go\<close> and the parsing half of \<open>rules.go\<close> and
  \<open>windows.go\<close>): wall clocks, weekly rules and dated windows turned into coverage segments.
  \<open>time.LoadLocation\<close> reads the zone database, which is not part of the program: it is the
  parameter \<open>tz\<close>, which maps a zone name to its offsets. \<open>None\<close> around a whole result is a
  loop that never ends; the day loop does end as soon as the next noon is later than this one.
\<close>

subsection \<open>Wall clocks as text\<close>

definition digit_value :: "char \<Rightarrow> int" where
  "digit_value c = int (byte_of c) - 48"

definition is_digit :: "char \<Rightarrow> bool" where
  "is_digit c \<longleftrightarrow> 48 \<le> byte_of c \<and> byte_of c \<le> (57::nat)"

definition parse_wall_minutes :: "string \<Rightarrow> int option" where
  "parse_wall_minutes value =
     (if length value \<noteq> 5 \<or> value ! 2 \<noteq> CHR '':'' then None
      else if list_ex (\<lambda>i. \<not> is_digit (value ! i)) [0, 1, 3, 4] then None
      else
        (let hours = digit_value (value ! 0) * 10 + digit_value (value ! 1);
             minutes = digit_value (value ! 3) * 10 + digit_value (value ! 4) in
         if hours > 23 \<or> minutes > 59 then None else Some (hours * 60 + minutes)))"

definition week_minutes :: "int \<Rightarrow> int \<Rightarrow> int" where
  "week_minutes weekday minutes = weekday * 24 * 60 + minutes"

definition rule_wrap_days :: "weekly_rule \<Rightarrow> int" where
  "rule_wrap_days rule =
     (let days = wr_end_weekday rule - wr_start_weekday rule;
          start_minutes = (case parse_wall_minutes (wr_start_time rule) of None \<Rightarrow> 0 | Some m \<Rightarrow> m);
          end_minutes = (case parse_wall_minutes (wr_end_time rule) of None \<Rightarrow> 0 | Some m \<Rightarrow> m) in
      if week_minutes (wr_end_weekday rule) end_minutes
           \<le> week_minutes (wr_start_weekday rule) start_minutes
      then days + 7 else days)"

definition parse_wall_date_time :: "string \<Rightarrow> (int \<times> int \<times> int \<times> int) option" where
  "parse_wall_date_time value =
     (if length value \<noteq> 16 \<or> value ! 4 \<noteq> CHR ''-'' \<or> value ! 7 \<noteq> CHR ''-'' \<or> value ! 10 \<noteq> CHR ''T''
      then None
      else if list_ex (\<lambda>i. \<not> is_digit (value ! i)) [0, 1, 2, 3, 5, 6, 8, 9] then None
      else case parse_wall_minutes (drop 11 value) of None \<Rightarrow> None
      | Some minutes \<Rightarrow>
          (let year = digit_value (value ! 0) * 1000 + digit_value (value ! 1) * 100
                 + digit_value (value ! 2) * 10 + digit_value (value ! 3);
               month = digit_value (value ! 5) * 10 + digit_value (value ! 6);
               day = digit_value (value ! 8) * 10 + digit_value (value ! 9) in
           if month < 1 \<or> month > 12 then None
           else if local_date utc (go_date year month day 0 utc) \<noteq> (year, month, day) then None
           else Some (year, month, day, minutes)))"

text \<open>\<open>fmt.Sprintf\<close> with \<open>%0wd\<close>.\<close>

fun decimal :: "nat \<Rightarrow> string" where
  "decimal n = (if n < 10 then [char_of (48 + n)] else decimal (n div 10) @ [char_of (48 + n mod 10)])"

declare decimal.simps [simp del]

definition zero_pad :: "nat \<Rightarrow> string \<Rightarrow> string" where
  "zero_pad w s = replicate (w - length s) (CHR ''0'') @ s"

definition format_padded :: "nat \<Rightarrow> int \<Rightarrow> string" where
  "format_padded w n =
     (if n < 0 then CHR ''-'' # zero_pad (w - 1) (decimal (nat (- n))) else zero_pad w (decimal (nat n)))"

definition format_wall_date :: "date \<Rightarrow> string" where
  "format_wall_date dt = (case dt of (y, m, d) \<Rightarrow>
     format_padded 4 y @ ''-'' @ format_padded 2 m @ ''-'' @ format_padded 2 d)"

definition format_wall_minutes :: "int \<Rightarrow> string" where
  "format_wall_minutes minutes = format_padded 2 (minutes div 60) @ '':'' @ format_padded 2 (minutes mod 60)"

subsection \<open>Segments\<close>

record segment = interval +
  sg_schedule_id :: int
  sg_schedule_name :: string

datatype dst_note_kind = DSTNoteNonexistent | DSTNoteRepeated

record dst_note =
  dn_schedule_id :: int
  dn_kind :: dst_note_kind
  dn_boundary :: string
  dn_local_date :: string
  dn_local_time :: string
  dn_resolved :: instant

record coverage =
  cv_schedule :: schedule
  cv_rules :: "weekly_rule list"
  cv_windows :: "dated_window list"

definition merge_segments :: "segment list \<Rightarrow> segment list" where
  "merge_segments segs =
     (if length segs \<le> 1 then segs else merge_sorted (sort_key iv_start segs))"

subsection \<open>Wall clocks to instants\<close>

definition wall_instants :: "int \<Rightarrow> int \<Rightarrow> int \<Rightarrow> int \<Rightarrow> zone \<Rightarrow> instant list" where
  "wall_instants year month day minutes z =
     (let utc_wall = go_date year month day (minutes * 60) utc;
          offsets = remdups (map (\<lambda>probe. z (probe div nanos))
             [utc_wall - 26 * hour_ns, utc_wall, utc_wall + 26 * hour_ns]);
          candidates = map (\<lambda>off. utc_wall - off * nanos) offsets in
      sort (filter (\<lambda>t. local_date z t = (year, month, day) \<and> local_minutes z t = minutes)
        candidates))"

definition max_nonexistent_scan_minutes :: int where
  "max_nonexistent_scan_minutes = 6 * 60"

definition first_valid_wall_after :: "int \<Rightarrow> int \<Rightarrow> int \<Rightarrow> int \<Rightarrow> zone \<Rightarrow> instant" where
  "first_valid_wall_after year month day minutes z =
     (let base = go_date year month day (minutes * 60) utc;
          at = (\<lambda>offset. let wall = base + offset * minute_ns in
            case local_date utc wall of (y, m, d) \<Rightarrow> wall_instants y m d (local_minutes utc wall) z) in
      case List.find (\<lambda>instants. instants \<noteq> [])
             (map at [1..max_nonexistent_scan_minutes]) of
        Some instants \<Rightarrow> hd instants
      | None \<Rightarrow> go_date year month day (minutes * 60) z)"

definition resolve_wall ::
    "int \<Rightarrow> int \<Rightarrow> int \<Rightarrow> int \<Rightarrow> zone \<Rightarrow> string \<Rightarrow> int \<Rightarrow> instant \<times> dst_note option" where
  "resolve_wall year month day minutes z boundary schedule_id =
     (let note = (\<lambda>kind resolved. \<lparr>dn_schedule_id = schedule_id, dn_kind = kind,
            dn_boundary = boundary, dn_local_date = format_wall_date (year, month, day),
            dn_local_time = format_wall_minutes minutes, dn_resolved = resolved\<rparr>);
          instants = wall_instants year month day minutes z in
      case instants of
        [t] \<Rightarrow> (t, None)
      | [] \<Rightarrow>
          (let t = first_valid_wall_after year month day minutes z in
           (t, Some (note DSTNoteNonexistent t)))
      | _ \<Rightarrow>
          (let t = (if boundary = ''start'' then hd instants else last instants) in
           (t, Some (note DSTNoteRepeated t))))"

subsection \<open>Expansion\<close>

datatype expand_error =
    UnknownTimezone int string
  | InvalidRuleStart int int string
  | InvalidRuleEnd int int string
  | InvalidWindowStart int string string
  | InvalidWindowEnd int string string

type_synonym 'a expansion = "(expand_error + 'a) option"

definition then_expand :: "'a expansion \<Rightarrow> ('a \<Rightarrow> 'b expansion) \<Rightarrow> 'b expansion" where
  "then_expand m f = (case m of None \<Rightarrow> None | Some (Inl e) \<Rightarrow> Some (Inl e) | Some (Inr x) \<Rightarrow> f x)"

definition in_window :: "instant \<Rightarrow> instant \<Rightarrow> 'a interval_scheme \<Rightarrow> bool" where
  "in_window from til s \<longleftrightarrow> iv_end s > from \<and> iv_start s < til"

text \<open>One matching day of the loop: the segment that starts on it, before the overlap test.\<close>

definition rule_day ::
    "schedule \<Rightarrow> zone \<Rightarrow> int \<Rightarrow> int \<Rightarrow> int \<Rightarrow> instant \<Rightarrow> segment \<times> dst_note list" where
  "rule_day sched z start_minutes end_minutes wrap day =
     (case (local_date z day, local_date z (add_days z day wrap)) of
        ((y, m, d), (ye, me, de)) \<Rightarrow>
          (let (start, start_note) = resolve_wall y m d start_minutes z ''start'' (sc_id sched);
               (endt, end_note) = resolve_wall ye me de end_minutes z ''end'' (sc_id sched) in
           (\<lparr>iv_start = start, iv_end = endt, sg_schedule_id = sc_id sched,
              sg_schedule_name = sc_name sched\<rparr>,
            (case start_note of None \<Rightarrow> [] | Some n \<Rightarrow> [n])
              @ (case end_note of None \<Rightarrow> [] | Some n \<Rightarrow> [n]))))"

partial_function (option) expand_days ::
    "(instant \<Rightarrow> segment \<times> dst_note list) \<Rightarrow> zone \<Rightarrow> int \<Rightarrow> instant \<Rightarrow> instant \<Rightarrow> instant \<Rightarrow> instant
       \<Rightarrow> (segment list \<times> dst_note list) option" where
  "expand_days on_day z start_weekday from til last_day day =
     (if day > last_day then Some ([], [])
      else Option.bind (expand_days on_day z start_weekday from til last_day (add_days z day 1))
        (\<lambda>(segs, notes).
           if local_weekday z day \<noteq> start_weekday then Some (segs, notes)
           else
             (let (s, ns) = on_day day in
              if \<not> in_window from til s then Some (segs, notes)
              else Some (s # segs, ns @ notes))))"

definition local_noon :: "zone \<Rightarrow> instant \<Rightarrow> instant" where
  "local_noon z t = (case local_date z t of (y, m, d) \<Rightarrow> go_date y m d (12 * 3600) z)"

definition expand_rule ::
    "schedule \<Rightarrow> weekly_rule \<Rightarrow> zone \<Rightarrow> instant \<Rightarrow> instant \<Rightarrow> (segment list \<times> dst_note list) expansion" where
  "expand_rule sched rule z from til =
     (case parse_wall_minutes (wr_start_time rule) of
        None \<Rightarrow> Some (Inl (InvalidRuleStart (sc_id sched) (wr_id rule) (wr_start_time rule)))
      | Some start_minutes \<Rightarrow>
        (case parse_wall_minutes (wr_end_time rule) of
           None \<Rightarrow> Some (Inl (InvalidRuleEnd (sc_id sched) (wr_id rule) (wr_end_time rule)))
         | Some end_minutes \<Rightarrow>
             (let wrap = rule_wrap_days rule;
                  first_day = add_days z (local_noon z from) (- (wrap + 1));
                  last_day = local_noon z til in
              map_option Inr
                (expand_days (rule_day sched z start_minutes end_minutes wrap) z
                   (wr_start_weekday rule) from til last_day first_day))))"

fun expand_rules ::
    "schedule \<Rightarrow> weekly_rule list \<Rightarrow> zone \<Rightarrow> instant \<Rightarrow> instant
       \<Rightarrow> (segment list \<times> dst_note list) expansion" where
  "expand_rules sched [] z from til = Some (Inr ([], []))"
| "expand_rules sched (rule # rules) z from til =
     then_expand (expand_rule sched rule z from til) (\<lambda>(segs, notes).
       then_expand (expand_rules sched rules z from til) (\<lambda>(segs', notes').
         Some (Inr (segs @ segs', notes @ notes'))))"

definition expand_weekly ::
    "(string \<Rightarrow> zone option) \<Rightarrow> coverage \<Rightarrow> instant \<Rightarrow> instant
       \<Rightarrow> (segment list \<times> dst_note list) expansion" where
  "expand_weekly tz cov from til =
     (case tz (sc_timezone (cv_schedule cov)) of
        None \<Rightarrow> Some (Inl (UnknownTimezone (sc_id (cv_schedule cov)) (sc_timezone (cv_schedule cov))))
      | Some z \<Rightarrow> expand_rules (cv_schedule cov) (cv_rules cov) z from til)"

definition resolve_window_boundary ::
    "string \<Rightarrow> zone \<Rightarrow> string \<Rightarrow> int \<Rightarrow> (instant \<times> dst_note option) option" where
  "resolve_window_boundary wall z boundary schedule_id =
     (case parse_wall_date_time wall of
        None \<Rightarrow> None
      | Some (year, month, day, minutes) \<Rightarrow>
          Some (resolve_wall year month day minutes z boundary schedule_id))"

definition resolve_window_bounds_with_notes ::
    "(string \<Rightarrow> zone option) \<Rightarrow> schedule \<Rightarrow> dated_window
       \<Rightarrow> expand_error + (instant \<times> instant \<times> dst_note list)" where
  "resolve_window_bounds_with_notes tz sched window =
     (case tz (sc_timezone sched) of
        None \<Rightarrow> Inl (UnknownTimezone (sc_id sched) (sc_timezone sched))
      | Some z \<Rightarrow>
        (case resolve_window_boundary (dw_starts_at window) z ''start'' (sc_id sched) of
           None \<Rightarrow> Inl (InvalidWindowStart (sc_id sched) (dw_name window) (dw_starts_at window))
         | Some (start, start_note) \<Rightarrow>
           (case resolve_window_boundary (dw_ends_at window) z ''end'' (sc_id sched) of
              None \<Rightarrow> Inl (InvalidWindowEnd (sc_id sched) (dw_name window) (dw_ends_at window))
            | Some (endt, end_note) \<Rightarrow>
                Inr (start, endt,
                  (case start_note of None \<Rightarrow> [] | Some n \<Rightarrow> [n])
                    @ (case end_note of None \<Rightarrow> [] | Some n \<Rightarrow> [n])))))"

definition resolve_window_bounds ::
    "(string \<Rightarrow> zone option) \<Rightarrow> schedule \<Rightarrow> dated_window \<Rightarrow> expand_error + (instant \<times> instant)" where
  "resolve_window_bounds tz sched window =
     map_sum id (\<lambda>(start, endt, _). (start, endt)) (resolve_window_bounds_with_notes tz sched window)"

definition window_bounds ::
    "(string \<Rightarrow> zone option) \<Rightarrow> schedule \<Rightarrow> dated_window \<Rightarrow> expand_error + (instant \<times> instant)" where
  "window_bounds tz sched window = resolve_window_bounds tz sched window"

fun expand_windows ::
    "(string \<Rightarrow> zone option) \<Rightarrow> schedule \<Rightarrow> dated_window list \<Rightarrow> instant \<Rightarrow> instant
       \<Rightarrow> (segment list \<times> dst_note list) expansion" where
  "expand_windows tz sched [] from til = Some (Inr ([], []))"
| "expand_windows tz sched (window # rest) from til =
     (case resolve_window_bounds_with_notes tz sched window of
        Inl e \<Rightarrow> Some (Inl e)
      | Inr (start, endt, notes) \<Rightarrow>
          then_expand (expand_windows tz sched rest from til) (\<lambda>(segs', notes').
            if \<not> endt > start then Some (Inr (segs', notes'))
            else if \<not> start < til \<or> \<not> endt > from then Some (Inr (segs', notes'))
            else Some (Inr (\<lparr>iv_start = start, iv_end = endt, sg_schedule_id = sc_id sched,
                     sg_schedule_name = sc_name sched\<rparr> # segs',
                   filter (\<lambda>n. \<not> dn_resolved n < from \<and> dn_resolved n < til) notes @ notes'))))"

definition expand_dated ::
    "(string \<Rightarrow> zone option) \<Rightarrow> coverage \<Rightarrow> instant \<Rightarrow> instant
       \<Rightarrow> (segment list \<times> dst_note list) expansion" where
  "expand_dated tz cov from til = expand_windows tz (cv_schedule cov) (cv_windows cov) from til"

fun add_new_notes :: "dst_note list \<Rightarrow> dst_note list \<Rightarrow> dst_note list" where
  "add_new_notes notes [] = notes"
| "add_new_notes notes (n # ns) =
     (if n \<in> set notes then add_new_notes notes ns else add_new_notes (notes @ [n]) ns)"

fun expand_each ::
    "(string \<Rightarrow> zone option) \<Rightarrow> coverage list \<Rightarrow> instant \<Rightarrow> instant \<Rightarrow> segment list \<Rightarrow> dst_note list
       \<Rightarrow> (segment list \<times> dst_note list) expansion" where
  "expand_each tz [] from til segs notes = Some (Inr (segs, notes))"
| "expand_each tz (cov # covs) from til segs notes =
     (let go = (\<lambda>(expanded, cov_notes). expand_each tz covs from til
            (segs @ merge_segments expanded) (add_new_notes notes cov_notes)) in
      if sc_kind (cv_schedule cov) = Weekly \<and> cv_rules cov \<noteq> [] then
        then_expand (expand_weekly tz cov from til) go
      else if sc_kind (cv_schedule cov) = Dated \<and> cv_windows cov \<noteq> [] then
        then_expand (expand_dated tz cov from til) go
      else expand_each tz covs from til segs notes)"

definition expand_coverage ::
    "(string \<Rightarrow> zone option) \<Rightarrow> coverage list \<Rightarrow> instant \<Rightarrow> instant
       \<Rightarrow> (segment list \<times> dst_note list) expansion" where
  "expand_coverage tz covs from til =
     then_expand (expand_each tz covs from til [] []) (\<lambda>(segs, notes).
       Some (Inr (sort_key (\<lambda>s. (iv_start s, sg_schedule_id s)) segs, sort_key dn_resolved notes)))"

end
