(* ===== verification/Expansion.thy ===== *)
theory Expansion
  imports Coverage
begin

text \<open>
  What expansion means: merging keeps coverage, the day loop ends, and for a zone without
  transitions the segments of a weekly rule are exactly the rule's arc of the local week.
\<close>

subsection \<open>Merging\<close>

text \<open>
  C36: Merging the segments of one schedule covers exactly the instants they covered, and leaves
  blocks in order with a real gap between any two.
\<close>

theorem merge_segments_correct:
  "covers (merge_segments segs) t = covers segs t \<and> block_list (merge_segments segs)"
proof (cases "length segs \<le> 1")
  case True
  then show ?thesis
    by (cases segs) (auto simp: merge_segments_def block_list_def)
next
  case False
  then show ?thesis
    by (simp add: merge_segments_def covers_merge_sorted block_list_merge_sorted)
qed

lemma covers_merge_segments: "covers (merge_segments segs) t = covers segs t"
  by (cases "length segs \<le> 1") (simp_all add: merge_segments_def covers_merge_sorted)

subsection \<open>The day loop ends\<close>

lemma expand_days_step:
  "\<not> day > last_day \<Longrightarrow> expand_days on_day z wd from til last_day (add_days z day 1) = Some r \<Longrightarrow>
     \<exists>r'. expand_days on_day z wd from til last_day day = Some r'"
  by (subst expand_days.simps) (simp split: prod.split)

lemma expand_days_total:
  assumes "\<And>t. t < add_days z t 1"
  shows "\<exists>r. expand_days on_day z wd from til last_day day = Some r"
proof (induction "nat (last_day + 1 - day)" arbitrary: day rule: less_induct)
  case less
  show ?case
  proof (cases "day > last_day")
    case True
    then show ?thesis by (subst expand_days.simps) simp
  next
    case False
    with assms [of day] have "nat (last_day + 1 - add_days z day 1) < nat (last_day + 1 - day)" by simp
    from less [OF this] expand_days_step [OF False] show ?thesis by blast
  qed
qed

text \<open>
  C37: Expanding a rule always ends, with an error or with segments, in every location in which
  the same wall clock one day later is a later instant.
\<close>

theorem expand_rule_terminates:
  assumes "\<forall>t. t < add_days z t 1"
  shows "\<exists>r. expand_rule sched rule z from til = Some r"
  using expand_days_total [of z] assms
  by (auto simp: expand_rule_def Let_def split: option.split)

subsection \<open>Locations with a constant offset\<close>

abbreviation fixed :: "int \<Rightarrow> zone" where
  "fixed c \<equiv> \<lambda>_. c"

definition noon :: "int \<Rightarrow> int \<Rightarrow> instant" where
  "noon c day = (day * 86400 + 43200 - c) * nanos"

definition local_day :: "int \<Rightarrow> instant \<Rightarrow> int" where
  "local_day c t = (t div nanos + c) div 86400"

lemma nanos_pos [simp]: "0 < nanos" "nanos \<noteq> 0"
  by (simp_all add: nanos_def)

lemma nanos_le_iff: "a * nanos \<le> t \<longleftrightarrow> a \<le> t div nanos"
proof
  assume "a * nanos \<le> t"
  then have "a * nanos div nanos \<le> t div nanos" by (rule zdiv_mono1) simp
  then show "a \<le> t div nanos" by simp
next
  assume "a \<le> t div nanos"
  then have "a * nanos \<le> t div nanos * nanos" by (rule mult_right_mono) (simp add: less_imp_le)
  also have "\<dots> \<le> t" using div_mult_mod_eq [of t nanos] pos_mod_sign [OF nanos_pos(1), of t] by linarith
  finally show "a * nanos \<le> t" .
qed

lemma nanos_less_iff: "t < a * nanos \<longleftrightarrow> t div nanos < a"
  using nanos_le_iff [of a t] by linarith

lemma go_date_fixed: "go_date y m d s (fixed c) = (days_from_civil y m d * 86400 + s - c) * nanos"
  by (simp add: go_date_def unix_wall_def Let_def)

lemma local_seconds_fixed [simp]: "local_seconds (fixed c) (a * nanos) = a + c"
  by (simp add: local_seconds_def)

lemma secs_of_day: "0 \<le> s \<Longrightarrow> s < 86400 \<Longrightarrow> (day * 86400 + s) div 86400 = day"
  "0 \<le> s \<Longrightarrow> s < 86400 \<Longrightarrow> (day * 86400 + s) mod 86400 = s" for day s :: int
  by (simp_all add: mod_pos_pos_trivial div_pos_pos_trivial)

lemma local_date_fixed:
  "0 \<le> s \<Longrightarrow> s < 86400 \<Longrightarrow> local_date (fixed c) ((day * 86400 + s - c) * nanos) = civil_from_days day"
  by (simp add: local_date_def secs_of_day)

lemma local_minutes_fixed:
  "0 \<le> m \<Longrightarrow> m < 1440 \<Longrightarrow> local_minutes (fixed c) ((day * 86400 + m * 60 - c) * nanos) = m"
  using secs_of_day(2) [of "m * 60" day] by (simp add: local_minutes_def)

lemma days_of_case:
  "(case civil_from_days day of (y, m, d) \<Rightarrow> f (days_from_civil y m (d + n))) = f (day + n)"
  using days_of_civil_from_days [of day]
  by (cases "civil_from_days day") (simp add: days_from_civil_add del: days_of_civil_from_days)

lemma noon_date [simp]: "local_date (fixed c) (noon c day) = civil_from_days day"
  unfolding noon_def by (rule local_date_fixed) simp_all

lemma noon_weekday [simp]: "local_weekday (fixed c) (noon c day) = weekday_of_days day"
  using secs_of_day(1) [of 43200 day] by (simp add: local_weekday_def noon_def)

lemma noon_add [simp]: "add_days (fixed c) (noon c day) n = noon c (day + n)"
proof -
  have "local_seconds (fixed c) (noon c day) mod 86400 = 43200"
    using secs_of_day(2) [of 43200 day] by (simp add: noon_def)
  then show ?thesis
    unfolding add_days_def noon_date go_date_fixed
    using days_of_case [of "noon c" n day] by (simp add: noon_def [symmetric])
qed

lemma local_noon_fixed: "local_noon (fixed c) t = noon c (local_day c t)"
proof -
  have "local_date (fixed c) t = civil_from_days (local_day c t)"
    by (simp add: local_date_def local_seconds_def local_day_def)
  then show ?thesis
    unfolding local_noon_def go_date_fixed
    using days_of_case [of "noon c" 0 "local_day c t"] by (simp add: noon_def [symmetric])
qed

lemma noon_less [simp]: "noon c a < noon c b \<longleftrightarrow> a < b"
  by (simp add: noon_def)

lemma wall_instants_fixed:
  assumes "civil_from_days day = (y, m, d)" and "0 \<le> k" and "k < 1440"
  shows "wall_instants y m d k (fixed c) = [(day * 86400 + k * 60 - c) * nanos]"
proof -
  have day: "days_from_civil y m d = day" using days_of_civil_from_days [of day] assms(1) by simp
  have "go_date y m d (k * 60) utc = (day * 86400 + k * 60) * nanos"
    by (simp add: go_date_def unix_wall_def day utc_def)
  moreover have "(day * 86400 + k * 60) * nanos - c * nanos = (day * 86400 + k * 60 - c) * nanos"
    by (simp add: left_diff_distrib)
  moreover have "local_date (fixed c) ((day * 86400 + k * 60 - c) * nanos) = (y, m, d)"
    using local_date_fixed [of "k * 60" c day] assms by simp
  moreover note local_minutes_fixed [OF assms(2,3), of c day]
  ultimately show ?thesis by (simp add: wall_instants_def)
qed

lemma resolve_wall_fixed:
  assumes "civil_from_days day = (y, m, d)" and "0 \<le> k" and "k < 1440"
  shows "resolve_wall y m d k (fixed c) b i = ((day * 86400 + k * 60 - c) * nanos, None)"
  by (simp add: resolve_wall_def wall_instants_fixed [OF assms])

subsection \<open>A weekly rule at a constant offset\<close>

text \<open>The segment of the rule that starts on a given day.\<close>

definition day_segment :: "schedule \<Rightarrow> int \<Rightarrow> int \<Rightarrow> int \<Rightarrow> int \<Rightarrow> int \<Rightarrow> segment" where
  "day_segment sched c start_minutes end_minutes wrap day =
     \<lparr>iv_start = (day * 86400 + start_minutes * 60 - c) * nanos,
      iv_end = ((day + wrap) * 86400 + end_minutes * 60 - c) * nanos,
      sg_schedule_id = sc_id sched, sg_schedule_name = sc_name sched\<rparr>"

lemma rule_day_fixed:
  assumes "0 \<le> sm" "sm < 1440" "0 \<le> em" "em < 1440"
  shows "rule_day sched (fixed c) sm em wrap (noon c day) = (day_segment sched c sm em wrap day, [])"
proof -
  obtain y m d where s: "civil_from_days day = (y, m, d)" by (cases "civil_from_days day")
  obtain y' m' d' where e: "civil_from_days (day + wrap) = (y', m', d')"
    by (cases "civil_from_days (day + wrap)")
  show ?thesis
    by (simp add: rule_day_def s e resolve_wall_fixed [OF s assms(1,2)]
        resolve_wall_fixed [OF e assms(3,4)] day_segment_def)
qed

lemma expand_days_fixed:
  assumes on_day: "\<And>day. on_day (noon c day) = (seg day, [])"
  shows "expand_days on_day (fixed c) wd from til (noon c final) (noon c day) =
     Some (map seg (filter (\<lambda>k. weekday_of_days k = wd \<and> in_window from til (seg k)) [day..final]), [])"
proof (induction "nat (final + 1 - day)" arbitrary: day rule: less_induct)
  case less
  show ?case
  proof (cases "day > final")
    case True
    then show ?thesis by (subst expand_days.simps) simp
  next
    case False
    then have "nat (final + 1 - (day + 1)) < nat (final + 1 - day)" by simp
    from less [OF this] False show ?thesis
      by (subst expand_days.simps) (simp add: on_day upto_rec1)
  qed
qed

lemma expand_rule_fixed:
  assumes "parse_wall_minutes (wr_start_time rule) = Some sm" "0 \<le> sm" "sm < 1440"
    and "parse_wall_minutes (wr_end_time rule) = Some em" "0 \<le> em" "em < 1440"
  shows "expand_rule sched rule (fixed c) from til = Some (Inr
     (map (day_segment sched c sm em (rule_wrap_days rule))
        (filter (\<lambda>k. weekday_of_days k = wr_start_weekday rule
            \<and> in_window from til (day_segment sched c sm em (rule_wrap_days rule) k))
          [local_day c from - (rule_wrap_days rule + 1)..local_day c til]), []))"
proof -
  let ?w = "rule_wrap_days rule"
  have "expand_days (rule_day sched (fixed c) sm em ?w) (fixed c) (wr_start_weekday rule) from til
      (noon c (local_day c til)) (noon c (local_day c from - (?w + 1)))
    = Some (map (day_segment sched c sm em ?w)
        (filter (\<lambda>k. weekday_of_days k = wr_start_weekday rule
            \<and> in_window from til (day_segment sched c sm em ?w k))
          [local_day c from - (?w + 1)..local_day c til]), [])"
    by (rule expand_days_fixed) (rule rule_day_fixed [OF assms(2,3,5,6)])
  then show ?thesis
    by (simp only: expand_rule_def assms(1,4) option.case Let_def local_noon_fixed noon_add
        add_uminus_conv_diff option.map)
qed

subsection \<open>The arc of the week\<close>

text \<open>Seconds since Sunday 00:00 on the local clock; 1 January 1970 was a Thursday.\<close>

definition week_second :: "int \<Rightarrow> instant \<Rightarrow> int" where
  "week_second c t = (t div nanos + c + 4 * 86400) mod 604800"

text \<open>
  The rule's meaning: from its start week-minute up to its end week-minute, around the end of
  the week when the end is not later; a rule that ends where it starts is the whole week.
\<close>

definition rule_arc :: "weekly_rule \<Rightarrow> int \<Rightarrow> int \<Rightarrow> int" where
  "rule_arc rule sm em =
     (let s = week_minutes (wr_start_weekday rule) sm; e = week_minutes (wr_end_weekday rule) em in
      if e = s then 604800 else (e - s) * 60 mod 604800)"

definition in_rule :: "int \<Rightarrow> weekly_rule \<Rightarrow> instant \<Rightarrow> bool" where
  "in_rule c rule t \<longleftrightarrow>
     (case (parse_wall_minutes (wr_start_time rule), parse_wall_minutes (wr_end_time rule)) of
        (Some sm, Some em) \<Rightarrow>
          (week_second c t - week_minutes (wr_start_weekday rule) sm * 60) mod 604800 < rule_arc rule sm em
      | _ \<Rightarrow> False)"

definition valid_rule :: "weekly_rule \<Rightarrow> bool" where
  "valid_rule rule \<longleftrightarrow> wr_start_weekday rule \<in> {0..6} \<and> wr_end_weekday rule \<in> {0..6}
     \<and> parse_wall_minutes (wr_start_time rule) \<noteq> None \<and> parse_wall_minutes (wr_end_time rule) \<noteq> None"

lemma digit_value_range: "is_digit c \<Longrightarrow> 0 \<le> digit_value c \<and> digit_value c \<le> 9"
  by (simp add: is_digit_def digit_value_def)

lemma parse_wall_minutes_range:
  assumes "parse_wall_minutes s = Some m"
  shows "0 \<le> m" and "m < 1440"
proof -
  from assms have d: "is_digit (s ! 0)" "is_digit (s ! 1)" "is_digit (s ! 3)" "is_digit (s ! 4)"
    by (auto simp: parse_wall_minutes_def split: if_splits)
  from assms show "0 \<le> m" "m < 1440"
    using d [THEN digit_value_range]
    by (auto simp: parse_wall_minutes_def Let_def split: if_splits)
qed

lemma rule_wrap_seconds:
  assumes "parse_wall_minutes (wr_start_time rule) = Some sm"
    and "parse_wall_minutes (wr_end_time rule) = Some em" and "valid_rule rule"
  shows "rule_wrap_days rule * 86400 + (em - sm) * 60 = rule_arc rule sm em"
    and "0 < rule_arc rule sm em" and "rule_arc rule sm em \<le> 604800"
    and "0 \<le> rule_wrap_days rule" and "rule_wrap_days rule \<le> 7"
proof -
  note r = parse_wall_minutes_range [OF assms(1)] parse_wall_minutes_range [OF assms(2)]
  define s e where "s = week_minutes (wr_start_weekday rule) sm"
    and "e = week_minutes (wr_end_weekday rule) em"
  have bounds: "0 \<le> s" "s < 10080" "0 \<le> e" "e < 10080"
    using assms(3) r by (auto simp: s_def e_def week_minutes_def valid_rule_def)
  have wrap: "rule_wrap_days rule = wr_end_weekday rule - wr_start_weekday rule + (if e \<le> s then 7 else 0)"
    by (simp add: rule_wrap_days_def assms(1,2) s_def e_def Let_def)
  have len: "rule_wrap_days rule * 86400 + (em - sm) * 60 = (e - s) * 60 + (if e \<le> s then 604800 else 0)"
    unfolding wrap
    by (cases "e \<le> s"; simp only: if_True if_False; simp add: s_def e_def week_minutes_def)
  have arc: "rule_arc rule sm em = (e - s) * 60 + (if e \<le> s then 604800 else 0)"
  proof (cases "e < s")
    case True
    then have "(e - s) * 60 mod 604800 = ((e - s) * 60 + 604800) mod 604800" by simp
    also have "\<dots> = (e - s) * 60 + 604800" using True bounds by (intro mod_pos_pos_trivial) simp_all
    finally show ?thesis using True by (simp add: rule_arc_def s_def [symmetric] e_def [symmetric])
  next
    case False
    have "(e - s) * 60 mod 604800 = (e - s) * 60"
      using False bounds by (intro mod_pos_pos_trivial) simp_all
    with False show ?thesis
      by (cases "e = s") (simp_all add: rule_arc_def s_def [symmetric] e_def [symmetric])
  qed
  show "rule_wrap_days rule * 86400 + (em - sm) * 60 = rule_arc rule sm em" by (simp only: len arc)
  show "0 < rule_arc rule sm em" "rule_arc rule sm em \<le> 604800"
    using bounds by (auto simp: arc)
  show "0 \<le> rule_wrap_days rule" "rule_wrap_days rule \<le> 7"
    using assms(3) r bounds by (auto simp: wrap valid_rule_def s_def e_def week_minutes_def)
qed

lemma arc_progression:
  assumes "0 < len" and "len \<le> p"
  shows "(\<exists>k. k * p + s \<le> w \<and> w < k * p + s + len) \<longleftrightarrow> (w - s) mod p < (len::int)"
proof
  assume "\<exists>k. k * p + s \<le> w \<and> w < k * p + s + len"
  then obtain k where k: "k * p + s \<le> w" "w < k * p + s + len" by blast
  have "(w - s) mod p = (w - s - k * p) mod p" by (metis mod_mult_self1 diff_conv_add_uminus minus_mult_left)
  also have "\<dots> = w - s - k * p" using k assms by (intro mod_pos_pos_trivial) simp_all
  finally show "(w - s) mod p < len" using k by simp
next
  assume l: "(w - s) mod p < len"
  have p: "0 < p" using assms by simp
  have "w - s = (w - s) div p * p + (w - s) mod p" by simp
  with l p show "\<exists>k. k * p + s \<le> w \<and> w < k * p + s + len"
    using pos_mod_sign [OF p, of "w - s"] by (intro exI [of _ "(w - s) div p"]) linarith
qed

lemma day_segment_contains:
  assumes "parse_wall_minutes (wr_start_time rule) = Some sm"
    and "parse_wall_minutes (wr_end_time rule) = Some em" and "valid_rule rule"
  shows "(\<exists>k. weekday_of_days k = wr_start_weekday rule
      \<and> iv_start (day_segment sched c sm em (rule_wrap_days rule) k) \<le> t
      \<and> t < iv_end (day_segment sched c sm em (rule_wrap_days rule) k)) \<longleftrightarrow> in_rule c rule t"
proof -
  let ?sw = "wr_start_weekday rule"
  let ?seg = "day_segment sched c sm em (rule_wrap_days rule)"
  define len where "len = rule_arc rule sm em"
  define w where "w = t div nanos + c + 4 * 86400"
  define s where "s = week_minutes ?sw sm * 60"
  note wrap = rule_wrap_seconds [OF assms]
  have sw: "0 \<le> ?sw" "?sw < 7" using assms(3) by (auto simp: valid_rule_def)
  have days: "weekday_of_days k = ?sw \<longleftrightarrow> (\<exists>j. k + 4 = 7 * j + ?sw)" for k
  proof
    assume "weekday_of_days k = ?sw"
    then show "\<exists>j. k + 4 = 7 * j + ?sw"
      using mult_div_mod_eq [of 7 "k + 4"]
      by (intro exI [of _ "(k + 4) div 7"]) (simp add: weekday_of_days_def)
  next
    assume "\<exists>j. k + 4 = 7 * j + ?sw"
    then obtain j where "k + 4 = ?sw + j * 7" by (auto simp: ac_simps)
    then have "(k + 4) mod 7 = ?sw mod 7" by simp
    then show "weekday_of_days k = ?sw"
      using sw by (simp add: weekday_of_days_def mod_pos_pos_trivial)
  qed
  have seg: "iv_start (?seg k) \<le> t \<and> t < iv_end (?seg k) \<longleftrightarrow> j * 604800 + s \<le> w \<and> w < j * 604800 + s + len"
    if "k + 4 = 7 * j + ?sw" for k j
  proof -
    have k: "k = 7 * j + ?sw - 4" using that by simp
    show ?thesis
      unfolding day_segment_def interval.select_convs nanos_le_iff nanos_less_iff len_def wrap(1) [symmetric]
      by (simp add: k w_def s_def week_minutes_def algebra_simps)
  qed
  have "(\<exists>k. weekday_of_days k = ?sw \<and> iv_start (?seg k) \<le> t \<and> t < iv_end (?seg k))
      \<longleftrightarrow> (\<exists>j. j * 604800 + s \<le> w \<and> w < j * 604800 + s + len)"
  proof
    assume "\<exists>k. weekday_of_days k = ?sw \<and> iv_start (?seg k) \<le> t \<and> t < iv_end (?seg k)"
    then show "\<exists>j. j * 604800 + s \<le> w \<and> w < j * 604800 + s + len"
      using days seg by blast
  next
    assume "\<exists>j. j * 604800 + s \<le> w \<and> w < j * 604800 + s + len"
    then obtain j where j: "j * 604800 + s \<le> w \<and> w < j * 604800 + s + len" by blast
    have "(7 * j + ?sw - 4) + 4 = 7 * j + ?sw" by simp
    then show "\<exists>k. weekday_of_days k = ?sw \<and> iv_start (?seg k) \<le> t \<and> t < iv_end (?seg k)"
      using days seg j by blast
  qed
  also have "\<dots> \<longleftrightarrow> (w - s) mod 604800 < len"
    using wrap(2,3) by (intro arc_progression) (simp_all add: len_def)
  also have "(w - s) mod 604800 = (week_second c t - s) mod 604800"
    by (simp add: week_second_def w_def mod_diff_left_eq)
  finally show ?thesis by (simp add: in_rule_def assms len_def s_def)
qed

lemma covers_expand_rule:
  assumes "valid_rule rule" and "from \<le> t" and "t < til"
    and "expand_rule sched rule (fixed c) from til = Some (Inr (segs, notes))"
  shows "covers segs t \<longleftrightarrow> in_rule c rule t"
proof -
  obtain sm em where p: "parse_wall_minutes (wr_start_time rule) = Some sm"
    "parse_wall_minutes (wr_end_time rule) = Some em"
    using assms(1) by (auto simp: valid_rule_def)
  note r = parse_wall_minutes_range [OF p(1)] parse_wall_minutes_range [OF p(2)]
  note wrap = rule_wrap_seconds [OF p assms(1)]
  let ?seg = "day_segment sched c sm em (rule_wrap_days rule)"
  let ?days = "[local_day c from - (rule_wrap_days rule + 1)..local_day c til]"
  have segs: "segs = map ?seg (filter (\<lambda>k. weekday_of_days k = wr_start_weekday rule
      \<and> in_window from til (?seg k)) ?days)"
    using expand_rule_fixed [OF p(1) r(1,2) p(2) r(3,4), of sched c "from" til] assms(4) by simp
  have in_days: "k \<in> set ?days" "in_window from til (?seg k)"
    if "iv_start (?seg k) \<le> t" "t < iv_end (?seg k)" for k
  proof -
    have lo: "k * 86400 + sm * 60 - c \<le> t div nanos"
      and hi: "t div nanos < (k + rule_wrap_days rule) * 86400 + em * 60 - c"
      using that by (simp_all add: day_segment_def nanos_le_iff nanos_less_iff)
    have m: "from div nanos \<le> t div nanos" "t div nanos \<le> til div nanos"
      using assms(2,3) by (auto intro: zdiv_mono1)
    have "k * 86400 \<le> til div nanos + c" using lo m r by simp
    then have "k * 86400 div 86400 \<le> local_day c til" unfolding local_day_def by (rule zdiv_mono1) simp
    moreover have "from div nanos + c \<le> (k + rule_wrap_days rule) * 86400 + 86399 + 1"
      using hi m r by simp
    then have "local_day c from \<le> (k + rule_wrap_days rule + 1) * 86400 div 86400"
      unfolding local_day_def by (intro zdiv_mono1) simp_all
    ultimately show "k \<in> set ?days" by simp
    show "in_window from til (?seg k)" using that assms(2,3) by (simp add: in_window_def)
  qed
  have "covers segs t \<longleftrightarrow> (\<exists>k. weekday_of_days k = wr_start_weekday rule
      \<and> iv_start (?seg k) \<le> t \<and> t < iv_end (?seg k))"
    using in_days by (auto simp: segs covers_iff simp del: set_upto)
  also have "\<dots> \<longleftrightarrow> in_rule c rule t" by (rule day_segment_contains [OF p assms(1)])
  finally show ?thesis .
qed

lemma expand_rule_fixed_total:
  assumes "valid_rule rule"
  shows "\<exists>segs. expand_rule sched rule (fixed c) from til = Some (Inr (segs, []))"
proof -
  obtain sm em where p: "parse_wall_minutes (wr_start_time rule) = Some sm"
    "parse_wall_minutes (wr_end_time rule) = Some em"
    using assms by (auto simp: valid_rule_def)
  note r = parse_wall_minutes_range [OF p(1)] parse_wall_minutes_range [OF p(2)]
  show ?thesis
    using expand_rule_fixed [OF p(1) r(1,2) p(2) r(3,4), of sched c "from" til] by blast
qed

lemma covers_expand_rules:
  assumes "\<forall>rule \<in> set rules. valid_rule rule" and "from \<le> t" and "t < til"
  shows "\<exists>segs. expand_rules sched rules (fixed c) from til = Some (Inr (segs, []))
     \<and> covers segs t = list_ex (\<lambda>rule. in_rule c rule t) rules"
  using assms(1)
proof (induction rules)
  case Nil
  then show ?case by simp
next
  case (Cons rule rules)
  then obtain segs' where 1: "expand_rules sched rules (fixed c) from til = Some (Inr (segs', []))"
    "covers segs' t = list_ex (\<lambda>rule. in_rule c rule t) rules" by auto
  from Cons.prems have v: "valid_rule rule" by simp
  from expand_rule_fixed_total [OF v] obtain segs where
    2: "expand_rule sched rule (fixed c) from til = Some (Inr (segs, []))" by blast
  note covers_expand_rule [OF v assms(2,3) 2]
  with 1 2 show ?case by (simp add: then_expand_def)
qed

subsection \<open>Dated windows at a constant offset\<close>

text \<open>The seconds on the local clock, counted from the epoch, that a parsed wall clock reads.\<close>

definition wall_seconds :: "int \<times> int \<times> int \<times> int \<Rightarrow> int" where
  "wall_seconds w = (case w of (y, m, d, k) \<Rightarrow> days_from_civil y m d * 86400 + k * 60)"

definition in_dated_window :: "int \<Rightarrow> dated_window \<Rightarrow> instant \<Rightarrow> bool" where
  "in_dated_window c w t \<longleftrightarrow>
     (case (parse_wall_date_time (dw_starts_at w), parse_wall_date_time (dw_ends_at w)) of
        (Some s, Some e) \<Rightarrow> wall_seconds s \<le> t div nanos + c \<and> t div nanos + c < wall_seconds e
      | _ \<Rightarrow> False)"

definition valid_window :: "dated_window \<Rightarrow> bool" where
  "valid_window w \<longleftrightarrow> parse_wall_date_time (dw_starts_at w) \<noteq> None
     \<and> parse_wall_date_time (dw_ends_at w) \<noteq> None"

lemma parse_wall_date_time_date:
  assumes "parse_wall_date_time s = Some (y, m, d, k)"
  shows "civil_from_days (days_from_civil y m d) = (y, m, d)" and "0 \<le> k" and "k < 1440"
proof -
  from assms have k: "parse_wall_minutes (drop 11 s) = Some k"
    and date: "local_date utc (go_date y m d 0 utc) = (y, m, d)"
    by (auto simp: parse_wall_date_time_def Let_def split: if_splits option.splits)
  from parse_wall_minutes_range [OF k] show "0 \<le> k" "k < 1440" .
  have u: "utc = fixed 0" by (rule ext) (simp add: utc_def)
  from date have "local_date (fixed 0) ((days_from_civil y m d * 86400 + 0 - 0) * nanos) = (y, m, d)"
    unfolding u go_date_fixed .
  with local_date_fixed [of 0 0 "days_from_civil y m d"]
  show "civil_from_days (days_from_civil y m d) = (y, m, d)" by simp
qed

lemma resolve_window_boundary_fixed:
  assumes "parse_wall_date_time s = Some w"
  shows "resolve_window_boundary s (fixed c) b i = Some ((wall_seconds w - c) * nanos, None)"
proof -
  obtain y m d k where w: "w = (y, m, d, k)" by (cases w)
  note p = parse_wall_date_time_date [OF assms [unfolded w]]
  show ?thesis
    by (simp add: resolve_window_boundary_def assms w resolve_wall_fixed [OF p] wall_seconds_def)
qed

lemma covers_expand_windows:
  assumes "\<forall>w \<in> set ws. valid_window w" and "from \<le> t" and "t < til"
    and "tz (sc_timezone sched) = Some (fixed c)"
  shows "\<exists>segs. expand_windows tz sched ws from til = Some (Inr (segs, []))
     \<and> covers segs t = list_ex (\<lambda>w. in_dated_window c w t) ws"
  using assms(1)
proof (induction ws)
  case Nil
  then show ?case by simp
next
  case (Cons w ws)
  then obtain segs where IH: "expand_windows tz sched ws from til = Some (Inr (segs, []))"
    "covers segs t = list_ex (\<lambda>w. in_dated_window c w t) ws" by auto
  from Cons.prems obtain s e where p: "parse_wall_date_time (dw_starts_at w) = Some s"
    "parse_wall_date_time (dw_ends_at w) = Some e" by (auto simp: valid_window_def)
  let ?s = "(wall_seconds s - c) * nanos" and ?e = "(wall_seconds e - c) * nanos"
  have b: "resolve_window_bounds_with_notes tz sched w = Inr (?s, ?e, [])"
    by (simp add: resolve_window_bounds_with_notes_def assms(4)
        resolve_window_boundary_fixed [OF p(1)] resolve_window_boundary_fixed [OF p(2)])
  have "in_dated_window c w t \<longleftrightarrow> ?s \<le> t \<and> t < ?e"
    by (simp add: in_dated_window_def p nanos_le_iff nanos_less_iff diff_le_eq less_diff_eq)
  with assms(2,3) have iff: "in_dated_window c w t \<longleftrightarrow> ?s < ?e \<and> ?s < til \<and> from < ?e \<and> ?s \<le> t \<and> t < ?e"
    by linarith
  show ?case
  proof (cases "?s < ?e \<and> ?s < til \<and> from < ?e")
    case True
    then show ?thesis using iff by (simp add: b IH then_expand_def)
  next
    case False
    then have "\<not> in_dated_window c w t" using iff by blast
    with False show ?thesis by (auto simp: b IH then_expand_def)
  qed
qed

subsection \<open>All schedules together\<close>

definition coverage_active :: "int \<Rightarrow> coverage \<Rightarrow> instant \<Rightarrow> bool" where
  "coverage_active c cov t \<longleftrightarrow>
     (case sc_kind (cv_schedule cov) of
        Weekly \<Rightarrow> list_ex (\<lambda>rule. in_rule c rule t) (cv_rules cov)
      | Dated \<Rightarrow> list_ex (\<lambda>w. in_dated_window c w t) (cv_windows cov)
      | OtherKind _ \<Rightarrow> False)"

definition valid_coverage :: "(string \<Rightarrow> zone option) \<Rightarrow> (coverage \<Rightarrow> int) \<Rightarrow> coverage \<Rightarrow> bool" where
  "valid_coverage tz off cov \<longleftrightarrow> tz (sc_timezone (cv_schedule cov)) = Some (fixed (off cov))
     \<and> list_all valid_rule (cv_rules cov) \<and> list_all valid_window (cv_windows cov)"

lemma add_new_notes_Nil [simp]: "add_new_notes ns [] = ns"
  by simp

lemma covers_expand_each:
  assumes "from \<le> t" and "t < til"
  shows "list_all (valid_coverage tz off) covs \<Longrightarrow>
    \<exists>segs'. expand_each tz covs from til segs notes = Some (Inr (segs', notes))
      \<and> (covers segs' t \<longleftrightarrow> covers segs t \<or> list_ex (\<lambda>cov. coverage_active (off cov) cov t) covs)"
proof (induction covs arbitrary: segs)
  case Nil
  then show ?case by simp
next
  case (Cons cov covs)
  from Cons.prems have v: "tz (sc_timezone (cv_schedule cov)) = Some (fixed (off cov))"
    "\<forall>r \<in> set (cv_rules cov). valid_rule r" "\<forall>w \<in> set (cv_windows cov). valid_window w"
    and IH: "\<And>segs. \<exists>segs'. expand_each tz covs from til segs notes = Some (Inr (segs', notes))
      \<and> (covers segs' t \<longleftrightarrow> covers segs t \<or> list_ex (\<lambda>cov. coverage_active (off cov) cov t) covs)"
    using Cons.IH by (auto simp: valid_coverage_def list_all_iff)
  obtain ws where ws: "expand_weekly tz cov from til = Some (Inr (ws, []))"
    "covers ws t = list_ex (\<lambda>r. in_rule (off cov) r t) (cv_rules cov)"
    using covers_expand_rules [OF v(2) assms] v(1) by (auto simp: expand_weekly_def)
  obtain ds where ds: "expand_dated tz cov from til = Some (Inr (ds, []))"
    "covers ds t = list_ex (\<lambda>w. in_dated_window (off cov) w t) (cv_windows cov)"
    using covers_expand_windows [of "cv_windows cov" "from" t til tz "cv_schedule cov" "off cov"]
      v(1,3) assms by (auto simp: expand_dated_def)
  consider (w) "sc_kind (cv_schedule cov) = Weekly" | (d) "sc_kind (cv_schedule cov) = Dated"
    | (x) k where "sc_kind (cv_schedule cov) = OtherKind k" by (cases "sc_kind (cv_schedule cov)")
  then show ?case
  proof cases
    case w
    then show ?thesis
      using IH [of "segs @ merge_segments ws"] IH [of segs] ws
      by (cases "cv_rules cov = []")
        (auto simp: then_expand_def coverage_active_def covers_merge_segments)
  next
    case d
    then show ?thesis
      using IH [of "segs @ merge_segments ds"] IH [of segs] ds
      by (cases "cv_windows cov = []")
        (auto simp: then_expand_def coverage_active_def covers_merge_segments)
  next
    case x
    then show ?thesis using IH [of segs] by (simp add: coverage_active_def)
  qed
qed

text \<open>
  With zones that have no transitions and valid rules and windows, expansion succeeds, its
  segments come in order of their start, and inside the requested window they cover exactly the
  instants whose local clock lies in some weekly rule's arc of the week or in some dated window:
  nothing is frozen that the schedules do not say, and nothing they say is missed.
\<close>

lemma expand_coverage_exact:
  assumes "list_all (valid_coverage tz off) covs" and "from \<le> t" and "t < til"
  shows "\<exists>segs. expand_coverage tz covs from til = Some (Inr (segs, []))
     \<and> sorted (map iv_start segs)
     \<and> (covers segs t \<longleftrightarrow> list_ex (\<lambda>cov. coverage_active (off cov) cov t) covs)"
proof -
  obtain segs where e: "expand_each tz covs from til [] [] = Some (Inr (segs, []))"
    "covers segs t \<longleftrightarrow> list_ex (\<lambda>cov. coverage_active (off cov) cov t) covs"
    using covers_expand_each [OF assms(2,3,1), of "[]" "[]"] by auto
  let ?key = "\<lambda>s::segment. (iv_start s, sg_schedule_id s)"
  have "sorted (map ?key (sort_key ?key segs))" by (rule sorted_sort_key)
  then have "sorted (map iv_start (sort_key ?key segs))"
    by (auto simp: sorted_map elim!: sorted_wrt_mono_rel [rotated])
  with e show ?thesis by (simp add: expand_coverage_def then_expand_def)
qed

definition weekend_schedule :: schedule where
  "weekend_schedule = \<lparr>sc_id = 4, sc_repository_id = 1, sc_branch = ''main'', sc_name = ''Weekend'',
     sc_kind = Weekly, sc_timezone = ''UTC'', sc_reason = [], sc_active = True,
     sc_suppressed_until = None, sc_created_by = None, sc_created_by_kind = [],
     sc_created_at = 0, sc_updated_at = 0\<rparr>"

text \<open>Friday 16:00 to Monday 08:00.\<close>

definition weekend_rule :: weekly_rule where
  "weekend_rule = \<lparr>wr_id = 1, wr_schedule_id = 4, wr_start_weekday = 5, wr_start_time = ''16:00'',
     wr_end_weekday = 1, wr_end_time = ''08:00'', wr_created_at = 0\<rparr>"

definition weekend_coverage :: coverage where
  "weekend_coverage = \<lparr>cv_schedule = weekend_schedule, cv_rules = [weekend_rule], cv_windows = []\<rparr>"

definition utc_only :: "string \<Rightarrow> zone option" where
  "utc_only name = (if name = ''UTC'' then Some utc else None)"

lemma weekend_rule_parses:
  "parse_wall_minutes ''16:00'' = Some 960" "parse_wall_minutes ''08:00'' = Some 480"
  by (simp_all add: parse_wall_minutes_def is_digit_def digit_value_def)

lemma expand_rule_terminates_witness:
  "\<exists>r. expand_rule weekend_schedule weekend_rule utc 0 1000 = Some r"
proof (rule expand_rule_terminates, intro allI)
  fix t :: instant
  have "local_date utc t = civil_from_days (t div nanos div 86400)"
    by (simp add: local_date_def local_seconds_def utc_def)
  then have "add_days utc t 1 = (t div nanos div 86400 * 86400 + 86400 + t div nanos mod 86400) * nanos"
    using days_of_case [of "\<lambda>k. (k * 86400 + t div nanos mod 86400) * nanos" 1 "t div nanos div 86400"]
    by (simp add: add_days_def go_date_def unix_wall_def local_seconds_def utc_def algebra_simps)
  also have "\<dots> = (t div nanos + 86400) * nanos" by (simp add: algebra_simps)
  finally have "add_days utc t 1 = (t div nanos + 86400) * nanos" .
  moreover have "t < (t div nanos + 1) * nanos" unfolding nanos_less_iff by simp
  ultimately show "t < add_days utc t 1" by (simp add: algebra_simps nanos_def)
qed

subsection \<open>Wall clock text\<close>

abbreviation digit :: "int \<Rightarrow> char" where
  "digit n \<equiv> char_of (48 + nat n)"

lemma digit_value_digit [simp]: "0 \<le> n \<Longrightarrow> n < 10 \<Longrightarrow> digit_value (digit n) = n"
  by (simp add: digit_value_def)

lemma is_digit_digit [simp]: "0 \<le> n \<Longrightarrow> n < 10 \<Longrightarrow> is_digit (digit n)"
  by (simp add: is_digit_def)

lemma digit_digit_value: "is_digit c \<Longrightarrow> digit (digit_value c) = c"
  by (simp add: is_digit_def digit_value_def nat_diff_distrib)

lemma format_two_digits:
  assumes "0 \<le> a" "a < 10" "0 \<le> b" "b < 10"
  shows "format_padded 2 (a * 10 + b) = [digit a, digit b]"
proof (cases "a = 0")
  case True
  with assms have "decimal (nat (a * 10 + b)) = [digit b]" by (subst decimal.simps) auto
  moreover have "(of_char (CHR ''0'') :: nat) = of_char (digit 0)" by simp
  then have "CHR ''0'' = digit 0" by (simp only: of_char_eq_iff)
  ultimately show ?thesis using assms True
    by (simp add: format_padded_def zero_pad_def)
next
  case False
  have d: "nat (a * 10 + b) div 10 = nat a" "nat (a * 10 + b) mod 10 = nat b"
    using assms by (simp_all add: nat_add_distrib nat_mult_distrib)
  have "\<not> nat (a * 10 + b) < 10" using assms False by simp
  moreover have "decimal (nat a) = [digit a]" using assms by (subst decimal.simps) auto
  ultimately have "decimal (nat (a * 10 + b)) = [digit a, digit b]"
    by (subst decimal.simps) (simp only: d if_False append.simps)
  with assms show ?thesis by (simp add: format_padded_def zero_pad_def)
qed

lemma minutes_split: "0 \<le> r \<Longrightarrow> r < 60 \<Longrightarrow> (k * 60 + r) div 60 = k \<and> (k * 60 + r) mod 60 = (r::int)"
  by (simp add: div_pos_pos_trivial mod_pos_pos_trivial)

lemma format_wall_minutes_digits:
  assumes "0 \<le> a" "a < 10" "0 \<le> b" "b < 10" "0 \<le> c" "c < 10" "0 \<le> d" "d < 10" "c * 10 + d < 60"
  shows "format_wall_minutes ((a * 10 + b) * 60 + (c * 10 + d))
     = [digit a, digit b, CHR '':'', digit c, digit d]"
proof -
  have "((a * 10 + b) * 60 + (c * 10 + d)) div 60 = a * 10 + b"
    and "((a * 10 + b) * 60 + (c * 10 + d)) mod 60 = c * 10 + d"
    using minutes_split [of "c * 10 + d" "a * 10 + b"] assms by simp_all
  then show ?thesis
    using format_two_digits [OF assms(1-4)] format_two_digits [OF assms(5-8)]
    by (simp add: format_wall_minutes_def)
qed

text \<open>
  Wall-clock text and minutes correspond one to one: parsing what is printed for a minute
  of the day gives the minute back, and a text that parses is exactly what is printed for it.
\<close>

theorem wall_minutes_round_trip:
  "(if 0 \<le> m \<and> m < 1440 then parse_wall_minutes (format_wall_minutes m) = Some m else True)
   \<and> (case parse_wall_minutes s of None \<Rightarrow> True | Some k \<Rightarrow> 0 \<le> k \<and> k < 1440 \<and> format_wall_minutes k = s)"
proof
  show "if 0 \<le> m \<and> m < 1440 then parse_wall_minutes (format_wall_minutes m) = Some m else True"
  proof (cases "0 \<le> m \<and> m < 1440")
    case True
    define a b c d where "a = m div 60 div 10" and "b = m div 60 mod 10"
      and "c = m mod 60 div 10" and "d = m mod 60 mod 10"
    have h: "m div 60 < 24" "0 \<le> m div 60" using True by auto
    have eq: "a * 10 + b = m div 60" "c * 10 + d = m mod 60"
      by (simp_all add: a_def b_def c_def d_def)
    have range: "0 \<le> a" "a < 10" "0 \<le> b" "b < 10" "0 \<le> c" "c < 10" "0 \<le> d" "d < 10" "c * 10 + d < 60"
      unfolding eq(2) using h by (auto simp: a_def b_def c_def d_def)
    have m: "m = (a * 10 + b) * 60 + (c * 10 + d)" by (simp add: eq)
    have "parse_wall_minutes [digit a, digit b, CHR '':'', digit c, digit d]
        = Some ((a * 10 + b) * 60 + (c * 10 + d))"
      using range h eq by (simp add: parse_wall_minutes_def Let_def)
    with True show ?thesis using format_wall_minutes_digits [OF range] m by simp
  qed (simp only: if_False)
next
  show "case parse_wall_minutes s of None \<Rightarrow> True
      | Some k \<Rightarrow> 0 \<le> k \<and> k < 1440 \<and> format_wall_minutes k = s"
  proof (cases "parse_wall_minutes s")
    case (Some k)
    then have len: "length s = 5" and colon: "s ! 2 = CHR '':''"
      and dg: "is_digit (s ! 0)" "is_digit (s ! 1)" "is_digit (s ! 3)" "is_digit (s ! 4)"
      and k: "k = (digit_value (s ! 0) * 10 + digit_value (s ! 1)) * 60
          + (digit_value (s ! 3) * 10 + digit_value (s ! 4))"
      and small: "digit_value (s ! 3) * 10 + digit_value (s ! 4) < 60"
      by (auto simp: parse_wall_minutes_def Let_def split: if_splits)
    have "s = [s ! 0, s ! 1, s ! 2, s ! 3, s ! 4]"
      using len by (intro nth_equalityI) (auto simp: less_Suc_eq numeral_eq_Suc)
    moreover have "format_wall_minutes k = [s ! 0, s ! 1, CHR '':'', s ! 3, s ! 4]"
      unfolding k using dg [THEN digit_value_range] small
      by (subst format_wall_minutes_digits) (auto simp: digit_digit_value [OF dg(1)]
          digit_digit_value [OF dg(2), unfolded One_nat_def] digit_digit_value [OF dg(3)]
          digit_digit_value [OF dg(4)])
    ultimately show ?thesis using Some colon parse_wall_minutes_range [OF Some] by simp
  qed simp
qed

text \<open>
  A valid rule spans at least no day and at most seven, and its length is positive and at
  most one week, whatever the wrap encoding; so looking back one week and a day finds it.
\<close>

theorem rule_wrap_days_bounds:
  assumes "valid_rule rule"
  shows "0 \<le> rule_wrap_days rule \<and> rule_wrap_days rule \<le> 7"
  using rule_wrap_seconds(4,5) [OF _ _ assms] assms by (auto simp: valid_rule_def)

lemma rule_wrap_days_bounds_witness:
  "0 \<le> rule_wrap_days weekend_rule \<and> rule_wrap_days weekend_rule \<le> 7"
  by (rule rule_wrap_days_bounds) (simp add: valid_rule_def weekend_rule_def weekend_rule_parses)

end
