(* ===== verification/Decide.thy ===== *)
theory Decide
  imports Coverage "HOL-Library.Multiset"
begin

text \<open>
  The scheduler's decision for one branch (\<open>internal/scheduler/decide.go\<close>): which coverage
  counts, the block of continuous coverage around an instant, which schedule a freeze is named
  after, and what the materializer must do. C-numbered theorems state what the decision
  guarantees about the branch.
\<close>

record branch_state =
  bs_repository_id :: int
  bs_branch :: string
  bs_schedules :: "schedule list"
  bs_segments :: "segment list"
  bs_live :: "branch_freeze option"

datatype decision_action = DecisionNone | DecisionCreate | DecisionEnd | DecisionUpdate

record sched_decision =
  sd_action :: decision_action
  sd_schedule_id :: int
  sd_schedule_name :: string
  sd_reason :: string
  sd_planned_ends_at :: "instant option"
  sd_end_freeze_id :: int
  sd_update_freeze_id :: int

text \<open>\<open>Decision{Action: a}\<close>: every other field has its zero value.\<close>

definition bare_decision :: "decision_action \<Rightarrow> sched_decision" where
  "bare_decision a = \<lparr>sd_action = a, sd_schedule_id = 0, sd_schedule_name = [], sd_reason = [],
     sd_planned_ends_at = None, sd_end_freeze_id = 0, sd_update_freeze_id = 0\<rparr>"

definition planned_end :: "'a interval_scheme \<Rightarrow> instant \<Rightarrow> instant option" where
  "planned_end block window_end = (if iv_end block < window_end then Some (iv_end block) else None)"

definition planned_ends_equal :: "instant option \<Rightarrow> instant option \<Rightarrow> bool" where
  "planned_ends_equal a b =
     (case (a, b) of (Some x, Some y) \<Rightarrow> x = y | _ \<Rightarrow> a = None \<and> b = None)"

definition eligible_segments :: "branch_state \<Rightarrow> segment list" where
  "eligible_segments st =
     (let suppressed_until = foldl (\<lambda>m s. m(sc_id s \<mapsto> sc_suppressed_until s)) Map.empty (bs_schedules st) in
      filter (\<lambda>segment.
        case suppressed_until (sg_schedule_id segment) of
          None \<Rightarrow> False
        | Some None \<Rightarrow> True
        | Some (Some u) \<Rightarrow> \<not> iv_start segment < u) (bs_segments st))"

text \<open>
  \<open>sortIntervals\<close>: the inner loop swaps the element at \<open>j\<close> down while it starts before its
  neighbour.
\<close>

fun sift :: "nat \<Rightarrow> 'a interval_scheme list \<Rightarrow> 'a interval_scheme list" where
  "sift 0 xs = xs"
| "sift (Suc j) xs =
     (if iv_start (xs ! Suc j) < iv_start (xs ! j)
      then sift j (xs[Suc j := xs ! j, j := xs ! Suc j]) else xs)"

definition sort_intervals :: "'a interval_scheme list \<Rightarrow> 'a interval_scheme list" where
  "sort_intervals xs = foldl (\<lambda>ys i. sift i ys) xs [1..<length xs]"

definition union_block_containing :: "segment list \<Rightarrow> instant \<Rightarrow> interval option" where
  "union_block_containing segs now =
     (if segs = [] then None
      else List.find (\<lambda>b. \<not> iv_start b > now \<and> iv_end b > now)
        (merge_sorted (sort_intervals
           (map (\<lambda>s. \<lparr>iv_start = iv_start s, iv_end = iv_end s\<rparr>) segs))))"

definition outranks :: "schedule \<Rightarrow> schedule \<Rightarrow> bool" where
  "outranks a b =
     (if (sc_kind a = Dated) \<noteq> (sc_kind b = Dated) then sc_kind a = Dated
      else if sc_created_at a \<noteq> sc_created_at b then sc_created_at a > sc_created_at b
      else sc_id a > sc_id b)"

definition schedules_by_id :: "schedule list \<Rightarrow> int \<rightharpoonup> schedule" where
  "schedules_by_id ss = foldl (\<lambda>m s. m(sc_id s \<mapsto> s)) Map.empty ss"

definition attributing_schedule :: "branch_state \<Rightarrow> segment list \<Rightarrow> instant \<Rightarrow> schedule option" where
  "attributing_schedule st eligible now =
     foldl (\<lambda>winner segment.
        if iv_start segment > now \<or> \<not> iv_end segment > now then winner
        else case schedules_by_id (bs_schedules st) (sg_schedule_id segment) of
               None \<Rightarrow> winner
             | Some sched \<Rightarrow>
                 (case winner of None \<Rightarrow> Some sched
                  | Some w \<Rightarrow> if outranks sched w then Some sched else winner))
       None eligible"

definition decide :: "instant \<Rightarrow> instant \<Rightarrow> branch_state \<Rightarrow> sched_decision" where
  "decide now window_end st =
     (let eligible = eligible_segments st; covered = union_block_containing eligible now in
      case bs_live st of
        Some live \<Rightarrow>
          (case covered of
             None \<Rightarrow> (if fr_schedule_id live \<noteq> None
                then (bare_decision DecisionEnd) \<lparr>sd_end_freeze_id := fr_id live\<rparr>
                else bare_decision DecisionNone)
           | Some block \<Rightarrow>
               (case fr_schedule_id live of
                  None \<Rightarrow> bare_decision DecisionNone
                | Some live_schedule \<Rightarrow>
                    (case attributing_schedule st eligible now of
                       None \<Rightarrow> bare_decision DecisionNone
                     | Some winner \<Rightarrow>
                         (let planned = planned_end block window_end in
                          if sc_id winner = live_schedule \<and> sc_name winner = fr_schedule_name live
                             \<and> sc_reason winner = fr_reason live
                             \<and> planned_ends_equal planned (fr_planned_ends_at live)
                          then bare_decision DecisionNone
                          else (bare_decision DecisionUpdate)
                            \<lparr>sd_update_freeze_id := fr_id live, sd_schedule_id := sc_id winner,
                             sd_schedule_name := sc_name winner, sd_reason := sc_reason winner,
                             sd_planned_ends_at := planned\<rparr>))))
      | None \<Rightarrow>
          (case covered of
             None \<Rightarrow> bare_decision DecisionNone
           | Some block \<Rightarrow>
               (case attributing_schedule st eligible now of
                  None \<Rightarrow> bare_decision DecisionNone
                | Some winner \<Rightarrow>
                    (bare_decision DecisionCreate)
                      \<lparr>sd_schedule_id := sc_id winner, sd_schedule_name := sc_name winner,
                       sd_reason := sc_reason winner,
                       sd_planned_ends_at := planned_end block window_end\<rparr>)))"

subsection \<open>The insertion sort\<close>

text \<open>What the inner loop does to a prefix: \<open>ys\<close> is the prefix reversed.\<close>

fun insert_down :: "'a interval_scheme \<Rightarrow> 'a interval_scheme list \<Rightarrow> 'a interval_scheme list" where
  "insert_down x [] = [x]"
| "insert_down x (y # ys) =
     (if iv_start x < iv_start y then y # insert_down x ys else x # y # ys)"

lemma sift_insert_down:
  "length ys = n \<Longrightarrow> sift n (rev ys @ x # zs) = rev (insert_down x ys) @ zs"
proof (induction ys arbitrary: n zs)
  case Nil
  then show ?case by simp
next
  case (Cons y ys)
  then obtain j where j: "n = Suc j" "length ys = j" by auto
  have n1: "(rev (y # ys) @ x # zs) ! Suc j = x" and n0: "(rev (y # ys) @ x # zs) ! j = y"
    using j by (simp_all add: nth_append)
  have up: "(rev (y # ys) @ x # zs)[Suc j := y, j := x] = rev ys @ x # y # zs"
    using j by (simp add: list_update_append)
  show ?case unfolding j(1) sift.simps n1 n0 up using Cons.IH [OF j(2)] by simp
qed

lemma insert_down_mset [simp]: "mset (insert_down x ys) = add_mset x (mset ys)"
  by (induction x ys rule: insert_down.induct) auto

lemma insert_down_set [simp]: "set (insert_down x ys) = insert x (set ys)"
  by (induction x ys rule: insert_down.induct) auto

lemma insert_down_sorted:
  "sorted_wrt (\<lambda>a b. iv_start b \<le> iv_start a) ys
     \<Longrightarrow> sorted_wrt (\<lambda>a b. iv_start b \<le> iv_start a) (insert_down x ys)"
  by (induction x ys rule: insert_down.induct) auto

text \<open>Elements that start together keep their order: the newcomer stays last.\<close>

lemma insert_down_filter:
  "sorted_wrt (\<lambda>a b. iv_start b \<le> iv_start a) ys
     \<Longrightarrow> filter (\<lambda>a. iv_start a = k) (insert_down x ys) = filter (\<lambda>a. iv_start a = k) (x # ys)"
  by (induction x ys rule: insert_down.induct) auto

lemma sort_loop:
  "i \<le> length xs \<Longrightarrow> 1 \<le> i \<Longrightarrow> \<exists>ys. foldl (\<lambda>ys i. sift i ys) xs [1..<i] = rev ys @ drop i xs
     \<and> mset ys = mset (take i xs) \<and> sorted_wrt (\<lambda>a b. iv_start b \<le> iv_start a) ys
     \<and> (\<forall>k. filter (\<lambda>a. iv_start a = k) (rev ys) = filter (\<lambda>a. iv_start a = k) (take i xs))"
proof (induction i)
  case 0
  then show ?case by simp
next
  case (Suc i)
  show ?case
  proof (cases "i = 0")
    case True
    with Suc.prems obtain x xs' where "xs = x # xs'" by (cases xs) auto
    with True show ?thesis by (intro exI [of _ "[x]"]) simp
  next
    case False
    with Suc obtain ys where ys: "foldl (\<lambda>ys i. sift i ys) xs [1..<i] = rev ys @ drop i xs"
      "mset ys = mset (take i xs)" "sorted_wrt (\<lambda>a b. iv_start b \<le> iv_start a) ys"
      "\<forall>k. filter (\<lambda>a. iv_start a = k) (rev ys) = filter (\<lambda>a. iv_start a = k) (take i xs)" by auto
    have i: "i < length xs" using Suc.prems by simp
    have len: "length ys = i" using ys(2) i by (metis length_take min.absorb4 size_mset)
    have t: "take (Suc i) xs = take i xs @ [xs ! i]" using i by (rule take_Suc_conv_app_nth)
    have "foldl (\<lambda>ys i. sift i ys) xs [1..<Suc i] = sift i (rev ys @ drop i xs)"
      using False ys(1) by simp
    also have "\<dots> = rev (insert_down (xs ! i) ys) @ drop (Suc i) xs"
      using sift_insert_down [OF len, of "xs ! i" "drop (Suc i) xs"] i by (simp add: Cons_nth_drop_Suc)
    finally show ?thesis
      using ys insert_down_filter [OF ys(3)]
      by (intro exI [of _ "insert_down (xs ! i) ys"])
        (simp add: t insert_down_sorted rev_filter [symmetric])
  qed
qed

lemma sort_intervals_stable: "sort_intervals xs = sort_key iv_start xs"
proof (cases xs)
  case Nil
  then show ?thesis by (simp add: sort_intervals_def)
next
  case (Cons x xs')
  then obtain ys where ys: "sort_intervals xs = rev ys" "mset ys = mset xs"
    "sorted_wrt (\<lambda>a b. iv_start b \<le> iv_start a) ys"
    "\<forall>k. filter (\<lambda>a. iv_start a = k) (rev ys) = filter (\<lambda>a. iv_start a = k) xs"
    using sort_loop [of "length xs" xs] by (auto simp: sort_intervals_def)
  have "sort_key iv_start xs = rev ys"
  proof (rule properties_for_sort_key)
    show "mset (rev ys) = mset xs" using ys(2) by simp
    show "sorted (map iv_start (rev ys))"
      using ys(3) by (simp add: sorted_wrt_map sorted_wrt_rev)
    show "filter (\<lambda>x. iv_start k = iv_start x) (rev ys) = filter (\<lambda>x. iv_start k = iv_start x) xs" for k
      using ys(4) [rule_format, of "iv_start k"]
      by (simp only: eq_commute [of "iv_start k"])
  qed
  with ys(1) show ?thesis by simp
qed

subsection \<open>The block around an instant\<close>

abbreviation interval_of :: "'a interval_scheme \<Rightarrow> interval" where
  "interval_of s \<equiv> \<lparr>iv_start = iv_start s, iv_end = iv_end s\<rparr>"

definition blocks :: "segment list \<Rightarrow> interval list" where
  "blocks segs = merge_sorted (sort_intervals (map interval_of segs))"

lemma covers_interval_of [simp]: "covers (map interval_of xs) t = covers xs t"
  by (simp add: covers_iff)

lemma covers_blocks [simp]: "covers (blocks segs) t = covers segs t"
  by (simp add: blocks_def sort_intervals_stable covers_merge_sorted)

lemma block_list_blocks [simp]: "block_list (blocks segs)"
  by (simp add: blocks_def sort_intervals_stable block_list_merge_sorted)

lemma union_block_find:
  "union_block_containing segs now = List.find (\<lambda>b. \<not> iv_start b > now \<and> iv_end b > now) (blocks segs)"
  by (auto simp: union_block_containing_def blocks_def sort_intervals_def merge_sorted_def)

lemma union_block_None: "union_block_containing segs now = None \<longleftrightarrow> \<not> covers segs now"
proof -
  have "union_block_containing segs now = None \<longleftrightarrow> \<not> covers (blocks segs) now"
    by (auto simp: union_block_find find_None_all covers_iff)
  then show ?thesis by simp
qed

lemma union_block_Some:
  assumes "union_block_containing segs now = Some b"
  shows "iv_start b \<le> now" and "now < iv_end b"
    and "iv_start b \<le> t \<Longrightarrow> t < iv_end b \<Longrightarrow> covers segs t"
    and "\<not> covers segs (iv_end b)"
    and "\<not> covers segs (iv_start b - 1)"
proof -
  from assms have b: "b \<in> set (blocks segs)" and now: "iv_start b \<le> now" "now < iv_end b"
    by (auto simp: union_block_find dest: find_Some_iff_first)
  show "iv_start b \<le> now" "now < iv_end b" by (rule now)+
  show "covers segs t" if "iv_start b \<le> t" "t < iv_end b"
    using b that covers_blocks [of segs t] by (auto simp: covers_iff)
  show "\<not> covers segs (iv_end b)"
    using block_list_end [OF block_list_blocks b] now by simp
  show "\<not> covers segs (iv_start b - 1)"
  proof
    assume "covers segs (iv_start b - 1)"
    then have "covers (blocks segs) (iv_start b - 1)" by simp
    then obtain s where "s \<in> set (blocks segs)" "iv_start s < iv_start b" "iv_start b \<le> iv_end s"
      by (auto simp: covers_iff)
    with block_list_before [OF block_list_blocks b] show False by blast
  qed
qed

subsection \<open>Who the freeze is named after\<close>

lemma foldl_upd_notin:
  "i \<notin> key ` set ss \<Longrightarrow> foldl (\<lambda>m s. m(key s \<mapsto> val s)) m ss i = m i"
  by (induction ss arbitrary: m) auto

lemma foldl_upd_in:
  "foldl (\<lambda>m s. m(key s \<mapsto> val s)) m ss i = Some v \<Longrightarrow>
     m i = Some v \<or> (\<exists>s \<in> set ss. key s = i \<and> val s = v)"
  by (induction ss arbitrary: m) (fastforce split: if_splits)+

lemma foldl_upd_dom:
  "foldl (\<lambda>m s. m(key s \<mapsto> val s)) m ss i = None \<longleftrightarrow> i \<notin> key ` set ss \<and> m i = None"
  by (induction ss arbitrary: m) auto

lemma schedules_by_id_Some: "schedules_by_id ss i = Some s \<Longrightarrow> s \<in> set ss \<and> sc_id s = i"
  unfolding schedules_by_id_def by (drule foldl_upd_in) simp

lemma schedules_by_id_None: "schedules_by_id ss i = None \<longleftrightarrow> i \<notin> sc_id ` set ss"
  unfolding schedules_by_id_def by (simp add: foldl_upd_dom)

lemma eligible_known: "seg \<in> set (eligible_segments st) \<Longrightarrow> sg_schedule_id seg \<in> sc_id ` set (bs_schedules st)"
  using foldl_upd_dom [of sc_id sc_suppressed_until Map.empty "bs_schedules st" "sg_schedule_id seg"]
  by (auto simp: eligible_segments_def Let_def split: option.splits)

definition rank :: "schedule \<Rightarrow> int \<times> instant \<times> int" where
  "rank s = (if sc_kind s = Dated then 1 else 0, sc_created_at s, sc_id s)"

text \<open>Precedence is a lexicographic order, which makes it a strict linear order on ids.\<close>

lemma outranks_rank: "outranks a b \<longleftrightarrow> rank b < rank a"
  by (cases "sc_kind a = Dated"; cases "sc_kind b = Dated") (auto simp: outranks_def rank_def)

lemma outranks_trans: "outranks a b \<Longrightarrow> outranks b c \<Longrightarrow> outranks a c"
  unfolding outranks_rank by (rule less_trans)

lemma outranks_asym: "outranks a b \<Longrightarrow> \<not> outranks b a"
  unfolding outranks_rank by (rule less_not_sym)

lemma outranks_total: "sc_id a \<noteq> sc_id b \<Longrightarrow> outranks a b \<or> outranks b a"
  unfolding outranks_rank using neq_iff [of "rank a" "rank b"] by (auto simp: rank_def)

text \<open>The schedules that keep the branch frozen at \<open>now\<close>.\<close>

definition candidates :: "branch_state \<Rightarrow> segment list \<Rightarrow> instant \<Rightarrow> schedule list" where
  "candidates st segs now =
     concat (map (\<lambda>s. if iv_start s \<le> now \<and> now < iv_end s
        then (case schedules_by_id (bs_schedules st) (sg_schedule_id s) of None \<Rightarrow> [] | Some c \<Rightarrow> [c])
        else []) segs)"

lemma attributing_fold:
  "attributing_schedule st segs now = foldl (\<lambda>w c. case w of None \<Rightarrow> Some c
      | Some w' \<Rightarrow> if outranks c w' then Some c else w) None (candidates st segs now)"
proof -
  define f :: "schedule option \<Rightarrow> segment \<Rightarrow> schedule option" where "f = (\<lambda>winner segment.
        if iv_start segment > now \<or> \<not> iv_end segment > now then winner
        else case schedules_by_id (bs_schedules st) (sg_schedule_id segment) of
               None \<Rightarrow> winner
             | Some sched \<Rightarrow>
                 (case winner of None \<Rightarrow> Some sched
                  | Some w \<Rightarrow> if outranks sched w then Some sched else winner))"
  define g where "g = (\<lambda>w c. case w of None \<Rightarrow> Some c
      | Some w' \<Rightarrow> if outranks c w' then Some c else w)"
  have "foldl f w segs = foldl g w (candidates st segs now)" for w
    by (induction segs arbitrary: w) (auto simp: candidates_def f_def g_def split: option.splits)
  then show ?thesis by (simp add: attributing_schedule_def f_def g_def)
qed

lemma best_fold:
  assumes "foldl (\<lambda>w c. case w of None \<Rightarrow> Some c
      | Some w' \<Rightarrow> if outranks c w' then Some c else w) w cs = Some b"
  shows "(b \<in> set cs \<or> w = Some b) \<and> (\<forall>c \<in> set cs. \<not> outranks c b \<or> c = b)
     \<and> (\<forall>w'. w = Some w' \<longrightarrow> b = w' \<or> outranks b w')"
  using assms
proof (induction cs arbitrary: w)
  case Nil
  then show ?case by simp
next
  case (Cons c cs)
  then show ?case
    by (cases w) (fastforce dest: outranks_asym outranks_trans split: if_splits)+
qed

lemma best_fold_None:
  "foldl (\<lambda>w c. case w of None \<Rightarrow> Some c
      | Some w' \<Rightarrow> if outranks c w' then Some c else w) w cs = None \<longleftrightarrow> w = None \<and> cs = []"
  by (induction cs arbitrary: w) (auto split: option.splits)

lemma guarded_singleton:
  "c \<in> set (if p then (case x of None \<Rightarrow> [] | Some c \<Rightarrow> [c]) else []) \<longleftrightarrow> p \<and> x = Some c"
  by (cases x; cases p) (simp_all add: eq_commute [of c])

lemma set_candidates:
  "c \<in> set (candidates st segs now) \<longleftrightarrow> (\<exists>s \<in> set segs. iv_start s \<le> now \<and> now < iv_end s
     \<and> schedules_by_id (bs_schedules st) (sg_schedule_id s) = Some c)"
  unfolding candidates_def set_concat set_map UN_iff bex_simps guarded_singleton conj_assoc ..

lemma Nil_iff_no_elem: "xs = [] \<longleftrightarrow> (\<forall>x. x \<notin> set xs)"
  by (cases xs) auto

lemma attributing_None:
  "attributing_schedule st (eligible_segments st) now = None \<longleftrightarrow> \<not> covers (eligible_segments st) now"
proof -
  have "candidates st (eligible_segments st) now = []
      \<longleftrightarrow> (\<forall>c. c \<notin> set (candidates st (eligible_segments st) now))" by (rule Nil_iff_no_elem)
  also have "\<dots> \<longleftrightarrow> \<not> covers (eligible_segments st) now"
    using eligible_known [of _ st] schedules_by_id_None [of "bs_schedules st"]
    by (simp add: set_candidates covers_iff) (metis not_Some_eq)
  finally show ?thesis by (simp add: attributing_fold best_fold_None)
qed

lemma attributing_Some:
  assumes "attributing_schedule st segs now = Some w"
  shows "w \<in> set (candidates st segs now)"
    and "c \<in> set (candidates st segs now) \<Longrightarrow> c = w \<or> \<not> outranks c w"
  using assms best_fold [of None "candidates st segs now" w]
  by (auto simp: attributing_fold)

subsection \<open>What the decision does to the branch\<close>

definition covered_now :: "branch_state \<Rightarrow> instant \<Rightarrow> bool" where
  "covered_now st now \<longleftrightarrow> covers (eligible_segments st) now"

definition frozen_by_operator :: "branch_state \<Rightarrow> bool" where
  "frozen_by_operator st \<longleftrightarrow> opt_ex (\<lambda>fr. fr_schedule_id fr = None) (bs_live st)"

text \<open>Whether the branch is frozen once the decision is carried out.\<close>

definition frozen_after :: "branch_state \<Rightarrow> sched_decision \<Rightarrow> bool" where
  "frozen_after st d \<longleftrightarrow> (case bs_live st of
     None \<Rightarrow> sd_action d = DecisionCreate | Some _ \<Rightarrow> sd_action d \<noteq> DecisionEnd)"

lemma decide_covered:
  assumes "covered_now st now"
  obtains b w where "union_block_containing (eligible_segments st) now = Some b"
    and "attributing_schedule st (eligible_segments st) now = Some w"
  using assms union_block_None attributing_None unfolding covered_now_def by (metis not_None_eq)

lemmas decide_simps = decide_def Let_def bare_decision_def

lemma decide_action:
  "sd_action (decide now window_end st) =
     (if frozen_by_operator st then DecisionNone
      else case bs_live st of
        None \<Rightarrow> (if covered_now st now then DecisionCreate else DecisionNone)
      | Some live \<Rightarrow>
          (if \<not> covered_now st now then DecisionEnd
           else if sd_action (decide now window_end st) = DecisionNone then DecisionNone
           else DecisionUpdate))"
proof (cases "covered_now st now")
  case True
  then obtain b w where "union_block_containing (eligible_segments st) now = Some b"
    "attributing_schedule st (eligible_segments st) now = Some w" by (rule decide_covered)
  with True show ?thesis
    by (cases "bs_live st") (simp_all add: decide_simps frozen_by_operator_def split: option.split)
next
  case False
  then have "union_block_containing (eligible_segments st) now = None"
    by (simp add: covered_now_def union_block_None)
  with False show ?thesis
    by (cases "bs_live st") (simp_all add: decide_simps frozen_by_operator_def)
qed

text \<open>
  C3: After the scheduler's decision is carried out, the branch is frozen exactly when eligible
  coverage contains the present instant or an operator froze it by hand; in particular the
  branch "covered but no schedule to name" of the code is never taken.
\<close>

theorem decide_freezes_iff_covered:
  "frozen_after st (decide now window_end st) \<longleftrightarrow> covered_now st now \<or> frozen_by_operator st"
  using decide_action [of now window_end st]
  by (cases "bs_live st") (auto simp: frozen_after_def frozen_by_operator_def split: if_splits)

text \<open>
  C29: A freeze an operator started by hand is never created over, ended or relabelled by the
  scheduler, whatever the schedules say.
\<close>

theorem decide_leaves_manual_freezes:
  assumes "bs_live st = Some live" and "fr_schedule_id live = None"
  shows "decide now window_end st = bare_decision DecisionNone"
  using assms by (simp add: decide_def Let_def split: option.split)

definition sample_schedule :: schedule where
  "sample_schedule = \<lparr>sc_id = 4, sc_repository_id = 1, sc_branch = ''main'', sc_name = ''Weekend'',
     sc_kind = Weekly, sc_timezone = ''UTC'', sc_reason = [], sc_active = True,
     sc_suppressed_until = None, sc_created_by = None, sc_created_by_kind = [],
     sc_created_at = 0, sc_updated_at = 0\<rparr>"

definition sample_live :: branch_freeze where
  "sample_live = \<lparr>fr_id = 3, fr_repository_id = 1, fr_branch = ''main'', fr_status = FreezeActive,
     fr_active = True, fr_scheduled = False, fr_needs_recompute = False, fr_reason = [],
     fr_starts_at = Some 0, fr_ends_at = None, fr_planned_ends_at = None, fr_schedule_id = None,
     fr_schedule_name = [], fr_created_by = None, fr_created_by_kind = [],
     fr_created_at = 0, fr_updated_at = 0\<rparr>"

definition sample_state :: branch_state where
  "sample_state = \<lparr>bs_repository_id = 1, bs_branch = ''main'', bs_schedules = [sample_schedule],
     bs_segments = [\<lparr>iv_start = 10, iv_end = 20, sg_schedule_id = 4, sg_schedule_name = ''Weekend''\<rparr>],
     bs_live = Some sample_live\<rparr>"

lemmas sample_state_simps = sample_state_def sample_live_def sample_schedule_def

lemma decide_leaves_manual_freezes_witness:
  "decide 15 100 sample_state = bare_decision DecisionNone"
  by (rule decide_leaves_manual_freezes [of sample_state sample_live])
    (simp_all add: sample_state_simps)

lemma planned_end_first_gap:
  assumes b: "union_block_containing segs now = Some b"
  shows "planned_end b window_end = Some e \<longleftrightarrow>
    now < e \<and> e < window_end \<and> \<not> covers segs e \<and> (\<forall>t. now \<le> t \<and> t < e \<longrightarrow> covers segs t)"
proof -
  note block = union_block_Some [OF b]
  have "iv_end b = e" if "now < e" "\<not> covers segs e" "\<forall>t. now \<le> t \<and> t < e \<longrightarrow> covers segs t"
  proof (rule antisym)
    show "iv_end b \<le> e" using that block(1) block(3) [of e] by (meson less_imp_le not_le order_trans)
    show "e \<le> iv_end b" using that(3) block(2,4) by (meson less_imp_le not_le)
  qed
  moreover have "covers segs t" if "now \<le> t" "t < iv_end b" for t
    using block(1) block(3) [of t] that by simp
  ultimately show ?thesis using block(2,4) by (auto simp: planned_end_def)
qed

text \<open>
  C31: When the scheduler freezes or relabels a branch, the freeze is named after a schedule of
  the branch whose eligible coverage contains the present instant, no other such schedule
  outranks it, and the freeze carries a planned end exactly when continuous coverage from now stops
  inside the expanded window: then it is the first instant that is not covered.
\<close>

theorem decide_attribution:
  assumes "sd_action (decide now window_end st) \<in> {DecisionCreate, DecisionUpdate}"
  shows "\<exists>w \<in> set (bs_schedules st). sd_schedule_id (decide now window_end st) = sc_id w
     \<and> sd_schedule_name (decide now window_end st) = sc_name w
     \<and> sd_reason (decide now window_end st) = sc_reason w
     \<and> w \<in> set (candidates st (eligible_segments st) now)
     \<and> (\<forall>c \<in> set (candidates st (eligible_segments st) now). c = w \<or> \<not> outranks c w)
     \<and> (\<forall>e. sd_planned_ends_at (decide now window_end st) = Some e \<longleftrightarrow>
          now < e \<and> e < window_end \<and> \<not> covers (eligible_segments st) e
          \<and> (\<forall>t. now \<le> t \<and> t < e \<longrightarrow> covers (eligible_segments st) t))"
proof -
  let ?d = "decide now window_end st"
  from assms decide_action [of now window_end st] have "covered_now st now"
    by (auto split: if_splits option.splits)
  then obtain b w where b: "union_block_containing (eligible_segments st) now = Some b"
    and w: "attributing_schedule st (eligible_segments st) now = Some w" by (rule decide_covered)
  have d: "sd_schedule_id ?d = sc_id w" "sd_schedule_name ?d = sc_name w" "sd_reason ?d = sc_reason w"
    "sd_planned_ends_at ?d = planned_end b window_end"
    using assms by (auto simp: decide_simps b w split: option.splits if_splits)
  note best = attributing_Some [OF w]
  have "w \<in> set (bs_schedules st)"
    using best(1) by (auto simp: set_candidates dest: schedules_by_id_Some)
  moreover note planned_end_first_gap [OF b]
  ultimately show ?thesis using best by (intro bexI [of _ w]) (simp_all add: d)
qed

lemma decide_attribution_witness:
  "\<exists>w \<in> set (bs_schedules sample_state). sd_schedule_id (decide 15 100 (sample_state \<lparr>bs_live := None\<rparr>)) = sc_id w"
proof -
  have "sd_action (decide 15 100 (sample_state \<lparr>bs_live := None\<rparr>)) \<in> {DecisionCreate, DecisionUpdate}"
    by (simp add: decide_action frozen_by_operator_def covered_now_def eligible_segments_def
        sample_state_simps)
  from decide_attribution [OF this] show ?thesis by (auto simp: sample_state_def)
qed

text \<open>
  The decision is stable: once a relabelling is written to the live row, deciding again at
  the same instant changes nothing, so the scheduler does not rewrite (and re-publish) a freeze
  on every tick.
\<close>

theorem decide_relabel_settles:
  assumes "bs_live st = Some live" and "sd_action (decide now window_end st) = DecisionUpdate"
  shows "decide now window_end (st \<lparr>bs_live := Some (live
      \<lparr>fr_schedule_id := Some (sd_schedule_id (decide now window_end st)),
       fr_schedule_name := sd_schedule_name (decide now window_end st),
       fr_reason := sd_reason (decide now window_end st),
       fr_planned_ends_at := sd_planned_ends_at (decide now window_end st)\<rparr>)\<rparr>)
    = bare_decision DecisionNone"
proof -
  have el: "eligible_segments (st \<lparr>bs_live := x\<rparr>) = eligible_segments st" for x
    by (simp add: eligible_segments_def)
  have at: "attributing_schedule (st \<lparr>bs_live := x\<rparr>) segs now = attributing_schedule st segs now"
    for x segs
  proof -
    have same: "bs_schedules (st \<lparr>bs_live := x\<rparr>) = bs_schedules st" by simp
    show ?thesis unfolding attributing_schedule_def same ..
  qed
  from assms decide_action [of now window_end st] have "covered_now st now"
    and ls: "fr_schedule_id live \<noteq> None"
    by (auto simp: frozen_by_operator_def split: if_splits)
  then obtain b w where b: "union_block_containing (eligible_segments st) now = Some b"
    and w: "attributing_schedule st (eligible_segments st) now = Some w" by (metis decide_covered)
  from ls obtain k where k: "fr_schedule_id live = Some k" by blast
  have "decide now window_end st = (bare_decision DecisionUpdate)
      \<lparr>sd_update_freeze_id := fr_id live, sd_schedule_id := sc_id w, sd_schedule_name := sc_name w,
       sd_reason := sc_reason w, sd_planned_ends_at := planned_end b window_end\<rparr>"
    using assms by (auto simp: decide_simps b w k split: if_splits)
  then show ?thesis
    by (simp add: decide_simps el at b w planned_ends_equal_def split: option.split)
qed

lemma decide_relabel_settles_witness:
  "decide 15 100 (sample_state \<lparr>bs_live := Some (sample_live \<lparr>fr_schedule_id := Some 4,
     fr_schedule_name := ''Weekend'', fr_planned_ends_at := Some 20\<rparr>)\<rparr>) = bare_decision DecisionNone"
proof -
  let ?live = "sample_live \<lparr>fr_schedule_id := Some 4\<rparr>"
  let ?st = "sample_state \<lparr>bs_live := Some ?live\<rparr>"
  have ev: "decide 15 100 ?st = (bare_decision DecisionUpdate) \<lparr>sd_update_freeze_id := 3,
      sd_schedule_id := 4, sd_schedule_name := ''Weekend'', sd_planned_ends_at := Some 20\<rparr>"
    by (simp add: decide_simps eligible_segments_def union_block_containing_def merge_sorted_def
        sort_intervals_def attributing_schedule_def schedules_by_id_def planned_end_def
        sample_state_simps)
  have "decide 15 100 (?st \<lparr>bs_live := Some (?live
      \<lparr>fr_schedule_id := Some (sd_schedule_id (decide 15 100 ?st)),
       fr_schedule_name := sd_schedule_name (decide 15 100 ?st),
       fr_reason := sd_reason (decide 15 100 ?st),
       fr_planned_ends_at := sd_planned_ends_at (decide 15 100 ?st)\<rparr>)\<rparr>)
    = bare_decision DecisionNone"
    by (rule decide_relabel_settles) (simp_all add: ev bare_decision_def)
  then show ?thesis unfolding ev by (simp add: bare_decision_def sample_live_def)
qed

text \<open>
  C39: The hand-written insertion sort of the union block is the stable sort by start.
\<close>

theorem sort_intervals_is_stable_sort: "sort_intervals xs = sort_key iv_start xs"
  by (rule sort_intervals_stable)

text \<open>
  The union block around an instant exists exactly when the instant is covered, contains
  it, is covered throughout, and cannot be extended at either side.
\<close>

theorem union_block_maximal:
  "case union_block_containing segs now of
     None \<Rightarrow> \<not> covers segs now
   | Some b \<Rightarrow> iv_start b \<le> now \<and> now < iv_end b
       \<and> {iv_start b ..< iv_end b} \<subseteq> {t. covers segs t}
       \<and> \<not> covers segs (iv_end b) \<and> \<not> covers segs (iv_start b - 1)"
  using union_block_None [of segs now] union_block_Some [of segs now]
  by (auto split: option.split)

end
