(* ===== verification/World.thy ===== *)
theory World
  imports Coverage
begin

text \<open>
  The world the stores run in: the database tables they share (one row type per table of
  \<open>migrations/\<close>), the clock, and the error values. An operation is a function from the world
  to an error or a value and the world after it. Every statement sent to the database may fail
  (\<open>fault\<close> says which one does), every \<open>time.Now\<close> is one reading of the clock, and a
  \<open>LIMIT 1\<close> without an order returns whichever row \<open>choice\<close> picks. Wrapping an error with
  \<open>%w\<close> keeps its identity, so it is the error itself here.

  A time column holds the instant its text stands for. The fixed-width layout of the jobs,
  schedules and freezes compares as text as the instants compare; the layouts that do not are
  compared as text where the code does.
\<close>

subsection \<open>Tables\<close>

record freeze_row =
  fz_id :: int
  fz_repository_id :: int
  fz_branch :: string
  fz_status :: freeze_status
  fz_scheduled :: bool
  fz_needs_recompute :: bool
  fz_reason :: string
  fz_starts_at :: "instant option"
  fz_ends_at :: "instant option"
  fz_planned_ends_at :: "instant option"
  fz_schedule_id :: "int option"
  fz_schedule_name :: string
  fz_created_by :: "int option"
  fz_created_by_kind :: string
  fz_created_at :: instant
  fz_updated_at :: instant

record job_row =
  jr_id :: int
  jr_type :: string
  jr_repository_id :: "int option"
  jr_generation :: int
  jr_run_at :: instant
  jr_locked_at :: "instant option"
  jr_attempts :: int
  jr_last_error :: "string option"

record thaw_row =
  tr_id :: int
  tr_repository_id :: int
  tr_pull_request_index :: int
  tr_pull_request_url :: "string option"
  tr_head_sha :: string
  tr_target_branch :: string
  tr_status :: string
  tr_reason :: string
  tr_approved_by :: "int option"
  tr_expires_at :: "instant option"
  tr_created_at :: instant
  tr_updated_at :: instant

record pull_row = pull_request +
  pl_updated_from_forge_at :: instant

record result_row =
  sr_id :: int
  sr_repository_id :: int
  sr_pull_request_index :: "int option"
  sr_target_branch :: string
  sr_head_sha :: string
  sr_context :: string
  sr_state :: commit_status_state
  sr_description :: string
  sr_target_url :: "string option"
  sr_posted_at :: "instant option"
  sr_error :: "string option"
  sr_created_at :: instant

text \<open>
  The details column: the object a JSON text stands for, with its keys in the order of the
  text. Reading and writing JSON is the work of libraries, so only what they deliver is kept.
\<close>

datatype detail_value = DetailInt int | DetailText string | DetailOther

datatype details =
    DetailsEmpty
  | DetailsObject "(string \<times> detail_value) list"
  | DetailsNotObject
  | DetailsMalformed

record audit_row =
  ar_id :: int
  ar_actor_user_id :: "int option"
  ar_action :: string
  ar_subject_type :: string
  ar_subject_id :: string
  ar_details :: details
  ar_created_at :: instant

text \<open>A stored credential: the ciphertext and when it was set.\<close>

record secret_row =
  se_repository_id :: int
  se_ciphertext :: string
  se_updated_at :: instant

record intent_row =
  it_id :: int
  it_status_result_id :: int
  it_repository_id :: int
  it_pull_request_index :: int
  it_target_branch :: string
  it_head_sha :: string
  it_context :: string
  it_state :: commit_status_state
  it_description :: string
  it_target_url :: "string option"
  it_delivery_mode :: string
  it_created_at :: instant
  it_updated_at :: instant

record attempt_row =
  at_id :: int
  at_publication_id :: int
  at_status_result_id :: int
  at_repository_id :: int
  at_pull_request_index :: int
  at_target_branch :: string
  at_head_sha :: string
  at_context :: string
  at_state :: commit_status_state
  at_description :: string
  at_target_url :: "string option"
  at_mode :: string
  at_result :: string
  at_error :: "string option"
  at_attempted_at :: instant

record delivery_row =
  wd_id :: int
  wd_repository_id :: "int option"
  wd_delivery_id :: string
  wd_event :: string
  wd_action :: "string option"
  wd_received_at :: instant
  wd_verified :: bool
  wd_processing_started_at :: "instant option"
  wd_processed_at :: "instant option"
  wd_error :: "string option"

record check_row =
  ck_id :: int
  ck_repository_id :: int
  ck_branch :: "string option"
  ck_name :: string
  ck_status :: string
  ck_description :: string
  ck_remediation :: "string option"
  ck_checked_at :: instant

text \<open>
  The tables of account management. Times of sessions and of company sign-in are instants, the
  expiries of recovery tokens and invitations the nanoseconds the code stores. Of the pending
  transactions of company sign-in only the keys are kept: the modelled code does nothing but
  delete them.
\<close>

record user_row =
  us_id :: int
  us_email :: string
  us_display_name :: string
  us_disabled_at :: "instant option"
  us_created_at :: instant
  us_updated_at :: instant

record credential_row =
  lc_user_id :: int
  lc_password_hash :: string
  lc_must_change_password :: bool
  lc_created_at :: instant
  lc_updated_at :: instant

record user_role_row =
  ur_user_id :: int
  ur_role :: string
  ur_created_at :: instant

record grant_row =
  rg_repository_id :: int
  rg_user_id :: int
  rg_role :: string
  rg_granted_by_user_id :: "int option"
  rg_granted_at :: instant

record session_row =
  sn_id :: string
  sn_user_id :: int
  sn_csrf_token :: string
  sn_expires_at :: instant
  sn_created_at :: instant

record recovery_row =
  pt_user_id :: int
  pt_token_digest :: string
  pt_expires_at :: instant

record invitation_row =
  vt_id :: string
  vt_status :: string
  vt_canonical_email :: "string option"
  vt_display_name :: "string option"
  vt_token_digest :: "string option"
  vt_expires_at :: "instant option"
  vt_is_admin :: "bool option"
  vt_authorized_by_user_id :: "int option"
  vt_expected_grant_count :: "int option"
  vt_created_at :: instant
  vt_updated_at :: instant

record invitation_grant_row =
  vg_invitation_id :: string
  vg_repository_id :: int
  vg_role :: string

record oidc_connection_row =
  oc_enabled :: bool
  oc_revision :: int
  oc_activation_generation :: int

record oidc_session_row =
  os_session_id :: string
  os_user_id :: int

record accounts =
  ac_users :: "user_row list"
  ac_credentials :: "credential_row list"
  ac_roles :: "user_role_row list"
  ac_grants :: "grant_row list"
  ac_sessions :: "session_row list"
  ac_recoveries :: "recovery_row list"
  ac_invitations :: "invitation_row list"
  ac_invitation_grants :: "invitation_grant_row list"
  ac_oidc_connection :: "oidc_connection_row option"
  ac_oidc_identity :: "int option"
  ac_oidc_links :: "string list"
  ac_oidc_logins :: "string list"
  ac_oidc_sessions :: "oidc_session_row list"

record db =
  tb_accounts :: accounts
  tb_repositories :: "repository list"
  tb_branches :: "repository_branch list"
  tb_freezes :: "freeze_row list"
  tb_schedules :: "schedule list"
  tb_rules :: "weekly_rule list"
  tb_windows :: "dated_window list"
  tb_jobs :: "job_row list"
  tb_thaws :: "thaw_row list"
  tb_pulls :: "pull_row list"
  tb_results :: "result_row list"
  tb_audit :: "audit_row list"
  tb_webhook_secrets :: "secret_row list"
  tb_status_tokens :: "secret_row list"
  tb_intents :: "intent_row list"
  tb_attempts :: "attempt_row list"
  tb_deliveries :: "delivery_row list"
  tb_checks :: "check_row list"

text \<open>What a foreign key to the users can name.\<close>

abbreviation tb_users :: "db \<Rightarrow> int list" where
  "tb_users d \<equiv> map us_id (ac_users (tb_accounts d))"

text \<open>An \<open>INTEGER PRIMARY KEY\<close> without \<open>AUTOINCREMENT\<close>: one more than the largest in use.\<close>

definition fresh_id :: "int list \<Rightarrow> int" where
  "fresh_id ids = foldr max ids 0 + 1"

text \<open>A foreign key that may be NULL.\<close>

definition references :: "int option \<Rightarrow> int list \<Rightarrow> bool" where
  "references k ids \<longleftrightarrow> opt_all (\<lambda>i. i \<in> set ids) k"

subsection \<open>Errors and operations\<close>

datatype go_package =
    AuthPkg | FreezePkg | JobsPkg | PullRequestPkg | RepositoryPkg | RepositorySetupPkg | SchedulePkg
  | StatusPublicationPkg | StatusResultPkg | ThawPkg | WebhookPkg

text \<open>
  \<open>ConvergenceFailed\<close> is \<open>runtimeConvergenceError\<close> with its category and its cause,
  \<open>StateChanged\<close> is \<open>convergenceStateChangeError\<close>, \<open>Joined\<close> is what \<open>errors.Join\<close> makes.
\<close>

datatype go_error =
    DbError
  | NoRows
  | NotFound
  | RuleNotFound
  | WindowNotFound
  | ReconciliationInProgress
  | ValidationError go_package string
  | Plain string
  | ExpandFailed expand_error
  | EnforcementNotActiveError
  | StatusTokenMissing
  | ConfigurationError string
  | StateChanged string
  | ConvergenceFailed string go_error
  | Joined "go_error list"
  | AuthenticationError
  | InvalidRecoveryToken
  | InvalidInvitation
  | Panics
  | Diverges

text \<open>\<open>errors.As\<close> for the validation error of a package, through the errors that wrap others.\<close>

fun is_validation_error :: "go_package \<Rightarrow> go_error \<Rightarrow> bool" where
  "is_validation_error p (ValidationError q _) = (p = q)"
| "is_validation_error p (ConvergenceFailed _ cause) = is_validation_error p cause"
| "is_validation_error p (Joined es) = list_ex (is_validation_error p) es"
| "is_validation_error p _ = False"

text \<open>\<open>errors.Join\<close>: the errors that are not nil, and nil when there is none.\<close>

definition join_errors :: "go_error option list \<Rightarrow> go_error option" where
  "join_errors es =
     (let present = concat (map (\<lambda>e. case e of None \<Rightarrow> [] | Some x \<Rightarrow> [x]) es) in
      if present = [] then None else Some (Joined present))"

definition error_of :: "go_error + 'a \<Rightarrow> go_error option" where
  "error_of r = (case r of Inl e \<Rightarrow> Some e | Inr _ \<Rightarrow> None)"

record world =
  tables :: db
  clock :: "nat \<Rightarrow> instant"
  readings :: nat
  fault :: "nat \<Rightarrow> bool"
  choice :: "nat \<Rightarrow> nat"
  statements :: nat

type_synonym 'a go = "world \<Rightarrow> (go_error + 'a) \<times> world"

definition ret :: "'a \<Rightarrow> 'a go" where
  "ret x w = (Inr x, w)"

definition fail :: "go_error \<Rightarrow> 'a go" where
  "fail e w = (Inl e, w)"

definition bind :: "'a go \<Rightarrow> ('a \<Rightarrow> 'b go) \<Rightarrow> 'b go" where
  "bind m f w = (case m w of (Inl e, w') \<Rightarrow> (Inl e, w') | (Inr x, w') \<Rightarrow> f x w')"

text \<open>\<open>if err != nil { ... }\<close> where the code goes on after some errors.\<close>

definition attempt :: "'a go \<Rightarrow> (go_error + 'a) go" where
  "attempt m w = (case m w of (r, w') \<Rightarrow> (Inr r, w'))"

definition now_utc :: "instant go" where
  "now_utc w = (Inr (clock w (readings w)), w \<lparr>readings := Suc (readings w)\<rparr>)"

text \<open>One statement: it fails in the driver, or does what its SQL says.\<close>

definition sql :: "(db \<Rightarrow> (go_error + 'a) \<times> db) \<Rightarrow> 'a go" where
  "sql f w =
     (if fault w (statements w) then (Inl DbError, w \<lparr>statements := Suc (statements w)\<rparr>)
      else case f (tables w) of
        (r, d) \<Rightarrow> (r, w \<lparr>tables := d, statements := Suc (statements w)\<rparr>))"

definition query :: "(db \<Rightarrow> 'a) \<Rightarrow> 'a go" where
  "query f = sql (\<lambda>d. (Inr (f d), d))"

text \<open>A statement that reports what it changed (\<open>RowsAffected\<close>, \<open>LastInsertId\<close>).\<close>

definition exec :: "(db \<Rightarrow> 'a \<times> db) \<Rightarrow> 'a go" where
  "exec f = sql (\<lambda>d. case f d of (x, d') \<Rightarrow> (Inr x, d'))"

text \<open>A statement the constraints of the schema may reject.\<close>

definition checked :: "(db \<Rightarrow> bool) \<Rightarrow> (db \<Rightarrow> 'a \<times> db) \<Rightarrow> 'a go" where
  "checked ok f = sql (\<lambda>d. if ok d then (case f d of (x, d') \<Rightarrow> (Inr x, d')) else (Inl DbError, d))"

definition first_row :: "'a list \<Rightarrow> go_error + 'a" where
  "first_row xs = (case xs of [] \<Rightarrow> Inl NoRows | x # _ \<Rightarrow> Inr x)"

definition query_row :: "(db \<Rightarrow> 'a list) \<Rightarrow> 'a go" where
  "query_row f = sql (\<lambda>d. (first_row (f d), d))"

definition query_any_row :: "(db \<Rightarrow> 'a list) \<Rightarrow> 'a go" where
  "query_any_row f w = sql (\<lambda>d. (first_row (rotate (choice w (statements w)) (f d)), d)) w"

text \<open>
  A transaction: an error inside it, or of the commit, leaves the tables as they were at the
  beginning.
\<close>

definition transact :: "'a go \<Rightarrow> 'a go" where
  "transact m w =
     (case sql (\<lambda>d. (Inr (), d)) w of
        (Inl e, w1) \<Rightarrow> (Inl e, w1)
      | (Inr _, w1) \<Rightarrow>
          (case m w1 of
             (Inl e, w2) \<Rightarrow> (Inl e, w2 \<lparr>tables := tables w1\<rparr>)
           | (Inr x, w2) \<Rightarrow>
               (case sql (\<lambda>d. (Inr (), d)) w2 of
                  (Inl e, w3) \<Rightarrow> (Inl e, w3 \<lparr>tables := tables w1\<rparr>)
                | (Inr _, w3) \<Rightarrow> (Inr x, w3))))"

fun for_each :: "('a \<Rightarrow> 'b go) \<Rightarrow> 'a list \<Rightarrow> 'b list go" where
  "for_each f [] = ret []"
| "for_each f (x # xs) = bind (f x) (\<lambda>y. bind (for_each f xs) (\<lambda>ys. ret (y # ys)))"

definition when_invalid :: "go_error option \<Rightarrow> 'a go \<Rightarrow> 'a go" where
  "when_invalid e m = (case e of Some err \<Rightarrow> fail err | None \<Rightarrow> m)"

text \<open>Update the rows that satisfy a condition, reporting how many there were.\<close>

definition update_where :: "('r \<Rightarrow> bool) \<Rightarrow> ('r \<Rightarrow> 'r) \<Rightarrow> 'r list \<Rightarrow> int \<times> 'r list" where
  "update_where p f rows = (int (length (filter p rows)), map (\<lambda>r. if p r then f r else r) rows)"

definition delete_where :: "('r \<Rightarrow> bool) \<Rightarrow> 'r list \<Rightarrow> int \<times> 'r list" where
  "delete_where p rows = (int (length (filter p rows)), filter (\<lambda>r. \<not> p r) rows)"

text \<open>\<open>LIMIT\<close> and \<open>OFFSET\<close>.\<close>

definition limit_rows :: "int \<Rightarrow> 'a list \<Rightarrow> 'a list" where
  "limit_rows n xs = take (nat n) xs"

definition page_rows :: "int \<Rightarrow> int \<Rightarrow> 'a list \<Rightarrow> 'a list" where
  "page_rows offset n xs = take (nat n) (drop (nat offset) xs)"

lemmas world_defs = ret_def fail_def bind_def attempt_def now_utc_def sql_def query_def exec_def
  checked_def query_row_def query_any_row_def transact_def when_invalid_def first_row_def

subsection \<open>What an operation may do to the tables\<close>

definition within :: "(db \<Rightarrow> db \<Rightarrow> bool) \<Rightarrow> 'a go \<Rightarrow> bool" where
  "within R m \<longleftrightarrow> (\<forall>w. R (tables w) (tables (snd (m w))))"

locale table_relation =
  fixes R :: "db \<Rightarrow> db \<Rightarrow> bool"
  assumes refl: "R d d"
    and trans: "R a b \<Longrightarrow> R b c \<Longrightarrow> R a c"
begin

lemma ret: "within R (ret x)"
  by (simp add: within_def ret_def refl)

lemma fail: "within R (fail e)"
  by (simp add: within_def fail_def refl)

lemma now_utc: "within R now_utc"
  by (simp add: within_def now_utc_def refl)

lemma bind:
  assumes "within R m" and "\<And>x. within R (f x)"
  shows "within R (bind m f)"
  unfolding within_def
proof
  fix w
  obtain r w1 where m: "m w = (r, w1)" by (cases "m w")
  with assms(1) have "R (tables w) (tables w1)" unfolding within_def by (metis snd_conv)
  then show "R (tables w) (tables (snd (bind m f w)))"
    using assms(2) trans by (cases r) (auto simp: bind_def m within_def)
qed

lemma attempt: "within R m \<Longrightarrow> within R (attempt m)"
  by (simp add: within_def attempt_def split_beta)

lemma sql: "(\<And>d. R d (snd (f d))) \<Longrightarrow> within R (sql f)"
  by (auto simp: within_def sql_def refl split: prod.split) (metis snd_conv)

lemma query: "within R (query f)"
  unfolding query_def by (rule sql) (simp add: refl)

lemma query_row: "within R (query_row f)"
  unfolding query_row_def by (rule sql) (simp add: refl)

lemma query_any_row: "within R (query_any_row f)"
  using sql [of "\<lambda>d. (first_row (rotate (choice w (statements w)) (f d)), d)" for w] refl
  unfolding within_def query_any_row_def by (metis snd_conv)

lemma exec: "(\<And>d. R d (snd (f d))) \<Longrightarrow> within R (exec f)"
  unfolding exec_def by (rule sql) (simp add: split_beta)

lemma checked: "(\<And>d. ok d \<Longrightarrow> R d (snd (f d))) \<Longrightarrow> within R (checked ok f)"
  unfolding checked_def by (rule sql) (simp add: refl split_beta)

lemma transact:
  assumes "within R m"
  shows "within R (transact m)"
  unfolding within_def
proof
  fix w
  obtain r0 w1 where 0: "sql (\<lambda>d. (Inr (), d)) w = (r0 :: go_error + unit, w1)"
    by (cases "sql (\<lambda>d. (Inr (), d)) w :: (go_error + unit) \<times> world")
  obtain r w2 where m: "m w1 = (r, w2)" by (cases "m w1")
  obtain r3 w3 where 3: "sql (\<lambda>d. (Inr (), d)) w2 = (r3 :: go_error + unit, w3)"
    by (cases "sql (\<lambda>d. (Inr (), d)) w2 :: (go_error + unit) \<times> world")
  have t: "tables w1 = tables w" "tables w3 = tables w2"
    using 0 3 by (auto simp: sql_def split: if_splits)
  have "R (tables w1) (tables w2)" using assms m unfolding within_def by (metis snd_conv)
  then show "R (tables w) (tables (snd (transact m w)))"
    by (cases r0; cases r; cases r3) (simp_all add: transact_def 0 m 3 t refl)
qed

lemma when_invalid: "(e = None \<Longrightarrow> within R m) \<Longrightarrow> within R (when_invalid e m)"
  by (cases e) (simp_all add: when_invalid_def fail)

lemma for_each: "(\<And>x. within R (f x)) \<Longrightarrow> within R (for_each f xs)"
  by (induction xs) (simp_all add: ret bind)

lemma if_op: "within R m \<Longrightarrow> within R n \<Longrightarrow> within R (if c then m else n)"
  by simp

lemma option_op: "within R m \<Longrightarrow> (\<And>x. within R (f x)) \<Longrightarrow> within R (case z of None \<Rightarrow> m | Some x \<Rightarrow> f x)"
  by (cases z) simp_all

lemma sum_op: "(\<And>x. within R (f x)) \<Longrightarrow> (\<And>x. within R (g x)) \<Longrightarrow> within R (case z of Inl x \<Rightarrow> f x | Inr x \<Rightarrow> g x)"
  by (cases z) simp_all

lemma prod_op: "(\<And>x y. within R (f x y)) \<Longrightarrow> within R (case z of (x, y) \<Rightarrow> f x y)"
  by (cases z) simp

lemma list_op: "within R m \<Longrightarrow> (\<And>x xs. within R (f x xs)) \<Longrightarrow> within R (case z of [] \<Rightarrow> m | x # xs \<Rightarrow> f x xs)"
  by (cases z) simp_all

lemmas rules = ret fail now_utc bind attempt query query_row query_any_row transact when_invalid
  for_each if_op option_op sum_op prod_op list_op

end

text \<open>A table an operation leaves alone.\<close>

definition same :: "(db \<Rightarrow> 'a) \<Rightarrow> db \<Rightarrow> db \<Rightarrow> bool" where
  "same sel d d' \<longleftrightarrow> sel d = sel d'"

interpretation same: table_relation "same sel" for sel :: "db \<Rightarrow> 'a"
  by unfold_locales (simp_all add: same_def)

text \<open>An invariant of the tables.\<close>

definition keeps :: "(db \<Rightarrow> bool) \<Rightarrow> db \<Rightarrow> db \<Rightarrow> bool" where
  "keeps I d d' \<longleftrightarrow> (I d \<longrightarrow> I d')"

interpretation keeps: table_relation "keeps I" for I
  by unfold_locales (simp_all add: keeps_def)

lemma same_within: "within (same sel) m \<Longrightarrow> sel (tables (snd (m w))) = sel (tables w)"
  by (simp add: within_def same_def)

lemma keeps_within: "within (keeps I) m \<Longrightarrow> I (tables w) \<Longrightarrow> I (tables (snd (m w)))"
  by (simp add: within_def keeps_def)

text \<open>
  A relation that holds once a check has established \<open>P\<close>, and keeps it. An operation that
  checks first and acts afterwards is within \<open>R\<close> when its acting part is within \<open>R\<close> guarded
  by what the check found.
\<close>

definition guarded :: "(db \<Rightarrow> bool) \<Rightarrow> (db \<Rightarrow> db \<Rightarrow> bool) \<Rightarrow> db \<Rightarrow> db \<Rightarrow> bool" where
  "guarded P R d d' \<longleftrightarrow> (P d \<longrightarrow> R d d' \<and> P d')"

definition establishes :: "(db \<Rightarrow> bool) \<Rightarrow> 'a go \<Rightarrow> bool" where
  "establishes P m \<longleftrightarrow> (\<forall>w. tables (snd (m w)) = tables w
     \<and> (case fst (m w) of Inl _ \<Rightarrow> True | Inr _ \<Rightarrow> P (tables w)))"

locale guarded_relation = table_relation R for R +
  fixes P :: "db \<Rightarrow> bool"
begin

lemma guard_refl: "guarded P R d d"
  by (simp add: guarded_def refl)

lemma guard_trans: "guarded P R a b \<Longrightarrow> guarded P R b c \<Longrightarrow> guarded P R a c"
  using trans by (auto simp: guarded_def)

lemma guard:
  assumes "establishes P m" and "\<And>x. within (guarded P R) (f x)"
  shows "within R (World.bind m f)"
  unfolding within_def
proof
  fix w
  obtain r w1 where m: "m w = (r, w1)" by (cases "m w")
  with assms(1) have "tables w1 = tables w" "case r of Inl _ \<Rightarrow> True | Inr _ \<Rightarrow> P (tables w)"
    unfolding establishes_def by (metis fst_conv snd_conv)+
  then show "R (tables w) (tables (snd (World.bind m f w)))"
  proof (cases r)
    case (Inl e)
    with \<open>tables w1 = tables w\<close> show ?thesis by (simp add: World.bind_def m refl)
  next
    case (Inr x)
    from assms(2) have "guarded P R (tables w1) (tables (snd (f x w1)))" by (simp add: within_def)
    with Inr \<open>tables w1 = tables w\<close> \<open>case r of Inl _ \<Rightarrow> True | Inr _ \<Rightarrow> P (tables w)\<close>
    show ?thesis by (simp add: World.bind_def m guarded_def)
  qed
qed

end

sublocale guarded_relation \<subseteq> guarded: table_relation "guarded P R"
  by unfold_locales (rule guard_refl, rule guard_trans)

lemma establishes_first:
  "establishes (\<lambda>d. list_ex p (sel d)) (bind (attempt (query_row (\<lambda>d. filter p (sel d)))) (\<lambda>r. case r of
     Inl e \<Rightarrow> if e = NoRows then fail (none e) else fail e | Inr _ \<Rightarrow> ret ()))"
  by (auto simp: establishes_def world_defs filter_empty_conv list_ex_iff split: list.split if_splits)
     (metis filter_eq_Cons_iff in_set_conv_decomp)+

text \<open>
  An operation that only looks: the tables stay, and of the world only the count of clock
  readings and of statements moves on.
\<close>

definition observes :: "'a go \<Rightarrow> bool" where
  "observes m \<longleftrightarrow> (\<forall>w. tables (snd (m w)) = tables w \<and> clock (snd (m w)) = clock w
     \<and> readings w \<le> readings (snd (m w)))"

named_theorems looking \<open>operations that only look\<close>

lemma observes_after: "observes m \<Longrightarrow> m w = (r, w') \<Longrightarrow>
    tables w' = tables w \<and> clock w' = clock w \<and> readings w \<le> readings w'"
  unfolding observes_def by (metis snd_conv)

lemma observes_bind [looking]:
  assumes "observes m" and "\<And>x. observes (f x)"
  shows "observes (bind m f)"
  unfolding observes_def
proof
  fix w
  obtain r w1 where m: "m w = (r, w1)" by (cases "m w")
  note one = observes_after [OF assms(1) m]
  show "tables (snd (bind m f w)) = tables w \<and> clock (snd (bind m f w)) = clock w
      \<and> readings w \<le> readings (snd (bind m f w))"
  proof (cases r)
    case (Inr x)
    obtain r2 w2 where f: "f x w1 = (r2, w2)" by (cases "f x w1")
    from one observes_after [OF assms(2) f] show ?thesis by (simp add: bind_def m Inr f)
  qed (use one in \<open>simp add: bind_def m\<close>)
qed

lemma observes_basic [looking]:
  "observes (ret x)" "observes (fail e)" "observes now_utc" "observes (query g)"
  "observes (query_row h)" "observes (query_any_row h)"
  by (auto simp: observes_def world_defs)

lemma observes_attempt [looking]: "observes m \<Longrightarrow> observes (attempt m)"
  by (simp add: observes_def attempt_def split_beta)

lemma observes_cases [looking]:
  "(e = None \<Longrightarrow> observes m) \<Longrightarrow> observes (when_invalid e m)"
  "observes m \<Longrightarrow> observes n \<Longrightarrow> observes (if c then m else n)"
  "observes m \<Longrightarrow> (\<And>x. observes (f x)) \<Longrightarrow> observes (case z of None \<Rightarrow> m | Some x \<Rightarrow> f x)"
  "(\<And>x. observes (g x)) \<Longrightarrow> (\<And>x. observes (h x)) \<Longrightarrow> observes (case s of Inl x \<Rightarrow> g x | Inr x \<Rightarrow> h x)"
  "(\<And>x y. observes (k x y)) \<Longrightarrow> observes (case q of (x, y) \<Rightarrow> k x y)"
  by (cases e; cases z; cases s; cases q; simp add: when_invalid_def observes_basic)+

subsection \<open>Running an operation\<close>

lemma bind_cases:
  assumes "bind m f w = (Inr y, w')"
  obtains x w1 where "m w = (Inr x, w1)" and "f x w1 = (Inr y, w')"
  using assms by (auto simp: bind_def split: prod.splits sum.splits)

lemma update_where_set:
  "r \<in> set (snd (update_where p f rows)) \<longleftrightarrow>
     (\<exists>r' \<in> set rows. r = (if p r' then f r' else r'))"
  by (auto simp: update_where_def)

lemma update_where_none: "fst (update_where p f rows) = 0 \<Longrightarrow> snd (update_where p f rows) = rows"
  by (auto simp: update_where_def filter_empty_conv intro: map_idI)

lemma map_update_where [table_simps]:
  "(\<And>r. p r \<Longrightarrow> key (f r) = key r) \<Longrightarrow> map key (snd (update_where p f rows)) = map key rows"
  by (simp add: update_where_def)

lemma delete_where_set [table_simps]:
  "r \<in> set (snd (delete_where p rows)) \<longleftrightarrow> r \<in> set rows \<and> \<not> p r"
  by (auto simp: delete_where_def)

lemma fresh_id_gt: "i \<in> set ids \<Longrightarrow> i < fresh_id ids"
proof -
  assume "i \<in> set ids"
  then have "i \<le> foldr max ids 0" by (induction ids) auto
  then show ?thesis by (simp add: fresh_id_def)
qed

lemma fresh_id_pos [simp]: "0 < fresh_id ids"
proof -
  have "0 \<le> foldr max ids (0::int)" by (induction ids) auto
  then show ?thesis by (simp add: fresh_id_def)
qed

lemma fresh_id_new [simp]: "fresh_id ids \<notin> set ids"
  using fresh_id_gt by blast

text \<open>Reading back, by its fresh identifier, the row that was just inserted.\<close>

lemma fresh_row_unique:
  assumes "y \<in> set (map scan (filter (\<lambda>r. key r = fresh_id (map key rows)) (rows @ [x])))"
  shows "y = scan x"
proof -
  have "r \<in> set rows \<Longrightarrow> key r \<noteq> fresh_id (map key rows)" for r
    using fresh_id_new [of "map key rows"] by (metis image_eqI list.set_map)
  with assms show ?thesis by (auto split: if_splits)
qed

subsection \<open>Concrete worlds\<close>

definition no_accounts :: accounts where
  "no_accounts = \<lparr>ac_users = [], ac_credentials = [], ac_roles = [], ac_grants = [], ac_sessions = [],
     ac_recoveries = [], ac_invitations = [], ac_invitation_grants = [], ac_oidc_connection = None,
     ac_oidc_identity = None, ac_oidc_links = [], ac_oidc_logins = [], ac_oidc_sessions = []\<rparr>"

definition empty_db :: db where
  "empty_db = \<lparr>tb_accounts = no_accounts, tb_repositories = [], tb_branches = [], tb_freezes = [],
     tb_schedules = [], tb_rules = [], tb_windows = [], tb_jobs = [], tb_thaws = [], tb_pulls = [],
     tb_results = [], tb_audit = [], tb_webhook_secrets = [], tb_status_tokens = [], tb_intents = [],
     tb_attempts = [], tb_deliveries = [], tb_checks = []\<rparr>"

text \<open>No statement fails, and each clock reading is one nanosecond after the previous one.\<close>

definition quiet :: "db \<Rightarrow> instant \<Rightarrow> world" where
  "quiet d t = \<lparr>tables = d, clock = (\<lambda>n. t + int n), readings = 0, fault = (\<lambda>_. False),
     choice = (\<lambda>_. 0), statements = 0\<rparr>"

definition faultless :: "world \<Rightarrow> bool" where
  "faultless w \<longleftrightarrow> fault w = (\<lambda>_. False)"

lemma faultless_quiet [simp]: "faultless (quiet d t)"
  by (simp add: faultless_def quiet_def)

lemma quiet_simps [run_simps]:
  "tables (quiet d t) = d" "clock (quiet d t) n = t + int n" "readings (quiet d t) = 0"
  by (simp_all add: quiet_def)

text \<open>What the building blocks do in a world without driver failures.\<close>

definition after :: "world \<Rightarrow> nat \<Rightarrow> nat \<Rightarrow> db \<Rightarrow> world" where
  "after w r s d = w \<lparr>tables := d, readings := readings w + r, statements := statements w + s\<rparr>"

lemma after_simps [run_simps, simp]:
  "tables (after w r s d) = d" "faultless (after w r s d) = faultless w"
  "clock (after w r s d) = clock w" "readings (after w r s d) = readings w + r"
  by (simp_all add: after_def faultless_def)

lemma after_after [run_simps, simp]: "after (after w r s d) r' s' d' = after w (r + r') (s + s') d'"
  by (simp add: after_def)

lemma run_ret [run_simps]: "ret x w = (Inr x, w)"
  by (simp add: ret_def)

lemma run_fail [run_simps]: "fail e w = (Inl e, w)"
  by (simp add: fail_def)

lemma run_bind [run_simps]:
  "m w = (Inr x, w') \<Longrightarrow> bind m f w = f x w'"
  "m w = (Inl e, w') \<Longrightarrow> bind m f w = (Inl e, w')"
  by (simp_all add: bind_def)

lemma run_bind_ret [run_simps]: "bind (ret x) f w = f x w"
  by (simp add: bind_def ret_def)

lemma run_attempt [run_simps]: "m w = (r, w') \<Longrightarrow> attempt m w = (Inr r, w')"
  by (simp add: attempt_def)

lemma run_now [run_simps]: "now_utc w = (Inr (clock w (readings w)), after w 1 0 (tables w))"
  by (simp add: now_utc_def after_def)

lemma run_query [run_simps]: "faultless w \<Longrightarrow> query f w = (Inr (f (tables w)), after w 0 1 (tables w))"
  by (simp add: query_def sql_def faultless_def after_def)

lemma run_query_row [run_simps]:
  "faultless w \<Longrightarrow> query_row f w = (first_row (f (tables w)), after w 0 1 (tables w))"
  by (simp add: query_row_def sql_def faultless_def after_def)

lemma run_exec [run_simps]:
  "faultless w \<Longrightarrow> exec f w = (Inr (fst (f (tables w))), after w 0 1 (snd (f (tables w))))"
  by (simp add: exec_def sql_def faultless_def after_def split_beta)

lemma run_checked [run_simps]:
  "faultless w \<Longrightarrow> checked ok f w = (if ok (tables w)
     then (Inr (fst (f (tables w))), after w 0 1 (snd (f (tables w))))
     else (Inl DbError, after w 0 1 (tables w)))"
  by (simp add: checked_def sql_def faultless_def after_def split_beta)

end
