(* ===== verification/Scope.thy ===== *)
theory Scope
  imports World
begin

text \<open>
  Read scopes (\<open>internal/repositoryscope/scope.go\<close>): which repositories a read query may
  return. \<open>scope_predicate\<close> is the predicate text with its arguments, \<open>scope_allows\<close> what
  SQL makes of it on a column value, NULL included.
\<close>

record read_scope =
  scope_all :: bool
  scope_ids :: "int list"

definition all_repositories :: read_scope where
  "all_repositories = \<lparr>scope_all = True, scope_ids = []\<rparr>"

definition scope_of_ids :: "int list \<Rightarrow> read_scope" where
  "scope_of_ids ids =
     (let kept = remdups_adj (sort (filter (\<lambda>i. i > 0) ids)) in
      if kept = [] then \<lparr>scope_all = False, scope_ids = []\<rparr>
      else \<lparr>scope_all = False, scope_ids = kept\<rparr>)"

definition scope_predicate :: "read_scope \<Rightarrow> string \<Rightarrow> string \<times> int list" where
  "scope_predicate s column =
     (if scope_all s then (''1 = 1'', [])
      else if scope_ids s = [] then (''1 = 0'', [])
      else (column @ '' IN ('' @ join_with '', '' (map (\<lambda>_. ''?'') (scope_ids s)) @ '')'', scope_ids s))"

text \<open>The truth of that predicate for a value of the column: \<open>NULL IN (...)\<close> is not true.\<close>

definition scope_allows :: "read_scope \<Rightarrow> int option \<Rightarrow> bool" where
  "scope_allows s v \<longleftrightarrow> scope_all s \<or> opt_ex (\<lambda>i. i \<in> set (scope_ids s)) v"

lemma scope_allows_all [simp]: "scope_allows all_repositories v"
  by (simp add: scope_allows_def all_repositories_def)

lemma distinct_sorted_remdups_adj: "sorted xs \<Longrightarrow> distinct (remdups_adj (xs :: int list))"
  by (induction xs rule: remdups_adj.induct) (auto simp: sorted_remdups_adj)

text \<open>
  A bounded scope allows exactly the positive identifiers it was built from, equal grant
  sets build the same scope whatever their order and repetitions, and no identifier (an empty
  grant set, or NULL) is ever allowed by a scope that was given nothing.
\<close>

theorem scope_of_ids_exact:
  "(scope_allows (scope_of_ids ids) (Some i) \<longleftrightarrow> i \<in> set ids \<and> 0 < i)
   \<and> \<not> scope_allows (scope_of_ids ids) None
   \<and> (set (filter (\<lambda>i. i > 0) ids) = set (filter (\<lambda>i. i > 0) jds)
        \<longleftrightarrow> scope_of_ids ids = scope_of_ids jds)"
proof -
  let ?k = "\<lambda>xs::int list. remdups_adj (sort (filter (\<lambda>i. i > 0) xs))"
  have scope: "scope_of_ids xs = \<lparr>scope_all = False, scope_ids = ?k xs\<rparr>" for xs
    by (simp add: scope_of_ids_def Let_def)
  have set: "set (?k xs) = {i \<in> set xs. 0 < i}" for xs by simp
  have sd: "sorted (?k xs)" "distinct (?k xs)" for xs
    by (rule sorted_remdups_adj, rule sorted_sort)
      (rule distinct_sorted_remdups_adj, rule sorted_sort)
  have "?k ids = ?k jds \<longleftrightarrow> set (?k ids) = set (?k jds)"
    by (rule iffI, erule arg_cong) (rule sorted_distinct_set_unique [OF sd sd])
  then have "set (filter (\<lambda>i. i > 0) ids) = set (filter (\<lambda>i. i > 0) jds) \<longleftrightarrow> ?k ids = ?k jds"
    by (simp only: set set_filter)
  then have "set (filter (\<lambda>i. i > 0) ids) = set (filter (\<lambda>i. i > 0) jds)
      \<longleftrightarrow> scope_of_ids ids = scope_of_ids jds"
    by (simp only: scope read_scope.ext_inject simp_thms)
  moreover have "scope_allows (scope_of_ids ids) (Some i) \<longleftrightarrow> i \<in> set ids \<and> 0 < i"
    by (simp only: scope scope_allows_def read_scope.simps set opt_ex_simps simp_thms mem_Collect_eq)
  moreover have "\<not> scope_allows (scope_of_ids ids) None"
    by (simp only: scope scope_allows_def read_scope.simps opt_ex_simps simp_thms)
  ultimately show ?thesis by blast
qed

end
