(* ===== verification/Jobs.thy ===== *)
theory Jobs
  imports Scope
begin

text \<open>
  The durable reconciliation queue (\<open>internal/jobs/jobs.go\<close>). Every statement is a function on
  the jobs table, so that several workers are sequences of statements in any interleaving; the
  operations are the statements in the order the code sends them. The state machine at the end
  is the queue shared by any number of workers and enqueuers.
\<close>

definition reconcile_type :: string where
  "reconcile_type = ''reconcile_repository_enforcement''"

definition reconciliation_lease :: int where
  "reconciliation_lease = 2 * 60 * nanos"

record job =
  job_id :: int
  job_repository_id :: int
  job_generation :: int
  job_run_at :: instant
  job_locked_at :: "instant option"
  job_attempts :: int
  job_last_error :: string

definition lease_active :: "job \<Rightarrow> instant \<Rightarrow> bool" where
  "lease_active j now \<longleftrightarrow> opt_ex (\<lambda>l. l > now - reconciliation_lease) (job_locked_at j)"

definition scan_job :: "job_row \<Rightarrow> job" where
  "scan_job r = \<lparr>job_id = jr_id r,
     job_repository_id = (case jr_repository_id r of None \<Rightarrow> 0 | Some i \<Rightarrow> i),
     job_generation = jr_generation r, job_run_at = jr_run_at r, job_locked_at = jr_locked_at r,
     job_attempts = jr_attempts r,
     job_last_error = (case jr_last_error r of None \<Rightarrow> [] | Some e \<Rightarrow> e)\<rparr>"

definition nullable_string :: "string \<Rightarrow> string option" where
  "nullable_string s = (if s = [] then None else Some s)"

subsection \<open>Statements\<close>

definition reconciles :: "int \<Rightarrow> job_row \<Rightarrow> bool" where
  "reconciles repo r \<longleftrightarrow> jr_type r = reconcile_type \<and> jr_repository_id r = Some repo"

text \<open>The \<open>INSERT ... ON CONFLICT(repository_id) ... DO UPDATE\<close> of \<open>upsertReconciliation\<close>.\<close>

definition upsert_stmt :: "int \<Rightarrow> bool \<Rightarrow> string \<Rightarrow> instant \<Rightarrow> job_row list \<Rightarrow> job_row list" where
  "upsert_stmt repo advance category now rows =
     (if list_ex (reconciles repo) rows then
        map (\<lambda>r. if reconciles repo r
               then r \<lparr>jr_generation := (if advance then jr_generation r + 1 else jr_generation r),
                       jr_run_at := now,
                       jr_last_error := (case nullable_string category of
                          None \<Rightarrow> jr_last_error r | Some e \<Rightarrow> Some e)\<rparr>
               else r) rows
      else rows @ [\<lparr>jr_id = fresh_id (map jr_id rows), jr_type = reconcile_type,
             jr_repository_id = Some repo, jr_generation = 1, jr_run_at = now, jr_locked_at = None,
             jr_attempts = 0, jr_last_error = nullable_string category\<rparr>])"

definition lease_free :: "instant \<Rightarrow> job_row \<Rightarrow> bool" where
  "lease_free now r \<longleftrightarrow> opt_all (\<lambda>l. l < now - reconciliation_lease) (jr_locked_at r)"

definition claimable :: "job \<Rightarrow> instant \<Rightarrow> job_row \<Rightarrow> bool" where
  "claimable c now r \<longleftrightarrow> jr_id r = job_id c \<and> jr_type r = reconcile_type
     \<and> jr_generation r = job_generation c \<and> jr_run_at r \<le> now \<and> lease_free now r"

definition claim_stmt :: "job \<Rightarrow> instant \<Rightarrow> job_row list \<Rightarrow> int \<times> job_row list" where
  "claim_stmt c now = update_where (claimable c now)
     (\<lambda>r. r \<lparr>jr_locked_at := Some now, jr_attempts := jr_attempts r + 1\<rparr>)"

text \<open>The row still carries the generation and the lease token of the claim.\<close>

definition holds_token :: "job \<Rightarrow> job_row \<Rightarrow> bool" where
  "holds_token c r \<longleftrightarrow> jr_id r = job_id c \<and> jr_type r = reconcile_type
     \<and> jr_generation r = job_generation c \<and> jr_locked_at r = job_locked_at c
     \<and> job_locked_at c \<noteq> None"

definition superseded :: "job \<Rightarrow> job_row \<Rightarrow> bool" where
  "superseded c r \<longleftrightarrow> jr_id r = job_id c \<and> jr_type r = reconcile_type
     \<and> jr_generation r \<noteq> job_generation c \<and> jr_locked_at r = job_locked_at c
     \<and> job_locked_at c \<noteq> None"

definition current_at :: "job \<Rightarrow> instant \<Rightarrow> job_row list \<Rightarrow> bool" where
  "current_at c now rows \<longleftrightarrow> list_ex (\<lambda>r. holds_token c r
     \<and> opt_ex (\<lambda>l. l > now - reconciliation_lease) (jr_locked_at r)) rows"

definition complete_stmt :: "job \<Rightarrow> job_row list \<Rightarrow> int \<times> job_row list" where
  "complete_stmt c = delete_where (holds_token c)"

definition reschedule_stmt :: "job \<Rightarrow> instant \<Rightarrow> string \<Rightarrow> job_row list \<Rightarrow> int \<times> job_row list" where
  "reschedule_stmt c next category = update_where (holds_token c)
     (\<lambda>r. r \<lparr>jr_locked_at := None, jr_run_at := next, jr_last_error := Some category\<rparr>)"

definition release_stmt :: "job \<Rightarrow> job_row list \<Rightarrow> int \<times> job_row list" where
  "release_stmt c = update_where (superseded c) (\<lambda>r. r \<lparr>jr_locked_at := None\<rparr>)"

definition make_due_stmt :: "int \<Rightarrow> instant \<Rightarrow> job_row list \<Rightarrow> int \<times> job_row list" where
  "make_due_stmt repo now = update_where (\<lambda>r. reconciles repo r \<and> lease_free now r)
     (\<lambda>r. r \<lparr>jr_generation := jr_generation r + 1, jr_run_at := now\<rparr>)"

definition remove_stmt :: "int \<Rightarrow> job_row list \<Rightarrow> int \<times> job_row list" where
  "remove_stmt repo = delete_where (reconciles repo)"

abbreviation on_jobs :: "(job_row list \<Rightarrow> 'a \<times> job_row list) \<Rightarrow> db \<Rightarrow> 'a \<times> db" where
  "on_jobs f d \<equiv> (case f (tb_jobs d) of (x, rows) \<Rightarrow> (x, d \<lparr>tb_jobs := rows\<rparr>))"

subsection \<open>Operations\<close>

definition get_reconciliation :: "int \<Rightarrow> job go" where
  "get_reconciliation repo = query_row (\<lambda>d. map scan_job (filter (reconciles repo) (tb_jobs d)))"

definition upsert_reconciliation :: "int \<Rightarrow> bool \<Rightarrow> string \<Rightarrow> job go" where
  "upsert_reconciliation repo advance category =
     (if repo \<le> 0 then fail (Plain ''reconciliation repository is required'')
      else if category \<noteq> [] \<and> \<not> valid_enforcement_failure_reason category
        then fail (Plain ''reconciliation failure category is invalid'')
      else bind now_utc (\<lambda>now.
        bind (checked
          (\<lambda>d. list_ex (reconciles repo) (tb_jobs d) \<or> repo \<in> set (map repo_id (tb_repositories d)))
          (\<lambda>d. ((), d \<lparr>tb_jobs := upsert_stmt repo advance category now (tb_jobs d)\<rparr>))) (\<lambda>_.
        get_reconciliation repo)))"

definition enqueue_reconciliation :: "int \<Rightarrow> job go" where
  "enqueue_reconciliation repo = upsert_reconciliation repo True []"

definition enqueue_reconciliation_failure :: "int \<Rightarrow> string \<Rightarrow> job go" where
  "enqueue_reconciliation_failure repo category = upsert_reconciliation repo True category"

definition ensure_reconciliation_failure :: "int \<Rightarrow> string \<Rightarrow> job go" where
  "ensure_reconciliation_failure repo category = upsert_reconciliation repo False category"

definition list_reconciliations_for_scope :: "read_scope \<Rightarrow> job list go" where
  "list_reconciliations_for_scope s = query (\<lambda>d. map scan_job
     (sort_key (\<lambda>r. case jr_repository_id r of None \<Rightarrow> 0 | Some i \<Rightarrow> i)
       (filter (\<lambda>r. jr_type r = reconcile_type \<and> jr_repository_id r \<noteq> None
          \<and> scope_allows s (jr_repository_id r)) (tb_jobs d))))"

definition list_reconciliations :: "job list go" where
  "list_reconciliations = list_reconciliations_for_scope all_repositories"

definition claim :: "job \<Rightarrow> instant \<Rightarrow> job option go" where
  "claim candidate now =
     bind (exec (on_jobs (claim_stmt candidate now))) (\<lambda>affected.
       ret (if affected = 0 then None
            else Some (candidate \<lparr>job_attempts := job_attempts candidate + 1,
                                  job_locked_at := Some now\<rparr>)))"

text \<open>The loop over the candidates: an error ends it, and the claims made so far are returned.\<close>

fun claim_each :: "job list \<Rightarrow> instant \<Rightarrow> (job list \<times> go_error option) go" where
  "claim_each [] now = ret ([], None)"
| "claim_each (c # cs) now =
     bind (attempt (claim c now)) (\<lambda>r.
       case r of
         Inl e \<Rightarrow> ret ([], Some e)
       | Inr claimed \<Rightarrow>
           bind (claim_each cs now) (\<lambda>(rest, e).
             ret ((case claimed of None \<Rightarrow> rest | Some j \<Rightarrow> j # rest), e)))"

definition claim_due :: "int \<Rightarrow> (job list \<times> go_error option) go" where
  "claim_due limit =
     (let n = (if limit \<le> 0 \<or> limit > 100 then 25 else limit) in
      bind now_utc (\<lambda>now.
      bind (query (\<lambda>d. map scan_job (limit_rows n (sort_key (\<lambda>r. (jr_run_at r, jr_id r))
        (filter (\<lambda>r. jr_type r = reconcile_type \<and> jr_repository_id r \<noteq> None
           \<and> jr_run_at r \<le> now \<and> lease_free now r) (tb_jobs d)))))) (\<lambda>candidates.
      claim_each candidates now)))"

definition claim_repository :: "int \<Rightarrow> job option go" where
  "claim_repository repo =
     bind (attempt (get_reconciliation repo)) (\<lambda>r.
       case r of
         Inl e \<Rightarrow> if e = NoRows then ret None else fail e
       | Inr j \<Rightarrow>
           bind now_utc (\<lambda>now.
             if job_run_at j > now \<or> lease_active j now then ret None else claim j now))"

definition validate_claim :: "job \<Rightarrow> go_error option" where
  "validate_claim c =
     (if job_id c \<le> 0 \<or> job_repository_id c \<le> 0 \<or> job_generation c \<le> 0
         \<or> \<not> opt_ex (\<lambda>l. \<not> is_zero l) (job_locked_at c) \<or> job_attempts c \<le> 0
      then Some (Plain ''reconciliation claim is invalid'') else None)"

definition claim_current :: "job \<Rightarrow> bool go" where
  "claim_current c = when_invalid (validate_claim c)
     (bind now_utc (\<lambda>now. query (\<lambda>d. current_at c now (tb_jobs d))))"

definition release_superseded_claim :: "job \<Rightarrow> unit go" where
  "release_superseded_claim c = bind (exec (on_jobs (release_stmt c))) (\<lambda>_. ret ())"

definition complete_claim :: "job \<Rightarrow> bool go" where
  "complete_claim c = when_invalid (validate_claim c)
     (bind (exec (on_jobs (complete_stmt c))) (\<lambda>affected.
        if affected = 0 then bind (release_superseded_claim c) (\<lambda>_. ret (affected > 0))
        else ret (affected > 0)))"

definition retry_delay :: "int \<Rightarrow> int" where
  "retry_delay n =
     (if n = 1 then 15 * nanos
      else if n = 2 then 30 * nanos
      else if n = 3 then 60 * nanos
      else if n = 4 then 2 * 60 * nanos
      else if n = 5 then 4 * 60 * nanos
      else if n = 6 then 8 * 60 * nanos
      else 15 * 60 * nanos)"

definition reschedule_claim :: "job \<Rightarrow> string \<Rightarrow> bool go" where
  "reschedule_claim c category = when_invalid (validate_claim c)
     (if \<not> valid_enforcement_failure_reason category
        then fail (Plain ''reconciliation failure category is invalid'')
      else bind now_utc (\<lambda>now.
        bind (exec (on_jobs (reschedule_stmt c (now + retry_delay (job_attempts c)) category)))
          (\<lambda>affected.
            if affected = 0 then bind (release_superseded_claim c) (\<lambda>_. ret (affected > 0))
            else ret (affected > 0))))"

definition make_due_now :: "int \<Rightarrow> job go" where
  "make_due_now repo =
     (if repo \<le> 0 then fail (Plain ''reconciliation repository is required'')
      else bind now_utc (\<lambda>now.
        bind (exec (on_jobs (make_due_stmt repo now))) (\<lambda>affected.
          if affected > 0 then get_reconciliation repo
          else bind (attempt (get_reconciliation repo)) (\<lambda>r.
            case r of
              Inr _ \<Rightarrow> fail ReconciliationInProgress
            | Inl e \<Rightarrow> if e \<noteq> NoRows then fail e else enqueue_reconciliation repo))))"

definition remove_reconciliation :: "int \<Rightarrow> unit go" where
  "remove_reconciliation repo = bind (exec (on_jobs (remove_stmt repo))) (\<lambda>_. ret ())"

subsection \<open>The table invariant\<close>

text \<open>What the partial unique index and the primary key guarantee.\<close>

definition queued_repositories :: "job_row list \<Rightarrow> int option list" where
  "queued_repositories rows = map jr_repository_id
     (filter (\<lambda>r. jr_type r = reconcile_type \<and> jr_repository_id r \<noteq> None) rows)"

definition jobs_ok :: "job_row list \<Rightarrow> bool" where
  "jobs_ok rows \<longleftrightarrow> distinct (map jr_id rows) \<and> distinct (queued_repositories rows)"

lemma filter_map_keeps: "(\<And>x. p (f x) = p x) \<Longrightarrow> filter p (map f xs) = map f (filter p xs)"
  by (induction xs) auto

lemma jobs_ok_map:
  assumes "\<And>r. jr_id (f r) = jr_id r" "\<And>r. jr_type (f r) = jr_type r"
    "\<And>r. jr_repository_id (f r) = jr_repository_id r"
  shows "jobs_ok (map f rows) = jobs_ok rows"
  by (simp add: jobs_ok_def queued_repositories_def filter_map_keeps assms comp_def)

lemma jobs_ok_update:
  assumes "\<And>r. jr_id (f r) = jr_id r" "\<And>r. jr_type (f r) = jr_type r"
    "\<And>r. jr_repository_id (f r) = jr_repository_id r"
  shows "jobs_ok (snd (update_where p f rows)) = jobs_ok rows"
  unfolding update_where_def snd_conv by (rule jobs_ok_map) (simp_all add: assms)

lemma jobs_ok_delete: "jobs_ok rows \<Longrightarrow> jobs_ok (snd (delete_where p rows))"
proof -
  assume ok: "jobs_ok rows"
  let ?q = "\<lambda>r. jr_type r = reconcile_type \<and> jr_repository_id r \<noteq> None"
  have "filter ?q (filter (\<lambda>r. \<not> p r) rows) = filter (\<lambda>r. \<not> p r) (filter ?q rows)"
    by (simp add: conj_commute)
  with ok show ?thesis
    unfolding delete_where_def snd_conv jobs_ok_def queued_repositories_def
    by (simp only: distinct_map_filter simp_thms)
qed

lemma jobs_ok_upsert:
  assumes "jobs_ok rows"
  shows "jobs_ok (upsert_stmt repo advance category now rows)"
proof (cases "list_ex (reconciles repo) rows")
  case True
  then show ?thesis
    using assms by (simp add: upsert_stmt_def) (subst jobs_ok_map, simp_all)
next
  case False
  then have "Some repo \<notin> set (queued_repositories rows)"
    by (auto simp: queued_repositories_def reconciles_def list_ex_iff)
  with False assms show ?thesis
    using fresh_id_new [of "map jr_id rows"]
    by (simp add: upsert_stmt_def jobs_ok_def queued_repositories_def)
qed

lemmas jobs_ok_stmts = jobs_ok_upsert jobs_ok_delete jobs_ok_update

lemma jobs_ok_statements [simp]:
  "jobs_ok rows \<Longrightarrow> jobs_ok (snd (claim_stmt c now rows))"
  "jobs_ok rows \<Longrightarrow> jobs_ok (snd (complete_stmt c rows))"
  "jobs_ok rows \<Longrightarrow> jobs_ok (snd (reschedule_stmt c next category rows))"
  "jobs_ok rows \<Longrightarrow> jobs_ok (snd (release_stmt c rows))"
  "jobs_ok rows \<Longrightarrow> jobs_ok (snd (make_due_stmt repo now rows))"
  "jobs_ok rows \<Longrightarrow> jobs_ok (snd (remove_stmt repo rows))"
  by (simp_all add: claim_stmt_def complete_stmt_def reschedule_stmt_def release_stmt_def
      make_due_stmt_def remove_stmt_def jobs_ok_stmts)

abbreviation jobs_inv :: "db \<Rightarrow> bool" where
  "jobs_inv d \<equiv> jobs_ok (tb_jobs d)"

lemma keeps_on_jobs:
  "(\<And>rows. jobs_ok rows \<Longrightarrow> jobs_ok (snd (f rows))) \<Longrightarrow> within (keeps jobs_inv) (exec (on_jobs f))"
  by (rule keeps.exec) (simp add: keeps_def split_beta)

lemma keeps_upsert_reconciliation: "within (keeps jobs_inv) (upsert_reconciliation repo advance category)"
  unfolding upsert_reconciliation_def get_reconciliation_def
  by (intro keeps.rules keeps.checked) (simp add: keeps_def jobs_ok_upsert)

lemma keeps_claim: "within (keeps jobs_inv) (claim c now)"
  unfolding claim_def by (intro keeps.rules keeps_on_jobs) simp

lemma keeps_claim_each: "within (keeps jobs_inv) (claim_each cs now)"
  by (induction cs) (auto intro!: keeps.rules keeps_claim)

lemma keeps_release: "within (keeps jobs_inv) (release_superseded_claim c)"
  unfolding release_superseded_claim_def by (intro keeps.rules keeps_on_jobs) simp

lemma jobs_ok_operations:
  shows "within (keeps jobs_inv) (enqueue_reconciliation repo)"
    "within (keeps jobs_inv) (enqueue_reconciliation_failure repo category)"
    "within (keeps jobs_inv) (ensure_reconciliation_failure repo category)"
    "within (keeps jobs_inv) (claim_due limit)"
    "within (keeps jobs_inv) (claim_repository repo)"
    "within (keeps jobs_inv) (complete_claim c)"
    "within (keeps jobs_inv) (reschedule_claim c category)"
    "within (keeps jobs_inv) (make_due_now repo)"
    "within (keeps jobs_inv) (remove_reconciliation repo)"
  unfolding enqueue_reconciliation_def enqueue_reconciliation_failure_def
    ensure_reconciliation_failure_def claim_due_def claim_repository_def complete_claim_def
    reschedule_claim_def make_due_now_def remove_reconciliation_def Let_def get_reconciliation_def
  by (intro keeps.rules keeps_upsert_reconciliation keeps_claim keeps_claim_each
      keeps_release keeps_on_jobs; simp)+

subsection \<open>Many workers on one queue\<close>

text \<open>
  The queue with the claims handed out so far, the last one first. Each step is one statement,
  sent by any worker or enqueuer, with whatever candidate, claim and clock reading it has, however
  old; the event says which. A batch of \<open>ClaimDue\<close> is several steps with one reading. What a
  lease token is good for rests on one assumption: a worker that claims a job does not read the
  very nanosecond at which a lease was taken on this job that has been given up since.
\<close>

record queue =
  q_rows :: "job_row list"
  q_granted :: "job list"

datatype queue_event =
    Enqueued int bool
  | Claimed job instant
  | Completed job
  | Released job
  | Rescheduled job
  | MadeDue int instant
  | Removed int

text \<open>The row of a claim is gone, or its lease or generation is another one.\<close>

definition lost :: "job \<Rightarrow> queue \<Rightarrow> bool" where
  "lost c q \<longleftrightarrow> \<not> list_ex (holds_token c) (q_rows q)"

definition hand_out :: "job \<Rightarrow> instant \<Rightarrow> job" where
  "hand_out c now = c \<lparr>job_attempts := job_attempts c + 1, job_locked_at := Some now\<rparr>"

lemma hand_out_simps [simp]:
  "job_id (hand_out c now) = job_id c" "job_generation (hand_out c now) = job_generation c"
  "job_locked_at (hand_out c now) = Some now"
  by (simp_all add: hand_out_def)

inductive queue_step :: "queue \<Rightarrow> queue_event \<Rightarrow> queue \<Rightarrow> bool" where
  enqueue: "queue_step q (Enqueued repo advance)
     (q \<lparr>q_rows := upsert_stmt repo advance category now (q_rows q)\<rparr>)"
| claim_ok: "claim_stmt c now (q_rows q) = (affected, rows) \<Longrightarrow> affected \<noteq> 0 \<Longrightarrow>
     \<forall>g \<in> set (q_granted q). job_id g = job_id c \<and> lost g q \<longrightarrow> job_locked_at g \<noteq> Some now \<Longrightarrow>
     queue_step q (Claimed c now) \<lparr>q_rows = rows, q_granted = hand_out c now # q_granted q\<rparr>"
| complete: "queue_step q (Completed c) (q \<lparr>q_rows := snd (complete_stmt c (q_rows q))\<rparr>)"
| release: "queue_step q (Released c) (q \<lparr>q_rows := snd (release_stmt c (q_rows q))\<rparr>)"
| reschedule: "queue_step q (Rescheduled c)
     (q \<lparr>q_rows := snd (reschedule_stmt c next category (q_rows q))\<rparr>)"
| make_due: "queue_step q (MadeDue repo now) (q \<lparr>q_rows := snd (make_due_stmt repo now (q_rows q))\<rparr>)"
| remove: "queue_step q (Removed repo) (q \<lparr>q_rows := snd (remove_stmt repo (q_rows q))\<rparr>)"

text \<open>Histories in which every event is of a kind.\<close>

definition queue_steps :: "(queue_event \<Rightarrow> bool) \<Rightarrow> queue \<Rightarrow> queue \<Rightarrow> bool" where
  "queue_steps kind = (\<lambda>q q'. \<exists>e. kind e \<and> queue_step q e q')\<^sup>*\<^sup>*"

definition empty_queue :: queue where
  "empty_queue = \<lparr>q_rows = [], q_granted = []\<rparr>"

abbreviation queue_reachable :: "queue \<Rightarrow> bool" where
  "queue_reachable q \<equiv> queue_steps (\<lambda>_. True) empty_queue q"

lemma queue_steps_refl [simp]: "queue_steps kind q q"
  by (simp add: queue_steps_def)

lemma queue_steps_step: "queue_steps kind q q' \<Longrightarrow> queue_step q' e q'' \<Longrightarrow> kind e \<Longrightarrow> queue_steps kind q q''"
  unfolding queue_steps_def by (rule rtranclp.rtrancl_into_rtrancl) blast+

lemma queue_steps_first: "queue_step q e q' \<Longrightarrow> kind e \<Longrightarrow> queue_steps kind q' q'' \<Longrightarrow> queue_steps kind q q''"
  unfolding queue_steps_def by (rule converse_rtranclp_into_rtranclp) blast+

lemma queue_steps_induct [consumes 1, case_names refl step]:
  assumes "queue_steps kind q q'" and "P q"
    and "\<And>x e y. queue_steps kind q x \<Longrightarrow> P x \<Longrightarrow> kind e \<Longrightarrow> queue_step x e y \<Longrightarrow> P y"
  shows "P q'"
  using assms(1) [unfolded queue_steps_def]
proof (induction rule: rtranclp_induct)
  case (step y z)
  then show ?case using assms(3) by (auto simp: queue_steps_def)
qed (rule assms(2))

text \<open>A lease on a row is of no later generation than the row.\<close>

definition lease_token :: "job \<Rightarrow> int \<times> instant option" where
  "lease_token c = (job_id c, job_locked_at c)"

definition not_ahead :: "job list \<Rightarrow> job_row \<Rightarrow> bool" where
  "not_ahead granted r \<longleftrightarrow>
     (\<forall>c \<in> set granted. lease_token c = (jr_id r, jr_locked_at r) \<longrightarrow> job_generation c \<le> jr_generation r)"

definition queue_inv :: "queue \<Rightarrow> bool" where
  "queue_inv q \<longleftrightarrow> jobs_ok (q_rows q) \<and> distinct (map lease_token (q_granted q))
     \<and> None \<notin> job_locked_at ` set (q_granted q)
     \<and> (\<forall>r \<in> set (q_rows q). not_ahead (q_granted q) r)"

lemma not_ahead_unlocked:
  "None \<notin> job_locked_at ` set granted \<Longrightarrow> jr_locked_at r = None \<Longrightarrow> not_ahead granted r"
  by (force simp: not_ahead_def lease_token_def)

lemma not_ahead_later:
  "not_ahead granted r \<Longrightarrow> jr_id r' = jr_id r \<Longrightarrow> jr_locked_at r' = jr_locked_at r
     \<Longrightarrow> jr_generation r \<le> jr_generation r' \<Longrightarrow> not_ahead granted r'"
  by (force simp: not_ahead_def)

lemma not_ahead_update:
  assumes "\<forall>r \<in> set rows. not_ahead granted r"
    and "\<And>r. not_ahead granted r \<Longrightarrow> not_ahead granted (f r)"
  shows "\<forall>r \<in> set (snd (update_where p f rows)). not_ahead granted r"
  using assms by (auto simp: update_where_def)

lemma not_ahead_upsert:
  assumes "\<forall>r \<in> set rows. not_ahead granted r" and "None \<notin> job_locked_at ` set granted"
  shows "\<forall>r \<in> set (upsert_stmt repo advance category now rows). not_ahead granted r"
  using assms by (auto simp: upsert_stmt_def intro: not_ahead_later not_ahead_unlocked)

lemma not_ahead_stmts:
  assumes "\<forall>r \<in> set rows. not_ahead granted r" and "None \<notin> job_locked_at ` set granted"
  shows "\<forall>r \<in> set (snd (complete_stmt c rows)). not_ahead granted r"
    and "\<forall>r \<in> set (snd (release_stmt c rows)). not_ahead granted r"
    and "\<forall>r \<in> set (snd (reschedule_stmt c next category rows)). not_ahead granted r"
    and "\<forall>r \<in> set (snd (make_due_stmt repo now rows)). not_ahead granted r"
    and "\<forall>r \<in> set (snd (remove_stmt repo rows)). not_ahead granted r"
  unfolding complete_stmt_def release_stmt_def reschedule_stmt_def make_due_stmt_def remove_stmt_def
  subgoal using assms(1) by (simp add: delete_where_set)
  subgoal by (rule not_ahead_update [OF assms(1)]) (rule not_ahead_unlocked [OF assms(2)], simp)
  subgoal by (rule not_ahead_update [OF assms(1)]) (rule not_ahead_unlocked [OF assms(2)], simp)
  subgoal by (rule not_ahead_update [OF assms(1)]) (erule not_ahead_later, simp_all)
  subgoal using assms(1) by (simp add: delete_where_set)
  done

text \<open>A successful claim found the one row of its job without a lease that lasts.\<close>

lemma claim_stmt_cases:
  assumes "claim_stmt c now rows = (affected, rows')" and "affected \<noteq> 0" and "jobs_ok rows"
  obtains r where "r \<in> set rows" and "claimable c now r"
    and "\<And>r'. r' \<in> set rows \<Longrightarrow> jr_id r' = job_id c \<Longrightarrow> r' = r"
    and "\<And>x. x \<in> set rows' \<Longrightarrow> x \<in> set rows \<and> jr_id x \<noteq> job_id c
        \<or> x = r \<lparr>jr_locked_at := Some now, jr_attempts := jr_attempts r + 1\<rparr>"
proof -
  from assms(1,2) obtain r where r: "r \<in> set rows" "claimable c now r"
    by (auto simp: claim_stmt_def update_where_def filter_empty_conv)
  have one: "r' = r" if "r' \<in> set rows" "jr_id r' = job_id c" for r'
    using assms(3) that r by (auto simp: jobs_ok_def distinct_map claimable_def inj_on_def)
  show ?thesis
  proof (rule that [OF r one])
    fix x
    assume "x \<in> set rows'"
    with assms(1) obtain x0 where "x0 \<in> set rows" "x = (if claimable c now x0
        then x0 \<lparr>jr_locked_at := Some now, jr_attempts := jr_attempts x0 + 1\<rparr> else x0)"
      by (auto simp: claim_stmt_def update_where_def)
    then show "x \<in> set rows \<and> jr_id x \<noteq> job_id c
        \<or> x = r \<lparr>jr_locked_at := Some now, jr_attempts := jr_attempts r + 1\<rparr>"
      using one [of x0] r(2) by (cases "claimable c now x0") (auto simp: claimable_def)
  qed
qed

text \<open>
  No token is handed out twice: one that was given up is not read again, and one that is not
  given up keeps every other worker from claiming.
\<close>

lemma claim_new_token:
  assumes "claim_stmt c now (q_rows q) = (affected, rows)" and "affected \<noteq> 0" and "jobs_ok (q_rows q)"
    and "\<forall>g \<in> set (q_granted q). job_id g = job_id c \<and> lost g q \<longrightarrow> job_locked_at g \<noteq> Some now"
  shows "(job_id c, Some now) \<notin> lease_token ` set (q_granted q)"
proof
  assume "(job_id c, Some now) \<in> lease_token ` set (q_granted q)"
  then obtain g where g: "g \<in> set (q_granted q)" "job_id g = job_id c" "job_locked_at g = Some now"
    by (auto simp: lease_token_def)
  with assms(4) obtain r' where r': "r' \<in> set (q_rows q)" "holds_token g r'"
    by (auto simp: lost_def list_ex_iff)
  obtain r where r: "claimable c now r" "\<And>r'. r' \<in> set (q_rows q) \<Longrightarrow> jr_id r' = job_id c \<Longrightarrow> r' = r"
    by (rule claim_stmt_cases [OF assms(1-3)]) blast
  have "r' = r" using r(2) r' g(2) by (simp add: holds_token_def)
  then show False
    using r(1) r'(2) g(3) by (simp add: claimable_def lease_free_def holds_token_def reconciliation_lease_def nanos_def)
qed

lemma queue_inv_rows:
  "queue_inv q \<Longrightarrow> jobs_ok rows \<Longrightarrow> \<forall>r \<in> set rows. not_ahead (q_granted q) r
     \<Longrightarrow> queue_inv (q \<lparr>q_rows := rows\<rparr>)"
  by (simp add: queue_inv_def)

lemma queue_inv_claim:
  assumes inv: "queue_inv q" and claim: "claim_stmt c now (q_rows q) = (affected, rows)" "affected \<noteq> 0"
    and new: "\<forall>g \<in> set (q_granted q). job_id g = job_id c \<and> lost g q \<longrightarrow> job_locked_at g \<noteq> Some now"
  shows "queue_inv \<lparr>q_rows = rows, q_granted = hand_out c now # q_granted q\<rparr>"
proof -
  from inv have ok: "jobs_ok (q_rows q)" and rest: "distinct (map lease_token (q_granted q))"
    "None \<notin> job_locked_at ` set (q_granted q)" "\<forall>r \<in> set (q_rows q). not_ahead (q_granted q) r"
    by (simp_all add: queue_inv_def)
  note fresh = claim_new_token [OF claim ok new]
  obtain r where r: "claimable c now r" and x: "\<And>x. x \<in> set rows \<Longrightarrow> x \<in> set (q_rows q) \<and> jr_id x \<noteq> job_id c
      \<or> x = r \<lparr>jr_locked_at := Some now, jr_attempts := jr_attempts r + 1\<rparr>"
    by (rule claim_stmt_cases [OF claim ok]) blast
  have "not_ahead (hand_out c now # q_granted q) x" if "x \<in> set rows" for x
    using x [OF that]
  proof
    assume "x \<in> set (q_rows q) \<and> jr_id x \<noteq> job_id c"
    with rest(3) show ?thesis by (simp add: not_ahead_def lease_token_def)
  next
    assume "x = r \<lparr>jr_locked_at := Some now, jr_attempts := jr_attempts r + 1\<rparr>"
    with r have "(jr_id x, jr_locked_at x) = (job_id c, Some now)" "jr_generation x = job_generation c"
      by (simp_all add: claimable_def)
    with fresh show ?thesis by (force simp: not_ahead_def)
  qed
  moreover have "jobs_ok rows" using jobs_ok_statements(1) [OF ok, of c now] claim(1) by simp
  ultimately show ?thesis using rest fresh by (simp add: queue_inv_def lease_token_def)
qed

lemma queue_inv_step:
  assumes "queue_step q e q'" and inv: "queue_inv q"
  shows "queue_inv q'"
proof -
  from inv have ok: "jobs_ok (q_rows q)" and none: "None \<notin> job_locked_at ` set (q_granted q)"
    and rows: "\<forall>r \<in> set (q_rows q). not_ahead (q_granted q) r"
    by (simp_all add: queue_inv_def)
  note kept = queue_inv_rows [OF inv] jobs_ok_upsert [OF ok] jobs_ok_statements(2-6) [OF ok]
    not_ahead_upsert [OF rows none] not_ahead_stmts [OF rows none]
  show ?thesis using assms(1)
  proof cases
    case (claim_ok c now affected rows)
    then show ?thesis using queue_inv_claim [OF inv] by blast
  qed (simp only:, intro kept)+
qed

lemma queue_inv_reachable: "queue_reachable q \<Longrightarrow> queue_inv q"
proof (induction rule: queue_steps_induct)
  case refl
  show ?case by (simp add: queue_inv_def empty_queue_def jobs_ok_def queued_repositories_def)
qed (rule queue_inv_step)

text \<open>
  C22: Mutual exclusion. In every interleaving of workers' and enqueuers' statements, batches of
  claims with one clock reading among them, and whatever readings the workers check with: of all
  claims ever handed out on a job, at most one passes the currency check. No two workers ever both
  hold a live lease on a job.
\<close>

theorem at_most_one_current_claim:
  assumes "queue_reachable q" and "i < length (q_granted q)" and "j < length (q_granted q)"
    and "current_at (q_granted q ! i) now1 (q_rows q)" and "current_at (q_granted q ! j) now2 (q_rows q)"
    and "job_id (q_granted q ! i) = job_id (q_granted q ! j)"
  shows "i = j"
proof -
  let ?c1 = "q_granted q ! i" and ?c2 = "q_granted q ! j"
  have inv: "jobs_ok (q_rows q)" "distinct (map lease_token (q_granted q))"
    using queue_inv_reachable [OF assms(1)] by (simp_all add: queue_inv_def)
  from assms(4,5) obtain r1 r2 where r: "r1 \<in> set (q_rows q)" "r2 \<in> set (q_rows q)"
    "holds_token ?c1 r1" "holds_token ?c2 r2" by (auto simp: current_at_def list_ex_iff)
  then have "jr_id r1 = jr_id r2" using assms(6) by (simp add: holds_token_def)
  with r inv(1) have "r1 = r2" by (auto simp: jobs_ok_def distinct_map inj_on_def)
  with r have "lease_token ?c1 = lease_token ?c2" by (simp add: holds_token_def lease_token_def)
  with assms(2,3) inv(2) show ?thesis by (simp add: distinct_conv_nth) (metis nth_map)
qed

subsection \<open>Fencing\<close>

lemma lost_update:
  assumes "\<forall>r \<in> set rows. \<not> holds_token c r" and "\<And>r. r \<in> set rows \<Longrightarrow> p r \<Longrightarrow> \<not> holds_token c (f r)"
  shows "\<not> list_ex (holds_token c) (snd (update_where p f rows))"
  using assms by (auto simp: update_where_def list_ex_iff)

lemma lost_newer:
  assumes "not_ahead granted r" and "c \<in> set granted" and "\<not> holds_token c r"
    and "jr_id r' = jr_id r" "jr_type r' = jr_type r" "jr_locked_at r' = jr_locked_at r"
    and "jr_generation r \<le> jr_generation r'"
  shows "\<not> holds_token c r'"
  using assms by (auto simp: holds_token_def not_ahead_def lease_token_def)

lemma lost_step:
  assumes step: "queue_step q e q'" and inv: "queue_inv q" and c: "c \<in> set (q_granted q)" and gone: "lost c q"
  shows "lost c q'" and "c \<in> set (q_granted q')"
proof -
  show "c \<in> set (q_granted q')" using step c by cases auto
  have lost: "\<forall>r \<in> set (q_rows q). \<not> holds_token c r"
    using gone by (auto simp: lost_def list_ex_iff)
  have "\<And>r. r \<in> set (q_rows q) \<Longrightarrow> not_ahead (q_granted q) r" using inv by (simp add: queue_inv_def)
  note newer = lost_newer [OF this c]
  show "lost c q'" using step
  proof cases
    case (enqueue repo advance category now)
    have "\<not> holds_token c r" if "r \<in> set (upsert_stmt repo advance category now (q_rows q))" for r
    proof (cases "list_ex (reconciles repo) (q_rows q)")
      case True
      with that obtain r0 where r0: "r0 \<in> set (q_rows q)" "jr_id r = jr_id r0" "jr_type r = jr_type r0"
        "jr_locked_at r = jr_locked_at r0" "jr_generation r0 \<le> jr_generation r"
        by (auto simp: upsert_stmt_def)
      show ?thesis by (rule newer [OF r0(1)]) (use lost r0 in auto)
    next
      case False
      with that lost show ?thesis by (auto simp: upsert_stmt_def holds_token_def)
    qed
    then show ?thesis by (auto simp: enqueue lost_def list_ex_iff)
  next
    case (claim_ok d now affected rows)
    have "\<not> list_ex (holds_token c) (snd (claim_stmt d now (q_rows q)))"
      unfolding claim_stmt_def
      by (intro lost_update [OF lost]) (use claim_ok(5) c gone in \<open>auto simp: holds_token_def claimable_def\<close>)
    then show ?thesis using claim_ok(3) by (simp add: claim_ok(2) lost_def)
  next
    case (complete d)
    with lost show ?thesis by (auto simp: lost_def list_ex_iff complete_stmt_def delete_where_set)
  next
    case (release d)
    have "\<not> list_ex (holds_token c) (snd (release_stmt d (q_rows q)))"
      unfolding release_stmt_def by (intro lost_update [OF lost]) (auto simp: holds_token_def)
    then show ?thesis by (simp add: release lost_def)
  next
    case (reschedule d "next" category)
    have "\<not> list_ex (holds_token c) (snd (reschedule_stmt d next category (q_rows q)))"
      unfolding reschedule_stmt_def by (intro lost_update [OF lost]) (auto simp: holds_token_def)
    then show ?thesis by (simp add: reschedule lost_def)
  next
    case (make_due repo now)
    have "\<not> list_ex (holds_token c) (snd (make_due_stmt repo now (q_rows q)))"
      unfolding make_due_stmt_def by (intro lost_update [OF lost]) (rule newer, use lost in auto)
    then show ?thesis by (simp add: make_due lost_def)
  next
    case (remove repo)
    with lost show ?thesis by (auto simp: lost_def list_ex_iff remove_stmt_def delete_where_set)
  qed
qed

text \<open>
  Fencing. A claim that was superseded, by a newer generation or by another worker, never
  becomes current again, and can no longer complete or reschedule the job, in any continuation.
\<close>

theorem lost_claim_stays_lost:
  assumes "queue_reachable q" and "c \<in> set (q_granted q)" and "lost c q" and "queue_steps kind q q'"
  shows "\<not> current_at c now (q_rows q') \<and> fst (complete_stmt c (q_rows q')) = 0
     \<and> fst (reschedule_stmt c next category (q_rows q')) = 0"
proof -
  have "queue_inv q' \<and> c \<in> set (q_granted q') \<and> lost c q'"
    using assms(4)
  proof (induction rule: queue_steps_induct)
    case refl
    show ?case using assms queue_inv_reachable by blast
  next
    case (step x e y)
    then show ?case using queue_inv_step lost_step by blast
  qed
  then show ?thesis
    by (auto simp: lost_def current_at_def list_ex_iff complete_stmt_def reschedule_stmt_def
        delete_where_def update_where_def)
qed

subsection \<open>Concrete queues\<close>

definition one_claim :: queue where
  "one_claim = \<lparr>q_rows = [\<lparr>jr_id = 1, jr_type = reconcile_type, jr_repository_id = Some 7,
       jr_generation = 1, jr_run_at = 10, jr_locked_at = Some 20, jr_attempts = 1, jr_last_error = None\<rparr>],
     q_granted = [\<lparr>job_id = 1, job_repository_id = 7, job_generation = 1, job_run_at = 10,
       job_locked_at = Some 20, job_attempts = 1, job_last_error = []\<rparr>]\<rparr>"

lemma one_claim_reachable: "queue_reachable one_claim"
proof -
  let ?q1 = "empty_queue \<lparr>q_rows := upsert_stmt 7 True [] 10 (q_rows empty_queue)\<rparr>"
  let ?c = "\<lparr>job_id = 1, job_repository_id = 7, job_generation = 1, job_run_at = 10,
    job_locked_at = None, job_attempts = 0, job_last_error = []\<rparr>"
  have rows: "q_rows ?q1 = [\<lparr>jr_id = 1, jr_type = reconcile_type, jr_repository_id = Some 7,
       jr_generation = 1, jr_run_at = 10, jr_locked_at = None, jr_attempts = 0, jr_last_error = None\<rparr>]"
    by (simp add: empty_queue_def upsert_stmt_def fresh_id_def nullable_string_def)
  have "queue_step empty_queue (Enqueued 7 True) ?q1" by (rule enqueue)
  moreover have "queue_step ?q1 (Claimed ?c 20) one_claim"
    using claim_ok [of ?c 20 ?q1 1 "q_rows one_claim"]
    by (simp add: rows claim_stmt_def update_where_def claimable_def lease_free_def)
      (simp add: one_claim_def empty_queue_def hand_out_def)
  ultimately show ?thesis by (blast intro: queue_steps_step queue_steps_refl)
qed

text \<open>Two repositories claimed in one batch, with one reading of the clock.\<close>

definition second_job :: job_row where
  "second_job = \<lparr>jr_id = 2, jr_type = reconcile_type, jr_repository_id = Some 8, jr_generation = 1,
     jr_run_at = 11, jr_locked_at = Some 20, jr_attempts = 1, jr_last_error = None\<rparr>"

definition two_claims :: queue where
  "two_claims = \<lparr>q_rows = q_rows one_claim @ [second_job],
     q_granted = hand_out (scan_job (second_job \<lparr>jr_locked_at := None, jr_attempts := 0\<rparr>)) 20 # q_granted one_claim\<rparr>"

lemma two_claims_reachable: "queue_reachable two_claims"
proof -
  let ?q1 = "one_claim \<lparr>q_rows := upsert_stmt 8 True [] 11 (q_rows one_claim)\<rparr>"
  let ?c = "scan_job (second_job \<lparr>jr_locked_at := None, jr_attempts := 0\<rparr>)"
  have rows: "q_rows ?q1 = q_rows one_claim @ [second_job \<lparr>jr_locked_at := None, jr_attempts := 0\<rparr>]"
    by (simp add: one_claim_def second_job_def upsert_stmt_def reconciles_def fresh_id_def nullable_string_def)
  have "queue_step one_claim (Enqueued 8 True) ?q1" by (rule enqueue)
  moreover have "claim_stmt ?c 20 (q_rows ?q1) = (1, q_rows two_claims)"
    unfolding rows by (simp add: two_claims_def one_claim_def second_job_def scan_job_def claim_stmt_def
        update_where_def claimable_def lease_free_def)
  then have "queue_step ?q1 (Claimed ?c 20) \<lparr>q_rows = q_rows two_claims, q_granted = hand_out ?c 20 # q_granted ?q1\<rparr>"
    by (rule claim_ok) (simp_all add: one_claim_def second_job_def scan_job_def)
  then have "queue_step ?q1 (Claimed ?c 20) two_claims" by (simp add: two_claims_def)
  ultimately show ?thesis using one_claim_reachable by (blast intro: queue_steps_step)
qed

lemma at_most_one_current_claim_witness:
  "list_all (\<lambda>j. j = 1) (filter (\<lambda>j. job_id (q_granted two_claims ! j) = 1) [0 ..< length (q_granted two_claims)])"
proof (clarsimp simp: list_all_iff)
  fix j
  assume j: "j < length (q_granted two_claims)" "job_id (q_granted two_claims ! j) = 1"
  have cur: "current_at c 30 (q_rows two_claims)" if "c \<in> set (q_granted two_claims)" for c
    using that by (auto simp: two_claims_def one_claim_def second_job_def scan_job_def current_at_def
        holds_token_def reconciliation_lease_def nanos_def)
  have one: "1 < length (q_granted two_claims)" "job_id (q_granted two_claims ! 1) = 1"
    by (simp_all add: two_claims_def one_claim_def)
  show "j = Suc 0"
    using at_most_one_current_claim [OF two_claims_reachable j(1) one(1) cur cur] j one by simp
qed

lemma lost_claim_stays_lost_witness:
  "fst (complete_stmt (hd (q_granted one_claim)) (upsert_stmt 7 True [] 40 (q_rows one_claim))) = 0"
proof -
  let ?q = "one_claim \<lparr>q_rows := upsert_stmt 7 True [] 40 (q_rows one_claim)\<rparr>"
  have "queue_step one_claim (Enqueued 7 True) ?q" by (rule enqueue)
  with one_claim_reachable have reach: "queue_reachable ?q" by (blast intro: queue_steps_step)
  have c: "hd (q_granted one_claim) \<in> set (q_granted ?q)" by (simp add: one_claim_def)
  have "lost (hd (q_granted one_claim)) ?q"
    by (simp add: lost_def one_claim_def upsert_stmt_def reconciles_def holds_token_def)
  from lost_claim_stays_lost [OF reach c this queue_steps_refl] show ?thesis by simp
qed

text \<open>
  C30: Work enqueued while a worker is busy is never lost: completing a claim whose job moved to
  a later generation deletes nothing, reports that the claim did not complete, and leaves the
  newer work in the queue, released and due when it was due.
\<close>

theorem complete_keeps_newer_work:
  assumes "faultless w" and "validate_claim c = None" and "jobs_inv (tables w)"
    and "r \<in> set (tb_jobs (tables w))" and "superseded c r"
  shows "fst (complete_claim c w) = Inr False
     \<and> r \<lparr>jr_locked_at := None\<rparr> \<in> set (tb_jobs (tables (snd (complete_claim c w))))"
proof -
  have "\<not> holds_token c r'" if "r' \<in> set (tb_jobs (tables w))" for r'
  proof
    assume h: "holds_token c r'"
    with assms(5) have "jr_id r' = jr_id r" by (simp add: holds_token_def superseded_def)
    with assms(3,4) that have "r' = r" by (auto simp: jobs_ok_def distinct_map inj_on_def)
    with h assms(5) show False by (simp add: holds_token_def superseded_def)
  qed
  then have none: "complete_stmt c (tb_jobs (tables w)) = (0, tb_jobs (tables w))"
    by (simp add: complete_stmt_def delete_where_def filter_empty_conv)
  have "r \<lparr>jr_locked_at := None\<rparr> \<in> set (snd (release_stmt c (tb_jobs (tables w))))"
    using assms(4,5) by (auto simp: release_stmt_def update_where_def intro: rev_image_eqI)
  then show ?thesis
    using assms(1,2) none
    by (simp add: complete_claim_def when_invalid_def release_superseded_claim_def run_simps split_beta)
qed

definition busy_db :: db where
  "busy_db = empty_db \<lparr>tb_jobs := [\<lparr>jr_id = 1, jr_type = reconcile_type, jr_repository_id = Some 7,
     jr_generation = 2, jr_run_at = 40, jr_locked_at = Some 20, jr_attempts = 1, jr_last_error = None\<rparr>]\<rparr>"

lemma complete_keeps_newer_work_witness:
  "fst (complete_claim (hd (q_granted one_claim)) (quiet busy_db 50)) = Inr False"
proof -
  have "fst (complete_claim (hd (q_granted one_claim)) (quiet busy_db 50)) = Inr False
     \<and> (hd (tb_jobs busy_db)) \<lparr>jr_locked_at := None\<rparr>
         \<in> set (tb_jobs (tables (snd (complete_claim (hd (q_granted one_claim)) (quiet busy_db 50)))))"
    by (rule complete_keeps_newer_work)
      (simp_all add: one_claim_def validate_claim_def is_zero_def zero_time_def busy_db_def run_simps
        jobs_ok_def queued_repositories_def superseded_def)
  then show ?thesis ..
qed

text \<open>
  C35: An operator cannot steal running work: making a repository's job due now while a lease
  on it is live (or exactly at its boundary) reports that recovery is in progress and changes
  no table.
\<close>

theorem make_due_now_respects_leases:
  assumes "faultless w" and "0 < repo" and "r \<in> set (tb_jobs (tables w))" and "reconciles repo r"
    and "\<forall>r' \<in> set (tb_jobs (tables w)). reconciles repo r' \<longrightarrow> \<not> lease_free (clock w (readings w)) r'"
  shows "fst (make_due_now repo w) = Inl ReconciliationInProgress
     \<and> tables (snd (make_due_now repo w)) = tables w"
proof -
  have due: "make_due_stmt repo (clock w (readings w)) (tb_jobs (tables w)) = (0, tb_jobs (tables w))"
    using assms(5) by (auto simp: make_due_stmt_def update_where_def filter_empty_conv intro!: map_idI)
  obtain j js where "map scan_job (filter (reconciles repo) (tb_jobs (tables w))) = j # js"
    using assms(3,4) by (cases "map scan_job (filter (reconciles repo) (tb_jobs (tables w)))")
      (auto simp: filter_empty_conv)
  then show ?thesis
    using assms(1,2) due
    by (simp add: make_due_now_def get_reconciliation_def first_row_def run_simps split_beta)
qed

lemma make_due_now_respects_leases_witness:
  "fst (make_due_now 7 (quiet busy_db 50)) = Inl ReconciliationInProgress"
proof -
  have "fst (make_due_now 7 (quiet busy_db 50)) = Inl ReconciliationInProgress
      \<and> tables (snd (make_due_now 7 (quiet busy_db 50))) = tables (quiet busy_db 50)"
    by (rule make_due_now_respects_leases [of _ _ "hd (tb_jobs busy_db)"])
      (simp_all add: busy_db_def run_simps reconciles_def lease_free_def reconciliation_lease_def nanos_def)
  then show ?thesis ..
qed

text \<open>
  A claim does not name its repository. If a worker loads the job of one repository, that job
  is completed by another worker and its row id is taken by a job of a different repository,
  the first worker's claim takes that other job.
\<close>

lemma claim_can_take_another_repository:
  "\<exists>rows. queue_reachable \<lparr>q_rows = rows, q_granted = q_granted one_claim\<rparr>
     \<and> fst (claim_stmt (hd (q_granted one_claim)) 100 rows) = 1
     \<and> map jr_repository_id rows = [Some 8]"
proof -
  let ?c = "hd (q_granted one_claim)"
  let ?q1 = "one_claim \<lparr>q_rows := snd (complete_stmt ?c (q_rows one_claim))\<rparr>"
  let ?q2 = "?q1 \<lparr>q_rows := upsert_stmt 8 True [] 90 (q_rows ?q1)\<rparr>"
  have "queue_step one_claim (Completed ?c) ?q1" by (rule complete)
  moreover have "queue_step ?q1 (Enqueued 8 True) ?q2" by (rule enqueue)
  ultimately have reach: "queue_reachable ?q2"
    using one_claim_reachable by (blast intro: queue_steps_step)
  have rows: "q_rows ?q2 = [\<lparr>jr_id = 1, jr_type = reconcile_type, jr_repository_id = Some 8,
       jr_generation = 1, jr_run_at = 90, jr_locked_at = None, jr_attempts = 0, jr_last_error = None\<rparr>]"
    by (simp add: one_claim_def complete_stmt_def delete_where_def holds_token_def upsert_stmt_def
        fresh_id_def nullable_string_def)
  have "?q2 = \<lparr>q_rows = q_rows ?q2, q_granted = q_granted one_claim\<rparr>" by simp
  with reach have "queue_reachable \<lparr>q_rows = q_rows ?q2, q_granted = q_granted one_claim\<rparr>" by metis
  moreover have "fst (claim_stmt ?c 100 (q_rows ?q2)) = 1"
    unfolding rows by (simp add: one_claim_def claim_stmt_def update_where_def claimable_def lease_free_def)
  ultimately show ?thesis unfolding rows by (intro exI conjI) auto
qed

end
