(* ===== verification/FreezeStore.thy ===== *)
theory FreezeStore
  imports Scope
begin

text \<open>
  The branch-freeze store (\<open>internal/freeze/store.go\<close>): one definition per operation, each the
  statements the code sends in their order, with the guards of their \<open>WHERE\<close> clauses.
\<close>

definition scheduled_freeze_reason_max_length :: nat where
  "scheduled_freeze_reason_max_length = 500"

abbreviation invalid :: "string \<Rightarrow> go_error" where
  "invalid \<equiv> ValidationError FreezePkg"

record freeze_create =
  fc_repository_id :: int
  fc_branch :: string
  fc_reason :: string
  fc_planned_ends_at :: "instant option"
  fc_schedule_id :: "int option"
  fc_schedule_name :: string
  fc_created_by :: "int option"
  fc_created_by_kind :: string

record attribution_update =
  fa_freeze_id :: int
  fa_schedule_id :: int
  fa_schedule_name :: string
  fa_reason :: string
  fa_planned_ends_at :: "instant option"

record freeze_plan =
  fp_repository_id :: int
  fp_branch :: string
  fp_reason :: string
  fp_starts_at :: instant
  fp_planned_ends_at :: "instant option"
  fp_created_by :: "int option"
  fp_created_by_kind :: string

record freeze_edit =
  fe_id :: int
  fe_reason :: string
  fe_starts_at :: instant
  fe_planned_ends_at :: "instant option"

record freeze_close =
  cl_id :: int
  cl_status :: freeze_status

subsection \<open>Rows to values\<close>

definition scan_branch_freeze :: "freeze_row \<Rightarrow> branch_freeze" where
  "scan_branch_freeze r = \<lparr>fr_id = fz_id r, fr_repository_id = fz_repository_id r,
     fr_branch = fz_branch r, fr_status = fz_status r, fr_active = (fz_status r = FreezeActive),
     fr_scheduled = fz_scheduled r, fr_needs_recompute = fz_needs_recompute r,
     fr_reason = fz_reason r, fr_starts_at = fz_starts_at r, fr_ends_at = fz_ends_at r,
     fr_planned_ends_at = fz_planned_ends_at r, fr_schedule_id = fz_schedule_id r,
     fr_schedule_name = fz_schedule_name r, fr_created_by = fz_created_by r,
     fr_created_by_kind = fz_created_by_kind r, fr_created_at = fz_created_at r,
     fr_updated_at = fz_updated_at r\<rparr>"

abbreviation freezes_where :: "(freeze_row \<Rightarrow> bool) \<Rightarrow> db \<Rightarrow> branch_freeze list" where
  "freezes_where p d \<equiv> map scan_branch_freeze (filter p (tb_freezes d))"

abbreviation on_freezes :: "(freeze_row list \<Rightarrow> 'a \<times> freeze_row list) \<Rightarrow> db \<Rightarrow> 'a \<times> db" where
  "on_freezes f d \<equiv> (case f (tb_freezes d) of (x, rows) \<Rightarrow> (x, d \<lparr>tb_freezes := rows\<rparr>))"

subsection \<open>Validation\<close>

definition normalize_create_params :: "freeze_create \<Rightarrow> freeze_create" where
  "normalize_create_params p = p \<lparr>fc_branch := trim_space (fc_branch p), fc_reason := trim_space (fc_reason p)\<rparr>"

definition normalize_schedule_params :: "freeze_plan \<Rightarrow> freeze_plan" where
  "normalize_schedule_params p = p \<lparr>fp_branch := trim_space (fp_branch p), fp_reason := trim_space (fp_reason p)\<rparr>"

definition normalize_edit_schedule_params :: "freeze_edit \<Rightarrow> freeze_edit" where
  "normalize_edit_schedule_params p = p \<lparr>fe_reason := trim_space (fe_reason p)\<rparr>"

text \<open>The length is \<open>len(reason)\<close>, which counts bytes.\<close>

definition validate_freeze_reason :: "string \<Rightarrow> go_error option" where
  "validate_freeze_reason reason =
     (if length reason > scheduled_freeze_reason_max_length
        then Some (invalid ''freeze reason must be 500 characters or fewer'')
      else if contains_control reason
        then Some (invalid ''freeze reason contains unsupported control characters'')
      else None)"

definition validate_create_params :: "freeze_create \<Rightarrow> instant \<Rightarrow> go_error option" where
  "validate_create_params p now =
     (let missing = (if fc_repository_id p \<le> 0 then [''repository''] else [])
            @ (if fc_branch p = [] then [''branch''] else []) in
      if missing \<noteq> []
        then Some (invalid (''missing required freeze fields: '' @ join_with '', '' missing))
      else case validate_freeze_reason (fc_reason p) of Some e \<Rightarrow> Some e | None \<Rightarrow>
        if opt_ex (\<lambda>e. \<not> e > now) (fc_planned_ends_at p)
        then Some (invalid ''planned unfreeze time must be in the future'') else None)"

definition validate_schedule_params :: "freeze_plan \<Rightarrow> instant \<Rightarrow> go_error option" where
  "validate_schedule_params p now =
     (let missing = (if fp_repository_id p \<le> 0 then [''repository''] else [])
            @ (if fp_branch p = [] then [''branch''] else [])
            @ (if is_zero (fp_starts_at p) then [''start time''] else []) in
      if missing \<noteq> []
        then Some (invalid (''missing required scheduled freeze fields: '' @ join_with '', '' missing))
      else case validate_freeze_reason (fp_reason p) of Some e \<Rightarrow> Some e | None \<Rightarrow>
        if \<not> fp_starts_at p > now
          then Some (invalid ''scheduled freeze start time must be in the future'')
        else if opt_ex (\<lambda>e. \<not> e > fp_starts_at p) (fp_planned_ends_at p)
          then Some (invalid ''planned unfreeze time must be after the scheduled start'')
        else None)"

definition validate_edit_schedule_params :: "freeze_edit \<Rightarrow> instant \<Rightarrow> go_error option" where
  "validate_edit_schedule_params p now =
     (if fe_id p \<le> 0 then Some (invalid ''scheduled freeze is required'')
      else if is_zero (fe_starts_at p) then Some (invalid ''scheduled freeze start time is required'')
      else case validate_freeze_reason (fe_reason p) of Some e \<Rightarrow> Some e | None \<Rightarrow>
        if \<not> fe_starts_at p > now
          then Some (invalid ''scheduled freeze start time must be in the future'')
        else if opt_ex (\<lambda>e. \<not> e > fe_starts_at p) (fe_planned_ends_at p)
          then Some (invalid ''planned unfreeze time must be after the scheduled start'')
        else None)"

definition validate_close_params :: "freeze_close \<Rightarrow> go_error option" where
  "validate_close_params p =
     (if cl_id p \<le> 0 then Some (invalid ''active freeze is required'')
      else if cl_status p \<noteq> FreezeEnded \<and> cl_status p \<noteq> FreezeCancelled
        then Some (invalid ''freeze close status is invalid'')
      else None)"

subsection \<open>Guards\<close>

definition enforced :: "db \<Rightarrow> int \<Rightarrow> bool" where
  "enforced d repo \<longleftrightarrow> list_ex (\<lambda>r. repo_id r = repo \<and> repo_active r
     \<and> repo_enforcement r = EnforcementActive) (tb_repositories d)"

definition require_enforcement_active_repository :: "int \<Rightarrow> unit go" where
  "require_enforcement_active_repository repo =
     bind (attempt (query_row (\<lambda>d. filter (\<lambda>r. repo_id r = repo \<and> repo_active r
         \<and> repo_enforcement r = EnforcementActive) (tb_repositories d)))) (\<lambda>r.
       case r of
         Inl e \<Rightarrow> if e = NoRows then fail (invalid enforcement_not_active_message) else fail e
       | Inr _ \<Rightarrow> ret ())"

definition require_freeze_repository_enforcement :: "int \<Rightarrow> unit go" where
  "require_freeze_repository_enforcement freeze_id =
     bind (attempt (query_row (\<lambda>d. map fz_repository_id (filter (\<lambda>r. fz_id r = freeze_id) (tb_freezes d)))))
       (\<lambda>r. case r of
          Inl e \<Rightarrow> if e = NoRows then ret () else fail e
        | Inr repo \<Rightarrow> require_enforcement_active_repository repo)"

definition reject_duplicate_active :: "int \<Rightarrow> string \<Rightarrow> unit go" where
  "reject_duplicate_active repo branch =
     bind (attempt (query_any_row (\<lambda>d. filter (\<lambda>r. fz_repository_id r = repo \<and> fz_branch r = branch
         \<and> fz_status r = FreezeActive) (tb_freezes d)))) (\<lambda>r.
       case r of
         Inl e \<Rightarrow> if e = NoRows then ret () else fail e
       | Inr _ \<Rightarrow> fail (invalid ''branch is already frozen''))"

definition require_affected_freeze :: "int \<Rightarrow> string \<Rightarrow> unit go" where
  "require_affected_freeze affected message =
     (if affected = 0 then fail (invalid message) else ret ())"

subsection \<open>Reading\<close>

definition get_freeze_for_scope :: "read_scope \<Rightarrow> int \<Rightarrow> branch_freeze go" where
  "get_freeze_for_scope s i =
     query_row (freezes_where (\<lambda>r. fz_id r = i \<and> scope_allows s (Some (fz_repository_id r))))"

definition get_freeze :: "int \<Rightarrow> branch_freeze go" where
  "get_freeze i = get_freeze_for_scope all_repositories i"

definition list_active_for_scope :: "read_scope \<Rightarrow> branch_freeze list go" where
  "list_active_for_scope s = query (\<lambda>d. map scan_branch_freeze
     (sort_key (\<lambda>r. (- fz_created_at r, - fz_id r))
       (filter (\<lambda>r. fz_status r = FreezeActive \<and> scope_allows s (Some (fz_repository_id r))) (tb_freezes d))))"

definition list_active :: "branch_freeze list go" where
  "list_active = list_active_for_scope all_repositories"

fun status_rank :: "freeze_status \<Rightarrow> int" where
  "status_rank FreezeScheduled = 0"
| "status_rank FreezeActive = 1"
| "status_rank FreezeEnded = 2"
| "status_rank FreezeCancelled = 3"
| "status_rank (OtherFreezeStatus _) = 4"

text \<open>NULL sorts before every text.\<close>

definition nulls_first :: "instant option \<Rightarrow> int \<times> instant" where
  "nulls_first t = (case t of None \<Rightarrow> (0, 0) | Some x \<Rightarrow> (1, x))"

definition scheduled_rows :: "read_scope \<Rightarrow> freeze_status option \<Rightarrow> db \<Rightarrow> freeze_row list" where
  "scheduled_rows s status d = filter (\<lambda>r. fz_scheduled r \<and> scope_allows s (Some (fz_repository_id r))
     \<and> opt_all (\<lambda>st. fz_status r = st) status) (tb_freezes d)"

definition scheduled_order :: "freeze_row \<Rightarrow> int \<times> (int \<times> instant) \<times> int" where
  "scheduled_order r = (status_rank (fz_status r), nulls_first (fz_starts_at r), fz_id r)"

definition list_scheduled_for_scope :: "read_scope \<Rightarrow> int \<Rightarrow> branch_freeze list go" where
  "list_scheduled_for_scope s limit =
     (let n = (if limit \<le> 0 \<or> limit > 500 then 100 else limit) in
      query (\<lambda>d. map scan_branch_freeze (limit_rows n (sort_key scheduled_order (scheduled_rows s None d)))))"

definition list_scheduled :: "int \<Rightarrow> branch_freeze list go" where
  "list_scheduled limit = list_scheduled_for_scope all_repositories limit"

text \<open>The \<open>GROUP BY\<close> as a map: a repository without matching rows has no key.\<close>

definition pending_scheduled_counts_for_scope :: "read_scope \<Rightarrow> (int \<rightharpoonup> int) go" where
  "pending_scheduled_counts_for_scope s = query (\<lambda>d repo.
     (let n = length (filter (\<lambda>r. fz_repository_id r = repo \<and> scope_allows s (Some repo)
            \<and> fz_scheduled r \<and> fz_status r = FreezeScheduled) (tb_freezes d)) in
      if n = 0 then None else Some (int n)))"

definition list_scheduled_page_for_scope ::
    "read_scope \<Rightarrow> freeze_status option \<Rightarrow> int \<Rightarrow> int \<Rightarrow> (branch_freeze list \<times> int) go" where
  "list_scheduled_page_for_scope s status offset limit =
     (let n = (if limit \<le> 0 \<or> limit > 500 then 100 else limit);
          off = (if offset < 0 then 0 else offset) in
      bind (query (\<lambda>d. int (length (scheduled_rows s status d)))) (\<lambda>total.
      bind (query (\<lambda>d. map scan_branch_freeze
        (page_rows off n (sort_key scheduled_order (scheduled_rows s status d))))) (\<lambda>freezes.
      ret (freezes, total))))"

definition list_scheduled_page :: "freeze_status option \<Rightarrow> int \<Rightarrow> int \<Rightarrow> (branch_freeze list \<times> int) go" where
  "list_scheduled_page status offset limit =
     list_scheduled_page_for_scope all_repositories status offset limit"

definition list_due_scheduled :: "int \<Rightarrow> branch_freeze list go" where
  "list_due_scheduled limit =
     (let n = (if limit \<le> 0 \<or> limit > 100 then 50 else limit) in
      bind now_utc (\<lambda>now. query (\<lambda>d. map scan_branch_freeze (limit_rows n
        (sort_key (\<lambda>r. (nulls_first (fz_starts_at r), fz_id r))
          (filter (\<lambda>r. fz_scheduled r \<and> fz_status r = FreezeScheduled
             \<and> opt_ex (\<lambda>t. t \<le> now) (fz_starts_at r)) (tb_freezes d)))))))"

definition list_due_planned_unfreezes :: "int \<Rightarrow> branch_freeze list go" where
  "list_due_planned_unfreezes limit =
     (let n = (if limit \<le> 0 \<or> limit > 100 then 50 else limit) in
      bind now_utc (\<lambda>now. query (\<lambda>d. map scan_branch_freeze (limit_rows n
        (sort_key (\<lambda>r. (nulls_first (fz_planned_ends_at r), fz_id r))
          (filter (\<lambda>r. fz_status r = FreezeActive
             \<and> opt_ex (\<lambda>t. t \<le> now) (fz_planned_ends_at r)) (tb_freezes d)))))))"

definition list_needs_recompute :: "int \<Rightarrow> branch_freeze list go" where
  "list_needs_recompute limit =
     (let n = (if limit \<le> 0 \<or> limit > 100 then 50 else limit) in
      query (\<lambda>d. map scan_branch_freeze (limit_rows n
        (sort_key (\<lambda>r. (fz_updated_at r, fz_id r)) (filter fz_needs_recompute (tb_freezes d))))))"

definition row_or_none :: "'a go \<Rightarrow> 'a option go" where
  "row_or_none m = bind (attempt m) (\<lambda>r.
     case r of Inl e \<Rightarrow> if e = NoRows then ret None else fail e | Inr x \<Rightarrow> ret (Some x))"

definition get_active_for_branch :: "int \<Rightarrow> string \<Rightarrow> branch_freeze option go" where
  "get_active_for_branch repo branch = row_or_none (query_any_row (freezes_where
     (\<lambda>r. fz_repository_id r = repo \<and> fz_branch r = branch \<and> fz_status r = FreezeActive)))"

definition active_for_schedule :: "int \<Rightarrow> branch_freeze option go" where
  "active_for_schedule schedule_id = row_or_none (query_any_row (freezes_where
     (\<lambda>r. fz_schedule_id r = Some schedule_id \<and> fz_status r = FreezeActive)))"

definition list_active_materialized :: "branch_freeze list go" where
  "list_active_materialized = query (\<lambda>d. map scan_branch_freeze (sort_key fz_id
     (filter (\<lambda>r. fz_status r = FreezeActive \<and> fz_schedule_id r \<noteq> None) (tb_freezes d))))"

definition has_status_for_repository :: "int \<Rightarrow> freeze_status \<Rightarrow> bool go" where
  "has_status_for_repository repo status = query (\<lambda>d.
     list_ex (\<lambda>r. fz_repository_id r = repo \<and> fz_status r = status) (tb_freezes d))"

definition has_active_for_repository :: "int \<Rightarrow> bool go" where
  "has_active_for_repository repo = has_status_for_repository repo FreezeActive"

definition has_scheduled_for_repository :: "int \<Rightarrow> bool go" where
  "has_scheduled_for_repository repo = has_status_for_repository repo FreezeScheduled"

subsection \<open>Creating\<close>

text \<open>The foreign keys of \<open>branch_freezes\<close>.\<close>

definition insert_freeze :: "(int \<Rightarrow> freeze_row) \<Rightarrow> int go" where
  "insert_freeze mk =
     checked (\<lambda>d. let r = mk 0 in fz_repository_id r \<in> set (map repo_id (tb_repositories d))
         \<and> references (fz_schedule_id r) (map sc_id (tb_schedules d))
         \<and> references (fz_created_by r) (tb_users d))
       (\<lambda>d. let i = fresh_id (map fz_id (tb_freezes d)) in (i, d \<lparr>tb_freezes := tb_freezes d @ [mk i]\<rparr>))"

definition create_active :: "freeze_create \<Rightarrow> branch_freeze go" where
  "create_active params =
     (let p = normalize_create_params params in
      bind now_utc (\<lambda>now.
      when_invalid (validate_create_params p now) (
      bind (require_enforcement_active_repository (fc_repository_id p)) (\<lambda>_.
      bind (reject_duplicate_active (fc_repository_id p) (fc_branch p)) (\<lambda>_.
      bind (insert_freeze (\<lambda>i. \<lparr>fz_id = i, fz_repository_id = fc_repository_id p,
          fz_branch = fc_branch p, fz_status = FreezeActive, fz_scheduled = False,
          fz_needs_recompute = False, fz_reason = fc_reason p, fz_starts_at = Some now,
          fz_ends_at = None, fz_planned_ends_at = fc_planned_ends_at p,
          fz_schedule_id = fc_schedule_id p, fz_schedule_name = fc_schedule_name p,
          fz_created_by = fc_created_by p, fz_created_by_kind = fc_created_by_kind p,
          fz_created_at = now, fz_updated_at = now\<rparr>)) (\<lambda>i.
      get_freeze i))))))"

definition create_scheduled :: "freeze_plan \<Rightarrow> branch_freeze go" where
  "create_scheduled params =
     (let p = normalize_schedule_params params in
      bind now_utc (\<lambda>t.
      when_invalid (validate_schedule_params p t) (
      bind (require_enforcement_active_repository (fp_repository_id p)) (\<lambda>_.
      bind now_utc (\<lambda>now.
      bind (insert_freeze (\<lambda>i. \<lparr>fz_id = i, fz_repository_id = fp_repository_id p,
          fz_branch = fp_branch p, fz_status = FreezeScheduled, fz_scheduled = True,
          fz_needs_recompute = False, fz_reason = fp_reason p, fz_starts_at = Some (fp_starts_at p),
          fz_ends_at = None, fz_planned_ends_at = fp_planned_ends_at p,
          fz_schedule_id = None, fz_schedule_name = [],
          fz_created_by = fp_created_by p, fz_created_by_kind = fp_created_by_kind p,
          fz_created_at = now, fz_updated_at = now\<rparr>)) (\<lambda>i.
      get_freeze i))))))"

subsection \<open>Changing\<close>

definition update_freezes :: "(db \<Rightarrow> freeze_row \<Rightarrow> bool) \<Rightarrow> (freeze_row \<Rightarrow> freeze_row) \<Rightarrow> int go" where
  "update_freezes p f = exec (\<lambda>d. on_freezes (update_where (p d) f) d)"

definition mark_recomputed :: "int \<Rightarrow> branch_freeze go" where
  "mark_recomputed i =
     (if i \<le> 0 then fail (invalid ''freeze is required'')
      else bind now_utc (\<lambda>now.
      bind (update_freezes (\<lambda>_ r. fz_id r = i \<and> fz_needs_recompute r)
        (\<lambda>r. r \<lparr>fz_needs_recompute := False, fz_updated_at := now\<rparr>)) (\<lambda>affected.
      bind (require_affected_freeze affected ''freeze does not need recompute'') (\<lambda>_.
      get_freeze i))))"

definition mark_repository_recomputed :: "int \<Rightarrow> unit go" where
  "mark_repository_recomputed repo =
     (if repo \<le> 0 then fail (invalid ''repository is required'')
      else bind now_utc (\<lambda>now.
      bind (update_freezes (\<lambda>_ r. fz_repository_id r = repo \<and> fz_needs_recompute r)
        (\<lambda>r. r \<lparr>fz_needs_recompute := False, fz_updated_at := now\<rparr>)) (\<lambda>_. ret ())))"

definition close_active :: "freeze_close \<Rightarrow> branch_freeze go" where
  "close_active p = when_invalid (validate_close_params p) (
     bind now_utc (\<lambda>now.
     bind (update_freezes (\<lambda>_ r. fz_id r = cl_id p \<and> fz_status r = FreezeActive)
       (\<lambda>r. r \<lparr>fz_status := cl_status p, fz_ends_at := Some now, fz_needs_recompute := True,
              fz_updated_at := now\<rparr>)) (\<lambda>affected.
     if affected = 0 then
       bind (attempt (get_freeze (cl_id p))) (\<lambda>r.
         case r of
           Inl e \<Rightarrow> if e = NoRows then fail (invalid ''active freeze not found'') else fail e
         | Inr existing \<Rightarrow> fail (invalid ''freeze is not active''))
     else get_freeze (cl_id p))))"

definition end_freeze :: "int \<Rightarrow> branch_freeze go" where
  "end_freeze i = close_active \<lparr>cl_id = i, cl_status = FreezeEnded\<rparr>"

definition cancel_freeze :: "int \<Rightarrow> branch_freeze go" where
  "cancel_freeze i = close_active \<lparr>cl_id = i, cl_status = FreezeCancelled\<rparr>"

definition cancel_scheduled :: "int \<Rightarrow> branch_freeze go" where
  "cancel_scheduled i =
     (if i \<le> 0 then fail (invalid ''freeze is required'')
      else bind now_utc (\<lambda>now.
      bind (update_freezes (\<lambda>_ r. fz_id r = i \<and> fz_scheduled r \<and> fz_status r = FreezeScheduled)
        (\<lambda>r. r \<lparr>fz_status := FreezeCancelled, fz_ends_at := Some now, fz_updated_at := now\<rparr>)) (\<lambda>affected.
      bind (require_affected_freeze affected ''scheduled freeze is not pending'') (\<lambda>_.
      get_freeze i))))"

text \<open>The optimistic check: \<open>expected\<close> is the version the operator saw, when there is one.\<close>

definition edit_scheduled_expecting :: "freeze_edit \<Rightarrow> instant option \<Rightarrow> branch_freeze go" where
  "edit_scheduled_expecting params expected =
     (let p = normalize_edit_schedule_params params in
      bind now_utc (\<lambda>t.
      (let now = (case expected of Some e \<Rightarrow> if \<not> t > e then e + 1 else t | None \<Rightarrow> t) in
      when_invalid (validate_edit_schedule_params p now) (
      bind (update_freezes (\<lambda>_ r. fz_id r = fe_id p \<and> fz_scheduled r \<and> fz_status r = FreezeScheduled
            \<and> opt_ex (\<lambda>s. s > now) (fz_starts_at r) \<and> opt_all (\<lambda>e. fz_updated_at r = e) expected)
        (\<lambda>r. r \<lparr>fz_reason := fe_reason p, fz_starts_at := Some (fe_starts_at p),
               fz_planned_ends_at := fe_planned_ends_at p, fz_updated_at := now\<rparr>)) (\<lambda>affected.
      bind (require_affected_freeze affected ''scheduled freeze is no longer pending'') (\<lambda>_.
      get_freeze (fe_id p)))))))"

definition edit_scheduled :: "freeze_edit \<Rightarrow> branch_freeze go" where
  "edit_scheduled params = edit_scheduled_expecting params None"

definition activate_scheduled :: "int \<Rightarrow> branch_freeze go" where
  "activate_scheduled i =
     (if i \<le> 0 then fail (invalid ''scheduled freeze is required'')
      else bind now_utc (\<lambda>now.
      bind (update_freezes (\<lambda>d r. fz_id r = i \<and> fz_scheduled r \<and> fz_status r = FreezeScheduled
            \<and> opt_ex (\<lambda>s. s \<le> now) (fz_starts_at r) \<and> enforced d (fz_repository_id r))
        (\<lambda>r. r \<lparr>fz_status := FreezeActive, fz_needs_recompute := True, fz_updated_at := now\<rparr>)) (\<lambda>affected.
      if affected = 0 then
        bind (require_freeze_repository_enforcement i) (\<lambda>_.
        fail (invalid ''scheduled freeze is not due''))
      else get_freeze i)))"

definition start_scheduled_now :: "int \<Rightarrow> branch_freeze go" where
  "start_scheduled_now i =
     (if i \<le> 0 then fail (invalid ''scheduled freeze is required'')
      else bind now_utc (\<lambda>now.
      bind (update_freezes (\<lambda>d r. fz_id r = i \<and> fz_scheduled r \<and> fz_status r = FreezeScheduled
            \<and> opt_ex (\<lambda>s. s > now) (fz_starts_at r) \<and> opt_all (\<lambda>e. e > now) (fz_planned_ends_at r)
            \<and> enforced d (fz_repository_id r))
        (\<lambda>r. r \<lparr>fz_status := FreezeActive, fz_starts_at := Some now, fz_needs_recompute := True,
               fz_updated_at := now\<rparr>)) (\<lambda>affected.
      if affected = 0 then
        bind (require_freeze_repository_enforcement i) (\<lambda>_.
        bind (attempt (get_freeze i)) (\<lambda>r.
          case r of
            Inl e \<Rightarrow> if e = NoRows then fail (invalid ''scheduled freeze is no longer pending'') else fail e
          | Inr target \<Rightarrow>
              if \<not> fr_scheduled target \<or> fr_status target \<noteq> FreezeScheduled
                then fail (invalid ''scheduled freeze is no longer pending'')
              else if \<not> opt_ex (\<lambda>s. s > now) (fr_starts_at target)
                then fail (invalid ''scheduled freeze has reached its start time'')
              else if opt_ex (\<lambda>e. \<not> e > now) (fr_planned_ends_at target)
                then fail (invalid ''planned unfreeze is no longer in the future; edit the schedule before starting it now'')
              else fail (invalid ''scheduled freeze is no longer pending'')))
      else get_freeze i)))"

definition execute_planned_unfreeze :: "int \<Rightarrow> branch_freeze go" where
  "execute_planned_unfreeze i =
     (if i \<le> 0 then fail (invalid ''freeze is required'')
      else bind now_utc (\<lambda>now.
      bind (update_freezes (\<lambda>_ r. fz_id r = i \<and> fz_status r = FreezeActive
            \<and> opt_ex (\<lambda>e. e \<le> now) (fz_planned_ends_at r))
        (\<lambda>r. r \<lparr>fz_status := FreezeEnded, fz_ends_at := Some now, fz_needs_recompute := True,
               fz_updated_at := now\<rparr>)) (\<lambda>affected.
      bind (require_affected_freeze affected ''freeze is not due for planned unfreeze'') (\<lambda>_.
      get_freeze i))))"

text \<open>The new schedule is checked against the foreign key only when a row is written.\<close>

definition update_materialized_attribution :: "attribution_update \<Rightarrow> branch_freeze go" where
  "update_materialized_attribution p =
     (if fa_freeze_id p \<le> 0 then fail (invalid ''active freeze is required'')
      else if fa_schedule_id p \<le> 0 then fail (invalid ''schedule is required'')
      else bind now_utc (\<lambda>now.
        (let hit = (\<lambda>r. fz_id r = fa_freeze_id p \<and> fz_status r = FreezeActive \<and> fz_schedule_id r \<noteq> None) in
         bind (checked (\<lambda>d. list_ex hit (tb_freezes d) \<longrightarrow> fa_schedule_id p \<in> set (map sc_id (tb_schedules d)))
           (on_freezes (update_where hit
             (\<lambda>r. r \<lparr>fz_schedule_id := Some (fa_schedule_id p), fz_schedule_name := fa_schedule_name p,
                    fz_reason := fa_reason p, fz_planned_ends_at := fa_planned_ends_at p,
                    fz_needs_recompute := True, fz_updated_at := now\<rparr>)))) (\<lambda>affected.
         bind (require_affected_freeze affected ''freeze is no longer an active materialized freeze'') (\<lambda>_.
         get_freeze (fa_freeze_id p))))))"

end
