(* ===== verification/FreezeFacts.thy ===== *)
theory FreezeFacts
  imports FreezeStore
begin

text \<open>
  What the freeze store guarantees: the life of a row (scheduled, active, ended, cancelled), the
  well-formedness of the table, when a freeze may become active, and what creating one does.
\<close>

subsection \<open>Statements on the table\<close>

context table_relation begin

lemma update_freezes:
  assumes "\<And>d. R d (d \<lparr>tb_freezes := snd (update_where (p d) f (tb_freezes d))\<rparr>)"
  shows "within R (update_freezes p f)"
  unfolding update_freezes_def by (rule exec) (simp add: split_beta assms)

lemma insert_freeze:
  assumes "\<And>d. R d (d \<lparr>tb_freezes := tb_freezes d @ [mk (fresh_id (map fz_id (tb_freezes d)))]\<rparr>)"
  shows "within R (insert_freeze mk)"
  unfolding insert_freeze_def by (rule checked) (simp add: Let_def assms)

lemma freeze_reads:
  "within R (get_freeze i)" "within R (require_enforcement_active_repository repo)"
  "within R (require_freeze_repository_enforcement i)" "within R (reject_duplicate_active repo branch)"
  "within R (require_affected_freeze n message)"
  unfolding get_freeze_def get_freeze_for_scope_def require_enforcement_active_repository_def
    require_freeze_repository_enforcement_def reject_duplicate_active_def require_affected_freeze_def
  by (intro rules)+

end

subsection \<open>The life of a freeze\<close>

fun status_le :: "freeze_status \<Rightarrow> freeze_status \<Rightarrow> bool" where
  "status_le FreezeScheduled s \<longleftrightarrow> s \<in> {FreezeScheduled, FreezeActive, FreezeEnded, FreezeCancelled}"
| "status_le FreezeActive s \<longleftrightarrow> s \<in> {FreezeActive, FreezeEnded, FreezeCancelled}"
| "status_le FreezeEnded s \<longleftrightarrow> s = FreezeEnded"
| "status_le FreezeCancelled s \<longleftrightarrow> s = FreezeCancelled"
| "status_le (OtherFreezeStatus t) s \<longleftrightarrow> s = OtherFreezeStatus t"

lemma status_le_refl [simp]: "status_le s s"
  by (cases s) simp_all

lemma status_le_trans: "status_le a b \<Longrightarrow> status_le b c \<Longrightarrow> status_le a c"
  by (cases a; cases b) auto

lemma status_le_closed: "status_le a b \<Longrightarrow> a \<in> {FreezeEnded, FreezeCancelled} \<Longrightarrow> b = a"
  by (cases a) auto

text \<open>
  How a row may change: never in who it is, only forwards in its status, its start never once
  it is active, and nothing but the recompute mark once it is closed.
\<close>

definition freeze_evolves :: "freeze_row \<Rightarrow> freeze_row \<Rightarrow> bool" where
  "freeze_evolves r r' \<longleftrightarrow>
     fz_id r' = fz_id r \<and> fz_repository_id r' = fz_repository_id r \<and> fz_branch r' = fz_branch r
     \<and> fz_scheduled r' = fz_scheduled r \<and> fz_created_by r' = fz_created_by r
     \<and> fz_created_by_kind r' = fz_created_by_kind r \<and> fz_created_at r' = fz_created_at r
     \<and> status_le (fz_status r) (fz_status r')
     \<and> (fz_status r \<in> {FreezeActive, FreezeEnded, FreezeCancelled} \<longrightarrow> fz_starts_at r' = fz_starts_at r)
     \<and> (fz_status r \<in> {FreezeEnded, FreezeCancelled} \<longrightarrow> fz_ends_at r' = fz_ends_at r
          \<and> fz_planned_ends_at r' = fz_planned_ends_at r \<and> fz_reason r' = fz_reason r
          \<and> fz_schedule_name r' = fz_schedule_name r)"

lemma freeze_evolves_refl [simp]: "freeze_evolves r r"
  by (simp add: freeze_evolves_def)

lemma freeze_evolves_trans:
  assumes "freeze_evolves a b" and "freeze_evolves b c"
  shows "freeze_evolves a c"
proof -
  have le: "status_le (fz_status a) (fz_status c)"
    using assms status_le_trans unfolding freeze_evolves_def by blast
  show ?thesis using assms le unfolding freeze_evolves_def
    by (cases "fz_status a"; cases "fz_status b"; simp)
qed

definition freezes_evolve :: "db \<Rightarrow> db \<Rightarrow> bool" where
  "freezes_evolve d d' \<longleftrightarrow> (\<forall>r \<in> set (tb_freezes d). \<exists>r' \<in> set (tb_freezes d'). freeze_evolves r r')"

interpretation life: table_relation freezes_evolve
proof
  show "freezes_evolve d d" for d unfolding freezes_evolve_def by (meson freeze_evolves_refl)
  show "freezes_evolve a b \<Longrightarrow> freezes_evolve b c \<Longrightarrow> freezes_evolve a c" for a b c
    unfolding freezes_evolve_def by (meson freeze_evolves_trans)
qed

lemma life_rows:
  assumes "\<And>r. p r \<Longrightarrow> freeze_evolves r (f r)"
  shows "freezes_evolve d (d \<lparr>tb_freezes := snd (update_where p f (tb_freezes d))\<rparr>)"
  unfolding freezes_evolve_def
proof
  fix r
  assume "r \<in> set (tb_freezes d)"
  then have "(if p r then f r else r) \<in> set (snd (update_where p f (tb_freezes d)))"
    unfolding update_where_def snd_conv set_map by (rule imageI)
  moreover have "freeze_evolves r (if p r then f r else r)" using assms by simp
  moreover have "tb_freezes (d \<lparr>tb_freezes := rows\<rparr>) = rows" for rows by simp
  ultimately show "\<exists>r' \<in> set (tb_freezes (d \<lparr>tb_freezes := snd (update_where p f (tb_freezes d))\<rparr>)).
      freeze_evolves r r'" by metis
qed

lemma life_update:
  assumes "\<And>d r. p d r \<Longrightarrow> freeze_evolves r (f r)"
  shows "within freezes_evolve (update_freezes p f)"
  by (rule life.update_freezes) (rule life_rows, rule assms)

lemma life_insert: "within freezes_evolve (insert_freeze mk)"
proof (rule life.insert_freeze)
  fix d
  show "freezes_evolve d (d \<lparr>tb_freezes := tb_freezes d @ [mk (fresh_id (map fz_id (tb_freezes d)))]\<rparr>)"
    using freeze_evolves_refl by (fastforce simp: freezes_evolve_def)
qed

lemma life_close: "st \<in> {FreezeEnded, FreezeCancelled} \<Longrightarrow> within freezes_evolve (close_active \<lparr>cl_id = i, cl_status = st\<rparr>)"
  unfolding close_active_def
  by (intro life.rules life.freeze_reads life_update) (auto simp: freeze_evolves_def)

lemma life_edit: "within freezes_evolve (edit_scheduled_expecting p expected)"
  unfolding edit_scheduled_expecting_def Let_def
  by (intro life.rules life.freeze_reads life_update) (auto simp: freeze_evolves_def)

lemma life_attribution: "within freezes_evolve (update_materialized_attribution p)"
  unfolding update_materialized_attribution_def Let_def
  by (intro life.rules life.freeze_reads life.checked)
    (auto simp: split_beta freeze_evolves_def intro: life_rows)

lemma life_operations:
  shows "within freezes_evolve (create_active cp)"
    "within freezes_evolve (create_scheduled sp)"
    "within freezes_evolve (mark_recomputed i)"
    "within freezes_evolve (mark_repository_recomputed repo)"
    "within freezes_evolve (end_freeze i)"
    "within freezes_evolve (cancel_freeze i)"
    "within freezes_evolve (cancel_scheduled i)"
    "within freezes_evolve (edit_scheduled_expecting ep expected)"
    "within freezes_evolve (activate_scheduled i)"
    "within freezes_evolve (start_scheduled_now i)"
    "within freezes_evolve (execute_planned_unfreeze i)"
    "within freezes_evolve (update_materialized_attribution ap)"
proof -
  show "within freezes_evolve (create_active cp)"
    unfolding create_active_def Let_def by (intro life.rules life.freeze_reads life_insert)
  show "within freezes_evolve (create_scheduled sp)"
    unfolding create_scheduled_def Let_def by (intro life.rules life.freeze_reads life_insert)
  show "within freezes_evolve (mark_recomputed i)"
    unfolding mark_recomputed_def
    by (intro life.rules life.freeze_reads life_update) (auto simp: freeze_evolves_def)
  show "within freezes_evolve (mark_repository_recomputed repo)"
    unfolding mark_repository_recomputed_def
    by (intro life.rules life.freeze_reads life_update) (auto simp: freeze_evolves_def)
  show "within freezes_evolve (end_freeze i)" "within freezes_evolve (cancel_freeze i)"
    unfolding end_freeze_def cancel_freeze_def by (simp_all add: life_close)
  show "within freezes_evolve (cancel_scheduled i)"
    unfolding cancel_scheduled_def
    by (intro life.rules life.freeze_reads life_update) (auto simp: freeze_evolves_def)
  show "within freezes_evolve (edit_scheduled_expecting ep expected)" by (rule life_edit)
  show "within freezes_evolve (activate_scheduled i)"
    unfolding activate_scheduled_def
    by (intro life.rules life.freeze_reads life_update) (auto simp: freeze_evolves_def)
  show "within freezes_evolve (start_scheduled_now i)"
    unfolding start_scheduled_now_def
    by (intro life.rules life.freeze_reads life_update) (auto simp: freeze_evolves_def)
  show "within freezes_evolve (execute_planned_unfreeze i)"
    unfolding execute_planned_unfreeze_def
    by (intro life.rules life.freeze_reads life_update) (auto simp: freeze_evolves_def)
  show "within freezes_evolve (update_materialized_attribution ap)" by (rule life_attribution)
qed

text \<open>
  C16: The life of a freeze. Whatever operation of the store runs, with whatever arguments and
  whichever statement fails, every row stays in the table with its identity, branch and author,
  its status only moves forwards (scheduled, then active, then ended or cancelled), the start of
  an active freeze and everything but the recompute mark of a closed one never change.
\<close>

theorem freeze_operations_follow_lifecycle:
  "within freezes_evolve (create_active cp) \<and> within freezes_evolve (create_scheduled sp)
   \<and> within freezes_evolve (mark_recomputed i) \<and> within freezes_evolve (mark_repository_recomputed repo)
   \<and> within freezes_evolve (end_freeze i) \<and> within freezes_evolve (cancel_freeze i)
   \<and> within freezes_evolve (cancel_scheduled i)
   \<and> within freezes_evolve (edit_scheduled_expecting ep expected)
   \<and> within freezes_evolve (activate_scheduled i) \<and> within freezes_evolve (start_scheduled_now i)
   \<and> within freezes_evolve (execute_planned_unfreeze i)
   \<and> within freezes_evolve (update_materialized_attribution ap)"
  by (intro conjI life_operations)

subsection \<open>The shape of the table\<close>

definition freeze_row_ok :: "freeze_row \<Rightarrow> bool" where
  "freeze_row_ok r \<longleftrightarrow>
     (fz_status r = FreezeScheduled \<longrightarrow> fz_scheduled r \<and> fz_ends_at r = None
        \<and> opt_ex (\<lambda>s. opt_all (\<lambda>e. s < e) (fz_planned_ends_at r)) (fz_starts_at r))
     \<and> (fz_status r = FreezeActive \<longrightarrow> fz_starts_at r \<noteq> None \<and> fz_ends_at r = None)
     \<and> (fz_status r \<in> {FreezeEnded, FreezeCancelled} \<longrightarrow> fz_ends_at r \<noteq> None)"

definition freezes_ok :: "db \<Rightarrow> bool" where
  "freezes_ok d \<longleftrightarrow> distinct (map fz_id (tb_freezes d)) \<and> (\<forall>r \<in> set (tb_freezes d). freeze_row_ok r)"

lemma ok_rows:
  assumes "\<And>r. fz_id (f r) = fz_id r" and "\<And>r. p r \<Longrightarrow> freeze_row_ok r \<Longrightarrow> freeze_row_ok (f r)"
  shows "keeps freezes_ok d (d \<lparr>tb_freezes := snd (update_where p f (tb_freezes d))\<rparr>)"
proof -
  have "fz_id \<circ> (\<lambda>r. if p r then f r else r) = fz_id" by (rule ext) (simp add: assms(1))
  then show ?thesis using assms(2) by (auto simp: keeps_def freezes_ok_def update_where_def)
qed

lemma ok_update:
  assumes "\<And>r. fz_id (f r) = fz_id r" and "\<And>d r. p d r \<Longrightarrow> freeze_row_ok r \<Longrightarrow> freeze_row_ok (f r)"
  shows "within (keeps freezes_ok) (update_freezes p f)"
  by (rule keeps.update_freezes) (rule ok_rows, rule assms(1), rule assms(2))

lemma ok_insert:
  assumes "\<And>i. fz_id (mk i) = i" and "\<And>i. freeze_row_ok (mk i)"
  shows "within (keeps freezes_ok) (insert_freeze mk)"
  by (rule keeps.insert_freeze)
    (use fresh_id_new [of "map fz_id _"] assms in \<open>auto simp: keeps_def freezes_ok_def\<close>)

lemma schedule_params_ordered:
  "validate_schedule_params p now = None \<Longrightarrow> opt_all (\<lambda>e. fp_starts_at p < e) (fp_planned_ends_at p)"
  by (cases "fp_planned_ends_at p") (auto simp: validate_schedule_params_def Let_def split: if_splits option.splits)

lemma edit_params_ordered:
  "validate_edit_schedule_params p now = None \<Longrightarrow> opt_all (\<lambda>e. fe_starts_at p < e) (fe_planned_ends_at p)"
  by (cases "fe_planned_ends_at p") (auto simp: validate_edit_schedule_params_def split: if_splits option.splits)

lemma ok_close: "st \<in> {FreezeEnded, FreezeCancelled} \<Longrightarrow> within (keeps freezes_ok) (close_active \<lparr>cl_id = i, cl_status = st\<rparr>)"
  unfolding close_active_def
  by (intro keeps.rules keeps.freeze_reads ok_update) (auto simp: freeze_row_ok_def)

lemma freezes_ok_operations:
  shows "within (keeps freezes_ok) (create_active cp)"
    "within (keeps freezes_ok) (create_scheduled sp)"
    "within (keeps freezes_ok) (mark_recomputed i)"
    "within (keeps freezes_ok) (mark_repository_recomputed repo)"
    "within (keeps freezes_ok) (end_freeze i)"
    "within (keeps freezes_ok) (cancel_freeze i)"
    "within (keeps freezes_ok) (cancel_scheduled i)"
    "within (keeps freezes_ok) (edit_scheduled_expecting ep expected)"
    "within (keeps freezes_ok) (activate_scheduled i)"
    "within (keeps freezes_ok) (start_scheduled_now i)"
    "within (keeps freezes_ok) (execute_planned_unfreeze i)"
    "within (keeps freezes_ok) (update_materialized_attribution ap)"
proof -
  show "within (keeps freezes_ok) (create_active cp)"
    unfolding create_active_def Let_def
    by (intro keeps.rules keeps.freeze_reads ok_insert) (simp_all add: freeze_row_ok_def)
  show "within (keeps freezes_ok) (create_scheduled sp)"
    unfolding create_scheduled_def Let_def
    by (intro keeps.rules keeps.freeze_reads ok_insert)
      (auto simp: freeze_row_ok_def dest: schedule_params_ordered)
  show "within (keeps freezes_ok) (mark_recomputed i)"
    unfolding mark_recomputed_def
    by (intro keeps.rules keeps.freeze_reads ok_update) (auto simp: freeze_row_ok_def)
  show "within (keeps freezes_ok) (mark_repository_recomputed repo)"
    unfolding mark_repository_recomputed_def
    by (intro keeps.rules keeps.freeze_reads ok_update) (auto simp: freeze_row_ok_def)
  show "within (keeps freezes_ok) (end_freeze i)" "within (keeps freezes_ok) (cancel_freeze i)"
    unfolding end_freeze_def cancel_freeze_def by (simp_all add: ok_close)
  show "within (keeps freezes_ok) (cancel_scheduled i)"
    unfolding cancel_scheduled_def
    by (intro keeps.rules keeps.freeze_reads ok_update) (auto simp: freeze_row_ok_def)
  show "within (keeps freezes_ok) (edit_scheduled_expecting ep expected)"
    unfolding edit_scheduled_expecting_def Let_def
    by (intro keeps.rules keeps.freeze_reads ok_update)
      (auto simp: freeze_row_ok_def dest: edit_params_ordered)
  show "within (keeps freezes_ok) (activate_scheduled i)"
    unfolding activate_scheduled_def
    by (intro keeps.rules keeps.freeze_reads ok_update) (auto simp: freeze_row_ok_def opt_ex_iff)
  show "within (keeps freezes_ok) (start_scheduled_now i)"
    unfolding start_scheduled_now_def
    by (intro keeps.rules keeps.freeze_reads ok_update) (auto simp: freeze_row_ok_def opt_ex_iff)
  show "within (keeps freezes_ok) (execute_planned_unfreeze i)"
    unfolding execute_planned_unfreeze_def
    by (intro keeps.rules keeps.freeze_reads ok_update) (auto simp: freeze_row_ok_def)
  show "within (keeps freezes_ok) (update_materialized_attribution ap)"
    unfolding update_materialized_attribution_def Let_def
    by (intro keeps.rules keeps.freeze_reads keeps.checked)
      (auto simp: split_beta freeze_row_ok_def intro!: ok_rows)
qed

subsection \<open>When a freeze may become active\<close>

definition was_active :: "db \<Rightarrow> freeze_row \<Rightarrow> bool" where
  "was_active d r' \<longleftrightarrow> (\<exists>r \<in> set (tb_freezes d). fz_id r = fz_id r'
     \<and> fz_repository_id r = fz_repository_id r' \<and> fz_status r = FreezeActive)"

definition activations_enforced :: "db \<Rightarrow> db \<Rightarrow> bool" where
  "activations_enforced d d' \<longleftrightarrow> tb_repositories d' = tb_repositories d
     \<and> (\<forall>r' \<in> set (tb_freezes d'). fz_status r' = FreezeActive \<longrightarrow>
          was_active d r' \<or> enforced d (fz_repository_id r'))"

lemma enforced_same: "tb_repositories d' = tb_repositories d \<Longrightarrow> enforced d' repo = enforced d repo"
  by (simp add: enforced_def)

interpretation gate: guarded_relation activations_enforced "\<lambda>d. enforced d repo" for repo
proof
  show "activations_enforced d d" for d by (auto simp: activations_enforced_def was_active_def)
  show "activations_enforced a b \<Longrightarrow> activations_enforced b c \<Longrightarrow> activations_enforced a c" for a b c
    unfolding activations_enforced_def was_active_def using enforced_same [of b a] by metis
qed

lemma gate_rows:
  assumes "\<And>r. p r \<Longrightarrow> fz_id (f r) = fz_id r \<and> fz_repository_id (f r) = fz_repository_id r"
    and "\<And>r. p r \<Longrightarrow> fz_status (f r) = FreezeActive \<Longrightarrow> fz_status r = FreezeActive \<or> enforced d (fz_repository_id r)"
  shows "activations_enforced d (d \<lparr>tb_freezes := snd (update_where p f (tb_freezes d))\<rparr>)"
  unfolding activations_enforced_def
proof (intro conjI ballI impI)
  fix r'
  assume "r' \<in> set (tb_freezes (d \<lparr>tb_freezes := snd (update_where p f (tb_freezes d))\<rparr>))"
    and act: "fz_status r' = FreezeActive"
  then obtain r where r: "r \<in> set (tb_freezes d)" "r' = (if p r then f r else r)"
    by (auto simp: update_where_set)
  show "was_active d r' \<or> enforced d (fz_repository_id r')"
    using r act assms [of r] by (cases "p r") (auto simp: was_active_def)
qed simp

lemma gate_update:
  assumes "\<And>d r. p d r \<Longrightarrow> fz_id (f r) = fz_id r \<and> fz_repository_id (f r) = fz_repository_id r"
    and "\<And>d r. p d r \<Longrightarrow> fz_status (f r) = FreezeActive \<Longrightarrow>
      fz_status r = FreezeActive \<or> enforced d (fz_repository_id r)"
  shows "within activations_enforced (update_freezes p f)"
  by (rule gate.update_freezes, rule gate_rows, erule assms(1), erule assms(2))

lemma gate_insert_inactive:
  "(\<And>i. fz_status (mk i) \<noteq> FreezeActive) \<Longrightarrow> within activations_enforced (insert_freeze mk)"
  by (rule gate.insert_freeze) (auto simp: activations_enforced_def was_active_def)

lemma gate_insert_active:
  "(\<And>i. fz_repository_id (mk i) = repo) \<Longrightarrow>
     within (guarded (\<lambda>d. enforced d repo) activations_enforced) (insert_freeze mk)"
  by (rule gate.guarded.insert_freeze)
    (auto simp: guarded_def activations_enforced_def was_active_def enforced_def)

lemma require_enforcement_establishes:
  "establishes (\<lambda>d. enforced d repo) (require_enforcement_active_repository repo)"
  unfolding establishes_def
proof
  fix w
  let ?p = "\<lambda>r. repo_id r = repo \<and> repo_active r \<and> repo_enforcement r = EnforcementActive"
  show "tables (snd (require_enforcement_active_repository repo w)) = tables w
     \<and> (case fst (require_enforcement_active_repository repo w) of Inl _ \<Rightarrow> True
          | Inr _ \<Rightarrow> enforced (tables w) repo)"
  proof (cases "filter ?p (tb_repositories (tables w))")
    case Nil
    then show ?thesis by (simp add: require_enforcement_active_repository_def world_defs)
  next
    case (Cons r rs)
    then have "r \<in> set (filter ?p (tb_repositories (tables w)))" by simp
    then have "enforced (tables w) repo" by (auto simp: enforced_def list_ex_iff)
    with Cons show ?thesis by (simp add: require_enforcement_active_repository_def world_defs)
  qed
qed

lemma gate_operations:
  shows "within activations_enforced (create_active cp)"
    "within activations_enforced (create_scheduled sp)"
    "within activations_enforced (mark_recomputed i)"
    "within activations_enforced (mark_repository_recomputed repo)"
    "within activations_enforced (end_freeze i)"
    "within activations_enforced (cancel_freeze i)"
    "within activations_enforced (cancel_scheduled i)"
    "within activations_enforced (edit_scheduled_expecting ep expected)"
    "within activations_enforced (activate_scheduled i)"
    "within activations_enforced (start_scheduled_now i)"
    "within activations_enforced (execute_planned_unfreeze i)"
    "within activations_enforced (update_materialized_attribution ap)"
proof -
  show "within activations_enforced (create_active cp)"
    unfolding create_active_def Let_def
    by (intro gate.now_utc gate.bind gate.when_invalid gate.guard [OF require_enforcement_establishes]
        gate.guarded.rules gate.guarded.freeze_reads gate_insert_active) simp
  show "within activations_enforced (create_scheduled sp)"
    unfolding create_scheduled_def Let_def
    by (intro gate.rules gate.freeze_reads gate_insert_inactive) simp
  show "within activations_enforced (mark_recomputed i)"
    unfolding mark_recomputed_def by (intro gate.rules gate.freeze_reads gate_update) auto
  show "within activations_enforced (mark_repository_recomputed repo)"
    unfolding mark_repository_recomputed_def by (intro gate.rules gate.freeze_reads gate_update) auto
  show "within activations_enforced (end_freeze i)" "within activations_enforced (cancel_freeze i)"
    unfolding end_freeze_def cancel_freeze_def close_active_def
    by (intro gate.rules gate.freeze_reads gate_update; simp)+
  show "within activations_enforced (cancel_scheduled i)"
    unfolding cancel_scheduled_def by (intro gate.rules gate.freeze_reads gate_update) auto
  show "within activations_enforced (edit_scheduled_expecting ep expected)"
    unfolding edit_scheduled_expecting_def Let_def
    by (intro gate.rules gate.freeze_reads gate_update) auto
  show "within activations_enforced (activate_scheduled i)"
    unfolding activate_scheduled_def by (intro gate.rules gate.freeze_reads gate_update) auto
  show "within activations_enforced (start_scheduled_now i)"
    unfolding start_scheduled_now_def by (intro gate.rules gate.freeze_reads gate_update) auto
  show "within activations_enforced (execute_planned_unfreeze i)"
    unfolding execute_planned_unfreeze_def by (intro gate.rules gate.freeze_reads gate_update) auto
  show "within activations_enforced (update_materialized_attribution ap)"
    unfolding update_materialized_attribution_def Let_def
    by (intro gate.rules gate.freeze_reads gate.checked) (auto simp: split_beta intro!: gate_rows)
qed

text \<open>
  C27: Nothing freezes a branch of a repository whose enforcement is not active: whatever
  operation runs and wherever it fails, each row that is active afterwards was active before or
  belongs to an active repository in the state "enforcement active".
\<close>

theorem activation_requires_enforcement:
  "within activations_enforced (create_active cp) \<and> within activations_enforced (create_scheduled sp)
   \<and> within activations_enforced (mark_recomputed i)
   \<and> within activations_enforced (mark_repository_recomputed repo)
   \<and> within activations_enforced (end_freeze i) \<and> within activations_enforced (cancel_freeze i)
   \<and> within activations_enforced (cancel_scheduled i)
   \<and> within activations_enforced (edit_scheduled_expecting ep expected)
   \<and> within activations_enforced (activate_scheduled i)
   \<and> within activations_enforced (start_scheduled_now i)
   \<and> within activations_enforced (execute_planned_unfreeze i)
   \<and> within activations_enforced (update_materialized_attribution ap)"
  by (intro conjI gate_operations)

subsection \<open>What creating a freeze does\<close>

lemma now_success: "now_utc w = (Inr t, w1) \<Longrightarrow> t = clock w (readings w) \<and> tables w1 = tables w"
  by (auto simp: now_utc_def)

lemma when_invalid_success: "when_invalid e m w = (Inr x, w1) \<Longrightarrow> e = None \<and> m w = (Inr x, w1)"
  by (cases e) (simp_all add: when_invalid_def fail_def)

lemma establishes_success: "establishes P m \<Longrightarrow> m w = (Inr x, w1) \<Longrightarrow> tables w1 = tables w \<and> P (tables w)"
  unfolding establishes_def by (metis fst_conv old.sum.simps(6) snd_conv)

lemma reject_duplicate_establishes:
  "establishes (\<lambda>d. \<forall>r \<in> set (tb_freezes d). \<not> (fz_repository_id r = repo \<and> fz_branch r = branch
      \<and> fz_status r = FreezeActive)) (reject_duplicate_active repo branch)"
  unfolding establishes_def
proof
  fix w :: world
  let ?p = "\<lambda>r. fz_repository_id r = repo \<and> fz_branch r = branch \<and> fz_status r = FreezeActive"
  let ?rows = "rotate (choice w (statements w)) (filter ?p (tb_freezes (tables w)))"
  show "tables (snd (reject_duplicate_active repo branch w)) = tables w
     \<and> (case fst (reject_duplicate_active repo branch w) of Inl _ \<Rightarrow> True
          | Inr _ \<Rightarrow> \<forall>r \<in> set (tb_freezes (tables w)). \<not> ?p r)"
  proof (cases ?rows)
    case Nil
    then have "filter ?p (tb_freezes (tables w)) = []" by simp
    with Nil show ?thesis
      by (simp add: reject_duplicate_active_def world_defs) (simp add: filter_empty_conv)
  next
    case (Cons r rs)
    then show ?thesis by (simp add: reject_duplicate_active_def world_defs)
  qed
qed

lemma insert_success:
  assumes "insert_freeze mk w = (Inr i, w1)"
  shows "i = fresh_id (map fz_id (tb_freezes (tables w)))
     \<and> tables w1 = tables w \<lparr>tb_freezes := tb_freezes (tables w) @ [mk i]\<rparr>"
  using assms by (auto simp: insert_freeze_def checked_def sql_def Let_def split: if_splits)

lemma get_success:
  "get_freeze i w = (Inr x, w1) \<Longrightarrow>
     tables w1 = tables w \<and> x \<in> set (freezes_where (\<lambda>r. fz_id r = i) (tables w))"
  by (auto simp: get_freeze_def get_freeze_for_scope_def query_row_def sql_def first_row_def
      split: if_splits list.splits) (metis (mono_tags, lifting) filter_eq_Cons_iff imageI in_set_conv_decomp mem_Collect_eq)

definition active_row :: "freeze_create \<Rightarrow> instant \<Rightarrow> int \<Rightarrow> freeze_row" where
  "active_row p now i = \<lparr>fz_id = i, fz_repository_id = fc_repository_id p,
     fz_branch = fc_branch p, fz_status = FreezeActive, fz_scheduled = False,
     fz_needs_recompute = False, fz_reason = fc_reason p, fz_starts_at = Some now,
     fz_ends_at = None, fz_planned_ends_at = fc_planned_ends_at p,
     fz_schedule_id = fc_schedule_id p, fz_schedule_name = fc_schedule_name p,
     fz_created_by = fc_created_by p, fz_created_by_kind = fc_created_by_kind p,
     fz_created_at = now, fz_updated_at = now\<rparr>"

lemma create_active_success:
  assumes "create_active p w = (Inr fz, w')"
  shows "let q = normalize_create_params p; now = clock w (readings w);
             i = fresh_id (map fz_id (tb_freezes (tables w))) in
     validate_create_params q now = None \<and> enforced (tables w) (fc_repository_id q)
     \<and> (\<forall>r \<in> set (tb_freezes (tables w)). \<not> (fz_repository_id r = fc_repository_id q
          \<and> fz_branch r = fc_branch q \<and> fz_status r = FreezeActive))
     \<and> tables w' = tables w \<lparr>tb_freezes := tb_freezes (tables w) @ [active_row q now i]\<rparr>
     \<and> fz = scan_branch_freeze (active_row q now i)"
proof -
  define q where "q = normalize_create_params p"
  define now where "now = clock w (readings w)"
  define i where "i = fresh_id (map fz_id (tb_freezes (tables w)))"
  from assms obtain w1 where v: "validate_create_params q now = None"
    and t1: "tables w1 = tables w"
    and rest: "bind (require_enforcement_active_repository (fc_repository_id q)) (\<lambda>_.
      bind (reject_duplicate_active (fc_repository_id q) (fc_branch q)) (\<lambda>_.
      bind (insert_freeze (active_row q now)) get_freeze)) w1 = (Inr fz, w')"
    unfolding create_active_def Let_def q_def [symmetric] active_row_def [symmetric]
    by (elim bind_cases) (auto dest!: when_invalid_success now_success simp: now_def)
  from rest obtain w2 w3 w4 j where
    r: "require_enforcement_active_repository (fc_repository_id q) w1 = (Inr (), w2)"
    and d: "reject_duplicate_active (fc_repository_id q) (fc_branch q) w2 = (Inr (), w3)"
    and ins: "insert_freeze (active_row q now) w3 = (Inr j, w4)"
    and g: "get_freeze j w4 = (Inr fz, w')"
    by (elim bind_cases) auto
  note er = establishes_success [OF require_enforcement_establishes r]
  note ed = establishes_success [OF reject_duplicate_establishes d]
  note ei = insert_success [OF ins]
  note eg = get_success [OF g]
  have j: "j = i" using ei er ed t1 by (simp add: i_def)
  have "tables w' = tables w \<lparr>tb_freezes := tb_freezes (tables w) @ [active_row q now i]\<rparr>"
    using ei eg er ed t1 j by simp
  moreover have "fz = scan_branch_freeze (active_row q now i)"
    by (rule fresh_row_unique [where key = fz_id and rows = "tb_freezes (tables w)"])
      (use eg ei er ed t1 j in \<open>simp add: i_def\<close>)
  ultimately show ?thesis
    unfolding Let_def q_def [symmetric] now_def [symmetric] i_def [symmetric]
    using v er ed t1 by simp
qed

text \<open>
  Freezing a branch by hand. If it reports success then the parameters are valid, the
  repository is enforced, no row of the branch was active, and the only change to the database
  is one new row: active from the clock reading, with the trimmed branch and reason; the value
  returned is that row.
\<close>

theorem create_active_correct:
  "case create_active p w of
     (Inr fz, w') \<Rightarrow>
       (let q = normalize_create_params p; now = clock w (readings w);
            i = fresh_id (map fz_id (tb_freezes (tables w))) in
        validate_create_params q now = None \<and> enforced (tables w) (fc_repository_id q)
        \<and> \<not> list_ex (\<lambda>r. fz_repository_id r = fc_repository_id q \<and> fz_branch r = fc_branch q
             \<and> fz_status r = FreezeActive) (tb_freezes (tables w))
        \<and> tables w' = tables w \<lparr>tb_freezes := tb_freezes (tables w) @ [active_row q now i]\<rparr>
        \<and> fz = scan_branch_freeze (active_row q now i))
   | (Inl e, w') \<Rightarrow> True"
proof (cases "create_active p w")
  case (Pair r w')
  show ?thesis
  proof (cases r)
    case (Inr fz)
    note made = create_active_success [OF Pair [unfolded Inr], unfolded Let_def]
    show ?thesis unfolding Pair Inr prod.case sum.case Let_def list_ex_iff
      using made by blast
  qed (simp add: Pair)
qed

end
