(* ===== verification/Rfc3339.thy ===== *)
theory Rfc3339
  imports Coverage
begin

text \<open>
  \<open>time.RFC3339Nano\<close> as the thaw-exception store writes it, and how SQLite compares such texts.
  The layout drops trailing zeros of the fraction, so texts do not always compare like the
  instants they stand for: the lemmas say exactly when they do.
\<close>

definition fraction_text :: "int \<Rightarrow> string" where
  "fraction_text n = (if n = 0 then [] else CHR ''.'' # drop_while_end (\<lambda>c. c = CHR ''0'') (format_padded 9 n))"

definition second_text :: "int \<Rightarrow> string" where
  "second_text s = (case civil_from_days (s div 86400) of (y, m, d) \<Rightarrow>
     format_padded 4 y @ ''-'' @ format_padded 2 m @ ''-'' @ format_padded 2 d @ ''T''
       @ format_padded 2 (s mod 86400 div 3600) @ '':''
       @ format_padded 2 (s mod 86400 mod 3600 div 60) @ '':'' @ format_padded 2 (s mod 86400 mod 60))"

definition rfc3339_nano :: "instant \<Rightarrow> string" where
  "rfc3339_nano t = second_text (t div nanos) @ fraction_text (t mod nanos) @ ''Z''"

text \<open>The order of a TEXT column: byte by byte.\<close>

fun text_less :: "string \<Rightarrow> string \<Rightarrow> bool" where
  "text_less _ [] = False"
| "text_less [] (_ # _) = True"
| "text_less (x # xs) (y # ys) =
     (byte_of x < (byte_of y :: nat) \<or> byte_of x = (byte_of y :: nat) \<and> text_less xs ys)"

subsection \<open>Fixed-width numbers\<close>

lemma text_less_append:
  "length a = length b \<Longrightarrow> text_less (a @ x) (b @ y) \<longleftrightarrow> text_less a b \<or> a = b \<and> text_less x y"
  by (induction a b rule: list_induct2) (auto simp: of_char_eq_iff)

lemma text_less_irrefl [simp]: "\<not> text_less a a"
  by (induction a) auto

fun digits :: "nat \<Rightarrow> nat \<Rightarrow> string" where
  "digits 0 n = []"
| "digits (Suc w) n = digits w (n div 10) @ [char_of (48 + n mod 10)]"

lemma length_digits [simp]: "length (digits w n) = w"
  by (induction w arbitrary: n) auto

lemma digits_zero: "digits w 0 = replicate w (CHR ''0'')"
proof (induction w)
  case (Suc w)
  have "char_of (48::nat) = CHR ''0''" by (simp add: char_of_def bit_0)
  with Suc show ?case by (simp add: replicate_append_same)
qed simp

lemma length_decimal: "n < 10 ^ w \<Longrightarrow> 0 < w \<Longrightarrow> length (decimal n) \<le> w"
proof (induction w arbitrary: n)
  case (Suc w)
  show ?case
  proof (cases "n < 10")
    case False
    with Suc.prems have "n div 10 < 10 ^ w" "0 < w" by (auto simp: Suc_lessI) (cases w; simp)+
    with Suc.IH [of "n div 10"] False show ?thesis by (subst decimal.simps) simp
  qed (simp add: decimal.simps)
qed simp

lemma zero_pad_digits: "n < 10 ^ w \<Longrightarrow> 0 < w \<Longrightarrow> zero_pad w (decimal n) = digits w n"
proof (induction w arbitrary: n)
  case (Suc w)
  show ?case
  proof (cases "n < 10")
    case True
    then show ?thesis by (simp add: decimal.simps [of n] zero_pad_def digits_zero)
  next
    case False
    have lt: "n div 10 < 10 ^ w" using Suc.prems by auto
    have w: "0 < w" using False Suc.prems by (cases w) auto
    from Suc.IH [OF lt w] length_decimal [OF lt w] False show ?thesis
      by (simp add: decimal.simps [of n] zero_pad_def)
  qed
qed simp

lemma digit_char_inj: "i < 10 \<Longrightarrow> j < 10 \<Longrightarrow> byte_of (char_of (48 + i) :: char) < (byte_of (char_of (48 + j) :: char) :: nat) \<longleftrightarrow> i < (j::nat)"
  by (simp add: of_char_of)

lemma digits_compare:
  assumes "a < 10 ^ w" and "b < 10 ^ w"
  shows "(digits w a = digits w b \<longleftrightarrow> a = b) \<and> (text_less (digits w a) (digits w b) \<longleftrightarrow> a < b)"
  using assms
proof (induction w arbitrary: a b)
  case (Suc w)
  have "a div 10 < 10 ^ w" "b div 10 < 10 ^ w" using Suc.prems by auto
  note ih = Suc.IH [OF this]
  have c: "char_of (48 + a mod 10) = (char_of (48 + b mod 10) :: char) \<longleftrightarrow> a mod 10 = b mod 10"
    using digit_char_inj [of "a mod 10" "b mod 10"] digit_char_inj [of "b mod 10" "a mod 10"]
    by (metis linorder_neqE_nat mod_less_divisor nat_less_le zero_less_numeral)
  have "a = b \<longleftrightarrow> a div 10 = b div 10 \<and> a mod 10 = b mod 10"
    by (metis mult_div_mod_eq)
  moreover have "a < b \<longleftrightarrow> a div 10 < b div 10 \<or> a div 10 = b div 10 \<and> a mod 10 < b mod 10"
    using div_mult_mod_eq [of a 10] div_mult_mod_eq [of b 10] mod_less_divisor [of 10 a] mod_less_divisor [of 10 b]
    by linarith
  ultimately show ?case using ih c
    by (simp add: text_less_append of_char_of)
qed simp

lemma format_padded_compare:
  assumes "0 \<le> a" and "a < 10 ^ w" and "0 \<le> b" and "b < 10 ^ w" and "0 < w"
  shows "length (format_padded w a) = w"
    and "format_padded w a = format_padded w b \<longleftrightarrow> a = b"
    and "text_less (format_padded w a) (format_padded w b) \<longleftrightarrow> a < b"
proof -
  have n: "nat a < 10 ^ w" "nat b < 10 ^ w"
    using assms by (simp_all add: nat_less_iff)
  have f: "format_padded w a = digits w (nat a)" "format_padded w b = digits w (nat b)"
    using assms n by (simp_all add: format_padded_def zero_pad_digits)
  show "length (format_padded w a) = w" by (simp add: f)
  show "format_padded w a = format_padded w b \<longleftrightarrow> a = b"
    using digits_compare [OF n] assms unfolding f by (simp add: nat_eq_iff)
  show "text_less (format_padded w a) (format_padded w b) \<longleftrightarrow> a < b"
    using digits_compare [OF n] assms unfolding f by auto
qed

subsection \<open>Dates in order\<close>

lemma days_before_month_bound:
  assumes "1 \<le> m" and "m \<le> 12"
  shows "days_before_month leap m + days_in_month leap m \<le> 365 + (if leap then 1 else 0)"
  using month_cases [OF assms] by (auto simp: days_before_month_def days_in_month_def)

lemma days_before_month_nonneg: "1 \<le> m \<Longrightarrow> m \<le> 12 \<Longrightarrow> 0 \<le> days_before_month leap m"
  using month_cases [of m] by (auto simp: days_before_month_def)

lemma days_less_of_date:
  assumes "valid_date (y, m, d)" and "valid_date (y', m', d')"
    and "y < y' \<or> y = y' \<and> (m < m' \<or> m = m' \<and> d < d')"
  shows "days_from_civil y m d < days_from_civil y' m' d'"
proof -
  have v: "1 \<le> m" "m \<le> 12" "1 \<le> d" "d \<le> days_in_month (is_leap y) m"
    "1 \<le> m'" "m' \<le> 12" "1 \<le> d'" using assms(1,2) by (auto simp: valid_date_def)
  note plain = days_from_civil_plain [OF v(1,2)] days_from_civil_plain [OF v(5,6)]
  from assms(3) consider "y < y'" | "y = y'" "m < m'" | "y = y'" "m = m'" "d < d'" by blast
  then show ?thesis
  proof cases
    case 1
    from days_before_year_less [OF 1] days_before_month_bound [OF v(1,2), of "is_leap y"]
      days_before_month_nonneg [OF v(5,6), of "is_leap y'"] v show ?thesis by (simp add: plain)
  next
    case 2
    from days_before_month_less [OF v(1) 2(2) v(6), of "is_leap y"] 2 v show ?thesis
      by (simp add: plain)
  next
    case 3
    then show ?thesis by (simp add: plain)
  qed
qed

lemma date_less_of_days:
  assumes "civil_from_days n = (y, m, d)" and "civil_from_days n' = (y', m', d')" and "n < n'"
  shows "y < y' \<or> y = y' \<and> (m < m' \<or> m = m' \<and> d < d')"
proof (rule ccontr)
  assume not: "\<not> ?thesis"
  have v: "valid_date (y, m, d)" "valid_date (y', m', d')"
    and n: "days_from_civil y m d = n" "days_from_civil y' m' d' = n'"
    using civil_from_days_valid [of n] civil_from_days_valid [of n'] days_of_civil_from_days [of n]
      days_of_civil_from_days [of n'] assms(1,2) by simp_all
  from not consider "(y, m, d) = (y', m', d')" | "y' < y \<or> y' = y \<and> (m' < m \<or> m' = m \<and> d' < d)"
    by force
  then show False
  proof cases
    case 1
    with n assms(3) show False by simp
  next
    case 2
    from days_less_of_date [OF v(2,1) 2] n assms(3) show False by simp
  qed
qed

text \<open>Instants whose year has four digits.\<close>

definition four_digit_year :: "instant \<Rightarrow> bool" where
  "four_digit_year t \<longleftrightarrow> (case civil_from_days (t div nanos div 86400) of (y, _, _) \<Rightarrow> 0 \<le> y \<and> y < 10000)"

lemma clock_parts:
  assumes "0 \<le> (q::int)" and "q < 86400"
  shows "q = 3600 * (q div 3600) + 60 * (q mod 3600 div 60) + q mod 60"
    and "0 \<le> q div 3600" "q div 3600 < 24" "0 \<le> q mod 3600 div 60" "q mod 3600 div 60 < 60"
    and "0 \<le> q mod 60" "q mod 60 < 60"
proof -
  have "q mod 3600 mod 60 = q mod 60" by (simp add: mod_mod_cancel)
  then show "q = 3600 * (q div 3600) + 60 * (q mod 3600 div 60) + q mod 60"
    using mult_div_mod_eq [of 3600 q] mult_div_mod_eq [of 60 "q mod 3600"] by linarith
  show "0 \<le> q div 3600" "q div 3600 < 24" using assms by auto
  have "0 \<le> q mod 3600" "q mod 3600 < 3600" by simp_all
  then show "0 \<le> q mod 3600 div 60" "q mod 3600 div 60 < 60" by auto
qed simp_all

lemma clock_order:
  assumes "(q::int) = 3600 * h + 60 * mi + se" "0 \<le> h" "h < 24" "0 \<le> mi" "mi < 60" "0 \<le> se" "se < 60"
    and "(q'::int) = 3600 * h' + 60 * mi' + se'" "0 \<le> h'" "h' < 24" "0 \<le> mi'" "mi' < 60" "0 \<le> se'" "se' < 60"
    and "q < q'"
  shows "h < h' \<or> h = h' \<and> (mi < mi' \<or> mi = mi' \<and> se < se')"
  using assms by linarith

lemma second_text_less:
  assumes "s < s'"
    and "case civil_from_days (s div 86400) of (y, _, _) \<Rightarrow> 0 \<le> y \<and> y < 10000"
    and "case civil_from_days (s' div 86400) of (y, _, _) \<Rightarrow> 0 \<le> y \<and> y < 10000"
  shows "length (second_text s) = length (second_text s') \<and> text_less (second_text s) (second_text s')"
proof -
  obtain y m d y' m' d' where c: "civil_from_days (s div 86400) = (y, m, d)"
    "civil_from_days (s' div 86400) = (y', m', d')" by (metis prod_cases3)
  have v: "valid_date (y, m, d)" "valid_date (y', m', d')"
    using civil_from_days_valid [of "s div 86400"] civil_from_days_valid [of "s' div 86400"] c by simp_all
  have m31: "days_in_month l k \<le> 31" if "1 \<le> k" "k \<le> 12" for l k
    using month_cases [OF that] by (auto simp: days_in_month_def)
  have r: "0 \<le> y" "y < 10 ^ 4" "0 \<le> y'" "y' < 10 ^ 4" "0 \<le> m" "m < 10 ^ 2" "0 \<le> m'" "m' < 10 ^ 2"
    "0 \<le> d" "d < 10 ^ 2" "0 \<le> d'" "d' < 10 ^ 2"
    using assms(2,3) c v m31 [of m "is_leap y"] m31 [of m' "is_leap y'"] by (auto simp: valid_date_def)
  define q q' where "q = s mod 86400" and "q' = s' mod 86400"
  have q: "0 \<le> q" "q < 86400" "0 \<le> q'" "q' < 86400" by (simp_all add: q_def q'_def)
  note p = clock_parts [OF q(1,2)] note p' = clock_parts [OF q(3,4)]
  have lim: "(24::int) < 10 ^ 2" "(60::int) < 10 ^ 2" by simp_all
  note b = less_trans [OF p(3) lim(1)] less_trans [OF p'(3) lim(1)] less_trans [OF p(5) lim(2)]
    less_trans [OF p'(5) lim(2)] less_trans [OF p(7) lim(2)] less_trans [OF p'(7) lim(2)]
  note cmp = format_padded_compare [OF r(1-4)] format_padded_compare [OF r(5-8)]
    format_padded_compare [OF r(9-12)] format_padded_compare [OF p(2) b(1) p'(2) b(2)]
    format_padded_compare [OF p(4) b(3) p'(4) b(4)] format_padded_compare [OF p(6) b(5) p'(6) b(6)]
    format_padded_compare(1) [OF r(3,4) r(3,4)] format_padded_compare(1) [OF r(7,8) r(7,8)]
    format_padded_compare(1) [OF r(11,12) r(11,12)] format_padded_compare(1) [OF p'(2) b(2) p'(2) b(2)]
    format_padded_compare(1) [OF p'(4) b(4) p'(4) b(4)] format_padded_compare(1) [OF p'(6) b(6) p'(6) b(6)]
  have order: "y < y' \<or> y = y' \<and> (m < m' \<or> m = m' \<and> (d < d' \<or> d = d' \<and>
      (q div 3600 < q' div 3600 \<or> q div 3600 = q' div 3600 \<and>
        (q mod 3600 div 60 < q' mod 3600 div 60 \<or> q mod 3600 div 60 = q' mod 3600 div 60
          \<and> q mod 60 < q' mod 60))))"
  proof (cases "s div 86400 < s' div 86400")
    case True
    from date_less_of_days [OF c this] show ?thesis by blast
  next
    case False
    moreover have "s div 86400 \<le> s' div 86400" using assms(1) by (simp add: zdiv_mono1)
    ultimately have "s div 86400 = s' div 86400" by simp
    then have "s mod 86400 < s' mod 86400"
      using assms(1) mult_div_mod_eq [of 86400 s] mult_div_mod_eq [of 86400 s'] by linarith
    then have "q < q'" by (simp add: q_def q'_def)
    moreover from \<open>s div 86400 = s' div 86400\<close> c have "y = y'" "m = m'" "d = d'" by auto
    ultimately show ?thesis using clock_order [OF p p'] by blast
  qed
  show ?thesis
    using order by (simp add: second_text_def c q_def [symmetric] q'_def [symmetric] cmp text_less_append)
qed

text \<open>
  As long as the instants lie in different seconds, the texts compare as the instants do. Within
  one second they need not: \<open>.\<close> and the digits sort before the closing \<open>Z\<close>.
\<close>

lemma rfc3339_less_seconds:
  assumes "four_digit_year t" and "four_digit_year t'" and "t div nanos < t' div nanos"
  shows "text_less (rfc3339_nano t) (rfc3339_nano t')" and "\<not> text_less (rfc3339_nano t') (rfc3339_nano t)"
proof -
  from second_text_less [OF assms(3)] assms(1,2)
  have less: "length (second_text (t div nanos)) = length (second_text (t' div nanos))"
    "text_less (second_text (t div nanos)) (second_text (t' div nanos))"
    by (simp_all add: four_digit_year_def)
  have asym: "text_less a b \<Longrightarrow> \<not> text_less b a" for a b
    by (induction a b rule: text_less.induct) auto
  have "second_text (t div nanos) \<noteq> second_text (t' div nanos)" using less(2) by auto
  with less asym [OF less(2)] show "text_less (rfc3339_nano t) (rfc3339_nano t')"
    and "\<not> text_less (rfc3339_nano t') (rfc3339_nano t)"
    by (simp_all add: rfc3339_nano_def text_less_append)
qed

lemma rfc3339_less_within_second:
  "text_less (rfc3339_nano t) (rfc3339_nano t') \<Longrightarrow> four_digit_year t \<Longrightarrow> four_digit_year t' \<Longrightarrow>
     t - nanos < t'"
  using rfc3339_less_seconds(2) [of t' t] mult_div_mod_eq [of nanos t] mult_div_mod_eq [of nanos t']
    pos_mod_bound [of nanos t] pos_mod_sign [of nanos t']
  by (force simp: nanos_def)

lemma rfc3339_less_apart:
  assumes "t + nanos \<le> t'" and "four_digit_year t" and "four_digit_year t'"
  shows "text_less (rfc3339_nano t) (rfc3339_nano t')"
proof (rule rfc3339_less_seconds(1) [OF assms(2,3)])
  have "(t + nanos) div nanos \<le> t' div nanos" using assms(1) by (simp add: nanos_def zdiv_mono1)
  then show "t div nanos < t' div nanos" by (simp add: nanos_def)
qed

end
