(* ===== verification/ThawStore.thy ===== *)
theory ThawStore
  imports Scope Rfc3339
begin

text \<open>
  The thaw-exception store (\<open>internal/thawexception/store.go\<close>): approving an exception for one
  pull request at one head commit, and finding the exception in effect. Expiries are compared
  as the RFC 3339 texts the table holds.
\<close>

abbreviation thaw_invalid :: "string \<Rightarrow> go_error" where
  "thaw_invalid \<equiv> ValidationError ThawPkg"

record thaw_approve =
  ta_repository_id :: int
  ta_pull_request_index :: int
  ta_pull_request_url :: string
  ta_target_branch :: string
  ta_head_sha :: string
  ta_reason :: string
  ta_expires_at :: "instant option"

definition scan_thaw_exception :: "thaw_row \<Rightarrow> thaw_exception" where
  "scan_thaw_exception r = \<lparr>th_id = tr_id r, th_repository_id = tr_repository_id r,
     th_pull_request_id = 0, th_pull_request_index = tr_pull_request_index r,
     th_pull_request_url = (case tr_pull_request_url r of None \<Rightarrow> [] | Some u \<Rightarrow> u),
     th_head_sha = tr_head_sha r, th_target_branch = tr_target_branch r, th_status = tr_status r,
     th_active = (tr_status r = ''active''), th_reason = tr_reason r,
     th_expires_at = tr_expires_at r, th_created_at = tr_created_at r, th_updated_at = tr_updated_at r\<rparr>"

subsection \<open>Validation\<close>

definition normalize_approve_params :: "thaw_approve \<Rightarrow> thaw_approve" where
  "normalize_approve_params p = p \<lparr>ta_pull_request_url := trim_space (ta_pull_request_url p),
     ta_target_branch := trim_space (ta_target_branch p),
     ta_head_sha := to_lower (trim_space (ta_head_sha p)), ta_reason := trim_space (ta_reason p)\<rparr>"

definition normalize_thaw_pull_request :: "pull_request \<Rightarrow> pull_request" where
  "normalize_thaw_pull_request pr = pr \<lparr>pr_target_branch := trim_space (pr_target_branch pr),
     pr_head_sha := to_lower (trim_space (pr_head_sha pr))\<rparr>"

definition invalid_target_branch :: "string \<Rightarrow> bool" where
  "invalid_target_branch s \<longleftrightarrow> length s > 255 \<or> contains_control s"

definition invalid_head_sha :: "string \<Rightarrow> bool" where
  "invalid_head_sha s \<longleftrightarrow> length s < 6 \<or> length s > 64 \<or> contains_control s \<or> \<not> is_hex s"

definition validate_approve_params :: "thaw_approve \<Rightarrow> go_error option" where
  "validate_approve_params p =
     (let missing = (if ta_repository_id p \<le> 0 then [''repository''] else [])
            @ (if ta_pull_request_index p \<le> 0 then [''pull request''] else [])
            @ (if ta_target_branch p = [] then [''target branch''] else [])
            @ (if ta_head_sha p = [] then [''head SHA''] else [])
            @ (if ta_reason p = [] then [''reason''] else []) in
      if missing \<noteq> []
        then Some (thaw_invalid (''missing required thaw exception fields: '' @ join_with '', '' missing))
      else if ta_pull_request_index p > 1000000 then Some (thaw_invalid ''pull request number is too large'')
      else if invalid_target_branch (ta_target_branch p) then Some (thaw_invalid ''target branch is invalid'')
      else if invalid_head_sha (ta_head_sha p) then Some (thaw_invalid ''head SHA is invalid'')
      else if length (ta_reason p) > 500 \<or> contains_control (ta_reason p)
        then Some (thaw_invalid ''reason is invalid'')
      else if length (ta_pull_request_url p) > 2048 \<or> contains_control (ta_pull_request_url p)
        then Some (thaw_invalid ''pull request URL is invalid'')
      else None)"

definition validate_thaw_pull_request :: "pull_request \<Rightarrow> go_error option" where
  "validate_thaw_pull_request pr = validate_approve_params \<lparr>ta_repository_id = pr_repository_id pr,
     ta_pull_request_index = pr_index pr, ta_pull_request_url = [], ta_target_branch = pr_target_branch pr,
     ta_head_sha = pr_head_sha pr, ta_reason = ''lookup'', ta_expires_at = None\<rparr>"

subsection \<open>Operations\<close>

definition require_thaw_enforcement :: "int \<Rightarrow> unit go" where
  "require_thaw_enforcement repo =
     bind (attempt (query_row (\<lambda>d. filter (\<lambda>r. repo_id r = repo \<and> repo_active r
         \<and> repo_enforcement r = EnforcementActive) (tb_repositories d)))) (\<lambda>r. case r of
       Inl e \<Rightarrow> if e = NoRows then fail (thaw_invalid enforcement_not_active_message) else fail e
     | Inr _ \<Rightarrow> ret ())"

definition get_thaw :: "int \<Rightarrow> thaw_exception go" where
  "get_thaw i = query_row (\<lambda>d. map scan_thaw_exception (filter (\<lambda>r. tr_id r = i) (tb_thaws d)))"

definition approve_thaw :: "thaw_approve \<Rightarrow> actor \<Rightarrow> thaw_exception go" where
  "approve_thaw params actor =
     (let p = normalize_approve_params params in
      when_invalid (validate_approve_params p) (
      bind (require_thaw_enforcement (ta_repository_id p)) (\<lambda>_.
      bind now_utc (\<lambda>now.
      bind (checked (\<lambda>d. ta_repository_id p \<in> set (map repo_id (tb_repositories d))
               \<and> references (actor_user_id actor) (tb_users d))
             (\<lambda>d. let i = fresh_id (map tr_id (tb_thaws d)) in
                (i, d \<lparr>tb_thaws := tb_thaws d @ [\<lparr>tr_id = i, tr_repository_id = ta_repository_id p,
                   tr_pull_request_index = ta_pull_request_index p,
                   tr_pull_request_url = (if ta_pull_request_url p \<noteq> [] then Some (ta_pull_request_url p) else None),
                   tr_head_sha = ta_head_sha p, tr_target_branch = ta_target_branch p,
                   tr_status = ''active'', tr_reason = ta_reason p,
                   tr_approved_by = actor_user_id actor, tr_expires_at = ta_expires_at p,
                   tr_created_at = now, tr_updated_at = now\<rparr>]\<rparr>)))
      get_thaw))))"

text \<open>\<open>status = 'active' AND (expires_at IS NULL OR expires_at > ?)\<close> on texts.\<close>

definition in_effect :: "instant \<Rightarrow> thaw_row \<Rightarrow> bool" where
  "in_effect now r \<longleftrightarrow> tr_status r = ''active''
     \<and> opt_all (\<lambda>e. text_less (rfc3339_nano now) (rfc3339_nano e)) (tr_expires_at r)"

definition covers_pull_request :: "pull_request \<Rightarrow> thaw_row \<Rightarrow> bool" where
  "covers_pull_request pr r \<longleftrightarrow> tr_repository_id r = pr_repository_id pr
     \<and> tr_pull_request_index r = pr_index pr \<and> tr_head_sha r = pr_head_sha pr
     \<and> tr_target_branch r = pr_target_branch pr"

definition active_for_pull_request :: "pull_request \<Rightarrow> thaw_exception option go" where
  "active_for_pull_request pr0 =
     (let pr = normalize_thaw_pull_request pr0 in
      when_invalid (validate_thaw_pull_request pr) (
      bind now_utc (\<lambda>now.
      bind (attempt (query_row (\<lambda>d. map scan_thaw_exception (sort_key (\<lambda>r. - tr_id r)
             (filter (\<lambda>r. covers_pull_request pr r \<and> in_effect now r) (tb_thaws d)))))) (\<lambda>r.
      case r of
        Inl e \<Rightarrow> if e = NoRows then ret None else fail e
      | Inr thaw \<Rightarrow> ret (Some (if pr_id pr > 0 then thaw \<lparr>th_pull_request_id := pr_id pr\<rparr> else thaw))))))"

definition count_active_thaws_for_scope :: "read_scope \<Rightarrow> int go" where
  "count_active_thaws_for_scope s =
     bind now_utc (\<lambda>now. query (\<lambda>d. int (length (filter
       (\<lambda>r. scope_allows s (Some (tr_repository_id r)) \<and> in_effect now r) (tb_thaws d)))))"

definition count_active_thaws :: "int go" where
  "count_active_thaws = count_active_thaws_for_scope all_repositories"

end
