(* ===== verification/HeadText.thy ===== *)
theory HeadText
  imports GoText
begin

text \<open>
  Commit hashes as text: a hexadecimal string is ASCII, so trimming and lower-casing leave it
  alone. Every store normalises a head commit before it checks it, and this is why
  normalising again changes nothing.
\<close>

lemma decode_rune_small: "fst (decode_rune (c # s)) < 128 \<Longrightarrow> byte_of c < (128::nat)"
proof (rule ccontr)
  assume small: "fst (decode_rune (c # s)) < 128" and "\<not> byte_of c < (128::nat)"
  moreover have "128 \<le> (b0 - 192) * 64 + x" if "194 \<le> b0" for b0 x :: nat
    using that by linarith
  moreover have "128 \<le> (b0 - 224) * 4096 + (b1 - 128) * 64 + x"
    if "224 \<le> b0" "b0 = 224 \<longrightarrow> 160 \<le> b1" for b0 b1 x :: nat
    using that by (cases "b0 = 224") auto
  moreover have "128 \<le> (b0 - 240) * 262144 + (b1 - 128) * 4096 + x + y"
    if "240 \<le> b0" "b0 = 240 \<longrightarrow> 144 \<le> b1" for b0 b1 x y :: nat
    using that by (cases "b0 = 240") auto
  ultimately show False
    by (auto simp: decode_rune_def Let_def ok2_def ok3_def ok4_def split: if_splits)
qed

lemma runes_small_ascii: "\<forall>r \<in> set (runes s). r < 128 \<Longrightarrow> is_ascii s"
proof (induction s rule: chunks.induct)
  case (2 c s)
  have e: "runes (c # s) = fst (decode_rune (c # s)) # runes (drop (snd (decode_rune (c # s))) (c # s))"
    by (simp add: runes_def chunks.simps(2) Let_def)
  with 2(2) have c: "byte_of c < (128::nat)" using decode_rune_small [of c s] by simp
  then have "snd (decode_rune (c # s)) = 1" by (simp add: decode_rune_def Let_def)
  with 2 e c show ?case by (simp add: is_ascii_def)
qed (simp add: is_ascii_def)

lemma runes_ascii: "is_ascii s \<Longrightarrow> runes s = map byte_of s"
  using chunks_ascii_append [of s "[]"] by (simp add: runes_def o_def)

lemma is_hex_bytes:
  assumes "is_hex s"
  shows "is_ascii s" and "c \<in> set s \<Longrightarrow> 48 \<le> byte_of c \<and> byte_of c \<le> (57::nat) \<or> 97 \<le> byte_of c \<and> byte_of c \<le> (102::nat)"
proof -
  show a: "is_ascii s"
    using assms by (intro runes_small_ascii) (auto simp: is_hex_def list_all_iff)
  show "c \<in> set s \<Longrightarrow> 48 \<le> byte_of c \<and> byte_of c \<le> (57::nat) \<or> 97 \<le> byte_of c \<and> byte_of c \<le> (102::nat)"
    using assms by (auto simp: is_hex_def runes_ascii [OF a] list_all_iff)
qed

lemma to_lower_hex: "is_hex s \<Longrightarrow> to_lower s = s"
  by (subst to_lower_ascii) (auto intro!: map_idI simp: is_hex_bytes(1) lower_byte_def dest!: is_hex_bytes(2))

lemma trim_text:
  assumes "is_ascii s" and "s = [] \<or> \<not> is_space_rune (byte_of (hd s)) \<and> \<not> is_space_rune (byte_of (last s))"
  shows "trim_space s = s"
proof -
  have c: "chunks s = map (\<lambda>c. (byte_of c, [c])) s"
    using chunks_ascii_append [OF assms(1), of "[]"] by simp
  have "dropWhile (\<lambda>c. is_space_rune (fst c)) (chunks s) = chunks s"
    unfolding c using assms(2) by (cases s) auto
  moreover have "drop_while_end (\<lambda>c. is_space_rune (fst c)) (chunks s) = chunks s"
    using assms(2) by (intro drop_while_end_id) (auto simp: c last_map)
  ultimately show ?thesis by (simp add: trim_space_def)
qed

lemma trim_space_hex: "is_hex s \<Longrightarrow> trim_space s = s"
proof (rule trim_text)
  assume h: "is_hex s"
  then show "is_ascii s" by (rule is_hex_bytes)
  have "\<not> is_space_rune (byte_of c)" if "c \<in> set s" for c
    using is_hex_bytes(2) [OF h that] by (auto simp: is_space_rune_def)
  then show "s = [] \<or> \<not> is_space_rune (byte_of (hd s)) \<and> \<not> is_space_rune (byte_of (last s))"
    using hd_in_set last_in_set by blast
qed

lemmas head_canonical = to_lower_hex trim_space_hex

lemma open_canonical [simp]: "to_lower (trim_space ''open'') = ''open''"
proof -
  have "trim_space ''open'' = ''open''"
    by (rule trim_text) (auto simp: is_ascii_def is_space_rune_def)
  then show ?thesis by (simp add: to_lower_def is_ascii_def lower_byte_def)
qed

end
