(* ===== verification/Samples.thy ===== *)
theory Samples
  imports World HeadText
begin

text \<open>
  Concrete values the examples of several components share: a repository under enforcement, an
  open pull request, and what trimming and checking their texts gives.
\<close>

definition gate_repository :: repository where
  "gate_repository = \<lparr>repo_id = 1, repo_forge = ''forgejo'', repo_base_url = [], repo_owner = ''o'',
     repo_name = ''r'', repo_default_branch = ''main'', repo_has_webhook_secret = True,
     repo_has_status_token = True, repo_active = True, repo_enforcement = EnforcementActive,
     repo_status_post_verified_at = None, repo_failure_reason = [], repo_failed_at = None,
     repo_created_at = 0, repo_updated_at = 0\<rparr>"

definition gate_pull :: pull_request where
  "gate_pull = \<lparr>pr_id = 7, pr_repository_id = 1, pr_index = 12, pr_title = [], pr_state = ''open'',
     pr_target_branch = ''main'', pr_head_sha = ''abc123'', pr_url = []\<rparr>"

lemma gate_texts:
  "trim_space ''abc123'' = ''abc123''" "trim_space ''main'' = ''main''" "trim_space ''open'' = ''open''"
  "trim_space ''thawguard/freeze'' = ''thawguard/freeze''" "trim_space [] = []"
  "trim_space ''PR is explicitly thawed during an active freeze'' = ''PR is explicitly thawed during an active freeze''"
  by (rule trim_text; simp add: is_ascii_def is_space_rune_def)+

lemma gate_lower: "to_lower ''abc123'' = ''abc123''" "to_lower ''open'' = ''open''"
  by (simp_all add: to_lower_def is_ascii_def lower_byte_def)

lemma gate_runes:
  "\<not> contains_control ''abc123''" "\<not> contains_control ''main''" "\<not> contains_control ''lookup''" "\<not> contains_control ''open''" "is_hex ''abc123''" "\<not> contains_control []"
  by (simp_all add: contains_control_def is_hex_def runes_ascii is_ascii_def)

lemmas gate_simps = gate_texts gate_lower gate_runes

end
