(* ===== verification/PullStore.thy ===== *)
theory PullStore
  imports ThawStore Samples
begin

text \<open>
  The pull-request cache (\<open>internal/pullrequest/store.go\<close>): what the forge last said about each
  pull request, one row per repository and number.
\<close>

abbreviation pull_invalid :: "string \<Rightarrow> go_error" where
  "pull_invalid \<equiv> ValidationError PullRequestPkg"

definition scan_pull_request :: "pull_row \<Rightarrow> pull_request" where
  "scan_pull_request r = pull_request.truncate r"

definition normalize_cached_pull_request :: "pull_request \<Rightarrow> pull_request" where
  "normalize_cached_pull_request pr =
     (let state = to_lower (trim_space (pr_state pr)) in
      pr \<lparr>pr_state := (if state = [] then ''open'' else state),
          pr_target_branch := trim_space (pr_target_branch pr),
          pr_head_sha := to_lower (trim_space (pr_head_sha pr)),
          pr_title := trim_space (pr_title pr), pr_url := trim_space (pr_url pr)\<rparr>)"

definition validate_cached_pull_request :: "pull_request \<Rightarrow> go_error option" where
  "validate_cached_pull_request pr =
     (let missing = (if pr_repository_id pr \<le> 0 then [''repository''] else [])
            @ (if pr_index pr \<le> 0 then [''pull request''] else [])
            @ (if pr_target_branch pr = [] then [''target branch''] else [])
            @ (if pr_head_sha pr = [] then [''head SHA''] else []) in
      if missing \<noteq> []
        then Some (pull_invalid (''missing required pull request fields: '' @ join_with '', '' missing))
      else if pr_index pr > 1000000 then Some (pull_invalid ''pull request number is too large'')
      else if length (pr_state pr) > 50 \<or> contains_control (pr_state pr)
        then Some (pull_invalid ''pull request state is invalid'')
      else if invalid_target_branch (pr_target_branch pr) then Some (pull_invalid ''target branch is invalid'')
      else if invalid_head_sha (pr_head_sha pr) then Some (pull_invalid ''head SHA is invalid'')
      else if length (pr_title pr) > 500 \<or> contains_control (pr_title pr)
        then Some (pull_invalid ''pull request title is invalid'')
      else if length (pr_url pr) > 2048 \<or> contains_control (pr_url pr)
        then Some (pull_invalid ''pull request URL is invalid'')
      else None)"

definition cached_as :: "int \<Rightarrow> int \<Rightarrow> pull_row \<Rightarrow> bool" where
  "cached_as repo index r \<longleftrightarrow> pr_repository_id r = repo \<and> pr_index r = index"

text \<open>\<open>INSERT ... ON CONFLICT(repository_id, pull_request_index) DO UPDATE\<close>.\<close>

definition upsert_pull :: "pull_request \<Rightarrow> instant \<Rightarrow> pull_row list \<Rightarrow> pull_row list" where
  "upsert_pull pr now rows =
     (if list_ex (cached_as (pr_repository_id pr) (pr_index pr)) rows then
        map (\<lambda>r. if cached_as (pr_repository_id pr) (pr_index pr) r
               then r \<lparr>pr_state := pr_state pr, pr_target_branch := pr_target_branch pr,
                       pr_head_sha := pr_head_sha pr, pr_title := pr_title pr, pr_url := pr_url pr,
                       pl_updated_from_forge_at := now\<rparr>
               else r) rows
      else rows @ [pull_request.extend (pr \<lparr>pr_id := fresh_id (map pr_id rows)\<rparr>)
                     \<lparr>pl_updated_from_forge_at = now\<rparr>])"

definition get_cached_pull :: "int \<Rightarrow> int \<Rightarrow> pull_request go" where
  "get_cached_pull repo index =
     query_row (\<lambda>d. map scan_pull_request (filter (cached_as repo index) (tb_pulls d)))"

definition upsert_cached_pull :: "pull_request \<Rightarrow> pull_request go" where
  "upsert_cached_pull pr0 =
     (let pr = normalize_cached_pull_request pr0 in
      when_invalid (validate_cached_pull_request pr) (
      bind now_utc (\<lambda>now.
      bind (checked (\<lambda>d. pr_repository_id pr \<in> set (map repo_id (tb_repositories d)))
             (\<lambda>d. ((), d \<lparr>tb_pulls := upsert_pull pr now (tb_pulls d)\<rparr>))) (\<lambda>_.
      get_cached_pull (pr_repository_id pr) (pr_index pr)))))"

definition open_where :: "(pull_row \<Rightarrow> bool) \<Rightarrow> db \<Rightarrow> pull_request list" where
  "open_where p d = map scan_pull_request (sort_key pr_index
     (filter (\<lambda>r. p r \<and> pr_state r = ''open'') (tb_pulls d)))"

definition list_open_by_head :: "int \<Rightarrow> string \<Rightarrow> pull_request list go" where
  "list_open_by_head repo sha =
     (let head = to_lower (trim_space sha) in
      if repo \<le> 0 \<or> head = [] then fail (pull_invalid ''missing required pull request head lookup fields'')
      else query (open_where (\<lambda>r. pr_repository_id r = repo \<and> pr_head_sha r = head)))"

definition list_open_by_target_branch :: "int \<Rightarrow> string \<Rightarrow> pull_request list go" where
  "list_open_by_target_branch repo branch0 =
     (let branch = trim_space branch0 in
      if repo \<le> 0 \<or> branch = [] then fail (pull_invalid ''missing required pull request branch lookup fields'')
      else query (open_where (\<lambda>r. pr_repository_id r = repo \<and> pr_target_branch r = branch)))"

text \<open>The clock is read before the indexes are checked, and an empty branch means every branch.\<close>

definition mark_absent_open_closed :: "int \<Rightarrow> string \<Rightarrow> int list \<Rightarrow> int go" where
  "mark_absent_open_closed repo branch0 open_indexes =
     (let branch = trim_space branch0 in
      if repo \<le> 0 then fail (pull_invalid ''missing required pull request repository reconciliation field'')
      else bind now_utc (\<lambda>now.
        if list_ex (\<lambda>i. i \<le> 0 \<or> i > 1000000) open_indexes
          then fail (pull_invalid ''pull request number is invalid'')
        else exec (\<lambda>d. case update_where (\<lambda>r. pr_repository_id r = repo \<and> pr_state r = ''open''
                  \<and> (branch = [] \<or> pr_target_branch r = branch) \<and> pr_index r \<notin> set open_indexes)
               (\<lambda>r. r \<lparr>pr_state := ''closed'', pl_updated_from_forge_at := now\<rparr>) (tb_pulls d) of
             (n, rows) \<Rightarrow> (n, d \<lparr>tb_pulls := rows\<rparr>))))"

subsection \<open>The cache has one row per pull request\<close>

definition pulls_ok :: "db \<Rightarrow> bool" where
  "pulls_ok d \<longleftrightarrow> distinct (map pr_id (tb_pulls d))
     \<and> distinct (map (\<lambda>r. (pr_repository_id r, pr_index r)) (tb_pulls d))"

lemma scan_pull_simps [simp]:
  "pr_repository_id (scan_pull_request row) = pr_repository_id row"
  "pr_index (scan_pull_request row) = pr_index row"
  "pr_head_sha (scan_pull_request row) = pr_head_sha row"
  "pr_state (scan_pull_request row) = pr_state row"
  by (simp_all add: scan_pull_request_def pull_request.truncate_def)

lemma cached_as_unique:
  "pulls_ok d \<Longrightarrow> r \<in> set (tb_pulls d) \<Longrightarrow> r' \<in> set (tb_pulls d) \<Longrightarrow>
     cached_as repo index r \<Longrightarrow> cached_as repo index r' \<Longrightarrow> r = r'"
  by (auto simp: pulls_ok_def cached_as_def distinct_map inj_on_def)

lemma distinct_singleton:
  assumes "set xs = {x}" and "distinct xs"
  shows "xs = [x]"
proof (cases xs)
  case (Cons y ys)
  with assms show ?thesis by (cases ys) auto
qed (use assms in simp)

lemma cached_as_single:
  assumes "pulls_ok d" and "r \<in> set (tb_pulls d)" and "cached_as repo index r"
  shows "filter (cached_as repo index) (tb_pulls d) = [r]"
proof -
  have "set (filter (cached_as repo index) (tb_pulls d)) = {r}"
    using assms cached_as_unique [OF assms(1)] by auto
  moreover have "distinct (filter (cached_as repo index) (tb_pulls d))"
    using assms(1) by (simp add: pulls_ok_def distinct_map)
  ultimately show ?thesis by (rule distinct_singleton)
qed

lemma filter_map_same:
  "filter (\<lambda>r. \<not> k r) (map (\<lambda>r. if k r then f r else r) xs) = filter (\<lambda>r. \<not> k r) xs"
  if "\<And>r. k r \<Longrightarrow> k (f r)"
  using that by (induction xs) auto

lemma upsert_pull_ok:
  assumes "pulls_ok d"
  shows "pulls_ok (d \<lparr>tb_pulls := upsert_pull pr now (tb_pulls d)\<rparr>)"
proof (cases "list_ex (cached_as (pr_repository_id pr) (pr_index pr)) (tb_pulls d)")
  case True
  then have "map pr_id (upsert_pull pr now (tb_pulls d)) = map pr_id (tb_pulls d)"
    "map (\<lambda>r. (pr_repository_id r, pr_index r)) (upsert_pull pr now (tb_pulls d))
       = map (\<lambda>r. (pr_repository_id r, pr_index r)) (tb_pulls d)"
    by (simp_all add: upsert_pull_def)
  with assms show ?thesis by (simp add: pulls_ok_def)
next
  case False
  then have new: "(pr_repository_id pr, pr_index pr) \<notin> (\<lambda>r. (pr_repository_id r, pr_index r)) ` set (tb_pulls d)"
    by (auto simp: list_ex_iff cached_as_def)
  have "fresh_id (map pr_id (tb_pulls d)) \<notin> pr_id ` set (tb_pulls d)"
    using fresh_id_new [of "map pr_id (tb_pulls d)"] by simp
  with False new assms show ?thesis
    by (simp add: upsert_pull_def pulls_ok_def pull_request.extend_def)
qed

lemma pulls_ok_operations:
  shows "within (keeps pulls_ok) (upsert_cached_pull pr)"
    "within (keeps pulls_ok) (mark_absent_open_closed repo branch open_indexes)"
proof -
  show "within (keeps pulls_ok) (upsert_cached_pull pr)"
    unfolding upsert_cached_pull_def Let_def get_cached_pull_def
    by (intro keeps.rules keeps.checked) (simp_all add: keeps_def upsert_pull_ok)
  have same: "pulls_ok (d \<lparr>tb_pulls := snd (update_where p (\<lambda>r. r \<lparr>pr_state := ''closed'',
      pl_updated_from_forge_at := now\<rparr>) (tb_pulls d))\<rparr>) = pulls_ok d" for p now d
    by (simp add: pulls_ok_def map_update_where)
  show "within (keeps pulls_ok) (mark_absent_open_closed repo branch open_indexes)"
    unfolding mark_absent_open_closed_def Let_def
    by (intro keeps.rules keeps.exec) (simp add: keeps_def split_beta same)
qed

text \<open>
  The cache keeps one row per repository and pull-request number, and unique row ids,
  whatever the forge reports and wherever an operation fails.
\<close>

theorem pull_cache_keeps_key:
  "within (keeps pulls_ok) (upsert_cached_pull pr)
   \<and> within (keeps pulls_ok) (mark_absent_open_closed repo branch open_indexes)"
  by (intro conjI pulls_ok_operations)

text \<open>
  C33: What the forge said is what the cache answers. If recording a pull request succeeds, then
  the cache has exactly one row for its repository and number, that row holds the normalised
  state, target branch, head, title and link, the value returned is that row, and every other
  row is as it was.
\<close>

theorem upsert_caches_what_was_said:
  assumes "upsert_cached_pull pr w = (Inr p, w')" and "pulls_ok (tables w)"
  shows "p \<lparr>pr_id := pr_id pr\<rparr> = normalize_cached_pull_request pr
    \<and> map scan_pull_request (filter (cached_as (pr_repository_id pr) (pr_index pr)) (tb_pulls (tables w'))) = [p]
    \<and> filter (\<lambda>r. \<not> cached_as (pr_repository_id pr) (pr_index pr) r) (tb_pulls (tables w'))
       = filter (\<lambda>r. \<not> cached_as (pr_repository_id pr) (pr_index pr) r) (tb_pulls (tables w))"
proof -
  let ?n = "normalize_cached_pull_request pr" and ?key = "cached_as (pr_repository_id pr) (pr_index pr)"
  have key: "pr_repository_id ?n = pr_repository_id pr" "pr_index ?n = pr_index pr"
    by (simp_all add: normalize_cached_pull_request_def Let_def)
  from assms(1) obtain w1 now w2 where n: "now_utc w = (Inr now, w1)"
    and c: "checked (\<lambda>d. pr_repository_id ?n \<in> set (map repo_id (tb_repositories d)))
        (\<lambda>d. ((), d \<lparr>tb_pulls := upsert_pull ?n now (tb_pulls d)\<rparr>)) w1 = (Inr (), w2)"
    and g: "get_cached_pull (pr_repository_id pr) (pr_index pr) w2 = (Inr p, w')"
    by (auto simp: upsert_cached_pull_def Let_def when_invalid_def fail_def key elim!: bind_cases
        split: option.splits)
  have rows: "tb_pulls (tables w2) = upsert_pull ?n now (tb_pulls (tables w))"
    using c n by (auto simp: checked_def sql_def now_utc_def split: if_splits)
  have ok: "pulls_ok (tables w2)"
    using upsert_pull_ok [OF assms(2), of ?n now] rows by (simp add: pulls_ok_def)
  have w': "tables w' = tables w2" and p: "p \<in> scan_pull_request ` {r \<in> set (tb_pulls (tables w2)). ?key r}"
    using g by (auto simp: get_cached_pull_def query_row_def sql_def first_row_def
        split: if_splits list.splits) (metis (mono_tags, lifting) filter_eq_Cons_iff imageI in_set_conv_decomp mem_Collect_eq)
  then obtain r where r: "r \<in> set (tb_pulls (tables w2))" "?key r" "p = scan_pull_request r" by blast
  have "filter ?key (tb_pulls (tables w2)) = [r]" by (rule cached_as_single [OF ok r(1,2)])
  moreover have "p \<lparr>pr_id := pr_id pr\<rparr> = ?n"
    using r unfolding rows upsert_pull_def key
    by (auto simp: cached_as_def list_ex_iff scan_pull_request_def pull_request.truncate_def
        pull_request.extend_def normalize_cached_pull_request_def Let_def split: if_splits)
  moreover have "filter (\<lambda>r. \<not> ?key r) (tb_pulls (tables w2)) = filter (\<lambda>r. \<not> ?key r) (tb_pulls (tables w))"
  proof (cases "list_ex ?key (tb_pulls (tables w))")
    case True
    then show ?thesis unfolding rows upsert_pull_def key if_P [OF True]
      by (intro filter_map_same) (simp add: cached_as_def)
  next
    case False
    then show ?thesis unfolding rows upsert_pull_def key if_not_P [OF False]
      by (simp add: cached_as_def pull_request.extend_def key)
  qed
  ultimately show ?thesis by (simp add: w' r(3))
qed

lemma upsert_caches_what_was_said_witness:
  "\<exists>p w'. upsert_cached_pull gate_pull (quiet (empty_db \<lparr>tb_repositories := [gate_repository]\<rparr>) 50) = (Inr p, w')
     \<and> map scan_pull_request (filter (cached_as 1 12) (tb_pulls (tables w'))) = [p]"
proof -
  let ?w = "quiet (empty_db \<lparr>tb_repositories := [gate_repository]\<rparr>) 50"
  have "\<exists>p w'. upsert_cached_pull gate_pull ?w = (Inr p, w')"
    by (simp add: upsert_cached_pull_def normalize_cached_pull_request_def validate_cached_pull_request_def
        get_cached_pull_def gate_simps invalid_head_sha_def invalid_target_branch_def when_invalid_def
        gate_pull_def gate_repository_def run_simps empty_db_def upsert_pull_def cached_as_def first_row_def
        pull_request.extend_def Let_def)
  then obtain p w' where r: "upsert_cached_pull gate_pull ?w = (Inr p, w')" by blast
  have "pulls_ok (tables ?w)" by (simp add: pulls_ok_def run_simps empty_db_def)
  from upsert_caches_what_was_said [OF r this] r show ?thesis by (auto simp: gate_pull_def)
qed

text \<open>
  C32: Synchronising with the forge. Closing what the forge no longer lists leaves, among the
  open pull requests of the repository (or of one target branch), exactly those it listed, in
  the same order, and counts the others; if it fails, nothing changes.
\<close>

theorem sync_keeps_exactly_the_listed:
  "case mark_absent_open_closed repo branch open_indexes w of
     (Inl e, w') \<Rightarrow> tables w' = tables w
   | (Inr n, w') \<Rightarrow>
       (let here = (\<lambda>r. pr_repository_id r = repo \<and> (trim_space branch = [] \<or> pr_target_branch r = trim_space branch));
            before = open_where here (tables w); listed = filter (\<lambda>p. pr_index p \<in> set open_indexes) before in
        open_where here (tables w') = listed \<and> n = int (length before) - int (length listed))"
proof -
  let ?here = "\<lambda>r. pr_repository_id r = repo \<and> (trim_space branch = [] \<or> pr_target_branch r = trim_space branch)"
  let ?gone = "\<lambda>r. pr_repository_id r = repo \<and> pr_state r = ''open''
      \<and> (trim_space branch = [] \<or> pr_target_branch r = trim_space branch) \<and> pr_index r \<notin> set open_indexes"
  define close where "close now = (\<lambda>r::pull_row. r \<lparr>pr_state := ''closed'', pl_updated_from_forge_at := now\<rparr>)" for now
  have rows: "filter (\<lambda>r. ?here r \<and> pr_state r = ''open'') (map (\<lambda>r. if ?gone r then close now r else r) rs)
      = filter (\<lambda>r. pr_index r \<in> set open_indexes) (filter (\<lambda>r. ?here r \<and> pr_state r = ''open'') rs)" for now rs
    by (induction rs) (auto simp: close_def)
  have count: "int (length (filter ?gone rs)) = int (length (filter (\<lambda>r. ?here r \<and> pr_state r = ''open'') rs))
      - int (length (filter (\<lambda>r. pr_index r \<in> set open_indexes) (filter (\<lambda>r. ?here r \<and> pr_state r = ''open'') rs)))"
    for rs :: "pull_row list"
    by (induction rs) auto
  have listed: "filter (\<lambda>p. pr_index p \<in> set open_indexes) (map scan_pull_request xs)
      = map scan_pull_request (filter (\<lambda>r. pr_index r \<in> set open_indexes) xs)" for xs
    by (simp add: filter_map o_def)
  have step: "case mark_absent_open_closed repo branch open_indexes w of
     (Inl e, w') \<Rightarrow> tables w' = tables w
   | (Inr n, w') \<Rightarrow> n = int (length (filter ?gone (tb_pulls (tables w)))) \<and> tables w'
       = tables w \<lparr>tb_pulls := map (\<lambda>r. if ?gone r then close (clock w (readings w)) r else r) (tb_pulls (tables w))\<rparr>"
    unfolding close_def by (auto simp: mark_absent_open_closed_def Let_def world_defs update_where_def)
  show ?thesis
  proof (cases "mark_absent_open_closed repo branch open_indexes w")
    case (Pair r w')
    show ?thesis
    proof (cases r)
      case (Inl e)
      with step Pair show ?thesis by simp
    next
      case (Inr n)
      with step Pair have n: "n = int (length (filter ?gone (tb_pulls (tables w))))"
        and t: "tables w' = tables w \<lparr>tb_pulls := map (\<lambda>r. if ?gone r
          then close (clock w (readings w)) r else r) (tb_pulls (tables w))\<rparr>"
        by simp_all
      have tp: "tb_pulls (tables w') = map (\<lambda>r. if ?gone r then close (clock w (readings w)) r else r) (tb_pulls (tables w))"
        unfolding t by simp
      have "open_where ?here (tables w') = filter (\<lambda>p. pr_index p \<in> set open_indexes) (open_where ?here (tables w))"
        unfolding open_where_def listed filter_sort tp rows ..
      moreover have "n = int (length (open_where ?here (tables w)))
          - int (length (filter (\<lambda>p. pr_index p \<in> set open_indexes) (open_where ?here (tables w))))"
        unfolding n count open_where_def listed filter_sort by simp
      ultimately show ?thesis by (simp add: Pair Inr Let_def)
    qed
  qed
qed

end
