(* ===== verification/ResultStore.thy ===== *)
theory ResultStore
  imports PullStore
begin

text \<open>
  The status-result store (\<open>internal/statusresult/store.go\<close>): the append-only history of local
  merge decisions.
\<close>

abbreviation result_invalid :: "string \<Rightarrow> go_error" where
  "result_invalid \<equiv> ValidationError StatusResultPkg"

record status_result =
  rs_id :: int
  rs_repository_id :: int
  rs_pull_request_index :: int
  rs_target_branch :: string
  rs_head_sha :: string
  rs_context :: string
  rs_state :: commit_status_state
  rs_description :: string
  rs_target_url :: string
  rs_posted_at :: "instant option"
  rs_error :: string
  rs_created_at :: instant

record result_create =
  rc_repository_id :: int
  rc_pull_request_index :: int
  rc_target_branch :: string
  rc_head_sha :: string
  rc_context :: string
  rc_state :: commit_status_state
  rc_description :: string
  rc_target_url :: string
  rc_posted_at :: "instant option"
  rc_error :: string

definition scan_result :: "result_row \<Rightarrow> status_result" where
  "scan_result r = \<lparr>rs_id = sr_id r, rs_repository_id = sr_repository_id r,
     rs_pull_request_index = (case sr_pull_request_index r of None \<Rightarrow> 0 | Some i \<Rightarrow> i),
     rs_target_branch = sr_target_branch r, rs_head_sha = sr_head_sha r, rs_context = sr_context r,
     rs_state = sr_state r, rs_description = sr_description r,
     rs_target_url = (case sr_target_url r of None \<Rightarrow> [] | Some u \<Rightarrow> u), rs_posted_at = sr_posted_at r,
     rs_error = (case sr_error r of None \<Rightarrow> [] | Some e \<Rightarrow> e), rs_created_at = sr_created_at r\<rparr>"

definition normalize_result :: "result_create \<Rightarrow> result_create" where
  "normalize_result p = p \<lparr>rc_head_sha := to_lower (trim_space (rc_head_sha p)),
     rc_target_branch := trim_space (rc_target_branch p), rc_context := trim_space (rc_context p),
     rc_description := trim_space (rc_description p), rc_target_url := trim_space (rc_target_url p),
     rc_error := trim_space (rc_error p)\<rparr>"

definition valid_state :: "commit_status_state \<Rightarrow> bool" where
  "valid_state s \<longleftrightarrow> s \<in> {CommitStatusSuccess, CommitStatusFailure, CommitStatusPending, CommitStatusError}"

definition validate_result :: "result_create \<Rightarrow> go_error option" where
  "validate_result p =
     (let missing = (if rc_repository_id p \<le> 0 then [''repository''] else [])
            @ (if rc_pull_request_index p \<le> 0 then [''pull request''] else [])
            @ (if rc_target_branch p = [] then [''target branch''] else [])
            @ (if rc_head_sha p = [] then [''head SHA''] else [])
            @ (if rc_context p = [] then [''context''] else [])
            @ (if rc_description p = [] then [''description''] else []) in
      if missing \<noteq> []
        then Some (result_invalid (''missing required status result fields: '' @ join_with '', '' missing))
      else if \<not> valid_state (rc_state p) then Some (result_invalid ''status result state is invalid'')
      else if rc_pull_request_index p > 1000000 then Some (result_invalid ''pull request number is too large'')
      else if invalid_target_branch (rc_target_branch p) then Some (result_invalid ''target branch is invalid'')
      else if invalid_head_sha (rc_head_sha p) then Some (result_invalid ''head SHA is invalid'')
      else None)"

definition require_repository :: "int \<Rightarrow> unit go" where
  "require_repository repo =
     bind (attempt (query_row (\<lambda>d. filter (\<lambda>r. repo_id r = repo \<and> repo_active r) (tb_repositories d))))
       (\<lambda>r. case r of
          Inl e \<Rightarrow> if e = NoRows then fail (result_invalid ''repository not found'') else fail e
        | Inr _ \<Rightarrow> ret ())"

definition get_result :: "int \<Rightarrow> status_result go" where
  "get_result i = query_row (\<lambda>d. map scan_result (filter (\<lambda>r. sr_id r = i) (tb_results d)))"

definition create_result :: "result_create \<Rightarrow> status_result go" where
  "create_result params =
     (let p = normalize_result params in
      when_invalid (validate_result p) (
      bind (require_repository (rc_repository_id p)) (\<lambda>_.
      bind now_utc (\<lambda>now.
      bind (checked (\<lambda>d. rc_repository_id p \<in> set (map repo_id (tb_repositories d)))
             (\<lambda>d. let i = fresh_id (map sr_id (tb_results d)) in
                (i, d \<lparr>tb_results := tb_results d @ [\<lparr>sr_id = i, sr_repository_id = rc_repository_id p,
                   sr_pull_request_index = (if rc_pull_request_index p > 0 then Some (rc_pull_request_index p) else None),
                   sr_target_branch = rc_target_branch p, sr_head_sha = rc_head_sha p,
                   sr_context = rc_context p, sr_state = rc_state p, sr_description = rc_description p,
                   sr_target_url = (if rc_target_url p \<noteq> [] then Some (rc_target_url p) else None),
                   sr_posted_at = rc_posted_at p,
                   sr_error = (if rc_error p \<noteq> [] then Some (rc_error p) else None),
                   sr_created_at = now\<rparr>]\<rparr>)))
      get_result))))"

definition clamp_limit :: "int \<Rightarrow> int" where
  "clamp_limit limit = (if limit \<le> 0 \<or> limit > 500 then 100 else limit)"

definition list_recent_results :: "int \<Rightarrow> status_result list go" where
  "list_recent_results limit = query (\<lambda>d. map scan_result
     (limit_rows (clamp_limit limit) (sort_key (\<lambda>r. - sr_id r) (tb_results d))))"

definition decisions :: "read_scope \<Rightarrow> commit_status_state option \<Rightarrow> int \<Rightarrow> db \<Rightarrow> result_row list" where
  "decisions s state repo d = filter (\<lambda>r. scope_allows s (Some (sr_repository_id r))
     \<and> opt_all (\<lambda>st. sr_state r = st) state \<and> (repo > 0 \<longrightarrow> sr_repository_id r = repo)) (tb_results d)"

definition list_decisions_page_for_scope ::
    "read_scope \<Rightarrow> commit_status_state option \<Rightarrow> int \<Rightarrow> int \<Rightarrow> int \<Rightarrow> (status_result list \<times> int) go" where
  "list_decisions_page_for_scope s state repo offset limit =
     (let n = clamp_limit limit; from = (if offset < 0 then 0 else offset) in
      bind (query (\<lambda>d. int (length (decisions s state repo d)))) (\<lambda>total.
      bind (query (\<lambda>d. map scan_result
             (page_rows from n (sort_key (\<lambda>r. - sr_id r) (decisions s state repo d))))) (\<lambda>results.
      ret (results, total))))"

definition list_decisions_page ::
    "commit_status_state option \<Rightarrow> int \<Rightarrow> int \<Rightarrow> int \<Rightarrow> (status_result list \<times> int) go" where
  "list_decisions_page state repo offset limit =
     list_decisions_page_for_scope all_repositories state repo offset limit"

end
