(* ===== verification/StatusService.thy ===== *)
theory StatusService
  imports ResultStore FreezeStore Policy
begin

text \<open>
  Status decisions (\<open>internal/statusresult/service.go\<close>): gathering what the policy needs for one
  pull request, or for every open pull request that shares a head commit, and recording the
  verdict. The three sources of the service are interfaces that may be nil: a \<open>None\<close> here.
\<close>

record status_service =
  ss_freezes :: "branch_freeze list go option"
  ss_thaw_exceptions :: "(pull_request \<Rightarrow> thaw_exception option go) option"
  ss_pull_requests :: "(int \<Rightarrow> string \<Rightarrow> pull_request list go) option"

record local_decision =
  ld_repository_id :: int
  ld_pull_request_index :: int
  ld_target_branch :: string
  ld_head_sha :: string

text \<open>\<open>NewService\<close>, and the service the application builds from its three stores.\<close>

definition new_status_service :: "branch_freeze list go \<Rightarrow> status_service" where
  "new_status_service freezes = \<lparr>ss_freezes = Some freezes, ss_thaw_exceptions = None, ss_pull_requests = None\<rparr>"

definition new_status_service_with_thaw_exceptions ::
    "branch_freeze list go \<Rightarrow> (pull_request \<Rightarrow> thaw_exception option go)
       \<Rightarrow> (int \<Rightarrow> string \<Rightarrow> pull_request list go) \<Rightarrow> status_service" where
  "new_status_service_with_thaw_exceptions freezes thaws pulls =
     \<lparr>ss_freezes = Some freezes, ss_thaw_exceptions = Some thaws, ss_pull_requests = Some pulls\<rparr>"

definition wired_service :: status_service where
  "wired_service = new_status_service_with_thaw_exceptions list_active active_for_pull_request list_open_by_head"

subsection \<open>Validation\<close>

definition normalize_local_decision :: "local_decision \<Rightarrow> local_decision" where
  "normalize_local_decision p = p \<lparr>ld_target_branch := trim_space (ld_target_branch p),
     ld_head_sha := to_lower (trim_space (ld_head_sha p))\<rparr>"

definition normalize_status_pull_request :: "pull_request \<Rightarrow> pull_request" where
  "normalize_status_pull_request pr =
     (let state = to_lower (trim_space (pr_state pr)) in
      pr \<lparr>pr_state := (if state = [] then ''open'' else state),
          pr_target_branch := trim_space (pr_target_branch pr),
          pr_head_sha := to_lower (trim_space (pr_head_sha pr))\<rparr>)"

definition validate_local_decision :: "local_decision \<Rightarrow> go_error option" where
  "validate_local_decision p =
     (let missing = (if ld_repository_id p \<le> 0 then [''repository''] else [])
            @ (if ld_pull_request_index p \<le> 0 then [''pull request''] else [])
            @ (if ld_target_branch p = [] then [''target branch''] else [])
            @ (if ld_head_sha p = [] then [''head SHA''] else []) in
      if missing \<noteq> []
        then Some (result_invalid (''missing required local decision fields: '' @ join_with '', '' missing))
      else if ld_pull_request_index p > 1000000 then Some (result_invalid ''pull request number is too large'')
      else if invalid_target_branch (ld_target_branch p) then Some (result_invalid ''target branch is invalid'')
      else if invalid_head_sha (ld_head_sha p) then Some (result_invalid ''head SHA is invalid'')
      else None)"

definition validate_status_pull_request :: "pull_request \<Rightarrow> go_error option" where
  "validate_status_pull_request pr = validate_local_decision \<lparr>ld_repository_id = pr_repository_id pr,
     ld_pull_request_index = pr_index pr, ld_target_branch = pr_target_branch pr,
     ld_head_sha = pr_head_sha pr\<rparr>"

text \<open>The loop of \<open>normalizeAndValidateSharedHead\<close>; a repository id of 0 means "none seen yet".\<close>

fun validate_heads ::
    "int \<Rightarrow> string \<Rightarrow> pull_request list \<Rightarrow> go_error + pull_request list" where
  "validate_heads repo head [] = Inr []"
| "validate_heads repo head (pr0 # rest) =
     (let pr = normalize_status_pull_request pr0 in
      case validate_status_pull_request pr of Some e \<Rightarrow> Inl e | None \<Rightarrow>
      if \<not> pr_is_open pr
        then Inl (result_invalid ''shared-head status recomputation requires open pull requests'')
      else
        (let repo' = (if repo = 0 then pr_repository_id pr else repo);
             head' = (if repo = 0 then pr_head_sha pr else head) in
         if pr_repository_id pr \<noteq> repo' \<or> pr_head_sha pr \<noteq> head'
           then Inl (result_invalid ''shared-head status recomputation requires one repository and head SHA'')
         else map_sum id ((#) pr) (validate_heads repo' head' rest)))"

definition normalize_and_validate_shared_head :: "pull_request list \<Rightarrow> go_error + pull_request list" where
  "normalize_and_validate_shared_head prs =
     (if prs = [] then Inl (result_invalid ''no open pull requests share this head SHA'')
      else validate_heads 0 [] prs)"

definition preferred_pull_request :: "pull_request list \<Rightarrow> int \<Rightarrow> pull_request" where
  "preferred_pull_request prs index =
     (case List.find (\<lambda>pr. pr_index pr = index) prs of Some pr \<Rightarrow> pr | None \<Rightarrow> hd prs)"

subsection \<open>Gathering\<close>

definition active_freeze :: "status_service \<Rightarrow> int \<Rightarrow> string \<Rightarrow> branch_freeze option go" where
  "active_freeze svc repo branch =
     (case ss_freezes svc of None \<Rightarrow> ret None
      | Some list \<Rightarrow> bind list (\<lambda>freezes. ret (List.find
          (\<lambda>fr. fr_repository_id fr = repo \<and> fr_branch fr = branch \<and> fr_active fr) freezes)))"

definition active_thaw_exception :: "status_service \<Rightarrow> pull_request \<Rightarrow> thaw_exception option go" where
  "active_thaw_exception svc pr =
     (case ss_thaw_exceptions svc of None \<Rightarrow> ret None | Some active \<Rightarrow> active pr)"

definition open_pull_requests :: "status_service \<Rightarrow> pull_request \<Rightarrow> pull_request list go" where
  "open_pull_requests svc pr =
     (case ss_pull_requests svc of None \<Rightarrow> ret []
      | Some by_head \<Rightarrow> bind (by_head (pr_repository_id pr) (pr_head_sha pr)) (\<lambda>prs.
          if list_ex (\<lambda>existing. pr_index existing = pr_index pr) prs then ret prs
          else if pr_is_open pr then ret (prs @ [pr]) else ret prs))"

text \<open>The loop of \<open>expandSharedHead\<close> over the cached pull requests.\<close>

fun expand_cached :: "int set \<Rightarrow> pull_request list \<Rightarrow> pull_request list" where
  "expand_cached seen [] = []"
| "expand_cached seen (pr0 # rest) =
     (let pr = normalize_status_pull_request pr0 in
      if pr_index pr \<in> seen \<or> \<not> pr_is_open pr then expand_cached seen rest
      else pr # expand_cached (insert (pr_index pr) seen) rest)"

definition expand_shared_head :: "status_service \<Rightarrow> pull_request list \<Rightarrow> pull_request list go" where
  "expand_shared_head svc prs =
     (case ss_pull_requests svc of None \<Rightarrow> ret prs
      | Some by_head \<Rightarrow>
          bind (by_head (pr_repository_id (hd prs)) (pr_head_sha (hd prs))) (\<lambda>cached.
          ret (sort_key pr_index (prs @ expand_cached (set (map pr_index prs)) cached))))"

fun all_thawed :: "status_service \<Rightarrow> pull_request list \<Rightarrow> bool go" where
  "all_thawed svc [] = ret True"
| "all_thawed svc (pr # rest) =
     bind (active_freeze svc (pr_repository_id pr) (pr_target_branch pr)) (\<lambda>freeze.
     if freeze = None then all_thawed svc rest
     else bind (active_thaw_exception svc pr) (\<lambda>thaw.
       if thaw = None then ret False else all_thawed svc rest))"

definition shared_head_fully_thawed :: "status_service \<Rightarrow> pull_request list \<Rightarrow> bool go" where
  "shared_head_fully_thawed svc prs = (if length prs < 2 then ret False else all_thawed svc prs)"

text \<open>\<open>policy.Evaluate\<close> reads the clock because the input carries no time.\<close>

definition evaluate_status ::
    "status_service \<Rightarrow> pull_request \<Rightarrow> pull_request list \<Rightarrow> bool \<Rightarrow> decision go" where
  "evaluate_status svc pr open_prs approved =
     bind (active_freeze svc (pr_repository_id pr) (pr_target_branch pr)) (\<lambda>freeze.
     bind (active_thaw_exception svc pr) (\<lambda>thaw.
     bind now_utc (\<lambda>now.
     case evaluate_policy now \<lparr>pi_pull_request = pr, pi_active_freeze = freeze,
            pi_thaw_exception = thaw, pi_open_pull_requests = open_prs,
            pi_shared_head_approved = approved, pi_now = zero_time\<rparr> of
       None \<Rightarrow> fail Panics | Some d \<Rightarrow> ret d)))"

definition create_status :: "pull_request \<Rightarrow> decision \<Rightarrow> status_result go" where
  "create_status pr d = create_result \<lparr>rc_repository_id = pr_repository_id pr,
     rc_pull_request_index = pr_index pr, rc_target_branch = pr_target_branch pr,
     rc_head_sha = pr_head_sha pr, rc_context = de_context d, rc_state = de_state d,
     rc_description = de_description d, rc_target_url = [], rc_posted_at = None, rc_error = []\<rparr>"

subsection \<open>Decisions\<close>

definition run_for_pull_request :: "status_service \<Rightarrow> pull_request \<Rightarrow> status_result go" where
  "run_for_pull_request svc pr0 =
     (let pr = normalize_status_pull_request pr0 in
      when_invalid (validate_status_pull_request pr) (
      bind (open_pull_requests svc pr) (\<lambda>open_prs.
      bind (shared_head_fully_thawed svc open_prs) (\<lambda>approved.
      bind (evaluate_status svc pr open_prs approved) (\<lambda>d.
      create_status pr d)))))"

definition run_local :: "status_service \<Rightarrow> local_decision \<Rightarrow> status_result go" where
  "run_local svc params =
     (let p = normalize_local_decision params in
      when_invalid (validate_local_decision p) (
      run_for_pull_request svc \<lparr>pr_id = ld_pull_request_index p, pr_repository_id = ld_repository_id p,
        pr_index = ld_pull_request_index p, pr_title = [], pr_state = ''open'',
        pr_target_branch = ld_target_branch p, pr_head_sha = ld_head_sha p, pr_url = []\<rparr>))"

text \<open>The loop that looks for a pull request that blocks the head.\<close>

fun first_blocked ::
    "status_service \<Rightarrow> pull_request list \<Rightarrow> bool \<Rightarrow> pull_request list \<Rightarrow> (pull_request \<times> decision) option go" where
  "first_blocked svc all approved [] = ret None"
| "first_blocked svc all approved (pr # rest) =
     bind (evaluate_status svc pr all approved) (\<lambda>d.
     if de_state d \<noteq> CommitStatusSuccess then ret (Some (pr, d))
     else first_blocked svc all approved rest)"

definition run_for_shared_head :: "status_service \<Rightarrow> pull_request list \<Rightarrow> int \<Rightarrow> status_result go" where
  "run_for_shared_head svc prs preferred =
     (case normalize_and_validate_shared_head prs of Inl e \<Rightarrow> fail e | Inr normalized \<Rightarrow>
      bind (expand_shared_head svc normalized) (\<lambda>all.
      bind (shared_head_fully_thawed svc all) (\<lambda>approved.
      let selected = preferred_pull_request all preferred in
      bind (evaluate_status svc selected all approved) (\<lambda>selected_decision.
      bind (first_blocked svc all approved all) (\<lambda>blocked.
      case blocked of
        None \<Rightarrow> create_status selected selected_decision
      | Some (pr, d) \<Rightarrow> create_status pr d)))))"

end
