(* ===== verification/StatusFacts.thy ===== *)
theory StatusFacts
  imports StatusService HeadText
begin

text \<open>
  Why a green status is safe. The three sources of the status service are an interface: what
  they promise about the tables is the locale's assumptions, the soundness of a success is
  proved from them, and the stores of the program discharge them.
\<close>

subsection \<open>What a source must deliver\<close>

locale status_sources =
  fixes svc :: status_service
    and frozen_in :: "db \<Rightarrow> int \<Rightarrow> string \<Rightarrow> bool"
    and thawed_at :: "db \<Rightarrow> instant \<Rightarrow> pull_request \<Rightarrow> bool"
  assumes freeze_looks: "observes (active_freeze svc repo branch)"
    and thaw_looks: "observes (active_thaw_exception svc pr)"
    and freeze_found: "active_freeze svc repo branch w = (Inr x, w') \<Longrightarrow> case x of
        None \<Rightarrow> \<not> frozen_in (tables w) repo branch
      | Some fr \<Rightarrow> fr_active fr \<and> fr_branch fr = branch"
    and thaw_found: "active_thaw_exception svc pr w = (Inr (Some th), w') \<Longrightarrow>
      \<exists>n. readings w \<le> n \<and> n < readings w' \<and> thawed_at (tables w) (clock w n) pr"
begin

text \<open>
  Nothing holds the pull request back: its branch is not frozen, or an exception covers it at
  one of the instants the clock showed between the two worlds.
\<close>

definition cleared :: "world \<Rightarrow> world \<Rightarrow> pull_request \<Rightarrow> bool" where
  "cleared w w' pr \<longleftrightarrow> \<not> frozen_in (tables w) (pr_repository_id pr) (pr_target_branch pr)
     \<or> (\<exists>n. readings w \<le> n \<and> n < readings w' \<and> thawed_at (tables w) (clock w n) pr)"

lemma cleared_mono:
  assumes "cleared w1 w2 pr" and "tables w1 = tables w" "clock w1 = clock w"
    and "readings w \<le> readings w1" "readings w2 \<le> readings w'"
  shows "cleared w w' pr"
  using assms unfolding cleared_def by (metis le_trans order_less_le_trans)

lemma evaluate_looks: "observes (evaluate_status svc pr all approved)"
  unfolding evaluate_status_def by (intro looking freeze_looks thaw_looks)

lemma evaluate_state:
  assumes "evaluate_status svc pr all approved w = (Inr d, w')"
  shows "de_state d \<in> {CommitStatusSuccess, CommitStatusFailure}"
    and "de_state d = CommitStatusSuccess \<Longrightarrow> cleared w w' pr"
proof -
  from assms obtain fr w1 th w2 now w3 where
    f: "active_freeze svc (pr_repository_id pr) (pr_target_branch pr) w = (Inr fr, w1)"
    and t: "active_thaw_exception svc pr w1 = (Inr th, w2)"
    and c: "now_utc w2 = (Inr now, w3)"
    and e: "(case evaluate_policy now \<lparr>pi_pull_request = pr, pi_active_freeze = fr,
        pi_thaw_exception = th, pi_open_pull_requests = all, pi_shared_head_approved = approved,
        pi_now = zero_time\<rparr> of None \<Rightarrow> fail Panics | Some d \<Rightarrow> ret d) w3 = (Inr d, w')"
    unfolding evaluate_status_def by (elim bind_cases)
  let ?inp = "\<lparr>pi_pull_request = pr, pi_active_freeze = fr, pi_thaw_exception = th,
    pi_open_pull_requests = all, pi_shared_head_approved = approved, pi_now = zero_time\<rparr>"
  from e have d: "evaluate_policy now ?inp = Some d" and w3: "w' = w3"
    by (auto simp: world_defs split: option.splits)
  note of = observes_after [OF freeze_looks f] and ot = observes_after [OF thaw_looks t]
    and oc = observes_after [OF observes_basic(3) c]
  obtain x where x: "evaluate_policy now ?inp = Some
    (if pr_head_sha (pi_pull_request ?inp) = [] then failure ''PR head SHA is missing'' ''missing_head_sha''
     else if \<not> frozen ?inp then success ''No active freeze applies to this PR'' ''not_frozen''
     else if \<not> thaw_in_force now ?inp then failure x ''active_freeze''
     else if shares_open_head ?inp \<and> \<not> pi_shared_head_approved ?inp
       then failure ''Thaw blocked because another open PR shares this head SHA'' ''duplicate_head_sha''
     else success ''PR is explicitly thawed during an active freeze'' ''thawed_exception'')"
    by (rule evaluate_policy_cases)
  with d show "de_state d \<in> {CommitStatusSuccess, CommitStatusFailure}"
    by (auto simp: success_def failure_def split: if_splits)
  assume "de_state d = CommitStatusSuccess"
  with d x have "\<not> frozen ?inp \<or> thaw_in_force now ?inp"
    by (auto simp: failure_def split: if_splits)
  then show "cleared w w' pr"
  proof
    assume "\<not> frozen ?inp"
    with freeze_found [OF f] have "\<not> frozen_in (tables w) (pr_repository_id pr) (pr_target_branch pr)"
      by (auto simp: frozen_def split: option.splits)
    then show ?thesis by (simp add: cleared_def)
  next
    assume "thaw_in_force now ?inp"
    then obtain a where "th = Some a" by (auto simp: thaw_in_force_def opt_ex_iff)
    with thaw_found t have "cleared w1 w2 pr" unfolding cleared_def by blast
    then show ?thesis by (rule cleared_mono) (use of oc w3 in auto)
  qed
qed

lemma all_thawed_looks: "observes (all_thawed svc prs)"
  by (induction prs) (auto intro!: looking freeze_looks thaw_looks)

lemma first_blocked_looks: "observes (first_blocked svc all approved prs)"
  by (induction prs) (auto intro!: looking evaluate_looks)

lemma first_blocked_state:
  assumes "first_blocked svc all approved prs w = (Inr b, w')"
  shows "case b of None \<Rightarrow> \<forall>pr \<in> set prs. cleared w w' pr
    | Some (pr, d) \<Rightarrow> pr \<in> set prs \<and> de_state d = CommitStatusFailure"
  using assms
proof (induction prs arbitrary: w)
  case Nil
  then show ?case by (simp add: ret_def)
next
  case (Cons pr rest)
  then obtain d w1 where e: "evaluate_status svc pr all approved w = (Inr d, w1)"
    and r: "(if de_state d \<noteq> CommitStatusSuccess then ret (Some (pr, d))
       else first_blocked svc all approved rest) w1 = (Inr b, w')"
    by (auto elim!: bind_cases)
  show ?case
  proof (cases "de_state d = CommitStatusSuccess")
    case False
    with r evaluate_state(1) [OF e] show ?thesis by (auto simp: ret_def)
  next
    case True
    with r have r: "first_blocked svc all approved rest w1 = (Inr b, w')" by simp
    note oe = observes_after [OF evaluate_looks e] and ob = observes_after [OF first_blocked_looks r]
    have "cleared w w' pr" by (rule cleared_mono [OF evaluate_state(2) [OF e True]]) (use ob in auto)
    moreover have "cleared w1 w' q \<Longrightarrow> cleared w w' q" for q
      using cleared_mono [of w1 w' q w w'] oe by simp
    ultimately show ?thesis using Cons.IH [OF r] by (auto split: option.splits)
  qed
qed

end

text \<open>With the pull-request cache, which must deliver every open pull request of a head.\<close>

locale shared_head_sources = status_sources +
  fixes by_head :: "int \<Rightarrow> string \<Rightarrow> pull_request list go"
    and sharing :: "db \<Rightarrow> int \<Rightarrow> string \<Rightarrow> pull_request set"
  assumes cache_wired: "ss_pull_requests svc = Some by_head"
    and cache_looks: "observes (by_head repo head)"
    and cache_complete: "by_head repo head w = (Inr prs, w') \<Longrightarrow> sharing (tables w) repo head \<subseteq> set prs"
    and cache_open: "pr \<in> sharing d repo head \<Longrightarrow> pr_is_open (normalize_status_pull_request pr)"
begin

lemma expand_cached_complete:
  assumes "pr \<in> set cached" and "pr_is_open (normalize_status_pull_request pr)"
    and "pr_index pr \<notin> seen" and "\<forall>q \<in> set cached. pr_index q = pr_index pr \<longrightarrow> q = pr"
  shows "normalize_status_pull_request pr \<in> set (expand_cached seen cached)"
  using assms
proof (induction seen cached rule: expand_cached.induct)
  case (2 seen q rest)
  have idx: "pr_index (normalize_status_pull_request x) = pr_index x" for x
    by (simp add: normalize_status_pull_request_def Let_def)
  show ?case
  proof (cases "q = pr")
    case True
    with 2 show ?thesis by (simp add: idx Let_def)
  next
    case False
    with 2 show ?thesis by (auto simp: idx Let_def)
  qed
qed simp

lemma expand_looks: "observes (expand_shared_head svc prs)"
  by (auto simp: expand_shared_head_def cache_wired intro!: looking cache_looks)

lemma expand_complete:
  assumes "expand_shared_head svc prs w = (Inr all, w')"
  shows "set prs \<subseteq> set all"
    and "pr \<in> sharing (tables w) (pr_repository_id (hd prs)) (pr_head_sha (hd prs)) \<Longrightarrow>
      pr_index pr \<notin> set (map pr_index prs) \<Longrightarrow>
      (\<And>w1 c. by_head (pr_repository_id (hd prs)) (pr_head_sha (hd prs)) w = (Inr c, w1) \<Longrightarrow>
         \<forall>q \<in> set c. pr_index q = pr_index pr \<longrightarrow> q = pr) \<Longrightarrow>
      normalize_status_pull_request pr \<in> set all"
proof -
  from assms obtain c w1 where c: "by_head (pr_repository_id (hd prs)) (pr_head_sha (hd prs)) w = (Inr c, w1)"
    and all: "all = sort_key pr_index (prs @ expand_cached (set (map pr_index prs)) c)"
    by (auto simp: expand_shared_head_def cache_wired ret_def elim!: bind_cases)
  show "set prs \<subseteq> set all" by (simp add: all)
  show "normalize_status_pull_request pr \<in> set all"
    if "pr \<in> sharing (tables w) (pr_repository_id (hd prs)) (pr_head_sha (hd prs))"
      "pr_index pr \<notin> set (map pr_index prs)"
      "\<And>w1 c. by_head (pr_repository_id (hd prs)) (pr_head_sha (hd prs)) w = (Inr c, w1) \<Longrightarrow>
         \<forall>q \<in> set c. pr_index q = pr_index pr \<longrightarrow> q = pr"
    using expand_cached_complete [of pr c "set (map pr_index prs)"] cache_complete [OF c] cache_open
      that(1,2) that(3) [OF c] by (auto simp: all)
qed

text \<open>The whole decision: a success clears every member of the expanded set.\<close>

lemma run_decides:
  assumes "run_for_shared_head svc prs preferred w = (Inr r, w')"
    and "normalize_and_validate_shared_head prs = Inr normalized"
  obtains all wx we pr d where "expand_shared_head svc normalized w = (Inr all, wx)"
    and "create_status pr d we = (Inr r, w')" and "tables we = tables w"
    and "pr \<in> set all \<or> all = []"
    and "de_state d \<in> {CommitStatusSuccess, CommitStatusFailure}"
    and "de_state d = CommitStatusSuccess \<longrightarrow> (\<forall>q \<in> set all. cleared w we q)"
proof -
  from assms obtain all w1 ap w2 sd w3 b w4 where
    x: "expand_shared_head svc normalized w = (Inr all, w1)"
    and a: "shared_head_fully_thawed svc all w1 = (Inr ap, w2)"
    and s: "evaluate_status svc (preferred_pull_request all preferred) all ap w2 = (Inr sd, w3)"
    and f: "first_blocked svc all ap all w3 = (Inr b, w4)"
    and c: "(case b of None \<Rightarrow> create_status (preferred_pull_request all preferred) sd
      | Some (pr, d) \<Rightarrow> create_status pr d) w4 = (Inr r, w')"
    by (auto simp: run_for_shared_head_def Let_def elim!: bind_cases)
  have la: "observes (shared_head_fully_thawed svc all)"
    unfolding shared_head_fully_thawed_def by (intro looking all_thawed_looks)
  note o = observes_after [OF expand_looks x] observes_after [OF la a]
    observes_after [OF evaluate_looks s] observes_after [OF first_blocked_looks f]
  have up: "cleared w3 w4 q \<Longrightarrow> cleared w w4 q" for q
    using cleared_mono [of w3 w4 q w w4] o by simp
  have pref: "preferred_pull_request all preferred \<in> set all \<or> all = []"
    by (cases all) (auto simp: preferred_pull_request_def split: option.splits dest: find_Some_iff_first)
  show ?thesis
  proof (cases b)
    case None
    with c have "create_status (preferred_pull_request all preferred) sd w4 = (Inr r, w')" by simp
    with None first_blocked_state [OF f] show ?thesis
      using that [OF x _ _ pref evaluate_state(1) [OF s]] o up by auto
  next
    case (Some p)
    then obtain pr d where p: "b = Some (pr, d)" by (cases p) auto
    with c have "create_status pr d w4 = (Inr r, w')" by simp
    with p first_blocked_state [OF f] show ?thesis
      using that [OF x, of pr d w4] o by auto
  qed
qed

end

subsection \<open>The stores as sources\<close>

definition branch_frozen :: "db \<Rightarrow> int \<Rightarrow> string \<Rightarrow> bool" where
  "branch_frozen d repo branch \<longleftrightarrow> list_ex (\<lambda>r. fz_repository_id r = repo \<and> fz_branch r = branch
     \<and> fz_status r = FreezeActive) (tb_freezes d)"

definition thaw_granted :: "db \<Rightarrow> instant \<Rightarrow> pull_request \<Rightarrow> bool" where
  "thaw_granted d t pr \<longleftrightarrow>
     list_ex (\<lambda>r. covers_pull_request (normalize_thaw_pull_request pr) r \<and> in_effect t r) (tb_thaws d)"

definition open_on_head :: "db \<Rightarrow> int \<Rightarrow> string \<Rightarrow> pull_request set" where
  "open_on_head d repo head =
     set (open_where (\<lambda>r. pr_repository_id r = repo \<and> pr_head_sha r = to_lower (trim_space head)) d)"

text \<open>
  What a success means for one pull request, over the tables and the clock: its branch is not
  frozen, or a thaw exception covers it at one of the clock readings of the run.
\<close>

definition cleared_in :: "world \<Rightarrow> world \<Rightarrow> pull_request \<Rightarrow> bool" where
  "cleared_in w w' pr \<longleftrightarrow> \<not> branch_frozen (tables w) (pr_repository_id pr) (pr_target_branch pr)
     \<or> list_ex (\<lambda>n. thaw_granted (tables w) (clock w n) pr) [readings w ..< readings w']"

lemma list_active_looks: "observes list_active"
  unfolding list_active_def list_active_for_scope_def by (intro looking)

lemma list_active_rows:
  "list_active w = (Inr freezes, w') \<Longrightarrow>
     set freezes = scan_branch_freeze ` {r \<in> set (tb_freezes (tables w)). fz_status r = FreezeActive}"
  by (auto simp: list_active_def list_active_for_scope_def world_defs scope_allows_def
      all_repositories_def split: if_splits)

lemma active_for_pull_request_looks: "observes (active_for_pull_request pr)"
  unfolding active_for_pull_request_def Let_def by (intro looking)

lemma active_for_pull_request_row:
  assumes "active_for_pull_request pr w = (Inr (Some th), w')"
  shows "readings w < readings w' \<and> thaw_granted (tables w) (clock w (readings w)) pr"
proof -
  let ?q = "normalize_thaw_pull_request pr"
  from assms obtain now w1 a w2 where n: "now_utc w = (Inr now, w1)"
    and q: "attempt (query_row (\<lambda>d. map scan_thaw_exception (sort_key (\<lambda>r. - tr_id r)
      (filter (\<lambda>r. covers_pull_request ?q r \<and> in_effect now r) (tb_thaws d))))) w1 = (Inr a, w2)"
    and r: "(case a of Inl e \<Rightarrow> if e = NoRows then ret None else fail e
      | Inr thaw \<Rightarrow> ret (Some (if pr_id ?q > 0 then thaw \<lparr>th_pull_request_id := pr_id ?q\<rparr> else thaw))) w2
        = (Inr (Some th), w')"
    by (auto simp: active_for_pull_request_def Let_def when_invalid_def fail_def elim!: bind_cases
        split: option.splits)
  from r obtain x where x: "a = Inr x" and w': "w' = w2"
    by (cases a) (auto simp: world_defs split: if_splits)
  have n: "now = clock w (readings w)" "tables w1 = tables w" "readings w1 = Suc (readings w)"
    using n by (auto simp: now_utc_def)
  have "filter (\<lambda>r. covers_pull_request ?q r \<and> in_effect now r) (tb_thaws (tables w)) \<noteq> []"
    using q by (auto simp: x n world_defs split: if_splits list.splits)
  moreover have "readings w2 = readings w1" using q by (auto simp: world_defs split: if_splits)
  ultimately show ?thesis using n by (auto simp: w' thaw_granted_def list_ex_iff filter_empty_conv)
qed

lemma list_open_by_head_looks: "observes (list_open_by_head repo head)"
  unfolding list_open_by_head_def Let_def by (intro looking)

interpretation src: shared_head_sources wired_service branch_frozen thaw_granted
    list_open_by_head open_on_head
proof
  note wired = wired_service_def new_status_service_with_thaw_exceptions_def active_freeze_def
    active_thaw_exception_def
  show "observes (active_freeze wired_service repo branch)" for repo branch
    by (auto simp: wired intro!: looking list_active_looks)
  show "observes (active_thaw_exception wired_service pr)" for pr
    by (simp add: wired active_for_pull_request_looks)
  show "case x of None \<Rightarrow> \<not> branch_frozen (tables w) repo branch
      | Some fr \<Rightarrow> fr_active fr \<and> fr_branch fr = branch"
    if "active_freeze wired_service repo branch w = (Inr x, w')" for repo branch w x w'
  proof -
    from that obtain freezes w1 where l: "list_active w = (Inr freezes, w1)"
      and x: "x = List.find (\<lambda>fr. fr_repository_id fr = repo \<and> fr_branch fr = branch \<and> fr_active fr) freezes"
      by (auto simp: wired ret_def elim!: bind_cases)
    show ?thesis
    proof (cases x)
      case None
      with x have none: "\<forall>fr \<in> set freezes. \<not> (fr_repository_id fr = repo \<and> fr_branch fr = branch \<and> fr_active fr)"
        unfolding find_None_all [symmetric] by simp
      have "\<not> (fz_repository_id r = repo \<and> fz_branch r = branch \<and> fz_status r = FreezeActive)"
        if "r \<in> set (tb_freezes (tables w))" for r
      proof
        assume r: "fz_repository_id r = repo \<and> fz_branch r = branch \<and> fz_status r = FreezeActive"
        with that have "scan_branch_freeze r \<in> set freezes" unfolding list_active_rows [OF l] by blast
        with none r show False by (auto simp: scan_branch_freeze_def)
      qed
      with None show ?thesis by (auto simp: branch_frozen_def list_ex_iff)
    next
      case (Some fr)
      with find_Some_iff_first x show ?thesis by fastforce
    qed
  qed
  show "\<exists>n. readings w \<le> n \<and> n < readings w' \<and> thaw_granted (tables w) (clock w n) pr"
    if "active_thaw_exception wired_service pr w = (Inr (Some th), w')" for pr w th w'
  proof -
    have "active_for_pull_request pr w = (Inr (Some th), w')" using that by (simp add: wired)
    from active_for_pull_request_row [OF this] show ?thesis by blast
  qed
  show "ss_pull_requests wired_service = Some list_open_by_head" by (simp add: wired)
  show "observes (list_open_by_head repo head)" for repo head by (rule list_open_by_head_looks)
  show "open_on_head (tables w) repo head \<subseteq> set prs"
    if "list_open_by_head repo head w = (Inr prs, w')" for repo head w prs w'
    using that by (auto simp: list_open_by_head_def open_on_head_def Let_def world_defs split: if_splits)
  show "pr_is_open (normalize_status_pull_request pr)" if "pr \<in> open_on_head d repo head"
    for pr d repo head
  proof -
    from that have "pr_state pr = ''open''"
      by (auto simp: open_on_head_def open_where_def scan_pull_request_def pull_request.truncate_def)
    then show ?thesis by (simp add: normalize_status_pull_request_def pr_is_open_def)
  qed
qed

lemma cleared_in: "src.cleared w w' pr \<longleftrightarrow> cleared_in w w' pr"
  by (auto simp: src.cleared_def cleared_in_def list_ex_iff)

subsection \<open>Recording the verdict\<close>

lemma create_result_success:
  assumes "create_result p w = (Inr r, w')"
  shows "rs_state r = rc_state p \<and> rs_repository_id r = rc_repository_id p
    \<and> rs_pull_request_index r = rc_pull_request_index p
    \<and> rs_head_sha r = to_lower (trim_space (rc_head_sha p)) \<and> readings w \<le> readings w'
    \<and> (\<exists>row. tables w' = tables w \<lparr>tb_results := tb_results (tables w) @ [row]\<rparr> \<and> r = scan_result row)"
proof -
  let ?q = "normalize_result p"
  from assms have valid: "validate_result ?q = None"
    by (auto simp: create_result_def Let_def when_invalid_def fail_def split: option.splits)
  then have index: "0 < rc_pull_request_index p"
    by (auto simp: validate_result_def normalize_result_def Let_def split: if_splits)
  from assms valid obtain w1 now w2 i w3 where
    rr: "require_repository (rc_repository_id ?q) w = (Inr (), w1)"
    and n: "now_utc w1 = (Inr now, w2)"
    and c: "checked (\<lambda>d. rc_repository_id ?q \<in> set (map repo_id (tb_repositories d)))
             (\<lambda>d. let i = fresh_id (map sr_id (tb_results d)) in
                (i, d \<lparr>tb_results := tb_results d @ [\<lparr>sr_id = i, sr_repository_id = rc_repository_id ?q,
                   sr_pull_request_index = (if rc_pull_request_index ?q > 0 then Some (rc_pull_request_index ?q) else None),
                   sr_target_branch = rc_target_branch ?q, sr_head_sha = rc_head_sha ?q,
                   sr_context = rc_context ?q, sr_state = rc_state ?q, sr_description = rc_description ?q,
                   sr_target_url = (if rc_target_url ?q \<noteq> [] then Some (rc_target_url ?q) else None),
                   sr_posted_at = rc_posted_at ?q,
                   sr_error = (if rc_error ?q \<noteq> [] then Some (rc_error ?q) else None),
                   sr_created_at = now\<rparr>]\<rparr>)) w2 = (Inr i, w3)"
    and g: "get_result i w3 = (Inr r, w')"
    by (auto simp: create_result_def Let_def when_invalid_def elim!: bind_cases)
  have lr: "observes (require_repository (rc_repository_id ?q))" and lg: "observes (get_result i)"
    unfolding require_repository_def get_result_def by (intro looking)+
  note o = observes_after [OF lr rr] observes_after [OF observes_basic(3) n] observes_after [OF lg g]
  define row where "row = \<lparr>sr_id = i, sr_repository_id = rc_repository_id ?q,
     sr_pull_request_index = (if rc_pull_request_index ?q > 0 then Some (rc_pull_request_index ?q) else None),
     sr_target_branch = rc_target_branch ?q, sr_head_sha = rc_head_sha ?q, sr_context = rc_context ?q,
     sr_state = rc_state ?q, sr_description = rc_description ?q,
     sr_target_url = (if rc_target_url ?q \<noteq> [] then Some (rc_target_url ?q) else None),
     sr_posted_at = rc_posted_at ?q,
     sr_error = (if rc_error ?q \<noteq> [] then Some (rc_error ?q) else None), sr_created_at = now\<rparr>"
  have i: "i = fresh_id (map sr_id (tb_results (tables w)))"
    and t3: "tables w3 = tables w \<lparr>tb_results := tb_results (tables w) @ [row]\<rparr>"
    and r3: "readings w2 = readings w3"
    using c o by (auto simp: checked_def sql_def row_def Let_def split: if_splits)
  have "r \<in> set (map scan_result (filter (\<lambda>r. sr_id r = i) (tb_results (tables w3))))"
    using g by (auto simp: get_result_def query_row_def sql_def first_row_def
        split: if_splits list.splits) (metis (mono_tags, lifting) filter_eq_Cons_iff imageI in_set_conv_decomp mem_Collect_eq)
  then have "r = scan_result row"
    unfolding i t3 by (intro fresh_row_unique [where key = sr_id]) (simp add: t3)
  then show ?thesis using o t3 r3 index by (auto simp: row_def scan_result_def normalize_result_def)
qed

subsection \<open>A success is safe\<close>

text \<open>
  The pull requests a status on a head commit speaks for: the ones it was asked about, and every
  other one the cache has open on the same commit, whatever its target branch.
\<close>

definition affected :: "pull_request list \<Rightarrow> db \<Rightarrow> pull_request list" where
  "affected prs d = map normalize_status_pull_request (prs @ map scan_pull_request
     (filter (\<lambda>row. pr_repository_id row = pr_repository_id (hd prs)
         \<and> pr_head_sha row = to_lower (trim_space (pr_head_sha (hd prs))) \<and> pr_state row = ''open''
         \<and> pr_index row \<notin> set (map pr_index prs)) (tb_pulls d)))"

lemma normalize_status_simps [simp]:
  "pr_repository_id (normalize_status_pull_request pr) = pr_repository_id pr"
  "pr_index (normalize_status_pull_request pr) = pr_index pr"
  "pr_head_sha (normalize_status_pull_request pr) = to_lower (trim_space (pr_head_sha pr))"
  by (simp_all add: normalize_status_pull_request_def Let_def)

lemma valid_pull_request_facts:
  assumes "validate_status_pull_request pr = None"
  shows "0 < pr_repository_id pr" and "is_hex (pr_head_sha pr)"
  using assms by (auto simp: validate_status_pull_request_def validate_local_decision_def
      invalid_head_sha_def Let_def split: if_splits)

lemma validate_heads_result:
  assumes "validate_heads repo head prs = Inr ns" and "0 < repo"
  shows "ns = map normalize_status_pull_request prs
    \<and> (\<forall>pr \<in> set ns. pr_repository_id pr = repo \<and> pr_head_sha pr = head)"
  using assms
proof (induction prs arbitrary: ns)
  case (Cons pr0 rest)
  let ?pr = "normalize_status_pull_request pr0"
  have nonzero: "\<not> repo = 0" using Cons.prems by simp
  have step: "(case validate_status_pull_request ?pr of Some e \<Rightarrow> Inl e | None \<Rightarrow>
      if \<not> pr_is_open ?pr
        then Inl (result_invalid ''shared-head status recomputation requires open pull requests'')
      else if pr_repository_id ?pr \<noteq> repo \<or> pr_head_sha ?pr \<noteq> head
        then Inl (result_invalid ''shared-head status recomputation requires one repository and head SHA'')
      else map_sum id ((#) ?pr) (validate_heads repo head rest)) = Inr ns"
    using Cons.prems(1) unfolding validate_heads.simps Let_def if_not_P [OF nonzero] .
  then have ok: "validate_status_pull_request ?pr = None" "pr_is_open ?pr"
    "pr_repository_id ?pr = repo" "pr_head_sha ?pr = head"
    by (simp_all split: option.splits if_splits)
  with step have "map_sum id ((#) ?pr) (validate_heads repo head rest) = Inr ns" by simp
  then obtain ms where ms: "validate_heads repo head rest = Inr ms" "ns = ?pr # ms"
    by (cases "validate_heads repo head rest") auto
  with Cons.IH [OF ms(1)] Cons.prems(2) ok show ?case by simp
qed simp

lemma normalized_heads:
  assumes "normalize_and_validate_shared_head prs = Inr ns"
  shows "ns = map normalize_status_pull_request prs" and "prs \<noteq> []"
    and "0 < pr_repository_id (hd ns)" and "is_hex (pr_head_sha (hd ns))"
    and "\<forall>pr \<in> set ns. pr_repository_id pr = pr_repository_id (hd ns) \<and> pr_head_sha pr = pr_head_sha (hd ns)"
proof -
  from assms obtain p rest where p: "prs = p # rest" and v: "validate_heads 0 [] (p # rest) = Inr ns"
    by (cases prs) (auto simp: normalize_and_validate_shared_head_def)
  let ?p = "normalize_status_pull_request p"
  from v have ok: "validate_status_pull_request ?p = None"
    by (auto simp: Let_def split: option.splits)
  note facts = valid_pull_request_facts [OF ok]
  from v ok obtain ms where ms: "validate_heads (pr_repository_id ?p) (pr_head_sha ?p) rest = Inr ms" "ns = ?p # ms"
    by (cases "validate_heads (pr_repository_id ?p) (pr_head_sha ?p) rest")
      (auto simp: Let_def split: if_splits)
  from validate_heads_result [OF ms(1) facts(1)] ms(2) p facts
  show "ns = map normalize_status_pull_request prs" "prs \<noteq> []" "0 < pr_repository_id (hd ns)"
    "is_hex (pr_head_sha (hd ns))"
    "\<forall>pr \<in> set ns. pr_repository_id pr = pr_repository_id (hd ns) \<and> pr_head_sha pr = pr_head_sha (hd ns)"
    by simp_all
qed

lemma open_on_headD:
  assumes "pr \<in> open_on_head d repo head"
  obtains row where "row \<in> set (tb_pulls d)" and "pr = scan_pull_request row"
    and "pr_repository_id row = repo" and "pr_head_sha row = to_lower (trim_space head)"
    and "pr_state row = ''open''"
  using assms by (auto simp: open_on_head_def open_where_def)

lemma by_head_rows:
  "list_open_by_head repo head w = (Inr c, w') \<Longrightarrow> set c = open_on_head (tables w) repo head"
  by (auto simp: list_open_by_head_def open_on_head_def Let_def world_defs split: if_splits)

lemma expand_cached_subset: "set (expand_cached seen cached) \<subseteq> normalize_status_pull_request ` set cached"
  by (induction seen cached rule: expand_cached.induct) (auto simp: Let_def)

lemma expanded_heads:
  assumes "expand_shared_head wired_service ns w = (Inr all, w')" and "ns \<noteq> []"
    and "is_hex (pr_head_sha (hd ns))"
    and "\<forall>pr \<in> set ns. pr_repository_id pr = pr_repository_id (hd ns) \<and> pr_head_sha pr = pr_head_sha (hd ns)"
  shows "all \<noteq> []"
    and "\<forall>pr \<in> set all. pr_repository_id pr = pr_repository_id (hd ns) \<and> pr_head_sha pr = pr_head_sha (hd ns)"
proof -
  from assms(1) obtain c w1 where c: "list_open_by_head (pr_repository_id (hd ns)) (pr_head_sha (hd ns)) w = (Inr c, w1)"
    and all: "all = sort_key pr_index (ns @ expand_cached (set (map pr_index ns)) c)"
    by (auto simp: expand_shared_head_def src.cache_wired ret_def elim!: bind_cases)
  show "all \<noteq> []" using assms(2) by (cases ns) (auto simp: all dest: arg_cong [where f = set])
  have "pr_repository_id pr = pr_repository_id (hd ns) \<and> pr_head_sha pr = pr_head_sha (hd ns)"
    if pr: "pr \<in> set (expand_cached (set (map pr_index ns)) c)" for pr
  proof -
    from pr expand_cached_subset obtain q where q: "q \<in> set c" "pr = normalize_status_pull_request q" by blast
    from q(1) by_head_rows [OF c] have "q \<in> open_on_head (tables w) (pr_repository_id (hd ns)) (pr_head_sha (hd ns))"
      by simp
    then show ?thesis by (rule open_on_headD) (simp add: q head_canonical assms(3))
  qed
  with assms(4) show "\<forall>pr \<in> set all. pr_repository_id pr = pr_repository_id (hd ns)
      \<and> pr_head_sha pr = pr_head_sha (hd ns)"
    by (auto simp: all)
qed

lemma affected_subset:
  assumes "expand_shared_head wired_service ns w = (Inr all, w')"
    and ns: "ns = map normalize_status_pull_request prs" "prs \<noteq> []" "is_hex (pr_head_sha (hd ns))"
    and "pulls_ok (tables w)"
  shows "set (affected prs (tables w)) \<subseteq> set all"
proof
  fix pr
  have hd: "pr_repository_id (hd ns) = pr_repository_id (hd prs)"
    "pr_head_sha (hd ns) = to_lower (trim_space (pr_head_sha (hd prs)))"
    and idx: "set (map pr_index ns) = set (map pr_index prs)"
    using ns(1,2) by (auto simp: hd_map)
  have head: "to_lower (trim_space (pr_head_sha (hd ns))) = pr_head_sha (hd ns)"
    by (simp add: head_canonical ns(3))
  assume "pr \<in> set (affected prs (tables w))"
  then consider "pr \<in> set ns" | row where "row \<in> set (tb_pulls (tables w))"
    "pr = normalize_status_pull_request (scan_pull_request row)"
    "pr_repository_id row = pr_repository_id (hd ns)" "pr_head_sha row = pr_head_sha (hd ns)"
    "pr_state row = ''open''" "pr_index row \<notin> set (map pr_index ns)"
    unfolding idx ns(1) by (auto simp: affected_def hd_map [OF ns(2)])
  then show "pr \<in> set all"
  proof cases
    case 1
    with src.expand_complete(1) [OF assms(1)] show ?thesis by blast
  next
    case 2
    have member: "scan_pull_request row \<in> open_on_head (tables w) (pr_repository_id (hd ns)) (pr_head_sha (hd ns))"
      using 2 head by (auto simp: open_on_head_def open_where_def)
    have unique: "q = scan_pull_request row"
      if "q \<in> open_on_head (tables w) (pr_repository_id (hd ns)) (pr_head_sha (hd ns))"
        "pr_index q = pr_index row" for q
      using that(1)
    proof (rule open_on_headD)
      fix row' assume "row' \<in> set (tb_pulls (tables w))" "q = scan_pull_request row'"
        "pr_repository_id row' = pr_repository_id (hd ns)"
      with that(2) 2 assms(5) have "row' = row" by (auto simp: pulls_ok_def distinct_map inj_on_def)
      with \<open>q = scan_pull_request row'\<close> show ?thesis by simp
    qed
    show ?thesis unfolding 2(2)
      by (rule src.expand_complete(2) [OF assms(1) member]) (use 2 unique by_head_rows in auto)
  qed
qed

text \<open>
  C1: A commit status speaks for every pull request on the commit, so the program only turns it
  green when all of them may merge. If the decision for a shared head reports success, then for
  each pull request it was asked about, and for every other open one the cache has on the same
  commit, whatever its target branch, the branch is not frozen or a thaw exception for this very
  head was in effect during the run. The verdict is success or failure, names the repository and
  the commit, and is the one row the run adds to the database.
\<close>

theorem shared_head_success_is_safe:
  assumes "run_for_shared_head wired_service prs preferred w = (Inr r, w')" and "pulls_ok (tables w)"
  shows "rs_state r \<in> {CommitStatusSuccess, CommitStatusFailure}
    \<and> (rs_state r = CommitStatusSuccess \<longrightarrow> list_all (cleared_in w w') (affected prs (tables w)))
    \<and> rs_repository_id r = pr_repository_id (hd prs)
    \<and> rs_head_sha r = to_lower (trim_space (pr_head_sha (hd prs)))
    \<and> (\<exists>row. tables w' = tables w \<lparr>tb_results := tb_results (tables w) @ [row]\<rparr> \<and> r = scan_result row)"
proof -
  from assms(1) obtain ns where ns: "normalize_and_validate_shared_head prs = Inr ns"
    by (cases "normalize_and_validate_shared_head prs") (auto simp: run_for_shared_head_def fail_def)
  note heads = normalized_heads [OF ns]
  have ne: "ns \<noteq> []" using heads(1,2) by simp
  obtain all wx we pr d where
    x: "expand_shared_head wired_service ns w = (Inr all, wx)"
    and c: "create_status pr d we = (Inr r, w')" and t: "tables we = tables w"
    and pr: "pr \<in> set all \<or> all = []" and d: "de_state d \<in> {CommitStatusSuccess, CommitStatusFailure}"
    and safe: "de_state d = CommitStatusSuccess \<longrightarrow> (\<forall>q \<in> set all. src.cleared w we q)"
    by (rule src.run_decides [OF assms(1) ns]) (rule that; assumption)
  note eh = expanded_heads [OF x ne heads(4,5)]
  note made = create_result_success [OF c [unfolded create_status_def]]
  have same: "pr_repository_id pr = pr_repository_id (hd prs)"
    "pr_head_sha pr = to_lower (trim_space (pr_head_sha (hd prs)))"
    using pr eh heads(1,2) by (auto simp: hd_map)
  have "is_hex (pr_head_sha pr)" using pr eh heads(4) by auto
  then have head: "to_lower (trim_space (pr_head_sha pr)) = pr_head_sha pr" by (simp add: head_canonical)
  have "list_all (cleared_in w w') (affected prs (tables w))" if "rs_state r = CommitStatusSuccess"
  proof -
    have "\<forall>q \<in> set all. src.cleared w w' q"
      using safe that made by (auto intro: src.cleared_mono)
    with affected_subset [OF x heads(1,2,4) assms(2)] show ?thesis
      by (auto simp: list_all_iff cleared_in)
  qed
  with made d same head t show ?thesis by simp
qed

subsection \<open>A frozen branch, a thawed pull request\<close>

definition gate_db :: db where
  "gate_db = empty_db \<lparr>tb_repositories := [gate_repository],
     tb_freezes := [\<lparr>fz_id = 3, fz_repository_id = 1, fz_branch = ''main'', fz_status = FreezeActive,
       fz_scheduled = False, fz_needs_recompute = False, fz_reason = ''release'', fz_starts_at = Some 1,
       fz_ends_at = None, fz_planned_ends_at = None, fz_schedule_id = None, fz_schedule_name = [],
       fz_created_by = None, fz_created_by_kind = [], fz_created_at = 1, fz_updated_at = 1\<rparr>],
     tb_thaws := [\<lparr>tr_id = 5, tr_repository_id = 1, tr_pull_request_index = 12, tr_pull_request_url = None,
       tr_head_sha = ''abc123'', tr_target_branch = ''main'', tr_status = ''active'', tr_reason = ''hotfix'',
       tr_approved_by = None, tr_expires_at = None, tr_created_at = 2, tr_updated_at = 2\<rparr>],
     tb_pulls := [\<lparr>pr_id = 7, pr_repository_id = 1, pr_index = 12, pr_title = [], pr_state = ''open'',
       pr_target_branch = ''main'', pr_head_sha = ''abc123'', pr_url = [], pl_updated_from_forge_at = 0\<rparr>]\<rparr>"


lemma gate_db_simps:
 "tb_freezes gate_db = [\<lparr>fz_id = 3, fz_repository_id = 1, fz_branch = ''main'', fz_status = FreezeActive,
       fz_scheduled = False, fz_needs_recompute = False, fz_reason = ''release'', fz_starts_at = Some 1,
       fz_ends_at = None, fz_planned_ends_at = None, fz_schedule_id = None, fz_schedule_name = [],
       fz_created_by = None, fz_created_by_kind = [], fz_created_at = 1, fz_updated_at = 1\<rparr>]"
  "tb_thaws gate_db = [\<lparr>tr_id = 5, tr_repository_id = 1, tr_pull_request_index = 12, tr_pull_request_url = None,
       tr_head_sha = ''abc123'', tr_target_branch = ''main'', tr_status = ''active'', tr_reason = ''hotfix'',
       tr_approved_by = None, tr_expires_at = None, tr_created_at = 2, tr_updated_at = 2\<rparr>]"
  "tb_repositories gate_db = [gate_repository]" "repo_id gate_repository = 1" "repo_active gate_repository"
  "tb_results gate_db = []"
  "tb_pulls gate_db = [\<lparr>pr_id = 7, pr_repository_id = 1, pr_index = 12, pr_title = [], pr_state = ''open'',
       pr_target_branch = ''main'', pr_head_sha = ''abc123'', pr_url = [], pl_updated_from_forge_at = 0\<rparr>]"
  by (simp_all add: gate_db_def gate_repository_def empty_db_def)

lemma gate_run:
  "\<exists>r w'. run_for_shared_head wired_service [gate_pull] 12 (quiet gate_db 50) = (Inr r, w') \<and> rs_state r = CommitStatusSuccess"
proof -
  have v: "validate_status_pull_request gate_pull = None" "normalize_status_pull_request gate_pull = gate_pull"
    by (simp_all add: validate_status_pull_request_def validate_local_decision_def gate_pull_def gate_simps invalid_head_sha_def
    invalid_target_branch_def normalize_status_pull_request_def Let_def)
  have n: "normalize_and_validate_shared_head [gate_pull] = Inr [gate_pull]"
    by (simp add: normalize_and_validate_shared_head_def v pr_is_open_def) (simp add: gate_pull_def Let_def pr_is_open_def)
  have f: "faultless w \<Longrightarrow> tables w = gate_db \<Longrightarrow> active_freeze wired_service 1 ''main'' w = (Inr (Some (scan_branch_freeze (hd (tb_freezes gate_db)))), after w 0 1 (tables w))" for w
    by (simp add: active_freeze_def wired_service_def new_status_service_with_thaw_exceptions_def list_active_def list_active_for_scope_def
      run_simps gate_db_simps scope_allows_def all_repositories_def scan_branch_freeze_def)

  have t: "faultless w \<Longrightarrow> tables w = gate_db \<Longrightarrow> active_thaw_exception wired_service gate_pull w
      = (Inr (Some (scan_thaw_exception (hd (tb_thaws gate_db)) \<lparr>th_pull_request_id := 7\<rparr>)), after w 1 1 (tables w))" for w
    by (simp add: active_thaw_exception_def wired_service_def new_status_service_with_thaw_exceptions_def
      active_for_pull_request_def normalize_thaw_pull_request_def validate_thaw_pull_request_def
      validate_approve_params_def invalid_head_sha_def invalid_target_branch_def gate_simps
      run_simps gate_db_simps when_invalid_def covers_pull_request_def in_effect_def first_row_def gate_pull_def Let_def)
  have e: "faultless w \<Longrightarrow> tables w = gate_db \<Longrightarrow> evaluate_status wired_service gate_pull [gate_pull] False w
      = (Inr (success ''PR is explicitly thawed during an active freeze'' ''thawed_exception''), after w 2 2 (tables w))" for w
    unfolding evaluate_status_def
    by (simp add: run_simps f t [unfolded gate_pull_def] gate_pull_def) 
       (simp add: gate_pull_def evaluate_policy_def scan_branch_freeze_def scan_thaw_exception_def gate_db_simps is_zero_def
         thaw_matches_pull_request_def thaw_is_active_def run_simps Let_def numeral_2_eq_2)
  have x: "faultless w \<Longrightarrow> tables w = gate_db \<Longrightarrow> expand_shared_head wired_service [gate_pull] w = (Inr [gate_pull], after w 0 1 (tables w))" for w
    by (simp add: expand_shared_head_def wired_service_def new_status_service_with_thaw_exceptions_def
      list_open_by_head_def gate_simps run_simps open_where_def gate_db_simps scan_pull_request_def pull_request.truncate_def normalize_status_pull_request_def gate_pull_def Let_def pr_is_open_def)
  have c: "faultless w \<Longrightarrow> tables w = gate_db \<Longrightarrow> \<exists>r w'. create_status gate_pull
      (success ''PR is explicitly thawed during an active freeze'' ''thawed_exception'') w = (Inr r, w')
      \<and> rs_state r = CommitStatusSuccess" for w
    by (simp add: create_status_def create_result_def normalize_result_def gate_simps validate_result_def
        when_invalid_def invalid_head_sha_def invalid_target_branch_def required_status_context_def
        valid_state_def require_repository_def get_result_def run_simps gate_db_simps first_row_def
        gate_pull_def success_def scan_result_def Let_def)
  have o: "faultless w \<Longrightarrow> tables w = gate_db \<Longrightarrow>
      first_blocked wired_service [gate_pull] False [gate_pull] w = (Inr None, after w 2 2 (tables w))" for w
    by (simp add: run_simps e success_def)
  have s: "shared_head_fully_thawed wired_service [gate_pull] = ret False"
    by (simp add: shared_head_fully_thawed_def)
  have idx: "pr_index gate_pull = 12" by (simp add: gate_pull_def)
  let ?w = "quiet gate_db 50"
  have "run_for_shared_head wired_service [gate_pull] 12 ?w =
      create_status gate_pull (success ''PR is explicitly thawed during an active freeze'' ''thawed_exception'')
        (after ?w 4 5 gate_db)"
    by (simp add: run_for_shared_head_def n x run_simps s preferred_pull_request_def
        e o eval_nat_numeral idx run_bind_ret del: first_blocked.simps)
  with c [of "after ?w 4 5 gate_db"] show ?thesis by (simp add: run_simps)
qed

lemma shared_head_success_is_safe_witness:
  "\<exists>r w'. run_for_shared_head wired_service [gate_pull] 12 (quiet gate_db 50) = (Inr r, w')
     \<and> rs_state r = CommitStatusSuccess
     \<and> list_all (cleared_in (quiet gate_db 50) w') (affected [gate_pull] gate_db)"
proof -
  from gate_run obtain r w' where r: "run_for_shared_head wired_service [gate_pull] 12 (quiet gate_db 50) = (Inr r, w')"
    and s: "rs_state r = CommitStatusSuccess" by blast
  have ok: "pulls_ok (tables (quiet gate_db 50))" by (simp add: run_simps pulls_ok_def gate_db_simps)
  from shared_head_success_is_safe [OF r ok] r s show ?thesis by (auto simp: run_simps)
qed

end
