(* ===== verification/AuditLog.thy ===== *)
theory AuditLog
  imports Scope
begin

text \<open>
  The audit trail (\<open>internal/audit/audit.go\<close>): the actions the program writes, what an event
  must carry, and the association of an event with a repository that decides who may read it.
  The SQL that derives the association is modelled on the parsed details: the number of
  \<open>repository_id\<close> keys, the type and value under the key, and the text of the subject.
\<close>

subsection \<open>Actions and subjects\<close>

definition known_actions :: "string list" where
  "known_actions =
    [''repository.created'', ''repository.webhook_secret_configured'',
     ''repository.status_token_configured'', ''repository.open_pull_requests_synced'',
     ''repository.branch_added'', ''repository.branch_removed'', ''repository.setup_check_run'',
     ''repository.setup_drift_detected'', ''repository.status_post_verified'',
     ''repository.status_post_verification_failed'', ''repository.enforcement_activated'',
     ''repository.enforcement_deactivated'', ''repository.enforcement_activation_failed'',
     ''repository.enforcement_reconcile_succeeded'', ''repository.enforcement_reconcile_failed'',
     ''repository.enforcement_recovery_succeeded'', ''repository.enforcement_recovery_failed'',
     ''repository.runtime_convergence_failed'', ''repository_grant.added'',
     ''repository_grant.revoked'', ''branch_freeze.created'', ''branch_freeze.ended'',
     ''branch_freeze.cancelled'', ''branch_freeze.planned_unfreeze'',
     ''freeze_schedule.created'', ''freeze_schedule.updated'', ''freeze_schedule.cancelled'',
     ''freeze_schedule.activated'', ''freeze_schedule.started_now'',
     ''freeze_schedule.planned_unfreeze_executed'', ''schedule.created'', ''schedule.deleted'',
     ''schedule.rules_added'', ''schedule.rule_removed'', ''schedule.window_added'',
     ''schedule.window_removed'', ''schedule.activated'', ''schedule.paused'',
     ''schedule.suppressed'', ''thaw_exception.approved'',
     ''thaw_exception.shared_head_approved'', ''user.created'', ''user.roles_updated'',
     ''user.disabled'', ''user.enabled'', ''user.password_changed'', ''user.password_reset'',
     ''user.password_recovery_issued'', ''user.password_recovery_completed'',
     ''invitation.created'', ''invitation.reissued'', ''invitation.replaced'',
     ''invitation.cancelled'', ''invitation.authorization_revoked'', ''invitation.accepted'',
     ''oidc_connection.draft_saved'', ''oidc_connection.metadata_checked'',
     ''oidc_connection.test_sign_in_claimed'', ''oidc_connection.test_sign_in_completed'',
     ''oidc_connection.enabled'', ''oidc_connection.disabled'', ''oidc_identity.linked'',
     ''oidc_identity.unlinked'', ''forge.connection_created'', ''forge.connection_updated'',
     ''forge.connection_check_started'', ''forge.connection_checked'',
     ''forge.connection_reset'', ''forge.repository_bound'', ''forge.repository_unbound'',
     ''forge.oauth_client_updated'', ''forge.oauth_client_disabled'', ''forge.identity_linked'',
     ''forge.identity_link_rejected'', ''forge.identity_unlinked'', ''forge.identity_purged'',
     ''forge.access_periodic_enabled'', ''forge.access_periodic_disabled'',
     ''forge.access_sync_started'', ''forge.access_sync_finished'']"

definition repository_subject_actions :: "string list" where
  "repository_subject_actions =
    [''repository.created'', ''repository.webhook_secret_configured'',
     ''repository.status_token_configured'', ''repository.open_pull_requests_synced'',
     ''repository.branch_added'', ''repository.branch_removed'', ''repository.setup_check_run'',
     ''repository.setup_drift_detected'', ''repository.status_post_verified'',
     ''repository.status_post_verification_failed'', ''repository.enforcement_activated'',
     ''repository.enforcement_deactivated'', ''repository.enforcement_activation_failed'',
     ''repository.enforcement_reconcile_succeeded'', ''repository.enforcement_reconcile_failed'',
     ''repository.enforcement_recovery_succeeded'', ''repository.enforcement_recovery_failed'',
     ''repository.runtime_convergence_failed'', ''repository_grant.added'',
     ''repository_grant.revoked'']"

definition branch_freeze_subject_actions :: "string list" where
  "branch_freeze_subject_actions =
    [''branch_freeze.created'', ''branch_freeze.ended'', ''branch_freeze.cancelled'',
     ''branch_freeze.planned_unfreeze'', ''freeze_schedule.created'',
     ''freeze_schedule.updated'', ''freeze_schedule.cancelled'', ''freeze_schedule.activated'',
     ''freeze_schedule.started_now'', ''freeze_schedule.planned_unfreeze_executed'']"

definition schedule_subject_actions :: "string list" where
  "schedule_subject_actions =
    [''schedule.created'', ''schedule.deleted'', ''schedule.rules_added'',
     ''schedule.rule_removed'', ''schedule.window_added'', ''schedule.window_removed'',
     ''schedule.activated'', ''schedule.paused'', ''schedule.suppressed'']"

definition thaw_exception_subject_actions :: "string list" where
  "thaw_exception_subject_actions =
    [''thaw_exception.approved'', ''thaw_exception.shared_head_approved'']"

definition subject_type_repository :: string where
  "subject_type_repository = ''repository''"
definition subject_type_schedule :: string where
  "subject_type_schedule = ''schedule''"
definition subject_type_branch_freeze :: string where
  "subject_type_branch_freeze = ''branch_freeze''"
definition subject_type_thaw_exception :: string where
  "subject_type_thaw_exception = ''thaw_exception''"

definition action_branch_freeze_created :: string where
  "action_branch_freeze_created = ''branch_freeze.created''"
definition action_branch_freeze_ended :: string where
  "action_branch_freeze_ended = ''branch_freeze.ended''"
definition action_branch_freeze_cancelled :: string where
  "action_branch_freeze_cancelled = ''branch_freeze.cancelled''"
definition action_branch_freeze_planned_unfreeze :: string where
  "action_branch_freeze_planned_unfreeze = ''branch_freeze.planned_unfreeze''"
definition action_freeze_schedule_created :: string where
  "action_freeze_schedule_created = ''freeze_schedule.created''"
definition action_freeze_schedule_updated :: string where
  "action_freeze_schedule_updated = ''freeze_schedule.updated''"
definition action_freeze_schedule_cancelled :: string where
  "action_freeze_schedule_cancelled = ''freeze_schedule.cancelled''"
definition action_freeze_schedule_activated :: string where
  "action_freeze_schedule_activated = ''freeze_schedule.activated''"
definition action_freeze_schedule_started_now :: string where
  "action_freeze_schedule_started_now = ''freeze_schedule.started_now''"
definition action_freeze_schedule_planned_unfreeze :: string where
  "action_freeze_schedule_planned_unfreeze = ''freeze_schedule.planned_unfreeze_executed''"
definition action_schedule_created :: string where
  "action_schedule_created = ''schedule.created''"
definition action_schedule_deleted :: string where
  "action_schedule_deleted = ''schedule.deleted''"
definition action_schedule_rules_added :: string where
  "action_schedule_rules_added = ''schedule.rules_added''"
definition action_schedule_rule_removed :: string where
  "action_schedule_rule_removed = ''schedule.rule_removed''"
definition action_schedule_window_added :: string where
  "action_schedule_window_added = ''schedule.window_added''"
definition action_schedule_window_removed :: string where
  "action_schedule_window_removed = ''schedule.window_removed''"
definition action_schedule_activated :: string where
  "action_schedule_activated = ''schedule.activated''"
definition action_schedule_paused :: string where
  "action_schedule_paused = ''schedule.paused''"
definition action_schedule_suppressed :: string where
  "action_schedule_suppressed = ''schedule.suppressed''"
definition action_thaw_exception_approved :: string where
  "action_thaw_exception_approved = ''thaw_exception.approved''"
definition action_thaw_exception_shared_head_approved :: string where
  "action_thaw_exception_shared_head_approved = ''thaw_exception.shared_head_approved''"

subsection \<open>The repository of an event\<close>

definition max_int64 :: int where
  "max_int64 = 9223372036854775807"

text \<open>\<open>strconv.FormatInt(n, 10)\<close>, and SQLite's \<open>CAST(n AS TEXT)\<close>.\<close>

definition format_int :: "int \<Rightarrow> string" where
  "format_int n = (if n < 0 then CHR ''-'' # decimal (nat (- n)) else decimal (nat n))"

definition digits_value :: "string \<Rightarrow> int" where
  "digits_value s = foldl (\<lambda>n c. n * 10 + digit_value c) 0 s"

definition sql_trim :: "string \<Rightarrow> string" where
  "sql_trim s =
     (let white = (\<lambda>c. byte_of c \<in> {32, 9, 10, 13 :: nat}) in drop_while_end white (dropWhile white s))"

text \<open>
  A positive decimal number without sign, leading zeros or overflow: the \<open>CAST\<close> to an integer
  saturates, so a text that is unchanged by a cast back and forth fits 64 bits.
\<close>

definition canonical_id :: "string \<Rightarrow> int option" where
  "canonical_id s =
     (if s \<noteq> [] \<and> hd s \<noteq> CHR ''0'' \<and> list_all is_digit s
         \<and> format_int (min max_int64 (digits_value s)) = s
      then Some (min max_int64 (digits_value s)) else None)"

definition repository_id_values :: "details \<Rightarrow> detail_value list" where
  "repository_id_values d = (case d of
     DetailsObject kvs \<Rightarrow> map snd (filter (\<lambda>f. fst f = ''repository_id'') kvs) | _ \<Rightarrow> [])"

definition detail_repository_id :: "details \<Rightarrow> int option" where
  "detail_repository_id d = (case repository_id_values d of
     [DetailInt n] \<Rightarrow> (if 0 < n \<and> n \<le> max_int64 then Some n else None)
   | [DetailText s] \<Rightarrow> canonical_id (sql_trim s)
   | _ \<Rightarrow> None)"

definition associated_repository_id :: "audit_row \<Rightarrow> int option" where
  "associated_repository_id r =
     (if ar_subject_type r = subject_type_repository \<and> ar_action r \<in> set repository_subject_actions
        then (if length (repository_id_values (ar_details r)) > 1 then None
              else case detail_repository_id (ar_details r) of
                Some n \<Rightarrow> Some n | None \<Rightarrow> canonical_id (sql_trim (ar_subject_id r)))
      else if ar_subject_type r = subject_type_branch_freeze \<and> ar_action r \<in> set branch_freeze_subject_actions
        then detail_repository_id (ar_details r)
      else if ar_subject_type r = subject_type_schedule \<and> ar_action r \<in> set schedule_subject_actions
        then detail_repository_id (ar_details r)
      else if ar_subject_type r = subject_type_thaw_exception \<and> ar_action r \<in> set thaw_exception_subject_actions
        then detail_repository_id (ar_details r)
      else None)"

subsection \<open>Recording and reading\<close>

record audit_event =
  ev_id :: int
  ev_actor_user_id :: "int option"
  ev_action :: string
  ev_subject_type :: string
  ev_subject_id :: string
  ev_details :: details
  ev_created_at :: instant

definition normalize_event :: "audit_event \<Rightarrow> instant \<Rightarrow> audit_event" where
  "normalize_event e now = e \<lparr>ev_details := (if ev_details e = DetailsEmpty then DetailsObject [] else ev_details e),
     ev_created_at := now\<rparr>"

definition validate_event :: "audit_event \<Rightarrow> go_error option" where
  "validate_event e =
     (if ev_action e = [] then Some (Plain ''audit event action is required'')
      else if ev_subject_type e = [] then Some (Plain ''audit event subject type is required'')
      else if ev_subject_id e = [] then Some (Plain ''audit event subject id is required'')
      else if ev_details e \<in> {DetailsEmpty, DetailsMalformed}
        then Some (Plain ''audit event details must be valid JSON'')
      else None)"

definition record_event :: "audit_event \<Rightarrow> unit go" where
  "record_event e0 =
     bind now_utc (\<lambda>now.
     let e = normalize_event e0 now in
     when_invalid (validate_event e)
       (checked (\<lambda>d. references (ev_actor_user_id e) (tb_users d))
          (\<lambda>d. ((), d \<lparr>tb_audit := tb_audit d @ [\<lparr>ar_id = fresh_id (map ar_id (tb_audit d)),
             ar_actor_user_id = ev_actor_user_id e, ar_action = ev_action e,
             ar_subject_type = ev_subject_type e, ar_subject_id = ev_subject_id e,
             ar_details = ev_details e, ar_created_at = ev_created_at e\<rparr>]\<rparr>))))"

definition scan_event :: "audit_row \<Rightarrow> audit_event" where
  "scan_event r = \<lparr>ev_id = ar_id r, ev_actor_user_id = ar_actor_user_id r, ev_action = ar_action r,
     ev_subject_type = ar_subject_type r, ev_subject_id = ar_subject_id r, ev_details = ar_details r,
     ev_created_at = ar_created_at r\<rparr>"

text \<open>
  \<open>julian\<close> is SQLite's \<open>julianday\<close>, which keeps only milliseconds: events of one millisecond
  are ordered by their ids.
\<close>

definition visible_events :: "read_scope \<Rightarrow> string list \<Rightarrow> db \<Rightarrow> audit_row list" where
  "visible_events s actions d = filter (\<lambda>r. scope_allows s (associated_repository_id r)
     \<and> (actions = [] \<or> ar_action r \<in> set actions)) (tb_audit d)"

definition newest_first :: "(instant \<Rightarrow> int) \<Rightarrow> audit_row list \<Rightarrow> audit_row list" where
  "newest_first julian rows = sort_key (\<lambda>r. (- julian (ar_created_at r), - ar_id r)) rows"

definition list_events_for_scope :: "(instant \<Rightarrow> int) \<Rightarrow> read_scope \<Rightarrow> int \<Rightarrow> audit_event list go" where
  "list_events_for_scope julian s limit =
     (let n = (if limit \<le> 0 \<or> limit > 500 then 100 else limit) in
      query (\<lambda>d. map scan_event (limit_rows n (newest_first julian (visible_events s [] d)))))"

definition list_events :: "(instant \<Rightarrow> int) \<Rightarrow> int \<Rightarrow> audit_event list go" where
  "list_events julian limit = list_events_for_scope julian all_repositories limit"

definition list_events_page_for_scope ::
    "(instant \<Rightarrow> int) \<Rightarrow> read_scope \<Rightarrow> string list \<Rightarrow> int \<Rightarrow> int \<Rightarrow> (audit_event list \<times> int) go" where
  "list_events_page_for_scope julian s actions offset limit =
     (let n = (if limit \<le> 0 \<or> limit > 500 then 100 else limit);
          skip = (if offset < 0 then 0 else offset) in
      bind (query (\<lambda>d. int (length (visible_events s actions d)))) (\<lambda>total.
      bind (query (\<lambda>d. map scan_event (page_rows skip n (newest_first julian (visible_events s actions d)))))
        (\<lambda>events. ret (events, total))))"

definition list_events_page ::
    "(instant \<Rightarrow> int) \<Rightarrow> string list \<Rightarrow> int \<Rightarrow> int \<Rightarrow> (audit_event list \<times> int) go" where
  "list_events_page julian actions offset limit =
     list_events_page_for_scope julian all_repositories actions offset limit"

subsection \<open>Numbers there and back\<close>

lemma digit_value_char: "n < 10 \<Longrightarrow> digit_value (char_of (48 + n)) = int n"
  by (simp add: digit_value_def of_char_of)

lemma digits_value_snoc: "digits_value (s @ [c]) = digits_value s * 10 + digit_value c"
  by (simp add: digits_value_def)

lemma digits_value_decimal: "digits_value (decimal n) = int n"
proof (induction n rule: decimal.induct)
  case (1 n)
  show ?case
  proof (cases "n < 10")
    case True
    then show ?thesis by (simp add: decimal.simps [of n] digits_value_def digit_value_char)
  next
    case False
    with 1 have "digits_value (decimal n) = int (n div 10) * 10 + int (n mod 10)"
      by (simp add: decimal.simps [of n] digits_value_snoc digit_value_char)
    then show ?thesis by (simp add: zdiv_int zmod_int)
  qed
qed

lemma decimal_digits: "list_all is_digit (decimal n)"
proof (induction n rule: decimal.induct)
  case (1 n)
  then show ?case by (cases "n < 10") (auto simp: decimal.simps [of n] is_digit_def of_char_of)
qed

lemma decimal_head: "0 < n \<Longrightarrow> decimal n \<noteq> [] \<and> hd (decimal n) \<noteq> CHR ''0''"
proof (induction n rule: decimal.induct)
  case (1 n)
  show ?case
  proof (cases "n < 10")
    case True
    have "byte_of (char_of (48 + n) :: char) \<noteq> (byte_of (CHR ''0'') :: nat)"
      using True 1(2) by (simp add: of_char_of)
    then have "char_of (48 + n) \<noteq> CHR ''0''" by metis
    with True show ?thesis by (simp add: decimal.simps [of n])
  next
    case False
    then have "0 < n div 10" by simp
    with False 1 show ?thesis by (simp add: decimal.simps [of n])
  qed
qed

lemma sql_trim_digits: "list_all is_digit s \<Longrightarrow> sql_trim s = s"
proof -
  assume d: "list_all is_digit s"
  let ?white = "\<lambda>c. byte_of c \<in> {32, 9, 10, 13 :: nat}"
  have n: "c \<in> set s \<Longrightarrow> \<not> ?white c" for c using d by (auto simp: list_all_iff is_digit_def)
  have "dropWhile ?white s = s" using n by (cases s) auto
  moreover have "drop_while_end ?white s = s" using n by (intro drop_while_end_id) auto
  ultimately show "sql_trim s = s" by (simp add: sql_trim_def Let_def)
qed

lemma canonical_id_format:
  assumes "0 < n" and "n \<le> max_int64"
  shows "canonical_id (sql_trim (format_int n)) = Some n"
proof -
  have f: "format_int n = decimal (nat n)" using assms by (simp add: format_int_def)
  have "min max_int64 (digits_value (decimal (nat n))) = n" using assms by (simp add: digits_value_decimal)
  then show ?thesis using assms decimal_digits [of "nat n"] decimal_head [of "nat n"]
    by (simp add: f sql_trim_digits canonical_id_def)
qed

end
