(* ===== verification/Accounting.thy ===== *)
theory Accounting
  imports AuditLog Jobs
begin

text \<open>
  What the services share: a transaction is all or nothing, an operation only reads the clock
  forwards, a recorded event is one new row of the trail, and an enqueued reconciliation
  outdates every claim on the repository.
\<close>

subsection \<open>All or nothing\<close>

definition all_or_nothing :: "'a go \<Rightarrow> bool" where
  "all_or_nothing m \<longleftrightarrow> (\<forall>w. case m w of (Inl e, w') \<Rightarrow> tables w' = tables w | (Inr x, w') \<Rightarrow> True)"

lemma no_statement: "sql (\<lambda>d. (Inr (), d)) w = (r, w1) \<Longrightarrow>
    tables w1 = tables w \<and> clock w1 = clock w \<and> readings w1 = readings w"
  by (auto simp: sql_def split: if_splits)

lemma transact_all_or_nothing: "all_or_nothing (transact m)"
  unfolding all_or_nothing_def transact_def
  by (auto dest: no_statement split: prod.splits sum.splits)

lemma transact_success:
  assumes "transact m w = (Inr x, w')"
  obtains w1 w2 where "m w1 = (Inr x, w2)"
    "tables w1 = tables w" "clock w1 = clock w" "readings w1 = readings w"
    "tables w' = tables w2" "clock w' = clock w2" "readings w' = readings w2"
  using assms by (auto simp: transact_def dest!: no_statement split: prod.splits sum.splits)

lemma all_or_nothing_after_look:
  assumes "observes m" and "\<And>x. all_or_nothing (f x)"
  shows "all_or_nothing (bind m f)"
  unfolding all_or_nothing_def
proof
  fix w
  obtain r w1 where m: "m w = (r, w1)" by (cases "m w")
  note same = observes_after [OF assms(1) m]
  show "case bind m f w of (Inl e, w') \<Rightarrow> tables w' = tables w | (Inr x, w') \<Rightarrow> True"
  proof (cases r)
    case (Inr x)
    with assms(2) [of x] same show ?thesis
      unfolding all_or_nothing_def by (auto simp: bind_def m dest!: spec [of _ w1] split: prod.splits sum.splits)
  qed (use same in \<open>simp add: bind_def m\<close>)
qed

lemma all_or_nothing_observes: "observes m \<Longrightarrow> all_or_nothing m"
  unfolding all_or_nothing_def by (auto dest!: observes_after split: prod.splits sum.splits)

subsection \<open>The clock\<close>

definition timely :: "'a go \<Rightarrow> bool" where
  "timely m \<longleftrightarrow> (\<forall>w. clock (snd (m w)) = clock w \<and> readings w \<le> readings (snd (m w)))"

named_theorems timing \<open>operations that read the clock forwards\<close>

lemma timely_after: "timely m \<Longrightarrow> m w = (r, w') \<Longrightarrow> clock w' = clock w \<and> readings w \<le> readings w'"
  unfolding timely_def by (metis snd_conv)

lemma timely_bind [timing]:
  assumes "timely m" and "\<And>x. timely (f x)"
  shows "timely (bind m f)"
  unfolding timely_def
proof
  fix w
  obtain r w1 where m: "m w = (r, w1)" by (cases "m w")
  note one = timely_after [OF assms(1) m]
  show "clock (snd (bind m f w)) = clock w \<and> readings w \<le> readings (snd (bind m f w))"
  proof (cases r)
    case (Inr x)
    obtain r2 w2 where f: "f x w1 = (r2, w2)" by (cases "f x w1")
    from one timely_after [OF assms(2) f] show ?thesis by (simp add: bind_def m Inr f)
  qed (use one in \<open>simp add: bind_def m\<close>)
qed

lemma timely_basic [timing]:
  "timely (ret x)" "timely (fail e)" "timely now_utc" "timely (query g)" "timely (query_row h)"
  "timely (query_any_row h)" "timely (exec k)" "timely (checked ok k)"
  by (auto simp: timely_def world_defs split_beta)

lemma timely_attempt [timing]: "timely m \<Longrightarrow> timely (attempt m)"
  by (simp add: timely_def attempt_def split_beta)

lemma timely_cases [timing]:
  "timely m \<Longrightarrow> timely (when_invalid e m)"
  "timely m \<Longrightarrow> timely n \<Longrightarrow> timely (if c then m else n)"
  "timely m \<Longrightarrow> (\<And>x. timely (f x)) \<Longrightarrow> timely (case z of None \<Rightarrow> m | Some x \<Rightarrow> f x)"
  "(\<And>x. timely (g x)) \<Longrightarrow> (\<And>x. timely (h x)) \<Longrightarrow> timely (case s of Inl x \<Rightarrow> g x | Inr x \<Rightarrow> h x)"
  "(\<And>x y. timely (k x y)) \<Longrightarrow> timely (case q of (x, y) \<Rightarrow> k x y)"
  by (cases e; cases z; cases s; cases q; simp add: when_invalid_def timely_basic)+

subsection \<open>One event\<close>

text \<open>
  The trail grew by exactly one row, fresh, about this subject; who may read it is decided by
  this repository.
\<close>

definition one_event :: "string \<Rightarrow> string \<Rightarrow> string \<Rightarrow> int \<Rightarrow> actor \<Rightarrow> db \<Rightarrow> db \<Rightarrow> bool" where
  "one_event action subject_type subject_id repo actor d d' \<longleftrightarrow>
     (let row = last (tb_audit d') in
      tb_audit d' = tb_audit d @ [row] \<and> ar_id row \<notin> set (map ar_id (tb_audit d))
      \<and> ar_action row = action \<and> ar_subject_type row = subject_type \<and> ar_subject_id row = subject_id
      \<and> ar_actor_user_id row = actor_user_id actor
      \<and> (0 < repo \<and> repo \<le> max_int64 \<longrightarrow> associated_repository_id row = Some repo))"

definition event_row :: "audit_event \<Rightarrow> instant \<Rightarrow> int \<Rightarrow> audit_row" where
  "event_row e0 now i = (let e = normalize_event e0 now in
     \<lparr>ar_id = i, ar_actor_user_id = ev_actor_user_id e, ar_action = ev_action e,
      ar_subject_type = ev_subject_type e, ar_subject_id = ev_subject_id e,
      ar_details = ev_details e, ar_created_at = ev_created_at e\<rparr>)"

lemma record_event_success:
  assumes "record_event e w = (Inr u, w')"
  shows "tables w' = tables w \<lparr>tb_audit := tb_audit (tables w)
       @ [event_row e (clock w (readings w)) (fresh_id (map ar_id (tb_audit (tables w))))]\<rparr>
     \<and> clock w' = clock w \<and> readings w' = Suc (readings w)"
  using assms
  by (auto simp: record_event_def event_row_def bind_def now_utc_def when_invalid_def fail_def
      checked_def sql_def Let_def split: option.splits if_splits)

lemma timely_record_event [timing]: "timely (record_event e)"
  unfolding record_event_def Let_def by (intro timing)

subsection \<open>Which repository an event belongs to\<close>

definition text_field :: "string \<Rightarrow> string \<Rightarrow> (string \<times> detail_value) list" where
  "text_field k v = [(k, DetailText v)]"

definition optional_field :: "string \<Rightarrow> ('a \<Rightarrow> string) \<Rightarrow> 'a option \<Rightarrow> (string \<times> detail_value) list" where
  "optional_field k f v = (case v of None \<Rightarrow> [] | Some x \<Rightarrow> text_field k (f x))"

definition new_event :: "actor \<Rightarrow> string \<Rightarrow> string \<Rightarrow> string \<Rightarrow> (string \<times> detail_value) list \<Rightarrow> audit_event" where
  "new_event actor action subject_type subject_id kvs =
     \<lparr>ev_id = 0, ev_actor_user_id = actor_user_id actor, ev_action = action,
      ev_subject_type = subject_type, ev_subject_id = subject_id, ev_details = DetailsObject kvs,
      ev_created_at = zero_time\<rparr>"

text \<open>The actions whose events name their repository in the details only.\<close>

definition detailed_actions :: "string \<Rightarrow> string list" where
  "detailed_actions subject_type =
     (if subject_type = subject_type_branch_freeze then branch_freeze_subject_actions
      else if subject_type = subject_type_schedule then schedule_subject_actions
      else if subject_type = subject_type_thaw_exception then thaw_exception_subject_actions else [])"

definition names_repository :: "(string \<times> detail_value) list \<Rightarrow> int \<Rightarrow> bool" where
  "names_repository kvs repo \<longleftrightarrow> repository_id_values (DetailsObject kvs) = [DetailText (format_int repo)]"

lemma repository_id_fields:
  "filter (\<lambda>f. fst f = ''repository_id'') (text_field k v)
     = (if k = ''repository_id'' then [(k, DetailText v)] else [])"
  "k \<noteq> ''repository_id'' \<Longrightarrow> filter (\<lambda>f. fst f = ''repository_id'') (optional_field k g x) = []"
  by (simp_all add: text_field_def optional_field_def split: option.split)

lemmas naming = names_repository_def repository_id_values_def repository_id_fields

lemma subject_types_differ:
  "subject_type_branch_freeze \<noteq> subject_type_repository"
  "subject_type_schedule \<noteq> subject_type_repository"
  "subject_type_thaw_exception \<noteq> subject_type_repository"
  "subject_type_schedule \<noteq> subject_type_branch_freeze"
  "subject_type_thaw_exception \<noteq> subject_type_branch_freeze"
  "subject_type_thaw_exception \<noteq> subject_type_schedule"
  by (simp_all add: subject_type_branch_freeze_def subject_type_repository_def subject_type_schedule_def
      subject_type_thaw_exception_def)

lemma associated_by_details:
  assumes "ar_action r \<in> set (detailed_actions (ar_subject_type r))"
  shows "associated_repository_id r = detail_repository_id (ar_details r)"
proof -
  note differ = subject_types_differ subject_types_differ [THEN not_sym]
  have "ar_subject_type r \<in> {subject_type_branch_freeze, subject_type_schedule, subject_type_thaw_exception}"
    using assms by (auto simp: detailed_actions_def split: if_splits)
  then consider "ar_subject_type r = subject_type_branch_freeze" | "ar_subject_type r = subject_type_schedule"
    | "ar_subject_type r = subject_type_thaw_exception" by blast
  then show ?thesis
    by cases (use assms in \<open>simp_all add: associated_repository_id_def detailed_actions_def differ\<close>)
qed

lemma event_names_repository:
  assumes "action \<in> set (detailed_actions st)" and "names_repository kvs repo"
    and "0 < repo" and "repo \<le> max_int64"
  shows "associated_repository_id (event_row (new_event actor action st sid kvs) t i) = Some repo"
proof -
  let ?r = "event_row (new_event actor action st sid kvs) t i"
  have "ar_details ?r = DetailsObject kvs"
    by (simp add: event_row_def new_event_def normalize_event_def Let_def)
  moreover have "associated_repository_id ?r = detail_repository_id (ar_details ?r)"
    using assms(1)
    by (intro associated_by_details) (simp add: event_row_def new_event_def normalize_event_def Let_def)
  ultimately show ?thesis
    using assms by (simp add: detail_repository_id_def names_repository_def canonical_id_format)
qed

lemma record_one_event:
  assumes "record_event (new_event actor action st sid kvs) w = (Inr u, w')"
    and "action \<in> set (detailed_actions st)" and "names_repository kvs repo"
  shows "one_event action st sid repo actor (tables w) (tables w')
     \<and> (tables w') \<lparr>tb_audit := []\<rparr> = (tables w) \<lparr>tb_audit := []\<rparr>"
proof -
  note made = record_event_success [OF assms(1)]
  have "last (tb_audit (tables w')) = event_row (new_event actor action st sid kvs) (clock w (readings w))
      (fresh_id (map ar_id (tb_audit (tables w))))"
    using made by simp
  moreover have "ar_id (event_row e t i) = i" "ar_action (event_row (new_event actor action st sid kvs) t i) = action"
    "ar_subject_type (event_row (new_event actor action st sid kvs) t i) = st"
    "ar_subject_id (event_row (new_event actor action st sid kvs) t i) = sid"
    "ar_actor_user_id (event_row (new_event actor action st sid kvs) t i) = actor_user_id actor" for e t i
    by (simp_all add: event_row_def new_event_def normalize_event_def Let_def)
  moreover note event_names_repository [OF assms(2,3)]
  ultimately show ?thesis
    using made unfolding one_event_def Let_def
    by (auto simp del: set_map)
qed

subsection \<open>A reconciliation is due\<close>

lemma upsert_success:
  assumes "upsert_reconciliation repo advance category w = (Inr j, w')"
  shows "tables w' = tables w \<lparr>tb_jobs := upsert_stmt repo advance category (clock w (readings w)) (tb_jobs (tables w))\<rparr>
     \<and> clock w' = clock w \<and> readings w' = Suc (readings w) \<and> 0 < repo"
  using assms
  by (auto simp: upsert_reconciliation_def get_reconciliation_def bind_def now_utc_def fail_def
      checked_def sql_def query_row_def split: if_splits sum.splits prod.splits)

lemmas enqueue_success = upsert_success [where advance = True and category = "[]",
  folded enqueue_reconciliation_def]

text \<open>An enqueue outdates every claim on the job of its repository.\<close>

lemma enqueue_outdates:
  assumes "jobs_ok rows" and "r \<in> set rows" and "reconciles repo r" and "holds_token c r"
  shows "\<not> list_ex (holds_token c) (upsert_stmt repo True category now rows)"
proof
  assume "list_ex (holds_token c) (upsert_stmt repo True category now rows)"
  then obtain r' where r': "r' \<in> set (upsert_stmt repo True category now rows)" "holds_token c r'"
    by (auto simp: list_ex_iff)
  have "list_ex (reconciles repo) rows" using assms by (auto simp: list_ex_iff)
  with r' obtain old where old: "old \<in> set rows" and new: "jr_id r' = jr_id old"
    "jr_generation r' = (if reconciles repo old then jr_generation old + 1 else jr_generation old)"
    by (auto simp: upsert_stmt_def split: if_splits)
  have "jr_id old = jr_id r" using r' new assms(4) by (simp add: holds_token_def)
  then have "old = r" using assms(1,2) old by (auto simp: jobs_ok_def distinct_map inj_on_eq_iff)
  then show False using r' new assms by (simp add: holds_token_def)
qed

text \<open>The tail of a unit of work: its event, then the reconciliation of its repository.\<close>

lemma recorded_and_queued:
  assumes "record_event (new_event actor action st sid kvs) w = (Inr u, w1)"
    and "enqueue_reconciliation repo w1 = (Inr j, w2)"
    and "action \<in> set (detailed_actions st)" and "names_repository kvs repo"
  shows "one_event action st sid repo actor (tables w) (tables w2)"
    and "tb_jobs (tables w2) = upsert_stmt repo True [] (clock w (readings w2 - 1)) (tb_jobs (tables w))"
    and "(tables w2) \<lparr>tb_audit := [], tb_jobs := []\<rparr> = (tables w) \<lparr>tb_audit := [], tb_jobs := []\<rparr>"
proof -
  note one = record_one_event [OF assms(1,3,4)]
  note c = record_event_success [OF assms(1)]
  note e = enqueue_success [OF assms(2)]
  show "one_event action st sid repo actor (tables w) (tables w2)"
    using one e by (simp add: one_event_def)
  show "tb_jobs (tables w2) = upsert_stmt repo True [] (clock w (readings w2 - 1)) (tb_jobs (tables w))"
    using c e by simp
  show "(tables w2) \<lparr>tb_audit := [], tb_jobs := []\<rparr> = (tables w) \<lparr>tb_audit := [], tb_jobs := []\<rparr>"
    using c e by simp
qed

end
