(* ===== verification/FreezeService.thy ===== *)
theory FreezeService
  imports FreezeStore Accounting Rfc3339
begin

text \<open>
  The freeze service (\<open>internal/freeze/service.go\<close>): every change of a freeze together with its
  audit event and, when it changes what is enforced now, the enqueued reconciliation of the
  repository, in one transaction. The details of an event are the object its JSON stands for,
  keys in the order \<open>json.Marshal\<close> writes them.
\<close>

subsection \<open>Events\<close>

definition time_text :: "instant option \<Rightarrow> string" where
  "time_text t = (case t of None \<Rightarrow> [] | Some x \<Rightarrow> rfc3339_nano x)"

definition branch_freeze_created_event :: "branch_freeze \<Rightarrow> actor \<Rightarrow> audit_event" where
  "branch_freeze_created_event fr actor =
     new_event actor action_branch_freeze_created subject_type_branch_freeze (format_int (fr_id fr))
       (text_field ''actor_kind'' (actor_kind actor) @ text_field ''actor_role'' (actor_role actor)
        @ text_field ''branch'' (fr_branch fr)
        @ optional_field ''planned_ends_at'' rfc3339_nano (fr_planned_ends_at fr)
        @ text_field ''reason'' (fr_reason fr)
        @ text_field ''repository_id'' (format_int (fr_repository_id fr))
        @ optional_field ''schedule_id'' format_int (fr_schedule_id fr)
        @ text_field ''status'' (freeze_status_text (fr_status fr)))"

definition branch_freeze_close_action :: "freeze_status \<Rightarrow> string" where
  "branch_freeze_close_action s =
     (if s = FreezeCancelled then action_branch_freeze_cancelled else action_branch_freeze_ended)"

definition branch_freeze_closed_event :: "branch_freeze \<Rightarrow> actor \<Rightarrow> audit_event" where
  "branch_freeze_closed_event fr actor =
     new_event actor (branch_freeze_close_action (fr_status fr)) subject_type_branch_freeze (format_int (fr_id fr))
       (text_field ''actor_kind'' (actor_kind actor) @ text_field ''actor_role'' (actor_role actor)
        @ text_field ''branch'' (fr_branch fr) @ text_field ''reason'' (fr_reason fr)
        @ text_field ''repository_id'' (format_int (fr_repository_id fr))
        @ optional_field ''schedule_id'' format_int (fr_schedule_id fr)
        @ text_field ''status'' (freeze_status_text (fr_status fr)))"

definition scheduled_freeze_event :: "branch_freeze \<Rightarrow> actor \<Rightarrow> string \<Rightarrow> audit_event" where
  "scheduled_freeze_event fr actor action =
     new_event actor action subject_type_branch_freeze (format_int (fr_id fr))
       (text_field ''actor_kind'' (actor_kind actor) @ text_field ''actor_role'' (actor_role actor)
        @ text_field ''branch'' (fr_branch fr)
        @ optional_field ''ends_at'' rfc3339_nano (fr_ends_at fr)
        @ optional_field ''planned_ends_at'' rfc3339_nano (fr_planned_ends_at fr)
        @ text_field ''reason'' (fr_reason fr)
        @ text_field ''repository_id'' (format_int (fr_repository_id fr))
        @ optional_field ''starts_at'' rfc3339_nano (fr_starts_at fr)
        @ text_field ''status'' (freeze_status_text (fr_status fr)))"

definition schedule_reason_detail :: "string \<Rightarrow> string" where
  "schedule_reason_detail value =
     (let v = trim_space value in
      if v = [] \<or> length v > scheduled_freeze_reason_max_length \<or> contains_control v
      then ''unavailable'' else v)"

definition scheduled_freeze_updated_event :: "branch_freeze \<Rightarrow> branch_freeze \<Rightarrow> actor \<Rightarrow> audit_event" where
  "scheduled_freeze_updated_event old new actor =
     new_event actor action_freeze_schedule_updated subject_type_branch_freeze (format_int (fr_id new))
       (text_field ''actor_kind'' (actor_kind actor) @ text_field ''actor_role'' (actor_role actor)
        @ text_field ''branch'' (fr_branch new)
        @ text_field ''planned_ends_at_after'' (time_text (fr_planned_ends_at new))
        @ text_field ''planned_ends_at_before'' (time_text (fr_planned_ends_at old))
        @ text_field ''reason_after'' (schedule_reason_detail (fr_reason new))
        @ text_field ''reason_before'' (schedule_reason_detail (fr_reason old))
        @ text_field ''repository_id'' (format_int (fr_repository_id new))
        @ text_field ''starts_at_after'' (time_text (fr_starts_at new))
        @ text_field ''starts_at_before'' (time_text (fr_starts_at old))
        @ text_field ''status'' (freeze_status_text (fr_status new)))"

subsection \<open>Operations\<close>

definition service_create_active :: "freeze_create \<Rightarrow> actor \<Rightarrow> branch_freeze go" where
  "service_create_active params actor = transact (
     bind (create_active (params \<lparr>fc_created_by := actor_user_id actor, fc_created_by_kind := actor_kind actor\<rparr>))
       (\<lambda>created.
     bind (record_event (branch_freeze_created_event created actor)) (\<lambda>_.
     bind (enqueue_reconciliation (fr_repository_id created)) (\<lambda>_.
     ret created))))"

definition service_create_scheduled :: "freeze_plan \<Rightarrow> actor \<Rightarrow> branch_freeze go" where
  "service_create_scheduled params actor = transact (
     bind (create_scheduled (params \<lparr>fp_created_by := actor_user_id actor, fp_created_by_kind := actor_kind actor\<rparr>))
       (\<lambda>created.
     bind (record_event (scheduled_freeze_event created actor action_freeze_schedule_created)) (\<lambda>_.
     ret created)))"

definition close_active_tx :: "int \<Rightarrow> actor \<Rightarrow> freeze_status \<Rightarrow> branch_freeze go" where
  "close_active_tx i actor status =
     bind (close_active \<lparr>cl_id = i, cl_status = status\<rparr>) (\<lambda>closed.
     bind (record_event (branch_freeze_closed_event closed actor)) (\<lambda>_.
     bind (enqueue_reconciliation (fr_repository_id closed)) (\<lambda>_.
     ret closed)))"

definition close_linked_active_tx :: "int \<Rightarrow> actor \<Rightarrow> branch_freeze option go" where
  "close_linked_active_tx schedule_id actor =
     bind (active_for_schedule schedule_id) (\<lambda>live. case live of
       None \<Rightarrow> ret None
     | Some fr \<Rightarrow> bind (close_active_tx (fr_id fr) actor FreezeEnded) (\<lambda>closed. ret (Some closed)))"

definition service_close :: "int \<Rightarrow> actor \<Rightarrow> freeze_status \<Rightarrow> branch_freeze go" where
  "service_close i actor status = transact (close_active_tx i actor status)"

definition service_end :: "int \<Rightarrow> actor \<Rightarrow> branch_freeze go" where
  "service_end i actor = service_close i actor FreezeEnded"

definition service_cancel :: "int \<Rightarrow> actor \<Rightarrow> branch_freeze go" where
  "service_cancel i actor = service_close i actor FreezeCancelled"

definition with_scheduled_freeze_audit ::
    "actor \<Rightarrow> string \<Rightarrow> bool \<Rightarrow> branch_freeze go \<Rightarrow> branch_freeze go" where
  "with_scheduled_freeze_audit actor action enqueue mutate = transact (
     bind mutate (\<lambda>updated.
     bind (record_event (scheduled_freeze_event updated actor action)) (\<lambda>_.
     if enqueue then bind (enqueue_reconciliation (fr_repository_id updated)) (\<lambda>_. ret updated)
     else ret updated)))"

definition service_cancel_scheduled :: "int \<Rightarrow> actor \<Rightarrow> branch_freeze go" where
  "service_cancel_scheduled i actor =
     with_scheduled_freeze_audit actor action_freeze_schedule_cancelled False (cancel_scheduled i)"

definition service_activate_scheduled :: "int \<Rightarrow> actor \<Rightarrow> branch_freeze go" where
  "service_activate_scheduled i actor =
     with_scheduled_freeze_audit actor action_freeze_schedule_activated True (activate_scheduled i)"

definition service_start_scheduled_now :: "int \<Rightarrow> actor \<Rightarrow> branch_freeze go" where
  "service_start_scheduled_now i actor =
     with_scheduled_freeze_audit actor action_freeze_schedule_started_now True (start_scheduled_now i)"

text \<open>
  The row before the edit is read outside the transaction; the edit then requires that nobody
  changed it in between.
\<close>

definition service_edit_scheduled :: "freeze_edit \<Rightarrow> actor \<Rightarrow> branch_freeze go" where
  "service_edit_scheduled params actor =
     (if fe_id params \<le> 0 then fail (invalid ''scheduled freeze is required'')
      else bind (attempt (get_freeze (fe_id params))) (\<lambda>r. case r of
        Inl e \<Rightarrow> if e = NoRows then fail (invalid ''scheduled freeze is no longer pending'') else fail e
      | Inr old \<Rightarrow> transact (
          bind (edit_scheduled_expecting params (Some (fr_updated_at old))) (\<lambda>updated.
          bind (record_event (scheduled_freeze_updated_event old updated actor)) (\<lambda>_.
          ret updated)))))"

definition service_execute_planned_unfreeze :: "int \<Rightarrow> actor \<Rightarrow> branch_freeze go" where
  "service_execute_planned_unfreeze i actor = transact (
     bind (execute_planned_unfreeze i) (\<lambda>ended.
     let action = (if fr_scheduled ended then action_freeze_schedule_planned_unfreeze
                   else action_branch_freeze_planned_unfreeze) in
     bind (record_event (scheduled_freeze_event ended actor action)) (\<lambda>_.
     bind (enqueue_reconciliation (fr_repository_id ended)) (\<lambda>_.
     ret ended))))"

end
