(* ===== verification/FreezeServiceFacts.thy ===== *)
theory FreezeServiceFacts
  imports FreezeService FreezeFacts
begin

text \<open>
  What the freeze service adds to the store: every change is all or nothing, leaves exactly one
  event in the audit trail that the readers of its repository can see, and queues the
  reconciliation of that repository when what is enforced changed.
\<close>

subsection \<open>What the store leaves alone\<close>

definition freezes_only :: "db \<Rightarrow> db" where
  "freezes_only d = d \<lparr>tb_freezes := []\<rparr>"

lemma freezes_only_rows [simp]: "freezes_only (d \<lparr>tb_freezes := rows\<rparr>) = freezes_only d"
  by (simp add: freezes_only_def)

lemma only_update: "within (same freezes_only) (update_freezes p f)"
  by (rule same.update_freezes) (simp add: same_def)

lemma only_insert: "within (same freezes_only) (insert_freeze mk)"
  by (rule same.insert_freeze) (simp add: same_def)

lemmas only = same.rules same.freeze_reads only_update only_insert

text \<open>The freeze an operation returns is a row of the table it leaves.\<close>

definition returns_row :: "branch_freeze go \<Rightarrow> bool" where
  "returns_row m \<longleftrightarrow> (\<forall>w fz w'. m w = (Inr fz, w') \<longrightarrow>
     list_ex (\<lambda>r. scan_branch_freeze r = fz) (tb_freezes (tables w')))"

lemma returns_row_get: "returns_row (get_freeze i)"
  unfolding returns_row_def by (auto dest!: get_success simp: list_ex_iff)

lemma returns_row_bind: "(\<And>x. returns_row (f x)) \<Longrightarrow> returns_row (bind m f)"
  unfolding returns_row_def by (auto elim!: bind_cases)

lemma returns_row_cases:
  "returns_row (fail e)"
  "returns_row m \<Longrightarrow> returns_row (when_invalid er m)"
  "returns_row m \<Longrightarrow> returns_row n \<Longrightarrow> returns_row (if c then m else n)"
  "(\<And>x. returns_row (g x)) \<Longrightarrow> (\<And>x. returns_row (h x)) \<Longrightarrow> returns_row (case s of Inl x \<Rightarrow> g x | Inr x \<Rightarrow> h x)"
  by (cases er; cases s; simp add: returns_row_def fail_def when_invalid_def)+

lemmas returning = returns_row_get returns_row_bind returns_row_cases

lemma timely_freezes [timing]:
  "timely (update_freezes p f)" "timely (insert_freeze mk)" "timely (get_freeze i)"
  "timely (require_enforcement_active_repository repo)"
  "timely (require_freeze_repository_enforcement i)" "timely (reject_duplicate_active repo branch)"
  "timely (require_affected_freeze n message)"
  unfolding update_freezes_def insert_freeze_def get_freeze_def get_freeze_for_scope_def
    require_enforcement_active_repository_def require_freeze_repository_enforcement_def
    reject_duplicate_active_def require_affected_freeze_def
  by (intro timing)+

definition store_operation :: "branch_freeze go \<Rightarrow> bool" where
  "store_operation m \<longleftrightarrow> within (same freezes_only) m \<and> timely m \<and> returns_row m"

lemma store_operations:
  "store_operation (create_active cp)" "store_operation (create_scheduled sp)"
  "store_operation (close_active cl)" "store_operation (cancel_scheduled i)"
  "store_operation (edit_scheduled_expecting ep expected)" "store_operation (activate_scheduled i)"
  "store_operation (start_scheduled_now i)" "store_operation (execute_planned_unfreeze i)"
  unfolding store_operation_def create_active_def create_scheduled_def close_active_def
    cancel_scheduled_def edit_scheduled_expecting_def activate_scheduled_def
    start_scheduled_now_def execute_planned_unfreeze_def Let_def
  by (intro conjI only timing returning)+

subsection \<open>Accounting for a change\<close>

definition accounted :: "(branch_freeze \<Rightarrow> string) \<Rightarrow> bool \<Rightarrow> actor \<Rightarrow> branch_freeze go \<Rightarrow> bool" where
  "accounted action enqueues actor m \<longleftrightarrow> (\<forall>w. case m w of
     (Inl e, w') \<Rightarrow> tables w' = tables w
   | (Inr fz, w') \<Rightarrow>
       list_ex (\<lambda>r. scan_branch_freeze r = fz) (tb_freezes (tables w'))
       \<and> one_event (action fz) subject_type_branch_freeze (format_int (fr_id fz)) (fr_repository_id fz)
           actor (tables w) (tables w')
       \<and> tb_jobs (tables w') = (if enqueues
           then upsert_stmt (fr_repository_id fz) True [] (clock w (readings w' - 1)) (tb_jobs (tables w))
           else tb_jobs (tables w))
       \<and> (tables w') \<lparr>tb_freezes := [], tb_audit := [], tb_jobs := []\<rparr>
           = (tables w) \<lparr>tb_freezes := [], tb_audit := [], tb_jobs := []\<rparr>)"

definition describes :: "(branch_freeze \<Rightarrow> string) \<Rightarrow> actor \<Rightarrow> (branch_freeze \<Rightarrow> audit_event) \<Rightarrow> bool" where
  "describes action actor ev \<longleftrightarrow> (\<forall>fz. action fz \<in> set branch_freeze_subject_actions \<and>
     (\<exists>kvs. names_repository kvs (fr_repository_id fz)
        \<and> ev fz = new_event actor (action fz) subject_type_branch_freeze (format_int (fr_id fz)) kvs))"

definition unit_of_work ::
    "branch_freeze go \<Rightarrow> (branch_freeze \<Rightarrow> audit_event) \<Rightarrow> bool \<Rightarrow> branch_freeze go" where
  "unit_of_work m ev enqueues = transact (bind m (\<lambda>fz. bind (record_event (ev fz)) (\<lambda>_.
     if enqueues then bind (enqueue_reconciliation (fr_repository_id fz)) (\<lambda>_. ret fz) else ret fz)))"

lemma one_event_same_trail:
  "tb_audit d1 = tb_audit d \<Longrightarrow> one_event a st sid repo actor d1 d' = one_event a st sid repo actor d d'"
  "tb_audit d2 = tb_audit d' \<Longrightarrow> one_event a st sid repo actor d d2 = one_event a st sid repo actor d d'"
  by (simp_all add: one_event_def)

lemma jobs_hidden:
  "d \<lparr>tb_jobs := rows, tb_freezes := [], tb_audit := [], tb_jobs := []\<rparr>
     = d \<lparr>tb_freezes := [], tb_audit := [], tb_jobs := []\<rparr>"
  by (cases d) simp

lemma table_fields_eq:
  assumes "d \<lparr>tb_audit := []\<rparr> = d0 \<lparr>tb_audit := []\<rparr>"
  shows "tb_freezes d = tb_freezes d0 \<and> tb_jobs d = tb_jobs d0
    \<and> d \<lparr>tb_freezes := [], tb_audit := [], tb_jobs := []\<rparr> = d0 \<lparr>tb_freezes := [], tb_audit := [], tb_jobs := []\<rparr>"
  using assms by (cases d; cases d0) simp

lemma freezes_only_eq:
  assumes "freezes_only d = freezes_only d0"
  shows "tb_audit d = tb_audit d0 \<and> tb_jobs d = tb_jobs d0
    \<and> d \<lparr>tb_freezes := [], tb_audit := [], tb_jobs := []\<rparr> = d0 \<lparr>tb_freezes := [], tb_audit := [], tb_jobs := []\<rparr>"
  using assms by (cases d; cases d0) (simp add: freezes_only_def)

lemma accounted_unit:
  assumes m: "store_operation m" and ev: "describes action actor ev"
  shows "accounted action enqueues actor (unit_of_work m ev enqueues)"
  unfolding accounted_def
proof
  fix w
  obtain r w' where run: "unit_of_work m ev enqueues w = (r, w')" by (cases "unit_of_work m ev enqueues w")
  show "case unit_of_work m ev enqueues w of
     (Inl e, w') \<Rightarrow> tables w' = tables w
   | (Inr fz, w') \<Rightarrow>
       list_ex (\<lambda>r. scan_branch_freeze r = fz) (tb_freezes (tables w'))
       \<and> one_event (action fz) subject_type_branch_freeze (format_int (fr_id fz)) (fr_repository_id fz)
           actor (tables w) (tables w')
       \<and> tb_jobs (tables w') = (if enqueues
           then upsert_stmt (fr_repository_id fz) True [] (clock w (readings w' - 1)) (tb_jobs (tables w))
           else tb_jobs (tables w))
       \<and> (tables w') \<lparr>tb_freezes := [], tb_audit := [], tb_jobs := []\<rparr>
           = (tables w) \<lparr>tb_freezes := [], tb_audit := [], tb_jobs := []\<rparr>"
  proof (cases r)
    case (Inl e)
    have "all_or_nothing (unit_of_work m ev enqueues)"
      unfolding unit_of_work_def by (rule transact_all_or_nothing)
    then have "case unit_of_work m ev enqueues w of (Inl e, w') \<Rightarrow> tables w' = tables w | (Inr x, w') \<Rightarrow> True"
      unfolding all_or_nothing_def ..
    with run Inl show ?thesis by simp
  next
    case (Inr fz)
    from run [unfolded Inr unit_of_work_def] obtain w1 w2 where
      body: "bind m (\<lambda>fz. bind (record_event (ev fz)) (\<lambda>_. if enqueues
          then bind (enqueue_reconciliation (fr_repository_id fz)) (\<lambda>_. ret fz) else ret fz)) w1 = (Inr fz, w2)"
      and w: "tables w1 = tables w" "clock w1 = clock w" "tables w' = tables w2" "readings w' = readings w2"
      by (rule transact_success)
    from body obtain x w3 w4 where s: "m w1 = (Inr x, w3)" and rec: "record_event (ev x) w3 = (Inr (), w4)"
      and last: "(if enqueues then bind (enqueue_reconciliation (fr_repository_id x)) (\<lambda>_. ret x)
          else ret x) w4 = (Inr fz, w2)"
      by (elim bind_cases) simp
    from last have "x = fz" by (auto simp: ret_def split: if_splits elim!: bind_cases)
    note s = s [unfolded this] and rec = rec [unfolded this] and last = last [unfolded this]
    have row: "list_ex (\<lambda>r. scan_branch_freeze r = fz) (tb_freezes (tables w3))"
      and only: "freezes_only (tables w3) = freezes_only (tables w)" and c3: "clock w3 = clock w"
      using m s w same_within [of freezes_only m w1] timely_after [of m, OF _ s]
      unfolding store_operation_def returns_row_def by auto
    obtain kvs where act: "action fz \<in> set (detailed_actions subject_type_branch_freeze)"
      and kvs: "names_repository kvs (fr_repository_id fz)"
        "ev fz = new_event actor (action fz) subject_type_branch_freeze (format_int (fr_id fz)) kvs"
      using ev unfolding describes_def detailed_actions_def if_P [OF HOL.refl] by blast
    note one = record_one_event [OF rec [unfolded kvs(2)] act kvs(1)]
    note f4 = table_fields_eq [OF one [THEN conjunct2]]
    note f3 = freezes_only_eq [OF only]
    note trail = one_event_same_trail(1) [OF f3 [THEN conjunct1], THEN iffD1, OF one [THEN conjunct1]]
    have c4: "clock w4 = clock w" using timely_after [OF timely_record_event rec] c3 by simp
    show ?thesis
    proof (cases enqueues)
      case True
      with last obtain j where "enqueue_reconciliation (fr_repository_id fz) w4 = (Inr j, w2)"
        by (auto simp: ret_def elim!: bind_cases)
      from enqueue_success [OF this]
      have t: "tables w' = tables w4 \<lparr>tb_jobs := upsert_stmt (fr_repository_id fz) True [] (clock w (readings w4))
          (tb_jobs (tables w))\<rparr>" and n: "readings w' - 1 = readings w4"
        using w c4 f3 f4 by simp_all
      show ?thesis
        unfolding run Inr prod.case sum.case t n jobs_hidden
        using True row f3 f4 trail by (simp add: one_event_def)
    next
      case False
      with last w have t: "tables w' = tables w4" by (simp add: ret_def)
      show ?thesis unfolding run Inr prod.case sum.case t using False row f3 f4 trail by simp
    qed
  qed
qed

subsection \<open>The operations of the service\<close>

lemma actions_known:
  "action_branch_freeze_created \<in> set branch_freeze_subject_actions"
  "branch_freeze_close_action s \<in> set branch_freeze_subject_actions"
  "action_freeze_schedule_created \<in> set branch_freeze_subject_actions"
  "action_freeze_schedule_updated \<in> set branch_freeze_subject_actions"
  "action_freeze_schedule_cancelled \<in> set branch_freeze_subject_actions"
  "action_freeze_schedule_activated \<in> set branch_freeze_subject_actions"
  "action_freeze_schedule_started_now \<in> set branch_freeze_subject_actions"
  "action_freeze_schedule_planned_unfreeze \<in> set branch_freeze_subject_actions"
  "action_branch_freeze_planned_unfreeze \<in> set branch_freeze_subject_actions"
  by (simp_all add: branch_freeze_subject_actions_def branch_freeze_close_action_def
      action_branch_freeze_created_def action_branch_freeze_ended_def action_branch_freeze_cancelled_def
      action_freeze_schedule_created_def action_freeze_schedule_updated_def
      action_freeze_schedule_cancelled_def action_freeze_schedule_activated_def
      action_freeze_schedule_started_now_def action_freeze_schedule_planned_unfreeze_def
      action_branch_freeze_planned_unfreeze_def)

lemma describes_events:
  "describes (\<lambda>_. action_branch_freeze_created) actor (\<lambda>fz. branch_freeze_created_event fz actor)"
  "describes (\<lambda>fz. branch_freeze_close_action (fr_status fz)) actor (\<lambda>fz. branch_freeze_closed_event fz actor)"
  "(\<And>fz. action fz \<in> set branch_freeze_subject_actions) \<Longrightarrow>
     describes action actor (\<lambda>fz. scheduled_freeze_event fz actor (action fz))"
  "describes (\<lambda>_. action_freeze_schedule_updated) actor (\<lambda>fz. scheduled_freeze_updated_event old fz actor)"
  unfolding describes_def branch_freeze_created_event_def branch_freeze_closed_event_def
    scheduled_freeze_event_def scheduled_freeze_updated_event_def
  by (auto simp: actions_known; (rule exI, rule conjI [rotated], rule HOL.refl); simp add: naming)+

lemma accounted_fail: "accounted action enqueues actor (fail e)"
  by (simp add: accounted_def fail_def)

lemma accounted_after_look:
  assumes "observes m" and "\<And>x. accounted action enqueues actor (f x)"
  shows "accounted action enqueues actor (bind m f)"
  unfolding accounted_def
proof
  fix w
  obtain r w1 where m: "m w = (r, w1)" by (cases "m w")
  note same = observes_after [OF assms(1) m]
  show "case bind m f w of
     (Inl e, w') \<Rightarrow> tables w' = tables w
   | (Inr fz, w') \<Rightarrow>
       list_ex (\<lambda>r. scan_branch_freeze r = fz) (tb_freezes (tables w'))
       \<and> one_event (action fz) subject_type_branch_freeze (format_int (fr_id fz)) (fr_repository_id fz)
           actor (tables w) (tables w')
       \<and> tb_jobs (tables w') = (if enqueues
           then upsert_stmt (fr_repository_id fz) True [] (clock w (readings w' - 1)) (tb_jobs (tables w))
           else tb_jobs (tables w))
       \<and> (tables w') \<lparr>tb_freezes := [], tb_audit := [], tb_jobs := []\<rparr>
           = (tables w) \<lparr>tb_freezes := [], tb_audit := [], tb_jobs := []\<rparr>"
  proof (cases r)
    case (Inr x)
    have "bind m f w = f x w1" by (simp add: bind_def m Inr)
    moreover note assms(2) [of x, unfolded accounted_def, rule_format, of w1]
    ultimately show ?thesis by (simp only: same)
  qed (use same in \<open>simp add: bind_def m\<close>)
qed

lemmas unit_steps = unit_of_work_def if_True if_False

text \<open>
  C21: Every change of a freeze through the service is accounted for. An operation that reports
  an error has changed nothing. One that reports success returns a row of the table; it has
  written exactly one audit event, with the action of that operation, about that freeze, by that
  actor, and associated with the freeze's repository; creating, ending, cancelling, activating,
  starting now and the planned unfreeze have also made the repository's reconciliation due at
  the last clock reading under a new generation; no other table changed.
\<close>

theorem freeze_service_accounts_for_changes:
  "accounted (\<lambda>_. action_branch_freeze_created) True actor (service_create_active cp actor)
   \<and> accounted (\<lambda>_. action_freeze_schedule_created) False actor (service_create_scheduled sp actor)
   \<and> accounted (\<lambda>fz. branch_freeze_close_action (fr_status fz)) True actor (service_end i actor)
   \<and> accounted (\<lambda>fz. branch_freeze_close_action (fr_status fz)) True actor (service_cancel i actor)
   \<and> accounted (\<lambda>_. action_freeze_schedule_cancelled) False actor (service_cancel_scheduled i actor)
   \<and> accounted (\<lambda>_. action_freeze_schedule_activated) True actor (service_activate_scheduled i actor)
   \<and> accounted (\<lambda>_. action_freeze_schedule_started_now) True actor (service_start_scheduled_now i actor)
   \<and> accounted (\<lambda>_. action_freeze_schedule_updated) False actor (service_edit_scheduled ep actor)
   \<and> accounted (\<lambda>fz. if fr_scheduled fz then action_freeze_schedule_planned_unfreeze
         else action_branch_freeze_planned_unfreeze) True actor (service_execute_planned_unfreeze i actor)"
proof (intro conjI)
  show "accounted (\<lambda>_. action_branch_freeze_created) True actor (service_create_active cp actor)"
    unfolding service_create_active_def
    using accounted_unit [OF store_operations(1) describes_events(1), where enqueues = True]
    by (simp only: unit_steps)
  show "accounted (\<lambda>_. action_freeze_schedule_created) False actor (service_create_scheduled sp actor)"
    unfolding service_create_scheduled_def
    using accounted_unit [OF store_operations(2) describes_events(3) [OF actions_known(3)], where enqueues = False]
    by (simp only: unit_steps)
  show "accounted (\<lambda>fz. branch_freeze_close_action (fr_status fz)) True actor (service_end i actor)"
    "accounted (\<lambda>fz. branch_freeze_close_action (fr_status fz)) True actor (service_cancel i actor)"
    unfolding service_end_def service_cancel_def service_close_def close_active_tx_def
    using accounted_unit [OF store_operations(3) describes_events(2), where enqueues = True]
    by (simp_all only: unit_steps)
  show "accounted (\<lambda>_. action_freeze_schedule_cancelled) False actor (service_cancel_scheduled i actor)"
    unfolding service_cancel_scheduled_def with_scheduled_freeze_audit_def
    using accounted_unit [OF store_operations(4) describes_events(3) [OF actions_known(5)], where enqueues = False]
    by (simp only: unit_steps)
  show "accounted (\<lambda>_. action_freeze_schedule_activated) True actor (service_activate_scheduled i actor)"
    unfolding service_activate_scheduled_def with_scheduled_freeze_audit_def
    using accounted_unit [OF store_operations(6) describes_events(3) [OF actions_known(6)], where enqueues = True]
    by (simp only: unit_steps)
  show "accounted (\<lambda>_. action_freeze_schedule_started_now) True actor (service_start_scheduled_now i actor)"
    unfolding service_start_scheduled_now_def with_scheduled_freeze_audit_def
    using accounted_unit [OF store_operations(7) describes_events(3) [OF actions_known(7)], where enqueues = True]
    by (simp only: unit_steps)
  show "accounted (\<lambda>_. action_freeze_schedule_updated) False actor (service_edit_scheduled ep actor)"
  proof -
    have "observes (attempt (get_freeze i))" for i
      unfolding get_freeze_def get_freeze_for_scope_def by (intro looking)
    then show ?thesis
      unfolding service_edit_scheduled_def
      using accounted_unit [OF store_operations(5) describes_events(4), where enqueues = False]
      by (auto simp only: unit_steps split: if_splits sum.splits
          intro!: accounted_fail accounted_after_look)
  qed
  have "(if fr_scheduled fz then action_freeze_schedule_planned_unfreeze
      else action_branch_freeze_planned_unfreeze) \<in> set branch_freeze_subject_actions" for fz
    by (simp add: actions_known)
  from accounted_unit [OF store_operations(8) describes_events(3) [OF this], where enqueues = True]
  show "accounted (\<lambda>fz. if fr_scheduled fz then action_freeze_schedule_planned_unfreeze
      else action_branch_freeze_planned_unfreeze) True actor (service_execute_planned_unfreeze i actor)"
    unfolding service_execute_planned_unfreeze_def Let_def by (simp only: unit_steps)
qed

end
