(* ===== verification/ThawService.thy ===== *)
theory ThawService
  imports ThawStore Accounting
begin

text \<open>
  The thaw service (\<open>internal/thawexception/service.go\<close>): an approval for one pull request, and
  one for every open pull request that shares a head commit, each with its audit event and the
  enqueued reconciliation in one transaction.
\<close>

record shared_head_approval =
  sa_repository_id :: int
  sa_selected_pull_request_index :: int
  sa_head_sha :: string
  sa_reason :: string
  sa_affected :: "int list"
  sa_exceptions :: "thaw_approve list"

subsection \<open>Validation\<close>

definition normalize_shared_head_approval :: "shared_head_approval \<Rightarrow> shared_head_approval" where
  "normalize_shared_head_approval p = p \<lparr>sa_head_sha := to_lower (trim_space (sa_head_sha p)),
     sa_reason := trim_space (sa_reason p), sa_affected := sort (sa_affected p)\<rparr>"

text \<open>\<open>sort.SearchInts\<close> on a sorted slice: the first index whose element is not smaller.\<close>

definition contains_pull_request_index :: "int list \<Rightarrow> int \<Rightarrow> bool" where
  "contains_pull_request_index indexes target =
     (let position = length (takeWhile (\<lambda>i. i < target) indexes) in
      position < length indexes \<and> indexes ! position = target)"

fun affected_set_valid :: "int \<Rightarrow> int list \<Rightarrow> bool" where
  "affected_set_valid previous [] = True"
| "affected_set_valid previous (i # is) =
     (if i \<le> 0 \<or> i > 1000000 \<or> i = previous then False else affected_set_valid i is)"

fun validate_shared_exceptions :: "shared_head_approval \<Rightarrow> thaw_approve list \<Rightarrow> go_error option" where
  "validate_shared_exceptions p [] = None"
| "validate_shared_exceptions p (x # xs) =
     (let n = normalize_approve_params x in
      case validate_approve_params n of
        Some e \<Rightarrow> Some e
      | None \<Rightarrow>
          if ta_repository_id n \<noteq> sa_repository_id p \<or> ta_head_sha n \<noteq> sa_head_sha p
              \<or> ta_reason n \<noteq> sa_reason p
              \<or> \<not> contains_pull_request_index (sa_affected p) (ta_pull_request_index n)
          then Some (thaw_invalid ''shared-head thaw exception does not match the confirmed set'')
          else validate_shared_exceptions p xs)"

definition validate_shared_head_approval :: "shared_head_approval \<Rightarrow> go_error option" where
  "validate_shared_head_approval p =
     (if sa_repository_id p \<le> 0 \<or> sa_selected_pull_request_index p \<le> 0 \<or> sa_head_sha p = []
          \<or> sa_reason p = [] \<or> length (sa_affected p) < 2
        then Some (thaw_invalid ''missing required shared-head thaw approval fields'')
      else if invalid_head_sha (sa_head_sha p) then Some (thaw_invalid ''head SHA is invalid'')
      else if length (sa_reason p) > 500 \<or> contains_control (sa_reason p)
        then Some (thaw_invalid ''reason is invalid'')
      else if \<not> affected_set_valid 0 (sa_affected p)
        then Some (thaw_invalid ''affected pull request set is invalid'')
      else if sa_selected_pull_request_index p \<notin> set (sa_affected p)
        then Some (thaw_invalid ''selected pull request is not in the affected set'')
      else validate_shared_exceptions p (sa_exceptions p))"

subsection \<open>Events\<close>

definition join_pull_request_indexes :: "int list \<Rightarrow> string" where
  "join_pull_request_indexes is = join_with '','' (map format_int is)"

definition join_exception_pull_request_indexes :: "thaw_exception list \<Rightarrow> string" where
  "join_exception_pull_request_indexes ts = join_pull_request_indexes (sort (map th_pull_request_index ts))"

definition thaw_exception_approved_event :: "thaw_exception \<Rightarrow> actor \<Rightarrow> audit_event" where
  "thaw_exception_approved_event t actor =
     new_event actor action_thaw_exception_approved subject_type_thaw_exception (format_int (th_id t))
       (text_field ''actor_kind'' (actor_kind actor) @ text_field ''actor_role'' (actor_role actor)
        @ text_field ''head_sha'' (th_head_sha t)
        @ text_field ''pull_request_index'' (format_int (th_pull_request_index t))
        @ optional_field ''pull_request_url'' (\<lambda>u. u)
            (if th_pull_request_url t \<noteq> [] then Some (th_pull_request_url t) else None)
        @ text_field ''reason'' (th_reason t)
        @ text_field ''repository_id'' (format_int (th_repository_id t))
        @ text_field ''status'' (th_status t) @ text_field ''target_branch'' (th_target_branch t))"

definition thaw_exception_shared_head_approved_event ::
    "shared_head_approval \<Rightarrow> thaw_exception list \<Rightarrow> thaw_exception list \<Rightarrow> actor \<Rightarrow> audit_event" where
  "thaw_exception_shared_head_approved_event p created already_covered actor =
     new_event actor action_thaw_exception_shared_head_approved subject_type_thaw_exception
       (format_int (sa_repository_id p) @ '':'' @ sa_head_sha p)
       (text_field ''actor_kind'' (actor_kind actor) @ text_field ''actor_role'' (actor_role actor)
        @ text_field ''affected_pull_request_count'' (format_int (int (length (sa_affected p))))
        @ text_field ''affected_pull_request_indexes'' (join_pull_request_indexes (sa_affected p))
        @ text_field ''already_covered_pull_request_count'' (format_int (int (length already_covered)))
        @ text_field ''already_covered_pull_request_indexes'' (join_exception_pull_request_indexes already_covered)
        @ text_field ''approval_scope'' ''shared_head''
        @ text_field ''created_pull_request_count'' (format_int (int (length created)))
        @ text_field ''created_pull_request_indexes'' (join_exception_pull_request_indexes created)
        @ text_field ''head_sha'' (sa_head_sha p) @ text_field ''reason'' (sa_reason p)
        @ text_field ''repository_id'' (format_int (sa_repository_id p))
        @ text_field ''selected_pull_request_index'' (format_int (sa_selected_pull_request_index p)))"

subsection \<open>Operations\<close>

definition service_approve :: "thaw_approve \<Rightarrow> actor \<Rightarrow> thaw_exception go" where
  "service_approve params actor = transact (
     bind (approve_thaw params actor) (\<lambda>approved.
     bind (record_event (thaw_exception_approved_event approved actor)) (\<lambda>_.
     bind (enqueue_reconciliation (th_repository_id approved)) (\<lambda>_.
     ret approved))))"

definition thaw_lookup :: "thaw_approve \<Rightarrow> pull_request" where
  "thaw_lookup p = \<lparr>pr_id = 0, pr_repository_id = ta_repository_id p, pr_index = ta_pull_request_index p,
     pr_title = [], pr_state = [], pr_target_branch = ta_target_branch p,
     pr_head_sha = ta_head_sha p, pr_url = []\<rparr>"

text \<open>The loop: all exceptions in order, those newly created, those that already covered.\<close>

fun approve_each :: "thaw_approve list \<Rightarrow> actor \<Rightarrow>
    (thaw_exception list \<times> thaw_exception list \<times> thaw_exception list) go" where
  "approve_each [] actor = ret ([], [], [])"
| "approve_each (p # ps) actor =
     bind (active_for_pull_request (thaw_lookup p)) (\<lambda>existing. case existing of
       Some t \<Rightarrow> bind (approve_each ps actor) (\<lambda>(approved, created, covered).
         ret (t # approved, created, t # covered))
     | None \<Rightarrow> bind (approve_thaw p actor) (\<lambda>t.
         bind (approve_each ps actor) (\<lambda>(approved, created, covered).
         ret (t # approved, t # created, covered))))"

definition service_approve_shared_head :: "shared_head_approval \<Rightarrow> actor \<Rightarrow> thaw_exception list go" where
  "service_approve_shared_head params actor =
     (let p = normalize_shared_head_approval params in
      when_invalid (validate_shared_head_approval p) (transact (
        bind (require_thaw_enforcement (sa_repository_id p)) (\<lambda>_.
        bind (approve_each (sa_exceptions p) actor) (\<lambda>(approved, created, covered).
        bind (record_event (thaw_exception_shared_head_approved_event p created covered actor)) (\<lambda>_.
        bind (enqueue_reconciliation (sa_repository_id p)) (\<lambda>_.
        ret approved)))))))"

end
