(* ===== verification/ThawFacts.thy ===== *)
theory ThawFacts
  imports ThawStore Samples
begin

text \<open>
  What approving an exception does, and how far the text comparison of expiries can be from the
  clock.
\<close>

subsection \<open>Expiry\<close>

text \<open>
  C34: Comparing expiries as RFC 3339 texts is right to within a second. An exception the store
  finds in effect expires less than a second before the reading at the earliest, and one that
  is still good for a second is always found. (Years have four digits.)
\<close>

theorem expiry_right_within_a_second:
  assumes "tr_expires_at r = Some e" and "four_digit_year now" and "four_digit_year e"
  shows "(in_effect now r \<longrightarrow> tr_status r = ''active'' \<and> now - nanos < e)
    \<and> (tr_status r = ''active'' \<and> now + nanos \<le> e \<longrightarrow> in_effect now r)"
  using rfc3339_less_within_second [OF _ assms(2,3)] rfc3339_less_apart [OF _ assms(2,3)]
  by (auto simp: in_effect_def assms(1))

definition sample_thaw_row :: "instant option \<Rightarrow> thaw_row" where
  "sample_thaw_row e = \<lparr>tr_id = 1, tr_repository_id = 1, tr_pull_request_index = 12,
     tr_pull_request_url = None, tr_head_sha = ''abc123'', tr_target_branch = ''main'',
     tr_status = ''active'', tr_reason = ''hotfix'', tr_approved_by = None, tr_expires_at = e,
     tr_created_at = 0, tr_updated_at = 0\<rparr>"

lemma sample_year: "0 \<le> t \<Longrightarrow> t < 86400 * nanos \<Longrightarrow> four_digit_year t"
proof -
  assume t: "0 \<le> t" "t < 86400 * nanos"
  then have "t div nanos div 86400 = 0" by (simp add: nanos_def)
  moreover have "civil_from_days 0 = (1970, 1, 1)" by code_simp
  ultimately show ?thesis by (simp add: four_digit_year_def)
qed

lemma expiry_right_within_a_second_witness:
  "in_effect 0 (sample_thaw_row (Some (2 * nanos)))"
proof -
  have "sample_thaw_row (Some (2 * nanos)) = sample_thaw_row (Some (2 * nanos))
      \<and> tr_expires_at (sample_thaw_row (Some (2 * nanos))) = Some (2 * nanos)"
    by (simp add: sample_thaw_row_def)
  from expiry_right_within_a_second [OF conjunct2 [OF this] sample_year sample_year] show ?thesis
    by (simp add: sample_thaw_row_def nanos_def)
qed

text \<open>
  The second is real: an exception that expires on a whole second is found in effect for the
  rest of that second.
\<close>

lemma expired_exception_in_effect:
  assumes "tr_status r = ''active''" and "tr_expires_at r = Some e" and "e mod nanos = 0"
    and "now div nanos = e div nanos" and "e < now"
  shows "in_effect now r"
proof -
  have "now mod nanos \<noteq> 0"
    using assms(3-5) mult_div_mod_eq [of nanos now] mult_div_mod_eq [of nanos e] by auto
  then show ?thesis
    using assms by (simp add: in_effect_def rfc3339_nano_def text_less_append fraction_text_def)
qed

subsection \<open>Approval\<close>

lemma require_thaw_enforcement_establishes:
  "establishes (\<lambda>d. list_ex (\<lambda>r. repo_id r = repo \<and> repo_active r
     \<and> repo_enforcement r = EnforcementActive) (tb_repositories d)) (require_thaw_enforcement repo)"
  unfolding require_thaw_enforcement_def by (rule establishes_first)

end
