(* ===== verification/ThawServiceFacts.thy ===== *)
theory ThawServiceFacts
  imports ThawService ThawFacts FreezeFacts
begin

text \<open>
  What an approval does: the rows it adds, whom they cover, and the event and the reconciliation
  that come with them.
\<close>

subsection \<open>The store's approval\<close>

definition approved_row :: "thaw_approve \<Rightarrow> actor \<Rightarrow> instant \<Rightarrow> int \<Rightarrow> thaw_row" where
  "approved_row x actor now i = (let p = normalize_approve_params x in
     \<lparr>tr_id = i, tr_repository_id = ta_repository_id p,
      tr_pull_request_index = ta_pull_request_index p,
      tr_pull_request_url = (if ta_pull_request_url p \<noteq> [] then Some (ta_pull_request_url p) else None),
      tr_head_sha = ta_head_sha p, tr_target_branch = ta_target_branch p,
      tr_status = ''active'', tr_reason = ta_reason p,
      tr_approved_by = actor_user_id actor, tr_expires_at = ta_expires_at p,
      tr_created_at = now, tr_updated_at = now\<rparr>)"

lemma get_thaw_success:
  "get_thaw i w = (Inr x, w1) \<Longrightarrow> tables w1 = tables w \<and> clock w1 = clock w \<and> readings w1 = readings w
     \<and> x \<in> set (map scan_thaw_exception (filter (\<lambda>r. tr_id r = i) (tb_thaws (tables w))))"
  by (auto simp: get_thaw_def query_row_def sql_def first_row_def split: if_splits list.splits)
     (metis (mono_tags, lifting) filter_eq_Cons_iff imageI in_set_conv_decomp mem_Collect_eq)

lemma insert_thaw_success:
  assumes "checked ok (\<lambda>d. let i = fresh_id (map tr_id (tb_thaws d)) in
      (i, d \<lparr>tb_thaws := tb_thaws d @ [mk i]\<rparr>)) w = (Inr i, w1)"
  shows "i = fresh_id (map tr_id (tb_thaws (tables w))) \<and> clock w1 = clock w \<and> readings w1 = readings w
     \<and> tables w1 = tables w \<lparr>tb_thaws := tb_thaws (tables w) @ [mk i]\<rparr>"
  using assms by (auto simp: checked_def sql_def Let_def split: if_splits)

lemma require_thaw_timely: "timely (require_thaw_enforcement repo)"
  unfolding require_thaw_enforcement_def by (intro timing)

lemma approve_thaw_success:
  assumes "approve_thaw x actor w = (Inr t, w')"
  obtains r now where "r = approved_row x actor now (fresh_id (map tr_id (tb_thaws (tables w))))"
    "validate_approve_params (normalize_approve_params x) = None"
    "enforced (tables w) (ta_repository_id x)"
    "tables w' = tables w \<lparr>tb_thaws := tb_thaws (tables w) @ [r]\<rparr>"
    "t = scan_thaw_exception r" "clock w' = clock w"
proof -
  let ?p = "normalize_approve_params x"
  have repo: "ta_repository_id ?p = ta_repository_id x" by (simp add: normalize_approve_params_def)
  from assms have v: "validate_approve_params ?p = None"
    and body: "bind (require_thaw_enforcement (ta_repository_id ?p)) (\<lambda>_. bind now_utc (\<lambda>now.
      bind (checked (\<lambda>d. ta_repository_id ?p \<in> set (map repo_id (tb_repositories d))
           \<and> references (actor_user_id actor) (tb_users d))
        (\<lambda>d. let i = fresh_id (map tr_id (tb_thaws d)) in
          (i, d \<lparr>tb_thaws := tb_thaws d @ [approved_row x actor now i]\<rparr>))) get_thaw)) w = (Inr t, w')"
    unfolding approve_thaw_def approved_row_def Let_def by (auto dest!: when_invalid_success)
  from body obtain w1 now w2 i w3 where req: "require_thaw_enforcement (ta_repository_id ?p) w = (Inr (), w1)"
    and n: "now_utc w1 = (Inr now, w2)"
    and ins: "checked (\<lambda>d. ta_repository_id ?p \<in> set (map repo_id (tb_repositories d))
           \<and> references (actor_user_id actor) (tb_users d))
        (\<lambda>d. let i = fresh_id (map tr_id (tb_thaws d)) in
          (i, d \<lparr>tb_thaws := tb_thaws d @ [approved_row x actor now i]\<rparr>)) w2 = (Inr i, w3)"
    and get: "get_thaw i w3 = (Inr t, w')"
    by (elim bind_cases) auto
  note er = establishes_success [OF require_thaw_enforcement_establishes req]
    timely_after [OF require_thaw_timely req]
  have en: "tables w2 = tables w1" "clock w2 = clock w1" using n by (auto simp: now_utc_def)
  note ei = insert_thaw_success [OF ins]
  note eg = get_thaw_success [OF get]
  have i: "i = fresh_id (map tr_id (tb_thaws (tables w)))" using ei en er by simp
  have "t = scan_thaw_exception (approved_row x actor now i)"
    by (rule fresh_row_unique [where key = tr_id and rows = "tb_thaws (tables w)"])
      (use eg ei en er i in simp)
  then show thesis
    using that [of _ now] v er en ei eg i by (simp add: enforced_def repo)
qed

lemma active_for_pull_request_success:
  assumes "active_for_pull_request pr w = (Inr (Some th), w')" and "pr_id pr = 0"
  shows "list_ex (\<lambda>r. scan_thaw_exception r = th \<and> tr_status r = ''active''
     \<and> covers_pull_request (normalize_thaw_pull_request pr) r) (tb_thaws (tables w))"
proof -
  let ?q = "normalize_thaw_pull_request pr"
  have id: "pr_id ?q = 0" using assms(2) by (simp add: normalize_thaw_pull_request_def)
  from assms obtain now w1 a w2 where n: "now_utc w = (Inr now, w1)"
    and q: "attempt (query_row (\<lambda>d. map scan_thaw_exception (sort_key (\<lambda>r. - tr_id r)
      (filter (\<lambda>r. covers_pull_request ?q r \<and> in_effect now r) (tb_thaws d))))) w1 = (Inr a, w2)"
    and r: "(case a of Inl e \<Rightarrow> if e = NoRows then ret None else fail e
      | Inr thaw \<Rightarrow> ret (Some thaw)) w2 = (Inr (Some th), w')"
    by (auto simp: active_for_pull_request_def Let_def when_invalid_def fail_def id elim!: bind_cases
        split: option.splits)
  from r have a: "a = Inr th" by (cases a) (auto simp: world_defs split: if_splits)
  let ?rows = "map scan_thaw_exception (sort_key (\<lambda>r. - tr_id r)
      (filter (\<lambda>r. covers_pull_request ?q r \<and> in_effect now r) (tb_thaws (tables w1))))"
  have "first_row ?rows = Inr th" using q by (auto simp: a attempt_def query_row_def sql_def split: if_splits)
  then have "th \<in> set ?rows" unfolding first_row_def by (cases ?rows) simp_all
  then have "th \<in> set (map scan_thaw_exception
      (filter (\<lambda>r. covers_pull_request ?q r \<and> in_effect now r) (tb_thaws (tables w1))))" by simp
  moreover have "tables w1 = tables w" using n by (auto simp: now_utc_def)
  ultimately have "th \<in> set (map scan_thaw_exception
      (filter (\<lambda>r. covers_pull_request ?q r \<and> in_effect now r) (tb_thaws (tables w))))" by simp
  then show ?thesis by (auto simp: list_ex_iff in_effect_def)
qed

subsection \<open>The loop\<close>

text \<open>The exception is in the table, active, and covers this pull request at its head.\<close>

definition granted_to :: "db \<Rightarrow> thaw_approve \<Rightarrow> thaw_exception \<Rightarrow> bool" where
  "granted_to d p t \<longleftrightarrow> list_ex (\<lambda>r. scan_thaw_exception r = t \<and> tr_status r = ''active''
     \<and> covers_pull_request (normalize_thaw_pull_request (thaw_lookup p)) r) (tb_thaws d)"

lemma granted_later: "granted_to d p t \<Longrightarrow> granted_to (d \<lparr>tb_thaws := tb_thaws d @ rows\<rparr>) p t"
  by (auto simp: granted_to_def)

lemma granted_approved:
  "granted_to (d \<lparr>tb_thaws := tb_thaws d @ [approved_row x actor now i]\<rparr>) x
     (scan_thaw_exception (approved_row x actor now i))"
  by (simp add: granted_to_def approved_row_def Let_def covers_pull_request_def thaw_lookup_def
      normalize_thaw_pull_request_def normalize_approve_params_def)

lemma thaw_rows_appended:
  "d \<lparr>tb_thaws := tb_thaws d @ xs, tb_thaws := tb_thaws (d \<lparr>tb_thaws := tb_thaws d @ xs\<rparr>) @ ys\<rparr>
     = d \<lparr>tb_thaws := tb_thaws d @ xs @ ys\<rparr>"
  by simp

lemma approve_each_success:
  assumes "approve_each ps actor w = (Inr (approved, created, covered), w')"
  shows "\<exists>rows. tables w' = tables w \<lparr>tb_thaws := tb_thaws (tables w) @ rows\<rparr>
     \<and> created = map scan_thaw_exception rows \<and> length approved = length created + length covered
     \<and> list_all2 (granted_to (tables w')) ps approved \<and> clock w' = clock w
     \<and> (\<forall>r \<in> set rows. \<exists>x \<in> set ps. \<exists>now i. r = approved_row x actor now i)"
  using assms
proof (induction ps arbitrary: w approved created covered)
  case Nil
  then show ?case by (auto simp: ret_def)
next
  case (Cons p ps)
  from Cons.prems obtain existing w1 where ex: "active_for_pull_request (thaw_lookup p) w = (Inr existing, w1)"
    and rest: "(case existing of
       Some t \<Rightarrow> bind (approve_each ps actor) (\<lambda>(approved, created, covered).
         ret (t # approved, created, t # covered))
     | None \<Rightarrow> bind (approve_thaw p actor) (\<lambda>t.
         bind (approve_each ps actor) (\<lambda>(approved, created, covered).
         ret (t # approved, t # created, covered)))) w1 = (Inr (approved, created, covered), w')"
    unfolding approve_each.simps by (rule bind_cases)
  have looks: "observes (active_for_pull_request (thaw_lookup p))"
    unfolding active_for_pull_request_def Let_def by (intro looking)
  note same = observes_after [OF looks ex]
  show ?case
  proof (cases existing)
    case (Some t)
    with rest obtain as cs where each: "approve_each ps actor w1 = (Inr (as, created, cs), w')"
      and eq: "approved = t # as" "covered = t # cs"
      unfolding Some option.case by (elim bind_cases) (simp add: ret_def split: prod.splits)
    from Cons.IH [OF each, unfolded same [THEN conjunct1] same [THEN conjunct2, THEN conjunct1]]
    obtain rows where ih: "tables w' = tables w \<lparr>tb_thaws := tb_thaws (tables w) @ rows\<rparr>"
      "created = map scan_thaw_exception rows" "length as = length created + length cs"
      "list_all2 (granted_to (tables w')) ps as" "clock w' = clock w"
      "\<forall>r \<in> set rows. \<exists>x \<in> set ps. \<exists>now i. r = approved_row x actor now i"
      by (elim exE conjE) (rule that)
    have "granted_to (tables w) p t"
      using active_for_pull_request_success [OF ex [unfolded Some]]
      by (simp add: granted_to_def thaw_lookup_def)
    then have "granted_to (tables w') p t" unfolding ih(1) by (rule granted_later)
    show ?thesis unfolding eq
    proof (intro exI conjI)
      show "list_all2 (granted_to (tables w')) (p # ps) (t # as)"
        using ih(4) \<open>granted_to (tables w') p t\<close> by simp
      show "\<forall>r \<in> set rows. \<exists>x \<in> set (p # ps). \<exists>now i. r = approved_row x actor now i"
        using ih(6) by (meson list.set_intros(2))
    qed (use ih(1,2,3,5) same in simp_all)
  next
    case None
    with rest obtain t w2 as cs where ap: "approve_thaw p actor w1 = (Inr t, w2)"
      and each: "approve_each ps actor w2 = (Inr (as, cs, covered), w')"
      and eq: "approved = t # as" "created = t # cs"
      unfolding None option.case by (elim bind_cases) (simp add: ret_def split: prod.splits)
    from approve_thaw_success [OF ap] obtain r now where
      r: "r = approved_row p actor now (fresh_id (map tr_id (tb_thaws (tables w1))))"
      "tables w2 = tables w1 \<lparr>tb_thaws := tb_thaws (tables w1) @ [r]\<rparr>"
      "t = scan_thaw_exception r" "clock w2 = clock w1" by blast
    from Cons.IH [OF each] obtain rows where
      ih: "tables w' = tables w2 \<lparr>tb_thaws := tb_thaws (tables w2) @ rows\<rparr>"
      "cs = map scan_thaw_exception rows" "length as = length cs + length covered"
      "list_all2 (granted_to (tables w')) ps as" "clock w' = clock w2"
      "\<forall>r \<in> set rows. \<exists>x \<in> set ps. \<exists>now i. r = approved_row x actor now i"
      by (elim exE conjE) (rule that)
    have "granted_to (tables w2) p t" unfolding r(2,3) unfolding r(1) by (rule granted_approved)
    then have "granted_to (tables w') p t" unfolding ih(1) by (rule granted_later)
    note g = this
    have rows: "tables w' = tables w \<lparr>tb_thaws := tb_thaws (tables w) @ r # rows\<rparr>"
      using ih(1) r(2) same by simp
    show ?thesis unfolding eq
    proof (intro exI conjI)
      show "tables w' = tables w \<lparr>tb_thaws := tb_thaws (tables w) @ r # rows\<rparr>" by (rule rows)
      show "list_all2 (granted_to (tables w')) (p # ps) (t # as)" using ih(4) g by simp
      show "\<forall>r' \<in> set (r # rows). \<exists>x \<in> set (p # ps). \<exists>now i. r' = approved_row x actor now i"
        using ih(6) r(1) by (metis list.set_intros set_ConsD)
    qed (use ih(2,3,5) r(3,4) same in simp_all)
  qed
qed

subsection \<open>One pull request\<close>

lemma thaw_actions_known:
  "action_thaw_exception_approved \<in> set (detailed_actions subject_type_thaw_exception)"
  "action_thaw_exception_shared_head_approved \<in> set (detailed_actions subject_type_thaw_exception)"
  by (simp_all add: detailed_actions_def subject_types_differ thaw_exception_subject_actions_def
      action_thaw_exception_approved_def action_thaw_exception_shared_head_approved_def)

lemma approved_event_names:
  obtains kvs where "thaw_exception_approved_event t actor
      = new_event actor action_thaw_exception_approved subject_type_thaw_exception (format_int (th_id t)) kvs"
    and "names_repository kvs (th_repository_id t)"
  by (rule that [OF thaw_exception_approved_event_def]) (simp add: naming)

lemma shared_event_names:
  obtains kvs where "thaw_exception_shared_head_approved_event p created covered actor
      = new_event actor action_thaw_exception_shared_head_approved subject_type_thaw_exception
          (format_int (sa_repository_id p) @ '':'' @ sa_head_sha p) kvs"
    and "names_repository kvs (sa_repository_id p)"
  by (rule that [OF thaw_exception_shared_head_approved_event_def]) (simp add: naming)

lemma hidden_tables:
  assumes "d \<lparr>tb_audit := [], tb_jobs := []\<rparr> = d1 \<lparr>tb_audit := [], tb_jobs := []\<rparr>"
    and "d1 = d0 \<lparr>tb_thaws := rows\<rparr>"
  shows "tb_thaws d = rows
    \<and> d \<lparr>tb_thaws := [], tb_audit := [], tb_jobs := []\<rparr> = d0 \<lparr>tb_thaws := [], tb_audit := [], tb_jobs := []\<rparr>"
  using assms by (cases d; cases d0) simp

text \<open>
  Approving a thaw exception for one pull request. An error leaves everything as it was.
  Success means the parameters were valid and the repository was enforced; exactly one exception
  was added, the one returned, active for that pull request at that head commit and target
  branch; one audit event of the repository names it, the repository's reconciliation is due
  under a new generation, and no other table changed.
\<close>

theorem thaw_approval_accounts_for_change:
  "case service_approve x actor w of
     (Inl e, w') \<Rightarrow> tables w' = tables w
   | (Inr t, w') \<Rightarrow>
       validate_approve_params (normalize_approve_params x) = None
       \<and> enforced (tables w) (ta_repository_id x)
       \<and> map scan_thaw_exception (tb_thaws (tables w')) = map scan_thaw_exception (tb_thaws (tables w)) @ [t]
       \<and> granted_to (tables w') x t
       \<and> one_event action_thaw_exception_approved subject_type_thaw_exception (format_int (th_id t))
           (ta_repository_id x) actor (tables w) (tables w')
       \<and> tb_jobs (tables w') = upsert_stmt (ta_repository_id x) True [] (clock w (readings w' - 1)) (tb_jobs (tables w))
       \<and> (tables w') \<lparr>tb_thaws := [], tb_audit := [], tb_jobs := []\<rparr>
           = (tables w) \<lparr>tb_thaws := [], tb_audit := [], tb_jobs := []\<rparr>"
proof (cases "service_approve x actor w")
  case (Pair r w')
  show ?thesis
  proof (cases r)
    case (Inl e)
    have "all_or_nothing (service_approve x actor)"
      unfolding service_approve_def by (rule transact_all_or_nothing)
    then have "case service_approve x actor w of (Inl e, w') \<Rightarrow> tables w' = tables w | (Inr x, w') \<Rightarrow> True"
      unfolding all_or_nothing_def ..
    with Pair Inl show ?thesis by simp
  next
    case (Inr t)
    from Pair [unfolded Inr service_approve_def] obtain w1 w2 where
      body: "bind (approve_thaw x actor) (\<lambda>approved.
        bind (record_event (thaw_exception_approved_event approved actor)) (\<lambda>_.
        bind (enqueue_reconciliation (th_repository_id approved)) (\<lambda>_. ret approved))) w1 = (Inr t, w2)"
      and w: "tables w1 = tables w" "clock w1 = clock w" "tables w' = tables w2" "readings w' = readings w2"
      by (rule transact_success)
    from body obtain w3 w4 j where ap: "approve_thaw x actor w1 = (Inr t, w3)"
      and rec: "record_event (thaw_exception_approved_event t actor) w3 = (Inr (), w4)"
      and enq: "enqueue_reconciliation (th_repository_id t) w4 = (Inr j, w2)"
      by (elim bind_cases) (auto simp: ret_def)
    from ap obtain row now where row: "row = approved_row x actor now (fresh_id (map tr_id (tb_thaws (tables w1))))"
      and v: "validate_approve_params (normalize_approve_params x) = None"
      and en: "enforced (tables w1) (ta_repository_id x)"
      and t3: "tables w3 = tables w1 \<lparr>tb_thaws := tb_thaws (tables w1) @ [row]\<rparr>"
      and t: "t = scan_thaw_exception row" and c3: "clock w3 = clock w1"
      by (rule approve_thaw_success)
    have repo: "th_repository_id t = ta_repository_id x"
      by (simp add: t row approved_row_def scan_thaw_exception_def normalize_approve_params_def Let_def)
    obtain kvs where ev: "thaw_exception_approved_event t actor
        = new_event actor action_thaw_exception_approved subject_type_thaw_exception (format_int (th_id t)) kvs"
      and names: "names_repository kvs (th_repository_id t)" by (rule approved_event_names)
    note tail = recorded_and_queued [OF rec [unfolded ev] enq thaw_actions_known(1) names, unfolded repo]
    note hid = hidden_tables [OF tail(3) t3]
    have "granted_to (tables w3) x t" unfolding t3 t unfolding row by (rule granted_approved)
    then have g: "granted_to (tables w') x t" using hid t3 w by (simp add: granted_to_def)
    show ?thesis
      unfolding Pair Inr prod.case sum.case
    proof (intro conjI)
      show "one_event action_thaw_exception_approved subject_type_thaw_exception (format_int (th_id t))
           (ta_repository_id x) actor (tables w) (tables w')"
        using tail(1) t3 w by (simp add: one_event_def)
      show "tb_jobs (tables w') = upsert_stmt (ta_repository_id x) True [] (clock w (readings w' - 1)) (tb_jobs (tables w))"
        using tail(2) t3 w c3 by simp
      show "(tables w') \<lparr>tb_thaws := [], tb_audit := [], tb_jobs := []\<rparr>
           = (tables w) \<lparr>tb_thaws := [], tb_audit := [], tb_jobs := []\<rparr>"
        using hid w by simp
    qed (use v en g hid t w in simp_all)
  qed
qed

subsection \<open>All pull requests of a head commit\<close>

lemma contains_in_set: "contains_pull_request_index is i \<Longrightarrow> i \<in> set is"
  unfolding contains_pull_request_index_def Let_def by (metis nth_mem)

lemma validate_shared_exceptions_facts:
  "validate_shared_exceptions p xs = None \<Longrightarrow> x \<in> set xs \<Longrightarrow>
     ta_repository_id (normalize_approve_params x) = sa_repository_id p
     \<and> ta_head_sha (normalize_approve_params x) = sa_head_sha p
     \<and> ta_reason (normalize_approve_params x) = sa_reason p
     \<and> ta_pull_request_index (normalize_approve_params x) \<in> set (sa_affected p)"
  by (induction xs)
    (auto simp: Let_def dest: contains_in_set split: option.splits if_splits)

lemma validate_shared_facts:
  "validate_shared_head_approval p = None \<Longrightarrow> validate_shared_exceptions p (sa_exceptions p) = None"
  by (auto simp: validate_shared_head_approval_def split: if_splits)

text \<open>An added row is one of the confirmed set: this repository, head, reason, and a listed number.\<close>

definition confirmed_row :: "shared_head_approval \<Rightarrow> thaw_row \<Rightarrow> bool" where
  "confirmed_row p r \<longleftrightarrow> tr_repository_id r = sa_repository_id p \<and> tr_head_sha r = sa_head_sha p
     \<and> tr_reason r = sa_reason p \<and> tr_pull_request_index r \<in> set (sa_affected p)
     \<and> tr_status r = ''active''"

lemma confirmed_approved:
  assumes "validate_shared_exceptions p xs = None" and "x \<in> set xs"
  shows "confirmed_row p (approved_row x actor now i)"
  using validate_shared_exceptions_facts [OF assms] by (simp add: confirmed_row_def approved_row_def Let_def)

text \<open>
  C17: Approving a shared head. An error leaves everything as it was. Success means the
  confirmed set was valid and the repository enforced; every exception asked for is now granted,
  by an older exception in effect or by a new one, and the answer lists them in order; the rows
  added, at most one per request, all belong to this repository, this head commit and the
  confirmed set; one audit event of the repository records the approval and its reconciliation
  is due under a new generation.
\<close>

theorem shared_head_approval_covers_the_set:
  "case service_approve_shared_head params actor w of
     (Inl e, w') \<Rightarrow> tables w' = tables w
   | (Inr ts, w') \<Rightarrow> (let p = normalize_shared_head_approval params; n = length (tb_thaws (tables w)) in
       validate_shared_head_approval p = None \<and> enforced (tables w) (sa_repository_id p)
       \<and> list_all2 (granted_to (tables w')) (sa_exceptions p) ts
       \<and> take n (tb_thaws (tables w')) = tb_thaws (tables w)
       \<and> list_all (confirmed_row p) (drop n (tb_thaws (tables w')))
       \<and> length (tb_thaws (tables w')) \<le> n + length (sa_exceptions p)
       \<and> one_event action_thaw_exception_shared_head_approved subject_type_thaw_exception
           (format_int (sa_repository_id p) @ '':'' @ sa_head_sha p) (sa_repository_id p) actor (tables w) (tables w')
       \<and> tb_jobs (tables w') = upsert_stmt (sa_repository_id p) True [] (clock w (readings w' - 1)) (tb_jobs (tables w))
       \<and> (tables w') \<lparr>tb_thaws := [], tb_audit := [], tb_jobs := []\<rparr>
           = (tables w) \<lparr>tb_thaws := [], tb_audit := [], tb_jobs := []\<rparr>)"
proof (cases "service_approve_shared_head params actor w")
  case (Pair r w')
  let ?p = "normalize_shared_head_approval params"
  let ?body = "bind (require_thaw_enforcement (sa_repository_id ?p)) (\<lambda>_.
        bind (approve_each (sa_exceptions ?p) actor) (\<lambda>(approved, created, covered).
        bind (record_event (thaw_exception_shared_head_approved_event ?p created covered actor)) (\<lambda>_.
        bind (enqueue_reconciliation (sa_repository_id ?p)) (\<lambda>_. ret approved))))"
  have op: "service_approve_shared_head params actor
      = when_invalid (validate_shared_head_approval ?p) (transact ?body)"
    by (simp add: service_approve_shared_head_def Let_def)
  show ?thesis
  proof (cases r)
    case (Inl e)
    have "tables w' = tables w"
    proof (cases "validate_shared_head_approval ?p")
      case None
      have "case transact ?body w of (Inl e, w') \<Rightarrow> tables w' = tables w | (Inr x, w') \<Rightarrow> True"
        using transact_all_or_nothing [of ?body] unfolding all_or_nothing_def ..
      with Pair Inl None show ?thesis by (simp add: op when_invalid_def)
    qed (use Pair Inl in \<open>simp add: op when_invalid_def fail_def\<close>)
    with Pair Inl show ?thesis by simp
  next
    case (Inr ts)
    from Pair Inr have v: "validate_shared_head_approval ?p = None" and run: "transact ?body w = (Inr ts, w')"
      by (auto simp: op dest: when_invalid_success)
    from run obtain w1 w2 where body: "?body w1 = (Inr ts, w2)"
      and w: "tables w1 = tables w" "clock w1 = clock w" "tables w' = tables w2" "readings w' = readings w2"
      by (rule transact_success)
    from body obtain w3 created covered w4 w5 j where
      req: "require_thaw_enforcement (sa_repository_id ?p) w1 = (Inr (), w3)"
      and each: "approve_each (sa_exceptions ?p) actor w3 = (Inr (ts, created, covered), w4)"
      and rec: "record_event (thaw_exception_shared_head_approved_event ?p created covered actor) w4 = (Inr (), w5)"
      and enq: "enqueue_reconciliation (sa_repository_id ?p) w5 = (Inr j, w2)"
      by (elim bind_cases) (auto simp: ret_def split: prod.splits elim!: bind_cases)
    note er = establishes_success [OF require_thaw_enforcement_establishes req]
      timely_after [OF require_thaw_timely req]
    from approve_each_success [OF each] obtain rows where
      rows: "tables w4 = tables w3 \<lparr>tb_thaws := tb_thaws (tables w3) @ rows\<rparr>"
      "created = map scan_thaw_exception rows" "length ts = length created + length covered"
      "list_all2 (granted_to (tables w4)) (sa_exceptions ?p) ts" "clock w4 = clock w3"
      "\<forall>r \<in> set rows. \<exists>x \<in> set (sa_exceptions ?p). \<exists>now i. r = approved_row x actor now i"
      by (elim exE conjE) (rule that)
    obtain kvs where ev: "thaw_exception_shared_head_approved_event ?p created covered actor
        = new_event actor action_thaw_exception_shared_head_approved subject_type_thaw_exception
          (format_int (sa_repository_id ?p) @ '':'' @ sa_head_sha ?p) kvs"
      and names: "names_repository kvs (sa_repository_id ?p)" by (rule shared_event_names)
    note tail = recorded_and_queued [OF rec [unfolded ev] enq thaw_actions_known(2) names]
    note hid = hidden_tables [OF tail(3) rows(1)]
    have t3: "tables w3 = tables w" using er w by simp
    have granted: "granted_to (tables w') x t = granted_to (tables w4) x t" for x t
      using hid rows(1) w by (simp add: granted_to_def)
    have conf: "list_all (confirmed_row ?p) rows"
      unfolding list_all_iff
    proof
      fix r
      assume "r \<in> set rows"
      with rows(6) obtain x now i where "x \<in> set (sa_exceptions ?p)" "r = approved_row x actor now i" by blast
      then show "confirmed_row ?p r" using confirmed_approved [OF validate_shared_facts [OF v]] by blast
    qed
    have new: "tb_thaws (tables w') = tb_thaws (tables w) @ rows" using hid w t3 by simp
    show ?thesis
      unfolding Pair Inr prod.case sum.case Let_def
    proof (intro conjI)
      show "enforced (tables w) (sa_repository_id ?p)" using er w by (simp add: enforced_def)
      show "list_all2 (granted_to (tables w')) (sa_exceptions ?p) ts"
        using rows(4) by (simp add: granted [abs_def])
      show "length (tb_thaws (tables w')) \<le> length (tb_thaws (tables w)) + length (sa_exceptions ?p)"
        using rows(2,3) list_all2_lengthD [OF rows(4)] new by simp
      show "one_event action_thaw_exception_shared_head_approved subject_type_thaw_exception
           (format_int (sa_repository_id ?p) @ '':'' @ sa_head_sha ?p) (sa_repository_id ?p) actor (tables w) (tables w')"
        using tail(1) rows(1) t3 w by (simp add: one_event_def)
      show "tb_jobs (tables w') = upsert_stmt (sa_repository_id ?p) True [] (clock w (readings w' - 1)) (tb_jobs (tables w))"
        using tail(2) rows(1,5) t3 w er by simp
      show "(tables w') \<lparr>tb_thaws := [], tb_audit := [], tb_jobs := []\<rparr>
           = (tables w) \<lparr>tb_thaws := [], tb_audit := [], tb_jobs := []\<rparr>"
        using hid w t3 by simp
    qed (use v conf new in simp_all)
  qed
qed

end
