(* ===== verification/ScheduleStore.thy ===== *)
theory ScheduleStore
  imports FreezeStore "HOL-Library.List_Lexorder" "HOL-Library.Char_ord"
begin

text \<open>
  The schedule store (\<open>internal/schedule/store.go\<close>, \<open>rules.go\<close>, \<open>windows.go\<close>): schedules, their
  weekly rules and dated windows. Text columns compare byte by byte, as the order on strings
  does. \<open>tz\<close> stands for \<open>time.LoadLocation\<close>, as in the expansion.
\<close>

abbreviation sched_invalid :: "string \<Rightarrow> go_error" where
  "sched_invalid \<equiv> ValidationError SchedulePkg"

definition name_max_length :: nat where
  "name_max_length = 100"

definition reason_max_length :: nat where
  "reason_max_length = 500"

record schedule_create =
  cs_repository_id :: int
  cs_branch :: string
  cs_name :: string
  cs_kind :: schedule_kind
  cs_timezone :: string
  cs_reason :: string
  cs_created_by :: "int option"
  cs_created_by_kind :: string

subsection \<open>Validation\<close>

definition valid_timezone :: "(string \<Rightarrow> zone option) \<Rightarrow> string \<Rightarrow> bool" where
  "valid_timezone tz name \<longleftrightarrow> \<not> (name = [] \<or> name = ''Local'') \<and> tz name \<noteq> None"

definition normalize_schedule_create :: "schedule_create \<Rightarrow> schedule_create" where
  "normalize_schedule_create p = p \<lparr>cs_branch := trim_space (cs_branch p),
     cs_name := trim_space (cs_name p), cs_timezone := trim_space (cs_timezone p),
     cs_reason := trim_space (cs_reason p)\<rparr>"

definition missing_fields :: "string list \<Rightarrow> go_error" where
  "missing_fields missing = sched_invalid (''missing required fields: '' @ join_with '', '' (sort missing))"

definition validate_schedule_create :: "(string \<Rightarrow> zone option) \<Rightarrow> schedule_create \<Rightarrow> go_error option" where
  "validate_schedule_create tz p =
     (let missing = (if cs_repository_id p \<le> 0 then [''repository''] else [])
            @ (if cs_branch p = [] then [''branch''] else [])
            @ (if cs_name p = [] then [''name''] else [])
            @ (if cs_timezone p = [] then [''timezone''] else []) in
      if missing \<noteq> [] then Some (missing_fields missing)
      else if \<not> schedule_kind_valid (cs_kind p)
        then Some (sched_invalid ''schedule kind must be weekly or dated'')
      else if rune_count (cs_name p) > name_max_length
        then Some (sched_invalid ''schedule name must be 100 characters or fewer'')
      else if contains_control (cs_name p)
        then Some (sched_invalid ''schedule name contains unsupported control characters'')
      else if \<not> valid_timezone tz (cs_timezone p)
        then Some (sched_invalid ''timezone must be a valid IANA timezone name'')
      else if length (cs_reason p) > reason_max_length
        then Some (sched_invalid ''freeze reason must be 500 characters or fewer'')
      else if contains_control (cs_reason p)
        then Some (sched_invalid ''freeze reason contains unsupported control characters'')
      else None)"

definition require_schedule_enforcement :: "int \<Rightarrow> unit go" where
  "require_schedule_enforcement repo =
     bind (attempt (query_row (\<lambda>d. filter (\<lambda>r. repo_id r = repo \<and> repo_active r
         \<and> repo_enforcement r = EnforcementActive) (tb_repositories d)))) (\<lambda>r. case r of
       Inl e \<Rightarrow> if e = NoRows then fail (sched_invalid enforcement_not_active_message) else fail e
     | Inr _ \<Rightarrow> ret ())"

definition require_managed_branch :: "int \<Rightarrow> string \<Rightarrow> unit go" where
  "require_managed_branch repo branch =
     bind (attempt (query_row (\<lambda>d. filter (\<lambda>b. rb_repository_id b = repo \<and> rb_name b = branch)
         (tb_branches d)))) (\<lambda>r. case r of
       Inl e \<Rightarrow> if e = NoRows then fail (sched_invalid branch_not_managed_message) else fail e
     | Inr _ \<Rightarrow> ret ())"

subsection \<open>Schedules\<close>

definition get_schedule_for_scope :: "read_scope \<Rightarrow> int \<Rightarrow> schedule go" where
  "get_schedule_for_scope s i =
     bind (attempt (query_row (\<lambda>d. filter (\<lambda>r. sc_id r = i \<and> scope_allows s (Some (sc_repository_id r)))
       (tb_schedules d)))) (\<lambda>r. case r of
       Inl e \<Rightarrow> if e = NoRows then fail NotFound else fail e
     | Inr x \<Rightarrow> ret x)"

definition get_schedule :: "int \<Rightarrow> schedule go" where
  "get_schedule i = get_schedule_for_scope all_repositories i"

definition list_schedules_for_scope :: "read_scope \<Rightarrow> schedule list go" where
  "list_schedules_for_scope s = query (\<lambda>d. sort_key (\<lambda>r. (sc_repository_id r, sc_branch r, sc_name r))
     (filter (\<lambda>r. scope_allows s (Some (sc_repository_id r))) (tb_schedules d)))"

definition list_schedules :: "schedule list go" where
  "list_schedules = list_schedules_for_scope all_repositories"

text \<open>\<open>UNIQUE (repository_id, branch, name)\<close>, and the foreign keys.\<close>

definition same_name :: "schedule_create \<Rightarrow> schedule \<Rightarrow> bool" where
  "same_name p r \<longleftrightarrow> sc_repository_id r = cs_repository_id p \<and> sc_branch r = cs_branch p
     \<and> sc_name r = cs_name p"

definition insert_schedule :: "schedule_create \<Rightarrow> instant \<Rightarrow> int go" where
  "insert_schedule p now = sql (\<lambda>d.
     if list_ex (same_name p) (tb_schedules d)
       then (Inl (sched_invalid ''a schedule with this name already exists for this branch''), d)
     else if cs_repository_id p \<notin> set (map repo_id (tb_repositories d))
          \<or> \<not> references (cs_created_by p) (tb_users d)
       then (Inl DbError, d)
     else let i = fresh_id (map sc_id (tb_schedules d)) in
       (Inr i, d \<lparr>tb_schedules := tb_schedules d @ [\<lparr>sc_id = i, sc_repository_id = cs_repository_id p,
          sc_branch = cs_branch p, sc_name = cs_name p, sc_kind = cs_kind p,
          sc_timezone = cs_timezone p, sc_reason = cs_reason p, sc_active = False,
          sc_suppressed_until = None, sc_created_by = cs_created_by p,
          sc_created_by_kind = cs_created_by_kind p, sc_created_at = now, sc_updated_at = now\<rparr>]\<rparr>))"

definition create_schedule :: "(string \<Rightarrow> zone option) \<Rightarrow> schedule_create \<Rightarrow> schedule go" where
  "create_schedule tz params =
     (let p = normalize_schedule_create params in
      when_invalid (validate_schedule_create tz p) (
      bind (require_schedule_enforcement (cs_repository_id p)) (\<lambda>_.
      bind (require_managed_branch (cs_repository_id p) (cs_branch p)) (\<lambda>_.
      bind now_utc (\<lambda>now.
      bind (insert_schedule p now) get_schedule)))))"

text \<open>
  \<open>DELETE FROM schedules\<close>: the rules and windows go with it, and a freeze it materialized loses
  its link (\<open>ON DELETE CASCADE\<close>, \<open>ON DELETE SET NULL\<close>).
\<close>

definition remove_schedule :: "int \<Rightarrow> db \<Rightarrow> int \<times> db" where
  "remove_schedule i d =
     (case delete_where (\<lambda>r. sc_id r = i) (tb_schedules d) of (affected, rows) \<Rightarrow>
       (affected, d \<lparr>tb_schedules := rows,
          tb_rules := snd (delete_where (\<lambda>r. wr_schedule_id r = i) (tb_rules d)),
          tb_windows := snd (delete_where (\<lambda>r. dw_schedule_id r = i) (tb_windows d)),
          tb_freezes := snd (update_where (\<lambda>r. fz_schedule_id r = Some i)
            (\<lambda>r. r \<lparr>fz_schedule_id := None\<rparr>) (tb_freezes d))\<rparr>))"

definition delete_schedule :: "int \<Rightarrow> schedule go" where
  "delete_schedule i =
     bind (get_schedule i) (\<lambda>sched.
     bind (exec (remove_schedule i)) (\<lambda>affected.
     if affected = 0 then fail NotFound else ret sched))"

definition update_schedules :: "(schedule \<Rightarrow> bool) \<Rightarrow> (schedule \<Rightarrow> schedule) \<Rightarrow> int go" where
  "update_schedules p f = exec (\<lambda>d. case update_where p f (tb_schedules d) of
     (affected, rows) \<Rightarrow> (affected, d \<lparr>tb_schedules := rows\<rparr>))"

definition set_schedule_active :: "int \<Rightarrow> bool \<Rightarrow> schedule go" where
  "set_schedule_active i active =
     bind now_utc (\<lambda>now.
     bind (update_schedules (\<lambda>r. sc_id r = i \<and> sc_active r \<noteq> active)
       (\<lambda>r. r \<lparr>sc_active := active, sc_suppressed_until := None, sc_updated_at := now\<rparr>)) (\<lambda>affected.
     if affected = 0 then
       bind (get_schedule i) (\<lambda>_.
       if active then fail (sched_invalid ''schedule is already active'')
       else fail (sched_invalid ''schedule is already paused''))
     else get_schedule i))"

definition suppress_schedule :: "int \<Rightarrow> instant \<Rightarrow> schedule go" where
  "suppress_schedule i til =
     bind now_utc (\<lambda>now.
     bind (update_schedules (\<lambda>r. sc_id r = i)
       (\<lambda>r. r \<lparr>sc_suppressed_until := Some til, sc_updated_at := now\<rparr>)) (\<lambda>affected.
     if affected = 0 then fail NotFound else get_schedule i))"

subsection \<open>Weekly rules\<close>

definition end_day_same :: string where
  "end_day_same = ''same''"
definition end_day_next :: string where
  "end_day_next = ''next''"
definition end_day_specific :: string where
  "end_day_specific = ''specific''"

record rules_add =
  ru_schedule_id :: int
  ru_weekdays :: "int list"
  ru_start_time :: string
  ru_end_time :: string
  ru_end_day_mode :: string
  ru_end_weekday :: int

definition rule_order :: "weekly_rule \<Rightarrow> int \<times> string \<times> int \<times> string" where
  "rule_order r = ((wr_start_weekday r + 6) mod 7, wr_start_time r,
     (wr_end_weekday r + 6) mod 7, wr_end_time r)"

definition list_rules :: "int \<Rightarrow> weekly_rule list go" where
  "list_rules schedule_id = query (\<lambda>d. sort_key rule_order
     (filter (\<lambda>r. wr_schedule_id r = schedule_id) (tb_rules d)))"

definition normalize_rules_add :: "rules_add \<Rightarrow> rules_add" where
  "normalize_rules_add p = p \<lparr>ru_start_time := trim_space (ru_start_time p),
     ru_end_time := trim_space (ru_end_time p), ru_end_day_mode := trim_space (ru_end_day_mode p)\<rparr>"

definition rule_end_weekday :: "int \<Rightarrow> rules_add \<Rightarrow> int" where
  "rule_end_weekday start p =
     (if ru_end_day_mode p = end_day_same then start
      else if ru_end_day_mode p = end_day_next then (start + 1) mod 7
      else ru_end_weekday p)"

definition is_weekday :: "int \<Rightarrow> bool" where
  "is_weekday d \<longleftrightarrow> 0 \<le> d \<and> d \<le> 6"

fun check_weekdays :: "int list \<Rightarrow> int list \<Rightarrow> go_error option" where
  "check_weekdays seen [] = None"
| "check_weekdays seen (d # ds) =
     (if \<not> is_weekday d then Some (sched_invalid ''day must be a weekday between Sunday and Saturday'')
      else if d \<in> set seen then Some (sched_invalid ''each day can only be selected once'')
      else check_weekdays (d # seen) ds)"

definition validate_rules_add :: "rules_add \<Rightarrow> go_error option" where
  "validate_rules_add p =
     (if ru_schedule_id p \<le> 0 then Some (sched_invalid ''missing required fields: schedule'')
      else if ru_weekdays p = [] then Some (sched_invalid ''select at least one day'')
      else case check_weekdays [] (ru_weekdays p) of Some e \<Rightarrow> Some e | None \<Rightarrow>
      (case parse_wall_minutes (ru_start_time p) of
         None \<Rightarrow> Some (sched_invalid ''start time must be a valid HH:MM time'')
       | Some start_minutes \<Rightarrow>
      (case parse_wall_minutes (ru_end_time p) of
         None \<Rightarrow> Some (sched_invalid ''end time must be a valid HH:MM time'')
       | Some end_minutes \<Rightarrow>
         if ru_end_day_mode p = end_day_specific \<and> \<not> is_weekday (ru_end_weekday p)
           then Some (sched_invalid ''end day must be a weekday between Sunday and Saturday'')
         else if ru_end_day_mode p \<notin> set [end_day_same, end_day_next, end_day_specific]
           then Some (sched_invalid ''end day must be same day, next day, or a specific day'')
         else if list_ex (\<lambda>d. week_minutes d start_minutes
               = week_minutes (rule_end_weekday d p) end_minutes) (ru_weekdays p)
           then Some (sched_invalid ''a rule's end must differ from its start'')
         else None)))"

definition rule_for :: "rules_add \<Rightarrow> instant \<Rightarrow> int \<Rightarrow> int \<Rightarrow> weekly_rule" where
  "rule_for p now i d = \<lparr>wr_id = i, wr_schedule_id = ru_schedule_id p, wr_start_weekday = d,
     wr_start_time = ru_start_time p, wr_end_weekday = rule_end_weekday d p,
     wr_end_time = ru_end_time p, wr_created_at = now\<rparr>"

definition same_rule :: "rules_add \<Rightarrow> int \<Rightarrow> weekly_rule \<Rightarrow> bool" where
  "same_rule p d r \<longleftrightarrow> wr_schedule_id r = ru_schedule_id p \<and> wr_start_weekday r = d
     \<and> wr_start_time r = ru_start_time p \<and> wr_end_weekday r = rule_end_weekday d p
     \<and> wr_end_time r = ru_end_time p"

text \<open>The one \<open>INSERT\<close>: the rows of its \<open>VALUES\<close> in order, all of them or none.\<close>

fun insert_rules :: "rules_add \<Rightarrow> instant \<Rightarrow> int list \<Rightarrow> weekly_rule list \<Rightarrow> weekly_rule list option" where
  "insert_rules p now [] rows = Some rows"
| "insert_rules p now (d # ds) rows =
     (if list_ex (same_rule p d) rows then None
      else insert_rules p now ds (rows @ [rule_for p now (fresh_id (map wr_id rows)) d]))"

definition add_rules :: "rules_add \<Rightarrow> weekly_rule list go" where
  "add_rules params =
     (let p = normalize_rules_add params in
      when_invalid (validate_rules_add p) (
      bind (get_schedule (ru_schedule_id p)) (\<lambda>sched.
      if sc_kind sched \<noteq> Weekly
        then fail (sched_invalid ''weekly rules can only be added to a weekly schedule'')
      else bind now_utc (\<lambda>now.
      bind (sql (\<lambda>d. case insert_rules p now (ru_weekdays p) (tb_rules d) of
          None \<Rightarrow> (Inl (sched_invalid ''an identical rule already exists on this schedule''), d)
        | Some rows \<Rightarrow>
            if ru_schedule_id p \<notin> set (map sc_id (tb_schedules d)) then (Inl DbError, d)
            else (Inr (), d \<lparr>tb_rules := rows\<rparr>))) (\<lambda>_.
      for_each (\<lambda>wd. query_row (\<lambda>d. filter (same_rule p wd) (tb_rules d))) (ru_weekdays p))))))"

definition delete_rule :: "int \<Rightarrow> int \<Rightarrow> weekly_rule go" where
  "delete_rule schedule_id rule_id =
     (let it = (\<lambda>r. wr_id r = rule_id \<and> wr_schedule_id r = schedule_id) in
      bind (attempt (query_row (\<lambda>d. filter it (tb_rules d)))) (\<lambda>r. case r of
        Inl e \<Rightarrow> if e = NoRows then fail RuleNotFound else fail e
      | Inr rule \<Rightarrow>
          bind (exec (\<lambda>d. case delete_where it (tb_rules d) of (n, rows) \<Rightarrow> (n, d \<lparr>tb_rules := rows\<rparr>)))
            (\<lambda>affected. if affected = 0 then fail RuleNotFound else ret rule)))"

subsection \<open>Dated windows\<close>

record window_add =
  wa_schedule_id :: int
  wa_name :: string
  wa_starts_at :: string
  wa_ends_at :: string

definition list_windows :: "int \<Rightarrow> dated_window list go" where
  "list_windows schedule_id = query (\<lambda>d. sort_key (\<lambda>w. (dw_starts_at w, dw_ends_at w, dw_name w))
     (filter (\<lambda>w. dw_schedule_id w = schedule_id) (tb_windows d)))"

definition normalize_window_add :: "window_add \<Rightarrow> window_add" where
  "normalize_window_add p = p \<lparr>wa_name := trim_space (wa_name p),
     wa_starts_at := trim_space (wa_starts_at p), wa_ends_at := trim_space (wa_ends_at p)\<rparr>"

definition validate_window_add :: "window_add \<Rightarrow> go_error option" where
  "validate_window_add p =
     (if wa_schedule_id p \<le> 0 then Some (sched_invalid ''missing required fields: schedule'')
      else let missing = (if wa_name p = [] then [''name''] else [])
            @ (if wa_starts_at p = [] then [''start''] else [])
            @ (if wa_ends_at p = [] then [''end''] else []) in
      if missing \<noteq> [] then Some (missing_fields missing)
      else if rune_count (wa_name p) > name_max_length
        then Some (sched_invalid ''window name must be 100 characters or fewer'')
      else if contains_control (wa_name p)
        then Some (sched_invalid ''window name contains unsupported control characters'')
      else if parse_wall_date_time (wa_starts_at p) = None
        then Some (sched_invalid ''start must be a valid date and time'')
      else if parse_wall_date_time (wa_ends_at p) = None
        then Some (sched_invalid ''end must be a valid date and time'')
      else if wa_ends_at p \<le> wa_starts_at p
        then Some (sched_invalid ''a window's end must be after its start'')
      else None)"

definition insert_window :: "window_add \<Rightarrow> instant \<Rightarrow> unit go" where
  "insert_window p now = sql (\<lambda>d.
     if list_ex (\<lambda>w. dw_schedule_id w = wa_schedule_id p \<and> dw_name w = wa_name p) (tb_windows d)
       then (Inl (sched_invalid ''a window with this name already exists on this schedule''), d)
     else if wa_schedule_id p \<notin> set (map sc_id (tb_schedules d)) then (Inl DbError, d)
     else (Inr (), d \<lparr>tb_windows := tb_windows d @ [\<lparr>dw_id = fresh_id (map dw_id (tb_windows d)),
        dw_schedule_id = wa_schedule_id p, dw_name = wa_name p, dw_starts_at = wa_starts_at p,
        dw_ends_at = wa_ends_at p, dw_created_at = now\<rparr>]\<rparr>))"

definition add_window :: "(string \<Rightarrow> zone option) \<Rightarrow> window_add \<Rightarrow> (dated_window \<times> bool) go" where
  "add_window tz params =
     (let p = normalize_window_add params in
      when_invalid (validate_window_add p) (
      bind (get_schedule (wa_schedule_id p)) (\<lambda>sched.
      if sc_kind sched \<noteq> Dated
        then fail (sched_invalid ''date windows can only be added to a dated schedule'')
      else case resolve_window_bounds tz sched \<lparr>dw_id = 0, dw_schedule_id = sc_id sched, dw_name = [],
          dw_starts_at = wa_starts_at p, dw_ends_at = wa_ends_at p, dw_created_at = zero_time\<rparr> of
        Inl e \<Rightarrow> fail (ExpandFailed e)
      | Inr (start, endt) \<Rightarrow>
          if \<not> endt > start then fail (sched_invalid ''a window's end must be after its start'')
          else bind now_utc (\<lambda>now.
            if \<not> endt > now
              then fail (sched_invalid ''this window has already ended, so it would never freeze anything'')
            else bind (insert_window p now) (\<lambda>_.
              bind (query_row (\<lambda>d. filter (\<lambda>w. dw_schedule_id w = wa_schedule_id p \<and> dw_name w = wa_name p)
                (tb_windows d))) (\<lambda>window.
              ret (window, \<not> start > now)))))))"

definition delete_window :: "int \<Rightarrow> int \<Rightarrow> dated_window go" where
  "delete_window schedule_id window_id =
     (let it = (\<lambda>w. dw_id w = window_id \<and> dw_schedule_id w = schedule_id) in
      bind (attempt (query_row (\<lambda>d. filter it (tb_windows d)))) (\<lambda>r. case r of
        Inl e \<Rightarrow> if e = NoRows then fail WindowNotFound else fail e
      | Inr window \<Rightarrow>
          bind (exec (\<lambda>d. case delete_where it (tb_windows d) of (n, rows) \<Rightarrow> (n, d \<lparr>tb_windows := rows\<rparr>)))
            (\<lambda>affected. if affected = 0 then fail WindowNotFound else ret window)))"

subsection \<open>The materializer's input\<close>

fun load_coverages :: "schedule list \<Rightarrow> coverage list go" where
  "load_coverages [] = ret []"
| "load_coverages (s # ss) =
     (if \<not> sc_active s then load_coverages ss
      else bind (if sc_kind s = Weekly then list_rules (sc_id s) else ret []) (\<lambda>rules.
        bind (if sc_kind s = Dated then list_windows (sc_id s) else ret []) (\<lambda>windows.
        bind (load_coverages ss) (\<lambda>rest.
        ret (\<lparr>cv_schedule = s, cv_rules = rules, cv_windows = windows\<rparr> # rest)))))"

definition list_active_coverages :: "coverage list go" where
  "list_active_coverages = bind list_schedules load_coverages"

end
