(* ===== verification/ScheduleService.thy ===== *)
theory ScheduleService
  imports ScheduleStore FreezeService
begin

text \<open>
  The schedule service (\<open>internal/schedule/service.go\<close>): every change of a schedule with its
  audit event in one transaction; deleting and pausing also end the freeze the schedule keeps
  alive, and ending a materialized freeze by hand suppresses the schedules that cover the branch
  until their current windows are over.
\<close>

definition coverage_lookback :: int where
  "coverage_lookback = 8 * 24 * hour_ns"

definition coverage_horizon :: int where
  "coverage_horizon = 30 * 24 * hour_ns"

subsection \<open>Events\<close>

definition schedule_event :: "schedule \<Rightarrow> actor \<Rightarrow> string \<Rightarrow> audit_event" where
  "schedule_event s actor action =
     new_event actor action subject_type_schedule (format_int (sc_id s))
       (text_field ''actor_kind'' (actor_kind actor) @ text_field ''actor_role'' (actor_role actor)
        @ text_field ''branch'' (sc_branch s) @ text_field ''kind'' (schedule_kind_text (sc_kind s))
        @ text_field ''name'' (sc_name s) @ text_field ''reason'' (sc_reason s)
        @ text_field ''repository_id'' (format_int (sc_repository_id s))
        @ text_field ''timezone'' (sc_timezone s))"

text \<open>\<open>time.Weekday.String\<close>.\<close>

definition weekday_name :: "int \<Rightarrow> string" where
  "weekday_name d =
     (if 0 \<le> d \<and> d \<le> 6
      then [''Sunday'', ''Monday'', ''Tuesday'', ''Wednesday'', ''Thursday'', ''Friday'', ''Saturday''] ! nat d
      else ''%!Weekday('' @ format_int (d mod 2 ^ 64) @ '')'')"

definition weekday_short :: "int \<Rightarrow> string" where
  "weekday_short d = take 3 (weekday_name d)"

definition rule_end_day_label :: "weekly_rule \<Rightarrow> weekly_rule list \<Rightarrow> string" where
  "rule_end_day_label first rules =
     (if list_all (\<lambda>r. rule_wrap_days r = 0) rules then ''same day''
      else if list_all (\<lambda>r. rule_wrap_days r = 1) rules then ''next day''
      else weekday_name (wr_end_weekday first))"

text \<open>The event reads \<open>rules[0]\<close>, which panics on an empty slice.\<close>

definition schedule_rules_event ::
    "schedule \<Rightarrow> weekly_rule list \<Rightarrow> actor \<Rightarrow> string \<Rightarrow> audit_event go" where
  "schedule_rules_event s rules actor action = (case rules of
     [] \<Rightarrow> fail Panics
   | first # _ \<Rightarrow> ret (new_event actor action subject_type_schedule (format_int (sc_id s))
       (text_field ''actor_kind'' (actor_kind actor) @ text_field ''actor_role'' (actor_role actor)
        @ text_field ''branch'' (sc_branch s)
        @ text_field ''days'' (join_with '', '' (map (\<lambda>r. weekday_short (wr_start_weekday r)) rules))
        @ text_field ''end_day'' (rule_end_day_label first rules)
        @ text_field ''end_time'' (wr_end_time first)
        @ text_field ''name'' (sc_name s)
        @ text_field ''repository_id'' (format_int (sc_repository_id s))
        @ text_field ''start_time'' (wr_start_time first))))"

definition schedule_window_event :: "schedule \<Rightarrow> dated_window \<Rightarrow> actor \<Rightarrow> string \<Rightarrow> audit_event" where
  "schedule_window_event s window actor action =
     new_event actor action subject_type_schedule (format_int (sc_id s))
       (text_field ''actor_kind'' (actor_kind actor) @ text_field ''actor_role'' (actor_role actor)
        @ text_field ''branch'' (sc_branch s) @ text_field ''ends_at'' (dw_ends_at window)
        @ text_field ''name'' (sc_name s)
        @ text_field ''repository_id'' (format_int (sc_repository_id s))
        @ text_field ''starts_at'' (dw_starts_at window)
        @ text_field ''window_name'' (dw_name window))"

definition schedule_suppressed_event ::
    "schedule \<Rightarrow> branch_freeze \<Rightarrow> instant \<Rightarrow> instant option \<Rightarrow> actor \<Rightarrow> audit_event" where
  "schedule_suppressed_event s ended til resumes_at actor =
     new_event actor action_schedule_suppressed subject_type_schedule (format_int (sc_id s))
       (text_field ''actor_kind'' (actor_kind actor) @ text_field ''actor_role'' (actor_role actor)
        @ text_field ''branch'' (sc_branch s)
        @ text_field ''ended_freeze_id'' (format_int (fr_id ended))
        @ text_field ''name'' (sc_name s)
        @ text_field ''repository_id'' (format_int (sc_repository_id s))
        @ optional_field ''resumes_at'' rfc3339_nano resumes_at
        @ text_field ''suppressed_until'' (rfc3339_nano til))"

subsection \<open>Schedules\<close>

definition with_schedule_audit :: "actor \<Rightarrow> string \<Rightarrow> schedule go \<Rightarrow> schedule go" where
  "with_schedule_audit actor action mutate = transact (
     bind mutate (\<lambda>mutated.
     bind (record_event (schedule_event mutated actor action)) (\<lambda>_.
     ret mutated)))"

definition schedule_service_create ::
    "(string \<Rightarrow> zone option) \<Rightarrow> schedule_create \<Rightarrow> actor \<Rightarrow> schedule go" where
  "schedule_service_create tz params actor =
     with_schedule_audit actor action_schedule_created (create_schedule tz
       (params \<lparr>cs_created_by := actor_user_id actor, cs_created_by_kind := actor_kind actor\<rparr>))"

definition schedule_service_delete :: "int \<Rightarrow> actor \<Rightarrow> schedule go" where
  "schedule_service_delete i actor = transact (
     bind (close_linked_active_tx i actor) (\<lambda>_.
     bind (delete_schedule i) (\<lambda>deleted.
     bind (record_event (schedule_event deleted actor action_schedule_deleted)) (\<lambda>_.
     ret deleted))))"

definition activate_schedule :: "int \<Rightarrow> schedule go" where
  "activate_schedule i =
     bind (get_schedule i) (\<lambda>s. case sc_kind s of
       Weekly \<Rightarrow> bind (list_rules i) (\<lambda>rules.
         if rules = [] then fail (sched_invalid ''add at least one rule before activating'')
         else set_schedule_active i True)
     | Dated \<Rightarrow> bind (list_windows i) (\<lambda>windows.
         if windows = [] then fail (sched_invalid ''add at least one date window before activating'')
         else set_schedule_active i True)
     | OtherKind _ \<Rightarrow> set_schedule_active i True)"

definition schedule_service_activate :: "int \<Rightarrow> actor \<Rightarrow> schedule go" where
  "schedule_service_activate i actor =
     with_schedule_audit actor action_schedule_activated (activate_schedule i)"

definition schedule_service_pause :: "int \<Rightarrow> actor \<Rightarrow> schedule go" where
  "schedule_service_pause i actor = transact (
     bind (set_schedule_active i False) (\<lambda>paused.
     bind (record_event (schedule_event paused actor action_schedule_paused)) (\<lambda>_.
     bind (close_linked_active_tx i actor) (\<lambda>_.
     ret paused))))"

subsection \<open>Rules and windows\<close>

definition schedule_service_add_rules :: "rules_add \<Rightarrow> actor \<Rightarrow> weekly_rule list go" where
  "schedule_service_add_rules params actor = transact (
     bind (add_rules params) (\<lambda>added.
     bind (get_schedule (ru_schedule_id params)) (\<lambda>s.
     bind (schedule_rules_event s added actor action_schedule_rules_added) (\<lambda>event.
     bind (record_event event) (\<lambda>_.
     ret added)))))"

definition schedule_service_delete_rule :: "int \<Rightarrow> int \<Rightarrow> actor \<Rightarrow> weekly_rule go" where
  "schedule_service_delete_rule i rule_id actor = transact (
     bind (get_schedule i) (\<lambda>s.
     bind (delete_rule i rule_id) (\<lambda>removed.
     bind (schedule_rules_event s [removed] actor action_schedule_rule_removed) (\<lambda>event.
     bind (record_event event) (\<lambda>_.
     ret removed)))))"

definition schedule_service_add_window ::
    "(string \<Rightarrow> zone option) \<Rightarrow> window_add \<Rightarrow> actor \<Rightarrow> (dated_window \<times> bool) go" where
  "schedule_service_add_window tz params actor = transact (
     bind (add_window tz params) (\<lambda>(added, already_started).
     bind (get_schedule (wa_schedule_id params)) (\<lambda>s.
     bind (record_event (schedule_window_event s added actor action_schedule_window_added)) (\<lambda>_.
     ret (added, already_started)))))"

definition schedule_service_delete_window :: "int \<Rightarrow> int \<Rightarrow> actor \<Rightarrow> dated_window go" where
  "schedule_service_delete_window i window_id actor = transact (
     bind (get_schedule i) (\<lambda>s.
     bind (delete_window i window_id) (\<lambda>removed.
     bind (record_event (schedule_window_event s removed actor action_schedule_window_removed)) (\<lambda>_.
     ret removed))))"

subsection \<open>Ending a materialized freeze\<close>

definition containing_segment :: "segment list \<Rightarrow> int \<Rightarrow> instant \<Rightarrow> segment option" where
  "containing_segment segs schedule_id at =
     List.find (\<lambda>s. sg_schedule_id s = schedule_id \<and> \<not> iv_start s > at \<and> iv_end s > at) segs"

definition next_segment_start :: "segment list \<Rightarrow> int \<Rightarrow> instant \<Rightarrow> instant option" where
  "next_segment_start segs schedule_id begins =
     map_option iv_start (List.find (\<lambda>s. sg_schedule_id s = schedule_id \<and> \<not> iv_start s < begins) segs)"

definition expanded ::
    "(string \<Rightarrow> zone option) \<Rightarrow> coverage list \<Rightarrow> instant \<Rightarrow> instant \<Rightarrow> segment list go" where
  "expanded tz covs from til = (case expand_coverage tz covs from til of
     None \<Rightarrow> fail Diverges
   | Some (Inl e) \<Rightarrow> fail (ExpandFailed e)
   | Some (Inr (segs, _)) \<Rightarrow> ret segs)"

fun suppress_each ::
    "segment list \<Rightarrow> branch_freeze \<Rightarrow> instant \<Rightarrow> actor \<Rightarrow> coverage list \<Rightarrow> unit go" where
  "suppress_each segs closed now actor [] = ret ()"
| "suppress_each segs closed now actor (c # cs) =
     (case containing_segment segs (sc_id (cv_schedule c)) now of
        None \<Rightarrow> suppress_each segs closed now actor cs
      | Some current \<Rightarrow>
          bind (suppress_schedule (sc_id (cv_schedule c)) (iv_end current)) (\<lambda>suppressed.
          bind (record_event (schedule_suppressed_event suppressed closed (iv_end current)
            (next_segment_start segs (sc_id (cv_schedule c)) (iv_end current)) actor)) (\<lambda>_.
          suppress_each segs closed now actor cs)))"

definition on_branch :: "int \<Rightarrow> string \<Rightarrow> schedule \<Rightarrow> bool" where
  "on_branch repo branch s \<longleftrightarrow> sc_repository_id s = repo \<and> sc_branch s = branch"

definition end_materialized_freeze ::
    "(string \<Rightarrow> zone option) \<Rightarrow> int \<Rightarrow> actor \<Rightarrow> branch_freeze go" where
  "end_materialized_freeze tz freeze_id actor = transact (
     bind (close_active_tx freeze_id actor FreezeEnded) (\<lambda>closed.
     if fr_schedule_id closed = None
       then fail (sched_invalid ''freeze was not created by a recurring schedule'')
     else bind list_active_coverages (\<lambda>coverages.
       let branch_coverages = filter (\<lambda>c. on_branch (fr_repository_id closed) (fr_branch closed)
             (cv_schedule c)) coverages in
       bind now_utc (\<lambda>now.
       bind (expanded tz branch_coverages (now - coverage_lookback) (now + coverage_horizon)) (\<lambda>segs.
       bind (suppress_each segs closed now actor branch_coverages) (\<lambda>_.
       ret closed))))))"

end
