(* ===== verification/ScheduleFacts.thy ===== *)
theory ScheduleFacts
  imports ScheduleStore Expansion
begin

text \<open>
  What the schedule store guarantees: identifiers and names stay unique, every rule and window
  belongs to a schedule of its kind, and everything that is stored can be expanded.
\<close>

subsection \<open>Acting on what was found\<close>

definition finds :: "('a \<Rightarrow> db \<Rightarrow> bool) \<Rightarrow> 'a go \<Rightarrow> bool" where
  "finds P m \<longleftrightarrow> (\<forall>w. tables (snd (m w)) = tables w
     \<and> (case fst (m w) of Inl _ \<Rightarrow> True | Inr x \<Rightarrow> P x (tables w)))"

context table_relation begin

lemma bind_found:
  assumes "finds P m" and "\<And>x. within (guarded (P x) R) (f x)"
  shows "within R (World.bind m f)"
  unfolding within_def
proof
  fix w
  obtain r w1 where m: "m w = (r, w1)" by (cases "m w")
  with assms(1) have t: "tables w1 = tables w" and r: "case r of Inl _ \<Rightarrow> True | Inr x \<Rightarrow> P x (tables w)"
    unfolding finds_def by (metis fst_conv snd_conv)+
  show "R (tables w) (tables (snd (World.bind m f w)))"
  proof (cases r)
    case (Inr x)
    from assms(2) have "guarded (P x) R (tables w1) (tables (snd (f x w1)))" by (simp add: within_def)
    with Inr t r show ?thesis by (simp add: World.bind_def m guarded_def)
  qed (use t in \<open>simp add: World.bind_def m refl\<close>)
qed

end

interpretation kept: guarded_relation "keeps I" P for I P
  by unfold_locales

definition has_schedule :: "schedule \<Rightarrow> db \<Rightarrow> bool" where
  "has_schedule s d \<longleftrightarrow> s \<in> set (tb_schedules d)"

lemma get_schedule_finds: "finds (\<lambda>s d. has_schedule s d \<and> sc_id s = i) (get_schedule i)"
  by (auto simp: finds_def get_schedule_def get_schedule_for_scope_def has_schedule_def world_defs
      split: list.split if_splits) (metis (mono_tags, lifting) filter_eq_Cons_iff in_set_conv_decomp)+

subsection \<open>The invariant\<close>

definition schedule_key :: "schedule \<Rightarrow> int \<times> string \<times> string" where
  "schedule_key s = (sc_repository_id s, sc_branch s, sc_name s)"

definition schedule_ok :: "(string \<Rightarrow> zone option) \<Rightarrow> schedule \<Rightarrow> bool" where
  "schedule_ok tz s \<longleftrightarrow> 0 < sc_repository_id s \<and> sc_branch s \<noteq> [] \<and> sc_name s \<noteq> []
     \<and> schedule_kind_valid (sc_kind s) \<and> rune_count (sc_name s) \<le> name_max_length
     \<and> \<not> contains_control (sc_name s) \<and> valid_timezone tz (sc_timezone s)
     \<and> length (sc_reason s) \<le> reason_max_length \<and> \<not> contains_control (sc_reason s)"

definition of_kind :: "db \<Rightarrow> int \<Rightarrow> schedule_kind \<Rightarrow> bool" where
  "of_kind d i k \<longleftrightarrow> (\<exists>s \<in> set (tb_schedules d). sc_id s = i \<and> sc_kind s = k)"

definition rule_key :: "weekly_rule \<Rightarrow> int \<times> int \<times> string \<times> int \<times> string" where
  "rule_key r = (wr_schedule_id r, wr_start_weekday r, wr_start_time r, wr_end_weekday r, wr_end_time r)"

definition window_key :: "dated_window \<Rightarrow> int \<times> string" where
  "window_key w = (dw_schedule_id w, dw_name w)"

definition rules_ok :: "db \<Rightarrow> weekly_rule list \<Rightarrow> bool" where
  "rules_ok d rows \<longleftrightarrow> distinct (map wr_id rows) \<and> distinct (map rule_key rows)
     \<and> (\<forall>r \<in> set rows. valid_rule r \<and> of_kind d (wr_schedule_id r) Weekly)"

definition windows_ok :: "db \<Rightarrow> dated_window list \<Rightarrow> bool" where
  "windows_ok d rows \<longleftrightarrow> distinct (map dw_id rows) \<and> distinct (map window_key rows)
     \<and> (\<forall>w \<in> set rows. valid_window w \<and> dw_starts_at w < dw_ends_at w
          \<and> of_kind d (dw_schedule_id w) Dated)"

definition schedules_ok :: "(string \<Rightarrow> zone option) \<Rightarrow> db \<Rightarrow> bool" where
  "schedules_ok tz d \<longleftrightarrow> distinct (map sc_id (tb_schedules d)) \<and> distinct (map schedule_key (tb_schedules d))
     \<and> (\<forall>s \<in> set (tb_schedules d). schedule_ok tz s)
     \<and> rules_ok d (tb_rules d) \<and> windows_ok d (tb_windows d)"

abbreviation keeps_schedules :: "(string \<Rightarrow> zone option) \<Rightarrow> db \<Rightarrow> db \<Rightarrow> bool" where
  "keeps_schedules tz \<equiv> keeps (schedules_ok tz)"

subsection \<open>Schedules\<close>

lemma of_kind_append: "of_kind d i k \<Longrightarrow> of_kind (d \<lparr>tb_schedules := tb_schedules d @ [s]\<rparr>) i k" for d :: db
  by (auto simp: of_kind_def)

lemma rules_ok_mono: "rules_ok d rows \<Longrightarrow> (\<And>i k. of_kind d i k \<Longrightarrow> of_kind d' i k) \<Longrightarrow> rules_ok d' rows"
  by (auto simp: rules_ok_def)

lemma windows_ok_mono: "windows_ok d rows \<Longrightarrow> (\<And>i k. of_kind d i k \<Longrightarrow> of_kind d' i k) \<Longrightarrow> windows_ok d' rows"
  by (auto simp: windows_ok_def)

lemma insert_schedule_keeps:
  assumes "validate_schedule_create tz p = None"
  shows "within (keeps_schedules tz) (insert_schedule p now)"
  unfolding insert_schedule_def
proof (rule keeps.sql)
  fix d :: db
  let ?i = "fresh_id (map sc_id (tb_schedules d))"
  let ?s = "\<lparr>sc_id = ?i, sc_repository_id = cs_repository_id p, sc_branch = cs_branch p,
     sc_name = cs_name p, sc_kind = cs_kind p, sc_timezone = cs_timezone p, sc_reason = cs_reason p,
     sc_active = False, sc_suppressed_until = None, sc_created_by = cs_created_by p,
     sc_created_by_kind = cs_created_by_kind p, sc_created_at = now, sc_updated_at = now\<rparr>"
  have ok: "schedule_ok tz ?s"
    using assms by (auto simp: schedule_ok_def validate_schedule_create_def Let_def split: if_splits)
  have "schedules_ok tz (d \<lparr>tb_schedules := tb_schedules d @ [?s]\<rparr>)"
    if "schedules_ok tz d" and "\<not> list_ex (same_name p) (tb_schedules d)"
  proof -
    have "schedule_key ?s \<notin> set (map schedule_key (tb_schedules d))"
      using that(2) by (auto simp: schedule_key_def same_name_def list_ex_iff)
    moreover have "?i \<notin> set (map sc_id (tb_schedules d))" by (rule fresh_id_new)
    ultimately show ?thesis
      using that(1) ok rules_ok_mono [OF _ of_kind_append] windows_ok_mono [OF _ of_kind_append]
      unfolding schedules_ok_def by auto
  qed
  then show "keeps_schedules tz d (snd (if list_ex (same_name p) (tb_schedules d)
       then (Inl (sched_invalid ''a schedule with this name already exists for this branch''), d)
     else if cs_repository_id p \<notin> set (map repo_id (tb_repositories d))
          \<or> \<not> references (cs_created_by p) (tb_users d)
       then (Inl DbError, d)
     else let i = fresh_id (map sc_id (tb_schedules d)) in
       (Inr i, d \<lparr>tb_schedules := tb_schedules d @ [\<lparr>sc_id = i, sc_repository_id = cs_repository_id p,
          sc_branch = cs_branch p, sc_name = cs_name p, sc_kind = cs_kind p,
          sc_timezone = cs_timezone p, sc_reason = cs_reason p, sc_active = False,
          sc_suppressed_until = None, sc_created_by = cs_created_by p,
          sc_created_by_kind = cs_created_by_kind p, sc_created_at = now, sc_updated_at = now\<rparr>]\<rparr>)))"
    by (simp add: keeps_def Let_def)
qed

lemma update_schedules_keeps:
  assumes "\<And>r. schedule_key (f r) = schedule_key r \<and> sc_id (f r) = sc_id r \<and> sc_kind (f r) = sc_kind r
     \<and> schedule_ok tz (f r) = schedule_ok tz r"
  shows "within (keeps_schedules tz) (update_schedules p f)"
  unfolding update_schedules_def
proof (rule keeps.exec)
  fix d :: db
  let ?rows = "snd (update_where p f (tb_schedules d))"
  have maps: "map sc_id ?rows = map sc_id (tb_schedules d)"
    "map schedule_key ?rows = map schedule_key (tb_schedules d)"
    using assms by (simp_all add: map_update_where)
  have "of_kind (d \<lparr>tb_schedules := ?rows\<rparr>) i k" if k: "of_kind d i k" for i k
  proof -
    from k obtain s where s: "s \<in> set (tb_schedules d)" "sc_id s = i" "sc_kind s = k"
      by (auto simp: of_kind_def)
    then have "(if p s then f s else s) \<in> set ?rows" by (auto simp: update_where_def)
    moreover have "sc_id (if p s then f s else s) = i \<and> sc_kind (if p s then f s else s) = k"
      using s assms by simp
    moreover have "tb_schedules (d \<lparr>tb_schedules := rows\<rparr>) = rows" for rows by simp
    ultimately show ?thesis unfolding of_kind_def by metis
  qed
  then show "keeps_schedules tz d (snd (case update_where p f (tb_schedules d) of
      (affected, rows) \<Rightarrow> (affected, d \<lparr>tb_schedules := rows\<rparr>)))"
    using assms maps by (auto simp: keeps_def schedules_ok_def split_beta update_where_set
        intro: rules_ok_mono windows_ok_mono)
qed

lemma distinct_map_filter_keeps: "distinct (map f xs) \<Longrightarrow> distinct (map f (filter p xs))"
  by (rule distinct_map_filter)

lemma remove_schedule_keeps: "within (keeps_schedules tz) (exec (remove_schedule i))"
proof (rule keeps.exec)
  fix d :: db
  let ?d' = "snd (remove_schedule i d)"
  have rows: "tb_schedules ?d' = filter (\<lambda>r. sc_id r \<noteq> i) (tb_schedules d)"
    "tb_rules ?d' = filter (\<lambda>r. wr_schedule_id r \<noteq> i) (tb_rules d)"
    "tb_windows ?d' = filter (\<lambda>r. dw_schedule_id r \<noteq> i) (tb_windows d)"
    by (simp_all add: remove_schedule_def delete_where_def)
  have "of_kind d j k \<Longrightarrow> j \<noteq> i \<Longrightarrow> of_kind ?d' j k" for j k
    by (auto simp: of_kind_def rows)
  then show "keeps_schedules tz d (snd (remove_schedule i d))"
    by (auto simp: keeps_def schedules_ok_def rules_ok_def windows_ok_def rows distinct_map_filter)
qed

subsection \<open>Rules\<close>

lemma check_weekdays_valid: "check_weekdays seen ds = None \<Longrightarrow> d \<in> set ds \<Longrightarrow> is_weekday d"
  by (induction seen ds rule: check_weekdays.induct) (auto split: if_splits)

lemma rule_for_valid:
  assumes "validate_rules_add p = None" and "d \<in> set (ru_weekdays p)"
  shows "valid_rule (rule_for p now i d)"
proof -
  from assms(1) have days: "check_weekdays [] (ru_weekdays p) = None"
    and times: "parse_wall_minutes (ru_start_time p) \<noteq> None" "parse_wall_minutes (ru_end_time p) \<noteq> None"
    and mode: "ru_end_day_mode p = end_day_specific \<longrightarrow> is_weekday (ru_end_weekday p)"
      "ru_end_day_mode p \<in> {end_day_same, end_day_next, end_day_specific}"
    by (auto simp: validate_rules_add_def split: if_splits option.splits)
  have d: "is_weekday d" by (rule check_weekdays_valid [OF days assms(2)])
  then have "is_weekday (rule_end_weekday d p)"
    using mode unfolding rule_end_weekday_def by (auto simp: is_weekday_def)
  with d times show ?thesis by (auto simp: valid_rule_def rule_for_def is_weekday_def)
qed

lemma insert_rules_ok:
  assumes "insert_rules p now ds rows = Some rows'" and "rules_ok d rows"
    and "\<And>i day. day \<in> set ds \<Longrightarrow> valid_rule (rule_for p now i day)"
    and "of_kind d (ru_schedule_id p) Weekly"
  shows "rules_ok d rows'"
  using assms(1-3)
proof (induction ds arbitrary: rows)
  case Nil
  then show ?case by simp
next
  case (Cons day ds)
  let ?r = "rule_for p now (fresh_id (map wr_id rows)) day"
  from Cons.prems(1) have new: "\<not> list_ex (same_rule p day) rows"
    and rest: "insert_rules p now ds (rows @ [?r]) = Some rows'" by (simp_all split: if_splits)
  have "rule_key ?r \<notin> set (map rule_key rows)"
    using new by (auto simp: rule_key_def rule_for_def same_rule_def list_ex_iff)
  moreover have "wr_id ?r \<notin> set (map wr_id rows)"
    using fresh_id_new [of "map wr_id rows"] by (simp add: rule_for_def del: set_map)
  moreover have "valid_rule ?r" by (rule Cons.prems(3)) simp
  moreover have "of_kind d (wr_schedule_id ?r) Weekly" using assms(4) by (simp add: rule_for_def)
  ultimately have "rules_ok d (rows @ [?r])" using Cons.prems(2) by (auto simp: rules_ok_def)
  from Cons.IH [OF rest this Cons.prems(3)] show ?case by simp
qed

lemma add_rules_keeps: "within (keeps_schedules tz) (add_rules params)"
  unfolding add_rules_def Let_def
proof (rule keeps.when_invalid, rule keeps.bind_found [OF get_schedule_finds])
  let ?p = "normalize_rules_add params"
  fix s
  assume v: "validate_rules_add ?p = None"
  let ?P = "\<lambda>d. has_schedule s d \<and> sc_id s = ru_schedule_id ?p"
  have step: "guarded ?P (keeps_schedules tz) d (d \<lparr>tb_rules := rows\<rparr>)"
    if "sc_kind s = Weekly" and "insert_rules ?p now (ru_weekdays ?p) (tb_rules d) = Some rows" for d now rows
  proof -
    have "of_kind d' i k \<longleftrightarrow> of_kind d i k" if "d' = d \<lparr>tb_rules := rows\<rparr>" for d' i k
      by (simp add: that of_kind_def)
    then have mono: "rules_ok (d \<lparr>tb_rules := rows\<rparr>) = rules_ok d" "windows_ok (d \<lparr>tb_rules := rows\<rparr>) = windows_ok d"
      by (auto simp: rules_ok_def windows_ok_def fun_eq_iff)
    have "rules_ok d rows" if "?P d" and "rules_ok d (tb_rules d)"
      by (rule insert_rules_ok [OF \<open>insert_rules ?p now (ru_weekdays ?p) (tb_rules d) = Some rows\<close> that(2)])
        (use rule_for_valid [OF v] that(1) \<open>sc_kind s = Weekly\<close> in \<open>auto simp: of_kind_def has_schedule_def\<close>)
    then show ?thesis
      by (auto simp: guarded_def keeps_def schedules_ok_def has_schedule_def mono)
  qed
  show "within (guarded ?P (keeps_schedules tz)) (if sc_kind s \<noteq> Weekly
        then fail (sched_invalid ''weekly rules can only be added to a weekly schedule'')
      else bind now_utc (\<lambda>now.
      bind (sql (\<lambda>d. case insert_rules ?p now (ru_weekdays ?p) (tb_rules d) of
          None \<Rightarrow> (Inl (sched_invalid ''an identical rule already exists on this schedule''), d)
        | Some rows \<Rightarrow>
            if ru_schedule_id ?p \<notin> set (map sc_id (tb_schedules d)) then (Inl DbError, d)
            else (Inr (), d \<lparr>tb_rules := rows\<rparr>))) (\<lambda>_.
      for_each (\<lambda>wd. query_row (\<lambda>d. filter (same_rule ?p wd) (tb_rules d))) (ru_weekdays ?p))))"
  proof (cases "sc_kind s = Weekly")
    case True
    show ?thesis using True step
      by (auto simp del: set_map intro!: kept.guarded.rules kept.guarded.sql split: option.split)
        (simp_all add: guarded_def keeps_def)
  qed (simp add: kept.guarded.fail)
qed

lemma rules_filter_keeps:
  assumes "rows = filter p (tb_rules d)"
  shows "keeps_schedules tz d (d \<lparr>tb_rules := rows\<rparr>)"
  using assms by (auto simp: keeps_def schedules_ok_def rules_ok_def windows_ok_def of_kind_def
      distinct_map_filter)

lemma delete_rule_keeps: "within (keeps_schedules tz) (delete_rule i j)"
  unfolding delete_rule_def Let_def
  by (intro keeps.rules keeps.exec) (simp add: split_beta delete_where_def rules_filter_keeps [OF HOL.refl])

subsection \<open>Windows\<close>

lemma insert_window_keeps:
  assumes "validate_window_add p = None" and "sc_kind s = Dated"
  shows "within (guarded (\<lambda>d. has_schedule s d \<and> sc_id s = wa_schedule_id p) (keeps_schedules tz))
    (insert_window p now)"
  unfolding insert_window_def
proof (rule kept.guarded.sql)
  fix d :: db
  let ?w = "\<lparr>dw_id = fresh_id (map dw_id (tb_windows d)), dw_schedule_id = wa_schedule_id p,
     dw_name = wa_name p, dw_starts_at = wa_starts_at p, dw_ends_at = wa_ends_at p, dw_created_at = now\<rparr>"
  let ?d' = "d \<lparr>tb_windows := tb_windows d @ [?w]\<rparr>"
  have ok: "valid_window ?w" "dw_starts_at ?w < dw_ends_at ?w"
    using assms(1) by (auto simp: validate_window_add_def valid_window_def Let_def not_le split: if_splits)
  have mono: "rules_ok ?d' = rules_ok d" "windows_ok ?d' = windows_ok d"
    by (auto simp: rules_ok_def windows_ok_def of_kind_def fun_eq_iff)
  have "schedules_ok tz ?d'"
    if "has_schedule s d" "sc_id s = wa_schedule_id p" "schedules_ok tz d"
      "\<not> list_ex (\<lambda>w. dw_schedule_id w = wa_schedule_id p \<and> dw_name w = wa_name p) (tb_windows d)"
  proof -
    have "window_key ?w \<notin> set (map window_key (tb_windows d))"
      using that(4) by (auto simp: window_key_def list_ex_iff)
    moreover have "dw_id ?w \<notin> set (map dw_id (tb_windows d))"
      using fresh_id_new [of "map dw_id (tb_windows d)"] by (simp del: set_map)
    moreover have "of_kind d (dw_schedule_id ?w) Dated"
      using that assms(2) by (auto simp: of_kind_def has_schedule_def)
    ultimately have "windows_ok d (tb_windows d @ [?w])"
      using that(3) ok by (auto simp: windows_ok_def schedules_ok_def)
    then show ?thesis using that(3) by (simp add: schedules_ok_def mono)
  qed
  then show "guarded (\<lambda>d. has_schedule s d \<and> sc_id s = wa_schedule_id p) (keeps_schedules tz) d
    (snd (if list_ex (\<lambda>w. dw_schedule_id w = wa_schedule_id p \<and> dw_name w = wa_name p) (tb_windows d)
       then (Inl (sched_invalid ''a window with this name already exists on this schedule''), d)
     else if wa_schedule_id p \<notin> set (map sc_id (tb_schedules d)) then (Inl DbError, d)
     else (Inr (), ?d')))"
    by (simp add: guarded_def keeps_def has_schedule_def)
qed

lemma add_window_keeps: "within (keeps_schedules tz) (add_window tz params)"
  unfolding add_window_def Let_def
proof (rule keeps.when_invalid, rule keeps.bind_found [OF get_schedule_finds])
  let ?p = "normalize_window_add params"
  fix s
  assume v: "validate_window_add ?p = None"
  show "within (guarded (\<lambda>d. has_schedule s d \<and> sc_id s = wa_schedule_id ?p) (keeps_schedules tz))
    (if sc_kind s \<noteq> Dated
        then fail (sched_invalid ''date windows can only be added to a dated schedule'')
      else case resolve_window_bounds tz s \<lparr>dw_id = 0, dw_schedule_id = sc_id s, dw_name = [],
          dw_starts_at = wa_starts_at ?p, dw_ends_at = wa_ends_at ?p, dw_created_at = zero_time\<rparr> of
        Inl e \<Rightarrow> fail (ExpandFailed e)
      | Inr (start, endt) \<Rightarrow>
          if \<not> endt > start then fail (sched_invalid ''a window's end must be after its start'')
          else bind now_utc (\<lambda>now.
            if \<not> endt > now
              then fail (sched_invalid ''this window has already ended, so it would never freeze anything'')
            else bind (insert_window ?p now) (\<lambda>_.
              bind (query_row (\<lambda>d. filter (\<lambda>w. dw_schedule_id w = wa_schedule_id ?p \<and> dw_name w = wa_name ?p)
                (tb_windows d))) (\<lambda>window. ret (window, \<not> start > now)))))"
  proof (cases "sc_kind s = Dated")
    case True
    then have c: "(sc_kind s \<noteq> Dated) = False" by simp
    show ?thesis unfolding c if_False
      by (intro kept.guarded.rules insert_window_keeps v True)
  qed (simp add: kept.guarded.fail)
qed

lemma windows_filter_keeps:
  assumes "rows = filter p (tb_windows d)"
  shows "keeps_schedules tz d (d \<lparr>tb_windows := rows\<rparr>)"
  using assms by (auto simp: keeps_def schedules_ok_def rules_ok_def windows_ok_def of_kind_def
      distinct_map_filter)

lemma delete_window_keeps: "within (keeps_schedules tz) (delete_window i j)"
  unfolding delete_window_def Let_def
  by (intro keeps.rules keeps.exec) (simp add: split_beta delete_where_def windows_filter_keeps [OF HOL.refl])

subsection \<open>Every operation\<close>

lemma schedule_reads:
  "within (keeps I) (get_schedule i)" "within (keeps I) (require_schedule_enforcement repo)"
  "within (keeps I) (require_managed_branch repo branch)"
  unfolding get_schedule_def get_schedule_for_scope_def require_schedule_enforcement_def
    require_managed_branch_def
  by (intro keeps.rules)+

lemma schedules_ok_operations:
  shows "within (keeps_schedules tz) (create_schedule tz cp)"
    "within (keeps_schedules tz) (delete_schedule i)"
    "within (keeps_schedules tz) (set_schedule_active i active)"
    "within (keeps_schedules tz) (suppress_schedule i til)"
    "within (keeps_schedules tz) (add_rules rp)"
    "within (keeps_schedules tz) (delete_rule i j)"
    "within (keeps_schedules tz) (add_window tz wp)"
    "within (keeps_schedules tz) (delete_window i j)"
proof -
  show "within (keeps_schedules tz) (create_schedule tz cp)"
    unfolding create_schedule_def Let_def by (intro keeps.rules schedule_reads insert_schedule_keeps)
  show "within (keeps_schedules tz) (delete_schedule i)"
    unfolding delete_schedule_def by (intro keeps.rules schedule_reads remove_schedule_keeps)
  show "within (keeps_schedules tz) (set_schedule_active i active)"
    unfolding set_schedule_active_def
    by (intro keeps.rules schedule_reads update_schedules_keeps) (simp add: schedule_key_def schedule_ok_def)
  show "within (keeps_schedules tz) (suppress_schedule i til)"
    unfolding suppress_schedule_def
    by (intro keeps.rules schedule_reads update_schedules_keeps) (simp add: schedule_key_def schedule_ok_def)
qed (rule add_rules_keeps delete_rule_keeps add_window_keeps delete_window_keeps)+

text \<open>
  C20: The schedule tables stay well-formed under every operation and every fault: identifiers
  are unique, no two schedules of a branch share a name, no rule or window is stored twice, each
  belongs to an existing schedule of its kind, and what is stored can always be expanded: the
  time zone resolves and every wall clock parses.
\<close>

theorem schedule_operations_keep_tables_ok:
  "within (keeps_schedules tz) (create_schedule tz cp) \<and> within (keeps_schedules tz) (delete_schedule i)
   \<and> within (keeps_schedules tz) (set_schedule_active i active)
   \<and> within (keeps_schedules tz) (suppress_schedule i til)
   \<and> within (keeps_schedules tz) (add_rules rp) \<and> within (keeps_schedules tz) (delete_rule i j)
   \<and> within (keeps_schedules tz) (add_window tz wp) \<and> within (keeps_schedules tz) (delete_window i j)"
  by (intro conjI schedules_ok_operations)

subsection \<open>From the tables to coverage\<close>

definition coverage_of :: "db \<Rightarrow> schedule \<Rightarrow> coverage" where
  "coverage_of d s = \<lparr>cv_schedule = s,
     cv_rules = (if sc_kind s = Weekly
       then sort_key rule_order (filter (\<lambda>r. wr_schedule_id r = sc_id s) (tb_rules d)) else []),
     cv_windows = (if sc_kind s = Dated
       then sort_key (\<lambda>w. (dw_starts_at w, dw_ends_at w, dw_name w))
         (filter (\<lambda>w. dw_schedule_id w = sc_id s) (tb_windows d)) else [])\<rparr>"

lemma query_success: "query f w = (Inr x, w') \<Longrightarrow> x = f (tables w) \<and> tables w' = tables w
    \<and> clock w' = clock w \<and> readings w' = readings w"
  by (auto simp: query_def sql_def split: if_splits)

lemma load_coverages_success:
  "load_coverages ss w = (Inr covs, w') \<Longrightarrow>
     tables w' = tables w \<and> clock w' = clock w \<and> readings w' = readings w
     \<and> covs = map (coverage_of (tables w)) (filter sc_active ss)"
proof (induction ss arbitrary: w covs)
  case Nil
  then show ?case by (simp add: ret_def)
next
  case (Cons s ss)
  show ?case
  proof (cases "sc_active s")
    case True
    with Cons.prems obtain rules w1 windows w2 rest where
      r: "(if sc_kind s = Weekly then list_rules (sc_id s) else ret []) w = (Inr rules, w1)"
      and d: "(if sc_kind s = Dated then list_windows (sc_id s) else ret []) w1 = (Inr windows, w2)"
      and l: "load_coverages ss w2 = (Inr rest, w')"
      and c: "covs = \<lparr>cv_schedule = s, cv_rules = rules, cv_windows = windows\<rparr> # rest"
      by (auto simp: ret_def simp del: if_cancel elim!: bind_cases)
    have 1: "tables w1 = tables w \<and> clock w1 = clock w \<and> readings w1 = readings w \<and> rules = cv_rules (coverage_of (tables w) s)"
      using r by (auto simp: coverage_of_def list_rules_def ret_def dest!: query_success split: if_splits)
    have 2: "tables w2 = tables w1 \<and> clock w2 = clock w1 \<and> readings w2 = readings w1 \<and> windows = cv_windows (coverage_of (tables w1) s)"
      using d by (auto simp: coverage_of_def list_windows_def ret_def dest!: query_success split: if_splits)
    have "coverage_of (tables w) s = \<lparr>cv_schedule = s, cv_rules = rules, cv_windows = windows\<rparr>"
      using 1 2 by (simp add: coverage_of_def)
    with Cons.IH [OF l] 1 2 c True show ?thesis by simp
  next
    case False
    with Cons show ?thesis by simp
  qed
qed

lemma list_active_coverages_success:
  assumes "list_active_coverages w = (Inr covs, w')"
  shows "tables w' = tables w \<and> clock w' = clock w \<and> readings w' = readings w"
    and "covs = map (coverage_of (tables w)) (filter sc_active
      (sort_key (\<lambda>r. (sc_repository_id r, sc_branch r, sc_name r)) (tb_schedules (tables w))))"
proof -
  from assms obtain ss w1 where l: "list_schedules w = (Inr ss, w1)" and c: "load_coverages ss w1 = (Inr covs, w')"
    by (auto simp: list_active_coverages_def elim: bind_cases)
  have "ss = sort_key (\<lambda>r. (sc_repository_id r, sc_branch r, sc_name r)) (tb_schedules (tables w))
      \<and> tables w1 = tables w \<and> clock w1 = clock w \<and> readings w1 = readings w"
    using l by (auto simp: list_schedules_def list_schedules_for_scope_def dest!: query_success)
  with load_coverages_success [OF c] show "tables w' = tables w \<and> clock w' = clock w \<and> readings w' = readings w"
    "covs = map (coverage_of (tables w)) (filter sc_active
      (sort_key (\<lambda>r. (sc_repository_id r, sc_branch r, sc_name r)) (tb_schedules (tables w))))"
    by simp_all
qed

text \<open>What the tables say about an instant, for schedules whose zones have constant offsets.\<close>

definition schedule_says :: "(string \<Rightarrow> int) \<Rightarrow> db \<Rightarrow> schedule \<Rightarrow> instant \<Rightarrow> bool" where
  "schedule_says off d s t \<longleftrightarrow>
     (sc_kind s = Weekly \<and> list_ex (\<lambda>r. wr_schedule_id r = sc_id s \<and> in_rule (off (sc_timezone s)) r t) (tb_rules d))
     \<or> (sc_kind s = Dated \<and> list_ex (\<lambda>w. dw_schedule_id w = sc_id s
          \<and> in_dated_window (off (sc_timezone s)) w t) (tb_windows d))"

lemma coverage_of_active:
  "coverage_active (off (sc_timezone s)) (coverage_of d s) t = schedule_says off d s t"
  by (cases "sc_kind s") (auto simp: coverage_active_def schedule_says_def coverage_of_def list_ex_iff)

lemma coverage_of_valid:
  assumes "schedules_ok tz d" and "tz (sc_timezone s) = Some (fixed (off (sc_timezone s)))"
  shows "valid_coverage tz (\<lambda>c. off (sc_timezone (cv_schedule c))) (coverage_of d s)"
  using assms by (auto simp: valid_coverage_def coverage_of_def schedules_ok_def rules_ok_def windows_ok_def
      list_all_iff)

text \<open>
  C19: The stored schedules freeze exactly what they say. From well-formed tables whose zones
  have constant offsets, expanding the loaded coverages succeeds, in order, and inside the
  requested window it covers an instant exactly when some active schedule has a rule whose arc
  of the week, or a window, contains its local clock.
\<close>

theorem stored_schedules_cover_exactly:
  assumes "schedules_ok tz (tables w)" and "list_active_coverages w = (Inr covs, w')"
    and "list_all (\<lambda>s. tz (sc_timezone s) = Some (fixed (off (sc_timezone s)))) (tb_schedules (tables w))"
    and "from \<le> t" and "t < til"
  shows "\<exists>segs. expand_coverage tz covs from til = Some (Inr (segs, [])) \<and> sorted (map iv_start segs)
     \<and> (covers segs t \<longleftrightarrow>
          list_ex (\<lambda>s. sc_active s \<and> schedule_says off (tables w) s t) (tb_schedules (tables w)))"
proof -
  let ?off = "\<lambda>c. off (sc_timezone (cv_schedule c))"
  note covs = list_active_coverages_success(2) [OF assms(2)]
  have "valid_coverage tz ?off (coverage_of (tables w) s)" if "s \<in> set (tb_schedules (tables w))" for s
    by (rule coverage_of_valid [OF assms(1)]) (use assms(3) that in \<open>simp add: list_all_iff\<close>)
  then have "list_all (valid_coverage tz ?off) covs" by (auto simp: covs list_all_iff)
  from expand_coverage_exact [OF this assms(4,5)]
  obtain segs where segs: "expand_coverage tz covs from til = Some (Inr (segs, []))"
    "sorted (map iv_start segs)"
    "covers segs t \<longleftrightarrow> list_ex (\<lambda>cov. coverage_active (?off cov) cov t) covs" by blast
  have "?off (coverage_of d s) = off (sc_timezone s)" for d s by (simp add: coverage_of_def)
  then have "list_ex (\<lambda>cov. coverage_active (?off cov) cov t) covs \<longleftrightarrow>
      list_ex (\<lambda>s. sc_active s \<and> schedule_says off (tables w) s t) (tb_schedules (tables w))"
    by (auto simp: covs list_ex_iff coverage_of_active)
  with segs show ?thesis by auto
qed

definition weekend_db :: db where
  "weekend_db = empty_db \<lparr>tb_schedules := [weekend_schedule], tb_rules := [weekend_rule]\<rparr>"

lemma weekend_db_ok: "schedules_ok utc_only weekend_db"
  by (simp add: schedules_ok_def weekend_db_def empty_db_def schedule_ok_def rules_ok_def windows_ok_def
      of_kind_def valid_rule_def weekend_rule_parses weekend_schedule_def weekend_rule_def
      valid_timezone_def utc_only_def name_max_length_def reason_max_length_def)
    (code_simp)

lemma stored_schedules_cover_exactly_witness:
  "\<exists>covs segs. list_active_coverages (quiet weekend_db 0) = (Inr covs, after (quiet weekend_db 0) 0 (Suc (Suc 0)) weekend_db)
     \<and> expand_coverage utc_only covs (noon 0 0) (noon 0 7) = Some (Inr (segs, [])) \<and> covers segs (noon 0 2)"
proof -
  let ?w = "quiet weekend_db 0"
  have run: "list_active_coverages ?w = (Inr [weekend_coverage], after ?w 0 (Suc (Suc 0)) weekend_db)"
    by (simp add: list_active_coverages_def list_schedules_def list_schedules_for_scope_def run_simps
        weekend_db_def empty_db_def list_rules_def weekend_schedule_def weekend_rule_def weekend_coverage_def)
  have "utc = fixed 0" by (rule ext) (simp add: utc_def)
  then have z: "list_all (\<lambda>s. utc_only (sc_timezone s) = Some (fixed 0)) (tb_schedules (tables ?w))"
    by (simp add: run_simps weekend_db_def empty_db_def weekend_schedule_def utc_only_def)
  have says: "list_ex (\<lambda>s. sc_active s \<and> schedule_says (\<lambda>_. 0) (tables ?w) s (noon 0 2)) (tb_schedules (tables ?w))"
    by (simp add: run_simps weekend_db_def empty_db_def schedule_says_def weekend_schedule_def
        weekend_rule_def in_rule_def weekend_rule_parses week_second_def week_minutes_def rule_arc_def
        noon_def nanos_def)
  have ok: "schedules_ok utc_only (tables ?w)" by (simp add: run_simps weekend_db_ok)
  from stored_schedules_cover_exactly [OF ok run, of "\<lambda>_. 0" "noon 0 0" "noon 0 2" "noon 0 7"] z says run
  show ?thesis by (auto simp: noon_def nanos_def)
qed

end
