(* ===== verification/ScheduleServiceFacts.thy ===== *)
theory ScheduleServiceFacts
  imports ScheduleService ScheduleFacts FreezeServiceFacts Decide
begin

text \<open>
  What the schedule service adds to the store: events, and above all what ending a materialized
  freeze by hand means for the schedules that cover the branch.
\<close>

subsection \<open>Closing an active freeze\<close>

definition ended_row :: "int \<Rightarrow> freeze_status \<Rightarrow> instant \<Rightarrow> freeze_row \<Rightarrow> freeze_row" where
  "ended_row i status now r = (if fz_id r = i \<and> fz_status r = FreezeActive
     then r \<lparr>fz_status := status, fz_ends_at := Some now, fz_needs_recompute := True, fz_updated_at := now\<rparr>
     else r)"

lemma update_freezes_success:
  assumes "update_freezes p f w = (Inr n, w1)"
  shows "tables w1 = tables w \<lparr>tb_freezes := map (\<lambda>r. if p (tables w) r then f r else r) (tb_freezes (tables w))\<rparr>
     \<and> n = int (length (filter (p (tables w)) (tb_freezes (tables w))))
     \<and> clock w1 = clock w \<and> readings w1 = readings w"
  using assms by (auto simp: update_freezes_def exec_def sql_def update_where_def split: if_splits)

lemma get_freeze_keeps: "get_freeze i w = (r, w1) \<Longrightarrow> tables w1 = tables w \<and> clock w1 = clock w \<and> readings w1 = readings w"
  by (auto simp: get_freeze_def get_freeze_for_scope_def query_row_def sql_def split: if_splits)

lemma close_active_success:
  assumes "close_active \<lparr>cl_id = i, cl_status = status\<rparr> w = (Inr fz, w')"
  shows "tables w' = tables w \<lparr>tb_freezes := map (ended_row i status (clock w (readings w))) (tb_freezes (tables w))\<rparr>
     \<and> list_ex (\<lambda>r. fz_id r = i \<and> fz_status r = FreezeActive) (tb_freezes (tables w))
     \<and> fz \<in> set (freezes_where (\<lambda>r. fz_id r = i) (tables w'))
     \<and> clock w' = clock w \<and> readings w' = Suc (readings w)"
proof -
  let ?now = "clock w (readings w)"
  let ?p = "\<lambda>r. fz_id r = i \<and> fz_status r = FreezeActive"
  let ?f = "\<lambda>now r. r \<lparr>fz_status := status, fz_ends_at := Some now, fz_needs_recompute := True,
      fz_updated_at := now\<rparr>"
  have body: "bind now_utc (\<lambda>now. bind (update_freezes (\<lambda>_. ?p) (?f now)) (\<lambda>n. if n = 0
      then bind (attempt (get_freeze i)) (\<lambda>r. case r of
        Inl e \<Rightarrow> if e = NoRows then fail (invalid ''active freeze not found'') else fail e
      | Inr existing \<Rightarrow> fail (invalid ''freeze is not active'')) else get_freeze i)) w = (Inr fz, w')"
    using when_invalid_success [OF assms [unfolded close_active_def freeze_close.simps]] by blast
  from body obtain t w1 n w2 where t: "now_utc w = (Inr t, w1)"
    and u0: "update_freezes (\<lambda>_. ?p) (?f t) w1 = (Inr n, w2)"
    and rest: "(if n = 0 then bind (attempt (get_freeze i)) (\<lambda>r. case r of
        Inl e \<Rightarrow> if e = NoRows then fail (invalid ''active freeze not found'') else fail e
      | Inr existing \<Rightarrow> fail (invalid ''freeze is not active'')) else get_freeze i) w2 = (Inr fz, w')"
    by (elim bind_cases)
  from t have now: "t = ?now" by (simp add: now_utc_def)
  note n = t [unfolded now] and u = u0 [unfolded now]
  have "n \<noteq> 0" and g: "get_freeze i w2 = (Inr fz, w')"
    using rest by (auto simp: fail_def elim!: bind_cases split: sum.splits if_splits)
  note eu = update_freezes_success [OF u]
  have en: "tables w1 = tables w" "clock w1 = clock w" "readings w1 = Suc (readings w)"
    using n by (auto simp: now_utc_def)
  have "list_ex ?p (tb_freezes (tables w))"
    using eu \<open>n \<noteq> 0\<close> en by (auto simp: list_ex_iff filter_empty_conv)
  moreover have "map (\<lambda>r. if ?p r then r \<lparr>fz_status := status, fz_ends_at := Some ?now,
      fz_needs_recompute := True, fz_updated_at := ?now\<rparr> else r) rows = map (ended_row i status ?now) rows" for rows
    by (simp add: ended_row_def)
  ultimately show ?thesis using eu en get_success [OF g] get_freeze_keeps [OF g] by simp
qed

text \<open>What a change of the freeze service may touch.\<close>

definition outside :: "db \<Rightarrow> db" where
  "outside d = d \<lparr>tb_freezes := [], tb_audit := [], tb_jobs := []\<rparr>"

lemma outside_simps [simp]:
  "outside (d \<lparr>tb_freezes := a\<rparr>) = outside d" "outside (d \<lparr>tb_audit := b\<rparr>) = outside d"
  "outside (d \<lparr>tb_jobs := c\<rparr>) = outside d"
  by (cases d; simp add: outside_def)+

lemma close_active_tx_success:
  assumes "close_active_tx i actor status w = (Inr fz, w')"
  shows "tb_freezes (tables w') = map (ended_row i status (clock w (readings w))) (tb_freezes (tables w))
     \<and> list_ex (\<lambda>r. fz_id r = i \<and> fz_status r = FreezeActive) (tb_freezes (tables w))
     \<and> fz \<in> set (freezes_where (\<lambda>r. fz_id r = i) (tables w'))
     \<and> outside (tables w') = outside (tables w)
     \<and> clock w' = clock w \<and> readings w' = readings w + 3"
proof -
  from assms obtain w1 w2 j where c: "close_active \<lparr>cl_id = i, cl_status = status\<rparr> w = (Inr fz, w1)"
    and r: "record_event (branch_freeze_closed_event fz actor) w1 = (Inr (), w2)"
    and e: "enqueue_reconciliation (fr_repository_id fz) w2 = (Inr j, w')"
    unfolding close_active_tx_def by (elim bind_cases) (auto simp: ret_def)
  show ?thesis
    using close_active_success [OF c] record_event_success [OF r] enqueue_success [OF e] by auto
qed

subsection \<open>Suppression\<close>

definition covering_end :: "segment list \<Rightarrow> instant \<Rightarrow> int \<Rightarrow> instant option" where
  "covering_end segs now i = map_option iv_end (containing_segment segs i now)"

text \<open>Only the suppression and the time of the last change of a schedule.\<close>

definition resuppressed :: "schedule \<Rightarrow> instant option \<Rightarrow> schedule \<Rightarrow> bool" where
  "resuppressed s til s' \<longleftrightarrow> s' = s \<lparr>sc_suppressed_until := til, sc_updated_at := sc_updated_at s'\<rparr>"

lemma resuppressed_fields:
  "resuppressed s til s' \<Longrightarrow> sc_id s' = sc_id s \<and> sc_active s' = sc_active s
     \<and> sc_repository_id s' = sc_repository_id s \<and> sc_branch s' = sc_branch s \<and> sc_suppressed_until s' = til"
  by (cases s; cases s') (simp add: resuppressed_def)

definition suppression :: "segment list \<Rightarrow> instant \<Rightarrow> coverage list \<Rightarrow> schedule \<Rightarrow> instant option" where
  "suppression segs now cs s =
     (if sc_id s \<in> set (map (\<lambda>c. sc_id (cv_schedule c)) cs) \<and> covering_end segs now (sc_id s) \<noteq> None
      then covering_end segs now (sc_id s) else sc_suppressed_until s)"

lemma suppress_schedule_success:
  assumes "suppress_schedule i til w = (Inr s, w')"
  shows "\<exists>now. tables w' = tables w \<lparr>tb_schedules := map (\<lambda>r. if sc_id r = i
       then r \<lparr>sc_suppressed_until := Some til, sc_updated_at := now\<rparr> else r) (tb_schedules (tables w))\<rparr>"
proof -
  from assms obtain w1 now n w2 where t: "now_utc w = (Inr now, w1)"
    and u: "update_schedules (\<lambda>r. sc_id r = i)
      (\<lambda>r. r \<lparr>sc_suppressed_until := Some til, sc_updated_at := now\<rparr>) w1 = (Inr n, w2)"
    and rest: "(if n = 0 then fail NotFound else get_schedule i) w2 = (Inr s, w')"
    unfolding suppress_schedule_def by (auto elim!: bind_cases)
  have "get_schedule i w2 = (Inr s, w')" using rest by (auto simp: fail_def split: if_splits)
  then have "tables w' = tables w2" using get_schedule_finds [of i] unfolding finds_def by (metis snd_conv)
  with t u show ?thesis
    by (auto simp: now_utc_def update_schedules_def exec_def sql_def update_where_def split: if_splits)
qed

lemma suppress_each_success:
  "suppress_each segs closed now actor cs w = (Inr u, w') \<Longrightarrow>
     list_all2 (\<lambda>s s'. resuppressed s (suppression segs now cs s) s')
       (tb_schedules (tables w)) (tb_schedules (tables w'))
     \<and> tb_freezes (tables w') = tb_freezes (tables w)"
proof (induction cs arbitrary: w)
  case Nil
  then show ?case by (auto simp: ret_def suppression_def resuppressed_def list_all2_same)
next
  case (Cons c cs)
  let ?i = "sc_id (cv_schedule c)"
  show ?case
  proof (cases "containing_segment segs ?i now")
    case None
    then have "suppression segs now (c # cs) s = suppression segs now cs s" for s
      by (auto simp: suppression_def covering_end_def)
    with Cons None show ?thesis by simp
  next
    case (Some current)
    with Cons.prems obtain s w1 w2 where s: "suppress_schedule ?i (iv_end current) w = (Inr s, w1)"
      and r: "record_event (schedule_suppressed_event s closed (iv_end current)
          (next_segment_start segs ?i (iv_end current)) actor) w1 = (Inr (), w2)"
      and rest: "suppress_each segs closed now actor cs w2 = (Inr u, w')"
      by (auto elim!: bind_cases)
    from suppress_schedule_success [OF s] obtain t where t: "tables w1 = tables w \<lparr>tb_schedules :=
        map (\<lambda>r. if sc_id r = ?i then r \<lparr>sc_suppressed_until := Some (iv_end current), sc_updated_at := t\<rparr>
          else r) (tb_schedules (tables w))\<rparr>" by blast
    let ?f = "\<lambda>r. if sc_id r = ?i then r \<lparr>sc_suppressed_until := Some (iv_end current), sc_updated_at := t\<rparr> else r"
    have 2: "tb_schedules (tables w2) = map ?f (tb_schedules (tables w))"
      "tb_freezes (tables w2) = tb_freezes (tables w)"
      using record_event_success [OF r] t by simp_all
    have supp: "suppression segs now cs (?f x) = suppression segs now (c # cs) x" for x
      using Some by (auto simp: suppression_def covering_end_def)
    have "resuppressed (?f x) til y \<Longrightarrow> resuppressed x til y" for x til y
      unfolding resuppressed_def by (erule trans) simp
    then have "resuppressed (?f x) (suppression segs now cs (?f x)) y \<Longrightarrow>
        resuppressed x (suppression segs now (c # cs) x) y" for x y
      unfolding supp .
    then show ?thesis
      using Cons.IH [OF rest] 2 by (auto simp: list_all2_map1 elim!: list_all2_mono)
  qed
qed

subsection \<open>Thawed until the next window\<close>

lemma foldl_updates_Some:
  "foldl (\<lambda>m s. m(sc_id s \<mapsto> g s)) m0 ss k = Some v \<Longrightarrow>
     (\<exists>s \<in> set ss. sc_id s = k \<and> g s = v) \<or> m0 k = Some v"
proof (induction ss arbitrary: m0)
  case (Cons s ss)
  have "foldl (\<lambda>m s. m(sc_id s \<mapsto> g s)) (m0(sc_id s \<mapsto> g s)) ss k = Some v"
    using Cons.prems unfolding foldl.simps .
  from Cons.IH [OF this] show ?case by (auto split: if_splits)
qed simp

lemma eligible_segment:
  assumes "s \<in> set (eligible_segments st)"
  obtains x where "x \<in> set (bs_schedules st)" "sc_id x = sg_schedule_id s"
    "opt_all (\<lambda>u. u \<le> iv_start s) (sc_suppressed_until x)" "s \<in> set (bs_segments st)"
proof -
  let ?m = "foldl (\<lambda>m s. m(sc_id s \<mapsto> sc_suppressed_until s)) Map.empty (bs_schedules st)"
  from assms have s: "s \<in> set (bs_segments st)"
    and e: "case ?m (sg_schedule_id s) of None \<Rightarrow> False | Some None \<Rightarrow> True | Some (Some u) \<Rightarrow> \<not> iv_start s < u"
    by (auto simp: eligible_segments_def Let_def)
  from e obtain v where v: "?m (sg_schedule_id s) = Some v" by (cases "?m (sg_schedule_id s)") auto
  from foldl_updates_Some [OF this] obtain x where
    x: "x \<in> set (bs_schedules st)" "sc_id x = sg_schedule_id s" "sc_suppressed_until x = v" by auto
  show thesis by (rule that [OF x(1,2) _ s]) (use e v x(3) in \<open>cases v; auto\<close>)
qed

definition branch_schedules :: "int \<Rightarrow> string \<Rightarrow> db \<Rightarrow> schedule list" where
  "branch_schedules repo branch d = filter (\<lambda>s. sc_active s \<and> on_branch repo branch s) (tb_schedules d)"

definition branch_coverages :: "int \<Rightarrow> string \<Rightarrow> db \<Rightarrow> coverage list" where
  "branch_coverages repo branch d = filter (\<lambda>c. on_branch repo branch (cv_schedule c))
     (map (coverage_of d) (filter sc_active
       (sort_key (\<lambda>r. (sc_repository_id r, sc_branch r, sc_name r)) (tb_schedules d))))"

lemma branch_coverages_ids:
  "set (map (\<lambda>c. sc_id (cv_schedule c)) (branch_coverages repo branch d)) = sc_id ` set (branch_schedules repo branch d)"
proof -
  have "cv_schedule (coverage_of d s) = s" for s by (simp add: coverage_of_def)
  then show ?thesis
    by (simp add: branch_coverages_def branch_schedules_def filter_map comp_def image_image)
qed

lemma coverage_of_outside: "outside d = outside d' \<Longrightarrow>
    coverage_of d = coverage_of d' \<and> tb_schedules d = tb_schedules d'"
proof -
  assume "outside d = outside d'"
  then have "tb_rules d = tb_rules d' \<and> tb_windows d = tb_windows d' \<and> tb_schedules d = tb_schedules d'"
    by (cases d; cases d') (simp add: outside_def)
  then show ?thesis by (simp add: coverage_of_def fun_eq_iff)
qed

text \<open>After suppression no eligible segment of the branch contains the present.\<close>

lemma suppressed_not_covered:
  assumes after: "list_all2 (\<lambda>s s'. resuppressed s (suppression segs now (branch_coverages repo branch d) s) s')
      (tb_schedules d) rows"
    and s: "s \<in> set (eligible_segments \<lparr>bs_repository_id = repo, bs_branch = branch,
      bs_schedules = filter (\<lambda>s. sc_active s \<and> on_branch repo branch s) rows,
      bs_segments = segs, bs_live = live\<rparr>)"
  shows "now < iv_start s \<or> iv_end s \<le> now"
proof (rule ccontr)
  assume "\<not> (now < iv_start s \<or> iv_end s \<le> now)"
  then have here: "iv_start s \<le> now" "now < iv_end s" by auto
  from s obtain x where x: "x \<in> set rows" "sc_active x" "on_branch repo branch x" "sc_id x = sg_schedule_id s"
    and u: "opt_all (\<lambda>u. u \<le> iv_start s) (sc_suppressed_until x)" and seg: "s \<in> set segs"
    by (rule eligible_segment) auto
  from after x(1) obtain x0 where x0: "x0 \<in> set (tb_schedules d)"
    "resuppressed x0 (suppression segs now (branch_coverages repo branch d) x0) x"
    unfolding list_all2_conv_all_nth by (metis in_set_conv_nth)
  have fields: "sc_id x = sc_id x0" "sc_active x = sc_active x0" "on_branch repo branch x = on_branch repo branch x0"
    "sc_suppressed_until x = suppression segs now (branch_coverages repo branch d) x0"
    using resuppressed_fields [OF x0(2)] by (simp_all add: on_branch_def)
  have "containing_segment segs (sc_id x0) now \<noteq> None"
  proof
    assume "containing_segment segs (sc_id x0) now = None"
    then have "\<forall>s \<in> set segs. \<not> (sg_schedule_id s = sc_id x0 \<and> \<not> iv_start s > now \<and> iv_end s > now)"
      unfolding containing_segment_def find_None_all .
    with seg here x(4) fields(1) show False by fastforce
  qed
  then obtain cur where cur: "containing_segment segs (sc_id x0) now = Some cur" by blast
  have "now < iv_end cur" using find_Some_iff_first [OF cur [unfolded containing_segment_def]] by simp
  moreover have "x0 \<in> set (branch_schedules repo branch d)"
    using x0(1) x fields by (simp add: branch_schedules_def)
  then have "sc_id x0 \<in> sc_id ` set (branch_schedules repo branch d)" by (rule imageI)
  then have "sc_suppressed_until x = Some (iv_end cur)"
    using cur fields(4) unfolding suppression_def branch_coverages_ids by (simp add: covering_end_def)
  ultimately show False using u here by simp
qed

lemma end_materialized_success:
  assumes "end_materialized_freeze tz i actor w = (Inr fz, w')"
    and "now = clock w (readings w + 3)"
    and "covs = branch_coverages (fr_repository_id fz) (fr_branch fz) (tables w)"
  obtains segs dst where
    "expand_coverage tz covs (now - coverage_lookback) (now + coverage_horizon) = Some (Inr (segs, dst))"
    "list_all2 (\<lambda>s s'. resuppressed s (suppression segs now covs s) s') (tb_schedules (tables w)) (tb_schedules (tables w'))"
    "tb_freezes (tables w') = map (ended_row i FreezeEnded (clock w (readings w))) (tb_freezes (tables w))"
    "fr_schedule_id fz \<noteq> None"
proof -
  let ?now = "clock w (readings w + 3)"
  let ?covs = "branch_coverages (fr_repository_id fz) (fr_branch fz) (tables w)"
  from assms(1) [unfolded end_materialized_freeze_def Let_def]
  obtain v0 v1 where body: "bind (close_active_tx i actor FreezeEnded) (\<lambda>closed.
       if fr_schedule_id closed = None
         then fail (sched_invalid ''freeze was not created by a recurring schedule'')
       else bind list_active_coverages (\<lambda>coverages. bind now_utc (\<lambda>now.
         bind (expanded tz (filter (\<lambda>c. on_branch (fr_repository_id closed) (fr_branch closed) (cv_schedule c)) coverages)
           (now - coverage_lookback) (now + coverage_horizon)) (\<lambda>segs.
         bind (suppress_each segs closed now actor
           (filter (\<lambda>c. on_branch (fr_repository_id closed) (fr_branch closed) (cv_schedule c)) coverages)) (\<lambda>_.
         ret closed))))) v0 = (Inr fz, v1)"
    and v: "tables v0 = tables w" "clock v0 = clock w" "readings v0 = readings w" "tables w' = tables v1"
    by (rule transact_success)
  from body obtain closed v2 where close: "close_active_tx i actor FreezeEnded v0 = (Inr closed, v2)"
    and rest: "(if fr_schedule_id closed = None
         then fail (sched_invalid ''freeze was not created by a recurring schedule'')
       else bind list_active_coverages (\<lambda>coverages. bind now_utc (\<lambda>now.
         bind (expanded tz (filter (\<lambda>c. on_branch (fr_repository_id closed) (fr_branch closed) (cv_schedule c)) coverages)
           (now - coverage_lookback) (now + coverage_horizon)) (\<lambda>segs.
         bind (suppress_each segs closed now actor
           (filter (\<lambda>c. on_branch (fr_repository_id closed) (fr_branch closed) (cv_schedule c)) coverages)) (\<lambda>_.
         ret closed))))) v2 = (Inr fz, v1)" by (rule bind_cases)
  have link: "fr_schedule_id closed \<noteq> None"
    by (rule notI) (use rest in \<open>simp add: fail_def\<close>)
  from rest [unfolded if_not_P [OF link]] obtain coverages v3 now v4 segs v5 v6 where
    cov: "list_active_coverages v2 = (Inr coverages, v3)" and n: "now_utc v3 = (Inr now, v4)"
    and e: "expanded tz (filter (\<lambda>c. on_branch (fr_repository_id closed) (fr_branch closed) (cv_schedule c)) coverages)
           (now - coverage_lookback) (now + coverage_horizon) v4 = (Inr segs, v5)"
    and supp: "suppress_each segs closed now actor (filter (\<lambda>c. on_branch (fr_repository_id closed)
           (fr_branch closed) (cv_schedule c)) coverages) v5 = (Inr (), v6)"
    and last: "ret closed v6 = (Inr fz, v1)" by (elim bind_cases) simp
  have fz: "closed = fz" "v1 = v6" using last by (simp_all add: ret_def)
  note ec = close_active_tx_success [OF close, unfolded fz(1)]
  note el = list_active_coverages_success [OF cov]
  have now: "now = ?now" and t4: "tables v4 = tables v2"
    using n el(1) ec v by (simp_all add: now_utc_def ac_simps) (auto simp: eval_nat_numeral)
  have same: "coverage_of (tables v2) = coverage_of (tables w) \<and> tb_schedules (tables v2) = tb_schedules (tables w)"
    by (rule coverage_of_outside) (use ec v in simp)
  have covs: "filter (\<lambda>c. on_branch (fr_repository_id fz) (fr_branch fz) (cv_schedule c)) coverages = ?covs"
    by (simp only: el(2) same branch_coverages_def)
  from e obtain dst where exp: "expand_coverage tz ?covs (?now - coverage_lookback) (?now + coverage_horizon)
      = Some (Inr (segs, dst))" and t5: "tables v5 = tables v4"
    unfolding fz(1) covs now
    by (auto simp: expanded_def fail_def ret_def split: option.splits sum.splits prod.splits)
  note es = suppress_each_success [OF supp [unfolded fz(1) covs now]]
  have frz: "tb_freezes (tables w') = map (ended_row i FreezeEnded (clock w (readings w))) (tb_freezes (tables w))"
    using es t5 t4 ec v fz(2) by simp
  have rows: "list_all2 (\<lambda>s s'. resuppressed s (suppression segs ?now ?covs s) s')
      (tb_schedules (tables w)) (tb_schedules (tables w'))"
    using es t5 t4 same v fz(2) by simp
  show thesis by (rule that [unfolded assms(2,3), OF exp rows frz]) (use link fz(1) in simp)
qed

text \<open>
  C18: Ending a scheduled freeze by hand thaws the branch until the next window. An error leaves
  everything as it was. Success ends exactly that freeze, which a schedule had started; and of
  the coverage the branch's schedules have around that moment, none that contains it is eligible
  any more: the scheduler can freeze the branch again only with coverage that starts later.
\<close>

theorem manual_end_thaws_until_next_window:
  "case end_materialized_freeze tz i actor w of
     (Inl e, w') \<Rightarrow> tables w' = tables w
   | (Inr fz, w') \<Rightarrow>
       (let now = clock w (readings w + 3); repo = fr_repository_id fz; branch = fr_branch fz in
        tb_freezes (tables w') = map (ended_row i FreezeEnded (clock w (readings w))) (tb_freezes (tables w))
        \<and> fr_schedule_id fz \<noteq> None
        \<and> (case expand_coverage tz (branch_coverages repo branch (tables w))
               (now - coverage_lookback) (now + coverage_horizon) of
             Some (Inr (segs, dst)) \<Rightarrow>
               list_all (\<lambda>s. now < iv_start s \<or> iv_end s \<le> now)
                 (eligible_segments \<lparr>bs_repository_id = repo, bs_branch = branch,
                    bs_schedules = branch_schedules repo branch (tables w'), bs_segments = segs,
                    bs_live = None\<rparr>)
           | _ \<Rightarrow> False))"
proof (cases "end_materialized_freeze tz i actor w")
  case (Pair r w')
  show ?thesis
  proof (cases r)
    case (Inl e)
    have "all_or_nothing (end_materialized_freeze tz i actor)"
      unfolding end_materialized_freeze_def by (rule transact_all_or_nothing)
    then have "case end_materialized_freeze tz i actor w of (Inl e, w') \<Rightarrow> tables w' = tables w | (Inr x, w') \<Rightarrow> True"
      unfolding all_or_nothing_def ..
    with Pair Inl show ?thesis by simp
  next
    case (Inr fz)
    let ?now = "clock w (readings w + 3)"
    from end_materialized_success [OF Pair [unfolded Inr] HOL.refl HOL.refl]
    obtain segs dst where exp: "expand_coverage tz (branch_coverages (fr_repository_id fz) (fr_branch fz) (tables w))
        (?now - coverage_lookback) (?now + coverage_horizon) = Some (Inr (segs, dst))"
      and rows: "list_all2 (\<lambda>s s'. resuppressed s (suppression segs ?now
        (branch_coverages (fr_repository_id fz) (fr_branch fz) (tables w)) s) s')
        (tb_schedules (tables w)) (tb_schedules (tables w'))"
      and frz: "tb_freezes (tables w') = map (ended_row i FreezeEnded (clock w (readings w))) (tb_freezes (tables w))"
      and link: "fr_schedule_id fz \<noteq> None" .
    have "list_all (\<lambda>s. ?now < iv_start s \<or> iv_end s \<le> ?now)
        (eligible_segments \<lparr>bs_repository_id = fr_repository_id fz, bs_branch = fr_branch fz,
          bs_schedules = branch_schedules (fr_repository_id fz) (fr_branch fz) (tables w'),
          bs_segments = segs, bs_live = None\<rparr>)"
      unfolding list_all_iff branch_schedules_def by (intro ballI suppressed_not_covered [OF rows])
    then show ?thesis
      unfolding Pair Inr prod.case sum.case Let_def exp option.case
      using frz link by simp
  qed
qed

end
