(* ===== verification/DeliveryStore.thy ===== *)
theory DeliveryStore
  imports Scope Samples
begin

text \<open>
  Webhook deliveries (\<open>internal/webhook/delivery_store.go\<close>): what the forge sent, which delivery is
  being processed by whom, and what became of it. A claim is the time it was made, and an
  operation that ends processing must present it. The time columns have the fixed-width layout.
\<close>

abbreviation webhook_invalid :: "string \<Rightarrow> go_error" where
  "webhook_invalid \<equiv> ValidationError WebhookPkg"

definition delivery_processing_claim_timeout :: int where
  "delivery_processing_claim_timeout = 10 * 60 * nanos"

record delivery =
  dv_id :: int
  dv_repository_id :: int
  dv_delivery_id :: string
  dv_event :: string
  dv_action :: string
  dv_received_at :: instant
  dv_verified :: bool
  dv_processing_started_at :: "instant option"
  dv_processed_at :: "instant option"
  dv_error :: string

record delivery_record =
  dr_repository_id :: int
  dr_delivery_id :: string
  dr_event :: string
  dr_action :: string
  dr_verified :: bool

record delivery_process =
  dp_repository_id :: int
  dp_action :: string
  dp_error :: string
  dp_processing_started_at :: "instant option"

definition scan_delivery :: "delivery_row \<Rightarrow> delivery" where
  "scan_delivery r = \<lparr>dv_id = wd_id r,
     dv_repository_id = (case wd_repository_id r of None \<Rightarrow> 0 | Some i \<Rightarrow> i),
     dv_delivery_id = wd_delivery_id r, dv_event = wd_event r,
     dv_action = (case wd_action r of None \<Rightarrow> [] | Some a \<Rightarrow> a), dv_received_at = wd_received_at r,
     dv_verified = wd_verified r, dv_processing_started_at = wd_processing_started_at r,
     dv_processed_at = wd_processed_at r, dv_error = (case wd_error r of None \<Rightarrow> [] | Some e \<Rightarrow> e)\<rparr>"

subsection \<open>Validation\<close>

definition invalid_delivery_text :: "string \<Rightarrow> nat \<Rightarrow> bool" where
  "invalid_delivery_text value limit \<longleftrightarrow> value = [] \<or> length value > limit \<or> contains_control value"

definition invalid_optional_delivery_text :: "string \<Rightarrow> nat \<Rightarrow> bool" where
  "invalid_optional_delivery_text value limit \<longleftrightarrow> value \<noteq> [] \<and> invalid_delivery_text value limit"

definition nullable_delivery_int :: "int \<Rightarrow> int option" where
  "nullable_delivery_int v = (if v \<le> 0 then None else Some v)"

definition nullable_delivery_string :: "string \<Rightarrow> string option" where
  "nullable_delivery_string v = (if v = [] then None else Some v)"

definition normalize_delivery_record :: "delivery_record \<Rightarrow> delivery_record" where
  "normalize_delivery_record p = p \<lparr>dr_delivery_id := trim_space (dr_delivery_id p),
     dr_event := trim_space (dr_event p), dr_action := trim_space (dr_action p)\<rparr>"

definition normalize_delivery_process :: "delivery_process \<Rightarrow> delivery_process" where
  "normalize_delivery_process p = p \<lparr>dp_action := trim_space (dp_action p),
     dp_error := trim_space (dp_error p)\<rparr>"

definition validate_delivery_record :: "delivery_record \<Rightarrow> go_error option" where
  "validate_delivery_record p =
     (if dr_repository_id p \<le> 0 then Some (webhook_invalid ''webhook delivery repository is required'')
      else let missing = (if dr_delivery_id p = [] then [''delivery id''] else [])
            @ (if dr_event p = [] then [''event''] else []) in
      if missing \<noteq> [] then Some (webhook_invalid
          (''missing required webhook delivery fields: '' @ join_with '', '' missing))
      else if invalid_delivery_text (dr_delivery_id p) 255
        then Some (webhook_invalid ''webhook delivery id is invalid'')
      else if invalid_delivery_text (dr_event p) 100
        then Some (webhook_invalid ''webhook delivery event is invalid'')
      else if invalid_optional_delivery_text (dr_action p) 100
        then Some (webhook_invalid ''webhook delivery action is invalid'')
      else None)"

definition validate_delivery_process :: "int \<Rightarrow> delivery_process \<Rightarrow> go_error option" where
  "validate_delivery_process i p =
     (if i \<le> 0 then Some (webhook_invalid ''webhook delivery id is required'')
      else if dp_repository_id p < 0 then Some (webhook_invalid ''webhook delivery repository is invalid'')
      else if opt_all is_zero (dp_processing_started_at p)
        then Some (webhook_invalid ''webhook delivery processing claim is required'')
      else if invalid_optional_delivery_text (dp_action p) 100
        then Some (webhook_invalid ''webhook delivery action is invalid'')
      else if invalid_optional_delivery_text (dp_error p) 1000
        then Some (webhook_invalid ''webhook delivery error is invalid'')
      else None)"

subsection \<open>Recording\<close>

definition get_delivery :: "int \<Rightarrow> delivery go" where
  "get_delivery i = query_row (\<lambda>d. map scan_delivery (filter (\<lambda>r. wd_id r = i) (tb_deliveries d)))"

definition is_delivery :: "int \<Rightarrow> string \<Rightarrow> delivery_row \<Rightarrow> bool" where
  "is_delivery repo key r \<longleftrightarrow> wd_repository_id r = Some repo \<and> wd_delivery_id r = key"

definition find_delivery :: "int \<Rightarrow> string \<Rightarrow> delivery option go" where
  "find_delivery repo key0 =
     (let key = trim_space key0 in
      if repo \<le> 0 then fail (webhook_invalid ''webhook delivery repository is required'')
      else if key = [] then fail (webhook_invalid ''webhook delivery id is required'')
      else if invalid_delivery_text key 255 then fail (webhook_invalid ''webhook delivery id is invalid'')
      else bind (attempt (query_row (\<lambda>d. map scan_delivery (filter (is_delivery repo key) (tb_deliveries d)))))
        (\<lambda>r. case r of
           Inl e \<Rightarrow> if e = NoRows then ret None else fail e
         | Inr x \<Rightarrow> ret (Some x)))"

text \<open>
  A duplicate is found by the search before the insert or by the unique index on
  \<open>(repository_id, delivery_id)\<close>. The code then returns the delivery that exists next to the
  error; the search after a failed insert may not find it, and only the error is left.
\<close>

datatype recorded = Recorded delivery | AlreadyRecorded delivery

definition insert_delivery :: "delivery_record \<Rightarrow> instant \<Rightarrow> int option go" where
  "insert_delivery p now = sql (\<lambda>d.
     if list_ex (is_delivery (dr_repository_id p) (dr_delivery_id p)) (tb_deliveries d) then (Inr None, d)
     else if dr_repository_id p \<notin> set (map repo_id (tb_repositories d)) then (Inl DbError, d)
     else let i = fresh_id (map wd_id (tb_deliveries d)) in
       (Inr (Some i), d \<lparr>tb_deliveries := tb_deliveries d @ [\<lparr>wd_id = i,
          wd_repository_id = nullable_delivery_int (dr_repository_id p),
          wd_delivery_id = dr_delivery_id p, wd_event = dr_event p,
          wd_action = nullable_delivery_string (dr_action p), wd_received_at = now,
          wd_verified = dr_verified p, wd_processing_started_at = None, wd_processed_at = None,
          wd_error = None\<rparr>]\<rparr>))"

definition record_delivery :: "delivery_record \<Rightarrow> recorded go" where
  "record_delivery params =
     (let p = normalize_delivery_record params;
          search = find_delivery (dr_repository_id p) (dr_delivery_id p) in
      when_invalid (validate_delivery_record p) (
      bind search (\<lambda>existing. case existing of
        Some x \<Rightarrow> ret (AlreadyRecorded x)
      | None \<Rightarrow>
          bind now_utc (\<lambda>now.
          bind (insert_delivery p now) (\<lambda>inserted. case inserted of
            Some i \<Rightarrow> bind (get_delivery i) (\<lambda>x. ret (Recorded x))
          | None \<Rightarrow> bind (attempt search) (\<lambda>again. case again of
              Inr (Some x) \<Rightarrow> ret (AlreadyRecorded x)
            | _ \<Rightarrow> fail (webhook_invalid ''webhook delivery already recorded'')))))))"

subsection \<open>Processing\<close>

definition update_deliveries :: "(delivery_row \<Rightarrow> bool) \<Rightarrow> (delivery_row \<Rightarrow> delivery_row) \<Rightarrow> int go" where
  "update_deliveries p f = exec (\<lambda>d. case update_where p f (tb_deliveries d) of
     (n, rows) \<Rightarrow> (n, d \<lparr>tb_deliveries := rows\<rparr>))"

definition delivery_claimable :: "int \<Rightarrow> instant \<Rightarrow> delivery_row \<Rightarrow> bool" where
  "delivery_claimable i now r \<longleftrightarrow> wd_id r = i \<and> wd_processed_at r = None
     \<and> opt_all (\<lambda>t. t < now - delivery_processing_claim_timeout) (wd_processing_started_at r)"

definition claim_for_processing :: "int \<Rightarrow> (delivery \<times> bool) go" where
  "claim_for_processing i =
     (if i \<le> 0 then fail (webhook_invalid ''webhook delivery id is required'')
      else bind now_utc (\<lambda>now.
      bind (update_deliveries (delivery_claimable i now)
        (\<lambda>r. r \<lparr>wd_processing_started_at := Some now, wd_error := None\<rparr>)) (\<lambda>affected.
      bind (get_delivery i) (\<lambda>d. ret (d, affected > 0)))))"

definition claimed_at :: "int \<Rightarrow> instant \<Rightarrow> delivery_row \<Rightarrow> bool" where
  "claimed_at i t r \<longleftrightarrow> wd_id r = i \<and> wd_processing_started_at r = Some t"

definition coalesce :: "'a option \<Rightarrow> 'a option \<Rightarrow> 'a option" where
  "coalesce a b = (case a of None \<Rightarrow> b | Some _ \<Rightarrow> a)"

text \<open>
  The constraints of the table after an update: the unique index, in which NULL repositories never
  collide, and the reference to the repository.
\<close>

definition delivery_constraints :: "db \<Rightarrow> delivery_row list \<Rightarrow> bool" where
  "delivery_constraints d rows \<longleftrightarrow>
     distinct (map (\<lambda>r. (wd_repository_id r, wd_delivery_id r)) (filter (\<lambda>r. wd_repository_id r \<noteq> None) rows))
     \<and> list_all (\<lambda>r. references (wd_repository_id r) (map repo_id (tb_repositories d))) rows"

definition finished_delivery :: "delivery_process \<Rightarrow> instant \<Rightarrow> delivery_row \<Rightarrow> delivery_row" where
  "finished_delivery p now r = r
     \<lparr>wd_repository_id := coalesce (nullable_delivery_int (dp_repository_id p)) (wd_repository_id r),
      wd_action := coalesce (nullable_delivery_string (dp_action p)) (wd_action r),
      wd_processing_started_at := None, wd_processed_at := Some now,
      wd_error := nullable_delivery_string (dp_error p)\<rparr>"

definition mark_processed :: "int \<Rightarrow> delivery_process \<Rightarrow> delivery go" where
  "mark_processed i params =
     (let p = normalize_delivery_process params in
      when_invalid (validate_delivery_process i p) (
      bind now_utc (\<lambda>now.
      bind (sql (\<lambda>d. case update_where (claimed_at i (the (dp_processing_started_at p)))
          (finished_delivery p now) (tb_deliveries d) of (n, rows) \<Rightarrow>
            if delivery_constraints d rows then (Inr n, d \<lparr>tb_deliveries := rows\<rparr>) else (Inl DbError, d)))
        (\<lambda>affected.
      if affected = 0 then fail NoRows else get_delivery i))))"

definition mark_processing_failed :: "int \<Rightarrow> string \<Rightarrow> instant \<Rightarrow> delivery go" where
  "mark_processing_failed i message0 started =
     (let message = trim_space message0 in
      if i \<le> 0 then fail (webhook_invalid ''webhook delivery id is required'')
      else if is_zero started then fail (webhook_invalid ''webhook delivery processing claim is required'')
      else if invalid_optional_delivery_text message 1000
        then fail (webhook_invalid ''webhook delivery error is invalid'')
      else bind (update_deliveries (claimed_at i started)
        (\<lambda>r. r \<lparr>wd_processing_started_at := None, wd_processed_at := None,
               wd_error := nullable_delivery_string message\<rparr>)) (\<lambda>affected.
      if affected = 0 then fail NoRows else get_delivery i))"

subsection \<open>Reading\<close>

definition latest_verified_pull_request_by_repository :: "int \<Rightarrow> delivery option go" where
  "latest_verified_pull_request_by_repository repo =
     (if repo \<le> 0 then fail (webhook_invalid ''webhook delivery repository is required'')
      else bind (attempt (query_row (\<lambda>d. map scan_delivery (rev (sort_key (\<lambda>r. (wd_received_at r, wd_id r))
          (filter (\<lambda>r. wd_repository_id r = Some repo \<and> wd_verified r \<and> wd_event r = ''pull_request'')
            (tb_deliveries d))))))) (\<lambda>r. case r of
         Inl e \<Rightarrow> if e = NoRows then ret None else fail e
       | Inr x \<Rightarrow> ret (Some x)))"

datatype delivery_order = ReceivedDesc | ReceivedAsc | ProcessedDesc | ProcessedAsc | OtherDeliveryOrder string

definition processed_key :: "delivery_row \<Rightarrow> bool" where
  "processed_key r = (wd_processed_at r = None)"

text \<open>A missing time of processing sorts last in both directions.\<close>

fun delivery_ordered :: "delivery_order \<Rightarrow> delivery_row list \<Rightarrow> delivery_row list" where
  "delivery_ordered ReceivedAsc rows = sort_key (\<lambda>r. (wd_received_at r, wd_id r)) rows"
| "delivery_ordered ProcessedDesc rows = sort_key (\<lambda>r. (processed_key r,
     (case wd_processed_at r of None \<Rightarrow> 0 | Some t \<Rightarrow> - t), - wd_id r)) rows"
| "delivery_ordered ProcessedAsc rows = sort_key (\<lambda>r. (processed_key r,
     (case wd_processed_at r of None \<Rightarrow> 0 | Some t \<Rightarrow> t), wd_id r)) rows"
| "delivery_ordered _ rows = sort_key (\<lambda>r. (- wd_received_at r, - wd_id r)) rows"

definition no_error :: "delivery_row \<Rightarrow> bool" where
  "no_error r \<longleftrightarrow> opt_all (\<lambda>e. e = []) (wd_error r)"

definition processing_condition :: "string \<Rightarrow> delivery_row \<Rightarrow> bool" where
  "processing_condition state r =
     (if state = ''processed'' then wd_processed_at r \<noteq> None \<and> no_error r
      else if state = ''processed_with_error'' then wd_processed_at r \<noteq> None \<and> \<not> no_error r
      else if state = ''processing'' then wd_processed_at r = None \<and> wd_processing_started_at r \<noteq> None
      else if state = ''retryable_failure''
        then wd_processed_at r = None \<and> wd_processing_started_at r = None \<and> \<not> no_error r
      else if state = ''received''
        then wd_processed_at r = None \<and> wd_processing_started_at r = None \<and> no_error r
      else False)"

definition delivery_page_filter :: "read_scope \<Rightarrow> string \<Rightarrow> int \<Rightarrow> delivery_row \<Rightarrow> bool" where
  "delivery_page_filter s processing repo r \<longleftrightarrow> scope_allows s (wd_repository_id r)
     \<and> (processing \<noteq> [] \<longrightarrow> processing_condition processing r)
     \<and> (repo > 0 \<longrightarrow> wd_repository_id r = Some repo)"

definition list_deliveries_page_for_scope ::
    "read_scope \<Rightarrow> string \<Rightarrow> int \<Rightarrow> delivery_order \<Rightarrow> int \<Rightarrow> int \<Rightarrow> (delivery list \<times> int) go" where
  "list_deliveries_page_for_scope s processing repo order offset limit =
     (let n = (if limit \<le> 0 \<or> limit > 500 then 100 else limit);
          start = (if offset < 0 then 0 else offset);
          hit = delivery_page_filter s processing repo in
      bind (query (\<lambda>d. int (length (filter hit (tb_deliveries d))))) (\<lambda>total.
      bind (query (\<lambda>d. map scan_delivery
        (page_rows start n (delivery_ordered order (filter hit (tb_deliveries d)))))) (\<lambda>page.
      ret (page, total))))"

definition list_deliveries_page ::
    "string \<Rightarrow> int \<Rightarrow> delivery_order \<Rightarrow> int \<Rightarrow> int \<Rightarrow> (delivery list \<times> int) go" where
  "list_deliveries_page = list_deliveries_page_for_scope all_repositories"

end
