(* ===== verification/RepositoryStore.thy ===== *)
theory RepositoryStore
  imports Scope "HOL-Library.List_Lexorder" "HOL-Library.Char_ord"
begin

text \<open>
  The repository store (\<open>internal/repository/store.go\<close>, \<open>branches.go\<close>): repositories with their
  enforcement state, the evidence and the failure recorded for it, the encrypted credentials and
  the managed branches. Whether a repository has credentials is read from the credential tables.
\<close>

abbreviation repo_invalid :: "string \<Rightarrow> go_error" where
  "repo_invalid \<equiv> ValidationError RepositoryPkg"

record repository_create =
  rp_forge :: string
  rp_base_url :: string
  rp_owner :: string
  rp_name :: string
  rp_default_branch :: string

record repository_remote =
  rm_forge :: string
  rm_base_url :: string
  rm_owner :: string
  rm_name :: string

subsection \<open>Validation\<close>

text \<open>\<open>strings.TrimRight(s, "/")\<close>.\<close>

definition trim_right_slash :: "string \<Rightarrow> string" where
  "trim_right_slash s = drop_while_end (\<lambda>c. c = CHR ''/'') s"

definition normalize_repository_create :: "repository_create \<Rightarrow> repository_create" where
  "normalize_repository_create p =
     (let forge = to_lower (trim_space (rp_forge p));
          url = trim_right_slash (trim_space (rp_base_url p));
          branch = trim_space (rp_default_branch p) in
      \<lparr>rp_forge = (if forge = [] then ''forgejo'' else forge),
       rp_base_url = (if url = [] then ''https://codeberg.org'' else url),
       rp_owner = trim_space (rp_owner p), rp_name = trim_space (rp_name p),
       rp_default_branch = (if branch = [] then ''main'' else branch)\<rparr>)"

definition normalize_remote_params :: "repository_remote \<Rightarrow> repository_remote" where
  "normalize_remote_params p =
     (let forge = to_lower (trim_space (rm_forge p)) in
      \<lparr>rm_forge = (if forge = [] then ''forgejo'' else forge),
       rm_base_url = trim_right_slash (trim_space (rm_base_url p)),
       rm_owner = trim_space (rm_owner p), rm_name = trim_space (rm_name p)\<rparr>)"

definition validate_branch_name :: "string \<Rightarrow> go_error option" where
  "validate_branch_name name =
     (if name = [] then Some (repo_invalid ''branch name is required'')
      else if length name > 255 then Some (repo_invalid ''branch name is too long'')
      else if contains_control name then Some (repo_invalid ''branch name contains invalid characters'')
      else None)"

definition validate_repository_create :: "repository_create \<Rightarrow> go_error option" where
  "validate_repository_create p =
     (let missing = (if rp_owner p = [] then [''owner''] else []) @ (if rp_name p = [] then [''name''] else []) in
      if missing \<noteq> []
        then Some (repo_invalid (''missing required repository fields: '' @ join_with '', '' missing))
      else validate_branch_name (rp_default_branch p))"

subsection \<open>Reading\<close>

definition scan_repository :: "db \<Rightarrow> repository \<Rightarrow> repository" where
  "scan_repository d r = r
     \<lparr>repo_has_webhook_secret := list_ex (\<lambda>s. se_repository_id s = repo_id r) (tb_webhook_secrets d),
      repo_has_status_token := list_ex (\<lambda>s. se_repository_id s = repo_id r) (tb_status_tokens d)\<rparr>"

definition repositories_where :: "(repository \<Rightarrow> bool) \<Rightarrow> db \<Rightarrow> repository list" where
  "repositories_where p d = map (scan_repository d) (filter p (tb_repositories d))"

definition get_repository_for_scope :: "read_scope \<Rightarrow> int \<Rightarrow> repository go" where
  "get_repository_for_scope s i =
     query_row (repositories_where (\<lambda>r. repo_id r = i \<and> scope_allows s (Some (repo_id r))))"

definition get_repository :: "int \<Rightarrow> repository go" where
  "get_repository i = get_repository_for_scope all_repositories i"

definition list_repositories_for_scope :: "read_scope \<Rightarrow> repository list go" where
  "list_repositories_for_scope s = query (\<lambda>d. map (scan_repository d)
     (sort_key (\<lambda>r. (repo_owner r, repo_name r))
       (filter (\<lambda>r. scope_allows s (Some (repo_id r))) (tb_repositories d))))"

definition list_repositories :: "repository list go" where
  "list_repositories = list_repositories_for_scope all_repositories"

definition find_active_by_remote :: "repository_remote \<Rightarrow> repository option go" where
  "find_active_by_remote params =
     (let p = normalize_remote_params params in
      if rm_forge p = [] \<or> rm_base_url p = [] \<or> rm_owner p = [] \<or> rm_name p = []
        then fail (repo_invalid ''missing required repository remote fields'')
      else bind (attempt (query_row (repositories_where (\<lambda>r. repo_forge r = rm_forge p
            \<and> repo_base_url r = rm_base_url p \<and> repo_owner r = rm_owner p \<and> repo_name r = rm_name p
            \<and> repo_active r)))) (\<lambda>r. case r of
          Inl e \<Rightarrow> if e = NoRows then ret None else fail e
        | Inr repo \<Rightarrow> ret (Some repo)))"

subsection \<open>Creating\<close>

definition same_remote :: "repository_create \<Rightarrow> repository \<Rightarrow> bool" where
  "same_remote p r \<longleftrightarrow> repo_forge r = rp_forge p \<and> repo_base_url r = rp_base_url p
     \<and> repo_owner r = rp_owner p \<and> repo_name r = rp_name p"

definition insert_repository :: "repository_create \<Rightarrow> instant \<Rightarrow> int go" where
  "insert_repository p now = sql (\<lambda>d.
     if list_ex (same_remote p) (tb_repositories d)
       then (Inl (repo_invalid ''repository already exists''), d)
     else let i = fresh_id (map repo_id (tb_repositories d)) in
       (Inr i, d \<lparr>tb_repositories := tb_repositories d @ [\<lparr>repo_id = i, repo_forge = rp_forge p,
          repo_base_url = rp_base_url p, repo_owner = rp_owner p, repo_name = rp_name p,
          repo_default_branch = rp_default_branch p, repo_has_webhook_secret = False,
          repo_has_status_token = False, repo_active = True,
          repo_enforcement = EnforcementSetupIncomplete, repo_status_post_verified_at = None,
          repo_failure_reason = [], repo_failed_at = None, repo_created_at = now,
          repo_updated_at = now\<rparr>]\<rparr>))"

definition branch_row :: "int \<Rightarrow> string \<Rightarrow> int \<Rightarrow> repository_branch" where
  "branch_row repo name i = \<lparr>rb_id = i, rb_repository_id = repo, rb_name = name, rb_protected = False,
     rb_setup_status = ''unknown'', rb_last_checked_at = None\<rparr>"

definition is_branch :: "int \<Rightarrow> string \<Rightarrow> repository_branch \<Rightarrow> bool" where
  "is_branch repo name b \<longleftrightarrow> rb_repository_id b = repo \<and> rb_name b = name"

text \<open>\<open>INSERT INTO repository_branches\<close> under \<open>UNIQUE (repository_id, name)\<close>; \<open>dup\<close> is the error of a duplicate.\<close>

definition insert_branch :: "int \<Rightarrow> string \<Rightarrow> go_error \<Rightarrow> int go" where
  "insert_branch repo name dup = sql (\<lambda>d.
     if list_ex (is_branch repo name) (tb_branches d) then (Inl dup, d)
     else if repo \<notin> set (map repo_id (tb_repositories d)) then (Inl DbError, d)
     else let i = fresh_id (map rb_id (tb_branches d)) in
       (Inr i, d \<lparr>tb_branches := tb_branches d @ [branch_row repo name i]\<rparr>))"

definition create_repository :: "repository_create \<Rightarrow> repository go" where
  "create_repository params =
     (let p = normalize_repository_create params in
      when_invalid (validate_repository_create p) (
      bind now_utc (\<lambda>now.
      bind (insert_repository p now) (\<lambda>i.
      bind (insert_branch i (rp_default_branch p) DbError) (\<lambda>_.
      get_repository i)))))"

subsection \<open>Changing\<close>

definition update_repositories :: "(repository \<Rightarrow> bool) \<Rightarrow> (repository \<Rightarrow> repository) \<Rightarrow> int go" where
  "update_repositories p f = exec (\<lambda>d. case update_where p f (tb_repositories d) of
     (n, rows) \<Rightarrow> (n, d \<lparr>tb_repositories := rows\<rparr>))"

text \<open>\<open>UPDATE repositories SET ... WHERE id = ?\<close>, which must find its row.\<close>

definition set_repository :: "int \<Rightarrow> (instant \<Rightarrow> repository \<Rightarrow> repository) \<Rightarrow> repository go" where
  "set_repository i f =
     bind now_utc (\<lambda>now.
     bind (update_repositories (\<lambda>r. repo_id r = i) (\<lambda>r. (f now r) \<lparr>repo_updated_at := now\<rparr>)) (\<lambda>affected.
     if affected = 0 then fail NoRows else get_repository i))"

definition set_enforcement_state :: "int \<Rightarrow> enforcement_state \<Rightarrow> repository go" where
  "set_enforcement_state i state =
     (if i \<le> 0 then fail (repo_invalid ''repository id is required'')
      else if \<not> enforcement_state_valid state
        then fail (repo_invalid ''repository enforcement state is invalid'')
      else set_repository i (\<lambda>_ r. r \<lparr>repo_enforcement := state\<rparr>))"

definition transition_enforcement_state ::
    "int \<Rightarrow> enforcement_state \<Rightarrow> enforcement_state \<Rightarrow> repository option go" where
  "transition_enforcement_state i source target =
     (if i \<le> 0 then fail (repo_invalid ''repository id is required'')
      else if \<not> enforcement_state_valid source \<or> \<not> enforcement_state_valid target
        then fail (repo_invalid ''repository enforcement state is invalid'')
      else bind now_utc (\<lambda>now.
        bind (update_repositories (\<lambda>r. repo_id r = i \<and> repo_active r \<and> repo_enforcement r = source)
          (\<lambda>r. r \<lparr>repo_enforcement := target, repo_updated_at := now\<rparr>)) (\<lambda>affected.
        if affected = 0 then ret None
        else bind (get_repository i) (\<lambda>updated. ret (Some updated)))))"

definition set_status_post_verified_at :: "int \<Rightarrow> instant option \<Rightarrow> repository go" where
  "set_status_post_verified_at i verified =
     (if i \<le> 0 then fail (repo_invalid ''repository id is required'')
      else if opt_ex is_zero verified
        then fail (repo_invalid ''status post verification time is required'')
      else set_repository i (\<lambda>_ r. r \<lparr>repo_status_post_verified_at := verified\<rparr>))"

definition put_enforcement_failure :: "int \<Rightarrow> string \<Rightarrow> instant option \<Rightarrow> repository go" where
  "put_enforcement_failure i reason failed =
     (if i \<le> 0 then fail (repo_invalid ''repository id is required'')
      else set_repository i (\<lambda>_ r. r \<lparr>repo_failure_reason := reason, repo_failed_at := failed\<rparr>))"

definition set_enforcement_failure :: "int \<Rightarrow> string \<Rightarrow> instant \<Rightarrow> repository go" where
  "set_enforcement_failure i reason failed =
     (if \<not> valid_enforcement_failure_reason reason
        then fail (repo_invalid ''enforcement failure reason is not a known category'')
      else if is_zero failed then fail (repo_invalid ''enforcement failure time is required'')
      else put_enforcement_failure i reason (Some failed))"

definition clear_enforcement_failure :: "int \<Rightarrow> repository go" where
  "clear_enforcement_failure i = put_enforcement_failure i [] None"

subsection \<open>Credentials\<close>

definition put_secret :: "int \<Rightarrow> string \<Rightarrow> instant \<Rightarrow> secret_row list \<Rightarrow> secret_row list" where
  "put_secret repo ciphertext now rows =
     (if list_ex (\<lambda>s. se_repository_id s = repo) rows
      then map (\<lambda>s. if se_repository_id s = repo
             then s \<lparr>se_ciphertext := ciphertext, se_updated_at := now\<rparr> else s) rows
      else rows @ [\<lparr>se_repository_id = repo, se_ciphertext = ciphertext, se_updated_at = now\<rparr>])"

definition validate_ciphertext :: "int \<Rightarrow> string \<Rightarrow> string \<Rightarrow> go_error option" where
  "validate_ciphertext i what ciphertext =
     (if i \<le> 0 then Some (repo_invalid ''repository id is required'')
      else if ciphertext = [] then Some (repo_invalid (what @ '' ciphertext is required''))
      else if length ciphertext > 4096 then Some (repo_invalid (what @ '' ciphertext is too large''))
      else None)"

definition set_webhook_secret_ciphertext :: "int \<Rightarrow> string \<Rightarrow> repository go" where
  "set_webhook_secret_ciphertext i ciphertext =
     when_invalid (validate_ciphertext i ''webhook secret'' ciphertext) (
     bind now_utc (\<lambda>now.
     bind (update_repositories (\<lambda>r. repo_id r = i) (\<lambda>r. r \<lparr>repo_updated_at := now\<rparr>)) (\<lambda>affected.
     if affected = 0 then fail NoRows
     else bind (exec (\<lambda>d. ((), d \<lparr>tb_webhook_secrets := put_secret i ciphertext now (tb_webhook_secrets d)\<rparr>)))
       (\<lambda>_. get_repository i))))"

definition set_status_token_ciphertext :: "int \<Rightarrow> string \<Rightarrow> repository go" where
  "set_status_token_ciphertext i ciphertext =
     when_invalid (validate_ciphertext i ''status token'' ciphertext) (
     bind now_utc (\<lambda>now.
     bind (update_repositories (\<lambda>r. repo_id r = i) (\<lambda>r. r \<lparr>repo_updated_at := now\<rparr>)) (\<lambda>affected.
     if affected = 0 then fail NoRows
     else bind (exec (\<lambda>d. ((), d \<lparr>tb_status_tokens := put_secret i ciphertext now (tb_status_tokens d)\<rparr>)))
       (\<lambda>_. get_repository i))))"

definition stored_ciphertext :: "(db \<Rightarrow> secret_row list) \<Rightarrow> int \<Rightarrow> string option go" where
  "stored_ciphertext sel i =
     (if i \<le> 0 then fail (repo_invalid ''repository id is required'')
      else bind (attempt (query_row (\<lambda>d. map se_ciphertext (filter (\<lambda>s. se_repository_id s = i
           \<and> list_ex (\<lambda>r. repo_id r = i \<and> repo_active r) (tb_repositories d)) (sel d))))) (\<lambda>r. case r of
         Inl e \<Rightarrow> if e = NoRows then ret None else fail e
       | Inr ciphertext \<Rightarrow> ret (if ciphertext = [] then None else Some ciphertext)))"

definition webhook_secret_ciphertext :: "int \<Rightarrow> string option go" where
  "webhook_secret_ciphertext = stored_ciphertext tb_webhook_secrets"

definition status_token_ciphertext :: "int \<Rightarrow> string option go" where
  "status_token_ciphertext = stored_ciphertext tb_status_tokens"

subsection \<open>Managed branches\<close>

definition list_branches :: "int \<Rightarrow> repository_branch list go" where
  "list_branches repo =
     (if repo \<le> 0 then fail (repo_invalid ''repository id is required'')
      else query (\<lambda>d. sort_key rb_name (filter (\<lambda>b. rb_repository_id b = repo) (tb_branches d))))"

definition branch_managed :: "int \<Rightarrow> string \<Rightarrow> bool go" where
  "branch_managed repo name0 =
     (let name = trim_space name0 in
      if repo \<le> 0 \<or> name = [] then ret False
      else query (\<lambda>d. list_ex (is_branch repo name) (tb_branches d)))"

definition get_branch :: "int \<Rightarrow> repository_branch go" where
  "get_branch i = query_row (\<lambda>d. filter (\<lambda>b. rb_id b = i) (tb_branches d))"

definition add_branch :: "int \<Rightarrow> string \<Rightarrow> repository_branch go" where
  "add_branch repo name0 =
     (if repo \<le> 0 then fail (repo_invalid ''repository id is required'')
      else let name = trim_space name0 in
      when_invalid (validate_branch_name name) (
      bind (insert_branch repo name (repo_invalid ''branch is already managed'')) get_branch))"

definition remove_branch :: "int \<Rightarrow> string \<Rightarrow> unit go" where
  "remove_branch repo name0 =
     (if repo \<le> 0 then fail (repo_invalid ''repository id is required'')
      else let name = trim_space name0 in
      bind (exec (\<lambda>d. case delete_where (is_branch repo name) (tb_branches d) of
          (n, rows) \<Rightarrow> (n, d \<lparr>tb_branches := rows\<rparr>))) (\<lambda>affected.
      if affected = 0 then fail (repo_invalid ''managed branch not found'') else ret ()))"

definition update_branch_readiness :: "int \<Rightarrow> string \<Rightarrow> bool \<Rightarrow> string \<Rightarrow> instant \<Rightarrow> unit go" where
  "update_branch_readiness repo name protected setup_status at =
     (if repo \<le> 0 \<or> trim_space name = [] \<or> is_zero at
        then fail (repo_invalid ''valid repository branch readiness fields are required'')
      else if setup_status \<noteq> ''ok'' \<and> setup_status \<noteq> ''unknown''
        then fail (repo_invalid ''repository branch setup status is invalid'')
      else bind (exec (\<lambda>d. case update_where (is_branch repo (trim_space name))
            (\<lambda>b. b \<lparr>rb_protected := protected, rb_setup_status := setup_status,
                   rb_last_checked_at := Some at\<rparr>) (tb_branches d) of
          (n, rows) \<Rightarrow> (n, d \<lparr>tb_branches := rows\<rparr>))) (\<lambda>affected.
        if affected = 0 then fail NoRows else ret ()))"

definition branch_has_blocking_freeze :: "int \<Rightarrow> string \<Rightarrow> bool go" where
  "branch_has_blocking_freeze repo name = query (\<lambda>d. list_ex (\<lambda>r. fz_repository_id r = repo
     \<and> fz_branch r = name \<and> (fz_status r = FreezeActive \<or> fz_status r = FreezeScheduled)) (tb_freezes d))"

end
