(* ===== verification/RepositorySetup.thy ===== *)
theory RepositorySetup
  imports RepositoryStore Accounting
begin

text \<open>
  Repository setup (\<open>internal/repositorysetup/service.go\<close>, \<open>branches.go\<close>): creating a repository,
  storing its credentials and changing its managed branches, each with its audit event in one
  transaction. Whatever changes what was verified takes a ready repository back to setup.

  The encryption of credentials and the parsing of URLs are parameters: \<open>secret_store\<close> is the
  interface \<open>secrets.Store\<close>, \<open>parse\<close> is \<open>url.Parse\<close> as far as the redaction looks at its result.
\<close>

abbreviation setup_invalid :: "string \<Rightarrow> go_error" where
  "setup_invalid \<equiv> ValidationError RepositorySetupPkg"

record secret_store =
  ss_encrypt :: "string \<Rightarrow> string go"
  ss_decrypt :: "string \<Rightarrow> string go"

text \<open>\<open>url_stripped\<close> is the text of the URL without user information, query and fragment.\<close>

record parsed_url =
  url_opaque :: string
  url_host :: string
  url_scheme :: string
  url_stripped :: string

definition redact_url_user_info :: "(string \<Rightarrow> parsed_url option) \<Rightarrow> string \<Rightarrow> string" where
  "redact_url_user_info parse raw = (case parse raw of
     None \<Rightarrow> ''[invalid URL]''
   | Some u \<Rightarrow>
       if url_opaque u \<noteq> [] \<or> url_host u = [] \<or> (url_scheme u \<noteq> ''http'' \<and> url_scheme u \<noteq> ''https'')
       then ''[invalid URL]'' else url_stripped u)"

definition active_status_token_locked_message :: string where
  "active_status_token_locked_message = ''Deactivate repository enforcement before replacing the status token.''"

definition enforcement_scope_locked_message :: string where
  "enforcement_scope_locked_message = ''Deactivate repository enforcement before changing managed branches.''"

subsection \<open>Events\<close>

definition repository_event :: "actor \<Rightarrow> string \<Rightarrow> int \<Rightarrow> (string \<times> detail_value) list \<Rightarrow> audit_event" where
  "repository_event actor action i kvs = new_event actor action subject_type_repository (format_int i) kvs"

definition repository_created_event ::
    "(string \<Rightarrow> parsed_url option) \<Rightarrow> repository \<Rightarrow> actor \<Rightarrow> audit_event" where
  "repository_created_event parse repo actor =
     repository_event actor ''repository.created'' (repo_id repo)
       (text_field ''actor_kind'' (actor_kind actor) @ text_field ''actor_role'' (actor_role actor)
        @ text_field ''base_url'' (redact_url_user_info parse (repo_base_url repo))
        @ text_field ''default_branch'' (repo_default_branch repo)
        @ text_field ''forge'' (repo_forge repo) @ text_field ''full_name'' (repo_full_name repo)
        @ text_field ''name'' (repo_name repo) @ text_field ''owner'' (repo_owner repo))"

definition format_bool :: "bool \<Rightarrow> string" where
  "format_bool b = (if b then ''true'' else ''false'')"

definition repository_webhook_secret_configured_event ::
    "(string \<Rightarrow> parsed_url option) \<Rightarrow> repository \<Rightarrow> actor \<Rightarrow> bool \<Rightarrow> audit_event" where
  "repository_webhook_secret_configured_event parse repo actor was =
     repository_event actor ''repository.webhook_secret_configured'' (repo_id repo)
       (text_field ''actor_kind'' (actor_kind actor) @ text_field ''actor_role'' (actor_role actor)
        @ text_field ''base_url'' (redact_url_user_info parse (repo_base_url repo))
        @ text_field ''forge'' (repo_forge repo) @ text_field ''full_name'' (repo_full_name repo)
        @ text_field ''name'' (repo_name repo) @ text_field ''owner'' (repo_owner repo)
        @ text_field ''repository_id'' (format_int (repo_id repo))
        @ text_field ''webhook_secret_was_configured'' (format_bool was))"

definition repository_status_token_configured_event ::
    "(string \<Rightarrow> parsed_url option) \<Rightarrow> repository \<Rightarrow> actor \<Rightarrow> bool \<Rightarrow> audit_event" where
  "repository_status_token_configured_event parse repo actor was =
     repository_event actor ''repository.status_token_configured'' (repo_id repo)
       (text_field ''actor_kind'' (actor_kind actor) @ text_field ''actor_role'' (actor_role actor)
        @ text_field ''base_url'' (redact_url_user_info parse (repo_base_url repo))
        @ text_field ''forge'' (repo_forge repo) @ text_field ''full_name'' (repo_full_name repo)
        @ text_field ''name'' (repo_name repo) @ text_field ''owner'' (repo_owner repo)
        @ text_field ''repository_id'' (format_int (repo_id repo))
        @ text_field ''status_token_was_configured'' (format_bool was))"

definition repository_branch_event :: "string \<Rightarrow> repository \<Rightarrow> string \<Rightarrow> actor \<Rightarrow> audit_event" where
  "repository_branch_event action repo branch actor = repository_event actor action (repo_id repo)
     (text_field ''actor_kind'' (actor_kind actor) @ text_field ''actor_role'' (actor_role actor)
      @ text_field ''branch'' branch @ text_field ''repository_id'' (format_int (repo_id repo)))"

subsection \<open>Validation\<close>

definition validate_webhook_secret_params :: "int \<Rightarrow> string \<Rightarrow> go_error option" where
  "validate_webhook_secret_params i secret =
     (if i \<le> 0 then Some (setup_invalid ''repository id is required'')
      else if trim_space secret = [] then Some (setup_invalid ''webhook secret is required'')
      else if trim_space secret \<noteq> secret
        then Some (setup_invalid ''webhook secret must not include leading or trailing whitespace'')
      else if length secret < 16 then Some (setup_invalid ''webhook secret must be at least 16 characters'')
      else if length secret > 512 then Some (setup_invalid ''webhook secret is too long'')
      else if contains_control secret then Some (setup_invalid ''webhook secret contains invalid characters'')
      else None)"

definition validate_status_token_params :: "int \<Rightarrow> string \<Rightarrow> go_error option" where
  "validate_status_token_params i token =
     (if i \<le> 0 then Some (setup_invalid ''repository id is required'')
      else if trim_space token = [] then Some (setup_invalid ''status token is required'')
      else if trim_space token \<noteq> token
        then Some (setup_invalid ''status token must not include leading or trailing whitespace'')
      else if length token < 16 then Some (setup_invalid ''status token must be at least 16 characters'')
      else if length token > 1024 then Some (setup_invalid ''status token is too long'')
      else if contains_control token then Some (setup_invalid ''status token contains invalid characters'')
      else None)"

subsection \<open>Operations\<close>

definition setup_create ::
    "(string \<Rightarrow> parsed_url option) \<Rightarrow> repository_create \<Rightarrow> actor \<Rightarrow> repository go" where
  "setup_create parse params actor = transact (
     bind (create_repository params) (\<lambda>created.
     bind (record_event (repository_created_event parse created actor)) (\<lambda>_.
     ret created)))"

definition existing_repository :: "int \<Rightarrow> repository go" where
  "existing_repository i =
     bind (attempt (get_repository i)) (\<lambda>r. case r of
       Inl e \<Rightarrow> if e = NoRows then fail (setup_invalid ''repository not found'') else fail e
     | Inr repo \<Rightarrow> ret repo)"

definition setup_webhook_secret ::
    "(string \<Rightarrow> parsed_url option) \<Rightarrow> secret_store option \<Rightarrow> int \<Rightarrow> string \<Rightarrow> actor \<Rightarrow> repository go" where
  "setup_webhook_secret parse secrets i secret actor = (case secrets of
     None \<Rightarrow> fail (ConfigurationError ''webhook secret encryption key is not configured'')
   | Some store \<Rightarrow> when_invalid (validate_webhook_secret_params i secret) (
       bind (ss_encrypt store secret) (\<lambda>ciphertext. transact (
         bind (existing_repository i) (\<lambda>existing.
         bind (set_webhook_secret_ciphertext i ciphertext) (\<lambda>updated.
         bind (record_event (repository_webhook_secret_configured_event parse updated actor
           (repo_has_webhook_secret existing))) (\<lambda>_.
         ret updated)))))))"

definition setup_status_token ::
    "(string \<Rightarrow> parsed_url option) \<Rightarrow> secret_store option \<Rightarrow> int \<Rightarrow> string \<Rightarrow> actor \<Rightarrow> repository go" where
  "setup_status_token parse secrets i token actor = (case secrets of
     None \<Rightarrow> fail (ConfigurationError ''status token encryption key is not configured'')
   | Some store \<Rightarrow> when_invalid (validate_status_token_params i token) (
       bind (ss_encrypt store token) (\<lambda>ciphertext. transact (
         bind (existing_repository i) (\<lambda>existing.
         if enforcement_active existing then fail (setup_invalid active_status_token_locked_message)
         else bind (set_status_token_ciphertext i ciphertext) (\<lambda>_.
         bind (set_status_post_verified_at i None) (\<lambda>cleared.
         bind (if repo_enforcement existing = EnforcementReady
               then set_enforcement_state i EnforcementSetupIncomplete else ret cleared) (\<lambda>updated.
         bind (record_event (repository_status_token_configured_event parse updated actor
           (repo_has_status_token existing))) (\<lambda>_.
         ret updated)))))))))"

definition decrypted :: "secret_store \<Rightarrow> string option \<Rightarrow> string option go" where
  "decrypted store ciphertext = (case ciphertext of
     None \<Rightarrow> ret None
   | Some c \<Rightarrow> bind (ss_decrypt store c) (\<lambda>plain. ret (Some plain)))"

definition setup_read_webhook_secret :: "secret_store option \<Rightarrow> int \<Rightarrow> string option go" where
  "setup_read_webhook_secret secrets i = (case secrets of
     None \<Rightarrow> fail (ConfigurationError ''webhook secret encryption key is not configured'')
   | Some store \<Rightarrow> bind (webhook_secret_ciphertext i) (decrypted store))"

definition setup_read_status_token :: "secret_store option \<Rightarrow> int \<Rightarrow> string option go" where
  "setup_read_status_token secrets i = (case secrets of
     None \<Rightarrow> fail (ConfigurationError ''status token encryption key is not configured'')
   | Some store \<Rightarrow> bind (status_token_ciphertext i) (decrypted store))"

subsection \<open>Managed branches\<close>

definition branch_scope_repository :: "int \<Rightarrow> repository go" where
  "branch_scope_repository i =
     bind (existing_repository i) (\<lambda>repo.
     if enforcement_active repo then fail (setup_invalid enforcement_scope_locked_message) else ret repo)"

definition invalidate_ready_on_branch_scope_change :: "repository \<Rightarrow> unit go" where
  "invalidate_ready_on_branch_scope_change repo =
     bind (set_enforcement_state (repo_id repo)
       (if repo_enforcement repo = EnforcementReady then EnforcementSetupIncomplete
        else repo_enforcement repo)) (\<lambda>_. ret ())"

definition setup_add_branch :: "int \<Rightarrow> string \<Rightarrow> actor \<Rightarrow> repository_branch go" where
  "setup_add_branch i branch actor = transact (
     bind (branch_scope_repository i) (\<lambda>repo.
     bind (add_branch i branch) (\<lambda>added.
     bind (invalidate_ready_on_branch_scope_change repo) (\<lambda>_.
     bind (record_event (repository_branch_event ''repository.branch_added'' repo (rb_name added) actor)) (\<lambda>_.
     ret added)))))"

definition setup_remove_branch :: "int \<Rightarrow> string \<Rightarrow> actor \<Rightarrow> unit go" where
  "setup_remove_branch i branch0 actor =
     (let branch = trim_space branch0 in transact (
     bind (branch_scope_repository i) (\<lambda>repo.
     if branch = repo_default_branch repo then fail (setup_invalid ''the default branch cannot be removed'')
     else bind (branch_has_blocking_freeze i branch) (\<lambda>blocked.
     if blocked then fail (setup_invalid
       ''the branch has an active or scheduled freeze; end or cancel it before removing the branch'')
     else bind (remove_branch i branch) (\<lambda>_.
     bind (invalidate_ready_on_branch_scope_change repo) (\<lambda>_.
     record_event (repository_branch_event ''repository.branch_removed'' repo branch actor)))))))"

end
