(* ===== verification/Forge.thy ===== *)
theory Forge
  imports World GoText "HOL-Library.Sublist"
begin

text \<open>
  The forge as the code sees it (\<open>internal/forge/client.go\<close>): the interface its clients implement
  and the factory that makes a client for a repository and a token. What the forge answers is a
  parameter. The errors of clients reach tables and users as texts, so a token must be redacted
  from them first; \<open>fe_text\<close> is \<open>error.Error\<close>.
\<close>

record commit_status =
  cp_sha :: string
  cp_state :: commit_status_state
  cp_context :: string
  cp_description :: string
  cp_target_url :: string

record branch_head =
  bh_branch :: string
  bh_sha :: string

record forge_client =
  fk_get_pull_request :: "string \<Rightarrow> string \<Rightarrow> int \<Rightarrow> pull_request go"
  fk_list_open_pull_requests :: "string \<Rightarrow> string \<Rightarrow> string \<Rightarrow> pull_request list go"
  fk_post_commit_status :: "string \<Rightarrow> string \<Rightarrow> commit_status \<Rightarrow> unit go"
  fk_get_branch_head :: "string \<Rightarrow> string \<Rightarrow> string \<Rightarrow> branch_head go"

record forge_env =
  fe_client_for :: "repository \<Rightarrow> string \<Rightarrow> forge_client option go"
  fe_status_token :: "int \<Rightarrow> string option go"
  fe_text :: "go_error \<Rightarrow> string"

subsection \<open>Redaction\<close>

text \<open>\<open>strings.ReplaceAll\<close> for a text to replace that is not empty.\<close>

function replace_all :: "string \<Rightarrow> string \<Rightarrow> string \<Rightarrow> string" where
  "replace_all old new s =
     (if old = [] then s
      else case s of
        [] \<Rightarrow> []
      | c # cs \<Rightarrow>
          if prefix old s then new @ replace_all old new (drop (length old) s)
          else c # replace_all old new cs)"
  by pat_completeness auto

termination
  by (relation "measure (\<lambda>(old, new, s). length s)") (auto simp: prefix_def)

declare replace_all.simps [simp del]

definition redacted_mark :: string where
  "redacted_mark = ''[redacted]''"

text \<open>The loop every package repeats over the sensitive values.\<close>

definition redact :: "string list \<Rightarrow> string \<Rightarrow> string" where
  "redact sensitive message = foldl (\<lambda>m v. if trim_space v \<noteq> [] then replace_all (trim_space v) redacted_mark m else m)
     message sensitive"

end
