(* ===== verification/SetupCheck.thy ===== *)
theory SetupCheck
  imports DeliveryStore RepositorySetup Jobs Forge
begin

text \<open>
  Readiness checks (\<open>internal/setupcheck/setupcheck.go\<close>, \<open>store.go\<close>, \<open>service.go\<close>): what is
  inspected before enforcement can be verified, and how a run is recorded. The inspection of the
  forge is a parameter. A run whose repository changed meanwhile is dropped.
\<close>

record check_result =
  cr_name :: string
  cr_status :: string
  cr_description :: string
  cr_remediation :: string

record branch_inspection =
  bi_results :: "check_result list"
  bi_protected :: bool

record inspector =
  in_pull_request_read :: "repository \<Rightarrow> string \<Rightarrow> check_result go"
  in_branch :: "repository \<Rightarrow> string \<Rightarrow> branch_inspection go"

definition status_ok :: string where
  "status_ok = ''ok''"
definition status_warning :: string where
  "status_warning = ''warning''"
definition status_failed :: string where
  "status_failed = ''failed''"

definition check_status_token_configured :: string where
  "check_status_token_configured = ''Status token configured''"
definition check_pull_request_read_access :: string where
  "check_pull_request_read_access = ''Pull request read access''"
definition check_recent_verified_webhook :: string where
  "check_recent_verified_webhook = ''Recent verified pull request webhook''"
definition check_status_posting_untested :: string where
  "check_status_posting_untested = ''Status posting has not been tested yet''"

definition status_from_bool :: "bool \<Rightarrow> string" where
  "status_from_bool ok = (if ok then status_ok else status_failed)"

subsection \<open>The store\<close>

text \<open>The messages print names with \<open>%q\<close>; its escapes are left out here.\<close>

definition quoted :: "string \<Rightarrow> string" where
  "quoted s = [CHR 0x22] @ s @ [CHR 0x22]"

definition valid_check_status :: "string \<Rightarrow> bool" where
  "valid_check_status s \<longleftrightarrow> s \<in> set [status_ok, status_warning, status_failed]"

fun validate_results :: "check_result list \<Rightarrow> go_error option" where
  "validate_results [] = None"
| "validate_results (r # rs) =
     (if trim_space (cr_name r) = [] then Some (Plain ''setup check name is required'')
      else if \<not> valid_check_status (cr_status r)
        then Some (Plain (''setup check '' @ quoted (cr_name r) @ '' has invalid status '' @ quoted (cr_status r)))
      else if trim_space (cr_description r) = []
        then Some (Plain (''setup check '' @ quoted (cr_name r) @ '' description is required''))
      else validate_results rs)"

definition validate_record_params :: "int \<Rightarrow> check_result list \<Rightarrow> go_error option" where
  "validate_record_params repo results =
     (if repo \<le> 0 then Some (Plain ''setup check repository id is required'') else validate_results results)"

definition insert_check :: "int \<Rightarrow> string \<Rightarrow> instant \<Rightarrow> check_result \<Rightarrow> unit go" where
  "insert_check repo branch at r = checked (\<lambda>d. repo \<in> set (map repo_id (tb_repositories d)))
     (\<lambda>d. ((), d \<lparr>tb_checks := tb_checks d @ [\<lparr>ck_id = fresh_id (map ck_id (tb_checks d)),
        ck_repository_id = repo, ck_branch = (if branch = [] then None else Some branch),
        ck_name = cr_name r, ck_status = cr_status r, ck_description = cr_description r,
        ck_remediation = (if cr_remediation r = [] then None else Some (cr_remediation r)),
        ck_checked_at = at\<rparr>]\<rparr>))"

definition record_checks_no_tx :: "int \<Rightarrow> string \<Rightarrow> check_result list \<Rightarrow> instant \<Rightarrow> unit go" where
  "record_checks_no_tx repo branch results at = when_invalid (validate_record_params repo results)
     (bind (for_each (insert_check repo (trim_space branch) at) results) (\<lambda>_. ret ()))"

definition record_checks :: "int \<Rightarrow> string \<Rightarrow> check_result list \<Rightarrow> unit go" where
  "record_checks repo branch results = when_invalid (validate_record_params repo results)
     (if results = [] then ret ()
      else transact (bind now_utc (\<lambda>now. record_checks_no_tx repo branch results now)))"

record setup_check =
  sk_id :: int
  sk_repository_id :: int
  sk_branch :: string
  sk_result :: check_result
  sk_checked_at :: instant

definition scan_check :: "check_row \<Rightarrow> setup_check" where
  "scan_check r = \<lparr>sk_id = ck_id r, sk_repository_id = ck_repository_id r,
     sk_branch = (case ck_branch r of None \<Rightarrow> [] | Some b \<Rightarrow> b),
     sk_result = \<lparr>cr_name = ck_name r, cr_status = ck_status r, cr_description = ck_description r,
       cr_remediation = (case ck_remediation r of None \<Rightarrow> [] | Some t \<Rightarrow> t)\<rparr>,
     sk_checked_at = ck_checked_at r\<rparr>"

definition newest_checks :: "int \<Rightarrow> db \<Rightarrow> check_row list" where
  "newest_checks repo d = rev (sort_key (\<lambda>r. (ck_checked_at r, ck_id r))
     (filter (\<lambda>r. ck_repository_id r = repo) (tb_checks d)))"

definition list_checks_by_repository :: "int \<Rightarrow> setup_check list go" where
  "list_checks_by_repository repo =
     (if repo \<le> 0 then fail (Plain ''setup check repository id is required'')
      else query (\<lambda>d. map scan_check (newest_checks repo d)))"

subsection \<open>The results of a run\<close>

definition webhook_freshness :: int where
  "webhook_freshness = 24 * 60 * 60 * nanos"

definition status_token_result :: "bool \<Rightarrow> check_result" where
  "status_token_result configured = \<lparr>cr_name = check_status_token_configured,
     cr_status = status_from_bool configured,
     cr_description = (if configured then ''Encrypted status token material is configured for this repository.''
       else ''An encrypted per-repository status token must be stored before forge readiness can be checked.''),
     cr_remediation = (if configured then []
       else ''Store the repository status token using the encrypted credential form.'')\<rparr>"

definition token_required_pull_request_result :: check_result where
  "token_required_pull_request_result = \<lparr>cr_name = check_pull_request_read_access, cr_status = status_failed,
     cr_description = ''Pull request read access was not checked because no encrypted status token is configured.'',
     cr_remediation = ''Store a repository status token with pull request read access.''\<rparr>"

definition token_required_branch_inspection :: "string \<Rightarrow> branch_inspection" where
  "token_required_branch_inspection branch =
     \<lparr>bi_results = map (\<lambda>name. \<lparr>cr_name = name, cr_status = status_failed,
        cr_description = ''Forge branch readiness was not checked because no encrypted status token is configured.'',
        cr_remediation = ''Store a repository status token, then rerun readiness checks for '' @ branch @ ''.''\<rparr>)
        [''Branch protection readable'', ''Branch protection enabled'',
         ''Required status checks enabled'', ''Required thawguard/freeze context configured''],
      bi_protected = False\<rparr>"

definition status_posting_untested_result :: check_result where
  "status_posting_untested_result = \<lparr>cr_name = check_status_posting_untested, cr_status = status_warning,
     cr_description = ''This read-only readiness run did not post a commit status, so status-post permission remains unverified.'',
     cr_remediation = ''Activation requires a later controlled status-post test before enforcement can become ready or active.''\<rparr>"

definition webhook_result :: "int \<Rightarrow> instant \<Rightarrow> (check_result \<times> bool) go" where
  "webhook_result repo now =
     bind (latest_verified_pull_request_by_repository repo) (\<lambda>found. ret (case found of
       None \<Rightarrow> (\<lparr>cr_name = check_recent_verified_webhook, cr_status = status_failed,
         cr_description = ''No verified pull_request webhook delivery has been recorded for this repository.'',
         cr_remediation = ''Send a signed pull_request webhook to /webhooks/forgejo with the configured repository secret.''\<rparr>, False)
     | Some d \<Rightarrow>
         if dv_received_at d < now - webhook_freshness then
           (\<lparr>cr_name = check_recent_verified_webhook, cr_status = status_warning,
             cr_description = ''The latest verified pull_request webhook delivery is stale (older than 24 hours).'',
             cr_remediation = ''Confirm the forge webhook is enabled and deliver a current signed pull_request event.''\<rparr>, False)
         else (\<lparr>cr_name = check_recent_verified_webhook, cr_status = status_ok,
             cr_description = ''A verified pull_request webhook delivery was received within the last 24 hours.'',
             cr_remediation = []\<rparr>, True)))"

definition validate_branch_inspection :: "branch_inspection \<Rightarrow> go_error option" where
  "validate_branch_inspection i =
     (if length (bi_results i) \<noteq> 4
        then Some (Plain ''branch readiness inspection did not return all required checks'')
      else validate_record_params 1 (bi_results i))"

definition all_ok :: "check_result list \<Rightarrow> bool" where
  "all_ok results \<longleftrightarrow> results \<noteq> [] \<and> list_all (\<lambda>r. cr_status r = status_ok) results"

definition count_status :: "string \<Rightarrow> check_result list \<Rightarrow> int" where
  "count_status s results = int (length (filter (\<lambda>r. cr_status r = s) results))"

subsection \<open>Recording a run\<close>

record branch_run =
  br_branch :: repository_branch
  br_inspection :: branch_inspection
  br_valid :: bool

definition setup_check_run_event ::
    "int \<Rightarrow> actor \<Rightarrow> nat \<Rightarrow> check_result list \<Rightarrow> bool \<Rightarrow> audit_event" where
  "setup_check_run_event repo actor branches results fresh =
     repository_event actor ''repository.setup_check_run'' repo
       [(''actor_kind'', DetailText (actor_kind actor)), (''actor_role'', DetailText (actor_role actor)),
        (''failed_count'', DetailInt (count_status status_failed results)),
        (''managed_branch_count'', DetailInt (int branches)),
        (''ok_count'', DetailInt (count_status status_ok results)),
        (''repository_id'', DetailInt repo),
        (''warning_count'', DetailInt (count_status status_warning results)),
        (''webhook_evidence_fresh'', DetailOther)]"

definition setup_drift_event :: "int \<Rightarrow> actor \<Rightarrow> string list \<Rightarrow> audit_event" where
  "setup_drift_event repo actor branches = repository_event actor ''repository.setup_drift_detected'' repo
     [(''actor_kind'', DetailText (actor_kind actor)), (''actor_role'', DetailText (actor_role actor)),
      (''branches'', DetailOther), (''drifted_branches'', DetailInt (int (length branches))),
      (''repository_id'', DetailInt repo)]"

text \<open>Runs of one repository never share their time, even when the clock stands still.\<close>

definition next_run_timestamp :: "int \<Rightarrow> instant \<Rightarrow> instant go" where
  "next_run_timestamp repo proposed =
     bind (attempt (query_row (\<lambda>d. map ck_checked_at (newest_checks repo d)))) (\<lambda>r. case r of
       Inl e \<Rightarrow> if e = NoRows then ret proposed else fail e
     | Inr latest \<Rightarrow> ret (if \<not> proposed > latest then latest + 1 else proposed))"

definition run_status :: "branch_run \<Rightarrow> string" where
  "run_status b = (if all_ok (bi_results (br_inspection b)) then ''ok'' else ''unknown'')"

definition drifts :: "branch_run \<Rightarrow> bool" where
  "drifts b \<longleftrightarrow> br_valid b \<and> rb_setup_status (br_branch b) = ''ok'' \<and> run_status b \<noteq> ''ok''"

definition persist_branch :: "repository \<Rightarrow> instant \<Rightarrow> branch_run \<Rightarrow> unit go" where
  "persist_branch repo at b =
     bind (record_checks_no_tx (repo_id repo) (rb_name (br_branch b)) (bi_results (br_inspection b)) at) (\<lambda>_.
     if \<not> br_valid b then ret ()
     else update_branch_readiness (repo_id repo) (rb_name (br_branch b)) (bi_protected (br_inspection b))
       (run_status b) at)"

definition degrade_on_failure :: "repository \<Rightarrow> check_result list \<Rightarrow> instant \<Rightarrow> unit go" where
  "degrade_on_failure repo results at =
     (if repo_enforcement repo = EnforcementActive \<and> count_status status_failed results > 0 then
        bind (transition_enforcement_state (repo_id repo) EnforcementActive EnforcementUnhealthy) (\<lambda>moved.
        if moved = None then ret ()
        else bind (set_enforcement_failure (repo_id repo) failure_readiness_checks at) (\<lambda>_.
          bind (ensure_reconciliation_failure (repo_id repo) failure_readiness_checks) (\<lambda>_. ret ())))
      else ret ())"

definition same_snapshot :: "repository \<Rightarrow> repository \<Rightarrow> bool" where
  "same_snapshot current expected \<longleftrightarrow> repo_active current = repo_active expected
     \<and> repo_enforcement current = repo_enforcement expected
     \<and> repo_updated_at current = repo_updated_at expected"

definition persist_run ::
    "repository \<Rightarrow> actor \<Rightarrow> check_result list \<Rightarrow> branch_run list \<Rightarrow> bool \<Rightarrow> instant \<Rightarrow> unit go" where
  "persist_run repo actor repository_results branches fresh at0 = transact (
     bind (get_repository (repo_id repo)) (\<lambda>current.
     if \<not> same_snapshot current repo then ret ()
     else bind (next_run_timestamp (repo_id repo) at0) (\<lambda>at.
     bind (record_checks_no_tx (repo_id repo) [] repository_results at) (\<lambda>_.
     bind (for_each (persist_branch repo at) branches) (\<lambda>_.
     let results = repository_results @ concat (map (\<lambda>b. bi_results (br_inspection b)) branches);
         drifted = map (\<lambda>b. rb_name (br_branch b)) (filter drifts branches) in
     bind (degrade_on_failure repo results at) (\<lambda>_.
     bind (record_event (setup_check_run_event (repo_id repo) actor (length branches) results fresh)) (\<lambda>_.
     if drifted = [] then ret ()
     else record_event (setup_drift_event (repo_id repo) actor drifted))))))))"

subsection \<open>Running the checks\<close>

record readiness_env =
  re_forge :: forge_env
  re_inspector_for :: "repository \<Rightarrow> string \<Rightarrow> inspector option go"

definition sanitized_token_error :: "readiness_env \<Rightarrow> string \<Rightarrow> go_error \<Rightarrow> string \<Rightarrow> go_error" where
  "sanitized_token_error env operation e token =
     Plain (operation @ '': '' @ redact [token] (fe_text (re_forge env) e))"

definition load_token :: "readiness_env \<Rightarrow> repository \<Rightarrow> string option go" where
  "load_token env repo =
     (if \<not> repo_has_status_token repo then ret None
      else bind (fe_status_token (re_forge env) (repo_id repo)) (\<lambda>found. case found of
        None \<Rightarrow> ret None
      | Some token \<Rightarrow>
          if trim_space token = [] then fail (Plain ''decrypted repository status token is empty'')
          else ret (Some token)))"

fun inspect_branches ::
    "readiness_env \<Rightarrow> repository \<Rightarrow> string \<Rightarrow> inspector \<Rightarrow> repository_branch list \<Rightarrow> branch_run list go" where
  "inspect_branches env repo token insp [] = ret []"
| "inspect_branches env repo token insp (b # bs) =
     bind (attempt (in_branch insp repo (rb_name b))) (\<lambda>r. case r of
       Inl e \<Rightarrow> fail (sanitized_token_error env ''inspect managed branch'' e token)
     | Inr inspection \<Rightarrow> when_invalid (validate_branch_inspection inspection) (
         bind (inspect_branches env repo token insp bs) (\<lambda>rest.
         ret (\<lparr>br_branch = b, br_inspection = inspection, br_valid = True\<rparr> # rest))))"

definition inspect_forge ::
    "readiness_env \<Rightarrow> repository \<Rightarrow> string \<Rightarrow> repository_branch list \<Rightarrow> (check_result \<times> branch_run list) go" where
  "inspect_forge env repo token branches =
     bind (attempt (re_inspector_for env repo token)) (\<lambda>r. case r of
       Inl e \<Rightarrow> fail (sanitized_token_error env ''create forge readiness inspector'' e token)
     | Inr None \<Rightarrow> fail (Plain ''forge readiness inspector is nil'')
     | Inr (Some insp) \<Rightarrow>
         bind (attempt (in_pull_request_read insp repo (rb_name (hd branches)))) (\<lambda>p. case p of
           Inl e \<Rightarrow> fail (sanitized_token_error env ''inspect pull request read access'' e token)
         | Inr result \<Rightarrow> bind (inspect_branches env repo token insp branches) (\<lambda>runs. ret (result, runs))))"

definition run_readiness :: "readiness_env \<Rightarrow> repository \<Rightarrow> actor \<Rightarrow> check_result list go" where
  "run_readiness env repo actor =
     bind now_utc (\<lambda>now.
     bind (list_branches (repo_id repo)) (\<lambda>branches.
     if branches = [] then fail (Plain ''repository has no managed branches'')
     else bind (webhook_result (repo_id repo) now) (\<lambda>(webhook, fresh).
     bind (load_token env repo) (\<lambda>found.
     bind (case found of
         None \<Rightarrow> ret (token_required_pull_request_result,
           map (\<lambda>b. \<lparr>br_branch = b, br_inspection = token_required_branch_inspection (rb_name b),
                     br_valid = False\<rparr>) branches)
       | Some token \<Rightarrow> inspect_forge env repo token branches) (\<lambda>(pull_requests, runs).
     let results = [status_token_result (found \<noteq> None), pull_requests, webhook, status_posting_untested_result] in
     bind (persist_run repo actor results runs fresh now) (\<lambda>_.
     ret (results @ concat (map (\<lambda>b. bi_results (br_inspection b)) runs))))))))"

end
