(* ===== verification/PublicationStore.thy ===== *)
theory PublicationStore
  imports ResultStore Rfc3339 "HOL-Library.List_Lexorder" "HOL-Library.Char_ord"
begin

text \<open>
  Status publications (\<open>internal/statuspublication/store.go\<close>): the one intent per commit, context
  and delivery mode that holds what the forge should show, and the log of attempts to deliver it.
  The lists order by time columns in the variable-width layout, so by their texts.
\<close>

abbreviation publication_invalid :: "string \<Rightarrow> go_error" where
  "publication_invalid \<equiv> ValidationError StatusPublicationPkg"

definition delivery_mode_forgejo_status :: string where
  "delivery_mode_forgejo_status = ''forgejo_status''"
definition attempt_mode_forgejo_status :: string where
  "attempt_mode_forgejo_status = ''forgejo_status''"
definition attempt_result_posted :: string where
  "attempt_result_posted = ''posted''"
definition attempt_result_failed :: string where
  "attempt_result_failed = ''failed''"

record publication =
  pu_id :: int
  pu_status_result_id :: int
  pu_repository_id :: int
  pu_pull_request_index :: int
  pu_target_branch :: string
  pu_head_sha :: string
  pu_context :: string
  pu_state :: commit_status_state
  pu_description :: string
  pu_target_url :: string
  pu_delivery_mode :: string
  pu_created_at :: instant
  pu_updated_at :: instant

record pub_attempt =
  pa_id :: int
  pa_publication_id :: int
  pa_status_result_id :: int
  pa_repository_id :: int
  pa_pull_request_index :: int
  pa_target_branch :: string
  pa_head_sha :: string
  pa_context :: string
  pa_state :: commit_status_state
  pa_description :: string
  pa_target_url :: string
  pa_mode :: string
  pa_result :: string
  pa_error :: string
  pa_attempted_at :: instant

definition optional_text :: "string \<Rightarrow> string option" where
  "optional_text v = (if v = [] then None else Some v)"

definition text_or_empty :: "string option \<Rightarrow> string" where
  "text_or_empty v = (case v of None \<Rightarrow> [] | Some x \<Rightarrow> x)"

definition scan_publication :: "intent_row \<Rightarrow> publication" where
  "scan_publication r = \<lparr>pu_id = it_id r, pu_status_result_id = it_status_result_id r,
     pu_repository_id = it_repository_id r, pu_pull_request_index = it_pull_request_index r,
     pu_target_branch = it_target_branch r, pu_head_sha = it_head_sha r, pu_context = it_context r,
     pu_state = it_state r, pu_description = it_description r,
     pu_target_url = text_or_empty (it_target_url r), pu_delivery_mode = it_delivery_mode r,
     pu_created_at = it_created_at r, pu_updated_at = it_updated_at r\<rparr>"

definition scan_attempt :: "attempt_row \<Rightarrow> pub_attempt" where
  "scan_attempt r = \<lparr>pa_id = at_id r, pa_publication_id = at_publication_id r,
     pa_status_result_id = at_status_result_id r, pa_repository_id = at_repository_id r,
     pa_pull_request_index = at_pull_request_index r, pa_target_branch = at_target_branch r,
     pa_head_sha = at_head_sha r, pa_context = at_context r, pa_state = at_state r,
     pa_description = at_description r, pa_target_url = text_or_empty (at_target_url r),
     pa_mode = at_mode r, pa_result = at_result r, pa_error = text_or_empty (at_error r),
     pa_attempted_at = at_attempted_at r\<rparr>"

subsection \<open>Validation\<close>

definition publication_from_result :: "status_result \<Rightarrow> publication" where
  "publication_from_result r = \<lparr>pu_id = 0, pu_status_result_id = rs_id r,
     pu_repository_id = rs_repository_id r, pu_pull_request_index = rs_pull_request_index r,
     pu_target_branch = rs_target_branch r, pu_head_sha = rs_head_sha r, pu_context = rs_context r,
     pu_state = rs_state r, pu_description = rs_description r, pu_target_url = rs_target_url r,
     pu_delivery_mode = [], pu_created_at = zero_time, pu_updated_at = zero_time\<rparr>"

definition attempt_from_publication :: "publication \<Rightarrow> pub_attempt" where
  "attempt_from_publication p = \<lparr>pa_id = 0, pa_publication_id = pu_id p,
     pa_status_result_id = pu_status_result_id p, pa_repository_id = pu_repository_id p,
     pa_pull_request_index = pu_pull_request_index p, pa_target_branch = pu_target_branch p,
     pa_head_sha = pu_head_sha p, pa_context = pu_context p, pa_state = pu_state p,
     pa_description = pu_description p, pa_target_url = pu_target_url p, pa_mode = [],
     pa_result = [], pa_error = [], pa_attempted_at = zero_time\<rparr>"

definition normalize_publication :: "publication \<Rightarrow> publication" where
  "normalize_publication p = p \<lparr>pu_target_branch := trim_space (pu_target_branch p),
     pu_head_sha := to_lower (trim_space (pu_head_sha p)), pu_context := trim_space (pu_context p),
     pu_description := trim_space (pu_description p), pu_target_url := trim_space (pu_target_url p),
     pu_delivery_mode := trim_space (pu_delivery_mode p)\<rparr>"

definition normalize_attempt :: "pub_attempt \<Rightarrow> pub_attempt" where
  "normalize_attempt a = a \<lparr>pa_target_branch := trim_space (pa_target_branch a),
     pa_head_sha := to_lower (trim_space (pa_head_sha a)), pa_context := trim_space (pa_context a),
     pa_description := trim_space (pa_description a), pa_target_url := trim_space (pa_target_url a),
     pa_mode := trim_space (pa_mode a), pa_result := trim_space (pa_result a),
     pa_error := trim_space (pa_error a)\<rparr>"

definition validate_publication :: "publication \<Rightarrow> go_error option" where
  "validate_publication p =
     (let missing = (if pu_status_result_id p \<le> 0 then [''status result''] else [])
            @ (if pu_repository_id p \<le> 0 then [''repository''] else [])
            @ (if pu_pull_request_index p \<le> 0 then [''pull request''] else [])
            @ (if pu_target_branch p = [] then [''target branch''] else [])
            @ (if pu_head_sha p = [] then [''head SHA''] else [])
            @ (if pu_context p = [] then [''context''] else [])
            @ (if pu_description p = [] then [''description''] else [])
            @ (if pu_delivery_mode p = [] then [''delivery mode''] else []) in
      if missing \<noteq> [] then Some (publication_invalid
          (''missing required status publication fields: '' @ join_with '', '' missing))
      else if pu_delivery_mode p \<noteq> delivery_mode_forgejo_status
        then Some (publication_invalid ''status publication delivery mode is invalid'')
      else if \<not> valid_state (pu_state p)
        then Some (publication_invalid ''status publication state is invalid'')
      else None)"

definition validate_attempt :: "pub_attempt \<Rightarrow> go_error option" where
  "validate_attempt a =
     (let missing = (if pa_publication_id a \<le> 0 then [''publication''] else [])
            @ (if pa_status_result_id a \<le> 0 then [''status result''] else [])
            @ (if pa_repository_id a \<le> 0 then [''repository''] else [])
            @ (if pa_pull_request_index a \<le> 0 then [''pull request''] else [])
            @ (if pa_target_branch a = [] then [''target branch''] else [])
            @ (if pa_head_sha a = [] then [''head SHA''] else [])
            @ (if pa_context a = [] then [''context''] else [])
            @ (if pa_description a = [] then [''description''] else [])
            @ (if pa_mode a = [] then [''mode''] else [])
            @ (if pa_result a = [] then [''result''] else [])
            @ (if is_zero (pa_attempted_at a) then [''attempted at''] else []) in
      if missing \<noteq> [] then Some (publication_invalid
          (''missing required status publication attempt fields: '' @ join_with '', '' missing))
      else if pa_mode a \<noteq> attempt_mode_forgejo_status
        then Some (publication_invalid ''status publication attempt mode is invalid'')
      else if pa_result a \<noteq> attempt_result_posted \<and> pa_result a \<noteq> attempt_result_failed
        then Some (publication_invalid ''status publication attempt result is invalid'')
      else if pa_mode a = attempt_mode_forgejo_status \<and> pa_result a = attempt_result_failed \<and> pa_error a = []
        then Some (publication_invalid
          ''status publication attempt error is required for failed forgejo status attempts'')
      else if \<not> valid_state (pa_state a)
        then Some (publication_invalid ''status publication attempt state is invalid'')
      else None)"

subsection \<open>Intents\<close>

definition same_intent :: "publication \<Rightarrow> intent_row \<Rightarrow> bool" where
  "same_intent p r \<longleftrightarrow> it_repository_id r = pu_repository_id p \<and> it_head_sha r = pu_head_sha p
     \<and> it_context r = pu_context p \<and> it_delivery_mode r = pu_delivery_mode p"

text \<open>\<open>INSERT ... ON CONFLICT(repository_id, head_sha, context, delivery_mode) DO UPDATE\<close>.\<close>

definition upsert_intent :: "publication \<Rightarrow> intent_row list \<Rightarrow> intent_row list" where
  "upsert_intent p rows =
     (if list_ex (same_intent p) rows then
        map (\<lambda>r. if same_intent p r
               then r \<lparr>it_status_result_id := pu_status_result_id p,
                       it_pull_request_index := pu_pull_request_index p,
                       it_target_branch := pu_target_branch p, it_state := pu_state p,
                       it_description := pu_description p,
                       it_target_url := optional_text (pu_target_url p),
                       it_updated_at := pu_updated_at p\<rparr>
               else r) rows
      else rows @ [\<lparr>it_id = fresh_id (map it_id rows), it_status_result_id = pu_status_result_id p,
             it_repository_id = pu_repository_id p, it_pull_request_index = pu_pull_request_index p,
             it_target_branch = pu_target_branch p, it_head_sha = pu_head_sha p,
             it_context = pu_context p, it_state = pu_state p, it_description = pu_description p,
             it_target_url = optional_text (pu_target_url p), it_delivery_mode = pu_delivery_mode p,
             it_created_at = pu_created_at p, it_updated_at = pu_updated_at p\<rparr>])"

definition get_by_idempotency_key :: "publication \<Rightarrow> publication go" where
  "get_by_idempotency_key p = query_row (\<lambda>d. map scan_publication (filter (same_intent p) (tb_intents d)))"

definition publish_intent :: "status_result \<Rightarrow> string \<Rightarrow> publication go" where
  "publish_intent result mode =
     bind now_utc (\<lambda>now.
     let p = normalize_publication ((publication_from_result result)
           \<lparr>pu_delivery_mode := mode, pu_created_at := now, pu_updated_at := now\<rparr>) in
     when_invalid (validate_publication p) (
     bind (checked (\<lambda>d. pu_status_result_id p \<in> set (map sr_id (tb_results d))
             \<and> pu_repository_id p \<in> set (map repo_id (tb_repositories d)))
           (\<lambda>d. ((), d \<lparr>tb_intents := upsert_intent p (tb_intents d)\<rparr>))) (\<lambda>_.
     get_by_idempotency_key p)))"

definition publish_forgejo_status :: "status_result \<Rightarrow> publication go" where
  "publish_forgejo_status result = publish_intent result delivery_mode_forgejo_status"

definition get_publication :: "int \<Rightarrow> publication go" where
  "get_publication i = query_row (\<lambda>d. map scan_publication (filter (\<lambda>r. it_id r = i) (tb_intents d)))"

text \<open>\<open>ORDER BY <time> DESC, id DESC\<close> over the time's text.\<close>

definition newest_first :: "('r \<Rightarrow> instant) \<Rightarrow> ('r \<Rightarrow> int) \<Rightarrow> 'r list \<Rightarrow> 'r list" where
  "newest_first time i rows = rev (sort_key (\<lambda>r. (rfc3339_nano (time r), i r)) rows)"

definition list_recent_publications :: "int \<Rightarrow> publication list go" where
  "list_recent_publications limit = query (\<lambda>d. map scan_publication
     (limit_rows (clamp_limit limit) (newest_first it_updated_at it_id (tb_intents d))))"

fun state_text :: "commit_status_state \<Rightarrow> string" where
  "state_text CommitStatusSuccess = ''success''"
| "state_text CommitStatusFailure = ''failure''"
| "state_text CommitStatusPending = ''pending''"
| "state_text CommitStatusError = ''error''"
| "state_text (OtherCommitStatus s) = s"

text \<open>The \<open>WHERE\<close> clause the page and the count share.\<close>

definition page_filter ::
    "read_scope \<Rightarrow> ('r \<Rightarrow> string) \<Rightarrow> string \<Rightarrow> ('r \<Rightarrow> int) \<Rightarrow> int \<Rightarrow> 'r \<Rightarrow> bool" where
  "page_filter s column value repo_of repo r \<longleftrightarrow> scope_allows s (Some (repo_of r))
     \<and> (value \<noteq> [] \<longrightarrow> column r = value) \<and> (repo > 0 \<longrightarrow> repo_of r = repo)"

definition list_publications_page_for_scope ::
    "read_scope \<Rightarrow> string \<Rightarrow> int \<Rightarrow> int \<Rightarrow> int \<Rightarrow> (publication list \<times> int) go" where
  "list_publications_page_for_scope s state repo offset limit =
     (let n = clamp_limit limit; start = (if offset < 0 then 0 else offset);
          hit = page_filter s (\<lambda>r. state_text (it_state r)) state it_repository_id repo in
      bind (query (\<lambda>d. int (length (filter hit (tb_intents d))))) (\<lambda>total.
      bind (query (\<lambda>d. map scan_publication
        (page_rows start n (newest_first it_updated_at it_id (filter hit (tb_intents d)))))) (\<lambda>page.
      ret (page, total))))"

definition list_publications_page :: "string \<Rightarrow> int \<Rightarrow> int \<Rightarrow> int \<Rightarrow> (publication list \<times> int) go" where
  "list_publications_page = list_publications_page_for_scope all_repositories"

subsection \<open>Attempts\<close>

definition get_attempt :: "int \<Rightarrow> pub_attempt go" where
  "get_attempt i = query_row (\<lambda>d. map scan_attempt (filter (\<lambda>r. at_id r = i) (tb_attempts d)))"

definition record_attempt :: "publication \<Rightarrow> string \<Rightarrow> string \<Rightarrow> string \<Rightarrow> pub_attempt go" where
  "record_attempt p mode result message =
     bind now_utc (\<lambda>now.
     let a = normalize_attempt ((attempt_from_publication p)
           \<lparr>pa_mode := mode, pa_result := result, pa_error := message, pa_attempted_at := now\<rparr>) in
     when_invalid (validate_attempt a) (
     bind (checked (\<lambda>d. pa_publication_id a \<in> set (map it_id (tb_intents d))
             \<and> pa_status_result_id a \<in> set (map sr_id (tb_results d))
             \<and> pa_repository_id a \<in> set (map repo_id (tb_repositories d)))
           (\<lambda>d. let i = fresh_id (map at_id (tb_attempts d)) in
              (i, d \<lparr>tb_attempts := tb_attempts d @ [\<lparr>at_id = i, at_publication_id = pa_publication_id a,
                 at_status_result_id = pa_status_result_id a, at_repository_id = pa_repository_id a,
                 at_pull_request_index = pa_pull_request_index a, at_target_branch = pa_target_branch a,
                 at_head_sha = pa_head_sha a, at_context = pa_context a, at_state = pa_state a,
                 at_description = pa_description a, at_target_url = optional_text (pa_target_url a),
                 at_mode = pa_mode a, at_result = pa_result a, at_error = optional_text (pa_error a),
                 at_attempted_at = pa_attempted_at a\<rparr>]\<rparr>)))
     get_attempt))"

definition record_forgejo_status_attempt :: "publication \<Rightarrow> string \<Rightarrow> string \<Rightarrow> pub_attempt go" where
  "record_forgejo_status_attempt p result message =
     record_attempt p attempt_mode_forgejo_status result message"

definition list_recent_attempts :: "int \<Rightarrow> pub_attempt list go" where
  "list_recent_attempts limit = query (\<lambda>d. map scan_attempt
     (limit_rows (clamp_limit limit) (newest_first at_attempted_at at_id (tb_attempts d))))"

definition list_attempts_page_for_scope ::
    "read_scope \<Rightarrow> string \<Rightarrow> int \<Rightarrow> int \<Rightarrow> int \<Rightarrow> (pub_attempt list \<times> int) go" where
  "list_attempts_page_for_scope s result repo offset limit =
     (let n = clamp_limit limit; start = (if offset < 0 then 0 else offset);
          hit = page_filter s at_result result at_repository_id repo in
      bind (query (\<lambda>d. int (length (filter hit (tb_attempts d))))) (\<lambda>total.
      bind (query (\<lambda>d. map scan_attempt
        (page_rows start n (newest_first at_attempted_at at_id (filter hit (tb_attempts d)))))) (\<lambda>page.
      ret (page, total))))"

definition list_attempts_page :: "string \<Rightarrow> int \<Rightarrow> int \<Rightarrow> int \<Rightarrow> (pub_attempt list \<times> int) go" where
  "list_attempts_page = list_attempts_page_for_scope all_repositories"

end
