(* ===== verification/Publisher.thy ===== *)
theory Publisher
  imports PublicationStore RepositoryStore Forge
begin

text \<open>
  The status publisher (\<open>internal/statuspublisher/forgejo_status.go\<close>): for an enforcement-active
  repository it records the intent, posts the status to the forge and logs the attempt, with the
  token redacted from whatever the forge said.
\<close>

definition attempt_error_message :: "string \<Rightarrow> string list \<Rightarrow> string" where
  "attempt_error_message text sensitive =
     (let message = take 300 (redact sensitive (trim_space text)) in
      if message = [] then ''forgejo status publication failed'' else message)"

definition safe_publication_error :: "go_error \<Rightarrow> string \<Rightarrow> string list \<Rightarrow> go_error" where
  "safe_publication_error cause text sensitive =
     (if sensitive = [] then cause else Plain (attempt_error_message text sensitive))"

text \<open>\<open>text\<close> is the message of the cause, with what \<open>fmt.Errorf\<close> put before it.\<close>

definition record_failed_attempt :: "publication \<Rightarrow> go_error \<Rightarrow> string \<Rightarrow> string list \<Rightarrow> 'a go" where
  "record_failed_attempt p cause text sensitive =
     bind (attempt (record_forgejo_status_attempt p attempt_result_failed
        (attempt_error_message text sensitive))) (\<lambda>r. case r of
       Inl e \<Rightarrow> fail (Joined [safe_publication_error cause text sensitive, e])
     | Inr _ \<Rightarrow> fail (safe_publication_error cause text sensitive))"

definition status_of_result :: "status_result \<Rightarrow> commit_status" where
  "status_of_result r = \<lparr>cp_sha = rs_head_sha r, cp_state = rs_state r, cp_context = rs_context r,
     cp_description = rs_description r, cp_target_url = rs_target_url r\<rparr>"

definition deliver :: "forge_env \<Rightarrow> repository \<Rightarrow> string \<Rightarrow> status_result \<Rightarrow> publication \<Rightarrow> publication go" where
  "deliver env repo token result p =
     bind (attempt (fe_client_for env repo token)) (\<lambda>r. case r of
       Inl e \<Rightarrow> record_failed_attempt p e (''create forgejo status client: '' @ fe_text env e) [token]
     | Inr None \<Rightarrow> record_failed_attempt p (Plain ''create forgejo status client: nil client'')
         ''create forgejo status client: nil client'' []
     | Inr (Some client) \<Rightarrow>
         bind (attempt (fk_post_commit_status client (repo_owner repo) (repo_name repo)
           (status_of_result result))) (\<lambda>posted. case posted of
           Inl e \<Rightarrow> record_failed_attempt p e (''post forgejo commit status: '' @ fe_text env e) [token]
         | Inr _ \<Rightarrow>
             bind (record_forgejo_status_attempt p attempt_result_posted []) (\<lambda>_. ret p)))"

definition publish :: "forge_env \<Rightarrow> status_result \<Rightarrow> publication go" where
  "publish env result =
     bind (get_repository (rs_repository_id result)) (\<lambda>repo.
     if \<not> enforcement_active repo then fail EnforcementNotActiveError
     else bind (publish_forgejo_status result) (\<lambda>p.
     bind (attempt (fe_status_token env (rs_repository_id result))) (\<lambda>r. case r of
       Inl e \<Rightarrow> record_failed_attempt p e (''load repository status token: '' @ fe_text env e) []
     | Inr found \<Rightarrow>
         (let token = trim_space (text_or_empty found) in
          if token = [] then record_failed_attempt p StatusTokenMissing
            ''repository status token is not configured'' []
          else deliver env repo token result p))))"

end
