(* ===== verification/OpenSync.thy ===== *)
theory OpenSync
  imports PullStore RepositoryStore Accounting Forge
begin

text \<open>
  Synchronising the cached pull requests with the forge (\<open>internal/app/open_pr_sync.go\<close>): every
  pull request the forge lists as open is written to the cache, every other one is closed.
\<close>

definition safe_sync_error :: "string \<Rightarrow> string \<Rightarrow> go_error" where
  "safe_sync_error text token = Plain (redact [token] text)"

definition open_pull_requests_synced_event :: "repository \<Rightarrow> string \<Rightarrow> int \<Rightarrow> int \<Rightarrow> audit_event" where
  "open_pull_requests_synced_event repo branch open_count closed =
     new_event \<lparr>actor_user_id = None, actor_kind = [], actor_role = []\<rparr>
       ''repository.open_pull_requests_synced'' subject_type_repository (format_int (repo_id repo))
       (text_field ''closed_absent_count'' (format_int closed)
        @ text_field ''full_name'' (repo_full_name repo)
        @ text_field ''open_count'' (format_int open_count)
        @ text_field ''repository_id'' (format_int (repo_id repo))
        @ text_field ''target_branch'' (if branch = [] then ''all'' else branch))"

definition listed_pull_request :: "int \<Rightarrow> string \<Rightarrow> pull_request \<Rightarrow> pull_request" where
  "listed_pull_request repo branch pr =
     pr \<lparr>pr_repository_id := repo,
         pr_target_branch := (if pr_target_branch pr = [] then branch else pr_target_branch pr)\<rparr>"

fun cache_each :: "forge_env \<Rightarrow> string \<Rightarrow> int \<Rightarrow> string \<Rightarrow> pull_request list \<Rightarrow> int list go" where
  "cache_each env token repo branch [] = ret []"
| "cache_each env token repo branch (pr # prs) =
     bind (attempt (upsert_cached_pull (listed_pull_request repo branch pr))) (\<lambda>r. case r of
       Inl e \<Rightarrow> fail (safe_sync_error (''cache open pull request '' @ format_int (pr_index pr)
           @ '' from forge: '' @ fe_text env e) token)
     | Inr _ \<Rightarrow> bind (cache_each env token repo branch prs) (\<lambda>is. ret (pr_index pr # is)))"

definition sync_repository :: "forge_env \<Rightarrow> repository \<Rightarrow> string \<Rightarrow> unit go" where
  "sync_repository env repo branch0 =
     (let branch = trim_space branch0 in
      bind (fe_status_token env (repo_id repo)) (\<lambda>found.
      let token = trim_space (case found of None \<Rightarrow> [] | Some t \<Rightarrow> t) in
      if token = [] then fail StatusTokenMissing
      else bind (attempt (fe_client_for env repo token)) (\<lambda>r. case r of
        Inl e \<Rightarrow> fail (safe_sync_error (''create forgejo pull request client: '' @ fe_text env e) token)
      | Inr None \<Rightarrow> fail (Plain ''create forgejo pull request client: nil client'')
      | Inr (Some client) \<Rightarrow>
          bind (attempt (fk_list_open_pull_requests client (repo_owner repo) (repo_name repo) branch)) (\<lambda>l.
          case l of
            Inl e \<Rightarrow> fail (safe_sync_error (''list open pull requests from forge: '' @ fe_text env e) token)
          | Inr prs \<Rightarrow>
              bind (cache_each env token (repo_id repo) branch prs) (\<lambda>is.
              bind (attempt (mark_absent_open_closed (repo_id repo) branch is)) (\<lambda>c. case c of
                Inl e \<Rightarrow> fail (safe_sync_error
                  (''close cached pull requests absent from forge open list: '' @ fe_text env e) token)
              | Inr closed \<Rightarrow>
                  record_event (open_pull_requests_synced_event repo branch (int (length prs)) closed)))))))"

definition sync_open_pull_requests :: "forge_env \<Rightarrow> int \<Rightarrow> string \<Rightarrow> unit go" where
  "sync_open_pull_requests env repo branch =
     (if repo \<le> 0 then fail (Plain ''missing required open pull request sync fields'')
      else bind (get_repository repo) (\<lambda>r.
        if \<not> enforcement_active r then fail EnforcementNotActiveError
        else sync_repository env r branch))"

end
