(* ===== verification/Enforcement.thy ===== *)
theory Enforcement
  imports SetupCheck StatusService PullStore Publisher OpenSync FreezeStore
begin

text \<open>
  The enforcement lifecycle (\<open>internal/app/enforcement_activation.go\<close>,
  \<open>enforcement_reconciliation.go\<close>): the steps that take a repository from setup to ready, active
  and unhealthy and back, each of which proves again what it relies on. The interfaces of the
  service are fields of \<open>enforcement_env\<close>; \<open>wired_enforcement\<close> is what the application passes.
\<close>

record enforcement_env =
  en_forge :: forge_env
  en_readiness :: "repository \<Rightarrow> actor \<Rightarrow> check_result list go"
  en_sync :: "repository \<Rightarrow> string \<Rightarrow> unit go"
  en_open_by_branch :: "int \<Rightarrow> string \<Rightarrow> pull_request list go"
  en_run_shared_head :: "pull_request list \<Rightarrow> int \<Rightarrow> status_result go"
  en_publish :: "status_result \<Rightarrow> publication go"

definition wired_enforcement :: "forge_env \<Rightarrow> readiness_env \<Rightarrow> enforcement_env" where
  "wired_enforcement forge readiness = \<lparr>en_forge = forge, en_readiness = run_readiness readiness,
     en_sync = sync_repository forge, en_open_by_branch = list_open_by_target_branch,
     en_run_shared_head = run_for_shared_head wired_service, en_publish = publish forge\<rparr>"

record activation_counts =
  ac_managed_branches :: int
  ac_open_pull_requests :: int
  ac_statuses_attempted :: int
  ac_statuses_posted :: int
  ac_statuses_failed :: int

definition no_counts :: activation_counts where
  "no_counts = \<lparr>ac_managed_branches = 0, ac_open_pull_requests = 0, ac_statuses_attempted = 0,
     ac_statuses_posted = 0, ac_statuses_failed = 0\<rparr>"

text \<open>\<open>jobs.Job{}\<close>.\<close>

definition no_job :: job where
  "no_job = \<lparr>job_id = 0, job_repository_id = 0, job_generation = 0, job_run_at = zero_time,
     job_locked_at = None, job_attempts = 0, job_last_error = []\<rparr>"

subsection \<open>Events\<close>

fun enforcement_text :: "enforcement_state \<Rightarrow> string" where
  "enforcement_text EnforcementSetupIncomplete = ''setup_incomplete''"
| "enforcement_text EnforcementReady = ''ready''"
| "enforcement_text EnforcementActive = ''active''"
| "enforcement_text EnforcementUnhealthy = ''unhealthy''"
| "enforcement_text (OtherEnforcement s) = s"

definition count_fields :: "activation_counts option \<Rightarrow> (string \<times> detail_value) list" where
  "count_fields counts = (case counts of None \<Rightarrow> [] | Some c \<Rightarrow>
     text_field ''managed_branch_count'' (format_int (ac_managed_branches c))
     @ text_field ''open_pull_request_count'' (format_int (ac_open_pull_requests c))
     @ text_field ''statuses_attempted'' (format_int (ac_statuses_attempted c))
     @ text_field ''statuses_failed'' (format_int (ac_statuses_failed c))
     @ text_field ''statuses_posted'' (format_int (ac_statuses_posted c)))"

definition enforcement_event ::
    "string \<Rightarrow> repository \<Rightarrow> actor \<Rightarrow> (string \<times> detail_value) list \<Rightarrow> activation_counts option \<Rightarrow> audit_event" where
  "enforcement_event action repo actor extra counts = repository_event actor action (repo_id repo)
     (sort_key fst (text_field ''actor_kind'' (actor_kind actor) @ text_field ''actor_role'' (actor_role actor)
        @ text_field ''enforcement_state'' (enforcement_text (repo_enforcement repo))
        @ text_field ''full_name'' (repo_full_name repo)
        @ text_field ''repository_id'' (format_int (repo_id repo)) @ extra @ count_fields counts))"

definition abbreviate_sha :: "string \<Rightarrow> string" where
  "abbreviate_sha sha = take 12 (trim_space sha)"

subsection \<open>Checks\<close>

definition load_repository :: "int \<Rightarrow> repository go" where
  "load_repository i =
     (if i \<le> 0 then fail (repo_invalid ''repository id is required'')
      else bind (attempt (get_repository i)) (\<lambda>r. case r of
        Inl e \<Rightarrow> if e = NoRows then fail (repo_invalid ''repository not found'') else fail e
      | Inr repo \<Rightarrow> ret repo))"

definition readiness_blockers :: "check_result list \<Rightarrow> string list" where
  "readiness_blockers results =
     (if results = [] then [''no readiness evidence was recorded'']
      else map cr_name (filter (\<lambda>r. \<not> (cr_status r = status_ok
        \<or> cr_name r = check_status_posting_untested \<and> cr_status r = status_warning)) results))"

definition require_verifiable_readiness :: "enforcement_env \<Rightarrow> repository \<Rightarrow> actor \<Rightarrow> unit go" where
  "require_verifiable_readiness env repo actor =
     bind (attempt (en_readiness env repo actor)) (\<lambda>r. case r of
       Inl e \<Rightarrow> fail (repo_invalid ''Readiness checks could not be completed. Fix the reported repository setup problems and retry.'')
     | Inr results \<Rightarrow>
         (let blockers = readiness_blockers results in
          if blockers \<noteq> [] then fail (repo_invalid (''Every read-only readiness check must pass first. Fix and rerun: ''
            @ join_with ''; '' blockers @ ''.'')) else ret ()))"

definition setup_status :: "string \<Rightarrow> commit_status" where
  "setup_status sha = \<lparr>cp_sha = sha, cp_state = CommitStatusSuccess, cp_context = setup_status_context,
     cp_description = ''Thawguard status-post verification'', cp_target_url = []\<rparr>"

definition controlled_setup_post :: "enforcement_env \<Rightarrow> repository \<Rightarrow> branch_head go" where
  "controlled_setup_post env repo =
     (let forge = en_forge env in
      bind (fe_status_token forge (repo_id repo)) (\<lambda>found.
      let token = trim_space (text_or_empty found) in
      if token = [] then fail (Plain ''repository status token is not configured'')
      else bind (attempt (fe_client_for forge repo token)) (\<lambda>r. case r of
        Inl e \<Rightarrow> fail (safe_sync_error (''create forgejo enforcement client: '' @ fe_text forge e) token)
      | Inr None \<Rightarrow> fail (Plain ''create forgejo enforcement client: nil client'')
      | Inr (Some client) \<Rightarrow>
          bind (attempt (fk_get_branch_head client (repo_owner repo) (repo_name repo) (repo_default_branch repo)))
            (\<lambda>h. case h of
              Inl e \<Rightarrow> fail (safe_sync_error (''fetch default branch head: '' @ fe_text forge e) token)
            | Inr head \<Rightarrow>
                bind (attempt (fk_post_commit_status client (repo_owner repo) (repo_name repo)
                  (setup_status (bh_sha head)))) (\<lambda>p. case p of
                  Inl e \<Rightarrow> fail (safe_sync_error (''post controlled setup status: '' @ fe_text forge e) token)
                | Inr _ \<Rightarrow> ret head)))))"

subsection \<open>Verification\<close>

definition require_current_snapshot :: "repository \<Rightarrow> unit go" where
  "require_current_snapshot expected =
     bind (get_repository (repo_id expected)) (\<lambda>current.
     if \<not> same_snapshot current expected then fail (repo_invalid
       ''Repository setup changed while status-post verification was running. Rerun readiness checks and retry verification.'')
     else ret ())"

definition record_verification_success :: "repository \<Rightarrow> branch_head \<Rightarrow> actor \<Rightarrow> repository go" where
  "record_verification_success repo head actor =
     bind now_utc (\<lambda>verified. transact (
     bind (require_current_snapshot repo) (\<lambda>_.
     bind (set_status_post_verified_at (repo_id repo) (Some verified)) (\<lambda>_.
     bind (set_enforcement_state (repo_id repo) EnforcementReady) (\<lambda>updated.
     bind (record_event (enforcement_event ''repository.status_post_verified'' updated actor
       (text_field ''default_branch'' (repo_default_branch repo)
        @ text_field ''head_sha'' (abbreviate_sha (bh_sha head))) None)) (\<lambda>_.
     ret updated))))))"

definition record_verification_failure :: "repository \<Rightarrow> actor \<Rightarrow> unit go" where
  "record_verification_failure repo actor = transact (
     bind (require_current_snapshot repo) (\<lambda>_.
     bind (set_status_post_verified_at (repo_id repo) None) (\<lambda>cleared.
     bind (if repo_enforcement repo \<noteq> EnforcementSetupIncomplete
           then set_enforcement_state (repo_id repo) EnforcementSetupIncomplete else ret cleared) (\<lambda>updated.
     record_event (enforcement_event ''repository.status_post_verification_failed'' updated actor
       (text_field ''default_branch'' (repo_default_branch repo)
        @ text_field ''reason'' ''controlled setup status post failed'') None)))))"

definition verify_status_posting :: "enforcement_env \<Rightarrow> int \<Rightarrow> actor \<Rightarrow> repository go" where
  "verify_status_posting env i actor =
     bind (load_repository i) (\<lambda>repo.
     if repo_enforcement repo = EnforcementActive then fail (repo_invalid
       ''Repository enforcement is already active. Status-post verification is only available before activation.'')
     else if repo_enforcement repo \<noteq> EnforcementSetupIncomplete \<and> repo_enforcement repo \<noteq> EnforcementReady
       then fail (repo_invalid
         ''Repository enforcement is unhealthy. Recovery is not part of status-post verification yet.'')
     else bind (require_verifiable_readiness env repo actor) (\<lambda>_.
     bind (attempt (controlled_setup_post env repo)) (\<lambda>r. case r of
       Inl e \<Rightarrow> bind (record_verification_failure repo actor) (\<lambda>_. fail (repo_invalid
         ''Status-post verification failed: the controlled thawguard/setup status could not be posted with the stored token. Fix the token permissions or forge setup, rerun readiness checks, and retry.''))
     | Inr head \<Rightarrow> record_verification_success repo head actor)))"

subsection \<open>Failures\<close>

record enforcement_failure =
  ef_action :: string
  ef_result_state :: enforcement_state
  ef_clear_verification :: bool
  ef_reason :: string
  ef_counts :: "activation_counts option"
  ef_persist_failure :: bool
  ef_preserve_job_generation :: bool

text \<open>
  Where the repository lands: None when the transition to unhealthy found the repository no
  longer active, which ends the recording without an error.
\<close>

definition land_in :: "repository \<Rightarrow> enforcement_state \<Rightarrow> repository option go" where
  "land_in current target =
     (if repo_enforcement current = target then ret (Some current)
      else if target = EnforcementUnhealthy
        then transition_enforcement_state (repo_id current) EnforcementActive EnforcementUnhealthy
      else bind (set_enforcement_state (repo_id current) target) (\<lambda>updated. ret (Some updated)))"

definition requeue_failure :: "int \<Rightarrow> enforcement_failure \<Rightarrow> unit go" where
  "requeue_failure i f =
     (if ef_result_state f \<noteq> EnforcementUnhealthy then ret ()
      else if ef_preserve_job_generation f
        then bind (ensure_reconciliation_failure i (ef_reason f)) (\<lambda>_. ret ())
      else bind (enqueue_reconciliation_failure i (ef_reason f)) (\<lambda>_. ret ()))"

definition record_enforcement_failure :: "repository \<Rightarrow> actor \<Rightarrow> enforcement_failure \<Rightarrow> unit go" where
  "record_enforcement_failure repo actor f =
     bind now_utc (\<lambda>failed. transact (
     bind (get_repository (repo_id repo)) (\<lambda>current.
     if ef_result_state f = EnforcementUnhealthy \<and> repo_enforcement current \<noteq> EnforcementActive
         \<and> repo_enforcement current \<noteq> EnforcementUnhealthy then ret ()
     else bind (if ef_clear_verification f
           then bind (set_status_post_verified_at (repo_id repo) None) (\<lambda>_. ret ()) else ret ()) (\<lambda>_.
     bind (land_in current (ef_result_state f)) (\<lambda>landed. case landed of
       None \<Rightarrow> ret ()
     | Some there \<Rightarrow>
         bind (if ef_persist_failure f then set_enforcement_failure (repo_id repo) (ef_reason f) failed
               else ret there) (\<lambda>updated.
         bind (requeue_failure (repo_id repo) f) (\<lambda>_.
         record_event (enforcement_event (ef_action f) updated actor
           (text_field ''default_branch'' (repo_default_branch repo) @ text_field ''reason'' (ef_reason f))
           (ef_counts f)))))))))"

definition record_runtime_failure :: "int \<Rightarrow> string \<Rightarrow> actor \<Rightarrow> bool \<Rightarrow> unit go" where
  "record_runtime_failure i reason0 actor preserve =
     (let reason = (if valid_enforcement_failure_reason reason0 then reason0 else failure_runtime) in
      bind (load_repository i) (\<lambda>repo. record_enforcement_failure repo actor
        \<lparr>ef_action = ''repository.runtime_convergence_failed'', ef_result_state = EnforcementUnhealthy,
         ef_clear_verification = False, ef_reason = reason, ef_counts = None,
         ef_persist_failure = True, ef_preserve_job_generation = preserve\<rparr>))"

subsection \<open>Convergence\<close>

text \<open>\<open>pullRequestsByHead\<close> of \<open>freeze_recompute.go\<close>: groups in the order their heads appear.\<close>

definition add_to_group :: "pull_request list list \<Rightarrow> pull_request \<Rightarrow> pull_request list list" where
  "add_to_group groups pr =
     (if pr_head_sha pr = [] then groups
      else if list_ex (\<lambda>g. pr_head_sha (hd g) = pr_head_sha pr) groups
        then map (\<lambda>g. if pr_head_sha (hd g) = pr_head_sha pr then g @ [pr] else g) groups
      else groups @ [[pr]])"

definition pull_requests_by_head :: "pull_request list \<Rightarrow> pull_request list list" where
  "pull_requests_by_head prs = foldl add_to_group [] prs"

definition mark_active :: "int \<Rightarrow> instant \<Rightarrow> bool \<Rightarrow> job go" where
  "mark_active i verified enqueue = transact (
     bind (set_status_post_verified_at i (Some verified)) (\<lambda>_.
     bind (set_enforcement_state i EnforcementActive) (\<lambda>_.
     if \<not> enqueue then ret no_job
     else bind (enqueue_reconciliation i) (\<lambda>_.
       bind (claim_repository i) (\<lambda>c. case c of
         None \<Rightarrow> fail ReconciliationInProgress
       | Some claimed \<Rightarrow> ret claimed)))))"

definition require_current_reconciliation_claim :: "job \<Rightarrow> unit go" where
  "require_current_reconciliation_claim c =
     bind (claim_current c) (\<lambda>current. if current then ret () else fail (StateChanged failure_runtime))"

fun new_pull_requests :: "int set \<Rightarrow> pull_request list \<Rightarrow> pull_request list" where
  "new_pull_requests seen [] = []"
| "new_pull_requests seen (pr # prs) =
     (if pr_index pr \<in> seen then new_pull_requests seen prs
      else pr # new_pull_requests (insert (pr_index pr) seen) prs)"

definition open_managed_branch_pull_requests :: "enforcement_env \<Rightarrow> repository \<Rightarrow> (pull_request list \<times> int) go" where
  "open_managed_branch_pull_requests env repo =
     bind (list_branches (repo_id repo)) (\<lambda>branches.
     bind (for_each (\<lambda>b. en_open_by_branch env (repo_id repo) (rb_name b)) branches) (\<lambda>prs.
     ret (new_pull_requests {} (concat prs), int (length branches))))"

text \<open>
  What a run of the policy returns: its counts, the reason it failed for (empty when it has
  none), the claim it ran under and the error.
\<close>

type_synonym policy_outcome = "activation_counts \<times> string \<times> job \<times> go_error option"

fun publish_groups ::
    "enforcement_env \<Rightarrow> job \<Rightarrow> activation_counts \<Rightarrow> pull_request list list \<Rightarrow> policy_outcome go" where
  "publish_groups env c counts [] = ret (counts, [], c, None)"
| "publish_groups env c counts (g # gs) =
     bind (attempt (require_current_reconciliation_claim c)) (\<lambda>before. case before of
       Inl e \<Rightarrow> ret (counts, [], c, Some e)
     | Inr _ \<Rightarrow>
         (let tried = counts \<lparr>ac_statuses_attempted := ac_statuses_attempted counts + 1\<rparr>;
              failed = tried \<lparr>ac_statuses_failed := ac_statuses_failed tried + 1\<rparr> in
          bind (attempt (en_run_shared_head env g (pr_index (hd g)))) (\<lambda>r. case r of
            Inl e \<Rightarrow> ret (failed, failure_evaluation, c, Some e)
          | Inr result \<Rightarrow>
              bind (attempt (require_current_reconciliation_claim c)) (\<lambda>again. case again of
                Inl e \<Rightarrow> ret (tried, [], c, Some e)
              | Inr _ \<Rightarrow>
                  bind (attempt (en_publish env result)) (\<lambda>p. case p of
                    Inl e \<Rightarrow> ret (failed, failure_publication, c, Some e)
                  | Inr _ \<Rightarrow> publish_groups env c
                      (tried \<lparr>ac_statuses_posted := ac_statuses_posted tried + 1\<rparr>) gs)))))"

definition reconcile_current_policy ::
    "enforcement_env \<Rightarrow> repository \<Rightarrow> instant option \<Rightarrow> bool \<Rightarrow> job \<Rightarrow> policy_outcome go" where
  "reconcile_current_policy env repo activate enqueue expected =
     bind (attempt (en_sync env repo [])) (\<lambda>synced. case synced of
       Inl e \<Rightarrow> ret (no_counts, failure_open_pr_sync, no_job, Some e)
     | Inr _ \<Rightarrow>
         bind (attempt (open_managed_branch_pull_requests env repo)) (\<lambda>listed. case listed of
           Inl e \<Rightarrow> ret (no_counts, failure_open_pr_sync, no_job, Some e)
         | Inr (prs, branches) \<Rightarrow>
             (let counts = no_counts \<lparr>ac_managed_branches := branches,
                    ac_open_pull_requests := int (length prs)\<rparr> in
              case activate of
                None \<Rightarrow> publish_groups env expected counts (pull_requests_by_head prs)
              | Some verified \<Rightarrow>
                  bind (attempt (mark_active (repo_id repo) verified enqueue)) (\<lambda>m. case m of
                    Inl e \<Rightarrow> ret (counts, [], no_job, Some e)
                  | Inr claimed \<Rightarrow> publish_groups env (if job_id claimed \<noteq> 0 then claimed else expected)
                      counts (pull_requests_by_head prs)))))"

text \<open>The state a convergence must find when it records its success.\<close>

definition record_enforcement_success ::
    "repository \<Rightarrow> actor \<Rightarrow> string \<Rightarrow> (string \<times> detail_value) list \<Rightarrow> activation_counts \<Rightarrow> job \<Rightarrow> repository go" where
  "record_enforcement_success repo actor action extra counts c = transact (
     bind (get_repository (repo_id repo)) (\<lambda>current.
     if \<not> repo_active current \<or> repo_enforcement current \<noteq> EnforcementActive
       then fail (StateChanged (if valid_enforcement_failure_reason (repo_failure_reason current)
         then repo_failure_reason current else failure_runtime))
     else bind (mark_repository_recomputed (repo_id repo)) (\<lambda>_.
     bind (clear_enforcement_failure (repo_id repo)) (\<lambda>updated.
     bind (record_event (enforcement_event action updated actor extra (Some counts))) (\<lambda>_.
     bind (complete_claim c) (\<lambda>_.
     ret updated))))))"

subsection \<open>Activation\<close>

text \<open>\<open>errors.Join(cause, recordErr, rescheduleErr)\<close>, which is never nil here.\<close>

definition fail_joined :: "go_error option list \<Rightarrow> 'a go" where
  "fail_joined es = fail (case join_errors es of None \<Rightarrow> Panics | Some e \<Rightarrow> e)"

definition fail_claimed_activation :: "int \<Rightarrow> actor \<Rightarrow> job \<Rightarrow> string \<Rightarrow> go_error \<Rightarrow> 'a go" where
  "fail_claimed_activation i actor c category cause =
     bind (attempt (record_runtime_failure i category actor True)) (\<lambda>recorded.
     bind (attempt (reschedule_claim c category)) (\<lambda>rescheduled.
     fail_joined [Some cause, error_of recorded, error_of rescheduled]))"

text \<open>\<open>convergenceStateChangeCategory\<close>.\<close>

fun state_change_category :: "go_error \<Rightarrow> string option" where
  "state_change_category (StateChanged category) = Some category"
| "state_change_category (ConvergenceFailed _ cause) = state_change_category cause"
| "state_change_category (Joined es) =
     (case filter (\<lambda>c. c \<noteq> None) (map state_change_category es) of [] \<Rightarrow> None | c # _ \<Rightarrow> c)"
| "state_change_category _ = None"

end
