(* ===== verification/EnforcementRuns.thy ===== *)
theory EnforcementRuns
  imports Enforcement
begin

text \<open>
  The runs of the enforcement service: activation and deactivation
  (\<open>internal/app/enforcement_activation.go\<close>), reconciliation and recovery
  (\<open>enforcement_reconciliation.go\<close>), and the background runner that works through due claims
  (\<open>repository_reconciliation_runner.go\<close>). The convergence interface of the other operations
  (\<open>runtime_convergence.go\<close>) is at the end.
\<close>

subsection \<open>Activation\<close>

definition land_failure ::
    "string \<Rightarrow> enforcement_state \<Rightarrow> bool \<Rightarrow> string \<Rightarrow> activation_counts option \<Rightarrow> bool \<Rightarrow> bool \<Rightarrow> enforcement_failure" where
  "land_failure action state clear reason counts persist preserve = \<lparr>ef_action = action,
     ef_result_state = state, ef_clear_verification = clear, ef_reason = reason, ef_counts = counts,
     ef_persist_failure = persist, ef_preserve_job_generation = preserve\<rparr>"

definition activation_failed ::
    "repository \<Rightarrow> actor \<Rightarrow> activation_counts \<Rightarrow> string \<Rightarrow> job \<Rightarrow> go_error \<Rightarrow> repository go" where
  "activation_failed repo actor counts reason c cause =
     (if reason = failure_open_pr_sync then
        bind (record_enforcement_failure repo actor (land_failure ''repository.enforcement_activation_failed''
          EnforcementReady False reason None False False)) (\<lambda>_. fail (repo_invalid
          ''Activation stopped: current open pull requests could not be synchronized from the forge. The repository stays ready and nothing was published.''))
      else if reason = [] then
        (if job_id c = 0 then
           (if cause = ReconciliationInProgress
            then fail (repo_invalid ''Enforcement activation is already in progress.'') else fail cause)
         else fail_claimed_activation (repo_id repo) actor c failure_runtime cause)
      else bind (attempt (record_enforcement_failure repo actor (land_failure
          ''repository.enforcement_activation_failed'' EnforcementUnhealthy False reason (Some counts) True True)))
        (\<lambda>recorded. case recorded of
           Inl e \<Rightarrow> fail_claimed_activation (repo_id repo) actor c failure_runtime e
         | Inr _ \<Rightarrow> bind (attempt (reschedule_claim c reason)) (\<lambda>rescheduled.
             fail_joined [Some (repo_invalid
               ''Activation failed while publishing initial thawguard/freeze statuses. The repository is marked unhealthy; statuses already posted were not rolled back.''),
               error_of rescheduled])))"

definition activation_succeeded ::
    "repository \<Rightarrow> actor \<Rightarrow> branch_head \<Rightarrow> activation_counts \<Rightarrow> job \<Rightarrow> repository go" where
  "activation_succeeded repo actor head counts c =
     bind (attempt (record_enforcement_success repo actor ''repository.enforcement_activated''
       (text_field ''default_branch'' (repo_default_branch repo)
        @ text_field ''head_sha'' (abbreviate_sha (bh_sha head))) counts c)) (\<lambda>r. case r of
       Inr updated \<Rightarrow> ret updated
     | Inl e \<Rightarrow> (case state_change_category e of
         Some category \<Rightarrow> bind (attempt (reschedule_claim c category)) (\<lambda>rescheduled.
           fail_joined [Some e, error_of rescheduled])
       | None \<Rightarrow> fail_claimed_activation (repo_id repo) actor c failure_runtime e))"

definition activate_enforcement :: "enforcement_env \<Rightarrow> int \<Rightarrow> actor \<Rightarrow> repository go" where
  "activate_enforcement env i actor =
     bind (load_repository i) (\<lambda>repo.
     if repo_enforcement repo \<noteq> EnforcementReady then fail (repo_invalid
       ''Repository enforcement can only be activated from the ready state. Verify status posting first.'')
     else bind (require_verifiable_readiness env repo actor) (\<lambda>_.
     bind (attempt (controlled_setup_post env repo)) (\<lambda>posted. case posted of
       Inl e \<Rightarrow> bind (record_enforcement_failure repo actor (land_failure
           ''repository.enforcement_activation_failed'' EnforcementSetupIncomplete True
           failure_setup_status_post None False False)) (\<lambda>_. fail (repo_invalid
           ''Activation stopped: the controlled thawguard/setup status could not be posted. The repository returned to setup-incomplete; fix the token or forge setup and verify again.''))
     | Inr head \<Rightarrow>
         bind now_utc (\<lambda>verified.
         bind (reconcile_current_policy env repo (Some verified) True no_job) (\<lambda>(counts, reason, c, e).
         case e of
           Some cause \<Rightarrow> activation_failed repo actor counts reason c cause
         | None \<Rightarrow> activation_succeeded repo actor head counts c)))))"

subsection \<open>Deactivation\<close>

definition require_no_deactivation_blockers :: "int \<Rightarrow> unit go" where
  "require_no_deactivation_blockers repo =
     bind (has_active_for_repository repo) (\<lambda>active.
     if active then fail (repo_invalid ''Lift all active freezes before deactivating repository enforcement.'')
     else bind (has_scheduled_for_repository repo) (\<lambda>scheduled.
     if scheduled
       then fail (repo_invalid ''Cancel all pending scheduled freezes before deactivating repository enforcement.'')
     else ret ()))"

definition changed_while_deactivating :: go_error where
  "changed_while_deactivating =
     repo_invalid ''Repository enforcement changed while deactivation was running. It was not deactivated.''"

definition record_enforcement_deactivation ::
    "repository \<Rightarrow> actor \<Rightarrow> activation_counts \<Rightarrow> job \<Rightarrow> repository go" where
  "record_enforcement_deactivation repo actor counts c = transact (
     bind (get_repository (repo_id repo)) (\<lambda>current.
     if \<not> repo_active current \<or> repo_enforcement current \<noteq> EnforcementActive
       then fail changed_while_deactivating
     else bind (require_no_deactivation_blockers (repo_id repo)) (\<lambda>_.
     bind (complete_claim c) (\<lambda>completed.
     if \<not> completed then fail (StateChanged failure_runtime)
     else bind (mark_repository_recomputed (repo_id repo)) (\<lambda>_.
     bind (transition_enforcement_state (repo_id repo) EnforcementActive EnforcementReady) (\<lambda>moved.
     if moved = None then fail changed_while_deactivating
     else bind (clear_enforcement_failure (repo_id repo)) (\<lambda>updated.
     bind (record_event (enforcement_event ''repository.enforcement_deactivated'' updated actor
       (text_field ''default_branch'' (repo_default_branch repo)
        @ text_field ''maintenance'' ''status token or managed branch'') (Some counts))) (\<lambda>_.
     ret updated))))))))"

definition deactivate_enforcement :: "enforcement_env \<Rightarrow> int \<Rightarrow> actor \<Rightarrow> repository go" where
  "deactivate_enforcement env i actor =
     bind (load_repository i) (\<lambda>repo.
     if repo_enforcement repo \<noteq> EnforcementActive then fail (repo_invalid
       ''Repository enforcement can only be deactivated while it is active.'')
     else bind (require_no_deactivation_blockers (repo_id repo)) (\<lambda>_.
     bind (enqueue_reconciliation (repo_id repo)) (\<lambda>_.
     bind (claim_repository (repo_id repo)) (\<lambda>claimed. case claimed of
       None \<Rightarrow> fail (repo_invalid
         ''Repository enforcement reconciliation is already in progress. Retry deactivation after it finishes.'')
     | Some c \<Rightarrow>
         bind (reconcile_current_policy env repo None False c) (\<lambda>(counts, reason, _, e). case e of
           Some cause \<Rightarrow>
             bind (attempt (reschedule_claim c (if valid_enforcement_failure_reason reason then reason
               else failure_runtime))) (\<lambda>rescheduled.
             fail_joined [Some (repo_invalid
               ''Deactivation stopped because the current freeze policy could not be reconciled. Repository enforcement remains active and retry work is preserved.''),
               Some cause, error_of rescheduled])
         | None \<Rightarrow>
             bind (attempt (record_enforcement_deactivation repo actor counts c)) (\<lambda>r. case r of
               Inr updated \<Rightarrow> ret updated
             | Inl e \<Rightarrow> bind (attempt (reschedule_claim c (case state_change_category e of
                   Some category \<Rightarrow> category | None \<Rightarrow> failure_runtime))) (\<lambda>rescheduled.
                 fail_joined [Some e, error_of rescheduled])))))))"

subsection \<open>Reconciliation and recovery\<close>

text \<open>The repository, or the category of the failure with its error.\<close>

type_synonym run_outcome = "(string \<times> go_error) + repository"

definition failed_run :: "string \<Rightarrow> go_error \<Rightarrow> run_outcome go" where
  "failed_run category e = ret (Inl (category, e))"

text \<open>Record a failure of a run, then report it as \<open>message\<close>.\<close>

definition land_run ::
    "repository \<Rightarrow> actor \<Rightarrow> enforcement_failure \<Rightarrow> go_error \<Rightarrow> run_outcome go" where
  "land_run repo actor f message =
     bind (attempt (record_enforcement_failure repo actor f)) (\<lambda>r. case r of
       Inl e \<Rightarrow> failed_run (ef_reason f) e
     | Inr _ \<Rightarrow> failed_run (ef_reason f) message)"

text \<open>\<open>ValidationError{Message: "..." + err.Error()}\<close>.\<close>

definition with_message :: "enforcement_env \<Rightarrow> string \<Rightarrow> go_error \<Rightarrow> go_error" where
  "with_message env lead e = repo_invalid (lead @ fe_text (en_forge env) e)"

definition record_run_success ::
    "repository \<Rightarrow> actor \<Rightarrow> string \<Rightarrow> (string \<times> detail_value) list \<Rightarrow> activation_counts \<Rightarrow> bool \<Rightarrow> job \<Rightarrow> run_outcome go" where
  "record_run_success repo actor action extra counts preserve c =
     bind (attempt (record_enforcement_success repo actor action extra counts c)) (\<lambda>r. case r of
       Inr updated \<Rightarrow> ret (Inr updated)
     | Inl e \<Rightarrow> (case state_change_category e of
         Some category \<Rightarrow> failed_run category e
       | None \<Rightarrow> bind (attempt (record_runtime_failure (repo_id repo) failure_runtime actor preserve)) (\<lambda>recorded.
           failed_run failure_runtime (case join_errors [Some e, error_of recorded] of None \<Rightarrow> e | Some j \<Rightarrow> j))))"

definition reconcile_failure_message :: "string \<Rightarrow> string" where
  "reconcile_failure_message reason =
     (if reason = failure_open_pr_sync then
        ''Reconciliation failed: current open pull requests could not be synchronized from the forge. The repository is marked unhealthy and nothing was published from the stale cache.''
      else if reason = failure_evaluation then
        ''Reconciliation failed while evaluating the current freeze policy. The repository is marked unhealthy.''
      else ''Reconciliation failed while republishing thawguard/freeze statuses. The repository is marked unhealthy; statuses already posted were not rolled back.'')"

definition recover_failure_message :: "string \<Rightarrow> string" where
  "recover_failure_message reason =
     (if reason = failure_open_pr_sync then
        ''Recovery stopped: current open pull requests could not be synchronized from the forge. The repository remains unhealthy and nothing was published from the stale cache.''
      else if reason = failure_evaluation then
        ''Recovery failed while evaluating the current freeze policy. The repository remains unhealthy.''
      else ''Recovery failed while republishing thawguard/freeze statuses. The repository remains unhealthy; statuses already posted were not rolled back.'')"

definition reconcile_enforcement_core ::
    "enforcement_env \<Rightarrow> repository \<Rightarrow> actor \<Rightarrow> bool \<Rightarrow> job \<Rightarrow> run_outcome go" where
  "reconcile_enforcement_core env repo actor preserve c =
     bind (attempt (require_verifiable_readiness env repo actor)) (\<lambda>ready. case ready of
       Inl e \<Rightarrow> land_run repo actor (land_failure ''repository.enforcement_reconcile_failed''
           EnforcementUnhealthy False failure_readiness_checks None True preserve)
         (with_message env ''Reconciliation stopped: readiness checks did not pass, so nothing was synchronized or published. The repository is marked unhealthy. '' e)
     | Inr _ \<Rightarrow>
         bind (reconcile_current_policy env repo None False c) (\<lambda>(counts, reason, _, e). case e of
           Some cause \<Rightarrow>
             if reason = [] then failed_run failure_runtime cause
             else land_run repo actor (land_failure ''repository.enforcement_reconcile_failed''
                 EnforcementUnhealthy False reason (Some counts) True preserve)
               (repo_invalid (reconcile_failure_message reason))
         | None \<Rightarrow> record_run_success repo actor ''repository.enforcement_reconcile_succeeded''
             (text_field ''default_branch'' (repo_default_branch repo)) counts preserve c))"

definition recover_enforcement_core ::
    "enforcement_env \<Rightarrow> repository \<Rightarrow> actor \<Rightarrow> bool \<Rightarrow> job \<Rightarrow> run_outcome go" where
  "recover_enforcement_core env repo actor preserve c =
     bind (attempt (require_verifiable_readiness env repo actor)) (\<lambda>ready. case ready of
       Inl e \<Rightarrow> land_run repo actor (land_failure ''repository.enforcement_recovery_failed''
           EnforcementUnhealthy False failure_readiness_checks None True preserve)
         (with_message env ''Recovery stopped: readiness checks did not pass, so no status was posted, synchronized, or published. The repository remains unhealthy. '' e)
     | Inr _ \<Rightarrow>
     bind (attempt (controlled_setup_post env repo)) (\<lambda>posted. case posted of
       Inl e \<Rightarrow> land_run repo actor (land_failure ''repository.enforcement_recovery_failed''
           EnforcementUnhealthy True failure_setup_status_post None True preserve)
         (repo_invalid ''Recovery stopped: the controlled thawguard/setup status could not be posted with the stored token. The repository remains unhealthy; fix the token permissions or forge setup and retry.'')
     | Inr head \<Rightarrow>
     bind now_utc (\<lambda>verified.
     bind (reconcile_current_policy env repo (Some verified) False c) (\<lambda>(counts, reason, _, e). case e of
       Some cause \<Rightarrow>
         if reason = [] then
           bind (attempt (record_runtime_failure (repo_id repo) failure_runtime actor preserve)) (\<lambda>recorded.
           failed_run failure_runtime (case recorded of Inl e \<Rightarrow> Joined [cause, e] | Inr _ \<Rightarrow> cause))
         else land_run repo actor (land_failure ''repository.enforcement_recovery_failed''
             EnforcementUnhealthy False reason (Some counts) True preserve)
           (repo_invalid (recover_failure_message reason))
     | None \<Rightarrow> record_run_success repo actor ''repository.enforcement_recovery_succeeded''
         (text_field ''default_branch'' (repo_default_branch repo)
          @ text_field ''head_sha'' (abbreviate_sha (bh_sha head))) counts preserve c))))"

text \<open>\<open>if category == "" { category = runtime }\<close>, then give the claim back.\<close>

definition finish_run :: "job \<Rightarrow> run_outcome \<Rightarrow> repository go" where
  "finish_run c outcome = (case outcome of
     Inr updated \<Rightarrow> ret updated
   | Inl (category, e) \<Rightarrow>
       bind (attempt (reschedule_claim c (if category = [] then failure_runtime else category))) (\<lambda>rescheduled.
       fail_joined [Some e, error_of rescheduled]))"

definition reconcile_enforcement :: "enforcement_env \<Rightarrow> int \<Rightarrow> actor \<Rightarrow> repository go" where
  "reconcile_enforcement env i actor =
     bind (load_repository i) (\<lambda>repo.
     if repo_enforcement repo \<noteq> EnforcementActive then fail (repo_invalid
       ''Manual reconciliation is only available while repository enforcement is active.'')
     else bind (enqueue_reconciliation (repo_id repo)) (\<lambda>_.
     bind (claim_repository (repo_id repo)) (\<lambda>claimed. case claimed of
       None \<Rightarrow> fail (repo_invalid ''Enforcement reconciliation is already in progress.'')
     | Some c \<Rightarrow> bind (reconcile_enforcement_core env repo actor True c) (finish_run c))))"

definition recover_enforcement :: "enforcement_env \<Rightarrow> int \<Rightarrow> actor \<Rightarrow> repository go" where
  "recover_enforcement env i actor =
     bind (load_repository i) (\<lambda>repo.
     if repo_enforcement repo \<noteq> EnforcementUnhealthy then fail (repo_invalid
       ''Enforcement recovery is only available for an unhealthy repository.'')
     else bind (attempt (make_due_now (repo_id repo))) (\<lambda>due. case due of
       Inl e \<Rightarrow> if e = ReconciliationInProgress
         then fail (repo_invalid ''Enforcement recovery is already in progress.'') else fail e
     | Inr _ \<Rightarrow>
         bind (claim_repository (repo_id repo)) (\<lambda>claimed. case claimed of
           None \<Rightarrow> fail (repo_invalid ''Enforcement recovery is already in progress.'')
         | Some c \<Rightarrow> bind (recover_enforcement_core env repo actor True c) (finish_run c))))"

subsection \<open>The background runner\<close>

text \<open>The category reported to the log, and the error.\<close>

definition reschedule_runtime_claim :: "job \<Rightarrow> string \<Rightarrow> go_error \<Rightarrow> (string \<times> go_error option) go" where
  "reschedule_runtime_claim c category0 cause =
     (let category = (if valid_enforcement_failure_reason category0 then category0 else failure_runtime) in
      bind (attempt (reschedule_claim c category)) (\<lambda>r. case r of
        Inl e \<Rightarrow> ret (category, Some (Joined [cause, e]))
      | Inr _ \<Rightarrow> ret (category, Some cause)))"

definition runner_actor :: actor where
  "runner_actor = \<lparr>actor_user_id = None, actor_kind = actor_kind_system, actor_role = ''reconciliation_runner''\<rparr>"

definition process_reconciliation_claim :: "enforcement_env \<Rightarrow> job \<Rightarrow> (string \<times> go_error option) go" where
  "process_reconciliation_claim env c =
     bind (attempt (get_repository (job_repository_id c))) (\<lambda>r. case r of
       Inl e \<Rightarrow>
         if e = NoRows then bind (attempt (complete_claim c)) (\<lambda>completed. ret ([], error_of completed))
         else reschedule_runtime_claim c failure_runtime e
     | Inr repo \<Rightarrow>
         if \<not> repo_active repo \<or> repo_enforcement repo = EnforcementSetupIncomplete
             \<or> repo_enforcement repo = EnforcementReady
           then bind (attempt (complete_claim c)) (\<lambda>completed. ret ([], error_of completed))
         else bind (if repo_enforcement repo = EnforcementUnhealthy
             then recover_enforcement_core env repo runner_actor True c
             else reconcile_enforcement_core env repo runner_actor True c) (\<lambda>outcome. case outcome of
           Inr _ \<Rightarrow> ret ([], None)
         | Inl (category, e) \<Rightarrow>
             reschedule_runtime_claim c (if category = [] then failure_runtime else category) e))"

definition repository_reconciliation_runner_limit :: int where
  "repository_reconciliation_runner_limit = 25"

text \<open>The loop of \<open>RunDue\<close>: every claim is worked on, whatever became of the ones before it.\<close>

fun process_each :: "enforcement_env \<Rightarrow> job list \<Rightarrow> go_error option \<Rightarrow> go_error option go" where
  "process_each env [] joined = ret joined"
| "process_each env (c # cs) joined =
     bind (process_reconciliation_claim env c) (\<lambda>(category, e).
     process_each env cs (if e = None then joined else join_errors [joined, e]))"

definition run_due_reconciliations :: "enforcement_env \<Rightarrow> go_error option go" where
  "run_due_reconciliations env =
     bind (attempt (claim_due repository_reconciliation_runner_limit)) (\<lambda>r. case r of
       Inl e \<Rightarrow> ret (Some e)
     | Inr (claims, e) \<Rightarrow> if e \<noteq> None then ret e else process_each env claims None)"

subsection \<open>Runtime convergence\<close>

record convergence =
  cg_enqueue :: "int \<Rightarrow> unit go"
  cg_claim :: "int \<Rightarrow> job option go"
  cg_current :: "job \<Rightarrow> bool go"
  cg_complete :: "job \<Rightarrow> unit go"
  cg_fail :: "job \<Rightarrow> string \<Rightarrow> go_error option go"

definition runtime_actor :: actor where
  "runtime_actor = \<lparr>actor_user_id = None, actor_kind = actor_kind_system, actor_role = ''runtime''\<rparr>"

definition runtime_fail :: "job \<Rightarrow> string \<Rightarrow> go_error option go" where
  "runtime_fail c category =
     bind (attempt (record_runtime_failure (job_repository_id c) category runtime_actor True)) (\<lambda>recorded.
     bind (attempt (reschedule_claim c category)) (\<lambda>rescheduled.
     ret (join_errors [error_of recorded, error_of rescheduled])))"

definition runtime_convergence :: convergence where
  "runtime_convergence = \<lparr>cg_enqueue = (\<lambda>i. bind (enqueue_reconciliation i) (\<lambda>_. ret ())),
     cg_claim = claim_repository, cg_current = claim_current,
     cg_complete = (\<lambda>c. bind (complete_claim c) (\<lambda>_. ret ())), cg_fail = runtime_fail\<rparr>"

text \<open>\<open>errors.As\<close> for a convergence error with a known category; runtime is the default.\<close>

fun convergence_category :: "go_error \<Rightarrow> string option" where
  "convergence_category (ConvergenceFailed category _) = Some category"
| "convergence_category (Joined es) =
     (case filter (\<lambda>c. c \<noteq> None) (map convergence_category es) of [] \<Rightarrow> None | c # _ \<Rightarrow> c)"
| "convergence_category _ = None"

definition convergence_failure_category :: "go_error \<Rightarrow> string" where
  "convergence_failure_category e = (case convergence_category e of
     Some category \<Rightarrow> if valid_enforcement_failure_reason category then category else failure_runtime
   | None \<Rightarrow> failure_runtime)"

definition fail_runtime_convergence :: "convergence option \<Rightarrow> job \<Rightarrow> go_error \<Rightarrow> 'a go" where
  "fail_runtime_convergence conv c e = (case conv of
     None \<Rightarrow> fail e
   | Some cg \<Rightarrow> bind (cg_fail cg c (convergence_failure_category e)) (\<lambda>failure. case failure of
       Some f \<Rightarrow> fail (Joined [e, f]) | None \<Rightarrow> fail e))"

definition current_runtime_convergence_claim :: "convergence option \<Rightarrow> job \<Rightarrow> bool go" where
  "current_runtime_convergence_claim conv c = (case conv of None \<Rightarrow> ret True | Some cg \<Rightarrow> cg_current cg c)"

end
