(* ===== verification/FreezeRecompute.thy ===== *)
theory FreezeRecompute
  imports EnforcementRuns FreezeService
begin

text \<open>
  The freeze operations the application offers (\<open>internal/app/freeze_recompute.go\<close>): the freeze
  service, gated by enforcement and managed branches before anything is created, and followed by
  convergence: synchronise, decide and publish for every affected head commit under the
  repository's claim. The freezes, the repositories and the managed branches are the stores the
  application passes; the forge side and the convergence are fields of \<open>recompute_env\<close>.
\<close>

record recompute_env =
  rx_sync :: "int \<Rightarrow> string \<Rightarrow> unit go"
  rx_open_by_branch :: "int \<Rightarrow> string \<Rightarrow> pull_request list go"
  rx_run_shared_head :: "pull_request list \<Rightarrow> int \<Rightarrow> status_result go"
  rx_publish :: "status_result \<Rightarrow> publication go"
  rx_convergence :: "convergence option"
  rx_end_materialized :: "(int \<Rightarrow> actor \<Rightarrow> branch_freeze go) option"

subsection \<open>Gates\<close>

definition load_freeze_repository :: "int \<Rightarrow> repository go" where
  "load_freeze_repository i =
     bind (attempt (get_repository i)) (\<lambda>r. case r of
       Inl e \<Rightarrow> if e = NoRows then fail (invalid ''repository not found'') else fail e
     | Inr repo \<Rightarrow> ret repo)"

definition require_enforcement_active :: "int \<Rightarrow> unit go" where
  "require_enforcement_active i =
     bind (load_freeze_repository i) (\<lambda>repo.
     if \<not> enforcement_active repo then fail (invalid enforcement_not_active_message) else ret ())"

definition require_managed_freeze_branch :: "int \<Rightarrow> string \<Rightarrow> unit go" where
  "require_managed_freeze_branch i branch0 =
     (let branch = trim_space branch0 in
      if branch = [] then ret ()
      else bind (branch_managed i branch) (\<lambda>managed.
        if \<not> managed then fail (invalid branch_not_managed_message) else ret ()))"

subsection \<open>Convergence\<close>

text \<open>The loop over the groups: False as soon as the claim is no longer current.\<close>

fun recompute_groups :: "recompute_env \<Rightarrow> job \<Rightarrow> pull_request list list \<Rightarrow> bool go" where
  "recompute_groups env c [] = ret True"
| "recompute_groups env c (g # gs) =
     bind (attempt (current_runtime_convergence_claim (rx_convergence env) c)) (\<lambda>before. case before of
       Inl e \<Rightarrow> fail (ConvergenceFailed failure_runtime e)
     | Inr current \<Rightarrow>
         if \<not> current then ret False
         else bind (attempt (rx_run_shared_head env g (pr_index (hd g)))) (\<lambda>r. case r of
           Inl e \<Rightarrow> fail (ConvergenceFailed failure_evaluation e)
         | Inr result \<Rightarrow>
             bind (attempt (current_runtime_convergence_claim (rx_convergence env) c)) (\<lambda>again. case again of
               Inl e \<Rightarrow> fail (ConvergenceFailed failure_runtime e)
             | Inr still \<Rightarrow>
                 if \<not> still then ret False
                 else bind (attempt (rx_publish env result)) (\<lambda>p. case p of
                   Inl e \<Rightarrow> fail (ConvergenceFailed failure_publication e)
                 | Inr _ \<Rightarrow> recompute_groups env c gs))))"

definition recompute_branch :: "recompute_env \<Rightarrow> int \<Rightarrow> string \<Rightarrow> job \<Rightarrow> bool go" where
  "recompute_branch env i branch c =
     bind (load_freeze_repository i) (\<lambda>repo.
     if \<not> enforcement_active repo then ret False
     else bind (attempt (rx_sync env i [])) (\<lambda>synced. case synced of
       Inl e \<Rightarrow> fail (ConvergenceFailed failure_open_pr_sync e)
     | Inr _ \<Rightarrow>
         bind (attempt (rx_open_by_branch env i branch)) (\<lambda>listed. case listed of
           Inl e \<Rightarrow> fail (ConvergenceFailed failure_runtime e)
         | Inr prs \<Rightarrow> recompute_groups env c (pull_requests_by_head prs))))"

definition mark_recomputed_if_needed :: "branch_freeze \<Rightarrow> unit go" where
  "mark_recomputed_if_needed fr =
     (if \<not> fr_needs_recompute fr then ret () else bind (mark_recomputed (fr_id fr)) (\<lambda>_. ret ()))"

definition converge_under :: "recompute_env \<Rightarrow> branch_freeze \<Rightarrow> job \<Rightarrow> unit go" where
  "converge_under env changed c =
     bind (attempt (recompute_branch env (fr_repository_id changed) (fr_branch changed) c)) (\<lambda>r. case r of
       Inl e \<Rightarrow> fail_runtime_convergence (rx_convergence env) c e
     | Inr converged \<Rightarrow>
         if \<not> converged then ret ()
         else bind (attempt (mark_recomputed_if_needed changed)) (\<lambda>m. case m of
           Inl e \<Rightarrow> fail_runtime_convergence (rx_convergence env) c (ConvergenceFailed failure_runtime e)
         | Inr _ \<Rightarrow> (case rx_convergence env of
             None \<Rightarrow> ret ()
           | Some cg \<Rightarrow> bind (attempt (cg_complete cg c)) (\<lambda>d. case d of
               Inl e \<Rightarrow> fail_runtime_convergence (Some cg) c (ConvergenceFailed failure_runtime e)
             | Inr _ \<Rightarrow> ret ()))))"

definition converge_freeze :: "recompute_env \<Rightarrow> branch_freeze \<Rightarrow> unit go" where
  "converge_freeze env changed = (case rx_convergence env of
     None \<Rightarrow> converge_under env changed no_job
   | Some cg \<Rightarrow> bind (cg_claim cg (fr_repository_id changed)) (\<lambda>claimed. case claimed of
       None \<Rightarrow> ret () | Some c \<Rightarrow> converge_under env changed c))"

text \<open>
  A change, then its convergence. The code returns the changed freeze next to the error of a
  failed convergence; here the error stands for both.
\<close>

definition converged :: "recompute_env \<Rightarrow> branch_freeze go \<Rightarrow> branch_freeze go" where
  "converged env change = bind change (\<lambda>fr. bind (converge_freeze env fr) (\<lambda>_. ret fr))"

subsection \<open>Operations\<close>

definition recompute_create_active :: "recompute_env \<Rightarrow> freeze_create \<Rightarrow> actor \<Rightarrow> branch_freeze go" where
  "recompute_create_active env params actor =
     bind (require_enforcement_active (fc_repository_id params)) (\<lambda>_.
     bind (require_managed_freeze_branch (fc_repository_id params) (fc_branch params)) (\<lambda>_.
     converged env (service_create_active params actor)))"

definition recompute_end :: "recompute_env \<Rightarrow> int \<Rightarrow> actor \<Rightarrow> branch_freeze go" where
  "recompute_end env i actor = (case rx_end_materialized env of
     None \<Rightarrow> converged env (service_end i actor)
   | Some ender \<Rightarrow> bind (attempt (get_freeze i)) (\<lambda>r. case r of
       Inl e \<Rightarrow> converged env (service_end i actor)
     | Inr target \<Rightarrow>
         if fr_schedule_id target = None then converged env (service_end i actor)
         else converged env (ender i actor)))"

definition recompute_end_materialized :: "recompute_env \<Rightarrow> int \<Rightarrow> actor \<Rightarrow> branch_freeze go" where
  "recompute_end_materialized env i actor = converged env (service_end i actor)"

definition recompute_update_attribution :: "recompute_env \<Rightarrow> attribution_update \<Rightarrow> branch_freeze go" where
  "recompute_update_attribution env params = converged env (update_materialized_attribution params)"

definition recompute_cancel :: "recompute_env \<Rightarrow> int \<Rightarrow> actor \<Rightarrow> branch_freeze go" where
  "recompute_cancel env i actor = converged env (service_cancel i actor)"

definition recompute_create_scheduled :: "freeze_plan \<Rightarrow> actor \<Rightarrow> branch_freeze go" where
  "recompute_create_scheduled params actor =
     bind (require_enforcement_active (fp_repository_id params)) (\<lambda>_.
     bind (require_managed_freeze_branch (fp_repository_id params) (fp_branch params)) (\<lambda>_.
     service_create_scheduled params actor))"

text \<open>Load the freeze to gate on its repository; \<open>missing\<close> is the message when there is none.\<close>

definition gated_by_repository :: "int \<Rightarrow> string \<Rightarrow> branch_freeze go \<Rightarrow> branch_freeze go" where
  "gated_by_repository i missing m =
     bind (attempt (get_freeze i)) (\<lambda>r. case r of
       Inl e \<Rightarrow> if e = NoRows then fail (invalid missing) else fail e
     | Inr target \<Rightarrow> bind (require_enforcement_active (fr_repository_id target)) (\<lambda>_. m))"

definition recompute_activate_scheduled :: "recompute_env \<Rightarrow> int \<Rightarrow> actor \<Rightarrow> branch_freeze go" where
  "recompute_activate_scheduled env i actor = gated_by_repository i ''scheduled freeze is not due''
     (converged env (service_activate_scheduled i actor))"

definition recompute_start_scheduled_now :: "recompute_env \<Rightarrow> int \<Rightarrow> actor \<Rightarrow> branch_freeze go" where
  "recompute_start_scheduled_now env i actor = gated_by_repository i ''scheduled freeze is no longer pending''
     (converged env (service_start_scheduled_now i actor))"

definition recompute_execute_planned_unfreeze :: "recompute_env \<Rightarrow> int \<Rightarrow> actor \<Rightarrow> branch_freeze go" where
  "recompute_execute_planned_unfreeze env i actor = converged env (service_execute_planned_unfreeze i actor)"

definition retry_recompute :: "recompute_env \<Rightarrow> branch_freeze \<Rightarrow> unit go" where
  "retry_recompute env pending =
     (if rx_convergence env \<noteq> None then ret () else converge_freeze env pending)"

end
