(* ===== verification/Materializer.thy ===== *)
theory Materializer
  imports Decide ScheduleService FreezeRecompute
begin

text \<open>
  The materializer (\<open>internal/scheduler/materialize.go\<close>), which turns schedule coverage into freeze
  rows, and the runner that calls it between the due freezes and the pending recomputations
  (\<open>internal/app/freeze_lifecycle_runner.go\<close>). The freezes are reached through the interface
  \<open>freeze_surface\<close>; the application passes the recomputing store. Logging is left out.
\<close>

record freeze_surface =
  fs_get_active_for_branch :: "int \<Rightarrow> string \<Rightarrow> branch_freeze option go"
  fs_list_active_materialized :: "branch_freeze list go"
  fs_create_active :: "freeze_create \<Rightarrow> actor \<Rightarrow> branch_freeze go"
  fs_end_materialized :: "int \<Rightarrow> actor \<Rightarrow> branch_freeze go"
  fs_update_attribution :: "attribution_update \<Rightarrow> branch_freeze go"

definition recompute_surface :: "recompute_env \<Rightarrow> freeze_surface" where
  "recompute_surface env = \<lparr>fs_get_active_for_branch = get_active_for_branch,
     fs_list_active_materialized = list_active_materialized,
     fs_create_active = recompute_create_active env,
     fs_end_materialized = recompute_end_materialized env,
     fs_update_attribution = recompute_update_attribution env\<rparr>"

definition materializer_actor :: actor where
  "materializer_actor = \<lparr>actor_user_id = None, actor_kind = actor_kind_system, actor_role = ''scheduler''\<rparr>"

subsection \<open>One branch\<close>

text \<open>A refusal of the store (a race, or enforcement not active) is skipped until the next run.\<close>

definition skip_refusal :: "'a go \<Rightarrow> unit go" where
  "skip_refusal m = bind (attempt m) (\<lambda>r. case r of
     Inl e \<Rightarrow> if is_validation_error FreezePkg e then ret () else fail e
   | Inr _ \<Rightarrow> ret ())"

definition create_params :: "int \<Rightarrow> string \<Rightarrow> sched_decision \<Rightarrow> freeze_create" where
  "create_params repo branch d = \<lparr>fc_repository_id = repo, fc_branch = branch, fc_reason = sd_reason d,
     fc_planned_ends_at = sd_planned_ends_at d, fc_schedule_id = Some (sd_schedule_id d),
     fc_schedule_name = sd_schedule_name d, fc_created_by = None, fc_created_by_kind = []\<rparr>"

definition update_params :: "sched_decision \<Rightarrow> attribution_update" where
  "update_params d = \<lparr>fa_freeze_id = sd_update_freeze_id d, fa_schedule_id = sd_schedule_id d,
     fa_schedule_name = sd_schedule_name d, fa_reason = sd_reason d,
     fa_planned_ends_at = sd_planned_ends_at d\<rparr>"

definition carry_out :: "freeze_surface \<Rightarrow> int \<Rightarrow> string \<Rightarrow> sched_decision \<Rightarrow> unit go" where
  "carry_out fs repo branch d = (case sd_action d of
     DecisionCreate \<Rightarrow> skip_refusal (fs_create_active fs (create_params repo branch d) materializer_actor)
   | DecisionEnd \<Rightarrow> skip_refusal (fs_end_materialized fs (sd_end_freeze_id d) materializer_actor)
   | DecisionUpdate \<Rightarrow> skip_refusal (fs_update_attribution fs (update_params d))
   | DecisionNone \<Rightarrow> ret ())"

definition reconcile_branch ::
    "freeze_surface \<Rightarrow> instant \<Rightarrow> instant \<Rightarrow> int \<times> string \<Rightarrow> schedule list \<Rightarrow> segment list \<Rightarrow> unit go" where
  "reconcile_branch fs now window_end key schedules segs =
     (let repo = fst key; branch = snd key;
          branch_segments = filter (\<lambda>s. sg_schedule_id s \<in> set (map sc_id schedules)) segs in
      bind (fs_get_active_for_branch fs repo branch) (\<lambda>live.
      carry_out fs repo branch (decide now window_end \<lparr>bs_repository_id = repo, bs_branch = branch,
        bs_schedules = schedules, bs_segments = branch_segments, bs_live = live\<rparr>)))"

subsection \<open>One run\<close>

definition schedules_of :: "int \<times> string \<Rightarrow> coverage list \<Rightarrow> schedule list" where
  "schedules_of key covs = filter (on_branch (fst key) (snd key)) (map cv_schedule covs)"

definition candidate_keys :: "coverage list \<Rightarrow> branch_freeze list \<Rightarrow> (int \<times> string) list" where
  "candidate_keys covs live = sort (remdups
     (map (\<lambda>c. (sc_repository_id (cv_schedule c), sc_branch (cv_schedule c))) covs
      @ map (\<lambda>fr. (fr_repository_id fr, fr_branch fr)) live))"

text \<open>The loop every runner shares: an error is joined to the others, not fatal.\<close>

fun each_joined :: "('a \<Rightarrow> 'b go) \<Rightarrow> 'a list \<Rightarrow> go_error option \<Rightarrow> go_error option go" where
  "each_joined f [] joined = ret joined"
| "each_joined f (x # xs) joined =
     bind (attempt (f x)) (\<lambda>r. each_joined f xs (case r of
       Inl e \<Rightarrow> join_errors [joined, Some e] | Inr _ \<Rightarrow> joined))"

definition return_joined :: "go_error option \<Rightarrow> unit go" where
  "return_joined joined = (case joined of None \<Rightarrow> ret () | Some e \<Rightarrow> fail e)"

definition run_once ::
    "(string \<Rightarrow> zone option) \<Rightarrow> coverage list go \<Rightarrow> freeze_surface \<Rightarrow> unit go" where
  "run_once tz source fs =
     bind now_utc (\<lambda>now.
     let window_end = now + coverage_horizon in
     bind source (\<lambda>covs.
     bind (expanded tz covs (now - coverage_lookback) window_end) (\<lambda>segs.
     bind (fs_list_active_materialized fs) (\<lambda>live.
     bind (each_joined (\<lambda>key. reconcile_branch fs now window_end key (schedules_of key covs) segs)
       (candidate_keys covs live) None) return_joined))))"

subsection \<open>The lifecycle runner\<close>

definition freeze_lifecycle_runner_limit :: int where
  "freeze_lifecycle_runner_limit = 25"

record lifecycle_store =
  lc_list_due_scheduled :: "int \<Rightarrow> branch_freeze list go"
  lc_activate_scheduled :: "int \<Rightarrow> actor \<Rightarrow> branch_freeze go"
  lc_list_due_planned_unfreezes :: "int \<Rightarrow> branch_freeze list go"
  lc_execute_planned_unfreeze :: "int \<Rightarrow> actor \<Rightarrow> branch_freeze go"
  lc_list_needs_recompute :: "int \<Rightarrow> branch_freeze list go"
  lc_retry_recompute :: "branch_freeze \<Rightarrow> unit go"

definition recompute_lifecycle :: "recompute_env \<Rightarrow> lifecycle_store" where
  "recompute_lifecycle env = \<lparr>lc_list_due_scheduled = list_due_scheduled,
     lc_activate_scheduled = recompute_activate_scheduled env,
     lc_list_due_planned_unfreezes = list_due_planned_unfreezes,
     lc_execute_planned_unfreeze = recompute_execute_planned_unfreeze env,
     lc_list_needs_recompute = list_needs_recompute, lc_retry_recompute = retry_recompute env\<rparr>"

text \<open>A list that fails ends the run with what was joined so far.\<close>

definition listed_or_joined ::
    "'a list go \<Rightarrow> go_error option \<Rightarrow> ('a list \<Rightarrow> unit go) \<Rightarrow> unit go" where
  "listed_or_joined m joined f = bind (attempt m) (\<lambda>r. case r of
     Inl e \<Rightarrow> return_joined (join_errors [joined, Some e]) | Inr xs \<Rightarrow> f xs)"

definition run_due_lifecycle :: "lifecycle_store \<Rightarrow> unit go option \<Rightarrow> unit go" where
  "run_due_lifecycle store materializer =
     bind (lc_list_due_scheduled store freeze_lifecycle_runner_limit) (\<lambda>starts.
     bind (each_joined (\<lambda>fr. lc_activate_scheduled store (fr_id fr) materializer_actor) starts None) (\<lambda>j1.
     listed_or_joined (lc_list_due_planned_unfreezes store freeze_lifecycle_runner_limit) j1 (\<lambda>ends.
     bind (each_joined (\<lambda>fr. lc_execute_planned_unfreeze store (fr_id fr) materializer_actor) ends j1) (\<lambda>j2.
     bind (case materializer of None \<Rightarrow> ret j2
           | Some m \<Rightarrow> bind (attempt m) (\<lambda>r. ret (case r of
               Inl e \<Rightarrow> join_errors [j2, Some e] | Inr _ \<Rightarrow> j2))) (\<lambda>j3.
     listed_or_joined (lc_list_needs_recompute store freeze_lifecycle_runner_limit) j3 (\<lambda>pending.
     bind (each_joined (lc_retry_recompute store) pending j3) return_joined))))))"

end
