(* ===== verification/ThawApproval.thy ===== *)
theory ThawApproval
  imports EnforcementRuns ThawService FreezeStore
begin

text \<open>
  Approving a thaw (\<open>internal/app/thaw_approval.go\<close>): the pull request is fetched and the cache
  synchronised first, so the approval rests on what the forge says now; when several open pull
  requests share the head commit, the operator must confirm that exact set. The digest of the
  set, SHA-256 in hexadecimal, is a parameter.
\<close>

abbreviation approval_invalid :: "string \<Rightarrow> go_error" where
  "approval_invalid \<equiv> ValidationError StatusResultPkg"

record thaw_confirmation =
  cf_head_sha :: string
  cf_signature :: string

record thaw_request =
  tp_repository_id :: int
  tp_pull_request_index :: int
  tp_target_branch :: string
  tp_head_sha :: string
  tp_reason :: string
  tp_confirmation :: "thaw_confirmation option"

record thaw_outcome =
  to_result :: "status_result option"
  to_confirmation :: "thaw_confirmation option"
  to_affected :: "pull_request list"

definition no_outcome :: thaw_outcome where
  "no_outcome = \<lparr>to_result = None, to_confirmation = None, to_affected = []\<rparr>"

record approval_env =
  ap_forge :: forge_env
  ap_sync :: "int \<Rightarrow> string \<Rightarrow> unit go"
  ap_run_shared_head :: "pull_request list \<Rightarrow> int \<Rightarrow> status_result go"
  ap_publish :: "status_result \<Rightarrow> publication go"
  ap_convergence :: "convergence option"
  ap_digest :: "string \<Rightarrow> string"

subsection \<open>Validation\<close>

definition normalize_thaw_request :: "thaw_request \<Rightarrow> thaw_request" where
  "normalize_thaw_request p = p \<lparr>tp_target_branch := trim_space (tp_target_branch p),
     tp_head_sha := to_lower (trim_space (tp_head_sha p)), tp_reason := trim_space (tp_reason p),
     tp_confirmation := map_option (\<lambda>c. \<lparr>cf_head_sha = to_lower (trim_space (cf_head_sha c)),
       cf_signature = to_lower (trim_space (cf_signature c))\<rparr>) (tp_confirmation p)\<rparr>"

definition normalize_fetched :: "pull_request \<Rightarrow> pull_request" where
  "normalize_fetched pr =
     (let state = to_lower (trim_space (pr_state pr)) in
      pr \<lparr>pr_state := (if state = [] then ''open'' else state),
          pr_target_branch := trim_space (pr_target_branch pr),
          pr_head_sha := to_lower (trim_space (pr_head_sha pr)),
          pr_title := trim_space (pr_title pr), pr_url := trim_space (pr_url pr)\<rparr>)"

definition validate_thaw_request :: "thaw_request \<Rightarrow> go_error option" where
  "validate_thaw_request p =
     (let missing = (if tp_repository_id p \<le> 0 then [''repository''] else [])
            @ (if tp_pull_request_index p \<le> 0 then [''pull request''] else [])
            @ (if tp_target_branch p = [] then [''target branch''] else [])
            @ (if tp_reason p = [] then [''reason''] else []) in
      if missing \<noteq> [] then Some (approval_invalid
          (''missing required thaw approval fields: '' @ join_with '', '' missing))
      else if tp_pull_request_index p > 1000000 then Some (approval_invalid ''pull request number is too large'')
      else if invalid_target_branch (tp_target_branch p) then Some (approval_invalid ''target branch is invalid'')
      else if tp_head_sha p \<noteq> [] \<and> invalid_head_sha (tp_head_sha p)
        then Some (approval_invalid ''head SHA is invalid'')
      else if length (tp_reason p) > 500 \<or> contains_control (tp_reason p)
        then Some (approval_invalid ''reason is invalid'')
      else case tp_confirmation p of
        None \<Rightarrow> None
      | Some c \<Rightarrow>
          if invalid_head_sha (cf_head_sha c) then Some (approval_invalid ''confirmed head SHA is invalid'')
          else if length (cf_signature c) \<noteq> 64 \<or> \<not> is_hex (cf_signature c)
            then Some (approval_invalid ''confirmed affected pull request signature is invalid'')
          else None)"

definition validate_fetched :: "thaw_request \<Rightarrow> pull_request \<Rightarrow> go_error option" where
  "validate_fetched p pr =
     (let missing = (if pr_index pr \<le> 0 then [''pull request''] else [])
            @ (if pr_target_branch pr = [] then [''target branch''] else [])
            @ (if pr_head_sha pr = [] then [''head SHA''] else []) in
      if missing \<noteq> [] then Some (approval_invalid
          (''forge pull request is missing required fields: '' @ join_with '', '' missing))
      else if pr_index pr \<noteq> tp_pull_request_index p
        then Some (approval_invalid ''forge pull request number does not match the requested pull request'')
      else if \<not> pr_is_open pr then Some (approval_invalid ''pull request is not open'')
      else if pr_target_branch pr \<noteq> tp_target_branch p
        then Some (approval_invalid ''pull request target branch no longer matches the requested branch'')
      else if tp_head_sha p \<noteq> [] \<and> pr_head_sha pr \<noteq> tp_head_sha p
        then Some (approval_invalid ''pull request head SHA no longer matches the requested head SHA'')
      else None)"

subsection \<open>The affected set\<close>

definition with_selected :: "pull_request \<Rightarrow> pull_request list \<Rightarrow> pull_request list" where
  "with_selected pr prs =
     (if list_ex (\<lambda>x. pr_index x = pr_index pr) prs then prs
      else if pr_is_open pr then prs @ [pr] else prs)"

definition frozen_pull_requests :: "branch_freeze list \<Rightarrow> pull_request list \<Rightarrow> pull_request list" where
  "frozen_pull_requests freezes prs = filter (\<lambda>pr. list_ex (\<lambda>fr. fr_active fr
     \<and> fr_repository_id fr = pr_repository_id pr \<and> fr_branch fr = pr_target_branch pr) freezes) prs"

text \<open>What is hashed: one line per pull request, in the order of their numbers.\<close>

definition signature_text :: "pull_request list \<Rightarrow> string" where
  "signature_text prs = concat (map (\<lambda>pr. format_int (pr_index pr) @ [CHR 0x00] @ pr_target_branch pr
     @ [CHR 0x0A]) (sort_key pr_index prs))"

definition affected_signature :: "approval_env \<Rightarrow> pull_request list \<Rightarrow> string" where
  "affected_signature env prs = ap_digest env (signature_text prs)"

definition confirmation_outcome :: "approval_env \<Rightarrow> pull_request list \<Rightarrow> thaw_outcome" where
  "confirmation_outcome env prs = \<lparr>to_result = None,
     to_confirmation = Some \<lparr>cf_head_sha = pr_head_sha (hd prs), cf_signature = affected_signature env prs\<rparr>,
     to_affected = prs\<rparr>"

definition confirmation_matches :: "approval_env \<Rightarrow> thaw_confirmation \<Rightarrow> pull_request list \<Rightarrow> bool" where
  "confirmation_matches env c prs \<longleftrightarrow> prs \<noteq> [] \<and> cf_head_sha c = pr_head_sha (hd prs)
     \<and> cf_signature c = affected_signature env prs"

definition exception_params :: "string \<Rightarrow> pull_request \<Rightarrow> thaw_approve" where
  "exception_params reason pr = \<lparr>ta_repository_id = pr_repository_id pr,
     ta_pull_request_index = pr_index pr, ta_pull_request_url = pr_url pr,
     ta_target_branch = pr_target_branch pr, ta_head_sha = pr_head_sha pr, ta_reason = reason,
     ta_expires_at = None\<rparr>"

subsection \<open>Approving\<close>

definition safe_approval_error :: "approval_env \<Rightarrow> string \<Rightarrow> string \<Rightarrow> go_error \<Rightarrow> go_error" where
  "safe_approval_error env token lead e = Plain (redact [token] (lead @ fe_text (ap_forge env) e))"

definition approval_exception_error :: "approval_env \<Rightarrow> string \<Rightarrow> go_error \<Rightarrow> go_error" where
  "approval_exception_error env token e =
     (if is_validation_error ThawPkg e then approval_invalid (redact [token] (fe_text (ap_forge env) e))
      else safe_approval_error env token [] e)"

text \<open>An operation whose error is reported with the token redacted.\<close>

definition redacting :: "approval_env \<Rightarrow> string \<Rightarrow> string \<Rightarrow> 'a go \<Rightarrow> 'a go" where
  "redacting env token lead m = bind (attempt m) (\<lambda>r. case r of
     Inl e \<Rightarrow> fail (safe_approval_error env token lead e) | Inr x \<Rightarrow> ret x)"

text \<open>The current pull request from the forge, checked against the request.\<close>

definition fetch_current ::
    "approval_env \<Rightarrow> thaw_request \<Rightarrow> repository \<Rightarrow> string \<Rightarrow> forge_client \<Rightarrow> pull_request go" where
  "fetch_current env p repo token client =
     bind (redacting env token ''fetch current pull request from forge: ''
       (fk_get_pull_request client (repo_owner repo) (repo_name repo) (tp_pull_request_index p))) (\<lambda>fetched.
     let pr = normalize_fetched (fetched \<lparr>pr_repository_id := repo_id repo\<rparr>) in
     when_invalid (validate_fetched p pr) (ret pr))"

definition grant ::
    "approval_env \<Rightarrow> thaw_request \<Rightarrow> actor \<Rightarrow> repository \<Rightarrow> string \<Rightarrow> pull_request \<Rightarrow> pull_request list
      \<Rightarrow> pull_request list \<Rightarrow> unit go" where
  "grant env p actor repo token cached open_prs frozen_prs =
     bind (attempt (if length open_prs = 1
         then bind (service_approve (exception_params (tp_reason p) cached) actor) (\<lambda>_. ret ())
         else bind (service_approve_shared_head \<lparr>sa_repository_id = repo_id repo,
             sa_selected_pull_request_index = pr_index cached, sa_head_sha = pr_head_sha cached,
             sa_reason = tp_reason p, sa_affected = sort (map pr_index open_prs),
             sa_exceptions = map (exception_params (tp_reason p)) frozen_prs\<rparr> actor) (\<lambda>_. ret ()))) (\<lambda>r.
     case r of Inl e \<Rightarrow> fail (approval_exception_error env token e) | Inr _ \<Rightarrow> ret ())"

text \<open>Deciding and publishing under the claim, when there is a convergence.\<close>

definition converge_approval ::
    "approval_env \<Rightarrow> string \<Rightarrow> pull_request \<Rightarrow> pull_request list \<Rightarrow> job \<Rightarrow> thaw_outcome go" where
  "converge_approval env token cached open_prs c =
     (let conv = ap_convergence env;
          failing = (\<lambda>category e. fail_runtime_convergence conv c (ConvergenceFailed category e)) in
      bind (attempt (current_runtime_convergence_claim conv c)) (\<lambda>before. case before of
        Inl e \<Rightarrow> failing failure_runtime e
      | Inr current \<Rightarrow>
          if \<not> current then ret no_outcome
          else bind (attempt (ap_run_shared_head env open_prs (pr_index cached))) (\<lambda>r. case r of
            Inl e \<Rightarrow> failing failure_evaluation (safe_approval_error env token [] e)
          | Inr result \<Rightarrow>
              bind (attempt (current_runtime_convergence_claim conv c)) (\<lambda>again. case again of
                Inl e \<Rightarrow> failing failure_runtime e
              | Inr still \<Rightarrow>
                  if \<not> still then ret no_outcome
                  else bind (attempt (ap_publish env result)) (\<lambda>p. case p of
                    Inl e \<Rightarrow> failing failure_publication (safe_approval_error env token [] e)
                  | Inr _ \<Rightarrow> (case conv of
                      None \<Rightarrow> ret (no_outcome \<lparr>to_result := Some result\<rparr>)
                    | Some cg \<Rightarrow> bind (attempt (cg_complete cg c)) (\<lambda>d. case d of
                        Inl e \<Rightarrow> failing failure_runtime e
                      | Inr _ \<Rightarrow> ret (no_outcome \<lparr>to_result := Some result\<rparr>))))))))"

definition approve_affected ::
    "approval_env \<Rightarrow> thaw_request \<Rightarrow> actor \<Rightarrow> repository \<Rightarrow> string \<Rightarrow> pull_request \<Rightarrow> thaw_outcome go" where
  "approve_affected env p actor repo token cached =
     bind (redacting env token ''list open pull requests for approved thaw: ''
       (list_open_by_head (pr_repository_id cached) (pr_head_sha cached))) (\<lambda>listed.
     let open_prs = with_selected cached listed in
     bind (redacting env token ''list active freezes for shared-head thaw approval: '' list_active) (\<lambda>freezes.
     let frozen_prs = frozen_pull_requests freezes open_prs in
     if frozen_prs = [] then fail (approval_invalid
       ''No thaw is needed because none of the affected pull requests currently targets an actively frozen branch.'')
     else if (case tp_confirmation p of Some c \<Rightarrow> \<not> confirmation_matches env c open_prs
              | None \<Rightarrow> length open_prs > 1) then ret (confirmation_outcome env open_prs)
     else bind (grant env p actor repo token cached open_prs frozen_prs) (\<lambda>_.
     case ap_convergence env of
       None \<Rightarrow> converge_approval env token cached open_prs no_job
     | Some cg \<Rightarrow> bind (cg_claim cg (repo_id repo)) (\<lambda>claimed. case claimed of
         None \<Rightarrow> ret no_outcome
       | Some c \<Rightarrow> converge_approval env token cached open_prs c))))"

definition approve_thaw_request :: "approval_env \<Rightarrow> thaw_request \<Rightarrow> actor \<Rightarrow> thaw_outcome go" where
  "approve_thaw_request env params actor =
     (let p = normalize_thaw_request params; forge = ap_forge env in
      when_invalid (validate_thaw_request p) (
      bind (get_repository (tp_repository_id p)) (\<lambda>repo.
      if \<not> enforcement_active repo then fail (approval_invalid enforcement_not_active_message)
      else bind (fe_status_token forge (tp_repository_id p)) (\<lambda>found.
      let token = trim_space (text_or_empty found) in
      if token = [] then fail (approval_invalid ''repository status token is not configured'')
      else bind (redacting env token ''create forgejo pull request client: ''
        (fe_client_for forge repo token)) (\<lambda>client0. case client0 of
        None \<Rightarrow> fail (Plain ''create forgejo pull request client: nil client'')
      | Some client \<Rightarrow>
          bind (fetch_current env p repo token client) (\<lambda>pr.
          bind (redacting env token ''sync open pull requests for thaw approval: ''
            (ap_sync env (repo_id repo) [])) (\<lambda>_.
          bind (redacting env token ''cache thawed pull request: '' (upsert_cached_pull pr)) (\<lambda>cached.
          approve_affected env p actor repo token cached))))))))"

end
