(* ===== verification/WebhookProcessor.thy ===== *)
theory WebhookProcessor
  imports EnforcementRuns
begin

text \<open>
  Processing a pull-request webhook (\<open>internal/webhook/pull_request.go\<close>): the payload becomes an
  event, the heads it affects are decided and published, and the cache is updated. Decoding the
  JSON and parsing URLs are the work of libraries: \<open>payload\<close> is what the decoder fills in, and
  \<open>parse\<close> gives scheme and host.
\<close>

record payload =
  py_action :: string
  py_owner_login :: string
  py_repository_name :: string
  py_full_name :: string
  py_clone_url :: string
  py_number :: int
  py_title :: string
  py_state :: string
  py_html_url :: string
  py_base_ref :: string
  py_head_sha :: string

record pull_event =
  pe_action :: string
  pe_forge :: string
  pe_base_url :: string
  pe_owner :: string
  pe_repository_name :: string
  pe_pull_request :: pull_request

record webhook_env =
  wh_parse_url :: "string \<Rightarrow> parsed_url option"
  wh_run_shared_head :: "pull_request list \<Rightarrow> int \<Rightarrow> status_result go"
  wh_publish :: "status_result \<Rightarrow> publication go"
  wh_convergence :: "convergence option"

record process_result =
  pz_event :: pull_event
  pz_repository :: repository
  pz_pull_request :: pull_request
  pz_results :: "status_result list"
  pz_publications :: "publication list"
  pz_recomputed :: bool

subsection \<open>The event\<close>

text \<open>\<open>strings.SplitN(s, "/", 2)\<close>: what stands before the first slash, if there is one.\<close>

definition owner_from_full_name :: "string \<Rightarrow> string" where
  "owner_from_full_name full_name =
     (let s = trim_space full_name in
      if CHR ''/'' \<in> set s then trim_space (takeWhile (\<lambda>c. c \<noteq> CHR ''/'') s) else [])"

definition remote_base_url :: "(string \<Rightarrow> parsed_url option) \<Rightarrow> string \<Rightarrow> string" where
  "remote_base_url parse raw = (case parse (trim_space raw) of
     None \<Rightarrow> []
   | Some u \<Rightarrow> if url_scheme u = [] \<or> url_host u = [] then [] else url_scheme u @ ''://'' @ url_host u)"

definition validate_pull_event :: "pull_event \<Rightarrow> go_error option" where
  "validate_pull_event e =
     (let pr = pe_pull_request e;
          missing = (if pe_action e = [] then [''action''] else [])
            @ (if pe_base_url e = [] then [''repository base URL''] else [])
            @ (if pe_owner e = [] then [''repository owner''] else [])
            @ (if pe_repository_name e = [] then [''repository name''] else [])
            @ (if pr_index pr \<le> 0 then [''pull request''] else [])
            @ (if pr_target_branch pr = [] then [''target branch''] else [])
            @ (if pr_head_sha pr = [] then [''head SHA''] else []) in
      if missing \<noteq> [] then Some (webhook_invalid
          (''missing required pull request webhook fields: '' @ join_with '', '' missing))
      else None)"

definition parse_pull_request_event :: "(string \<Rightarrow> parsed_url option) \<Rightarrow> payload \<Rightarrow> go_error + pull_event" where
  "parse_pull_request_event parse p =
     (let owner = trim_space (py_owner_login p);
          url = remote_base_url parse (py_clone_url p);
          e = \<lparr>pe_action = trim_space (py_action p), pe_forge = ''forgejo'',
            pe_base_url = (if url = [] then remote_base_url parse (py_html_url p) else url),
            pe_owner = (if owner = [] then owner_from_full_name (py_full_name p) else owner),
            pe_repository_name = trim_space (py_repository_name p),
            pe_pull_request = \<lparr>pr_id = 0, pr_repository_id = 0, pr_index = py_number p,
              pr_title = trim_space (py_title p), pr_state = to_lower (trim_space (py_state p)),
              pr_target_branch = trim_space (py_base_ref p),
              pr_head_sha = to_lower (trim_space (py_head_sha p)),
              pr_url = trim_space (py_html_url p)\<rparr>\<rparr> in
      case validate_pull_event e of Some err \<Rightarrow> Inl err | None \<Rightarrow> Inr e)"

subsection \<open>What to decide again\<close>

definition open_for_head :: "int \<Rightarrow> string \<Rightarrow> pull_request \<Rightarrow> pull_request list go" where
  "open_for_head repo head current =
     bind (list_open_by_head repo head) (\<lambda>prs.
     ret (filter (\<lambda>pr. pr_index pr \<noteq> pr_index current) prs
       @ (if pr_is_open current \<and> pr_head_sha current = head then [current] else [])))"

definition previous_pull_request :: "int \<Rightarrow> int \<Rightarrow> pull_request option go" where
  "previous_pull_request repo index =
     bind (attempt (get_cached_pull repo index)) (\<lambda>r. case r of
       Inl e \<Rightarrow> if e = NoRows then ret None else fail e
     | Inr pr \<Rightarrow> ret (Some pr))"

definition plan :: "pull_request list \<Rightarrow> int \<Rightarrow> (pull_request list \<times> int) list" where
  "plan prs preferred = (if prs = [] then [] else [(prs, preferred)])"

definition recompute_plans ::
    "int \<Rightarrow> pull_request \<Rightarrow> pull_request option \<Rightarrow> (pull_request list \<times> int) list go" where
  "recompute_plans repo current previous =
     bind (open_for_head repo (pr_head_sha current) current) (\<lambda>now_open.
     case previous of
       Some old \<Rightarrow>
         if pr_is_open old \<and> pr_head_sha old \<noteq> pr_head_sha current then
           bind (open_for_head repo (pr_head_sha old) current) (\<lambda>then_open.
           ret (plan now_open (pr_index current) @ plan then_open (pr_index old)))
         else ret (plan now_open (pr_index current))
     | None \<Rightarrow> ret (plan now_open (pr_index current)))"

definition webhook_claim_current :: "webhook_env \<Rightarrow> job \<Rightarrow> bool go" where
  "webhook_claim_current env c = (case wh_convergence env of None \<Rightarrow> ret True | Some cg \<Rightarrow> cg_current cg c)"

text \<open>
  The outcome: results and publications with whether the claim stayed current, or the category
  and the error.
\<close>

fun recompute_and_publish ::
    "webhook_env \<Rightarrow> job \<Rightarrow> (pull_request list \<times> int) list
      \<Rightarrow> ((string \<times> go_error) + (status_result list \<times> publication list) option) go" where
  "recompute_and_publish env c [] = ret (Inr (Some ([], [])))"
| "recompute_and_publish env c ((prs, preferred) # plans) =
     bind (attempt (webhook_claim_current env c)) (\<lambda>before. case before of
       Inl e \<Rightarrow> ret (Inl (failure_runtime, e))
     | Inr current \<Rightarrow>
         if \<not> current then ret (Inr None)
         else bind (attempt (wh_run_shared_head env prs preferred)) (\<lambda>r. case r of
           Inl e \<Rightarrow> ret (Inl (failure_evaluation, e))
         | Inr status \<Rightarrow>
             bind (attempt (webhook_claim_current env c)) (\<lambda>again. case again of
               Inl e \<Rightarrow> ret (Inl (failure_runtime, e))
             | Inr still \<Rightarrow>
                 if \<not> still then ret (Inr None)
                 else bind (attempt (wh_publish env status)) (\<lambda>p. case p of
                   Inl e \<Rightarrow> ret (Inl (failure_publication, e))
                 | Inr publication \<Rightarrow>
                     bind (recompute_and_publish env c plans) (\<lambda>rest. ret (case rest of
                       Inr (Some (results, publications)) \<Rightarrow>
                         Inr (Some (status # results, publication # publications))
                     | other \<Rightarrow> other))))))"

definition fail_webhook_convergence :: "webhook_env \<Rightarrow> job \<Rightarrow> string \<Rightarrow> go_error \<Rightarrow> 'a go" where
  "fail_webhook_convergence env c category cause = (case wh_convergence env of
     None \<Rightarrow> fail cause
   | Some cg \<Rightarrow> bind (cg_fail cg c category) (\<lambda>failure. case failure of
       Some f \<Rightarrow> fail (Joined [cause, f]) | None \<Rightarrow> fail cause))"

subsection \<open>Processing\<close>

definition cached_only :: "pull_event \<Rightarrow> repository \<Rightarrow> pull_request \<Rightarrow> process_result" where
  "cached_only e repo pr = \<lparr>pz_event = e, pz_repository = repo, pz_pull_request = pr, pz_results = [],
     pz_publications = [], pz_recomputed = False\<rparr>"

definition process_claimed ::
    "webhook_env \<Rightarrow> pull_event \<Rightarrow> repository \<Rightarrow> pull_request \<Rightarrow> job \<Rightarrow> process_result go" where
  "process_claimed env e repo pr c =
     (let failing = fail_webhook_convergence env c in
      bind (attempt (previous_pull_request (repo_id repo) (pr_index pr))) (\<lambda>r1. case r1 of
        Inl err \<Rightarrow> failing failure_runtime err
      | Inr previous \<Rightarrow>
      bind (attempt (recompute_plans (repo_id repo) pr previous)) (\<lambda>r2. case r2 of
        Inl err \<Rightarrow> failing failure_runtime err
      | Inr plans \<Rightarrow>
      bind (recompute_and_publish env c plans) (\<lambda>r3. case r3 of
        Inl (category, err) \<Rightarrow> failing category err
      | Inr outcome \<Rightarrow>
      bind (attempt (upsert_cached_pull pr)) (\<lambda>r4. case r4 of
        Inl err \<Rightarrow> failing failure_runtime err
      | Inr cached \<Rightarrow>
      bind (attempt (case wh_convergence env of
          Some cg \<Rightarrow> if outcome \<noteq> None then cg_complete cg c else ret ()
        | None \<Rightarrow> ret ())) (\<lambda>r5. case r5 of
        Inl err \<Rightarrow> failing failure_runtime err
      | Inr _ \<Rightarrow> ret (case outcome of
            None \<Rightarrow> cached_only e repo cached
          | Some (results, publications) \<Rightarrow>
              if results = [] then cached_only e repo cached
              else \<lparr>pz_event = e, pz_repository = repo, pz_pull_request = cached, pz_results = results,
                    pz_publications = publications, pz_recomputed = True\<rparr>)))))))"

definition process_pull_request :: "webhook_env \<Rightarrow> payload \<Rightarrow> process_result go" where
  "process_pull_request env body = (case parse_pull_request_event (wh_parse_url env) body of
     Inl err \<Rightarrow> fail err
   | Inr e \<Rightarrow>
       bind (find_active_by_remote \<lparr>rm_forge = pe_forge e, rm_base_url = pe_base_url e,
         rm_owner = pe_owner e, rm_name = pe_repository_name e\<rparr>) (\<lambda>found. case found of
         None \<Rightarrow> fail (webhook_invalid ''repository is not configured for this webhook'')
       | Some repo \<Rightarrow>
           (let pr = (pe_pull_request e) \<lparr>pr_repository_id := repo_id repo\<rparr>;
                keep = bind (upsert_cached_pull pr) (\<lambda>cached. ret (cached_only e repo cached)) in
            if \<not> enforcement_active repo then keep
            else case wh_convergence env of
              None \<Rightarrow> process_claimed env e repo pr no_job
            | Some cg \<Rightarrow>
                bind (cg_enqueue cg (repo_id repo)) (\<lambda>_.
                bind (cg_claim cg (repo_id repo)) (\<lambda>claimed. case claimed of
                  None \<Rightarrow> bind (cg_enqueue cg (repo_id repo)) (\<lambda>_. keep)
                | Some c \<Rightarrow> process_claimed env e repo pr c)))))"

end
