(* ===== verification/Signature.thy ===== *)
theory Signature
  imports GoText "HOL-Library.Word"
begin

text \<open>
  Verifying what signs a webhook (\<open>internal/webhook/signature.go\<close>). The hash function is a
  parameter; HMAC (RFC 2104, for the 64-byte blocks of SHA-256) and hexadecimal text are the
  standard library's and are written out. Strings are the bytes of Go strings.
\<close>

definition signature_sha256_prefix :: string where
  "signature_sha256_prefix = ''sha256=''"

subsection \<open>Hexadecimal text\<close>

text \<open>\<open>hex.DecodeString\<close>: None for an odd length or any other character.\<close>

definition hex_value :: "char \<Rightarrow> nat option" where
  "hex_value c = (let n = of_char c in
     if 48 \<le> n \<and> n \<le> 57 then Some (n - 48)
     else if 97 \<le> n \<and> n \<le> 102 then Some (n - 87)
     else if 65 \<le> n \<and> n \<le> 70 then Some (n - 55)
     else None)"

fun hex_decode :: "string \<Rightarrow> string option" where
  "hex_decode [] = Some []"
| "hex_decode [c] = None"
| "hex_decode (c # d # s) = (case (hex_value c, hex_value d) of
     (Some h, Some l) \<Rightarrow> map_option ((#) (char_of (16 * h + l))) (hex_decode s)
   | _ \<Rightarrow> None)"

text \<open>\<open>hex.EncodeToString\<close>.\<close>

definition hex_digit :: "nat \<Rightarrow> char" where
  "hex_digit n = char_of (if n < 10 then 48 + n else 87 + n)"

definition hex_encode :: "string \<Rightarrow> string" where
  "hex_encode s = concat (map (\<lambda>c. [hex_digit (of_char c div 16), hex_digit (of_char c mod 16)]) s)"

subsection \<open>HMAC\<close>

definition hmac_block_size :: nat where
  "hmac_block_size = 64"

definition byte_xor :: "nat \<Rightarrow> char \<Rightarrow> char" where
  "byte_xor k c = char_of (unat (xor (word_of_nat k) (word_of_nat (of_char c)) :: 8 word))"

definition hmac_key :: "(string \<Rightarrow> string) \<Rightarrow> string \<Rightarrow> string" where
  "hmac_key hash secret =
     (let k = (if length secret > hmac_block_size then hash secret else secret) in
      k @ replicate (hmac_block_size - length k) (CHR 0x00))"

definition hmac :: "(string \<Rightarrow> string) \<Rightarrow> string \<Rightarrow> string \<Rightarrow> string" where
  "hmac hash secret message =
     (let k = hmac_key hash secret in
      hash (map (byte_xor 0x5c) k @ hash (map (byte_xor 0x36) k @ message)))"

subsection \<open>Verification\<close>

definition trim_prefix :: "string \<Rightarrow> string \<Rightarrow> string" where
  "trim_prefix pre s = (if take (length pre) s = pre then drop (length pre) s else s)"

definition verify_hmac_sha256 :: "(string \<Rightarrow> string) \<Rightarrow> string \<Rightarrow> string \<Rightarrow> string \<Rightarrow> bool" where
  "verify_hmac_sha256 sha256 secret body header =
     (if secret = [] \<or> header = [] then False
      else case hex_decode (trim_prefix signature_sha256_prefix (trim_space header)) of
        None \<Rightarrow> False
      | Some received \<Rightarrow> received = hmac sha256 secret body)"

subsection \<open>What is accepted\<close>

lemma nat_cases_16: "n < 16 \<Longrightarrow> n \<in> {0, 1, 2, 3, 4, 5, 6, 7, 8, 9, 10, 11, 12, 13, 14, 15 :: nat}"
  by (simp add: numeral_eq_Suc less_Suc_eq)

lemma hex_value_digit: "n < 16 \<Longrightarrow> hex_value (hex_digit n) = Some n"
  by (drule nat_cases_16) (auto simp: hex_value_def hex_digit_def Let_def)

lemma hex_decode_encode [simp]: "hex_decode (hex_encode s) = Some s"
proof (induction s)
  case Nil
  then show ?case by (simp add: hex_encode_def)
next
  case (Cons c s)
  have "of_char c < (256 :: nat)" by (rule nat_of_char_less_256)
  then have "of_char c div 16 < (16 :: nat)" "of_char c mod 16 < (16 :: nat)" by (simp_all add: less_mult_imp_div_less)
  then have "hex_decode (hex_encode (c # s))
      = map_option ((#) (char_of (16 * (of_char c div 16) + of_char c mod 16 :: nat))) (hex_decode (hex_encode s))"
    by (simp add: hex_encode_def hex_value_digit)
  then show ?case using Cons by (simp add: mult_div_mod_eq)
qed

lemma hex_encode_hex: "c \<in> set (hex_encode s) \<Longrightarrow> hex_value c \<noteq> None"
proof -
  assume "c \<in> set (hex_encode s)"
  then obtain d where c: "c = hex_digit (of_char d div 16) \<or> c = hex_digit (of_char d mod 16)"
    by (auto simp: hex_encode_def)
  have "of_char d < (256 :: nat)" by (rule nat_of_char_less_256)
  then have "of_char d div 16 < (16 :: nat)" "of_char d mod 16 < (16 :: nat)" by (simp_all add: less_mult_imp_div_less)
  with c show ?thesis by (auto simp: hex_value_digit)
qed

lemma hex_char_not_space: "hex_value c \<noteq> None \<Longrightarrow> byte_of c < (128::nat) \<and> \<not> is_space_rune (byte_of c)"
  by (auto simp: hex_value_def Let_def is_space_rune_def split: if_splits)

text \<open>ASCII text without spaces is what trimming leaves.\<close>

lemma trim_space_plain:
  assumes "\<And>c. c \<in> set s \<Longrightarrow> byte_of c < (128::nat) \<and> \<not> is_space_rune (byte_of c)"
  shows "trim_space s = s"
proof -
  let ?p = "\<lambda>c::nat \<times> string. is_space_rune (fst c)"
  have c: "chunks s = map (\<lambda>c. (byte_of c, [c])) s"
    using chunks_ascii_append [of s "[]"] assms by (simp add: is_ascii_def list_all_iff)
  have none: "\<not> ?p x" if "x \<in> set (chunks s)" for x using that assms by (auto simp: c)
  then have "dropWhile ?p (chunks s) = chunks s" by (simp add: dropWhile_eq_self_iff)
  moreover have "drop_while_end ?p (chunks s) = chunks s"
    by (rule drop_while_end_id) (metis last_in_set none)
  ultimately show ?thesis by (simp add: trim_space_def)
qed

lemma trim_signature [simp]:
  "trim_space (signature_sha256_prefix @ hex_encode m) = signature_sha256_prefix @ hex_encode m"
proof (rule trim_space_plain)
  fix c
  assume "c \<in> set (signature_sha256_prefix @ hex_encode m)"
  then consider "c \<in> set signature_sha256_prefix" | "hex_value c \<noteq> None"
    using hex_encode_hex by auto
  then show "byte_of c < (128::nat) \<and> \<not> is_space_rune (byte_of c)"
  proof cases
    case 1
    then show ?thesis by (auto simp: signature_sha256_prefix_def is_space_rune_def)
  next
    case 2
    then show ?thesis by (rule hex_char_not_space)
  qed
qed

text \<open>
  C40: A webhook whose header carries the signature of a body is accepted for a body exactly when
  a secret is configured and both bodies have the same MAC under it: the signature that is made
  as documented verifies, and one made for another body verifies only on a collision of the MAC.
\<close>

theorem signature_verifies_exactly_its_mac:
  "verify_hmac_sha256 sha256 secret body (signature_sha256_prefix @ hex_encode (hmac sha256 secret original))
     \<longleftrightarrow> secret \<noteq> [] \<and> hmac sha256 secret body = hmac sha256 secret original"
proof -
  have "signature_sha256_prefix \<noteq> []" by (simp add: signature_sha256_prefix_def)
  then show ?thesis by (auto simp: verify_hmac_sha256_def trim_prefix_def)
qed

end
