(* ===== verification/WebhookIntake.thy ===== *)
theory WebhookIntake
  imports DeliveryStore WebhookProcessor Signature RepositorySetup
begin

text \<open>
  Receiving a webhook (\<open>internal/web/server.go\<close>, from \<open>handleForgejoWebhook\<close> to
  \<open>supportedPullRequestAction\<close>): nothing is recorded before the signature of the body is
  verified, each delivery is recorded once, and the delivery is processed by whoever claims it.
  Reading the body, decoding JSON, SHA-256 and the encryption of secrets are parameters.
\<close>

datatype webhook_body = WebhookBody string | WebhookTooLarge | WebhookUnreadable

datatype webhook_response = Accepted | InternalServerError | PayloadTooLarge | BadRequest

record webhook_request =
  rq_header :: "string \<Rightarrow> string"
  rq_body :: webhook_body

record intake_env =
  wi_decode :: "string \<Rightarrow> payload option"
  wi_sha256 :: "string \<Rightarrow> string"
  wi_secrets :: "secret_store option"
  wi_processing :: webhook_env

subsection \<open>The request\<close>

definition first_header :: "webhook_request \<Rightarrow> string list \<Rightarrow> string" where
  "first_header r names = (case filter (\<lambda>v. v \<noteq> []) (map (\<lambda>n. trim_space (rq_header r n)) names) of
     [] \<Rightarrow> [] | v # _ \<Rightarrow> v)"

definition webhook_event_may_be_pull_request :: "webhook_request \<Rightarrow> bool" where
  "webhook_event_may_be_pull_request r =
     (let event = to_lower (first_header r [''X-Gitea-Event'', ''X-Forgejo-Event'', ''X-Gogs-Event'']) in
      event = [] \<or> event = ''pull_request'')"

definition webhook_signature_header :: "webhook_request \<Rightarrow> string" where
  "webhook_signature_header r =
     first_header r [''X-Gitea-Signature'', ''X-Forgejo-Signature'', ''X-Hub-Signature-256'']"

definition valid_webhook_delivery_id :: "string \<Rightarrow> bool" where
  "valid_webhook_delivery_id v \<longleftrightarrow> v \<noteq> [] \<and> length v \<le> 255 \<and> \<not> contains_control v"

definition webhook_delivery_id :: "(string \<Rightarrow> string) \<Rightarrow> webhook_request \<Rightarrow> int \<Rightarrow> string \<Rightarrow> string" where
  "webhook_delivery_id sha256 r repo body =
     (let given = first_header r [''X-Gitea-Delivery'', ''X-Forgejo-Delivery'', ''X-Gogs-Delivery'', ''X-GitHub-Delivery''] in
      if given \<noteq> [] \<and> valid_webhook_delivery_id given then given
      else ''repo:'' @ format_int repo @ '':sha256:'' @ hex_encode (sha256 body))"

definition supported_pull_request_action :: "string \<Rightarrow> bool" where
  "supported_pull_request_action action \<longleftrightarrow> to_lower (trim_space action)
     \<in> {''opened'', ''reopened'', ''synchronized'', ''synchronize'', ''edited'', ''closed''}"

definition sanitized_webhook_process_error :: "go_error \<Rightarrow> string" where
  "sanitized_webhook_process_error e =
     (if is_validation_error WebhookPkg e then ''webhook validation failed'' else ''webhook processing failed'')"

text \<open>\<open>ParsePullRequestEvent(body)\<close>: decoding may fail, then the fields are validated.\<close>

definition parse_body :: "intake_env \<Rightarrow> string \<Rightarrow> pull_event option" where
  "parse_body env body = (case wi_decode env body of
     None \<Rightarrow> None
   | Some p \<Rightarrow> (case parse_pull_request_event (wh_parse_url (wi_processing env)) p of
       Inl _ \<Rightarrow> None | Inr e \<Rightarrow> Some e))"

subsection \<open>Processing a claimed delivery\<close>

definition mark_webhook_processed ::
    "int \<Rightarrow> int \<Rightarrow> string \<Rightarrow> string \<Rightarrow> instant \<Rightarrow> bool go" where
  "mark_webhook_processed i repo action err started =
     bind (attempt (mark_processed i \<lparr>dp_repository_id = repo, dp_action = action, dp_error = err,
       dp_processing_started_at = Some started\<rparr>)) (\<lambda>r. ret (\<not> isl r))"

definition process_verified_webhook ::
    "intake_env \<Rightarrow> delivery \<Rightarrow> int \<Rightarrow> string \<Rightarrow> payload \<Rightarrow> webhook_response go" where
  "process_verified_webhook env d repo action p = (case dv_processing_started_at d of
     None \<Rightarrow> ret InternalServerError
   | Some started \<Rightarrow>
       (let finish = (\<lambda>err. bind (mark_webhook_processed (dv_id d) repo action err started)
              (\<lambda>marked. ret (if marked then Accepted else InternalServerError))) in
        if \<not> supported_pull_request_action action then finish ''unsupported pull_request action''
        else bind (attempt (process_pull_request (wi_processing env) p)) (\<lambda>r. case r of
          Inr _ \<Rightarrow> finish []
        | Inl e \<Rightarrow>
            if is_validation_error WebhookPkg e then finish (sanitized_webhook_process_error e)
            else bind (attempt (mark_processing_failed (dv_id d) (sanitized_webhook_process_error e) started))
              (\<lambda>_. ret InternalServerError))))"

definition claim_and_process ::
    "intake_env \<Rightarrow> int \<Rightarrow> int \<Rightarrow> string \<Rightarrow> payload \<Rightarrow> webhook_response go" where
  "claim_and_process env i repo action p =
     (if i = 0 then ret Accepted
      else bind (attempt (claim_for_processing i)) (\<lambda>r. case r of
        Inl _ \<Rightarrow> ret InternalServerError
      | Inr (d, claimed) \<Rightarrow> if \<not> claimed then ret Accepted else process_verified_webhook env d repo action p))"

subsection \<open>The handler\<close>

definition record_verified ::
    "intake_env \<Rightarrow> webhook_request \<Rightarrow> repository \<Rightarrow> string \<Rightarrow> pull_event \<Rightarrow> payload \<Rightarrow> webhook_response go" where
  "record_verified env r repo body e p =
     bind (attempt (record_delivery \<lparr>dr_repository_id = repo_id repo,
         dr_delivery_id = webhook_delivery_id (wi_sha256 env) r (repo_id repo) body,
         dr_event = ''pull_request'', dr_action = pe_action e, dr_verified = True\<rparr>)) (\<lambda>recorded.
     case recorded of
       Inr (Recorded d) \<Rightarrow> claim_and_process env (dv_id d) (repo_id repo) (pe_action e) p
     | Inr (AlreadyRecorded d) \<Rightarrow> claim_and_process env (dv_id d) (repo_id repo) (pe_action e) p
     | Inl err \<Rightarrow> if is_validation_error WebhookPkg err
         then claim_and_process env 0 (repo_id repo) (pe_action e) p else ret InternalServerError)"

definition verify_and_record ::
    "intake_env \<Rightarrow> webhook_request \<Rightarrow> repository \<Rightarrow> string \<Rightarrow> pull_event \<Rightarrow> payload \<Rightarrow> webhook_response go" where
  "verify_and_record env r repo body e p =
     bind (attempt (setup_read_webhook_secret (wi_secrets env) (repo_id repo))) (\<lambda>found. case found of
       Inl (ConfigurationError _) \<Rightarrow> ret Accepted
     | Inl _ \<Rightarrow> ret InternalServerError
     | Inr None \<Rightarrow> ret Accepted
     | Inr (Some secret) \<Rightarrow>
         if \<not> verify_hmac_sha256 (wi_sha256 env) secret body (webhook_signature_header r) then ret Accepted
         else record_verified env r repo body e p)"

definition handle_forgejo_webhook :: "intake_env \<Rightarrow> webhook_request \<Rightarrow> webhook_response go" where
  "handle_forgejo_webhook env r = (case rq_body r of
     WebhookTooLarge \<Rightarrow> ret PayloadTooLarge
   | WebhookUnreadable \<Rightarrow> ret BadRequest
   | WebhookBody body \<Rightarrow>
       if body = [] \<or> \<not> webhook_event_may_be_pull_request r then ret Accepted
       else (case (wi_decode env body, parse_body env body) of
         (Some p, Some e) \<Rightarrow>
           bind (attempt (find_active_by_remote \<lparr>rm_forge = pe_forge e, rm_base_url = pe_base_url e,
             rm_owner = pe_owner e, rm_name = pe_repository_name e\<rparr>)) (\<lambda>found. case found of
             Inl _ \<Rightarrow> ret InternalServerError
           | Inr None \<Rightarrow> ret Accepted
           | Inr (Some repo) \<Rightarrow> verify_and_record env r repo body e p)
       | _ \<Rightarrow> ret Accepted))"

end
