(* ===== verification/Footprint.thy ===== *)
theory Footprint
  imports EnforcementRuns FreezeServiceFacts StatusFacts
begin

text \<open>
  Which tables the operations touch. Each rule says that an operation stays within a relation on
  the tables as soon as the relation admits the changes of the tables it writes; the theories
  that follow use the rules for invariants and for tables that are left alone. The last part
  gives the result of the statements on repositories.
\<close>

subsection \<open>Reads\<close>

lemma get_repository_looks [looking]: "observes (get_repository i)"
  unfolding get_repository_def get_repository_for_scope_def by (intro looking)

lemma repository_reads [looking]:
  "observes (existing_repository i)" "observes (branch_scope_repository i)" "observes (load_repository i)"
  "observes (list_branches i)" "observes (branch_managed i b)" "observes (get_branch k)"
  "observes (branch_has_blocking_freeze i b)" "observes (find_active_by_remote rm)"
  "observes (stored_ciphertext sel i)" "observes (require_current_snapshot repo)"
  "observes (require_no_deactivation_blockers i)"
  unfolding existing_repository_def branch_scope_repository_def load_repository_def list_branches_def
    branch_managed_def get_branch_def branch_has_blocking_freeze_def find_active_by_remote_def
    stored_ciphertext_def require_current_snapshot_def require_no_deactivation_blockers_def Let_def
    has_active_for_repository_def has_scheduled_for_repository_def has_status_for_repository_def
  by (intro looking)+

lemma service_reads [looking]:
  "observes (latest_verified_pull_request_by_repository i)" "observes (webhook_result i t)"
  "observes (next_run_timestamp i t)" "observes (claim_current c)"
  "observes (require_current_reconciliation_claim c)" "observes (get_reconciliation i)"
  "observes (list_open_by_head i h)" "observes (list_open_by_target_branch i b)"
  "observes (get_cached_pull i n)" "observes (require_repository i)" "observes (get_result k)"
  unfolding latest_verified_pull_request_by_repository_def webhook_result_def next_run_timestamp_def
    claim_current_def require_current_reconciliation_claim_def get_reconciliation_def
    list_open_by_head_def list_open_by_target_branch_def get_cached_pull_def require_repository_def
    get_result_def Let_def
  by (intro looking)+

lemma decision_reads [looking]:
  "observes (evaluate_status wired_service pr prs approved)" "observes (all_thawed wired_service qs)"
  "observes (shared_head_fully_thawed wired_service qs)" "observes (expand_shared_head wired_service qs)"
  "observes (first_blocked wired_service all approved qs)"
  unfolding shared_head_fully_thawed_def
  by (intro looking src.evaluate_looks src.all_thawed_looks src.expand_looks src.first_blocked_looks)+

subsection \<open>Writes\<close>

context table_relation begin

lemma looks: "observes m \<Longrightarrow> within R m"
  by (simp add: within_def observes_def refl)

lemma bind_result:
  assumes "within R m" and "\<And>x w w'. m w = (Inr x, w') \<Longrightarrow> within R (f x)"
  shows "within R (World.bind m f)"
  unfolding within_def
proof
  fix w
  obtain r w1 where m: "m w = (r, w1)" by (cases "m w")
  with assms(1) have "R (tables w) (tables w1)" unfolding within_def by (metis snd_conv)
  moreover have "R (tables w1) (tables (snd (f x w1)))" if "r = Inr x" for x
    using assms(2) [of w x w1] m that by (simp add: within_def)
  ultimately show "R (tables w) (tables (snd (World.bind m f w)))"
    using trans by (cases r) (auto simp: World.bind_def m)
qed

lemma attempt_result:
  assumes "within R m" and "\<And>x w w'. m w = (Inr x, w') \<Longrightarrow> within R (f (Inr x))" and "\<And>e. within R (f (Inl e))"
  shows "within R (World.bind (World.attempt m) f)"
proof (rule bind_result [OF attempt [OF assms(1)]])
  fix r w w'
  assume "World.attempt m w = (Inr r, w')"
  then have "m w = (r, w')" by (auto simp: attempt_def split: prod.splits)
  then show "within R (f r)" using assms(2,3) by (cases r) auto
qed

lemma event: "(\<And>d rows. R d (d \<lparr>tb_audit := rows\<rparr>)) \<Longrightarrow> within R (record_event e)"
  unfolding record_event_def Let_def by (intro rules checked) (simp_all add: Let_def)

lemma on_jobs_op:
  "(\<And>d rows. R d (d \<lparr>tb_jobs := rows\<rparr>)) \<Longrightarrow> within R (exec (on_jobs f))"
  by (rule exec) (simp add: split_beta)

lemma upsert_queue:
  "(\<And>d rows. R d (d \<lparr>tb_jobs := rows\<rparr>)) \<Longrightarrow> within R (upsert_reconciliation i advance category)"
  unfolding upsert_reconciliation_def by (intro rules checked looks looking) simp_all

lemma release_queue:
  "(\<And>d rows. R d (d \<lparr>tb_jobs := rows\<rparr>)) \<Longrightarrow> within R (release_superseded_claim c)"
  unfolding release_superseded_claim_def by (intro rules on_jobs_op)

lemma claim_queue: "(\<And>d rows. R d (d \<lparr>tb_jobs := rows\<rparr>)) \<Longrightarrow> within R (claim c now)"
  unfolding claim_def by (intro rules on_jobs_op)

lemma claim_each_queue: "(\<And>d rows. R d (d \<lparr>tb_jobs := rows\<rparr>)) \<Longrightarrow> within R (claim_each cs now)"
  by (induction cs) (auto intro!: rules claim_queue)

lemma queue:
  assumes "\<And>d rows. R d (d \<lparr>tb_jobs := rows\<rparr>)"
  shows "within R (enqueue_reconciliation i)" "within R (enqueue_reconciliation_failure i category)"
    "within R (ensure_reconciliation_failure i category)" "within R (claim_due limit)"
    "within R (claim_repository i)" "within R (complete_claim c)" "within R (reschedule_claim c category)"
    "within R (make_due_now i)"
  unfolding enqueue_reconciliation_def enqueue_reconciliation_failure_def
    ensure_reconciliation_failure_def claim_due_def claim_repository_def complete_claim_def
    reschedule_claim_def make_due_now_def Let_def
  by (intro rules looks looking upsert_queue release_queue claim_queue claim_each_queue on_jobs_op assms)+

lemma decide:
  "(\<And>d rows. R d (d \<lparr>tb_results := rows\<rparr>)) \<Longrightarrow> within R (run_for_shared_head wired_service prs k)"
  unfolding run_for_shared_head_def create_status_def create_result_def Let_def
  by (intro rules checked looks looking) (simp_all add: Let_def)

lemma cache:
  assumes "\<And>d rows. R d (d \<lparr>tb_pulls := rows\<rparr>)"
  shows "within R (upsert_cached_pull pr)" "within R (mark_absent_open_closed i b is)"
  unfolding upsert_cached_pull_def mark_absent_open_closed_def Let_def
  by (intro rules checked exec looks looking; simp add: split_beta assms)+

lemma publications:
  assumes "\<And>d rows. R d (d \<lparr>tb_intents := rows\<rparr>)" and "\<And>d rows. R d (d \<lparr>tb_attempts := rows\<rparr>)"
  shows "within R (publish_forgejo_status result)" "within R (record_forgejo_status_attempt p r m)"
    "within R (record_failed_attempt p cause t vs)"
  unfolding publish_forgejo_status_def publish_intent_def record_failed_attempt_def
    record_forgejo_status_attempt_def record_attempt_def get_by_idempotency_key_def get_attempt_def Let_def
  by (intro rules checked; simp add: Let_def assms)+

lemma readiness_rows:
  "(\<And>d rows. R d (d \<lparr>tb_checks := rows\<rparr>)) \<Longrightarrow> within R (record_checks_no_tx i b results t)"
  "(\<And>d rows. R d (d \<lparr>tb_branches := rows\<rparr>)) \<Longrightarrow> within R (update_branch_readiness i b p s t)"
  unfolding record_checks_no_tx_def insert_check_def update_branch_readiness_def
  by (intro rules checked exec; simp add: split_beta)+

lemma recomputed:
  "(\<And>d rows. R d (d \<lparr>tb_freezes := rows\<rparr>)) \<Longrightarrow> within R (mark_repository_recomputed i)"
  unfolding mark_repository_recomputed_def by (intro rules update_freezes)

end

subsection \<open>The forge\<close>

text \<open>
  A forge whose calls stay within a relation: the relation is what the calls may do to the
  tables, and for a client of a remote service that is nothing at all.
\<close>

definition client_within :: "(db \<Rightarrow> db \<Rightarrow> bool) \<Rightarrow> forge_client \<Rightarrow> bool" where
  "client_within R k \<longleftrightarrow> (\<forall>o' n i. within R (fk_get_pull_request k o' n i))
     \<and> (\<forall>o' n b. within R (fk_list_open_pull_requests k o' n b))
     \<and> (\<forall>o' n s. within R (fk_post_commit_status k o' n s))
     \<and> (\<forall>o' n b. within R (fk_get_branch_head k o' n b))"

definition forge_within :: "(db \<Rightarrow> db \<Rightarrow> bool) \<Rightarrow> forge_env \<Rightarrow> bool" where
  "forge_within R env \<longleftrightarrow> (\<forall>i. within R (fe_status_token env i))
     \<and> (\<forall>repo token. within R (fe_client_for env repo token))
     \<and> (\<forall>repo token w k w'. fe_client_for env repo token w = (Inr (Some k), w') \<longrightarrow> client_within R k)"

context table_relation begin

lemma cache_each_within:
  "(\<And>d rows. R d (d \<lparr>tb_pulls := rows\<rparr>)) \<Longrightarrow> within R (cache_each env token i b prs)"
  by (induction prs) (auto intro!: rules cache)

lemma client_bind:
  assumes "forge_within R env" and "\<And>k. client_within R k \<Longrightarrow> within R (f (Inr (Some k)))"
    and "within R (f (Inr None))" and "\<And>e. within R (f (Inl e))"
  shows "within R (World.bind (World.attempt (fe_client_for env repo token)) f)"
proof (rule attempt_result)
  fix x w w'
  assume made: "fe_client_for env repo token w = (Inr x, w')"
  show "within R (f (Inr x))"
  proof (cases x)
    case (Some k)
    with made assms(1) have "client_within R k" unfolding forge_within_def by blast
    then show ?thesis unfolding Some by (rule assms(2))
  qed (use assms(3) in simp)
next
qed (use assms in \<open>auto simp: forge_within_def\<close>)

lemma client_calls:
  "client_within R k \<Longrightarrow> within R (fk_get_pull_request k o' n i)"
  "client_within R k \<Longrightarrow> within R (fk_list_open_pull_requests k o' n b)"
  "client_within R k \<Longrightarrow> within R (fk_post_commit_status k o' n s)"
  "client_within R k \<Longrightarrow> within R (fk_get_branch_head k o' n b)"
  "forge_within R env \<Longrightarrow> within R (fe_status_token env i)"
  by (simp_all add: client_within_def forge_within_def)

lemma sync_within:
  assumes "forge_within R env" and "\<And>d rows. R d (d \<lparr>tb_pulls := rows\<rparr>)"
    and "\<And>d rows. R d (d \<lparr>tb_audit := rows\<rparr>)"
  shows "within R (sync_repository env repo b)"
  unfolding sync_repository_def Let_def
  by (rule bind, rule client_calls, rule assms(1), rule if_op, rule fail, rule client_bind, rule assms(1))
     (simp, intro rules cache_each_within cache event client_calls assms, simp_all add: rules)

lemma setup_post_within:
  assumes "forge_within R (en_forge env)"
  shows "within R (controlled_setup_post env repo)"
  unfolding controlled_setup_post_def Let_def
  by (rule bind, rule client_calls, rule assms, rule if_op, rule fail, rule client_bind, rule assms)
     (simp, intro rules client_calls, simp_all add: rules)

lemma deliver_within:
  assumes "forge_within R env" and "\<And>d rows. R d (d \<lparr>tb_intents := rows\<rparr>)"
    and "\<And>d rows. R d (d \<lparr>tb_attempts := rows\<rparr>)"
  shows "within R (deliver env repo token result p)"
  unfolding deliver_def
  by (rule client_bind, rule assms)
     (simp, intro rules client_calls publications assms, simp_all add: rules publications assms)

lemma publish_within:
  assumes "forge_within R env" and "\<And>d rows. R d (d \<lparr>tb_intents := rows\<rparr>)"
    and "\<And>d rows. R d (d \<lparr>tb_attempts := rows\<rparr>)"
  shows "within R (publish env result)"
  unfolding publish_def Let_def
  by (intro rules looks looking deliver_within publications client_calls assms)

lemma repository_rows:
  "(\<And>d. R d (d \<lparr>tb_repositories := snd (update_where p f (tb_repositories d))\<rparr>)) \<Longrightarrow> within R (update_repositories p f)"
  unfolding update_repositories_def by (rule exec) (simp add: split_beta)

lemma set_repository_within:
  assumes "\<And>now d. R d (d \<lparr>tb_repositories := snd (update_where (\<lambda>r. repo_id r = i)
      (\<lambda>r. (f now r) \<lparr>repo_updated_at := now\<rparr>) (tb_repositories d))\<rparr>)"
  shows "within R (set_repository i f)"
  unfolding set_repository_def by (intro rules looks looking repository_rows assms)

end

end
