(* ===== verification/EnforcementFacts.thy ===== *)
theory EnforcementFacts
  imports Footprint
begin

text \<open>
  What the enforcement lifecycle guarantees: whatever a run meets on its way, a repository is
  only ever enforced on recorded evidence that statuses can be posted.
\<close>

subsection \<open>Statements on repositories\<close>

definition change_repository :: "int \<Rightarrow> (repository \<Rightarrow> repository) \<Rightarrow> db \<Rightarrow> db" where
  "change_repository i g d = d \<lparr>tb_repositories := map (\<lambda>r. if repo_id r = i then g r else r) (tb_repositories d)\<rparr>"

lemma get_repository_success:
  assumes "get_repository i w = (Inr x, w')"
  obtains r where "r \<in> set (tb_repositories (tables w))" "repo_id r = i" "x = scan_repository (tables w) r"
    "tables w' = tables w" "clock w' = clock w"
proof -
  note looked = observes_after [OF get_repository_looks assms]
  from assms have "first_row (repositories_where (\<lambda>r. repo_id r = i) (tables w)) = Inr x"
    by (simp add: get_repository_def get_repository_for_scope_def query_row_def sql_def split: if_splits)
  then have "\<exists>r. r \<in> set (tb_repositories (tables w)) \<and> repo_id r = i \<and> x = scan_repository (tables w) r"
    by (auto simp: first_row_def repositories_where_def split: list.splits)
       (metis (mono_tags, lifting) filter_eq_Cons_iff in_set_conv_decomp)
  then show thesis using that looked by blast
qed

lemma set_repository_success:
  assumes "set_repository i f w = (Inr x, w')"
  obtains now where "tables w' = change_repository i (\<lambda>r. (f now r) \<lparr>repo_updated_at := now\<rparr>) (tables w)"
    and "now = clock w (readings w)"
proof -
  from assms obtain n w1 w2 where n: "now_utc w = (Inr (clock w (readings w)), w1)" "tables w1 = tables w"
    and u: "update_repositories (\<lambda>r. repo_id r = i)
        (\<lambda>r. (f (clock w (readings w)) r) \<lparr>repo_updated_at := clock w (readings w)\<rparr>) w1 = (Inr n, w2)"
    and g: "get_repository i w2 = (Inr x, w')"
    unfolding set_repository_def by (elim bind_cases) (auto simp: now_utc_def fail_def split: if_splits)
  from u n have "tables w2 = change_repository i
      (\<lambda>r. (f (clock w (readings w)) r) \<lparr>repo_updated_at := clock w (readings w)\<rparr>) (tables w)"
    by (auto simp: update_repositories_def update_where_def change_repository_def exec_def sql_def split: if_splits)
  with g that show thesis by (metis get_repository_success)
qed

lemma scan_repository_simps [simp]:
  "repo_id (scan_repository d r) = repo_id r"
  "repo_enforcement (scan_repository d r) = repo_enforcement r"
  "enforcement_active (scan_repository d r) = enforcement_active r"
  "repo_active (scan_repository d r) = repo_active r"
  "repo_status_post_verified_at (scan_repository d r) = repo_status_post_verified_at r"
  "repo_updated_at (scan_repository d r) = repo_updated_at r"
  "repo_default_branch (scan_repository d r) = repo_default_branch r"
  by (simp_all add: scan_repository_def enforcement_active_def)

subsection \<open>The invariant\<close>

text \<open>Identifiers are unique, no repository is deactivated, and who is enforced was verified.\<close>

definition evidenced :: "repository \<Rightarrow> bool" where
  "evidenced r \<longleftrightarrow> (enforcement_active r \<longrightarrow> repo_status_post_verified_at r \<noteq> None)"

definition rest_evidenced :: "int \<Rightarrow> db \<Rightarrow> bool" where
  "rest_evidenced i d \<longleftrightarrow> distinct (map repo_id (tb_repositories d))
     \<and> (\<forall>r \<in> set (tb_repositories d). repo_active r \<and> (repo_id r \<noteq> i \<longrightarrow> evidenced r))"

definition repositories_ok :: "db \<Rightarrow> bool" where
  "repositories_ok d \<longleftrightarrow> distinct (map repo_id (tb_repositories d))
     \<and> (\<forall>r \<in> set (tb_repositories d). repo_active r \<and> evidenced r)"

definition state_is :: "int \<Rightarrow> enforcement_state \<Rightarrow> db \<Rightarrow> bool" where
  "state_is i s d \<longleftrightarrow> (\<forall>r \<in> set (tb_repositories d). repo_id r = i \<longrightarrow> repo_enforcement r = s)"

definition idle :: "int \<Rightarrow> db \<Rightarrow> bool" where
  "idle i d \<longleftrightarrow> (\<forall>r \<in> set (tb_repositories d). repo_id r = i \<longrightarrow> \<not> enforcement_active r)"

lemma repositories_ok_split:
  "repositories_ok d \<longleftrightarrow> rest_evidenced i d
     \<and> (\<forall>r \<in> set (tb_repositories d). repo_id r = i \<longrightarrow> evidenced r)"
  by (auto simp: repositories_ok_def rest_evidenced_def)

lemma idle_ok: "rest_evidenced i d \<Longrightarrow> idle i d \<Longrightarrow> repositories_ok d"
  by (auto simp: repositories_ok_split [of d i] idle_def evidenced_def)

lemma state_is_idle: "state_is i s d \<Longrightarrow> s \<noteq> EnforcementActive \<Longrightarrow> idle i d"
  by (auto simp: state_is_def idle_def enforcement_active_def)

lemma map_ids_change:
  "(\<And>r. repo_id (g r) = repo_id r) \<Longrightarrow> map repo_id (tb_repositories (change_repository i g d)) = map repo_id (tb_repositories d)"
  by (simp add: change_repository_def)

lemma rest_change:
  assumes "\<And>r. repo_id (g r) = repo_id r \<and> repo_active (g r) = repo_active r" and "rest_evidenced i d"
  shows "rest_evidenced i (change_repository i g d)"
proof -
  have "map repo_id (tb_repositories (change_repository i g d)) = map repo_id (tb_repositories d)"
    using assms(1) by (intro map_ids_change) simp
  moreover have "repo_active r \<and> (repo_id r \<noteq> i \<longrightarrow> evidenced r)"
    if "r \<in> set (tb_repositories (change_repository i g d))" for r
    using that assms by (auto simp: rest_evidenced_def change_repository_def)
  ultimately show ?thesis using assms(2) by (simp add: rest_evidenced_def)
qed

lemma ok_change:
  assumes "\<And>r. repo_id (g r) = repo_id r \<and> repo_active (g r) = repo_active r"
    and "\<And>r. repo_id r = i \<Longrightarrow> evidenced r \<Longrightarrow> evidenced (g r)" and "repositories_ok d"
  shows "repositories_ok (change_repository i g d)"
  using rest_change [of g i d] assms
  by (auto simp: repositories_ok_split [of _ i] change_repository_def)

lemma found_state:
  assumes "get_repository i w = (Inr x, w')" and "distinct (map repo_id (tb_repositories (tables w)))"
  shows "state_is i (repo_enforcement x) (tables w') \<and> repo_id x = i \<and> tables w' = tables w"
  using assms
  by (auto elim!: get_repository_success simp: state_is_def distinct_map inj_on_eq_iff)

subsection \<open>Statements that keep it\<close>

lemma change_where:
  "d \<lparr>tb_repositories := snd (update_where (\<lambda>r. repo_id r = i) g (tb_repositories d))\<rparr> = change_repository i g d"
  by (simp add: change_repository_def update_where_def)

lemma keeps_ok_set:
  assumes "\<And>now r. repo_id (f now r) = repo_id r \<and> repo_active (f now r) = repo_active r"
    and "\<And>now r. evidenced r \<Longrightarrow> evidenced ((f now r) \<lparr>repo_updated_at := now\<rparr>)"
  shows "within (keeps repositories_ok) (set_repository i f)"
  by (rule keeps.set_repository_within) (simp add: change_where keeps_def ok_change assms)

lemma keeps_rest_set:
  assumes "\<And>now r. repo_id (f now r) = repo_id r \<and> repo_active (f now r) = repo_active r"
  shows "within (keeps (rest_evidenced i)) (set_repository i f)"
  by (rule keeps.set_repository_within) (simp add: change_where keeps_def rest_change assms)

lemma evidenced_simps [simp]:
  "evidenced (r \<lparr>repo_updated_at := t\<rparr>) = evidenced r"
  "evidenced (r \<lparr>repo_failure_reason := x, repo_failed_at := y\<rparr>) = evidenced r"
  "evidenced (r \<lparr>repo_status_post_verified_at := Some v\<rparr>)"
  "s \<noteq> EnforcementActive \<Longrightarrow> evidenced (r \<lparr>repo_enforcement := s\<rparr>)"
  by (simp_all add: evidenced_def enforcement_active_def)

lemma ok_statements:
  "s \<noteq> EnforcementActive \<Longrightarrow> within (keeps repositories_ok) (set_enforcement_state i s)"
  "within (keeps repositories_ok) (set_status_post_verified_at i (Some t))"
  "within (keeps repositories_ok) (set_enforcement_failure i reason t)"
  "within (keeps repositories_ok) (clear_enforcement_failure i)"
  unfolding set_enforcement_state_def set_status_post_verified_at_def set_enforcement_failure_def
    clear_enforcement_failure_def put_enforcement_failure_def
  by (intro keeps.rules keeps_ok_set; simp)+

lemma ok_transition:
  assumes "s' \<noteq> EnforcementActive"
  shows "within (keeps repositories_ok) (transition_enforcement_state i s s')"
proof -
  let ?g = "\<lambda>now r. r \<lparr>repo_enforcement := s', repo_updated_at := now\<rparr>"
  have "keeps repositories_ok d (d \<lparr>tb_repositories := snd (update_where
      (\<lambda>r. repo_id r = i \<and> repo_active r \<and> repo_enforcement r = s) (?g now) (tb_repositories d))\<rparr>)" for d now
  proof -
    let ?h = "\<lambda>r. if repo_active r \<and> repo_enforcement r = s then ?g now r else r"
    have "d \<lparr>tb_repositories := snd (update_where (\<lambda>r. repo_id r = i \<and> repo_active r \<and> repo_enforcement r = s)
        (?g now) (tb_repositories d))\<rparr> = change_repository i ?h d"
      by (simp add: update_where_def change_repository_def)
    then show ?thesis using assms
      by (simp only: keeps_def) (intro impI ok_change; simp add: evidenced_def enforcement_active_def)
  qed
  then show ?thesis unfolding transition_enforcement_state_def
    by (intro keeps.rules keeps.repository_rows keeps.looks looking)
qed

lemma repository_rows_ok [simp]:
  "repositories_ok (d \<lparr>tb_jobs := a\<rparr>) = repositories_ok d"
  "repositories_ok (d \<lparr>tb_audit := b\<rparr>) = repositories_ok d"
  "repositories_ok (d \<lparr>tb_results := c\<rparr>) = repositories_ok d"
  "repositories_ok (d \<lparr>tb_pulls := e\<rparr>) = repositories_ok d"
  "repositories_ok (d \<lparr>tb_intents := f\<rparr>) = repositories_ok d"
  "repositories_ok (d \<lparr>tb_attempts := g\<rparr>) = repositories_ok d"
  "repositories_ok (d \<lparr>tb_checks := h\<rparr>) = repositories_ok d"
  "repositories_ok (d \<lparr>tb_branches := i\<rparr>) = repositories_ok d"
  "repositories_ok (d \<lparr>tb_freezes := j\<rparr>) = repositories_ok d"
  "repositories_ok (d \<lparr>tb_webhook_secrets := k\<rparr>) = repositories_ok d"
  "repositories_ok (d \<lparr>tb_status_tokens := l\<rparr>) = repositories_ok d"
  by (simp_all add: repositories_ok_def)

lemma ok_event: "within (keeps repositories_ok) (record_event e)"
  by (rule keeps.event) (simp add: keeps_def)

lemma ok_queue:
  "within (keeps repositories_ok) (enqueue_reconciliation i)"
  "within (keeps repositories_ok) (enqueue_reconciliation_failure i category)"
  "within (keeps repositories_ok) (ensure_reconciliation_failure i category)"
  "within (keeps repositories_ok) (claim_due limit)" "within (keeps repositories_ok) (claim_repository i)"
  "within (keeps repositories_ok) (complete_claim c)" "within (keeps repositories_ok) (reschedule_claim c category)"
  "within (keeps repositories_ok) (make_due_now i)"
  by (rule keeps.queue, simp add: keeps_def)+

lemma ok_ciphertexts:
  "within (keeps repositories_ok) (set_webhook_secret_ciphertext i c)"
  "within (keeps repositories_ok) (set_status_token_ciphertext i c)"
  unfolding set_webhook_secret_ciphertext_def set_status_token_ciphertext_def
  by (intro keeps.rules keeps.repository_rows keeps.looks looking keeps.exec;
      simp add: change_where keeps_def ok_change)+

lemma repository_insert_ok:
  assumes "repositories_ok d" and "repo_id r = fresh_id (map repo_id (tb_repositories d))"
    and "repo_active r" and "\<not> enforcement_active r"
  shows "repositories_ok (d \<lparr>tb_repositories := tb_repositories d @ [r]\<rparr>)"
  using assms fresh_id_new [of "map repo_id (tb_repositories d)"]
  by (auto simp: repositories_ok_def evidenced_def)

lemma ok_create: "within (keeps repositories_ok) (create_repository params)"
  unfolding create_repository_def insert_repository_def insert_branch_def Let_def
  by (intro keeps.rules keeps.sql keeps.looks looking)
     (auto simp: keeps_def enforcement_active_def intro!: repository_insert_ok)

lemma ok_branches:
  "within (keeps repositories_ok) (add_branch i b)" "within (keeps repositories_ok) (remove_branch i b)"
  unfolding add_branch_def remove_branch_def insert_branch_def Let_def
  by (intro keeps.rules keeps.sql keeps.exec keeps.looks looking; auto simp: keeps_def split_beta)+

subsection \<open>Units of work\<close>

lemma keeps_transact:
  assumes "\<And>w x w'. m w = (Inr x, w') \<Longrightarrow> I (tables w) \<Longrightarrow> I (tables w')"
  shows "within (keeps I) (transact m)"
  unfolding within_def keeps_def
proof (intro allI impI)
  fix w :: world
  assume I: "I (tables w)"
  obtain r w' where run: "transact m w = (r, w')" by (cases "transact m w")
  show "I (tables (snd (transact m w)))"
  proof (cases r)
    case (Inl e)
    with run transact_all_or_nothing [of m] I show ?thesis
      by (auto simp: all_or_nothing_def dest!: spec [of _ w])
  next
    case (Inr x)
    from run [unfolded Inr] obtain w1 w2 where "m w1 = (Inr x, w2)" "tables w1 = tables w" "tables w' = tables w2"
      by (rule transact_success)
    with assms [of w1 x w2] I show ?thesis by (simp add: run)
  qed
qed

lemma keeps_run: "within (keeps I) m \<Longrightarrow> m w = (r, w') \<Longrightarrow> I (tables w) \<Longrightarrow> I (tables w')"
  using keeps_within [of I m w] by simp

lemma set_state_success:
  assumes "set_enforcement_state i s w = (Inr x, w')"
  obtains now where "tables w' = change_repository i (\<lambda>r. r \<lparr>repo_enforcement := s, repo_updated_at := now\<rparr>) (tables w)"
  using assms unfolding set_enforcement_state_def fail_def
  by (auto split: if_splits elim!: set_repository_success)

lemma set_verified_success:
  assumes "set_status_post_verified_at i v w = (Inr x, w')"
  obtains now where "tables w' = change_repository i
      (\<lambda>r. r \<lparr>repo_status_post_verified_at := v, repo_updated_at := now\<rparr>) (tables w)"
  using assms unfolding set_status_post_verified_at_def fail_def
  by (auto split: if_splits elim!: set_repository_success)

lemma change_twice:
  "(\<And>r. repo_id (g r) = repo_id r) \<Longrightarrow>
   change_repository i h (change_repository i g d) = change_repository i (\<lambda>r. h (g r)) d"
  by (simp add: change_repository_def)

lemma ok_mark_active: "within (keeps repositories_ok) (mark_active i v enqueue)"
  unfolding mark_active_def
proof (rule keeps_transact, elim bind_cases)
  fix w x w' y w1 z w2
  assume ok: "repositories_ok (tables w)"
    and v: "set_status_post_verified_at i (Some v) w = (Inr y, w1)"
    and s: "set_enforcement_state i EnforcementActive w1 = (Inr z, w2)"
    and rest: "(if \<not> enqueue then ret no_job
       else bind (enqueue_reconciliation i) (\<lambda>_. bind (claim_repository i) (\<lambda>c. case c of
         None \<Rightarrow> fail ReconciliationInProgress | Some claimed \<Rightarrow> ret claimed))) w2 = (Inr x, w')"
  from v s have "\<exists>t t'. tables w2 = change_repository i (\<lambda>r. r \<lparr>repo_status_post_verified_at := Some v,
      repo_updated_at := t, repo_enforcement := EnforcementActive, repo_updated_at := t'\<rparr>) (tables w)"
    by (auto elim!: set_verified_success set_state_success simp: change_twice)
  then have "repositories_ok (tables w2)"
    using ok by (auto intro!: ok_change simp: evidenced_def)
  moreover have "within (keeps repositories_ok) (if \<not> enqueue then ret no_job
       else bind (enqueue_reconciliation i) (\<lambda>_. bind (claim_repository i) (\<lambda>c. case c of
         None \<Rightarrow> fail ReconciliationInProgress | Some claimed \<Rightarrow> ret claimed)))"
    by (intro keeps.rules ok_queue)
  ultimately show "repositories_ok (tables w')" using rest by (metis keeps_run)
qed

lemma ok_verification_success: "within (keeps repositories_ok) (record_verification_success repo head actor)"
  unfolding record_verification_success_def
  by (intro keeps.rules keeps.looks looking ok_statements ok_event) simp

lemma idle_change: "(\<And>r. repo_id (g r) = repo_id r \<and> \<not> enforcement_active (g r)) \<Longrightarrow> idle i (change_repository i g d)"
  by (auto simp: idle_def change_repository_def)

lemma ok_verification_failure: "within (keeps repositories_ok) (record_verification_failure repo actor)"
  unfolding record_verification_failure_def
proof (rule keeps_transact, elim bind_cases)
  fix w x w' u w1 cleared w2 updated w3
  let ?i = "repo_id repo"
  assume ok: "repositories_ok (tables w)" and snap: "require_current_snapshot repo w = (Inr u, w1)"
    and c: "set_status_post_verified_at ?i None w1 = (Inr cleared, w2)"
    and s: "(if repo_enforcement repo \<noteq> EnforcementSetupIncomplete
       then set_enforcement_state ?i EnforcementSetupIncomplete else ret cleared) w2 = (Inr updated, w3)"
    and e: "record_event (enforcement_event ''repository.status_post_verification_failed'' updated actor
       (text_field ''default_branch'' (repo_default_branch repo)
        @ text_field ''reason'' ''controlled setup status post failed'') None) w3 = (Inr x, w')"
  from snap obtain current w0 where g: "get_repository ?i w = (Inr current, w0)"
    and same: "same_snapshot current repo" and w1: "tables w1 = tables w"
    unfolding require_current_snapshot_def
    by (elim bind_cases) (auto simp: fail_def ret_def split: if_splits dest: observes_after [OF get_repository_looks])
  have st: "state_is ?i (repo_enforcement repo) (tables w1)"
    using found_state [OF g] ok same w1 by (auto simp: repositories_ok_def same_snapshot_def)
  obtain t where t2: "tables w2 = change_repository ?i
      (\<lambda>r. r \<lparr>repo_status_post_verified_at := None, repo_updated_at := t\<rparr>) (tables w)"
    using c w1 by (auto elim!: set_verified_success)
  have rest2: "rest_evidenced ?i (tables w2)"
    using ok by (auto simp: t2 repositories_ok_split [of _ ?i] intro!: rest_change)
  have "rest_evidenced ?i (tables w3) \<and> idle ?i (tables w3)"
  proof (cases "repo_enforcement repo = EnforcementSetupIncomplete")
    case True
    then have "idle ?i (tables w2)"
      using st w1 by (auto simp: t2 state_is_def idle_def change_repository_def enforcement_active_def)
    with True s rest2 show ?thesis by (simp add: ret_def)
  next
    case False
    with s obtain t' where "tables w3 = change_repository ?i
        (\<lambda>r. r \<lparr>repo_enforcement := EnforcementSetupIncomplete, repo_updated_at := t'\<rparr>) (tables w2)"
      by (auto elim!: set_state_success)
    with rest2 show ?thesis by (auto intro!: rest_change idle_change simp: enforcement_active_def)
  qed
  then have "repositories_ok (tables w3)" by (blast intro: idle_ok)
  then show "repositories_ok (tables w')" by (rule keeps_run [OF ok_event e])
qed

lemma existing_success:
  assumes "existing_repository i w = (Inr x, w')"
  shows "get_repository i w = (Inr x, w')"
  using assms
  by (auto simp: existing_repository_def bind_def attempt_def ret_def fail_def split: prod.splits sum.splits if_splits)

lemma other_rows [simp]:
  "rest_evidenced i (d \<lparr>tb_status_tokens := a\<rparr>) = rest_evidenced i d"
  "rest_evidenced i (d \<lparr>tb_audit := b\<rparr>) = rest_evidenced i d"
  "rest_evidenced i (d \<lparr>tb_jobs := c\<rparr>) = rest_evidenced i d"
  "idle i (d \<lparr>tb_status_tokens := a\<rparr>) = idle i d"
  "idle i (d \<lparr>tb_audit := b\<rparr>) = idle i d"
  "idle i (d \<lparr>tb_jobs := c\<rparr>) = idle i d"
  by (simp_all add: rest_evidenced_def idle_def)

lemma rest_ciphertext: "within (keeps (rest_evidenced i)) (set_status_token_ciphertext i c)"
  unfolding set_status_token_ciphertext_def
  by (intro keeps.rules keeps.repository_rows keeps.looks [OF get_repository_looks] keeps.exec)
     (simp_all add: change_where keeps_def rest_change)

lemma idle_kept:
  "(\<And>r. repo_id (g r) = repo_id r \<and> enforcement_active (g r) = enforcement_active r) \<Longrightarrow> idle i d
     \<Longrightarrow> idle i (change_repository j g d)"
  by (auto simp: idle_def change_repository_def)

lemma idle_ciphertext: "within (keeps (idle i)) (set_status_token_ciphertext i c)"
  unfolding set_status_token_ciphertext_def
  by (intro keeps.rules keeps.repository_rows keeps.looks [OF get_repository_looks] keeps.exec)
     (simp_all add: change_where keeps_def idle_kept enforcement_active_def)

lemma idle_clear: "within (keeps (idle i)) (set_status_post_verified_at i v)"
  unfolding set_status_post_verified_at_def
  by (intro keeps.rules keeps.set_repository_within)
     (simp add: change_where keeps_def idle_kept enforcement_active_def)

lemma idle_state:
  "s \<noteq> EnforcementActive \<Longrightarrow> within (keeps (idle i)) (set_enforcement_state i s)"
  unfolding set_enforcement_state_def
  by (intro keeps.rules keeps.set_repository_within)
     (simp add: change_where keeps_def idle_change enforcement_active_def)

lemma rest_statements:
  "within (keeps (rest_evidenced i)) (set_status_post_verified_at i v)"
  "within (keeps (rest_evidenced i)) (set_enforcement_state i s)"
  unfolding set_status_post_verified_at_def set_enforcement_state_def
  by (intro keeps.rules keeps_rest_set; simp)+

lemma both_kept:
  "within (keeps I) m \<Longrightarrow> within (keeps J) m \<Longrightarrow> within (keeps (\<lambda>d. I d \<and> J d)) m"
  by (simp add: within_def keeps_def)

lemma found_idle:
  assumes "get_repository i w = (Inr x, w')" and "repositories_ok (tables w)" and "\<not> enforcement_active x"
  shows "rest_evidenced i (tables w') \<and> idle i (tables w')"
proof -
  have "state_is i (repo_enforcement x) (tables w')" "tables w' = tables w"
    using found_state [OF assms(1)] assms(2) by (auto simp: repositories_ok_def)
  then show ?thesis using assms state_is_idle by (auto simp: repositories_ok_split [of _ i] enforcement_active_def)
qed

lemma ok_idle_unit:
  assumes "\<And>x. \<not> enforcement_active x \<Longrightarrow> within (keeps (\<lambda>d. rest_evidenced i d \<and> idle i d)) (f x)"
  shows "within (keeps repositories_ok)
    (transact (bind (existing_repository i) (\<lambda>x. if enforcement_active x then fail (e x) else f x)))"
proof (rule keeps_transact, elim bind_cases)
  fix w x w' r w1
  assume found: "existing_repository i w = (Inr r, w1)" and ok: "repositories_ok (tables w)"
    and run: "(if enforcement_active r then fail (e r) else f r) w1 = (Inr x, w')"
  have idle: "\<not> enforcement_active r" and run': "f r w1 = (Inr x, w')"
    using run by (auto simp: fail_def split: if_splits)
  have "rest_evidenced i (tables w1) \<and> idle i (tables w1)"
    by (rule found_idle [OF existing_success [OF found] ok idle])
  with keeps_run [OF assms [OF idle] run'] show "repositories_ok (tables w')" by (blast intro: idle_ok)
qed

lemma ok_status_token: "within (keeps repositories_ok) (setup_status_token parse secrets i token actor)"
  if "\<And>store t. secrets = Some store \<Longrightarrow> within (keeps repositories_ok) (ss_encrypt store t)"
proof (cases secrets)
  case None
  then show ?thesis by (simp add: setup_status_token_def keeps.fail)
next
  case (Some store)
  show ?thesis
    unfolding setup_status_token_def Some option.case
    by (rule keeps.when_invalid, rule keeps.bind, rule that [OF Some], rule ok_idle_unit)
       (intro keeps.rules both_kept rest_ciphertext idle_ciphertext idle_clear
         idle_state rest_statements keeps.event; simp add: keeps_def)
qed

text \<open>Where the recording of a failure lands.\<close>

lemma transition_result:
  assumes "transition_enforcement_state i s t w = (Inr moved, w')"
  shows "\<exists>now. tables w' = change_repository i (\<lambda>r. if repo_active r \<and> repo_enforcement r = s
      then r \<lparr>repo_enforcement := t, repo_updated_at := now\<rparr> else r) (tables w)"
proof -
  from assms obtain now w1 n w2 where n: "now_utc w = (Inr now, w1)"
    and u: "update_repositories (\<lambda>r. repo_id r = i \<and> repo_active r \<and> repo_enforcement r = s)
        (\<lambda>r. r \<lparr>repo_enforcement := t, repo_updated_at := now\<rparr>) w1 = (Inr n, w2)"
    and g: "(if n = 0 then ret None else bind (get_repository i) (\<lambda>updated. ret (Some updated))) w2 = (Inr moved, w')"
    unfolding transition_enforcement_state_def by (auto simp: fail_def split: if_splits elim!: bind_cases)
  from u have "tables w2 = change_repository i (\<lambda>r. if repo_active r \<and> repo_enforcement r = s
      then r \<lparr>repo_enforcement := t, repo_updated_at := now\<rparr> else r) (tables w1)"
    by (auto simp: update_repositories_def update_where_def change_repository_def exec_def sql_def
        split: if_splits intro!: db.equality map_cong)
  moreover have "tables w' = tables w2"
    using g by (auto simp: ret_def split: if_splits elim!: bind_cases dest: observes_after [OF get_repository_looks])
  moreover have "tables w1 = tables w" using n by (simp add: now_utc_def) auto
  ultimately show ?thesis by auto
qed

lemma land_in_lands:
  assumes "land_in current target w = (Inr landed, w')" and "rest_evidenced (repo_id current) (tables w)"
    and "state_is (repo_id current) (repo_enforcement current) (tables w)" and "target \<noteq> EnforcementActive"
  shows "rest_evidenced (repo_id current) (tables w') \<and> idle (repo_id current) (tables w')"
proof -
  let ?i = "repo_id current"
  consider "repo_enforcement current = target" "tables w' = tables w"
    | "target = EnforcementUnhealthy" "transition_enforcement_state ?i EnforcementActive EnforcementUnhealthy w = (Inr landed, w')"
    | x where "set_enforcement_state ?i target w = (Inr x, w')"
    using assms(1) unfolding land_in_def by (auto simp: ret_def split: if_splits elim!: bind_cases)
  then show ?thesis
  proof cases
    case 1
    then show ?thesis using assms(2,3,4) state_is_idle by auto
  next
    case 2
    from transition_result [OF 2(2)] obtain now where t: "tables w' = change_repository ?i (\<lambda>r.
        if repo_active r \<and> repo_enforcement r = EnforcementActive
        then r \<lparr>repo_enforcement := EnforcementUnhealthy, repo_updated_at := now\<rparr> else r) (tables w)" by blast
    have "rest_evidenced ?i (tables w')" unfolding t by (rule rest_change) (use assms(2) in auto)
    moreover have "idle ?i (tables w')"
      using assms(2) by (auto simp: t idle_def change_repository_def enforcement_active_def rest_evidenced_def)
    ultimately show ?thesis by simp
  next
    case 3
    then show ?thesis using assms(2,4)
      by (auto elim!: set_state_success intro!: rest_change idle_change simp: enforcement_active_def)
  qed
qed

lemma ok_failure:
  assumes "ef_result_state f \<noteq> EnforcementActive"
  shows "within (keeps repositories_ok) (record_enforcement_failure repo actor f)"
  unfolding record_enforcement_failure_def
proof (rule keeps.bind [OF keeps.now_utc], rule keeps_transact, elim bind_cases)
  fix failed w x w' current w1
  let ?i = "repo_id repo"
  assume ok: "repositories_ok (tables w)" and g: "get_repository ?i w = (Inr current, w1)"
    and run: "(if ef_result_state f = EnforcementUnhealthy \<and> repo_enforcement current \<noteq> EnforcementActive
         \<and> repo_enforcement current \<noteq> EnforcementUnhealthy then ret ()
     else bind (if ef_clear_verification f
           then bind (set_status_post_verified_at ?i None) (\<lambda>_. ret ()) else ret ()) (\<lambda>_.
     bind (land_in current (ef_result_state f)) (\<lambda>landed. case landed of
       None \<Rightarrow> ret ()
     | Some there \<Rightarrow>
         bind (if ef_persist_failure f then set_enforcement_failure ?i (ef_reason f) failed
               else ret there) (\<lambda>updated.
         bind (requeue_failure ?i f) (\<lambda>_.
         record_event (enforcement_event (ef_action f) updated actor
           (text_field ''default_branch'' (repo_default_branch repo) @ text_field ''reason'' (ef_reason f))
           (ef_counts f))))))) w1 = (Inr x, w')"
  have found: "state_is ?i (repo_enforcement current) (tables w1)" "repo_id current = ?i" "tables w1 = tables w"
    using found_state [OF g] ok by (auto simp: repositories_ok_def)
  have tail: "within (keeps repositories_ok) (bind (if ef_persist_failure f
      then set_enforcement_failure ?i (ef_reason f) failed else ret there) (\<lambda>updated.
      bind (requeue_failure ?i f) (\<lambda>_. record_event (ev updated))))" for there ev
    unfolding requeue_failure_def by (intro keeps.rules ok_statements ok_queue ok_event)
  show "repositories_ok (tables w')"
  proof (cases "tables w' = tables w1")
    case False
    from False run have "bind (if ef_clear_verification f
           then bind (set_status_post_verified_at ?i None) (\<lambda>_. ret ()) else ret ()) (\<lambda>_.
     bind (land_in current (ef_result_state f)) (\<lambda>landed. case landed of
       None \<Rightarrow> ret ()
     | Some there \<Rightarrow>
         bind (if ef_persist_failure f then set_enforcement_failure ?i (ef_reason f) failed
               else ret there) (\<lambda>updated.
         bind (requeue_failure ?i f) (\<lambda>_.
         record_event (enforcement_event (ef_action f) updated actor
           (text_field ''default_branch'' (repo_default_branch repo) @ text_field ''reason'' (ef_reason f))
           (ef_counts f)))))) w1 = (Inr x, w')"
      by (cases "ef_result_state f = EnforcementUnhealthy \<and> repo_enforcement current \<noteq> EnforcementActive
         \<and> repo_enforcement current \<noteq> EnforcementUnhealthy") (simp_all add: ret_def)
    then obtain u w2 landed w3 where
      c: "(if ef_clear_verification f then bind (set_status_post_verified_at ?i None) (\<lambda>_. ret ()) else ret ()) w1
          = (Inr u, w2)"
      and l: "land_in current (ef_result_state f) w2 = (Inr landed, w3)"
      and rest: "(case landed of None \<Rightarrow> ret () | Some there \<Rightarrow> bind (if ef_persist_failure f
          then set_enforcement_failure ?i (ef_reason f) failed else ret there) (\<lambda>updated.
          bind (requeue_failure ?i f) (\<lambda>_. record_event (enforcement_event (ef_action f) updated actor
           (text_field ''default_branch'' (repo_default_branch repo) @ text_field ''reason'' (ef_reason f))
           (ef_counts f))))) w3 = (Inr x, w')"
      by (elim bind_cases)
    have "rest_evidenced ?i (tables w2) \<and> state_is ?i (repo_enforcement current) (tables w2)"
    proof (cases "ef_clear_verification f")
      case True
      with c obtain t where "tables w2 = change_repository ?i
          (\<lambda>r. r \<lparr>repo_status_post_verified_at := None, repo_updated_at := t\<rparr>) (tables w1)"
        by (auto simp: ret_def elim!: bind_cases set_verified_success)
      then show ?thesis using found ok
        by (auto simp: repositories_ok_split [of _ ?i] state_is_def change_repository_def
            intro!: rest_change [unfolded change_repository_def])
    next
      case False
      with c found ok show ?thesis by (auto simp: ret_def repositories_ok_split [of _ ?i])
    qed
    then have "repositories_ok (tables w3)"
      using land_in_lands [OF l] assms found(2) idle_ok by metis
    then show ?thesis using rest keeps_run [OF tail] by (auto simp: ret_def split: option.splits)
  qed (use ok found in simp)
qed

subsection \<open>Setup\<close>

lemma scope_not_active:
  "branch_scope_repository i w = (Inr repo, w') \<Longrightarrow> repo_enforcement repo \<noteq> EnforcementActive"
  unfolding branch_scope_repository_def
  by (elim bind_cases) (auto simp: fail_def ret_def enforcement_active_def split: if_splits)

lemma ok_invalidate:
  "repo_enforcement repo \<noteq> EnforcementActive \<Longrightarrow> within (keeps repositories_ok) (invalidate_ready_on_branch_scope_change repo)"
  unfolding invalidate_ready_on_branch_scope_change_def by (intro keeps.rules ok_statements) simp

lemma ok_setup:
  "within (keeps repositories_ok) (setup_create parse params actor)"
  "within (keeps repositories_ok) (setup_add_branch i b actor)"
  "within (keeps repositories_ok) (setup_remove_branch i b actor)"
proof -
  show "within (keeps repositories_ok) (setup_create parse params actor)"
    unfolding setup_create_def by (intro keeps.rules ok_create ok_event)
  show "within (keeps repositories_ok) (setup_add_branch i b actor)"
    unfolding setup_add_branch_def
    by (rule keeps.transact, rule keeps.bind_result [OF keeps.looks [OF repository_reads(2)]])
       (intro keeps.rules ok_branches ok_invalidate ok_event scope_not_active)
  show "within (keeps repositories_ok) (setup_remove_branch i b actor)"
    unfolding setup_remove_branch_def Let_def
    by (rule keeps.transact, rule keeps.bind_result [OF keeps.looks [OF repository_reads(2)]])
       (intro keeps.rules keeps.looks [OF repository_reads(7)] ok_branches ok_invalidate ok_event scope_not_active)
qed

subsection \<open>Runs\<close>

definition inspector_within :: "(db \<Rightarrow> db \<Rightarrow> bool) \<Rightarrow> inspector \<Rightarrow> bool" where
  "inspector_within R insp \<longleftrightarrow> (\<forall>repo b. within R (in_branch insp repo b))
     \<and> (\<forall>repo b. within R (in_pull_request_read insp repo b))"

definition readiness_within :: "(db \<Rightarrow> db \<Rightarrow> bool) \<Rightarrow> readiness_env \<Rightarrow> bool" where
  "readiness_within R env \<longleftrightarrow> forge_within R (re_forge env)
     \<and> (\<forall>repo token. within R (re_inspector_for env repo token))
     \<and> (\<forall>repo token w insp w'. re_inspector_for env repo token w = (Inr (Some insp), w') \<longrightarrow> inspector_within R insp)"

context table_relation begin

lemma inspect_branches_within:
  "inspector_within R insp \<Longrightarrow> within R (inspect_branches env repo token insp bs)"
  by (induction bs) (auto simp: inspector_within_def intro!: rules)

lemma inspect_forge_within:
  assumes "readiness_within R env"
  shows "within R (inspect_forge env repo token branches)"
  unfolding inspect_forge_def
proof (rule attempt_result)
  show "within R (re_inspector_for env repo token)" using assms by (simp add: readiness_within_def)
  fix x w w'
  assume made: "re_inspector_for env repo token w = (Inr x, w')"
  have insp: "inspector_within R insp" if "x = Some insp" for insp
    using assms made that unfolding readiness_within_def by blast
  then show "within R (case Inr x of
       Inl e \<Rightarrow> World.fail (sanitized_token_error env ''create forge readiness inspector'' e token)
     | Inr None \<Rightarrow> World.fail (Plain ''forge readiness inspector is nil'')
     | Inr (Some insp) \<Rightarrow>
         World.bind (World.attempt (in_pull_request_read insp repo (rb_name (hd branches)))) (\<lambda>p. case p of
           Inl e \<Rightarrow> World.fail (sanitized_token_error env ''inspect pull request read access'' e token)
         | Inr result \<Rightarrow> World.bind (inspect_branches env repo token insp branches) (\<lambda>runs. World.ret (result, runs))))"
    by (cases x) (auto intro!: rules inspect_branches_within simp: inspector_within_def)
qed (simp add: fail)

end

lemma ok_readiness:
  assumes "readiness_within (keeps repositories_ok) env"
  shows "within (keeps repositories_ok) (run_readiness env repo actor)"
  unfolding run_readiness_def persist_run_def persist_branch_def degrade_on_failure_def load_token_def Let_def
  by (intro keeps.rules keeps.inspect_forge_within keeps.readiness_rows ok_statements ok_transition ok_queue
      ok_event assms keeps.looks [OF get_repository_looks] keeps.looks [OF service_reads(2)]
      keeps.looks [OF service_reads(3)] keeps.looks [OF repository_reads(4)])
     (use assms in \<open>simp_all add: keeps_def readiness_within_def forge_within_def\<close>)

text \<open>What the service is given, as far as it may touch the tables.\<close>

definition ports_within :: "(db \<Rightarrow> db \<Rightarrow> bool) \<Rightarrow> enforcement_env \<Rightarrow> bool" where
  "ports_within R env \<longleftrightarrow> forge_within R (en_forge env)
     \<and> (\<forall>repo actor. within R (en_readiness env repo actor)) \<and> (\<forall>repo b. within R (en_sync env repo b))
     \<and> (\<forall>i b. within R (en_open_by_branch env i b)) \<and> (\<forall>prs k. within R (en_run_shared_head env prs k))
     \<and> (\<forall>result. within R (en_publish env result))"

text \<open>
  A relation on the tables that the units of work of the enforcement service respect: then every
  run respects it that is given ports that do.
\<close>

locale enforcement_tables = table_relation R for R :: "db \<Rightarrow> db \<Rightarrow> bool" +
  assumes queued: "within R (enqueue_reconciliation i)" "within R (enqueue_reconciliation_failure i category)"
      "within R (ensure_reconciliation_failure i category)" "within R (claim_due limit)"
      "within R (claim_repository i)" "within R (complete_claim c)" "within R (reschedule_claim c category)"
      "within R (make_due_now i)"
    and activated: "within R (mark_active i v enqueue)"
    and verified: "within R (record_verification_success repo head actor)"
      "within R (record_verification_failure repo actor)"
    and failed: "ef_result_state f \<noteq> EnforcementActive \<Longrightarrow> within R (record_enforcement_failure repo actor f)"
    and succeeded: "within R (record_enforcement_success repo actor action extra counts c)"
    and deactivated: "within R (record_enforcement_deactivation repo actor counts c)"
begin

lemma calls:
  assumes "ports_within R env"
  shows "within R (en_readiness env repo actor)" "within R (en_sync env repo b)"
    "within R (en_open_by_branch env i b)" "within R (en_run_shared_head env prs k)"
    "within R (en_publish env result)" "within R (controlled_setup_post env repo)"
  using assms by (auto simp: ports_within_def intro: setup_post_within)

lemma open_listed: "ports_within R env \<Longrightarrow> within R (open_managed_branch_pull_requests env repo)"
  unfolding open_managed_branch_pull_requests_def by (intro rules looks [OF repository_reads(4)] calls)

lemma groups_published: "ports_within R env \<Longrightarrow> within R (publish_groups env c counts gs)"
  by (induction gs arbitrary: counts)
     (auto simp: Let_def intro!: rules looks [OF service_reads(5)] calls)

lemma policy_reconciled: "ports_within R env \<Longrightarrow> within R (reconcile_current_policy env repo activate enqueue c)"
  unfolding reconcile_current_policy_def Let_def
  by (intro rules calls open_listed groups_published activated)

lemma readiness_required: "ports_within R env \<Longrightarrow> within R (require_verifiable_readiness env repo actor)"
  unfolding require_verifiable_readiness_def Let_def by (intro rules calls)

lemma runtime_failure_recorded: "within R (record_runtime_failure i reason actor preserve)"
  unfolding record_runtime_failure_def Let_def by (intro rules looks [OF repository_reads(3)] failed) simp

lemma given_up:
  "within R (fail_joined es :: 'a go)"
  "within R (fail_claimed_activation i actor c category cause :: 'a go)"
  unfolding fail_claimed_activation_def fail_joined_def by (intro rules runtime_failure_recorded queued)+

lemma land_failure_state [simp]: "ef_result_state (land_failure a s b r c p q) = s"
  by (simp add: land_failure_def)

lemma verify_run: "ports_within R env \<Longrightarrow> within R (verify_status_posting env i actor)"
  unfolding verify_status_posting_def
  by (intro rules looks [OF repository_reads(3)] readiness_required calls(6) verified)

lemma activate_run: "ports_within R env \<Longrightarrow> within R (activate_enforcement env i actor)"
  unfolding activate_enforcement_def activation_failed_def activation_succeeded_def
  by (intro rules looks [OF repository_reads(3)] readiness_required calls(6) failed
      policy_reconciled given_up queued succeeded) simp_all

lemma deactivate_run: "ports_within R env \<Longrightarrow> within R (deactivate_enforcement env i actor)"
  unfolding deactivate_enforcement_def
  by (intro rules looks [OF repository_reads(3)] looks [OF repository_reads(11)] queued
      policy_reconciled given_up deactivated)

lemma landed:
  "s \<noteq> EnforcementActive \<Longrightarrow> within R (land_run repo actor (land_failure a s b r cs p q) message)"
  "within R (record_run_success repo actor action extra counts preserve c)"
  "within R (finish_run c outcome)" "within R (reschedule_runtime_claim c category cause)"
  unfolding land_run_def failed_run_def record_run_success_def finish_run_def reschedule_runtime_claim_def Let_def
  by (intro rules failed succeeded runtime_failure_recorded queued given_up; simp)+

lemma core_runs:
  assumes "ports_within R env"
  shows "within R (reconcile_enforcement_core env repo actor preserve c)"
    "within R (recover_enforcement_core env repo actor preserve c)"
  unfolding reconcile_enforcement_core_def recover_enforcement_core_def failed_run_def
  by (intro rules readiness_required landed policy_reconciled calls(6) runtime_failure_recorded assms; simp)+

lemma reconcile_runs:
  assumes "ports_within R env"
  shows "within R (reconcile_enforcement env i actor)" "within R (recover_enforcement env i actor)"
    "within R (process_reconciliation_claim env c)"
  unfolding reconcile_enforcement_def recover_enforcement_def process_reconciliation_claim_def
  by (intro rules looks [OF repository_reads(3)] looks [OF get_repository_looks] queued core_runs landed assms)+

lemma run_due: "ports_within R env \<Longrightarrow> within R (run_due_reconciliations env)"
proof -
  assume ports: "ports_within R env"
  have "within R (process_each env cs joined)" for cs joined
    by (induction cs arbitrary: joined) (auto intro!: rules reconcile_runs ports)
  then show ?thesis unfolding run_due_reconciliations_def by (intro rules queued)
qed

lemma convergence_failed: "within R (runtime_fail c category)"
  unfolding runtime_fail_def by (intro rules queued runtime_failure_recorded)

lemma converging: "within R (fail_runtime_convergence (Some runtime_convergence) c e)"
    "within R (current_runtime_convergence_claim (Some runtime_convergence) c)"
  unfolding fail_runtime_convergence_def current_runtime_convergence_claim_def runtime_convergence_def
  by (auto intro!: rules looks [OF service_reads(4)] convergence_failed)

end

lemma ok_success: "within (keeps repositories_ok) (record_enforcement_success repo actor action extra counts c)"
  unfolding record_enforcement_success_def
  by (intro keeps.rules keeps.looks [OF get_repository_looks] keeps.recomputed ok_statements ok_event ok_queue)
     (simp add: keeps_def)

lemma ok_deactivation: "within (keeps repositories_ok) (record_enforcement_deactivation repo actor counts c)"
  unfolding record_enforcement_deactivation_def
  by (intro keeps.rules keeps.looks [OF get_repository_looks] keeps.looks [OF repository_reads(11)]
      keeps.recomputed ok_statements ok_event ok_queue ok_transition) (simp_all add: keeps_def)

interpretation evidence: enforcement_tables "keeps repositories_ok"
  by unfold_locales (assumption | rule ok_queue ok_mark_active ok_verification_success
      ok_verification_failure ok_failure ok_success ok_deactivation)+

lemma wired_ports:
  assumes "forge_within (keeps repositories_ok) forge" and "readiness_within (keeps repositories_ok) renv"
  shows "ports_within (keeps repositories_ok) (wired_enforcement forge renv)"
proof -
  have "within (keeps repositories_ok) (sync_repository forge repo b)" for repo b
    by (rule keeps.sync_within [OF assms(1)]) (simp_all add: keeps_def)
  moreover have "within (keeps repositories_ok) (list_open_by_target_branch i b)" for i b
    by (rule keeps.looks) (rule service_reads)
  moreover have "within (keeps repositories_ok) (run_for_shared_head wired_service prs k)" for prs k
    by (rule keeps.decide) (simp add: keeps_def)
  moreover have "within (keeps repositories_ok) (publish forge result)" for result
    by (rule keeps.publish_within [OF assms(1)]) (simp_all add: keeps_def)
  ultimately show ?thesis
    using assms by (simp add: ports_within_def wired_enforcement_def ok_readiness)
qed

lemma returned_bind: "bind (ret x) f = f x"
  by (rule ext) (rule run_bind_ret)

text \<open>
  A failed activation records its failure as "stays ready", and the record does not look at what
  the repository has become meanwhile: whatever the state was, it is ready afterwards, and the
  evidence is what it was.
\<close>

lemma failed_activation_readies:
  assumes "record_enforcement_failure repo actor (land_failure a EnforcementReady False reason None False False) w = (Inr x, w')"
    and "distinct (map repo_id (tb_repositories (tables w)))"
  shows "state_is (repo_id repo) EnforcementReady (tables w')"
proof -
  let ?i = "repo_id repo" and ?same = "within (same tb_repositories)"
  let ?body = "bind (get_repository ?i) (\<lambda>current. bind (land_in current EnforcementReady) (\<lambda>landed. case landed of
       None \<Rightarrow> ret ()
     | Some there \<Rightarrow> record_event (enforcement_event a there actor
         (text_field ''default_branch'' (repo_default_branch repo) @ text_field ''reason'' reason) None)))"
  have eq: "record_enforcement_failure repo actor (land_failure a EnforcementReady False reason None False False)
      = bind now_utc (\<lambda>_. transact ?body)"
    unfolding record_enforcement_failure_def requeue_failure_def land_failure_def
    by (simp add: returned_bind cong: option.case_cong)
  from assms(1) [unfolded eq] obtain n w0 where n: "now_utc w = (Inr n, w0)" and t: "transact ?body w0 = (Inr x, w')"
    by (rule bind_cases)
  then have w0: "tables w0 = tables w" using observes_after [OF observes_basic(3)] by blast
  from t obtain wb wa where body: "?body wb = (Inr x, wa)" and wb: "tables wb = tables w0" and wa: "tables w' = tables wa"
    by (rule transact_success)
  from body obtain current w1 landed w2 where g: "get_repository ?i wb = (Inr current, w1)"
    and l: "land_in current EnforcementReady w1 = (Inr landed, w2)"
    and e: "(case landed of None \<Rightarrow> ret () | Some there \<Rightarrow> record_event (enforcement_event a there actor
         (text_field ''default_branch'' (repo_default_branch repo) @ text_field ''reason'' reason) None)) w2 = (Inr x, wa)"
    by (elim bind_cases)
  have found: "state_is ?i (repo_enforcement current) (tables w1)" "repo_id current = ?i"
    using found_state [OF g] assms(2) w0 wb by auto
  from l found have "state_is ?i EnforcementReady (tables w2)"
    by (auto simp: land_in_def ret_def state_is_def change_repository_def split: if_splits
        elim!: bind_cases set_repository_success set_state_success)
  moreover have "tb_repositories (tables wa) = tb_repositories (tables w2)"
    using same_within [of tb_repositories, OF same.event] e
    by (cases landed) (auto simp: ret_def same_def, metis snd_conv)
  ultimately show ?thesis by (simp add: state_is_def wa)
qed

subsection \<open>Enforcement rests on evidence\<close>

text \<open>A forge or an encryption is a call outside: it leaves the tables as they are.\<close>

context table_relation begin

lemma untouched: "within (same (\<lambda>d. d)) m \<Longrightarrow> within R m"
  using refl by (auto simp: within_def same_def)

lemma untouched_client: "client_within (same (\<lambda>d. d)) k \<Longrightarrow> client_within R k"
  by (auto simp: client_within_def intro: untouched)

lemma untouched_forge: "forge_within (same (\<lambda>d. d)) env \<Longrightarrow> forge_within R env"
  unfolding forge_within_def by (blast intro: untouched untouched_client)

lemma untouched_inspector: "inspector_within (same (\<lambda>d. d)) insp \<Longrightarrow> inspector_within R insp"
  by (auto simp: inspector_within_def intro: untouched)

lemma untouched_readiness: "readiness_within (same (\<lambda>d. d)) env \<Longrightarrow> readiness_within R env"
  unfolding readiness_within_def by (blast intro: untouched untouched_forge untouched_inspector)

end

lemma ok_webhook_secret:
  assumes "\<And>store t. secrets = Some store \<Longrightarrow> within (keeps repositories_ok) (ss_encrypt store t)"
  shows "within (keeps repositories_ok) (setup_webhook_secret parse secrets i secret actor)"
proof (cases secrets)
  case (Some store)
  show ?thesis unfolding setup_webhook_secret_def Some option.case
    by (intro keeps.rules keeps.looks [OF repository_reads(1)] ok_ciphertexts ok_event assms [OF Some])
qed (simp add: setup_webhook_secret_def keeps.fail)

text \<open>
  The life of the tables as the repositories see it: every step is one operation of the
  lifecycle, run at any time, by anyone, under any faults and against any forge that leaves the
  tables alone, or anything else that does not write the repositories.
\<close>

inductive lifecycle_step :: "db \<Rightarrow> db \<Rightarrow> bool" where
  elsewhere: "tb_repositories d' = tb_repositories d \<Longrightarrow> lifecycle_step d d'"
| create: "lifecycle_step (tables w) (tables (snd (setup_create parse params actor w)))"
| webhook_secret: "(\<And>t. within (same (\<lambda>d. d)) (ss_encrypt store t)) \<Longrightarrow>
    lifecycle_step (tables w) (tables (snd (setup_webhook_secret parse (Some store) i secret actor w)))"
| status_token: "(\<And>t. within (same (\<lambda>d. d)) (ss_encrypt store t)) \<Longrightarrow>
    lifecycle_step (tables w) (tables (snd (setup_status_token parse (Some store) i token actor w)))"
| add_branch: "lifecycle_step (tables w) (tables (snd (setup_add_branch i b actor w)))"
| remove_branch: "lifecycle_step (tables w) (tables (snd (setup_remove_branch i b actor w)))"
| readiness: "readiness_within (same (\<lambda>d. d)) renv \<Longrightarrow>
    lifecycle_step (tables w) (tables (snd (run_readiness renv repo actor w)))"
| runtime_failure: "lifecycle_step (tables w) (tables (snd (record_runtime_failure i reason actor preserve w)))"
| verify: "forge_within (same (\<lambda>d. d)) forge \<Longrightarrow> readiness_within (same (\<lambda>d. d)) renv \<Longrightarrow>
    lifecycle_step (tables w) (tables (snd (verify_status_posting (wired_enforcement forge renv) i actor w)))"
| activate: "forge_within (same (\<lambda>d. d)) forge \<Longrightarrow> readiness_within (same (\<lambda>d. d)) renv \<Longrightarrow>
    lifecycle_step (tables w) (tables (snd (activate_enforcement (wired_enforcement forge renv) i actor w)))"
| deactivate: "forge_within (same (\<lambda>d. d)) forge \<Longrightarrow> readiness_within (same (\<lambda>d. d)) renv \<Longrightarrow>
    lifecycle_step (tables w) (tables (snd (deactivate_enforcement (wired_enforcement forge renv) i actor w)))"
| reconcile: "forge_within (same (\<lambda>d. d)) forge \<Longrightarrow> readiness_within (same (\<lambda>d. d)) renv \<Longrightarrow>
    lifecycle_step (tables w) (tables (snd (reconcile_enforcement (wired_enforcement forge renv) i actor w)))"
| recover: "forge_within (same (\<lambda>d. d)) forge \<Longrightarrow> readiness_within (same (\<lambda>d. d)) renv \<Longrightarrow>
    lifecycle_step (tables w) (tables (snd (recover_enforcement (wired_enforcement forge renv) i actor w)))"
| run_due: "forge_within (same (\<lambda>d. d)) forge \<Longrightarrow> readiness_within (same (\<lambda>d. d)) renv \<Longrightarrow>
    lifecycle_step (tables w) (tables (snd (run_due_reconciliations (wired_enforcement forge renv) w)))"

lemma untouched_ports:
  "forge_within (same (\<lambda>d. d)) forge \<Longrightarrow> readiness_within (same (\<lambda>d. d)) renv \<Longrightarrow> ports_within (keeps repositories_ok) (wired_enforcement forge renv)"
  by (intro wired_ports keeps.untouched_forge keeps.untouched_readiness)

lemmas lifecycle_keeps = ok_setup ok_webhook_secret ok_status_token ok_readiness evidence.verify_run
  evidence.activate_run evidence.deactivate_run evidence.reconcile_runs evidence.run_due
  evidence.runtime_failure_recorded

lemma lifecycle_step_keeps: "lifecycle_step d d' \<Longrightarrow> repositories_ok d \<Longrightarrow> repositories_ok d'"
proof (induction rule: lifecycle_step.induct)
  case (elsewhere d' d)
  then show ?case by (simp add: repositories_ok_def)
qed (rule keeps_within, rule lifecycle_keeps, auto intro: keeps.untouched untouched_ports keeps.untouched_readiness)+

text \<open>
  C4: Whatever sequence of operations has run, on whatever forge, in whatever interleaving with
  other writers and under whatever faults, the repositories are in order: their ids are unique,
  none is deactivated, and a repository whose enforcement is active carries the time at which
  posting a status was verified. The operations are setting a repository up, its secrets and
  branches, readiness checks, verification, activation, deactivation, reconciliation by hand,
  recovery, the queued runs and recorded failures.
\<close>

theorem enforced_repositories_have_evidence:
  assumes "lifecycle_step\<^sup>*\<^sup>* d d'" and "repositories_ok d"
  shows "repositories_ok d'"
  using assms by (induction rule: rtranclp_induct) (auto dest: lifecycle_step_keeps)

definition silent_forge :: forge_env where
  "silent_forge = \<lparr>fe_client_for = (\<lambda>_ _. ret None), fe_status_token = (\<lambda>_. ret None), fe_text = (\<lambda>_. [])\<rparr>"

definition verified_db :: db where
  "verified_db = empty_db \<lparr>tb_repositories := [gate_repository \<lparr>repo_status_post_verified_at := Some 5\<rparr>]\<rparr>"

lemma enforced_repositories_have_evidence_witness:
  "\<exists>d. lifecycle_step\<^sup>*\<^sup>* verified_db d \<and> repositories_ok d
     \<and> d = tables (snd (run_due_reconciliations
         (wired_enforcement silent_forge \<lparr>re_forge = silent_forge, re_inspector_for = (\<lambda>_ _. ret None)\<rparr>)
         (quiet verified_db 9)))"
proof -
  let ?renv = "\<lparr>re_forge = silent_forge, re_inspector_for = (\<lambda>_ _. ret None)\<rparr>"
  have f: "forge_within (same (\<lambda>d. d)) silent_forge"
    by (simp add: forge_within_def silent_forge_def same.ret) (simp add: ret_def)
  then have r: "readiness_within (same (\<lambda>d. d)) ?renv"
    by (simp add: readiness_within_def same.ret) (simp add: ret_def)
  have ok: "repositories_ok verified_db"
    by (simp add: repositories_ok_def verified_db_def empty_db_def evidenced_def gate_repository_def)
  have "lifecycle_step verified_db (tables (snd (run_due_reconciliations (wired_enforcement silent_forge ?renv)
      (quiet verified_db 9))))"
    using lifecycle_step.run_due [OF f r, of "quiet verified_db 9"] by (simp add: run_simps)
  then have steps: "lifecycle_step\<^sup>*\<^sup>* verified_db (tables (snd (run_due_reconciliations
      (wired_enforcement silent_forge ?renv) (quiet verified_db 9))))" by (rule r_into_rtranclp)
  from enforced_repositories_have_evidence [OF steps ok] steps show ?thesis by blast
qed

end
