(* ===== verification/PublisherFacts.thy ===== *)
theory PublisherFacts
  imports EnforcementFacts
begin

text \<open>
  What the publisher guarantees: no text it keeps or returns contains the token it posts with,
  nothing is recorded for a repository that is not enforced, there is one intent per commit,
  context and mode, and the intent says what the status result says.
\<close>

subsection \<open>Redaction\<close>

text \<open>What a token looks like as far as the redaction needs it: a longish word.\<close>

definition token_shaped :: "string \<Rightarrow> bool" where
  "token_shaped t \<longleftrightarrow> trim_space t = t \<and> length t \<ge> 12 \<and> CHR '' '' \<notin> set t
     \<and> CHR ''['' \<notin> set t \<and> CHR '']'' \<notin> set t"

lemma prefix_absent_head: "prefix u (c # xs) \<Longrightarrow> c \<notin> set u \<Longrightarrow> u = []"
  by (cases u) auto

lemma prefix_absent: "prefix t (xs @ c # ys) \<Longrightarrow> c \<notin> set t \<Longrightarrow> prefix t xs"
proof (induction xs arbitrary: t)
  case Nil
  then show ?case by (auto dest: prefix_absent_head)
next
  case (Cons x xs)
  then show ?case by (cases t) auto
qed

lemma sublist_absent_split:
  assumes "sublist t (xs @ c # ys)" and "c \<notin> set t"
  shows "sublist t xs \<or> sublist t ys"
  using assms(1)
proof (induction xs)
  case Nil
  then show ?case using assms(2) by (auto simp: sublist_Cons_right dest: prefix_absent_head)
next
  case (Cons x xs)
  then show ?case using assms(2) prefix_absent [of t "x # xs" c ys] by (auto simp: sublist_Cons_right)
qed

lemma replace_all_Cons:
  "old \<noteq> [] \<Longrightarrow> replace_all old new (c # cs) =
     (if prefix old (c # cs) then new @ replace_all old new (drop (length old) (c # cs))
      else c # replace_all old new cs)"
  by (subst replace_all.simps) simp

lemma replace_all_Nil: "replace_all old new [] = []"
  by (subst replace_all.simps) simp

lemma prefix_replace_all:
  assumes "old \<noteq> []"
  shows "prefix u (replace_all old redacted_mark s) \<Longrightarrow> CHR ''['' \<notin> set u \<Longrightarrow> prefix u s"
proof (induction s arbitrary: u)
  case Nil
  then show ?case by (simp add: replace_all_Nil)
next
  case (Cons c cs)
  show ?case
  proof (cases "prefix old (c # cs)")
    case True
    with Cons.prems assms have "u = []"
      by (auto simp: replace_all_Cons redacted_mark_def dest: prefix_absent_head)
    then show ?thesis by simp
  next
    case False
    with Cons.prems assms Cons.IH [of "tl u"] show ?thesis by (cases u) (auto simp: replace_all_Cons)
  qed
qed

lemma replace_all_removes:
  assumes "t \<noteq> []" and "CHR ''['' \<notin> set t" and "CHR '']'' \<notin> set t" and "\<not> sublist t ''redacted''"
  shows "\<not> sublist t (replace_all t redacted_mark s)"
proof (induction "length s" arbitrary: s rule: less_induct)
  case less
  show ?case
  proof (cases s)
    case Nil
    then show ?thesis using assms(1) by (simp add: replace_all.simps)
  next
    case (Cons c cs)
    show ?thesis
    proof (cases "prefix t s")
      case True
      have "replace_all t redacted_mark s = CHR ''['' # ''redacted'' @ CHR '']'' # replace_all t redacted_mark (drop (length t) s)"
        using True assms(1) Cons by (simp add: replace_all_Cons redacted_mark_def)
      moreover have "\<not> sublist t (replace_all t redacted_mark (drop (length t) s))"
        using less [of "drop (length t) s"] Cons assms(1) by simp
      ultimately show ?thesis
        using assms sublist_absent_split [of t "''redacted''" "CHR '']''"]
        by (metis prefix_absent_head sublist_Cons_right)
    next
      case False
      have eq: "replace_all t redacted_mark s = c # replace_all t redacted_mark cs"
        using False assms(1) Cons by (simp add: replace_all_Cons)
      have no: "\<not> prefix t (c # replace_all t redacted_mark cs)"
      proof
        assume "prefix t (c # replace_all t redacted_mark cs)"
        then obtain u where "t = c # u" and "prefix u (replace_all t redacted_mark cs)"
          using assms(1) by (cases t) auto
        with prefix_replace_all [of t u cs] assms(1,2) False Cons show False by auto
      qed
      show ?thesis unfolding eq sublist_Cons_right using less [of cs] Cons no by simp
    qed
  qed
qed

lemma trim_space_sublist: "sublist (trim_space s) s"
proof -
  let ?p = "\<lambda>c::nat \<times> string. is_space_rune (fst c)"
  obtain ds where "dropWhile ?p (chunks s) = drop_while_end ?p (dropWhile ?p (chunks s)) @ ds"
    using drop_while_end_prefix by blast
  then have "chunks s = takeWhile ?p (chunks s) @ drop_while_end ?p (dropWhile ?p (chunks s)) @ ds"
    by (metis takeWhile_dropWhile_id)
  then have "unchunk (chunks s) = unchunk (takeWhile ?p (chunks s)) @ trim_space s @ unchunk ds"
    unfolding trim_space_def by (metis unchunk_simps(3))
  then show ?thesis by (metis unchunk_simps(4) sublist_appendI)
qed

lemma token_words:
  assumes "token_shaped t"
  shows "t \<noteq> []" "\<not> sublist t ''redacted''" "\<not> sublist t ''forgejo status publication failed''"
    "\<not> sublist t ''create forgejo status client: nil client''"
    "\<not> sublist t ''repository status token is not configured''"
proof -
  have long: "\<not> sublist t w" if "length w < 12" for w
    using assms sublist_length_le [of t w] that by (auto simp: token_shaped_def)
  have split: "sublist t xs \<or> sublist t ys" if "sublist t (xs @ CHR '' '' # ys)" for xs ys
    using sublist_absent_split [OF that] assms by (simp add: token_shaped_def)
  show "t \<noteq> []" using assms by (auto simp: token_shaped_def)
  show "\<not> sublist t ''redacted''" by (rule long) simp
  show "\<not> sublist t ''forgejo status publication failed''"
    using split [of "''forgejo''" "''status publication failed''"] split [of "''status''" "''publication failed''"]
      split [of "''publication''" "''failed''"] long by auto
  show "\<not> sublist t ''create forgejo status client: nil client''"
    using split [of "''create''" "''forgejo status client: nil client''"]
      split [of "''forgejo''" "''status client: nil client''"] split [of "''status''" "''client: nil client''"]
      split [of "''client:''" "''nil client''"] split [of "''nil''" "''client''"] long by auto
  show "\<not> sublist t ''repository status token is not configured''"
    using split [of "''repository''" "''status token is not configured''"]
      split [of "''status''" "''token is not configured''"] split [of "''token''" "''is not configured''"]
      split [of "''is''" "''not configured''"] split [of "''not''" "''configured''"] long by auto
qed


text \<open>What the publisher writes and returns about a failure.\<close>

lemma attempt_error_message_hides:
  assumes "token_shaped t"
  shows "\<not> sublist t (attempt_error_message text [t])"
proof -
  have "\<not> sublist t (replace_all t redacted_mark (trim_space text))"
    using assms token_words [OF assms] by (intro replace_all_removes) (auto simp: token_shaped_def)
  then have "\<not> sublist t (take 300 (redact [t] (trim_space text)))"
    using assms token_words(1) [OF assms] sublist_order.order_trans [of t "take 300 _"]
    by (auto simp: redact_def token_shaped_def)
  then show ?thesis using token_words [OF assms] by (simp add: attempt_error_message_def Let_def)
qed

definition attempts_hide :: "string \<Rightarrow> db \<Rightarrow> db \<Rightarrow> bool" where
  "attempts_hide t d d' \<longleftrightarrow> (\<forall>r \<in> set (tb_attempts d'). r \<in> set (tb_attempts d)
     \<or> \<not> sublist t (text_or_empty (at_error r)))"

interpretation hides: table_relation "attempts_hide t" for t
  by unfold_locales (auto simp: attempts_hide_def)

lemma attempts_hide_untouched: "tb_attempts d' = tb_attempts d \<Longrightarrow> attempts_hide t d d'"
  by (simp add: attempts_hide_def)

lemma hides_record_attempt:
  assumes "\<not> sublist t message" and "t \<noteq> []"
  shows "within (attempts_hide t) (record_forgejo_status_attempt p r message)"
proof -
  have "\<not> sublist t (trim_space message)"
    using assms(1) trim_space_sublist sublist_order.order_trans by blast
  then show ?thesis
    using assms(2) unfolding record_forgejo_status_attempt_def record_attempt_def get_attempt_def
    by (intro hides.rules hides.checked)
       (auto simp: Let_def attempts_hide_def normalize_attempt_def optional_text_def text_or_empty_def
         intro!: hides.rules hides.checked)
qed

text \<open>The texts in the errors the publisher returns.\<close>

fun error_hides :: "string \<Rightarrow> go_error \<Rightarrow> bool" where
  "error_hides t (Plain m) \<longleftrightarrow> \<not> sublist t m"
| "error_hides t (Joined es) \<longleftrightarrow> list_all (error_hides t) es"
| "error_hides t (ConvergenceFailed m e) \<longleftrightarrow> error_hides t e"
| "error_hides t e \<longleftrightarrow> True"

definition fails_hiding :: "string \<Rightarrow> 'a go \<Rightarrow> bool" where
  "fails_hiding t m \<longleftrightarrow> (\<forall>w. case fst (m w) of Inl e \<Rightarrow> error_hides t e | Inr _ \<Rightarrow> True)"

lemma fails_hiding_basic:
  "fails_hiding t (ret x)" "error_hides t e \<Longrightarrow> fails_hiding t (fail e)" "fails_hiding t now_utc"
  "fails_hiding t (query g)" "fails_hiding t (query_row h)" "fails_hiding t (checked c f)"
  "fails_hiding t (attempt m)"
  by (auto simp: fails_hiding_def ret_def fail_def now_utc_def attempt_def query_def query_row_def
      checked_def sql_def first_row_def split: prod.splits list.splits sum.splits)

lemma fails_hiding_bind:
  assumes "fails_hiding t m" and "\<And>x. fails_hiding t (f x)"
  shows "fails_hiding t (bind m f)"
  unfolding fails_hiding_def
proof
  fix w
  obtain r w1 where m: "m w = (r, w1)" by (cases "m w")
  show "case fst (bind m f w) of Inl e \<Rightarrow> error_hides t e | Inr _ \<Rightarrow> True"
  proof (cases r)
    case (Inl e)
    with assms(1) m show ?thesis by (auto simp: fails_hiding_def bind_def dest: spec [of _ w])
  next
    case (Inr x)
    with assms(2) [of x] m show ?thesis by (simp add: fails_hiding_def bind_def)
  qed
qed

lemma fails_hiding_cases:
  "fails_hiding t m \<Longrightarrow> fails_hiding t n \<Longrightarrow> fails_hiding t (if b then m else n)"
  "(\<And>e. fails_hiding t (g e)) \<Longrightarrow> (\<And>x. fails_hiding t (f x)) \<Longrightarrow>
    fails_hiding t (case z of Inl e \<Rightarrow> g e | Inr x \<Rightarrow> f x)"
  "fails_hiding t m \<Longrightarrow> (\<And>x. fails_hiding t (h x)) \<Longrightarrow>
    fails_hiding t (case o' of None \<Rightarrow> m | Some x \<Rightarrow> h x)"
  by (cases z; cases o'; simp)+

lemmas fails_hiding_rules = fails_hiding_basic fails_hiding_bind fails_hiding_cases

lemma if_hides:
  "(if b then Some e' else r) = Some e \<Longrightarrow> error_hides t e' \<Longrightarrow> (r = Some e \<Longrightarrow> error_hides t e) \<Longrightarrow> error_hides t e"
  by (auto split: if_splits)

lemma invalid_attempt_hides: "validate_attempt a = Some e \<Longrightarrow> error_hides t e"
  unfolding validate_attempt_def Let_def by (erule if_hides, simp)+ simp

lemma invalid_publication_hides: "validate_publication q = Some e \<Longrightarrow> error_hides t e"
  unfolding validate_publication_def Let_def by (erule if_hides, simp)+ simp

lemma fails_hiding_when_invalid:
  "(\<And>e. v = Some e \<Longrightarrow> error_hides t e) \<Longrightarrow> fails_hiding t m \<Longrightarrow> fails_hiding t (when_invalid v m)"
  by (cases v) (simp_all add: when_invalid_def fails_hiding_basic)

lemma fails_hiding_store:
  "fails_hiding t (record_forgejo_status_attempt p r message)" "fails_hiding t (publish_forgejo_status result)"
  "fails_hiding t (get_repository i)"
  unfolding record_forgejo_status_attempt_def record_attempt_def get_attempt_def publish_forgejo_status_def
    publish_intent_def get_by_idempotency_key_def get_repository_def get_repository_for_scope_def Let_def
  by (intro fails_hiding_rules fails_hiding_when_invalid; (erule invalid_attempt_hides | erule invalid_publication_hides | simp))+

lemma safe_error_hides:
  "token_shaped t \<Longrightarrow> error_hides t (safe_publication_error cause message [t])"
  "error_hides t cause \<Longrightarrow> error_hides t (safe_publication_error cause message [])"
  by (simp_all add: safe_publication_error_def attempt_error_message_hides)

lemma plain_error_message:
  assumes "token_shaped t" and "\<not> sublist t message"
  shows "\<not> sublist t (attempt_error_message message [])"
proof -
  have "sublist (take 300 (trim_space message)) message"
    using sublist_take trim_space_sublist by (rule sublist_order.order_trans)
  then have "\<not> sublist t (take 300 (trim_space message))"
    using assms(2) sublist_order.order_trans by blast
  then show ?thesis using token_words [OF assms(1)] by (simp add: attempt_error_message_def redact_def Let_def)
qed

lemma fails_hiding_result:
  assumes "\<And>r w w'. m w = (r, w') \<Longrightarrow> fails_hiding t (f r)"
  shows "fails_hiding t (bind (attempt m) f)"
  unfolding fails_hiding_def
proof
  fix w
  obtain r w1 where m: "m w = (r, w1)" by (cases "m w")
  then have run: "bind (attempt m) f w = f r w1" by (simp add: bind_def attempt_def)
  show "case fst (bind (attempt m) f w) of Inl e \<Rightarrow> error_hides t e | Inr _ \<Rightarrow> True"
    unfolding run using assms [OF m] by (simp add: fails_hiding_def)
qed

lemma failed_attempt_hides:
  assumes "token_shaped t" and "sensitive = [t] \<or> sensitive = [] \<and> error_hides t cause \<and> \<not> sublist t message"
  shows "within (attempts_hide t) (record_failed_attempt p cause message sensitive :: 'a go)"
    "fails_hiding t (record_failed_attempt p cause message sensitive :: 'a go)"
proof -
  have said: "\<not> sublist t (attempt_error_message message sensitive)"
    using assms attempt_error_message_hides plain_error_message by blast
  have error: "error_hides t (safe_publication_error cause message sensitive)"
    using assms safe_error_hides by blast
  show "within (attempts_hide t) (record_failed_attempt p cause message sensitive :: 'a go)"
    unfolding record_failed_attempt_def
    by (intro hides.rules hides_record_attempt said token_words(1) assms(1))
  show "fails_hiding t (record_failed_attempt p cause message sensitive :: 'a go)"
    unfolding record_failed_attempt_def
  proof (rule fails_hiding_result)
    fix r w w'
    assume "record_forgejo_status_attempt p attempt_result_failed (attempt_error_message message sensitive) w = (r, w')"
    with fails_hiding_store(1) [of t p attempt_result_failed "attempt_error_message message sensitive"]
    have "case r of Inl e \<Rightarrow> error_hides t e | Inr _ \<Rightarrow> True" unfolding fails_hiding_def by (metis fst_conv)
    then show "fails_hiding t (case r of
        Inl e \<Rightarrow> fail (Joined [safe_publication_error cause message sensitive, e])
      | Inr _ \<Rightarrow> fail (safe_publication_error cause message sensitive))"
      by (cases r) (simp_all add: fails_hiding_basic error)
  qed
qed

text \<open>
  What a publication relies on: the calls to the forge do not write attempts, the token the store
  decrypts is \<open>t\<close>, and where it cannot decrypt one, what it says does not contain \<open>t\<close>.
\<close>

definition posts_with :: "string \<Rightarrow> forge_env \<Rightarrow> bool" where
  "posts_with t env \<longleftrightarrow> forge_within (same tb_attempts) env
     \<and> (\<forall>i w x w'. fe_status_token env i w = (Inr x, w') \<longrightarrow> trim_space (text_or_empty x) \<in> {[], t})
     \<and> (\<forall>i w e w'. fe_status_token env i w = (Inl e, w') \<longrightarrow>
          error_hides t e \<and> \<not> sublist t (''load repository status token: '' @ fe_text env e))"

lemma same_attempts_hide: "within (same tb_attempts) m \<Longrightarrow> within (attempts_hide t) m"
  by (auto simp: within_def same_def attempts_hide_def)

lemma same_client_hides: "client_within (same tb_attempts) k \<Longrightarrow> client_within (attempts_hide t) k"
  by (auto simp: client_within_def intro: same_attempts_hide)

lemma posts_with_within: "posts_with t env \<Longrightarrow> forge_within (attempts_hide t) env"
  unfolding posts_with_def forge_within_def by (blast intro: same_attempts_hide same_client_hides)

lemma deliver_hides:
  assumes "forge_within (attempts_hide t) env" and "token_shaped t"
  shows "within (attempts_hide t) (deliver env repo t result p)" "fails_hiding t (deliver env repo t result p)"
proof -
  have nil: "error_hides t (Plain ''create forgejo status client: nil client'')" "\<not> sublist t []"
    using token_words [OF assms(2)] by simp_all
  have given: "within (attempts_hide t) (record_failed_attempt p e message [t] :: publication go)"
    "fails_hiding t (record_failed_attempt p e message [t] :: publication go)" for e message
    by (rule failed_attempt_hides [OF assms(2)], simp)+
  have none: "within (attempts_hide t) (record_failed_attempt p (Plain ''create forgejo status client: nil client'')
      ''create forgejo status client: nil client'' [] :: publication go)"
    "fails_hiding t (record_failed_attempt p (Plain ''create forgejo status client: nil client'')
      ''create forgejo status client: nil client'' [] :: publication go)"
    by (rule failed_attempt_hides [OF assms(2)], use nil token_words [OF assms(2)] in simp)+
  have posted: "within (attempts_hide t) (record_forgejo_status_attempt p attempt_result_posted [])"
    by (rule hides_record_attempt) (use token_words [OF assms(2)] in auto)
  show "within (attempts_hide t) (deliver env repo t result p)"
    unfolding deliver_def
    by (rule hides.client_bind [OF assms(1)])
       (auto intro!: hides.bind hides.attempt hides.client_calls hides.sum_op given none posted hides.ret)
  show "fails_hiding t (deliver env repo t result p)"
    unfolding deliver_def
    by (intro fails_hiding_rules given none fails_hiding_store)
qed

text \<open>
  C25: A publication does not leak the token it posts with. Whatever the forge client says in its
  errors, no attempt that publishing records and no error that it returns contains the token,
  provided the token is a word of at least twelve characters without blanks and brackets.
\<close>

theorem publication_hides_token:
  assumes "posts_with t env" and "token_shaped t"
  shows "case publish env result w of (r, w') \<Rightarrow> attempts_hide t (tables w) (tables w')
     \<and> (case r of Inl e \<Rightarrow> error_hides t e | Inr _ \<Rightarrow> True)"
proof -
  have env: "forge_within (attempts_hide t) env" using assms(1) by (rule posts_with_within)
  have rows: "within (attempts_hide t) (publish_forgejo_status result)"
    unfolding publish_forgejo_status_def publish_intent_def get_by_idempotency_key_def Let_def
    by (intro hides.rules hides.checked) (simp add: attempts_hide_untouched)
  have failed: "within (attempts_hide t) (record_failed_attempt p cause message [] :: publication go)"
    "fails_hiding t (record_failed_attempt p cause message [] :: publication go)"
    if "error_hides t cause" "\<not> sublist t message" for p cause message
    by (rule failed_attempt_hides [OF assms(2)], simp add: that)+
  let ?settle = "\<lambda>p r repo. case r of
       Inl e \<Rightarrow> record_failed_attempt p e (''load repository status token: '' @ fe_text env e) []
     | Inr found \<Rightarrow>
         (let token = trim_space (text_or_empty found) in
          if token = [] then record_failed_attempt p StatusTokenMissing
            ''repository status token is not configured'' []
          else deliver env repo token result p)"
  have token: "within (attempts_hide t) (?settle p r repo)" "fails_hiding t (?settle p r repo)"
    if "attempt (fe_status_token env i) w = (Inr r, w')" for p r i w w' repo
  proof -
    from that have read: "fe_status_token env i w = (r, w')" by (simp add: attempt_def split: prod.splits)
    have "within (attempts_hide t) (?settle p r repo) \<and> fails_hiding t (?settle p r repo)"
    proof (cases r)
      case (Inl e)
      with assms(1) read have "error_hides t e"
        "\<not> sublist t (''load repository status token: '' @ fe_text env e)" unfolding posts_with_def by blast+
      then show ?thesis unfolding Inl sum.case by (intro conjI failed)
    next
      case (Inr found)
      with assms(1) read have "trim_space (text_or_empty found) \<in> {[], t}" unfolding posts_with_def by blast
      then show ?thesis using token_words [OF assms(2)] deliver_hides [OF env assms(2)]
        by (auto simp: Inr Let_def intro!: failed)
    qed
    then show "within (attempts_hide t) (?settle p r repo)" "fails_hiding t (?settle p r repo)" by simp_all
  qed
  have read: "within (attempts_hide t) (fe_status_token env i)" for i
    using env by (simp add: forge_within_def)
  have "within (attempts_hide t) (publish env result)"
    unfolding publish_def
    by (rule hides.bind, rule hides.looks [OF get_repository_looks], rule hides.if_op, rule hides.fail,
        rule hides.bind, rule rows, rule hides.bind_result, rule hides.attempt, rule read, erule token(1))
  moreover have "fails_hiding t (publish env result)"
    unfolding publish_def
    by (rule fails_hiding_bind, rule fails_hiding_store, rule fails_hiding_cases(1), rule fails_hiding_basic(2), simp,
        rule fails_hiding_bind, rule fails_hiding_store, rule fails_hiding_result, rule token(2), erule run_attempt)
  ultimately show ?thesis by (auto simp: within_def fails_hiding_def split: prod.split) (metis fst_conv snd_conv)+
qed

subsection \<open>What is published\<close>

text \<open>One intent per repository, commit, context and mode; identifiers are unique.\<close>

definition intent_key :: "intent_row \<Rightarrow> int \<times> string \<times> string \<times> string" where
  "intent_key r = (it_repository_id r, it_head_sha r, it_context r, it_delivery_mode r)"

definition intents_ok :: "db \<Rightarrow> bool" where
  "intents_ok d \<longleftrightarrow> distinct (map it_id (tb_intents d)) \<and> distinct (map intent_key (tb_intents d))"

lemma same_intent_key: "same_intent p r \<longleftrightarrow>
    intent_key r = (pu_repository_id p, pu_head_sha p, pu_context p, pu_delivery_mode p)"
  by (auto simp: same_intent_def intent_key_def)

lemma upsert_intent_ok:
  assumes "distinct (map it_id rows)" and "distinct (map intent_key rows)"
  shows "distinct (map it_id (upsert_intent p rows)) \<and> distinct (map intent_key (upsert_intent p rows))"
proof (cases "list_ex (same_intent p) rows")
  case True
  have "map it_id (upsert_intent p rows) = map it_id rows" "map intent_key (upsert_intent p rows) = map intent_key rows"
    using True by (auto simp: upsert_intent_def intent_key_def)
  with assms show ?thesis by simp
next
  case False
  then show ?thesis using assms fresh_id_new [of "map it_id rows"]
    by (auto simp: upsert_intent_def list_ex_iff same_intent_key intent_key_def)
qed

text \<open>The row of the key after the upsert, and the rows of the other keys.\<close>

lemma filter_if_map:
  assumes "\<And>r. P r \<Longrightarrow> P (g r)"
  shows "filter (\<lambda>r. \<not> P r) (map (\<lambda>r. if P r then g r else r) rows) = filter (\<lambda>r. \<not> P r) rows"
    "filter P (map (\<lambda>r. if P r then g r else r) rows) = map g (filter P rows)"
  using assms by (induction rows) auto

lemma distinct_key_single:
  assumes "distinct (map f rows)" and "\<And>r. P r \<longleftrightarrow> f r = k" and "list_ex P rows"
  obtains x where "filter P rows = [x]"
proof -
  from assms(3) obtain xs x ys where split: "rows = xs @ x # ys" and x: "P x"
    by (auto simp: list_ex_iff dest: split_list)
  from assms(1) split have "f x \<notin> f ` (set xs \<union> set ys)" by auto
  with x assms(2) have "\<not> P y" if "y \<in> set xs \<union> set ys" for y
    using that by (metis image_eqI)
  with split x that [of x] show thesis by (auto simp: filter_empty_conv)
qed

lemma same_intent_after:
  "same_intent p r \<Longrightarrow> same_intent p (r \<lparr>it_status_result_id := a, it_pull_request_index := b,
     it_target_branch := c, it_state := s, it_description := e, it_target_url := u, it_updated_at := t\<rparr>)"
  by (simp add: same_intent_def)

lemma upsert_intent_row:
  assumes "distinct (map intent_key rows)"
  shows "(\<exists>r. filter (same_intent p) (upsert_intent p rows) = [r] \<and> it_state r = pu_state p
     \<and> it_status_result_id r = pu_status_result_id p \<and> it_description r = pu_description p
     \<and> it_target_branch r = pu_target_branch p)
     \<and> filter (\<lambda>r. \<not> same_intent p r) (upsert_intent p rows) = filter (\<lambda>r. \<not> same_intent p r) rows"
proof (cases "list_ex (same_intent p) rows")
  case True
  then obtain x where "filter (same_intent p) rows = [x]"
    using distinct_key_single [OF assms, of "same_intent p"] same_intent_key by metis
  with True show ?thesis by (simp add: upsert_intent_def filter_if_map same_intent_after)
next
  case False
  then have "filter (same_intent p) rows = []" by (auto simp: list_ex_iff filter_empty_conv)
  with False show ?thesis by (auto simp: upsert_intent_def same_intent_def)
qed

lemma publication_rows:
  "within (keeps intents_ok) (publish_forgejo_status result)"
  "within (same tb_attempts) (publish_forgejo_status result)"
  "within (same tb_intents) (record_forgejo_status_attempt p r m)"
  "within (same tb_intents) (record_failed_attempt p cause message vs)"
  unfolding publish_forgejo_status_def publish_intent_def get_by_idempotency_key_def
    record_failed_attempt_def record_forgejo_status_attempt_def record_attempt_def get_attempt_def Let_def
  by (intro keeps.rules keeps.checked same.rules same.checked;
      simp add: keeps_def same_def intents_ok_def upsert_intent_ok Let_def)+

definition intent_wanted :: "status_result \<Rightarrow> publication" where
  "intent_wanted result = normalize_publication ((publication_from_result result)
     \<lparr>pu_delivery_mode := delivery_mode_forgejo_status\<rparr>)"

definition intent_says :: "status_result \<Rightarrow> intent_row \<Rightarrow> db \<Rightarrow> db \<Rightarrow> bool" where
  "intent_says result r d d' \<longleftrightarrow> filter (same_intent (intent_wanted result)) (tb_intents d') = [r]
     \<and> it_state r = rs_state result \<and> it_status_result_id r = rs_id result
     \<and> filter (\<lambda>r. \<not> same_intent (intent_wanted result) r) (tb_intents d')
       = filter (\<lambda>r. \<not> same_intent (intent_wanted result) r) (tb_intents d)"

lemma checked_success:
  assumes "checked ok (\<lambda>d. (i d, f d)) w = (Inr x, w')"
  shows "ok (tables w) \<and> x = i (tables w) \<and> tables w' = f (tables w)"
  using assms by (auto simp: checked_def sql_def split: if_splits prod.splits)

lemma query_row_success:
  assumes "query_row f w = (Inr x, w')"
  shows "tables w' = tables w \<and> (\<exists>xs. f (tables w) = x # xs)"
  using assms by (auto simp: query_row_def sql_def first_row_def split: if_splits list.splits)

lemma publish_intent_success:
  assumes "publish_forgejo_status result w = (Inr p, w')" and "intents_ok (tables w)"
  shows "\<exists>r. p = scan_publication r \<and> intent_says result r (tables w) (tables w')"
proof -
  define mk where "mk = (\<lambda>now. normalize_publication ((publication_from_result result)
     \<lparr>pu_delivery_mode := delivery_mode_forgejo_status, pu_created_at := now, pu_updated_at := now\<rparr>))"
  let ?put = "\<lambda>q. checked (\<lambda>d. pu_status_result_id q \<in> set (map sr_id (tb_results d))
             \<and> pu_repository_id q \<in> set (map repo_id (tb_repositories d)))
           (\<lambda>d. ((), d \<lparr>tb_intents := upsert_intent q (tb_intents d)\<rparr>))"
  have eq: "publish_forgejo_status result = bind now_utc (\<lambda>now. when_invalid (validate_publication (mk now))
      (bind (?put (mk now)) (\<lambda>_. get_by_idempotency_key (mk now))))"
    by (simp add: publish_forgejo_status_def publish_intent_def Let_def mk_def)
  from assms(1) [unfolded eq] obtain now w1 where n: "now_utc w = (Inr now, w1)"
    and v: "when_invalid (validate_publication (mk now)) (bind (?put (mk now)) (\<lambda>_. get_by_idempotency_key (mk now))) w1
      = (Inr p, w')" by (rule bind_cases)
  define q where "q = mk now"
  have same: "same_intent q = same_intent (intent_wanted result)"
    by (auto simp: fun_eq_iff q_def mk_def same_intent_def intent_wanted_def normalize_publication_def)
  from when_invalid_success [OF v, THEN conjunct2] obtain u w2 where
    c: "?put q w1 = (Inr u, w2)" and g: "get_by_idempotency_key q w2 = (Inr p, w')"
    unfolding q_def by (rule bind_cases)
  have t: "tables w2 = tables w \<lparr>tb_intents := upsert_intent q (tb_intents (tables w))\<rparr>"
    using checked_success [OF c] now_success [OF n] by simp
  from query_row_success [OF g [unfolded get_by_idempotency_key_def]] obtain ps where looked: "tables w' = tables w2"
    and ps: "map scan_publication (filter (same_intent q) (tb_intents (tables w2))) = p # ps"
    by (elim conjE exE) (rule that)
  from upsert_intent_row [of "tb_intents (tables w)" q] assms(2) obtain r where
    r: "filter (same_intent q) (tb_intents (tables w')) = [r]" "it_state r = pu_state q"
    "it_status_result_id r = pu_status_result_id q"
    "filter (\<lambda>r. \<not> same_intent q r) (tb_intents (tables w')) = filter (\<lambda>r. \<not> same_intent q r) (tb_intents (tables w))"
    unfolding looked t intents_ok_def by auto
  moreover have "pu_state q = rs_state result" "pu_status_result_id q = rs_id result"
    by (simp_all add: q_def mk_def normalize_publication_def publication_from_result_def)
  moreover have "p = scan_publication r" using ps r(1) looked by simp
  ultimately show ?thesis unfolding intent_says_def same [symmetric] by auto
qed

lemma posted_attempt_success:
  assumes "record_forgejo_status_attempt p attempt_result_posted [] w = (Inr x, w')"
  shows "\<exists>a. tb_attempts (tables w') = tb_attempts (tables w) @ [a] \<and> at_result a = attempt_result_posted
     \<and> at_publication_id a = pu_id p \<and> tb_intents (tables w') = tb_intents (tables w)"
proof -
  define mk where "mk = (\<lambda>now. normalize_attempt ((attempt_from_publication p)
     \<lparr>pa_mode := attempt_mode_forgejo_status, pa_result := attempt_result_posted, pa_error := [], pa_attempted_at := now\<rparr>))"
  have posted: "pa_result (mk now) = trim_space attempt_result_posted" "pa_publication_id (mk now) = pu_id p" for now
    by (simp_all add: mk_def normalize_attempt_def attempt_from_publication_def)
  have word: "trim_space attempt_result_posted = attempt_result_posted"
    unfolding attempt_result_posted_def by (rule trim_text; simp add: is_ascii_def is_space_rune_def)
  let ?put = "\<lambda>a. checked (\<lambda>d. pa_publication_id a \<in> set (map it_id (tb_intents d))
             \<and> pa_status_result_id a \<in> set (map sr_id (tb_results d))
             \<and> pa_repository_id a \<in> set (map repo_id (tb_repositories d)))
           (\<lambda>d. (fresh_id (map at_id (tb_attempts d)), d \<lparr>tb_attempts := tb_attempts d
             @ [\<lparr>at_id = fresh_id (map at_id (tb_attempts d)), at_publication_id = pa_publication_id a,
                 at_status_result_id = pa_status_result_id a, at_repository_id = pa_repository_id a,
                 at_pull_request_index = pa_pull_request_index a, at_target_branch = pa_target_branch a,
                 at_head_sha = pa_head_sha a, at_context = pa_context a, at_state = pa_state a,
                 at_description = pa_description a, at_target_url = optional_text (pa_target_url a),
                 at_mode = pa_mode a, at_result = pa_result a, at_error = optional_text (pa_error a),
                 at_attempted_at = pa_attempted_at a\<rparr>]\<rparr>))"
  have eq: "record_forgejo_status_attempt p attempt_result_posted [] = bind now_utc (\<lambda>now.
      when_invalid (validate_attempt (mk now)) (bind (?put (mk now)) get_attempt))"
    by (simp add: record_forgejo_status_attempt_def record_attempt_def Let_def mk_def)
  from assms [unfolded eq] obtain now w1 where n: "now_utc w = (Inr now, w1)"
    and v: "when_invalid (validate_attempt (mk now)) (bind (?put (mk now)) get_attempt) w1 = (Inr x, w')"
    by (rule bind_cases)
  from when_invalid_success [OF v, THEN conjunct2] obtain i w2 where c: "?put (mk now) w1 = (Inr i, w2)"
    and g: "get_attempt i w2 = (Inr x, w')" by (rule bind_cases)
  have "tables w' = tables w2" using query_row_success [OF g [unfolded get_attempt_def]] by simp
  with checked_success [OF c] now_success [OF n] show ?thesis by (simp add: posted word)
qed

lemma failed_attempt_fails: "record_failed_attempt p cause message vs w \<noteq> (Inr x, w')"
  by (auto simp: record_failed_attempt_def bind_def attempt_def fail_def split: prod.splits sum.splits)

lemma untouched_tables: "within (same (\<lambda>d. d)) m \<Longrightarrow> m w = (r, w') \<Longrightarrow> tables w' = tables w"
  by (metis same_within snd_conv)

lemma attempt_success: "attempt m w = (Inr r, w') \<Longrightarrow> m w = (r, w')"
  by (simp add: attempt_def split: prod.splits)

lemma deliver_success:
  assumes "deliver env repo token result p w = (Inr x, w')" and "forge_within (same (\<lambda>d. d)) env"
  shows "x = p \<and> tb_intents (tables w') = tb_intents (tables w) \<and> (\<exists>a. tb_attempts (tables w')
     = tb_attempts (tables w) @ [a] \<and> at_result a = attempt_result_posted \<and> at_publication_id a = pu_id p)"
proof -
  from assms(1) obtain r w1 where c: "attempt (fe_client_for env repo token) w = (Inr r, w1)"
    and rest: "(case r of
       Inl e \<Rightarrow> record_failed_attempt p e (''create forgejo status client: '' @ fe_text env e) [token]
     | Inr None \<Rightarrow> record_failed_attempt p (Plain ''create forgejo status client: nil client'')
         ''create forgejo status client: nil client'' []
     | Inr (Some client) \<Rightarrow>
         bind (attempt (fk_post_commit_status client (repo_owner repo) (repo_name repo)
           (status_of_result result))) (\<lambda>posted. case posted of
           Inl e \<Rightarrow> record_failed_attempt p e (''post forgejo commit status: '' @ fe_text env e) [token]
         | Inr _ \<Rightarrow>
             bind (record_forgejo_status_attempt p attempt_result_posted []) (\<lambda>_. ret p))) w1 = (Inr x, w')"
    unfolding deliver_def by (rule bind_cases)
  from rest obtain client where r: "r = Inr (Some client)"
    by (auto simp: failed_attempt_fails split: sum.splits option.splits)
  have made: "fe_client_for env repo token w = (Inr (Some client), w1)" using attempt_success [OF c] r by simp
  with assms(2) have t1: "tables w1 = tables w" and k: "client_within (same (\<lambda>d. d)) client"
    unfolding forge_within_def by (blast intro: untouched_tables)+
  from rest [unfolded r sum.case option.case] obtain posted w2 where
    p: "attempt (fk_post_commit_status client (repo_owner repo) (repo_name repo) (status_of_result result)) w1
      = (Inr posted, w2)"
    and rest2: "(case posted of
           Inl e \<Rightarrow> record_failed_attempt p e (''post forgejo commit status: '' @ fe_text env e) [token]
         | Inr _ \<Rightarrow> bind (record_forgejo_status_attempt p attempt_result_posted []) (\<lambda>_. ret p)) w2 = (Inr x, w')"
    by (rule bind_cases)
  have t2: "tables w2 = tables w1"
    using attempt_success [OF p] k
    by (auto simp: client_within_def intro: untouched_tables
        [of "fk_post_commit_status client (repo_owner repo) (repo_name repo) (status_of_result result)"])
  from rest2 obtain u where "posted = Inr u" by (cases posted) (simp_all add: failed_attempt_fails)
  with rest2 obtain y w3 where "record_forgejo_status_attempt p attempt_result_posted [] w2 = (Inr y, w3)"
    and "x = p" "w' = w3" by (auto simp: ret_def elim: bind_cases)
  with posted_attempt_success t1 t2 show ?thesis by metis
qed

lemma deliver_keeps_intents:
  assumes "forge_within (same (\<lambda>d. d)) env"
  shows "within (same tb_intents) (deliver env repo token result p)"
proof -
  have env: "forge_within (same tb_intents) env"
    using assms unfolding forge_within_def client_within_def by (fastforce simp: within_def same_def)
  show ?thesis unfolding deliver_def
    by (rule same.client_bind [OF env])
       (auto intro!: same.bind same.attempt same.client_calls same.sum_op publication_rows same.ret)
qed

lemma same_intents_keep: "within (same tb_intents) m \<Longrightarrow> within (keeps intents_ok) m"
  by (auto simp: within_def same_def keeps_def intents_ok_def)

text \<open>What is done once the token was asked for.\<close>

definition settle :: "forge_env \<Rightarrow> repository \<Rightarrow> status_result \<Rightarrow> publication \<Rightarrow> go_error + string option \<Rightarrow> publication go" where
  "settle env repo result p r = (case r of
     Inl e \<Rightarrow> record_failed_attempt p e (''load repository status token: '' @ fe_text env e) []
   | Inr found \<Rightarrow>
       (let token = trim_space (text_or_empty found) in
        if token = [] then record_failed_attempt p StatusTokenMissing
          ''repository status token is not configured'' []
        else deliver env repo token result p))"

lemma publish_steps: "publish env result = bind (get_repository (rs_repository_id result)) (\<lambda>repo.
    if \<not> enforcement_active repo then fail EnforcementNotActiveError
    else bind (publish_forgejo_status result) (\<lambda>p.
      bind (attempt (fe_status_token env (rs_repository_id result))) (settle env repo result p)))"
  unfolding publish_def settle_def [abs_def] by (rule refl)

text \<open>
  C26: Publishing writes the intent the result calls for and nothing else. A repository that is
  not enforced gets neither intent nor attempt: the call fails and the tables stay as they are.
  However publishing ends, intents stay unique by commit, context and mode. When it succeeds, the
  one intent of the commit shows the state of this result, the intents of other keys are as they
  were, and exactly one attempt, posted, was added for it.
\<close>

theorem publication_follows_result:
  assumes "forge_within (same (\<lambda>d. d)) env" and "intents_ok (tables w)"
  shows "case publish env result w of (out, w') \<Rightarrow>
     intents_ok (tables w')
     \<and> (idle (rs_repository_id result) (tables w) \<longrightarrow> tables w' = tables w \<and> (\<forall>p. out \<noteq> Inr p))
     \<and> (\<forall>p. out = Inr p \<longrightarrow> (\<exists>r a. intent_says result r (tables w) (tables w') \<and> p = scan_publication r
          \<and> tb_attempts (tables w') = tb_attempts (tables w) @ [a]
          \<and> at_result a = attempt_result_posted \<and> at_publication_id a = it_id r))"
proof -
  obtain out w' where run: "publish env result w = (out, w')" by (cases "publish env result w")
  let ?i = "rs_repository_id result"
  have env: "forge_within (keeps intents_ok) env" using assms(1) by (rule keeps.untouched_forge)
  have rest: "within (keeps intents_ok) (deliver env repo token result p)"
    "within (keeps intents_ok) (record_failed_attempt p cause message vs)" for repo token p cause message vs
    by (intro same_intents_keep deliver_keeps_intents assms(1) publication_rows(4))+
  have "within (keeps intents_ok) (publish env result)"
    unfolding publish_def Let_def
    by (intro keeps.rules keeps.looks [OF get_repository_looks] publication_rows rest)
       (use env in \<open>simp add: forge_within_def\<close>)
  then have kept: "intents_ok (tables w')" using assms(2) run keeps_within by (metis snd_conv)
  have idle: "tables w' = tables w \<and> (\<forall>p. out \<noteq> Inr p)" if "idle ?i (tables w)"
  proof (cases "get_repository ?i w")
    case (Pair got w1)
    then show ?thesis
    proof (cases got)
      case (Inl e)
      with Pair run observes_after [OF get_repository_looks Pair] show ?thesis by (auto simp: publish_def bind_def)
    next
      case (Inr repo)
      with Pair that have "\<not> enforcement_active repo" by (auto elim!: get_repository_success simp: idle_def)
      with Pair Inr run observes_after [OF get_repository_looks Pair] show ?thesis
        by (auto simp: publish_def run_bind fail_def)
    qed
  qed
  have success: "\<exists>r a. intent_says result r (tables w) (tables w') \<and> p = scan_publication r
          \<and> tb_attempts (tables w') = tb_attempts (tables w) @ [a]
          \<and> at_result a = attempt_result_posted \<and> at_publication_id a = it_id r" if out: "out = Inr p" for p
  proof -
    from run [unfolded out publish_steps] obtain repo w1 where g: "get_repository ?i w = (Inr repo, w1)"
      and rest: "(if \<not> enforcement_active repo then fail EnforcementNotActiveError
         else bind (publish_forgejo_status result) (\<lambda>p.
         bind (attempt (fe_status_token env ?i)) (settle env repo result p))) w1 = (Inr p, w')" by (rule bind_cases)
    have t1: "tables w1 = tables w" using observes_after [OF get_repository_looks g] by simp
    from rest have "bind (publish_forgejo_status result) (\<lambda>p. bind (attempt (fe_status_token env ?i))
        (settle env repo result p)) w1 = (Inr p, w')" by (cases "enforcement_active repo") (simp_all add: fail_def)
    then obtain q w2 where put: "publish_forgejo_status result w1 = (Inr q, w2)"
      and rest2: "bind (attempt (fe_status_token env ?i)) (settle env repo result q) w2 = (Inr p, w')" by (rule bind_cases)
    from rest2 obtain r w3 where read: "attempt (fe_status_token env ?i) w2 = (Inr r, w3)"
      and rest3: "settle env repo result q r w3 = (Inr p, w')" by (rule bind_cases)
    have t3: "tables w3 = tables w2" using attempt_success [OF read] assms(1)
      by (auto simp: forge_within_def intro: untouched_tables [of "fe_status_token env ?i"])
    from rest3 obtain token where d: "deliver env repo token result q w3 = (Inr p, w')"
      by (auto simp: settle_def failed_attempt_fails Let_def split: sum.splits if_splits)
    from publish_intent_success [OF put] assms(2) t1 obtain r where
      "q = scan_publication r" "intent_says result r (tables w) (tables w2)" by auto
    moreover have "tb_attempts (tables w2) = tb_attempts (tables w)"
      using same_within [OF publication_rows(2)] put t1 by (metis snd_conv)
    moreover have "pu_id (scan_publication r) = it_id r" by (simp add: scan_publication_def)
    ultimately show ?thesis using deliver_success [OF d assms(1)] t3 unfolding intent_says_def by auto
  qed
  show ?thesis using kept idle success by (simp add: run)
qed


text \<open>A forge that posts whatever it is given, for a repository with a token.\<close>

definition quiet_client :: forge_client where
  "quiet_client = \<lparr>fk_get_pull_request = (\<lambda>_ _ _. fail NotFound), fk_list_open_pull_requests = (\<lambda>_ _ _. ret []),
     fk_post_commit_status = (\<lambda>_ _ _. ret ()), fk_get_branch_head = (\<lambda>_ _ _. fail NotFound)\<rparr>"

definition sample_token :: string where
  "sample_token = ''0123456789abcdef''"

definition quiet_forge :: forge_env where
  "quiet_forge = \<lparr>fe_client_for = (\<lambda>_ _. ret (Some quiet_client)), fe_status_token = (\<lambda>_. ret (Some sample_token)),
     fe_text = (\<lambda>_. ''forge error'')\<rparr>"

lemma quiet_forge_within: "forge_within (same sel) quiet_forge"
  by (auto simp: forge_within_def client_within_def quiet_forge_def quiet_client_def same.ret same.fail)
     (auto simp: ret_def client_within_def same.ret same.fail)

lemma sample_token_shaped: "token_shaped sample_token"
proof -
  have "trim_space sample_token = sample_token"
    unfolding sample_token_def by (rule trim_text; simp add: is_ascii_def is_space_rune_def)
  then show ?thesis by (simp add: token_shaped_def sample_token_def)
qed

lemma quiet_posts: "posts_with sample_token quiet_forge"
  using sample_token_shaped unfolding posts_with_def token_shaped_def
  by (auto simp: quiet_forge_within) (auto simp: quiet_forge_def ret_def text_or_empty_def)

definition gate_result :: status_result where
  "gate_result = \<lparr>rs_id = 3, rs_repository_id = 1, rs_pull_request_index = 12, rs_target_branch = ''main'',
     rs_head_sha = ''abc123'', rs_context = ''thawguard/freeze'', rs_state = CommitStatusSuccess,
     rs_description = ''open'', rs_target_url = [], rs_posted_at = None, rs_error = [], rs_created_at = 5\<rparr>"

definition publish_db :: db where
  "publish_db = verified_db \<lparr>tb_results := [\<lparr>sr_id = 3, sr_repository_id = 1, sr_pull_request_index = Some 12,
     sr_target_branch = ''main'', sr_head_sha = ''abc123'', sr_context = ''thawguard/freeze'',
     sr_state = CommitStatusSuccess, sr_description = ''open'', sr_target_url = None, sr_posted_at = None,
     sr_error = None, sr_created_at = 5\<rparr>]\<rparr>"

lemma publish_texts:
  "trim_space delivery_mode_forgejo_status = delivery_mode_forgejo_status"
  "trim_space attempt_result_posted = attempt_result_posted"
  "trim_space attempt_mode_forgejo_status = attempt_mode_forgejo_status"
  "trim_space sample_token = sample_token"
  unfolding delivery_mode_forgejo_status_def attempt_result_posted_def attempt_mode_forgejo_status_def sample_token_def
  by (rule trim_text; simp add: is_ascii_def is_space_rune_def)+

lemma publish_words: "delivery_mode_forgejo_status \<noteq> []" "attempt_result_posted \<noteq> []"
  "attempt_mode_forgejo_status \<noteq> []" "attempt_result_posted \<noteq> attempt_result_failed" "sample_token \<noteq> []"
  by (simp_all add: delivery_mode_forgejo_status_def attempt_result_posted_def attempt_mode_forgejo_status_def
      attempt_result_failed_def sample_token_def)

lemma publish_run: "\<exists>p. fst (publish quiet_forge gate_result (quiet publish_db 9)) = Inr p"
proof -
  let ?w = "quiet publish_db 9"
  have g: "get_repository 1 ?w = (Inr (scan_repository publish_db (gate_repository \<lparr>repo_status_post_verified_at := Some 5\<rparr>)),
      after ?w 0 1 publish_db)"
    by (simp add: get_repository_def get_repository_for_scope_def run_simps repositories_where_def publish_db_def
        verified_db_def empty_db_def gate_repository_def first_row_def scope_allows_def all_repositories_def)
  define row where "row = \<lparr>it_id = 1, it_status_result_id = 3, it_repository_id = 1, it_pull_request_index = 12,
     it_target_branch = ''main'', it_head_sha = ''abc123'', it_context = ''thawguard/freeze'',
     it_state = CommitStatusSuccess, it_description = ''open'', it_target_url = None,
     it_delivery_mode = delivery_mode_forgejo_status, it_created_at = 9, it_updated_at = 9\<rparr>"
  let ?d = "publish_db \<lparr>tb_intents := [row]\<rparr>"
  have put: "publish_forgejo_status gate_result (after ?w 0 1 publish_db) = (Inr (scan_publication row), after ?w 1 3 ?d)"
    by (simp add: publish_forgejo_status_def publish_intent_def Let_def run_simps gate_result_def
        publication_from_result_def normalize_publication_def gate_simps publish_texts validate_publication_def
        when_invalid_def valid_state_def upsert_intent_def get_by_idempotency_key_def same_intent_def first_row_def
        row_def publish_db_def verified_db_def empty_db_def gate_repository_def fresh_id_def optional_text_def
        publish_words eval_nat_numeral)
  have "\<exists>x w'. record_forgejo_status_attempt (scan_publication row) attempt_result_posted [] (after ?w 1 3 ?d) = (Inr x, w')"
    unfolding record_forgejo_status_attempt_def record_attempt_def
    by (subst run_bind(1) [OF run_now])
       (simp add: run_simps Let_def attempt_from_publication_def normalize_attempt_def scan_publication_def row_def
        gate_simps publish_texts publish_words validate_attempt_def when_invalid_def valid_state_def get_attempt_def
        first_row_def fresh_id_def is_zero_def zero_time_def publish_db_def verified_db_def empty_db_def
        gate_repository_def text_or_empty_def)
  then obtain x w1 where
    "record_forgejo_status_attempt (scan_publication row) attempt_result_posted [] (after ?w 1 3 ?d) = (Inr x, w1)" by blast
  then have "\<exists>w'. deliver quiet_forge repo sample_token gate_result (scan_publication row) (after ?w 1 3 ?d)
      = (Inr (scan_publication row), w')" for repo
    by (simp add: deliver_def quiet_forge_def quiet_client_def run_simps)
  then obtain w' where "deliver quiet_forge (scan_repository publish_db
      (gate_repository \<lparr>repo_status_post_verified_at := Some 5\<rparr>)) sample_token gate_result (scan_publication row)
      (after ?w 1 3 ?d) = (Inr (scan_publication row), w')" by blast
  moreover have "attempt (fe_status_token quiet_forge i) w = (Inr (Inr (Some sample_token)), w)" for i w
    by (simp add: quiet_forge_def attempt_def ret_def)
  moreover have "rs_repository_id gate_result = 1" by (simp add: gate_result_def)
  moreover have "enforcement_active (gate_repository \<lparr>repo_status_post_verified_at := Some 5\<rparr>)"
    by (simp add: enforcement_active_def gate_repository_def)
  ultimately show ?thesis
    by (simp add: publish_steps g put run_simps settle_def text_or_empty_def publish_texts publish_words
        del: One_nat_def)
qed

lemma publication_hides_token_witness:
  "case publish quiet_forge gate_result (quiet publish_db 9) of (r, w') \<Rightarrow>
     attempts_hide sample_token (tables (quiet publish_db 9)) (tables w')
     \<and> (case r of Inl e \<Rightarrow> error_hides sample_token e | Inr _ \<Rightarrow> True)"
  using publication_hides_token [OF quiet_posts sample_token_shaped] .

lemma publication_follows_result_witness:
  "\<exists>p w' r. publish quiet_forge gate_result (quiet publish_db 9) = (Inr p, w')
     \<and> intent_says gate_result r publish_db (tables w') \<and> p = scan_publication r
     \<and> length (tb_attempts (tables w')) = 1"
proof -
  from publish_run obtain p w' where run: "publish quiet_forge gate_result (quiet publish_db 9) = (Inr p, w')"
    by (metis prod.collapse)
  have "intents_ok (tables (quiet publish_db 9))"
    by (simp add: intents_ok_def run_simps publish_db_def verified_db_def empty_db_def)
  from publication_follows_result [OF quiet_forge_within this, of gate_result] run show ?thesis
    by (auto simp: run_simps) (auto simp: publish_db_def verified_db_def empty_db_def)
qed

end
