(* ===== verification/Roles.thy ===== *)
theory Roles
  imports Scope
begin

text \<open>
  Roles and grants (\<open>internal/auth/roles.go\<close>, \<open>grants.go\<close>): what a user may see and do. A grant
  map from repositories to roles is the list of its entries; the loader of
  \<open>repository_grants.go\<close> builds it row by row, so no repository occurs twice.
\<close>

type_synonym role = string

definition role_admin :: role where "role_admin = ''admin''"
definition role_freezer :: role where "role_freezer = ''freezer''"
definition role_thaw_approver :: role where "role_thaw_approver = ''thaw_approver''"
definition role_viewer :: role where "role_viewer = ''viewer''"

lemmas role_defs = role_admin_def role_freezer_def role_thaw_approver_def role_viewer_def

definition role_set_contains :: "role list \<Rightarrow> role \<Rightarrow> bool" where
  "role_set_contains roles want \<longleftrightarrow> list_ex (\<lambda>r. r = want) roles"

definition role_valid :: "role \<Rightarrow> bool" where
  "role_valid r \<longleftrightarrow> r = role_admin \<or> r = role_freezer \<or> r = role_thaw_approver \<or> r = role_viewer"

definition role_label :: "role \<Rightarrow> string" where
  "role_label r =
     (if r = role_admin then ''Admin'' else if r = role_freezer then ''Freezer''
      else if r = role_thaw_approver then ''Thaw approver''
      else if r = role_viewer then ''Viewer'' else r)"

definition role_set_label :: "role list \<Rightarrow> string" where
  "role_set_label roles = join_with '', '' (map role_label roles)"

definition all_roles :: "role list" where
  "all_roles = [role_admin, role_freezer, role_thaw_approver, role_viewer]"

definition normalize_role_set :: "role list \<Rightarrow> role list \<times> bool" where
  "normalize_role_set raw =
     (let named = filter (\<lambda>r. r \<noteq> []) (map trim_space raw); seen = filter role_valid named in
      (filter (\<lambda>r. role_set_contains seen r) all_roles, list_all role_valid named))"

subsection \<open>Grants\<close>

record grants =
  gr_is_admin :: bool
  gr_by_repository :: "(int \<times> role list) list"

definition repository_roles :: "role list" where
  "repository_roles = [role_viewer, role_freezer, role_thaw_approver]"

definition valid_for_repository :: "role \<Rightarrow> bool" where
  "valid_for_repository r \<longleftrightarrow> r = role_freezer \<or> r = role_thaw_approver \<or> r = role_viewer"

definition new_grants :: "bool \<Rightarrow> (int \<times> role list) list \<Rightarrow> grants" where
  "new_grants is_admin scoped = \<lparr>gr_is_admin = is_admin,
     gr_by_repository = filter (\<lambda>e. snd e \<noteq> [])
       (map (\<lambda>e. (fst e, filter (role_set_contains (snd e)) repository_roles)) (filter (\<lambda>e. fst e > 0) scoped))\<rparr>"

definition roles_on :: "grants \<Rightarrow> int \<Rightarrow> role list" where
  "roles_on g i = (case map_of (gr_by_repository g) i of None \<Rightarrow> [] | Some roles \<Rightarrow> roles)"

definition can_manage_installation :: "grants \<Rightarrow> bool" where
  "can_manage_installation g = gr_is_admin g"

definition has_repository_access :: "grants \<Rightarrow> bool" where
  "has_repository_access g \<longleftrightarrow> can_manage_installation g \<or> length (gr_by_repository g) > 0"

definition can_view_repository :: "grants \<Rightarrow> int \<Rightarrow> bool" where
  "can_view_repository g i =
     (if i \<le> 0 then False else if gr_is_admin g then True else length (roles_on g i) > 0)"

definition repository_read_scope :: "grants \<Rightarrow> read_scope" where
  "repository_read_scope g =
     (if gr_is_admin g then all_repositories else scope_of_ids (map fst (gr_by_repository g)))"

definition can_freeze_repository :: "grants \<Rightarrow> int \<Rightarrow> bool" where
  "can_freeze_repository g i = (if i \<le> 0 then False else role_set_contains (roles_on g i) role_freezer)"

definition can_thaw_repository :: "grants \<Rightarrow> int \<Rightarrow> bool" where
  "can_thaw_repository g i = (if i \<le> 0 then False else role_set_contains (roles_on g i) role_thaw_approver)"

text \<open>\<open>scoped[repositoryID] = append(scoped[repositoryID], role)\<close>, over the rows of a user.\<close>

fun append_role :: "(int \<times> role list) list \<Rightarrow> int \<times> role \<Rightarrow> (int \<times> role list) list" where
  "append_role [] (i, r) = [(i, [r])]"
| "append_role ((j, roles) # m) (i, r) =
     (if j = i then (j, roles @ [r]) # m else (j, roles) # append_role m (i, r))"

definition scoped_roles :: "(int \<times> role) list \<Rightarrow> (int \<times> role list) list" where
  "scoped_roles rows = foldl append_role [] rows"

subsection \<open>What grants allow\<close>

lemma contains_iff [simp]: "role_set_contains roles r \<longleftrightarrow> r \<in> set roles"
  by (auto simp: role_set_contains_def list_ex_iff)

lemma append_role_keys:
  "fst ` set (append_role m e) = insert (fst e) (fst ` set m)"
  "distinct (map fst m) \<Longrightarrow> distinct (map fst (append_role m e))"
  by (induction m e rule: append_role.induct) auto

lemma append_role_lookup:
  "map_of (append_role m e) i = (if i = fst e
     then Some ((case map_of m i of None \<Rightarrow> [] | Some roles \<Rightarrow> roles) @ [snd e]) else map_of m i)"
  by (induction m e rule: append_role.induct) auto

lemma scoped_roles_lookup:
  "map_of (scoped_roles rows) i = (let rs = map snd (filter (\<lambda>e. fst e = i) rows) in
     if rs = [] then None else Some rs)"
proof (induction rows rule: rev_induct)
  case (snoc e rows)
  then show ?case by (auto simp: scoped_roles_def append_role_lookup Let_def split: if_splits)
qed (simp add: scoped_roles_def)

lemma scoped_roles_distinct: "distinct (map fst (scoped_roles rows))"
  by (induction rows rule: rev_induct) (simp_all add: scoped_roles_def append_role_keys)

lemma map_of_filtered:
  "distinct (map fst m) \<Longrightarrow> map_of (filter (\<lambda>e. snd e \<noteq> []) (map (\<lambda>e. (fst e, f (snd e))) (filter (\<lambda>e. p (fst e)) m))) i
     = (if p i then (case map_of m i of None \<Rightarrow> None | Some v \<Rightarrow> if f v = [] then None else Some (f v)) else None)"
proof (induction m)
  case (Cons e m)
  then have "map_of m (fst e) = None" by (auto simp: map_of_eq_None_iff)
  with Cons show ?case by (cases e) (auto split: option.splits)
qed simp

lemma repository_roles_set [simp]: "r \<in> set repository_roles \<longleftrightarrow> valid_for_repository r"
  by (auto simp: repository_roles_def valid_for_repository_def)

lemma roles_on_loaded:
  "r \<in> set (roles_on (new_grants a (scoped_roles rows)) i) \<longleftrightarrow> 0 < i \<and> valid_for_repository r \<and> (i, r) \<in> set rows"
  unfolding roles_on_def new_grants_def grants.simps
  by (subst map_of_filtered [where f = "\<lambda>rs. filter (role_set_contains rs) repository_roles" and p = "\<lambda>i. i > 0", OF scoped_roles_distinct])
     (force simp: scoped_roles_lookup Let_def filter_empty_conv split: if_splits option.splits)

text \<open>
  C15: What a user may do follows the rows of the tables and nothing else. A user who holds a role
  on a repository sees it, freezing takes the freezer role and thawing the approver role on that
  very repository, and being an administrator shows everything but lets nobody freeze or thaw.
  What the list queries return is exactly what the single checks allow, and an administrator alone
  sees what belongs to no repository.
\<close>

theorem grants_decide_access:
  "let g = new_grants is_admin (scoped_roles rows) in
    (can_view_repository g i \<longleftrightarrow> 0 < i \<and> (is_admin \<or> (\<exists>r. valid_for_repository r \<and> (i, r) \<in> set rows)))
    \<and> (can_freeze_repository g i \<longleftrightarrow> 0 < i \<and> (i, role_freezer) \<in> set rows)
    \<and> (can_thaw_repository g i \<longleftrightarrow> 0 < i \<and> (i, role_thaw_approver) \<in> set rows)
    \<and> (has_repository_access g \<longleftrightarrow> is_admin \<or> (\<exists>j. can_view_repository g j))
    \<and> (scope_allows (repository_read_scope g) (Some i) \<longleftrightarrow> can_view_repository g i \<or> is_admin)
    \<and> (scope_allows (repository_read_scope g) None \<longleftrightarrow> can_manage_installation g)"
proof -
  define g where "g = new_grants is_admin (scoped_roles rows)"
  have admin: "gr_is_admin g = is_admin" by (simp add: g_def new_grants_def)
  have some: "0 < length (roles_on g j) \<longleftrightarrow> 0 < j \<and> (\<exists>r. valid_for_repository r \<and> (j, r) \<in> set rows)" for j
  proof -
    have "0 < length (roles_on g j) \<longleftrightarrow> (\<exists>r. r \<in> set (roles_on g j))"
      by (cases "roles_on g j") auto
    then show ?thesis by (auto simp: g_def roles_on_loaded)
  qed
  have nonempty: "v \<noteq> []" if "(j, v) \<in> set (gr_by_repository g)" for j v
    using that by (auto simp: g_def new_grants_def)
  have keys: "j \<in> set (map fst (gr_by_repository g)) \<longleftrightarrow> 0 < length (roles_on g j)" for j
  proof (cases "map_of (gr_by_repository g) j")
    case None
    then have "j \<notin> set (map fst (gr_by_repository g))" by (simp add: map_of_eq_None_iff)
    then show ?thesis by (simp add: roles_on_def None)
  next
    case (Some v)
    from nonempty [OF map_of_SomeD [OF Some]] map_of_SomeD [OF Some] show ?thesis
      by (simp add: roles_on_def Some) (metis fst_conv image_eqI)
  qed
  have view: "can_view_repository g j \<longleftrightarrow> 0 < j \<and> (is_admin \<or> 0 < length (roles_on g j))" for j
    by (auto simp: can_view_repository_def admin)
  have "has_repository_access g \<longleftrightarrow> is_admin \<or> (\<exists>j. can_view_repository g j)"
    unfolding has_repository_access_def can_manage_installation_def admin view
    using keys some by (metis (no_types, opaque_lifting) length_greater_0_conv length_map list.set_intros(1) list.set_sel(1) list.size(3) less_numeral_extra(3) empty_iff list.set(1))
  moreover have "scope_allows (repository_read_scope g) (Some i) \<longleftrightarrow> can_view_repository g i \<or> is_admin"
    using scope_of_ids_exact [of "map fst (gr_by_repository g)" i] keys [of i]
    by (auto simp: repository_read_scope_def admin view)
  moreover have "scope_allows (repository_read_scope g) None \<longleftrightarrow> can_manage_installation g"
    using scope_of_ids_exact [of "map fst (gr_by_repository g)" i]
    by (auto simp: repository_read_scope_def admin can_manage_installation_def)
  ultimately show ?thesis
    unfolding Let_def g_def [symmetric] view some can_freeze_repository_def can_thaw_repository_def contains_iff
    by (auto simp: g_def roles_on_loaded valid_for_repository_def)
qed

end
