(* ===== verification/Base64.thy ===== *)
theory Base64
  imports GoText
begin

text \<open>
  \<open>encoding/base64\<close> without padding, as the authentication code uses it: \<open>RawStdEncoding\<close> for
  password hashes and \<open>RawURLEncoding\<close> for tokens. The decoder skips line ends, refuses other
  foreign characters and a dangling sextet, and ignores the spare bits of the last character;
  so a decodable text need not be the encoding of anything, which is why the code compares a
  token with its re-encoding.
\<close>

definition std_alphabet :: string where
  "std_alphabet = ''ABCDEFGHIJKLMNOPQRSTUVWXYZabcdefghijklmnopqrstuvwxyz0123456789+/''"

definition url_alphabet :: string where
  "url_alphabet = ''ABCDEFGHIJKLMNOPQRSTUVWXYZabcdefghijklmnopqrstuvwxyz0123456789-_''"

fun sextets :: "nat list \<Rightarrow> nat list" where
  "sextets [] = []"
| "sextets [a] = [a div 4, a mod 4 * 16]"
| "sextets [a, b] = [a div 4, a mod 4 * 16 + b div 16, b mod 16 * 4]"
| "sextets (a # b # c # bs) =
     a div 4 # (a mod 4 * 16 + b div 16) # (b mod 16 * 4 + c div 64) # c mod 64 # sextets bs"

fun octets :: "nat list \<Rightarrow> nat list option" where
  "octets [] = Some []"
| "octets [a] = None"
| "octets [a, b] = Some [a * 4 + b div 16]"
| "octets [a, b, c] = Some [a * 4 + b div 16, b mod 16 * 16 + c div 4]"
| "octets (a # b # c # d # cs) =
     map_option (\<lambda>bs. (a * 4 + b div 16) # (b mod 16 * 16 + c div 4) # (c mod 4 * 64 + d) # bs) (octets cs)"

definition base64_encode :: "string \<Rightarrow> string \<Rightarrow> string" where
  "base64_encode alphabet s = map (\<lambda>n. alphabet ! n) (sextets (map byte_of s))"

definition position :: "string \<Rightarrow> char \<Rightarrow> nat" where
  "position alphabet c = length (takeWhile (\<lambda>x. x \<noteq> c) alphabet)"

definition is_line_end :: "char \<Rightarrow> bool" where
  "is_line_end c \<longleftrightarrow> byte_of c \<in> {10, 13 :: nat}"

definition base64_decode :: "string \<Rightarrow> string \<Rightarrow> string option" where
  "base64_decode alphabet s =
     (let kept = filter (\<lambda>c. \<not> is_line_end c) s in
      if list_all (\<lambda>c. c \<in> set alphabet) kept
      then map_option (map char_of) (octets (map (position alphabet) kept)) else None)"

definition encoded_len :: "nat \<Rightarrow> nat" where
  "encoded_len n = n div 3 * 4 + (n mod 3 * 8 + 5) div 6"

text \<open>The test the code makes of a token of \<open>n\<close> random bytes.\<close>

definition canonical_token :: "nat \<Rightarrow> string \<Rightarrow> bool" where
  "canonical_token n t \<longleftrightarrow> length t = encoded_len n
     \<and> (case base64_decode url_alphabet t of None \<Rightarrow> False
        | Some raw \<Rightarrow> length raw = n \<and> base64_encode url_alphabet raw = t)"

subsection \<open>Round trip\<close>

lemma encoded_len_simps:
  "encoded_len 0 = 0" "encoded_len (Suc 0) = 2" "encoded_len (Suc (Suc 0)) = 3"
  "encoded_len (Suc (Suc (Suc n))) = Suc (Suc (Suc (Suc (encoded_len n))))"
proof -
  have "(n + 3) div 3 = n div 3 + 1" "(n + 3) mod 3 = n mod 3" by simp_all
  then have "encoded_len (n + 3) = encoded_len n + 4" by (simp only: encoded_len_def) simp
  then show "encoded_len (Suc (Suc (Suc n))) = Suc (Suc (Suc (Suc (encoded_len n))))"
    by (simp add: eval_nat_numeral)
qed (simp_all add: encoded_len_def)

lemma length_sextets: "length (sextets bs) = encoded_len (length bs)"
  by (induction bs rule: sextets.induct) (simp_all add: encoded_len_simps)

lemma length_encode [simp]: "length (base64_encode alphabet s) = encoded_len (length s)"
  by (simp add: base64_encode_def length_sextets)

lemma byte_bits:
  assumes "(b::nat) < 256"
  shows "b div 16 div 16 = 0" "b div 16 mod 16 = b div 16" "b div 64 div 4 = 0"
    "b div 64 mod 4 = b div 64" "b div 4 < 64" "b div 16 < 16" "b div 64 < 4"
  using assms by (simp_all add: div_mult2_eq [symmetric] less_mult_imp_div_less)

lemma octets_sextets: "\<forall>b \<in> set bs. b < 256 \<Longrightarrow> octets (sextets bs) = Some bs"
  by (induction bs rule: sextets.induct) (simp_all add: byte_bits)

lemma sextet_bounds:
  assumes "(b::nat) < 256"
  shows "a mod 4 * 16 + b div 16 < 64" "a mod 16 * 4 + b div 64 < 64"
proof -
  have "a mod 4 \<le> 3" "a mod 16 \<le> 15" by (simp_all add: less_Suc_eq_le [symmetric])
  with byte_bits(6,7) [OF assms] show "a mod 4 * 16 + b div 16 < 64" "a mod 16 * 4 + b div 64 < 64"
    by linarith+
qed

lemma sextets_less: "\<forall>b \<in> set bs. b < 256 \<Longrightarrow> \<forall>n \<in> set (sextets bs). n < 64"
  by (induction bs rule: sextets.induct)
    (simp_all add: byte_bits sextet_bounds sextet_bounds [where b = 0, simplified])

definition alphabet_ok :: "string \<Rightarrow> bool" where
  "alphabet_ok alphabet \<longleftrightarrow> length alphabet = 64 \<and> distinct alphabet \<and> \<not> list_ex is_line_end alphabet"

lemma alphabets_ok [simp]: "alphabet_ok std_alphabet" "alphabet_ok url_alphabet"
  by (code_simp, code_simp)

lemma position_nth: "distinct alphabet \<Longrightarrow> n < length alphabet \<Longrightarrow> position alphabet (alphabet ! n) = n"
proof -
  assume d: "distinct alphabet" and n: "n < length alphabet"
  have "takeWhile (\<lambda>x. x \<noteq> alphabet ! n) alphabet = take n alphabet"
    by (rule takeWhile_eq_take_P_nth) (use d n in \<open>auto simp: nth_eq_iff_index_eq\<close>)
  with n show ?thesis by (simp add: position_def)
qed

lemma base64_round_trip:
  assumes "alphabet_ok alphabet"
  shows "base64_decode alphabet (base64_encode alphabet s) = Some s"
proof -
  have bytes: "\<forall>b \<in> set (map byte_of s). b < (256::nat)" by (simp add: byte_of_less)
  note low = sextets_less [OF bytes]
  let ?e = "base64_encode alphabet s"
  have a: "length alphabet = 64" "distinct alphabet" "\<not> list_ex is_line_end alphabet"
    using assms by (simp_all add: alphabet_ok_def)
  then have mem: "\<forall>c \<in> set ?e. c \<in> set alphabet \<and> \<not> is_line_end c"
    using low by (auto simp: base64_encode_def list_ex_iff)
  then have kept: "filter (\<lambda>c. \<not> is_line_end c) ?e = ?e" by (simp add: filter_id_conv)
  have "map (position alphabet) ?e = sextets (map byte_of s)"
    using low a by (auto simp: base64_encode_def position_nth intro: map_idI)
  then have "octets (map (position alphabet) ?e) = Some (map byte_of s)"
    using octets_sextets [OF bytes] by simp
  with kept mem show ?thesis
    by (simp add: base64_decode_def list_all_iff Let_def comp_def)
qed

text \<open>
  A token passes the test exactly when it is the encoding of \<open>n\<close> bytes: no two texts stand for
  the same bytes.
\<close>

lemma canonical_token_iff:
  "canonical_token n t \<longleftrightarrow> (\<exists>raw. length raw = n \<and> t = base64_encode url_alphabet raw)"
  by (auto simp: canonical_token_def base64_round_trip split: option.splits)

end
