(* ===== verification/Passwords.thy ===== *)
theory Passwords
  imports Base64 AuditLog "HOL-Library.Word"
begin

text \<open>
  Password hashes (\<open>internal/auth/password.go\<close>): the text in which salt, cost parameters and key
  are stored, and the verification of a password against such a text. Argon2 is a third-party
  package and a parameter with its version number; randomness is the \<open>entropy\<close> a call is given,
  whose n-th reading of \<open>crypto/rand\<close> fails or fills the buffer.
\<close>

record argon2_env =
  a2_version :: nat
  a2_id_key :: "string \<Rightarrow> string \<Rightarrow> 32 word \<Rightarrow> 32 word \<Rightarrow> 8 word \<Rightarrow> 32 word \<Rightarrow> string"

type_synonym entropy = "nat \<Rightarrow> (nat \<Rightarrow> char) option"

definition read_random :: "entropy \<Rightarrow> nat \<Rightarrow> nat \<Rightarrow> go_error + string" where
  "read_random e k n = (case e k of None \<Rightarrow> Inl (Plain ''entropy source'') | Some f \<Rightarrow> Inr (map f [0..<n]))"

record password_hash_params =
  pp_memory :: "32 word"
  pp_iterations :: "32 word"
  pp_parallelism :: "8 word"
  pp_salt_length :: "32 word"
  pp_key_length :: "32 word"

definition password_hash_algorithm :: string where
  "password_hash_algorithm = ''argon2id''"

definition default_password_hash_params :: password_hash_params where
  "default_password_hash_params = \<lparr>pp_memory = 64 * 1024, pp_iterations = 3, pp_parallelism = 2,
     pp_salt_length = 16, pp_key_length = 32\<rparr>"

definition derive_key :: "argon2_env \<Rightarrow> password_hash_params \<Rightarrow> string \<Rightarrow> string \<Rightarrow> string" where
  "derive_key a p password salt = a2_id_key a password salt (pp_iterations p) (pp_memory p)
     (pp_parallelism p) (pp_key_length p)"

definition encode_password_hash :: "argon2_env \<Rightarrow> password_hash_params \<Rightarrow> string \<Rightarrow> string \<Rightarrow> string" where
  "encode_password_hash a p salt hash =
     CHR ''$'' # password_hash_algorithm @ CHR ''$'' # ''v='' @ decimal (a2_version a)
     @ CHR ''$'' # (''m='' @ decimal (unat (pp_memory p)) @ '',t='' @ decimal (unat (pp_iterations p))
         @ '',p='' @ decimal (unat (pp_parallelism p)))
     @ CHR ''$'' # base64_encode std_alphabet salt @ CHR ''$'' # base64_encode std_alphabet hash"

definition hash_password_with ::
    "argon2_env \<Rightarrow> entropy \<Rightarrow> nat \<Rightarrow> string \<Rightarrow> password_hash_params \<Rightarrow> go_error + string" where
  "hash_password_with a e k password p =
     (if password = [] then Inl (Plain ''password is required'')
      else case read_random e k (unat (pp_salt_length p)) of
        Inl err \<Rightarrow> Inl err
      | Inr salt \<Rightarrow> Inr (encode_password_hash a p salt (derive_key a p password salt)))"

definition hash_password :: "argon2_env \<Rightarrow> entropy \<Rightarrow> nat \<Rightarrow> string \<Rightarrow> go_error + string" where
  "hash_password a e k password = hash_password_with a e k password default_password_hash_params"

subsection \<open>Reading a hash\<close>

text \<open>\<open>strings.Split\<close> and \<open>strings.Cut\<close> for a separator of one character.\<close>

fun split_on :: "char \<Rightarrow> string \<Rightarrow> string list" where
  "split_on c [] = [[]]"
| "split_on c (x # xs) =
     (if x = c then [] # split_on c xs
      else case split_on c xs of [] \<Rightarrow> [[x]] | y # ys \<Rightarrow> (x # y) # ys)"

definition cut_at :: "char \<Rightarrow> string \<Rightarrow> (string \<times> string) option" where
  "cut_at c s = (case dropWhile (\<lambda>x. x \<noteq> c) s of
     [] \<Rightarrow> None | _ # rest \<Rightarrow> Some (takeWhile (\<lambda>x. x \<noteq> c) s, rest))"

text \<open>\<open>strconv.ParseUint(raw, 10, bits)\<close>; None stands for its syntax and range errors.\<close>

definition parse_uint :: "nat \<Rightarrow> string \<Rightarrow> nat option" where
  "parse_uint bits raw =
     (if raw = [] \<or> \<not> list_all is_digit raw \<or> digits_value raw \<ge> 2 ^ bits then None
      else Some (nat (digits_value raw)))"

definition parse_uint32 :: "string \<Rightarrow> 32 word option" where
  "parse_uint32 raw = map_option of_nat (parse_uint 32 raw)"

definition parse_uint8 :: "string \<Rightarrow> 8 word option" where
  "parse_uint8 raw = map_option of_nat (parse_uint 8 raw)"

fun all_present :: "'a option list \<Rightarrow> 'a list option" where
  "all_present [] = Some []"
| "all_present (None # xs) = None"
| "all_present (Some x # xs) = map_option ((#) x) (all_present xs)"

text \<open>A missing key reads as the empty text, a repeated one as its last value.\<close>

definition field_of :: "(string \<times> string) list \<Rightarrow> string \<Rightarrow> string" where
  "field_of values k = (case map_of (rev values) k of None \<Rightarrow> [] | Some v \<Rightarrow> v)"

definition decode_password_hash_params :: "string \<Rightarrow> go_error + password_hash_params" where
  "decode_password_hash_params encoded =
     (case all_present (map (cut_at (CHR ''='')) (split_on (CHR '','') encoded)) of
        None \<Rightarrow> Inl (Plain ''invalid password hash parameters'')
      | Some values \<Rightarrow> (case parse_uint32 (field_of values ''m'') of
          None \<Rightarrow> Inl (Plain ''invalid argon2 memory'')
        | Some memory \<Rightarrow> (case parse_uint32 (field_of values ''t'') of
            None \<Rightarrow> Inl (Plain ''invalid argon2 iterations'')
          | Some iterations \<Rightarrow> (case parse_uint8 (field_of values ''p'') of
              None \<Rightarrow> Inl (Plain ''invalid argon2 parallelism'')
            | Some parallelism \<Rightarrow>
                if memory = 0 \<or> iterations = 0 \<or> parallelism = 0
                then Inl (Plain ''argon2 parameters must be positive'')
                else Inr \<lparr>pp_memory = memory, pp_iterations = iterations, pp_parallelism = parallelism,
                  pp_salt_length = 0, pp_key_length = 0\<rparr>))))"

definition decode_password_hash ::
    "argon2_env \<Rightarrow> string \<Rightarrow> go_error + password_hash_params \<times> string \<times> string" where
  "decode_password_hash a encoded = (case split_on (CHR ''$'') encoded of
     [lead, algorithm, version, costs, salt_text, hash_text] \<Rightarrow>
       if lead \<noteq> [] \<or> algorithm \<noteq> password_hash_algorithm
       then Inl (Plain ''unsupported password hash format'')
       else if version \<noteq> ''v='' @ decimal (a2_version a) then Inl (Plain ''unsupported argon2 version'')
       else (case decode_password_hash_params costs of
         Inl err \<Rightarrow> Inl err
       | Inr p \<Rightarrow> (case base64_decode std_alphabet salt_text of
           None \<Rightarrow> Inl (Plain ''decode password salt'')
         | Some salt \<Rightarrow> (case base64_decode std_alphabet hash_text of
             None \<Rightarrow> Inl (Plain ''decode password hash'')
           | Some hash \<Rightarrow>
               if salt = [] \<or> hash = [] then Inl (Plain ''password hash is incomplete'')
               else Inr (p \<lparr>pp_salt_length := of_nat (length salt), pp_key_length := of_nat (length hash)\<rparr>,
                 salt, hash))))
   | _ \<Rightarrow> Inl (Plain ''unsupported password hash format''))"

definition verify_password :: "argon2_env \<Rightarrow> string \<Rightarrow> string \<Rightarrow> go_error + bool" where
  "verify_password a password encoded = (case decode_password_hash a encoded of
     Inl err \<Rightarrow> Inl err
   | Inr (p, salt, expected) \<Rightarrow> Inr (derive_key a p password salt = expected))"

subsection \<open>Hashing and verifying\<close>

lemma split_on_none: "c \<notin> set x \<Longrightarrow> split_on c x = [x]"
  by (induction x) auto

lemma split_on_sep: "c \<notin> set x \<Longrightarrow> split_on c (x @ c # y) = x # split_on c y"
  by (induction x) auto

lemma cut_at_sep: "c \<notin> set x \<Longrightarrow> cut_at c (x @ c # y) = Some (x, y)"
proof (induction x)
  case (Cons a x)
  then have "cut_at c (x @ c # y) = Some (x, y)" "a \<noteq> c" by auto
  then show ?case by (auto simp: cut_at_def split: list.splits)
qed (simp add: cut_at_def)

lemma digit_chars: "list_all is_digit s \<Longrightarrow> \<not> is_digit c \<Longrightarrow> c \<notin> set s"
  by (auto simp: list_all_iff)

lemma separators: "\<not> is_digit (CHR ''$'')" "\<not> is_digit (CHR '','')" "\<not> is_digit (CHR ''='')"
  by (simp_all add: is_digit_def)

lemmas decimal_clean = digit_chars [OF decimal_digits]

lemma decimal_nonempty: "decimal n \<noteq> []"
  using decimal_head [of n] by (cases "n = 0") (simp_all add: decimal.simps [of 0])

lemma parse_uint_decimal: "n < 2 ^ bits \<Longrightarrow> parse_uint bits (decimal n) = Some n"
  by (simp add: parse_uint_def decimal_nonempty decimal_digits digits_value_decimal)

lemma encode_clean: "alphabet_ok alphabet \<Longrightarrow> c \<notin> set alphabet \<Longrightarrow> c \<notin> set (base64_encode alphabet s)"
proof -
  assume a: "alphabet_ok alphabet" "c \<notin> set alphabet"
  have "\<forall>n \<in> set (sextets (map byte_of s)). n < 64" by (rule sextets_less) (simp add: byte_of_less)
  with a show ?thesis by (auto simp: base64_encode_def alphabet_ok_def)
qed

lemma dollar_clean: "CHR ''$'' \<notin> set (base64_encode std_alphabet s)"
  by (rule encode_clean) (simp, code_simp)

lemma parse_words:
  "parse_uint32 (decimal (unat (m :: 32 word))) = Some m" "parse_uint8 (decimal (unat (p :: 8 word))) = Some p"
  using unsigned_less [of m, where ?'a = nat] unsigned_less [of p, where ?'a = nat]
  by (simp_all add: parse_uint32_def parse_uint8_def parse_uint_decimal)

lemma decode_costs:
  assumes "m \<noteq> 0" "t \<noteq> 0" "p \<noteq> 0"
  shows "decode_password_hash_params (''m='' @ decimal (unat m) @ '',t='' @ decimal (unat t)
      @ '',p='' @ decimal (unat p)) = Inr \<lparr>pp_memory = m, pp_iterations = t, pp_parallelism = p,
      pp_salt_length = 0, pp_key_length = 0\<rparr>"
proof -
  have "split_on (CHR '','') ((''m='' @ decimal (unat m)) @ CHR '','' # (''t='' @ decimal (unat t))
      @ CHR '','' # (''p='' @ decimal (unat p)))
    = [''m='' @ decimal (unat m), ''t='' @ decimal (unat t), ''p='' @ decimal (unat p)]"
    by (subst split_on_sep, simp add: decimal_clean separators)+ (subst split_on_none, simp_all add: decimal_clean separators)
  then have s: "split_on (CHR '','') (''m='' @ decimal (unat m) @ '',t='' @ decimal (unat t)
      @ '',p='' @ decimal (unat p)) = [''m'' @ CHR ''='' # decimal (unat m),
        ''t'' @ CHR ''='' # decimal (unat t), ''p'' @ CHR ''='' # decimal (unat p)]"
    by simp
  have "cut_at (CHR ''='') (''m'' @ CHR ''='' # decimal (unat m)) = Some (''m'', decimal (unat m))"
    "cut_at (CHR ''='') (''t'' @ CHR ''='' # decimal (unat t)) = Some (''t'', decimal (unat t))"
    "cut_at (CHR ''='') (''p'' @ CHR ''='' # decimal (unat p)) = Some (''p'', decimal (unat p))"
    by (rule cut_at_sep, simp)+
  with s assms show ?thesis
    by (simp only: decode_password_hash_params_def list.map all_present.simps)
       (simp add: field_of_def parse_words)
qed

lemma decode_encoded:
  assumes "pp_memory p \<noteq> 0" "pp_iterations p \<noteq> 0" "pp_parallelism p \<noteq> 0" "salt \<noteq> []" "hash \<noteq> []"
  shows "decode_password_hash a (encode_password_hash a p salt hash) =
    Inr (p \<lparr>pp_salt_length := of_nat (length salt), pp_key_length := of_nat (length hash)\<rparr>, salt, hash)"
proof -
  let ?costs = "''m='' @ decimal (unat (pp_memory p)) @ '',t='' @ decimal (unat (pp_iterations p))
      @ '',p='' @ decimal (unat (pp_parallelism p))"
  let ?version = "''v='' @ decimal (a2_version a)"
  let ?salt = "base64_encode std_alphabet salt" and ?hash = "base64_encode std_alphabet hash"
  have "encode_password_hash a p salt hash = [] @ CHR ''$'' # password_hash_algorithm @ CHR ''$'' # ?version
      @ CHR ''$'' # ?costs @ CHR ''$'' # ?salt @ CHR ''$'' # ?hash"
    by (simp add: encode_password_hash_def)
  moreover have clean: "CHR ''$'' \<notin> set []" "CHR ''$'' \<notin> set password_hash_algorithm"
    "CHR ''$'' \<notin> set ?version" "CHR ''$'' \<notin> set ?costs"
    by (simp_all add: password_hash_algorithm_def decimal_clean separators)
  ultimately have s: "split_on (CHR ''$'') (encode_password_hash a p salt hash)
      = [[], password_hash_algorithm, ?version, ?costs, ?salt, ?hash]"
    by (simp only: split_on_sep [OF clean(1)] split_on_sep [OF clean(2)] split_on_sep [OF clean(3)]
      split_on_sep [OF clean(4)] split_on_sep [OF dollar_clean] split_on_none [OF dollar_clean])
  show ?thesis
    using assms by (simp only: decode_password_hash_def s list.case decode_costs [OF assms(1-3)] sum.case)
      (simp add: base64_round_trip)
qed

text \<open>
  C14: A password verifies against its own hash, and another one exactly when Argon2 derives the same
  key from it.
\<close>

theorem hashed_password_verifies:
  assumes "\<And>p s t m l k. length (a2_id_key a p s t m l k) = unat k"
    and "e k = Some f" and "password \<noteq> []"
  shows "\<exists>h. hash_password a e k password = Inr h \<and> verify_password a password h = Inr True
    \<and> (\<forall>other. verify_password a other h = Inr (derive_key a default_password_hash_params other (map f [0..<16])
        = derive_key a default_password_hash_params password (map f [0..<16])))"
proof -
  let ?p = default_password_hash_params and ?salt = "map f [0..<16]"
  let ?h = "encode_password_hash a ?p ?salt (derive_key a ?p password ?salt)"
  have len: "length (derive_key a ?p password ?salt) = 32"
    by (simp add: derive_key_def assms(1) default_password_hash_params_def)
  have "decode_password_hash a ?h = Inr (?p, ?salt, derive_key a ?p password ?salt)"
    by (subst decode_encoded) (use len in \<open>auto simp: default_password_hash_params_def\<close>)
  moreover have "hash_password a e k password = Inr ?h"
    using assms(2,3) by (simp add: hash_password_def hash_password_with_def read_random_def
      default_password_hash_params_def)
  ultimately show ?thesis by (simp add: verify_password_def)
qed

text \<open>A derivation of the right length that keeps the password apart.\<close>

definition padding_kdf :: argon2_env where
  "padding_kdf = \<lparr>a2_version = 19, a2_id_key = (\<lambda>p s t m l k. take (unat k) (p @ replicate (unat k) (CHR 0x00)))\<rparr>"

theorem hashed_password_verifies_witness:
  "\<exists>h. hash_password padding_kdf (\<lambda>_. Some (\<lambda>i. char_of i)) 0 ''correct horse'' = Inr h
     \<and> verify_password padding_kdf ''correct horse'' h = Inr True
     \<and> verify_password padding_kdf ''Correct horse'' h = Inr False"
proof -
  have "length (a2_id_key padding_kdf p s t m l k) = unat k" for p s t m l k
    by (simp add: padding_kdf_def)
  from hashed_password_verifies [of padding_kdf "\<lambda>_. Some (\<lambda>i. char_of i)" 0 "\<lambda>i. char_of i" "''correct horse''", OF this]
  show ?thesis
    by (auto simp: derive_key_def padding_kdf_def default_password_hash_params_def)
qed

end
