(* ===== verification/AccountStore.thy ===== *)
theory AccountStore
  imports Roles Passwords Accounting "HOL-Library.List_Lexorder" "HOL-Library.Char_ord"
begin

text \<open>
  The statements account management is made of (\<open>internal/auth/service.go\<close>, \<open>account.go\<close>,
  \<open>repository_grants.go\<close>, \<open>company_oidc.go\<close>): reading a user with the credential, creating users and
  sessions, and what every loss of authority takes along. Deleting a session deletes its company
  sign-in provenance, as the foreign key does.
\<close>

abbreviation auth_invalid :: "string \<Rightarrow> go_error" where
  "auth_invalid \<equiv> ValidationError AuthPkg"

record auth_env =
  ae_random :: entropy
  ae_argon2 :: argon2_env
  ae_sha256 :: "string \<Rightarrow> string"

text \<open>A step that can fail without touching the database.\<close>

definition pure_step :: "go_error + 'a \<Rightarrow> 'a go" where
  "pure_step r = (case r of Inl e \<Rightarrow> fail e | Inr x \<Rightarrow> ret x)"

definition on_accounts :: "(accounts \<Rightarrow> 'a \<times> accounts) \<Rightarrow> 'a go" where
  "on_accounts f = exec (\<lambda>d. case f (tb_accounts d) of (x, a) \<Rightarrow> (x, d \<lparr>tb_accounts := a\<rparr>))"

definition checked_accounts :: "(db \<Rightarrow> bool) \<Rightarrow> (accounts \<Rightarrow> 'a \<times> accounts) \<Rightarrow> 'a go" where
  "checked_accounts ok f = checked ok (\<lambda>d. case f (tb_accounts d) of (x, a) \<Rightarrow> (x, d \<lparr>tb_accounts := a\<rparr>))"

subsection \<open>Users\<close>

record user =
  au_id :: int
  au_email :: string
  au_display_name :: string
  au_is_admin :: bool
  au_disabled_at :: "instant option"
  au_has_local_password :: bool
  au_must_change_password :: bool
  au_created_at :: instant
  au_updated_at :: instant

record user_record = user +
  au_password_hash :: string

definition user_disabled :: "'a user_scheme \<Rightarrow> bool" where
  "user_disabled u \<longleftrightarrow> au_disabled_at u \<noteq> None"

abbreviation plain_user :: "user_record \<Rightarrow> user" where
  "plain_user \<equiv> user.truncate"

definition has_admin_row :: "accounts \<Rightarrow> int \<Rightarrow> bool" where
  "has_admin_row a i \<longleftrightarrow> list_ex (\<lambda>r. ur_user_id r = i \<and> ur_role r = role_admin) (ac_roles a)"

definition credentials_of :: "accounts \<Rightarrow> int \<Rightarrow> credential_row list" where
  "credentials_of a i = filter (\<lambda>c. lc_user_id c = i) (ac_credentials a)"

text \<open>\<open>LEFT JOIN local_credentials\<close>.\<close>

definition left_credentials :: "accounts \<Rightarrow> int \<Rightarrow> credential_row option list" where
  "left_credentials a i = (case credentials_of a i of [] \<Rightarrow> [None] | cs \<Rightarrow> map Some cs)"

definition scan_user_record :: "accounts \<Rightarrow> user_row \<Rightarrow> credential_row option \<Rightarrow> user_record" where
  "scan_user_record a u c = \<lparr>au_id = us_id u, au_email = us_email u, au_display_name = us_display_name u,
     au_is_admin = has_admin_row a (us_id u), au_disabled_at = us_disabled_at u,
     au_has_local_password = (c \<noteq> None),
     au_must_change_password = (case c of None \<Rightarrow> False | Some row \<Rightarrow> lc_must_change_password row),
     au_created_at = us_created_at u, au_updated_at = us_updated_at u,
     au_password_hash = (case c of None \<Rightarrow> [] | Some row \<Rightarrow> lc_password_hash row)\<rparr>"

definition users_where :: "(user_row \<Rightarrow> bool) \<Rightarrow> accounts \<Rightarrow> user_record list" where
  "users_where p a = concat (map (\<lambda>u. map (scan_user_record a u) (left_credentials a (us_id u)))
     (filter p (ac_users a)))"

definition user_by_id :: "int \<Rightarrow> user_record go" where
  "user_by_id i = query_row (\<lambda>d. users_where (\<lambda>u. us_id u = i) (tb_accounts d))"

definition user_by_email :: "string \<Rightarrow> user_record go" where
  "user_by_email email = query_row (\<lambda>d. filter au_has_local_password
     (users_where (\<lambda>u. us_email u = email) (tb_accounts d)))"

definition existing_user :: "int \<Rightarrow> user_record go" where
  "existing_user i =
     bind (attempt (user_by_id i)) (\<lambda>r. case r of
       Inl e \<Rightarrow> if e = NoRows then fail (auth_invalid ''user was not found'') else fail e
     | Inr u \<Rightarrow> ret u)"

definition user_count :: "int go" where
  "user_count = query (\<lambda>d. int (length (ac_users (tb_accounts d))))"

subsection \<open>Who may manage accounts\<close>

definition access_denied :: go_error where
  "access_denied = auth_invalid ''only an enabled admin can change repository access''"

definition require_enabled_admin_actor :: "int \<Rightarrow> unit go" where
  "require_enabled_admin_actor i =
     (if i \<le> 0 then fail access_denied
      else bind (attempt (user_by_id i)) (\<lambda>r. case r of
        Inl e \<Rightarrow> if e = NoRows then fail access_denied else fail e
      | Inr u \<Rightarrow> if user_disabled u \<or> \<not> au_is_admin u then fail access_denied else ret ()))"

text \<open>The update that changes nothing takes the writer slot.\<close>

definition lock_enabled_admin_actor :: "int \<Rightarrow> unit go" where
  "lock_enabled_admin_actor i =
     bind (exec (\<lambda>d. ((), d))) (\<lambda>_. require_enabled_admin_actor i)"

definition admin_count :: "accounts \<Rightarrow> nat" where
  "admin_count a = length (concat (map (\<lambda>u. concat (map (\<lambda>r. credentials_of a (us_id u))
     (filter (\<lambda>r. ur_user_id r = us_id u \<and> ur_role r = role_admin) (ac_roles a))))
     (filter (\<lambda>u. us_disabled_at u = None) (ac_users a))))"

definition ensure_enabled_admin_remains :: "string \<Rightarrow> unit go" where
  "ensure_enabled_admin_remains message =
     bind (query (\<lambda>d. admin_count (tb_accounts d))) (\<lambda>n.
     if n = 0 then fail (auth_invalid message) else ret ())"

subsection \<open>Sessions\<close>

definition delete_sessions_where :: "(session_row \<Rightarrow> bool) \<Rightarrow> accounts \<Rightarrow> accounts" where
  "delete_sessions_where p a = a \<lparr>ac_sessions := filter (\<lambda>s. \<not> p s) (ac_sessions a),
     ac_oidc_sessions := filter (\<lambda>o'. \<not> list_ex (\<lambda>s. p s \<and> sn_id s = os_session_id o') (ac_sessions a))
       (ac_oidc_sessions a)\<rparr>"

definition delete_user_sessions :: "int \<Rightarrow> unit go" where
  "delete_user_sessions i = on_accounts (\<lambda>a. ((), delete_sessions_where (\<lambda>s. sn_user_id s = i) a))"

definition delete_user_password_recovery_token :: "int \<Rightarrow> unit go" where
  "delete_user_password_recovery_token i = on_accounts (\<lambda>a. ((),
     a \<lparr>ac_recoveries := filter (\<lambda>t. pt_user_id t \<noteq> i) (ac_recoveries a)\<rparr>))"

definition touch_user :: "int \<Rightarrow> instant \<Rightarrow> int go" where
  "touch_user i now = on_accounts (\<lambda>a. case update_where (\<lambda>u. us_id u = i)
     (\<lambda>u. u \<lparr>us_updated_at := now\<rparr>) (ac_users a) of (n, us) \<Rightarrow> (n, a \<lparr>ac_users := us\<rparr>))"

definition scoped_grants_for_user :: "int \<Rightarrow> (int \<times> role list) list go" where
  "scoped_grants_for_user i = query (\<lambda>d. scoped_roles (map (\<lambda>g. (rg_repository_id g, rg_role g))
     (filter (\<lambda>g. rg_user_id g = i) (ac_grants (tb_accounts d)))))"

definition load_grants :: "'a user_scheme \<Rightarrow> grants go" where
  "load_grants u = bind (scoped_grants_for_user (au_id u)) (\<lambda>scoped. ret (new_grants (au_is_admin u) scoped))"

record auth_session =
  as_id :: string
  as_csrf_token :: string
  as_user :: user
  as_grants :: grants
  as_company_oidc :: bool
  as_expires_at :: instant
  as_created_at :: instant

definition default_session_ttl :: int where
  "default_session_ttl = 12 * 3600 * nanos"

text \<open>Inserting the rows of a select: as many as match, refused when the key is taken.\<close>

definition insert_session_rows :: "(accounts \<Rightarrow> nat) \<Rightarrow> session_row \<Rightarrow> int go" where
  "insert_session_rows matching s =
     checked_accounts (\<lambda>d. let a = tb_accounts d in matching a = 0 \<or>
         (matching a = 1 \<and> sn_id s \<notin> set (map sn_id (ac_sessions a))))
       (\<lambda>a. if matching a = 0 then (0, a)
            else (1, a \<lparr>ac_sessions := ac_sessions a @ [s]\<rparr>))"

definition usable_credentials :: "int \<Rightarrow> string \<Rightarrow> accounts \<Rightarrow> nat" where
  "usable_credentials i hash a = length (concat (map (\<lambda>u. filter (\<lambda>c. lc_password_hash c = hash) (credentials_of a i))
     (filter (\<lambda>u. us_id u = i \<and> us_disabled_at u = None) (ac_users a))))"

definition insert_session :: "user \<Rightarrow> string \<Rightarrow> string \<Rightarrow> string \<Rightarrow> auth_session go" where
  "insert_session u hash sid csrf =
     bind (load_grants u) (\<lambda>g.
     bind now_utc (\<lambda>now.
     let expires_at = now + default_session_ttl in
     bind (insert_session_rows (usable_credentials (au_id u) hash) \<lparr>sn_id = sid, sn_user_id = au_id u,
        sn_csrf_token = csrf, sn_expires_at = expires_at, sn_created_at = now\<rparr>) (\<lambda>inserted.
     if inserted = 0 then fail AuthenticationError
     else if inserted \<noteq> 1 then fail (Plain ''create session affected rows'')
     else ret \<lparr>as_id = sid, as_csrf_token = csrf, as_user = u, as_grants = g, as_company_oidc = False,
       as_expires_at = expires_at, as_created_at = now\<rparr>)))"

definition random_token :: "auth_env \<Rightarrow> nat \<Rightarrow> nat \<Rightarrow> go_error + string" where
  "random_token env k n = (case read_random (ae_random env) k n of
     Inl e \<Rightarrow> Inl e | Inr raw \<Rightarrow> Inr (base64_encode url_alphabet raw))"

definition session_tokens :: "auth_env \<Rightarrow> nat \<Rightarrow> go_error + string \<times> string" where
  "session_tokens env k = (case random_token env k 32 of
     Inl e \<Rightarrow> Inl e
   | Inr sid \<Rightarrow> (case random_token env (Suc k) 32 of Inl e \<Rightarrow> Inl e | Inr csrf \<Rightarrow> Inr (sid, csrf)))"

subsection \<open>Creating users\<close>

record user_create =
  uc_actor_user_id :: int
  uc_email :: string
  uc_display_name :: string
  uc_password :: string

definition normalize_email :: "string \<Rightarrow> string" where
  "normalize_email email = to_lower (trim_space email)"

definition normalize_create_user_params :: "user_create \<Rightarrow> user_create" where
  "normalize_create_user_params p = p \<lparr>uc_email := normalize_email (uc_email p),
     uc_display_name := trim_space (uc_display_name p)\<rparr>"

definition validate_local_identity :: "string \<Rightarrow> string \<Rightarrow> go_error option" where
  "validate_local_identity email display_name =
     (if email = [] then Some (auth_invalid ''email is required'')
      else if length email > 254 \<or> CHR ''@'' \<notin> set email then Some (auth_invalid ''email must be valid'')
      else if display_name = [] then Some (auth_invalid ''display name is required'')
      else if length display_name > 120 then Some (auth_invalid ''display name is too long'')
      else None)"

definition validate_password :: "string \<Rightarrow> go_error option" where
  "validate_password password =
     (if length password < 12 then Some (auth_invalid ''password must be at least 12 characters'')
      else if length password > 1024 then Some (auth_invalid ''password is too long'')
      else None)"

definition validate_local_user_params :: "user_create \<Rightarrow> go_error option" where
  "validate_local_user_params p = (case validate_local_identity (uc_email p) (uc_display_name p) of
     Some e \<Rightarrow> Some e | None \<Rightarrow> validate_password (uc_password p))"

text \<open>\<open>createUserError\<close> tells a taken address from every other failure of the insert.\<close>

definition insert_user_row :: "string \<Rightarrow> string \<Rightarrow> instant \<Rightarrow> int go" where
  "insert_user_row email display_name now = sql (\<lambda>d. let a = tb_accounts d; i = fresh_id (map us_id (ac_users a)) in
     if email \<in> set (map us_email (ac_users a)) then (Inl (auth_invalid ''user email already exists''), d)
     else (Inr i, d \<lparr>tb_accounts := a \<lparr>ac_users := ac_users a @ [\<lparr>us_id = i, us_email = email,
       us_display_name = display_name, us_disabled_at = None, us_created_at = now, us_updated_at = now\<rparr>]\<rparr>\<rparr>))"

definition insert_credential_row :: "credential_row \<Rightarrow> unit go" where
  "insert_credential_row c = checked_accounts
     (\<lambda>d. lc_user_id c > 0 \<and> lc_password_hash c \<noteq> [] \<and> lc_user_id c \<in> set (tb_users d)
        \<and> lc_user_id c \<notin> set (map lc_user_id (ac_credentials (tb_accounts d))))
     (\<lambda>a. ((), a \<lparr>ac_credentials := ac_credentials a @ [c]\<rparr>))"

definition insert_admin_row :: "int \<Rightarrow> instant \<Rightarrow> unit go" where
  "insert_admin_row i now = checked_accounts
     (\<lambda>d. i \<in> set (tb_users d) \<and> \<not> has_admin_row (tb_accounts d) i)
     (\<lambda>a. ((), a \<lparr>ac_roles := ac_roles a @ [\<lparr>ur_user_id = i, ur_role = role_admin, ur_created_at = now\<rparr>]\<rparr>))"

definition insert_user :: "string \<Rightarrow> string \<Rightarrow> string \<Rightarrow> bool \<Rightarrow> bool \<Rightarrow> user go" where
  "insert_user email display_name hash must_change is_admin =
     bind now_utc (\<lambda>now.
     bind (insert_user_row email display_name now) (\<lambda>i.
     bind (insert_credential_row \<lparr>lc_user_id = i, lc_password_hash = hash, lc_must_change_password = must_change,
        lc_created_at = now, lc_updated_at = now\<rparr>) (\<lambda>_.
     bind (if is_admin then insert_admin_row i now else ret ()) (\<lambda>_.
     ret \<lparr>au_id = i, au_email = email, au_display_name = display_name, au_is_admin = is_admin,
       au_disabled_at = None, au_has_local_password = True, au_must_change_password = must_change,
       au_created_at = now, au_updated_at = now\<rparr>))))"

subsection \<open>Events\<close>

definition subject_type_user :: string where "subject_type_user = ''user''"
definition subject_type_invitation :: string where "subject_type_invitation = ''invitation''"
definition subject_type_oidc_connection :: string where "subject_type_oidc_connection = ''oidc_connection''"

text \<open>The details are a Go map, which JSON writes in the order of its keys.\<close>

definition map_event :: "int option \<Rightarrow> string \<Rightarrow> string \<Rightarrow> string \<Rightarrow> (string \<times> detail_value) list \<Rightarrow> audit_event" where
  "map_event actor action subject_type subject_id kvs = \<lparr>ev_id = 0, ev_actor_user_id = actor, ev_action = action,
     ev_subject_type = subject_type, ev_subject_id = subject_id, ev_details = DetailsObject (sort_key fst kvs),
     ev_created_at = zero_time\<rparr>"

definition user_audit_event :: "string \<Rightarrow> int \<Rightarrow> int \<Rightarrow> (string \<times> detail_value) list \<Rightarrow> audit_event" where
  "user_audit_event action actor subject kvs = map_event (Some actor) action subject_type_user (format_int subject)
     (kvs @ text_field ''actor_kind'' ''user'')"

definition repository_grant_audit_event :: "string \<Rightarrow> int \<Rightarrow> int \<Rightarrow> int \<Rightarrow> role \<Rightarrow> audit_event" where
  "repository_grant_audit_event action actor repo i r = map_event (Some actor) action subject_type_repository
     (format_int repo) (text_field ''actor_kind'' ''user'' @ text_field ''user_id'' (format_int i) @ text_field ''role'' r)"

definition audit_user_created :: "int \<Rightarrow> int \<Rightarrow> unit go" where
  "audit_user_created actor i = record_event (user_audit_event ''user.created'' actor i
     (text_field ''access'' ''none'' @ text_field ''sign_in'' ''password''))"

definition ensure_repository_exists :: "int \<Rightarrow> unit go" where
  "ensure_repository_exists i =
     (if i \<le> 0 then fail (auth_invalid ''repository was not found'')
      else bind (attempt (query_row (\<lambda>d. map repo_id (filter (\<lambda>r. repo_id r = i) (tb_repositories d))))) (\<lambda>r. case r of
        Inl e \<Rightarrow> if e = NoRows then fail (auth_invalid ''repository was not found'') else fail e
      | Inr _ \<Rightarrow> ret ()))"

subsection \<open>Company sign-in when authority is lost\<close>

definition oidc_event :: "int option \<Rightarrow> string \<Rightarrow> int \<Rightarrow> string \<Rightarrow> audit_event" where
  "oidc_event actor action revision cause = \<lparr>ev_id = 0, ev_actor_user_id = actor, ev_action = action,
     ev_subject_type = subject_type_oidc_connection, ev_subject_id = ''1'',
     ev_details = DetailsObject [(''revision'', DetailInt revision), (''cause'', DetailText cause)],
     ev_created_at = zero_time\<rparr>"

text \<open>Shutting company sign-in off: the four statements both functions below repeat.\<close>

definition shut_company_oidc :: "unit go" where
  "shut_company_oidc =
     bind (on_accounts (\<lambda>a. ((), a \<lparr>ac_oidc_connection := map_option (\<lambda>c. c \<lparr>oc_enabled := False,
        oc_activation_generation := oc_activation_generation c + 1\<rparr>) (ac_oidc_connection a)\<rparr>))) (\<lambda>_.
     bind (on_accounts (\<lambda>a. ((), a \<lparr>ac_oidc_links := []\<rparr>))) (\<lambda>_.
     bind (on_accounts (\<lambda>a. ((), a \<lparr>ac_oidc_logins := []\<rparr>))) (\<lambda>_.
     on_accounts (\<lambda>a. ((), delete_sessions_where (\<lambda>s. sn_id s \<in> set (map os_session_id (ac_oidc_sessions a))) a)))))"

definition oidc_connection :: "oidc_connection_row go" where
  "oidc_connection = query_row (\<lambda>d. case ac_oidc_connection (tb_accounts d) of None \<Rightarrow> [] | Some c \<Rightarrow> [c])"

definition secure_company_oidc_on_authority_loss :: "int \<Rightarrow> int \<Rightarrow> unit go" where
  "secure_company_oidc_on_authority_loss actor i =
     bind (query (\<lambda>d. ac_oidc_identity (tb_accounts d) = Some i)) (\<lambda>linked.
     if \<not> linked then ret ()
     else bind oidc_connection (\<lambda>c.
     if oc_activation_generation c = max_int64
     then fail (Plain ''company OIDC activation generation is exhausted'')
     else bind shut_company_oidc (\<lambda>_.
     if \<not> oc_enabled c then ret ()
     else record_event (oidc_event (Some actor) ''oidc_connection.disabled'' (oc_revision c) ''authority-loss''))))"

definition remove_company_oidc_identity_for_recovery :: "int \<Rightarrow> unit go" where
  "remove_company_oidc_identity_for_recovery i =
     bind (on_accounts (\<lambda>a. if ac_oidc_identity a = Some i then (1, a \<lparr>ac_oidc_identity := None\<rparr>) else (0 :: int, a))) (\<lambda>deleted.
     if deleted = 0 then ret ()
     else if deleted \<noteq> 1 then fail (Plain ''delete company OIDC identity affected rows'')
     else bind oidc_connection (\<lambda>c.
     if oc_activation_generation c = max_int64
     then fail (Plain ''company OIDC activation generation is exhausted'')
     else bind shut_company_oidc (\<lambda>_.
     bind (record_event (oidc_event None ''oidc_identity.unlinked'' (oc_revision c) ''recovery'')) (\<lambda>_.
     if oc_enabled c
     then record_event (oidc_event None ''oidc_connection.disabled'' (oc_revision c) ''recovery'')
     else ret ()))))"

definition company_oidc_session_still_authorized :: "int \<Rightarrow> bool go" where
  "company_oidc_session_still_authorized i = query (\<lambda>d. let a = tb_accounts d in
     list_ex (\<lambda>u. us_id u = i \<and> us_disabled_at u = None \<and> has_admin_row a i
       \<and> list_ex (\<lambda>c. \<not> lc_must_change_password c) (credentials_of a i)) (ac_users a)
     \<and> ac_oidc_identity a = Some i \<and> opt_ex oc_enabled (ac_oidc_connection a))"

subsection \<open>Invitations that depend on a user\<close>

definition invitation_status_pending :: string where "invitation_status_pending = ''pending''"
definition invitation_status_reissue :: string where "invitation_status_reissue = ''needs_reissue''"
definition invitation_status_accepted :: string where "invitation_status_accepted = ''accepted''"
definition invitation_status_cancelled :: string where "invitation_status_cancelled = ''cancelled''"

definition invitation_revocation_authorizer_disabled :: string where
  "invitation_revocation_authorizer_disabled = ''authorizer_disabled''"
definition invitation_revocation_admin_removed :: string where
  "invitation_revocation_admin_removed = ''authorizer_admin_removed''"

definition active_invitation :: "invitation_row \<Rightarrow> bool" where
  "active_invitation v \<longleftrightarrow> vt_status v = invitation_status_pending \<or> vt_status v = invitation_status_reissue"

definition active_invitation_email_exists :: "string \<Rightarrow> bool go" where
  "active_invitation_email_exists email = query (\<lambda>d. list_ex
     (\<lambda>v. vt_canonical_email v = Some email \<and> active_invitation v) (ac_invitations (tb_accounts d)))"

definition record_invitation_audit :: "string \<Rightarrow> int \<Rightarrow> string \<Rightarrow> (string \<times> detail_value) list \<Rightarrow> unit go" where
  "record_invitation_audit action actor i kvs = record_event (map_event (Some actor) action subject_type_invitation i
     (kvs @ text_field ''actor_kind'' ''user''))"

definition authorized_pending :: "int \<Rightarrow> invitation_row \<Rightarrow> bool" where
  "authorized_pending i v \<longleftrightarrow> vt_status v = invitation_status_pending \<and> vt_authorized_by_user_id v = Some i"

definition invalidate_invitations_authorized_by :: "int \<Rightarrow> int \<Rightarrow> string \<Rightarrow> instant \<Rightarrow> unit go" where
  "invalidate_invitations_authorized_by actor authorizer reason updated_at =
     (if reason \<noteq> invitation_revocation_authorizer_disabled \<and> reason \<noteq> invitation_revocation_admin_removed
      then fail (Plain ''unsupported invitation authorization revocation reason'')
      else bind (query (\<lambda>d. sort (map vt_id (filter (authorized_pending authorizer) (ac_invitations (tb_accounts d)))))) (\<lambda>ids.
      if ids = [] then ret ()
      else bind (on_accounts (\<lambda>a. case update_where (authorized_pending authorizer)
          (\<lambda>v. v \<lparr>vt_status := invitation_status_reissue, vt_token_digest := None, vt_expires_at := None,
             vt_authorized_by_user_id := None, vt_updated_at := updated_at\<rparr>) (ac_invitations a) of
          (n, vs) \<Rightarrow> (n, a \<lparr>ac_invitations := vs\<rparr>))) (\<lambda>invalidated.
      if invalidated \<noteq> int (length ids) then fail (Plain ''invalidate invitation credentials affected rows'')
      else bind (for_each (\<lambda>i. record_invitation_audit ''invitation.authorization_revoked'' actor i
        (text_field ''reason'' reason)) ids) (\<lambda>_. ret ()))))"

end
