(* ===== verification/Accounts.thy ===== *)
theory Accounts
  imports AccountStore Rfc3339
begin

text \<open>
  The account operations of \<open>internal/auth\<close> (\<open>service.go\<close>, \<open>account.go\<close>, \<open>password_recovery.go\<close>,
  \<open>repository_grants.go\<close>, \<open>company_oidc.go\<close>): setting up the first administrator, signing in and
  out, creating, disabling and enabling users, changing, resetting and recovering passwords, and
  granting roles. Randomness, Argon2 and SHA-256 come with the environment of a call; the numbers
  given to \<open>random_token\<close>, \<open>session_tokens\<close> and \<open>hash_password\<close> are the order of its readings.
\<close>

subsection \<open>Signing in and out\<close>

definition has_users :: "bool go" where
  "has_users = bind user_count (\<lambda>n. ret (n > 0))"

definition create_first_admin :: "auth_env \<Rightarrow> user_create \<Rightarrow> auth_session go" where
  "create_first_admin env p0 =
     (let p = normalize_create_user_params p0 in
      when_invalid (validate_local_user_params p) (
      bind (pure_step (hash_password (ae_argon2 env) (ae_random env) 0 (uc_password p))) (\<lambda>hash.
      bind (pure_step (session_tokens env 1)) (\<lambda>(sid, csrf).
      transact (
      bind user_count (\<lambda>n.
      if n > 0 then fail (auth_invalid ''first admin is already configured'')
      else bind (insert_user (uc_email p) (uc_display_name p) hash False True) (\<lambda>u.
      insert_session u hash sid csrf)))))))"

definition create_user :: "auth_env \<Rightarrow> user_create \<Rightarrow> user go" where
  "create_user env p0 =
     (let p = normalize_create_user_params p0 in
      when_invalid (validate_local_user_params p) (
      bind (pure_step (hash_password (ae_argon2 env) (ae_random env) 0 (uc_password p))) (\<lambda>hash.
      transact (
      bind (lock_enabled_admin_actor (uc_actor_user_id p)) (\<lambda>_.
      bind (active_invitation_email_exists (uc_email p)) (\<lambda>reserved.
      if reserved then fail (auth_invalid ''email is reserved by an active invitation'')
      else bind (insert_user (uc_email p) (uc_display_name p) hash True False) (\<lambda>u.
      bind (audit_user_created (uc_actor_user_id p) (au_id u)) (\<lambda>_.
      ret u))))))))"

definition login :: "auth_env \<Rightarrow> string \<Rightarrow> string \<Rightarrow> auth_session go" where
  "login env email0 password =
     (let email = normalize_email email0 in
      if email = [] \<or> password = [] then fail AuthenticationError
      else bind (attempt (user_by_email email)) (\<lambda>r. case r of
        Inl e \<Rightarrow> if e = NoRows then fail AuthenticationError else fail e
      | Inr u \<Rightarrow>
          if verify_password (ae_argon2 env) password (au_password_hash u) \<noteq> Inr True then fail AuthenticationError
          else if user_disabled u then fail AuthenticationError
          else bind (pure_step (session_tokens env 0)) (\<lambda>(sid, csrf).
               insert_session (plain_user u) (au_password_hash u) sid csrf)))"

definition logout :: "string \<Rightarrow> unit go" where
  "logout i =
     (if trim_space i = [] then ret ()
      else on_accounts (\<lambda>a. ((), delete_sessions_where (\<lambda>s. sn_id s = i) a)))"

definition scan_session :: "accounts \<Rightarrow> session_row \<Rightarrow> user_record \<Rightarrow> auth_session" where
  "scan_session a s u = \<lparr>as_id = sn_id s, as_csrf_token = sn_csrf_token s, as_user = plain_user u,
     as_grants = \<lparr>gr_is_admin = False, gr_by_repository = []\<rparr>,
     as_company_oidc = list_ex (\<lambda>c. os_session_id c = sn_id s) (ac_oidc_sessions a),
     as_expires_at = sn_expires_at s, as_created_at = sn_created_at s\<rparr>"

definition session_rows :: "string \<Rightarrow> accounts \<Rightarrow> auth_session list" where
  "session_rows i a = concat (map (\<lambda>s. map (scan_session a s) (users_where (\<lambda>u. us_id u = sn_user_id s) a))
     (filter (\<lambda>s. sn_id s = i) (ac_sessions a)))"

definition session_by_id :: "string \<Rightarrow> auth_session option go" where
  "session_by_id i0 =
     (let i = trim_space i0; gone = bind (logout i) (\<lambda>_. ret None) in
      if i = [] then ret None
      else bind (attempt (query_row (\<lambda>d. session_rows i (tb_accounts d)))) (\<lambda>r. case r of
        Inl e \<Rightarrow> if e = NoRows then ret None else fail e
      | Inr s \<Rightarrow>
          if as_csrf_token s = [] then gone
          else bind now_utc (\<lambda>now.
          if \<not> now < as_expires_at s then gone
          else if user_disabled (as_user s) then gone
          else bind (if as_company_oidc s then company_oidc_session_still_authorized (au_id (as_user s))
                     else ret True) (\<lambda>authorized.
          if \<not> authorized then gone
          else bind (load_grants (as_user s)) (\<lambda>g. ret (Some (s \<lparr>as_grants := g\<rparr>)))))))"

definition verify_current_password :: "auth_env \<Rightarrow> int \<Rightarrow> string \<Rightarrow> unit go" where
  "verify_current_password env i password =
     (if i \<le> 0 \<or> password = [] then fail AuthenticationError
      else bind (attempt (user_by_id i)) (\<lambda>r. case r of
        Inl e \<Rightarrow> if e = NoRows then fail AuthenticationError else fail e
      | Inr u \<Rightarrow>
          if \<not> au_has_local_password u then fail AuthenticationError
          else if verify_password (ae_argon2 env) password (au_password_hash u) \<noteq> Inr True
          then fail AuthenticationError else ret ()))"

definition oidc_login_rows :: "int \<Rightarrow> int \<Rightarrow> int \<Rightarrow> accounts \<Rightarrow> nat" where
  "oidc_login_rows i revision generation a =
     (if opt_ex (\<lambda>c. oc_enabled c \<and> oc_revision c = revision \<and> oc_activation_generation c = generation)
          (ac_oidc_connection a) \<and> ac_oidc_identity a = Some i
      then length (concat (map (\<lambda>u. concat (map (\<lambda>c. filter (\<lambda>r. ur_user_id r = i \<and> ur_role r = role_admin) (ac_roles a))
        (filter (\<lambda>c. \<not> lc_must_change_password c) (credentials_of a i))))
        (filter (\<lambda>u. us_id u = i \<and> us_disabled_at u = None) (ac_users a))))
      else 0)"

definition create_company_oidc_session :: "auth_env \<Rightarrow> int \<Rightarrow> int \<Rightarrow> int \<Rightarrow> auth_session go" where
  "create_company_oidc_session env i revision generation =
     (if i \<le> 0 \<or> revision \<le> 0 \<or> generation \<le> 0 then fail AuthenticationError
      else bind (pure_step (session_tokens env 0)) (\<lambda>(sid, csrf).
      transact (
      bind now_utc (\<lambda>now.
      let expires_at = now + default_session_ttl in
      bind (insert_session_rows (oidc_login_rows i revision generation) \<lparr>sn_id = sid, sn_user_id = i,
         sn_csrf_token = csrf, sn_expires_at = expires_at, sn_created_at = now\<rparr>) (\<lambda>inserted.
      if inserted = 0 then fail AuthenticationError
      else if inserted \<noteq> 1 then fail (Plain ''create company OIDC session affected rows'')
      else bind (checked_accounts (\<lambda>d. sid \<notin> set (map os_session_id (ac_oidc_sessions (tb_accounts d)))
            \<and> sid \<in> set (map sn_id (ac_sessions (tb_accounts d))) \<and> i \<in> set (tb_users d))
          (\<lambda>a. ((), a \<lparr>ac_oidc_sessions := ac_oidc_sessions a @ [\<lparr>os_session_id = sid, os_user_id = i\<rparr>]\<rparr>))) (\<lambda>_.
      bind (user_by_id i) (\<lambda>u.
      bind (load_grants u) (\<lambda>g.
      ret \<lparr>as_id = sid, as_csrf_token = csrf, as_user = plain_user u, as_grants = g, as_company_oidc = True,
        as_expires_at = expires_at, as_created_at = now\<rparr>)))))))) "

subsection \<open>Reading accounts\<close>

definition get_user :: "int \<Rightarrow> user go" where
  "get_user i = bind (existing_user i) (\<lambda>u. ret (plain_user u))"

definition list_users :: "user list go" where
  "list_users = query (\<lambda>d. map plain_user (sort_key (\<lambda>u. (rfc3339_nano (au_created_at u), au_id u))
     (users_where (\<lambda>_. True) (tb_accounts d))))"

definition grants_for_user :: "int \<Rightarrow> grants go" where
  "grants_for_user i = bind (existing_user i) (\<lambda>u. load_grants u)"

subsection \<open>Administrators and the life of an account\<close>

definition set_user_admin :: "int \<Rightarrow> int \<Rightarrow> bool \<Rightarrow> user go" where
  "set_user_admin actor i admin = transact (
     bind (lock_enabled_admin_actor actor) (\<lambda>_.
     bind (existing_user i) (\<lambda>u.
     let before = au_is_admin u in
     bind now_utc (\<lambda>now.
     bind (if admin
           then checked_accounts (\<lambda>d. au_id u \<in> set (tb_users d)) (\<lambda>a. ((), if has_admin_row a (au_id u) then a
             else a \<lparr>ac_roles := ac_roles a @ [\<lparr>ur_user_id = au_id u, ur_role = role_admin, ur_created_at = now\<rparr>]\<rparr>))
           else bind (on_accounts (\<lambda>a. ((), a \<lparr>ac_roles := filter
               (\<lambda>r. \<not> (ur_user_id r = au_id u \<and> ur_role r = role_admin)) (ac_roles a)\<rparr>))) (\<lambda>_.
             bind (ensure_enabled_admin_remains
               ''the final enabled admin with a local password must keep the admin role'') (\<lambda>_.
             if before
             then bind (invalidate_invitations_authorized_by actor (au_id u) invitation_revocation_admin_removed now) (\<lambda>_.
               secure_company_oidc_on_authority_loss actor (au_id u))
             else ret ()))) (\<lambda>_.
     bind (touch_user (au_id u) now) (\<lambda>_.
     bind (if before \<noteq> admin
           then record_event (user_audit_event ''user.roles_updated'' actor (au_id u)
             (text_field ''roles_before'' (if before then role_admin else ''none'')
              @ text_field ''roles_after'' (if admin then role_admin else ''none'')))
           else ret ()) (\<lambda>_.
     ret ((plain_user u) \<lparr>au_is_admin := admin, au_updated_at := now\<rparr>))))))))"

definition set_disabled_at :: "int \<Rightarrow> instant option \<Rightarrow> instant \<Rightarrow> int go" where
  "set_disabled_at i at now = on_accounts (\<lambda>a. case update_where (\<lambda>u. us_id u = i)
     (\<lambda>u. u \<lparr>us_disabled_at := at, us_updated_at := now\<rparr>) (ac_users a) of (n, us) \<Rightarrow> (n, a \<lparr>ac_users := us\<rparr>))"

definition disable_user :: "int \<Rightarrow> int \<Rightarrow> user go" where
  "disable_user actor i = transact (
     bind (lock_enabled_admin_actor actor) (\<lambda>_.
     bind (existing_user i) (\<lambda>u.
     if user_disabled u then fail (auth_invalid ''user is already disabled'')
     else bind now_utc (\<lambda>now.
     bind (set_disabled_at (au_id u) (Some now) now) (\<lambda>_.
     bind (ensure_enabled_admin_remains ''the final enabled admin with a local password cannot be disabled'') (\<lambda>_.
     bind (invalidate_invitations_authorized_by actor (au_id u) invitation_revocation_authorizer_disabled now) (\<lambda>_.
     bind (delete_user_sessions (au_id u)) (\<lambda>_.
     bind (delete_user_password_recovery_token (au_id u)) (\<lambda>_.
     bind (secure_company_oidc_on_authority_loss actor (au_id u)) (\<lambda>_.
     bind (record_event (user_audit_event ''user.disabled'' actor (au_id u) (text_field ''enabled'' ''false''))) (\<lambda>_.
     ret ((plain_user u) \<lparr>au_disabled_at := Some now, au_updated_at := now\<rparr>))))))))))))"

definition enable_user :: "int \<Rightarrow> int \<Rightarrow> user go" where
  "enable_user actor i = transact (
     bind (lock_enabled_admin_actor actor) (\<lambda>_.
     bind (existing_user i) (\<lambda>u.
     if \<not> user_disabled u then fail (auth_invalid ''user is not disabled'')
     else bind now_utc (\<lambda>now.
     bind (set_disabled_at (au_id u) None now) (\<lambda>_.
     bind (record_event (user_audit_event ''user.enabled'' actor (au_id u) (text_field ''enabled'' ''true''))) (\<lambda>_.
     ret ((plain_user u) \<lparr>au_disabled_at := None, au_updated_at := now\<rparr>)))))))"

subsection \<open>Passwords\<close>

definition update_credentials :: "(accounts \<Rightarrow> credential_row \<Rightarrow> bool) \<Rightarrow> (credential_row \<Rightarrow> credential_row) \<Rightarrow> int go" where
  "update_credentials p f = on_accounts (\<lambda>a. case update_where (p a) f (ac_credentials a) of
     (n, cs) \<Rightarrow> (n, a \<lparr>ac_credentials := cs\<rparr>))"

definition enabled_in :: "accounts \<Rightarrow> int \<Rightarrow> bool" where
  "enabled_in a i \<longleftrightarrow> list_ex (\<lambda>u. us_id u = i \<and> us_disabled_at u = None) (ac_users a)"

definition commit_password_change :: "user_record \<Rightarrow> string \<Rightarrow> string \<Rightarrow> string \<Rightarrow> auth_session go" where
  "commit_password_change u hash sid csrf = transact (
     bind now_utc (\<lambda>now.
     bind (update_credentials (\<lambda>a c. lc_user_id c = au_id u \<and> lc_password_hash c = au_password_hash u
         \<and> enabled_in a (lc_user_id c))
       (\<lambda>c. c \<lparr>lc_password_hash := hash, lc_must_change_password := False, lc_updated_at := now\<rparr>)) (\<lambda>updated.
     if updated = 0 then fail (auth_invalid ''current password is incorrect'')
     else if updated \<noteq> 1 then fail (Plain ''update user password affected rows'')
     else bind (touch_user (au_id u) now) (\<lambda>_.
     bind (delete_user_sessions (au_id u)) (\<lambda>_.
     bind (delete_user_password_recovery_token (au_id u)) (\<lambda>_.
     bind (insert_session ((plain_user u) \<lparr>au_must_change_password := False, au_updated_at := now\<rparr>) hash sid csrf) (\<lambda>s.
     bind (record_event (user_audit_event ''user.password_changed'' (au_id u) (au_id u) [])) (\<lambda>_.
     ret s))))))))"

definition change_password :: "auth_env \<Rightarrow> int \<Rightarrow> string \<Rightarrow> string \<Rightarrow> auth_session go" where
  "change_password env i current new =
     when_invalid (validate_password new) (
     bind (existing_user i) (\<lambda>u.
     if \<not> au_has_local_password u then fail (auth_invalid ''local password is not configured'')
     else if verify_password (ae_argon2 env) current (au_password_hash u) \<noteq> Inr True
     then fail (auth_invalid ''current password is incorrect'')
     else if verify_password (ae_argon2 env) new (au_password_hash u) = Inr True
     then fail (auth_invalid ''new password must be different from the current password'')
     else bind (pure_step (hash_password (ae_argon2 env) (ae_random env) 0 new)) (\<lambda>hash.
     bind (pure_step (session_tokens env 1)) (\<lambda>(sid, csrf).
     commit_password_change u hash sid csrf))))"

definition reset_password :: "auth_env \<Rightarrow> int \<Rightarrow> int \<Rightarrow> string \<Rightarrow> unit go" where
  "reset_password env actor i temporary =
     (if actor = i then fail (auth_invalid ''use the change password form for your own account'')
      else when_invalid (validate_password temporary) (
      bind (pure_step (hash_password (ae_argon2 env) (ae_random env) 0 temporary)) (\<lambda>hash.
      transact (
      bind (require_enabled_admin_actor actor) (\<lambda>_.
      bind (existing_user i) (\<lambda>u.
      if \<not> au_has_local_password u then fail (auth_invalid ''local password is not configured'')
      else bind now_utc (\<lambda>now.
      bind (update_credentials (\<lambda>_ c. lc_user_id c = au_id u)
        (\<lambda>c. c \<lparr>lc_password_hash := hash, lc_must_change_password := True, lc_updated_at := now\<rparr>)) (\<lambda>_.
      bind (touch_user (au_id u) now) (\<lambda>_.
      bind (delete_user_sessions (au_id u)) (\<lambda>_.
      bind (delete_user_password_recovery_token (au_id u)) (\<lambda>_.
      bind (secure_company_oidc_on_authority_loss actor (au_id u)) (\<lambda>_.
      record_event (user_audit_event ''user.password_reset'' actor (au_id u) [])))))))))))))"

subsection \<open>Recovery\<close>

record recovery_token =
  rt_token :: string
  rt_expires_at :: instant

definition default_password_recovery_ttl :: int where
  "default_password_recovery_ttl = 60 * 60 * nanos"

definition store_recovery :: "recovery_row \<Rightarrow> unit go" where
  "store_recovery t = checked_accounts
     (\<lambda>d. pt_user_id t \<in> set (tb_users d) \<and> pt_expires_at t > 0
        \<and> \<not> list_ex (\<lambda>x. pt_user_id x \<noteq> pt_user_id t \<and> pt_token_digest x = pt_token_digest t)
            (ac_recoveries (tb_accounts d)))
     (\<lambda>a. ((), a \<lparr>ac_recoveries := (if pt_user_id t \<in> set (map pt_user_id (ac_recoveries a))
        then map (\<lambda>x. if pt_user_id x = pt_user_id t then t else x) (ac_recoveries a)
        else ac_recoveries a @ [t])\<rparr>))"

definition issue_password_recovery_token :: "auth_env \<Rightarrow> int \<Rightarrow> int \<Rightarrow> recovery_token go" where
  "issue_password_recovery_token env actor i =
     bind (pure_step (random_token env 0 32)) (\<lambda>token.
     bind now_utc (\<lambda>now.
     let expires_at = now + default_password_recovery_ttl in
     transact (
     bind (require_enabled_admin_actor actor) (\<lambda>_.
     if actor = i then fail (auth_invalid ''an admin cannot issue a password recovery token for their own account'')
     else bind (existing_user i) (\<lambda>u.
     if user_disabled u then fail (auth_invalid ''password recovery requires an enabled user'')
     else if \<not> au_has_local_password u then fail (auth_invalid ''local password is not configured'')
     else bind (store_recovery \<lparr>pt_user_id = au_id u, pt_token_digest = ae_sha256 env token,
        pt_expires_at = expires_at\<rparr>) (\<lambda>_.
     bind (record_event (user_audit_event ''user.password_recovery_issued'' actor (au_id u)
        (text_field ''expires_at'' (rfc3339_nano expires_at)))) (\<lambda>_.
     ret \<lparr>rt_token = token, rt_expires_at = expires_at\<rparr>))))))) "

definition password_recovery_token_digest :: "auth_env \<Rightarrow> string \<Rightarrow> string option" where
  "password_recovery_token_digest env token =
     (if canonical_token 32 token then Some (ae_sha256 env token) else None)"

definition preflight_password_recovery :: "string \<Rightarrow> instant \<Rightarrow> int go" where
  "preflight_password_recovery digest now =
     bind (attempt (query_row (\<lambda>d. let a = tb_accounts d in map pt_user_id (filter
       (\<lambda>t. pt_token_digest t = digest \<and> pt_expires_at t > now \<and> enabled_in a (pt_user_id t)
          \<and> credentials_of a (pt_user_id t) \<noteq> []) (ac_recoveries a))))) (\<lambda>r. case r of
       Inl e \<Rightarrow> if e = NoRows then fail InvalidRecoveryToken else fail e
     | Inr i \<Rightarrow> ret i)"

definition claimable_recovery :: "accounts \<Rightarrow> int \<Rightarrow> string \<Rightarrow> recovery_row \<Rightarrow> bool" where
  "claimable_recovery a i digest t \<longleftrightarrow> pt_user_id t = i \<and> pt_token_digest t = digest \<and> enabled_in a i"

definition commit_password_recovery :: "int \<Rightarrow> string \<Rightarrow> string \<Rightarrow> unit go" where
  "commit_password_recovery i digest hash = transact (
     bind (query (\<lambda>d. int (length (filter (claimable_recovery (tb_accounts d) i digest)
       (ac_recoveries (tb_accounts d)))))) (\<lambda>locked.
     if locked = 0 then fail InvalidRecoveryToken
     else if locked \<noteq> 1 then fail (Plain ''lock password recovery token affected rows'')
     else bind now_utc (\<lambda>now.
     bind (on_accounts (\<lambda>a. case delete_where (\<lambda>t. claimable_recovery a i digest t \<and> pt_expires_at t > now)
         (ac_recoveries a) of (n, ts) \<Rightarrow> (n, a \<lparr>ac_recoveries := ts\<rparr>))) (\<lambda>claimed.
     if claimed = 0 then fail InvalidRecoveryToken
     else if claimed \<noteq> 1 then fail (Plain ''claim password recovery token affected rows'')
     else bind (update_credentials (\<lambda>a c. lc_user_id c = i \<and> enabled_in a (lc_user_id c))
       (\<lambda>c. c \<lparr>lc_password_hash := hash, lc_must_change_password := False, lc_updated_at := now\<rparr>)) (\<lambda>updated.
     if updated = 0 then fail InvalidRecoveryToken
     else if updated \<noteq> 1 then fail (Plain ''update recovered password affected rows'')
     else bind (touch_user i now) (\<lambda>_.
     bind (delete_user_sessions i) (\<lambda>_.
     bind (remove_company_oidc_identity_for_recovery i) (\<lambda>_.
     record_event \<lparr>ev_id = 0, ev_actor_user_id = None, ev_action = ''user.password_recovery_completed'',
       ev_subject_type = subject_type_user, ev_subject_id = format_int i,
       ev_details = DetailsObject (text_field ''actor_kind'' ''recovery_link''), ev_created_at = zero_time\<rparr>))))))))"

definition complete_password_recovery :: "auth_env \<Rightarrow> string \<Rightarrow> string \<Rightarrow> unit go" where
  "complete_password_recovery env token new = (case password_recovery_token_digest env token of
     None \<Rightarrow> fail InvalidRecoveryToken
   | Some digest \<Rightarrow>
       bind now_utc (\<lambda>now.
       bind (preflight_password_recovery digest now) (\<lambda>i.
       when_invalid (validate_password new) (
       bind (pure_step (hash_password (ae_argon2 env) (ae_random env) 0 new)) (\<lambda>hash.
       commit_password_recovery i digest hash)))))"

subsection \<open>Repository grants\<close>

record repository_grant =
  rn_repository_id :: int
  rn_user_id :: int
  rn_role :: role
  rn_granted_by_user_id :: "int option"
  rn_granted_at :: instant

definition grant_is :: "int \<Rightarrow> int \<Rightarrow> role \<Rightarrow> grant_row \<Rightarrow> bool" where
  "grant_is repo i r g \<longleftrightarrow> rg_repository_id g = repo \<and> rg_user_id g = i \<and> rg_role g = r"

definition grant_row_ok :: "grant_row \<Rightarrow> db \<Rightarrow> bool" where
  "grant_row_ok g d \<longleftrightarrow> rg_repository_id g \<in> set (map repo_id (tb_repositories d)) \<and> rg_user_id g \<in> set (tb_users d)
     \<and> valid_for_repository (rg_role g) \<and> references (rg_granted_by_user_id g) (tb_users d)"

definition insert_grant :: "grant_row \<Rightarrow> unit go" where
  "insert_grant g = checked_accounts
     (\<lambda>d. grant_row_ok g d \<and> \<not> list_ex (grant_is (rg_repository_id g) (rg_user_id g) (rg_role g)) (ac_grants (tb_accounts d)))
     (\<lambda>a. ((), a \<lparr>ac_grants := ac_grants a @ [g]\<rparr>))"

definition insert_or_ignore_grant :: "grant_row \<Rightarrow> int go" where
  "insert_or_ignore_grant g = checked_accounts (grant_row_ok g)
     (\<lambda>a. if list_ex (grant_is (rg_repository_id g) (rg_user_id g) (rg_role g)) (ac_grants a) then (0, a)
          else (1, a \<lparr>ac_grants := ac_grants a @ [g]\<rparr>))"

definition delete_grants :: "int \<Rightarrow> int \<Rightarrow> role \<Rightarrow> int go" where
  "delete_grants repo i r = on_accounts (\<lambda>a. case delete_where (grant_is repo i r) (ac_grants a) of
     (n, gs) \<Rightarrow> (n, a \<lparr>ac_grants := gs\<rparr>))"

definition grant_repository_role :: "int \<Rightarrow> int \<Rightarrow> int \<Rightarrow> role \<Rightarrow> unit go" where
  "grant_repository_role actor repo i r =
     (if \<not> valid_for_repository r then fail (auth_invalid ''role cannot be granted on a repository'')
      else transact (
      bind (require_enabled_admin_actor actor) (\<lambda>_.
      bind (ensure_repository_exists repo) (\<lambda>_.
      bind (existing_user i) (\<lambda>_.
      bind now_utc (\<lambda>now.
      bind (insert_or_ignore_grant \<lparr>rg_repository_id = repo, rg_user_id = i, rg_role = r,
        rg_granted_by_user_id = Some actor, rg_granted_at = now\<rparr>) (\<lambda>inserted.
      if inserted = 0 then fail (auth_invalid ''user already holds this role for the repository'')
      else record_event (repository_grant_audit_event ''repository_grant.added'' actor repo i r))))))))"

definition revoke_repository_role :: "int \<Rightarrow> int \<Rightarrow> int \<Rightarrow> role \<Rightarrow> unit go" where
  "revoke_repository_role actor repo i r =
     (if \<not> valid_for_repository r then fail (auth_invalid ''role cannot be granted on a repository'')
      else transact (
      bind (require_enabled_admin_actor actor) (\<lambda>_.
      bind (delete_grants repo i r) (\<lambda>removed.
      if removed = 0 then fail (auth_invalid ''grant was not found'')
      else record_event (repository_grant_audit_event ''repository_grant.revoked'' actor repo i r)))))"

definition normalize_repository_role_set :: "role list \<Rightarrow> go_error + role list" where
  "normalize_repository_role_set raw =
     (let named = filter (\<lambda>r. r \<noteq> []) (map trim_space raw) in
      if list_all valid_for_repository named
      then Inr (filter (role_set_contains named) repository_roles)
      else Inl (auth_invalid ''repository role is invalid''))"

definition apply_role :: "int \<Rightarrow> int \<Rightarrow> int \<Rightarrow> instant \<Rightarrow> role list \<Rightarrow> role list \<Rightarrow> role \<Rightarrow> unit go" where
  "apply_role actor repo i now current desired r =
     (if \<not> role_set_contains current r \<and> role_set_contains desired r
      then bind (insert_grant \<lparr>rg_repository_id = repo, rg_user_id = i, rg_role = r,
          rg_granted_by_user_id = Some actor, rg_granted_at = now\<rparr>) (\<lambda>_.
        record_event (repository_grant_audit_event ''repository_grant.added'' actor repo i r))
      else if role_set_contains current r \<and> \<not> role_set_contains desired r
      then bind (delete_grants repo i r) (\<lambda>_.
        record_event (repository_grant_audit_event ''repository_grant.revoked'' actor repo i r))
      else ret ())"

definition set_user_repository_roles :: "int \<Rightarrow> int \<Rightarrow> int \<Rightarrow> role list \<Rightarrow> unit go" where
  "set_user_repository_roles actor repo i roles =
     bind (pure_step (normalize_repository_role_set roles)) (\<lambda>desired.
     transact (
     bind (require_enabled_admin_actor actor) (\<lambda>_.
     bind (ensure_repository_exists repo) (\<lambda>_.
     bind (existing_user i) (\<lambda>_.
     bind (query (\<lambda>d. map rg_role (filter (\<lambda>g. rg_repository_id g = repo \<and> rg_user_id g = i)
       (ac_grants (tb_accounts d))))) (\<lambda>current.
     bind now_utc (\<lambda>now.
     bind (for_each (apply_role actor repo i now current desired) repository_roles) (\<lambda>_. ret ()))))))))"

definition scan_grant :: "grant_row \<Rightarrow> repository_grant" where
  "scan_grant g = \<lparr>rn_repository_id = rg_repository_id g, rn_user_id = rg_user_id g, rn_role = rg_role g,
     rn_granted_by_user_id = rg_granted_by_user_id g, rn_granted_at = rg_granted_at g\<rparr>"

definition list_repository_grants :: "int \<Rightarrow> repository_grant list go" where
  "list_repository_grants repo = query (\<lambda>d. map scan_grant (sort_key (\<lambda>g. (rg_user_id g, rg_role g))
     (filter (\<lambda>g. rg_repository_id g = repo) (ac_grants (tb_accounts d)))))"

record repository_grant_detail = repository_grant +
  rn_granter_display_name :: string
  rn_migrated :: bool

definition detail_text :: "details \<Rightarrow> string \<Rightarrow> string option" where
  "detail_text d k = (case d of
     DetailsObject kvs \<Rightarrow> (case map_of kvs k of Some (DetailText s) \<Rightarrow> Some s | Some (DetailInt n) \<Rightarrow> Some (format_int n) | _ \<Rightarrow> None)
   | _ \<Rightarrow> None)"

text \<open>The event the authorisation cutover wrote for a grant it created.\<close>

definition migration_evidence :: "grant_row \<Rightarrow> audit_row \<Rightarrow> bool" where
  "migration_evidence g e \<longleftrightarrow> ar_action e = ''repository_grant.added'' \<and> ar_subject_type e = subject_type_repository
     \<and> ar_subject_id e = format_int (rg_repository_id g) \<and> ar_actor_user_id e = None
     \<and> ar_created_at e = rg_granted_at g
     \<and> detail_text (ar_details e) ''provenance'' = Some ''legacy_authorization_cutover''
     \<and> detail_text (ar_details e) ''user_id'' = Some (format_int (rg_user_id g))
     \<and> detail_text (ar_details e) ''role'' = Some (rg_role g)"

definition grant_detail :: "db \<Rightarrow> grant_row \<Rightarrow> repository_grant_detail" where
  "grant_detail d g = repository_grant.extend (scan_grant g)
     \<lparr>rn_granter_display_name = (case filter (\<lambda>u. Some (us_id u) = rg_granted_by_user_id g) (ac_users (tb_accounts d)) of
        [] \<Rightarrow> [] | u # _ \<Rightarrow> us_display_name u),
      rn_migrated = (rg_granted_by_user_id g = None \<and> list_ex (migration_evidence g) (tb_audit d))\<rparr>"

definition list_user_repository_grants :: "int \<Rightarrow> repository_grant_detail list go" where
  "list_user_repository_grants i =
     bind (existing_user i) (\<lambda>_.
     query (\<lambda>d. map (grant_detail d) (sort_key (\<lambda>g. (rg_repository_id g, rg_role g))
       (filter (\<lambda>g. rg_user_id g = i) (ac_grants (tb_accounts d))))))"

end
