(* ===== verification/Directory.thy ===== *)
theory Directory
  imports Accounts
begin

text \<open>
  The account views (\<open>internal/auth/directory.go\<close> and the access list of \<open>repository_grants.go\<close>):
  the searchable directory of users and who has access to a repository. \<open>like_matches\<close> is SQLite's
  \<open>LIKE ... ESCAPE '\'\<close>, which ignores the case of ASCII letters.
\<close>

definition user_directory_search_max_length :: nat where
  "user_directory_search_max_length = 120"

definition escape_byte :: "char \<Rightarrow> string" where
  "escape_byte c = (if c = CHR 0x5c \<or> c = CHR ''%'' \<or> c = CHR ''_'' then [CHR 0x5c, c] else [c])"

text \<open>Three \<open>strings.ReplaceAll\<close>, the backslash first: every special character gets a backslash.\<close>

definition escape_like :: "string \<Rightarrow> string" where
  "escape_like s = concat (map escape_byte s)"

fun like_matches :: "string \<Rightarrow> string \<Rightarrow> bool" where
  "like_matches [] s = (s = [])"
| "like_matches (p # ps) s =
     (if p = CHR ''%'' then like_matches ps s \<or> (case s of [] \<Rightarrow> False | _ # s' \<Rightarrow> like_matches (p # ps) s')
      else if p = CHR 0x5c
      then (case (ps, s) of (q # qs, x # s') \<Rightarrow> lower_byte q = lower_byte x \<and> like_matches qs s' | _ \<Rightarrow> False)
      else (case s of [] \<Rightarrow> False
        | x # s' \<Rightarrow> (p = CHR ''_'' \<or> lower_byte p = lower_byte x) \<and> like_matches ps s'))"

definition sql_trim_spaces :: "string \<Rightarrow> string" where
  "sql_trim_spaces s = drop_while_end (\<lambda>c. c = CHR '' '') (dropWhile (\<lambda>c. c = CHR '' '') s)"

record directory_entry = user +
  de_repository_count :: int
  de_has_viewer :: bool
  de_has_freezer :: bool
  de_has_thaw_approver :: bool

definition holds_role :: "accounts \<Rightarrow> int \<Rightarrow> role \<Rightarrow> bool" where
  "holds_role a i r = list_ex (\<lambda>g. rg_user_id g = i \<and> rg_role g = r) (ac_grants a)"

definition directory_entry_of :: "accounts \<Rightarrow> user_record \<Rightarrow> directory_entry" where
  "directory_entry_of a u = user.extend (plain_user u)
     \<lparr>de_repository_count = int (length (remdups (map rg_repository_id (filter (\<lambda>g. rg_user_id g = au_id u) (ac_grants a))))),
      de_has_viewer = holds_role a (au_id u) role_viewer, de_has_freezer = holds_role a (au_id u) role_freezer,
      de_has_thaw_approver = holds_role a (au_id u) role_thaw_approver\<rparr>"

definition directory_selects :: "accounts \<Rightarrow> string \<Rightarrow> int \<Rightarrow> user_row \<Rightarrow> bool" where
  "directory_selects a search repo u \<longleftrightarrow>
     (let pattern = CHR ''%'' # escape_like (to_lower search) @ [CHR ''%''] in
      (search = [] \<or> like_matches pattern (ascii_lower (us_display_name u)) \<or> like_matches pattern (ascii_lower (us_email u)))
      \<and> (repo = 0 \<or> has_admin_row a (us_id u)
         \<or> list_ex (\<lambda>g. rg_user_id g = us_id u \<and> rg_repository_id g = repo) (ac_grants a)))"

definition directory_order :: "'a user_scheme \<Rightarrow> string \<times> string \<times> int" where
  "directory_order u = (ascii_lower (sql_trim_spaces (au_display_name u)), ascii_lower (au_email u), au_id u)"

definition list_users_directory :: "string \<Rightarrow> int \<Rightarrow> directory_entry list go" where
  "list_users_directory search0 repo =
     (let search = trim_space search0 in
      if length search > user_directory_search_max_length then fail (auth_invalid ''search is too long'')
      else if repo < 0 then fail (auth_invalid ''repository filter is invalid'')
      else bind (if repo > 0 then ensure_repository_exists repo else ret ()) (\<lambda>_.
        query (\<lambda>d. let a = tb_accounts d in map (directory_entry_of a)
          (sort_key directory_order (users_where (directory_selects a search repo) a)))))"

subsection \<open>Who has access to a repository\<close>

record repository_access_user =
  ra_user_id :: int
  ra_email :: string
  ra_display_name :: string
  ra_disabled :: bool
  ra_is_admin :: bool
  ra_roles :: "role list"

definition malformed_access :: go_error where
  "malformed_access = Plain ''repository access user data is malformed''"

text \<open>\<open>CASE\<close> over the rows of \<open>user_roles\<close>: none, the admin row alone, anything else.\<close>

definition admin_projection :: "accounts \<Rightarrow> int \<Rightarrow> bool option" where
  "admin_projection a i = (case filter (\<lambda>r. ur_user_id r = i) (ac_roles a) of
     [] \<Rightarrow> Some False | [r] \<Rightarrow> if ur_role r = role_admin then Some True else None | _ \<Rightarrow> None)"

definition roles_in_repository :: "accounts \<Rightarrow> int \<Rightarrow> int \<Rightarrow> role list" where
  "roles_in_repository a repo i =
     map rg_role (filter (\<lambda>g. rg_repository_id g = repo \<and> rg_user_id g = i) (ac_grants a))"

definition access_user :: "accounts \<Rightarrow> int \<Rightarrow> user_row \<Rightarrow> repository_access_user option" where
  "access_user a repo u =
     (let roles = roles_in_repository a repo (us_id u) in
      case admin_projection a (us_id u) of
        None \<Rightarrow> None
      | Some admin \<Rightarrow>
          if us_id u \<le> 0 \<or> \<not> list_all valid_for_repository roles \<or> \<not> distinct roles then None
          else Some \<lparr>ra_user_id = us_id u, ra_email = us_email u, ra_display_name = us_display_name u,
            ra_disabled = (us_disabled_at u \<noteq> None), ra_is_admin = admin,
            ra_roles = filter (role_set_contains roles) repository_roles\<rparr>)"

definition list_repository_access_users :: "int \<Rightarrow> int list \<Rightarrow> repository_access_user list go" where
  "list_repository_access_users repo linked =
     (if repo \<le> 0 then fail (auth_invalid ''repository was not found'')
      else if \<not> list_all (\<lambda>i. i > 0) linked \<or> \<not> distinct linked then fail (auth_invalid ''linked user id is invalid'')
      else bind (query (\<lambda>d. let a = tb_accounts d in map (\<lambda>u. (us_id u, access_user a repo u))
          (sort_key (\<lambda>u. (ascii_lower (sql_trim_spaces (us_display_name u)), ascii_lower (us_email u), us_id u))
            (filter (\<lambda>u. us_id u \<in> set linked \<or> roles_in_repository a repo (us_id u) \<noteq> []) (ac_users a))))) (\<lambda>rows.
        case all_present (map snd rows) of
          None \<Rightarrow> fail malformed_access
        | Some users \<Rightarrow>
            if \<not> distinct (map fst rows) \<or> \<not> set linked \<subseteq> set (map fst rows) then fail malformed_access
            else ret users))"

definition list_repository_role_holders :: "int \<Rightarrow> repository_access_user list go" where
  "list_repository_role_holders repo = list_repository_access_users repo []"

subsection \<open>Searching is literal\<close>

lemma like_any: "like_matches (CHR ''%'' # ps) s \<longleftrightarrow> (\<exists>a b. s = a @ b \<and> like_matches ps b)"
proof (induction s)
  case (Cons x s)
  have "(\<exists>a b. x # s = a @ b \<and> like_matches ps b)
      \<longleftrightarrow> like_matches ps (x # s) \<or> (\<exists>a b. s = a @ b \<and> like_matches ps b)"
    by (metis append_Cons append_Nil neq_Nil_conv list.sel(3) list.distinct(1) list.inject)
  with Cons show ?case by simp
qed simp

lemma like_literal:
  "like_matches (escape_like p @ ps) s \<longleftrightarrow> (\<exists>a b. s = a @ b \<and> ascii_lower a = ascii_lower p \<and> like_matches ps b)"
proof (induction p arbitrary: s)
  case Nil
  then show ?case by (simp add: escape_like_def ascii_lower_def)
next
  case (Cons c p)
  note IH = Cons.IH
  have step: "like_matches (escape_byte c @ qs) s \<longleftrightarrow>
      (case s of [] \<Rightarrow> False | x # s' \<Rightarrow> lower_byte c = lower_byte x \<and> like_matches qs s')" for qs
    by (cases s) (auto simp: escape_byte_def)
  have "like_matches (escape_like (c # p) @ ps) s \<longleftrightarrow>
      (case s of [] \<Rightarrow> False | x # s' \<Rightarrow> lower_byte c = lower_byte x \<and> like_matches (escape_like p @ ps) s')"
    using step [of "escape_like p @ ps"] by (simp add: escape_like_def)
  also have "\<dots> \<longleftrightarrow> (\<exists>a b. s = a @ b \<and> ascii_lower a = ascii_lower (c # p) \<and> like_matches ps b)"
  proof (cases s)
    case (Cons x s')
    have "(\<exists>a b. x # s' = a @ b \<and> ascii_lower a = ascii_lower (c # p) \<and> like_matches ps b)
        \<longleftrightarrow> lower_byte x = lower_byte c \<and> (\<exists>a b. s' = a @ b \<and> ascii_lower a = ascii_lower p \<and> like_matches ps b)"
    proof
      assume "\<exists>a b. x # s' = a @ b \<and> ascii_lower a = ascii_lower (c # p) \<and> like_matches ps b"
      then obtain a b where "x # s' = a @ b" "ascii_lower a = ascii_lower (c # p)" "like_matches ps b" by blast
      then show "lower_byte x = lower_byte c \<and> (\<exists>a b. s' = a @ b \<and> ascii_lower a = ascii_lower p \<and> like_matches ps b)"
        by (cases a) (auto simp: ascii_lower_def)
    next
      assume "lower_byte x = lower_byte c \<and> (\<exists>a b. s' = a @ b \<and> ascii_lower a = ascii_lower p \<and> like_matches ps b)"
      then obtain a b where "lower_byte x = lower_byte c" "s' = a @ b" "ascii_lower a = ascii_lower p" "like_matches ps b" by blast
      then show "\<exists>a b. x # s' = a @ b \<and> ascii_lower a = ascii_lower (c # p) \<and> like_matches ps b"
        by (intro exI [of _ "x # a"] exI [of _ b]) (simp add: ascii_lower_def)
    qed
    then show ?thesis by (auto simp: local.Cons IH)
  qed (simp add: ascii_lower_def)
  finally show ?case .
qed

text \<open>
  Whatever characters a search contains, a user is found exactly when the search text occurs in
  the text searched, ignoring the case of ASCII letters.
\<close>

lemma search_is_literal:
  "like_matches (CHR ''%'' # escape_like p @ [CHR ''%'']) s \<longleftrightarrow> (\<exists>a m b. s = a @ m @ b \<and> ascii_lower m = ascii_lower p)"
  unfolding like_any like_literal by (auto simp: like_any)

end
