(* ===== verification/Invitations.thy ===== *)
theory Invitations
  imports Accounts RepositorySetup
begin

text \<open>
  Invitations (\<open>internal/auth/invitations.go\<close>, \<open>invitation_directory.go\<close>): an administrator stages
  an identity, the admin flag and repository roles; whoever holds the token becomes that user.
  Every other exit (cancelling, replacing, losing the authorising administrator) destroys the
  token. The constraints of migration 0035 a statement can violate are part of the statement.
\<close>

definition default_invitation_ttl :: int where
  "default_invitation_ttl = 7 * 24 * 3600 * nanos"

definition invitation_id_prefix :: string where
  "invitation_id_prefix = ''inv_''"

definition invitation_id_random_bytes :: nat where
  "invitation_id_random_bytes = 16"

definition invitation_bearer_bytes :: nat where
  "invitation_bearer_bytes = 32"

record invitation_repository_grant =
  ig_repository_id :: int
  ig_role :: role

record invitation_create =
  ic_actor_user_id :: int
  ic_email :: string
  ic_display_name :: string
  ic_is_admin :: bool
  ic_repository_grants :: "invitation_repository_grant list"

record invitation_reissue =
  ir_actor_user_id :: int
  ir_invitation_id :: string
  ir_is_admin :: bool
  ir_repository_grants :: "invitation_repository_grant list"

record invitation_credential =
  ik_invitation_id :: string
  ik_token :: string
  ik_expires_at :: instant

record invitation_link_replacement =
  il_replaced_invitation_id :: string
  il_invitation_id :: string
  il_email :: string
  il_display_name :: string
  il_is_admin :: bool
  il_repository_grants :: "invitation_repository_grant list"
  il_token :: string
  il_expires_at :: instant

subsection \<open>Identifiers and staged grants\<close>

definition valid_invitation_id :: "string \<Rightarrow> bool" where
  "valid_invitation_id i =
     (if length i \<noteq> length invitation_id_prefix + encoded_len invitation_id_random_bytes
         \<or> take (length invitation_id_prefix) i \<noteq> invitation_id_prefix
      then False
      else let suffix = drop (length invitation_id_prefix) i in
        (case base64_decode url_alphabet suffix of
           None \<Rightarrow> False
         | Some raw \<Rightarrow> if length raw \<noteq> invitation_id_random_bytes then False
             else base64_encode url_alphabet raw = suffix))"

text \<open>The \<open>CHECK\<close> on the column.\<close>

definition stored_invitation_id :: "string \<Rightarrow> bool" where
  "stored_invitation_id i \<longleftrightarrow> length i = 26 \<and> take 4 i = ''inv_''
     \<and> list_all (\<lambda>c. c \<in> set url_alphabet) (take 22 (drop 4 i)) \<and> i ! 25 \<in> set ''AQgw''"

definition new_invitation_id :: "auth_env \<Rightarrow> nat \<Rightarrow> go_error + string" where
  "new_invitation_id env k = (case random_token env k invitation_id_random_bytes of
     Inl e \<Rightarrow> Inl e | Inr suffix \<Rightarrow> Inr (invitation_id_prefix @ suffix))"

definition persisted_invitation_expiry :: "instant \<Rightarrow> instant" where
  "persisted_invitation_expiry now = now + default_invitation_ttl"

fun normalize_staged :: "invitation_repository_grant list \<Rightarrow> invitation_repository_grant list
    \<Rightarrow> go_error + invitation_repository_grant list" where
  "normalize_staged seen [] = Inr []"
| "normalize_staged seen (g0 # gs) =
     (let g = g0 \<lparr>ig_role := trim_space (ig_role g0)\<rparr> in
      if ig_repository_id g \<le> 0 then Inl (auth_invalid ''repository was not found'')
      else if \<not> valid_for_repository (ig_role g) then Inl (auth_invalid ''repository role is invalid'')
      else if g \<in> set seen then normalize_staged seen gs
      else (case normalize_staged (g # seen) gs of Inl e \<Rightarrow> Inl e | Inr rest \<Rightarrow> Inr (g # rest)))"

definition canonical_order :: "invitation_repository_grant list \<Rightarrow> invitation_repository_grant list" where
  "canonical_order gs = sort_key (\<lambda>g. (ig_repository_id g, ig_role g)) gs"

definition normalize_invitation_repository_grants ::
    "invitation_repository_grant list \<Rightarrow> go_error + invitation_repository_grant list" where
  "normalize_invitation_repository_grants raw = (case normalize_staged [] raw of
     Inl e \<Rightarrow> Inl e | Inr gs \<Rightarrow> Inr (canonical_order gs))"

definition normalize_create_invitation_params :: "invitation_create \<Rightarrow> go_error + invitation_create" where
  "normalize_create_invitation_params p0 =
     (let p = p0 \<lparr>ic_email := normalize_email (ic_email p0), ic_display_name := trim_space (ic_display_name p0)\<rparr> in
      case validate_local_identity (ic_email p) (ic_display_name p) of
        Some e \<Rightarrow> Inl e
      | None \<Rightarrow> (case normalize_invitation_repository_grants (ic_repository_grants p) of
          Inl e \<Rightarrow> Inl e | Inr gs \<Rightarrow> Inr (p \<lparr>ic_repository_grants := gs\<rparr>)))"

definition normalize_reissue_invitation_params :: "invitation_reissue \<Rightarrow> go_error + invitation_reissue" where
  "normalize_reissue_invitation_params p =
     (if \<not> valid_invitation_id (ir_invitation_id p) then Inl (auth_invalid ''invitation was not found'')
      else case normalize_invitation_repository_grants (ir_repository_grants p) of
        Inl e \<Rightarrow> Inl e | Inr gs \<Rightarrow> Inr (p \<lparr>ir_repository_grants := gs\<rparr>))"

fun validate_invitation_repositories :: "int \<Rightarrow> invitation_repository_grant list \<Rightarrow> unit go" where
  "validate_invitation_repositories previous [] = ret ()"
| "validate_invitation_repositories previous (g # gs) =
     (if ig_repository_id g = previous then validate_invitation_repositories previous gs
      else bind (ensure_repository_exists (ig_repository_id g)) (\<lambda>_.
           validate_invitation_repositories (ig_repository_id g) gs))"

subsection \<open>Statements\<close>

definition insert_staged :: "string \<Rightarrow> invitation_repository_grant \<Rightarrow> unit go" where
  "insert_staged i g = checked_accounts
     (\<lambda>d. i \<in> set (map vt_id (ac_invitations (tb_accounts d)))
        \<and> ig_repository_id g \<in> set (map repo_id (tb_repositories d)) \<and> ig_repository_id g > 0
        \<and> valid_for_repository (ig_role g)
        \<and> \<lparr>vg_invitation_id = i, vg_repository_id = ig_repository_id g, vg_role = ig_role g\<rparr>
            \<notin> set (ac_invitation_grants (tb_accounts d)))
     (\<lambda>a. ((), a \<lparr>ac_invitation_grants := ac_invitation_grants a
        @ [\<lparr>vg_invitation_id = i, vg_repository_id = ig_repository_id g, vg_role = ig_role g\<rparr>]\<rparr>))"

definition insert_invitation_repository_grants :: "string \<Rightarrow> invitation_repository_grant list \<Rightarrow> unit go" where
  "insert_invitation_repository_grants i gs = bind (for_each (insert_staged i) gs) (\<lambda>_. ret ())"

definition delete_staged :: "string \<Rightarrow> int go" where
  "delete_staged i = on_accounts (\<lambda>a. case delete_where (\<lambda>g. vg_invitation_id g = i) (ac_invitation_grants a) of
     (n, gs) \<Rightarrow> (n, a \<lparr>ac_invitation_grants := gs\<rparr>))"

definition count_staged :: "string \<Rightarrow> int go" where
  "count_staged i = query (\<lambda>d. int (length (filter (\<lambda>g. vg_invitation_id g = i)
     (ac_invitation_grants (tb_accounts d)))))"

definition insert_pending :: "string \<Rightarrow> string \<Rightarrow> string \<Rightarrow> string \<Rightarrow> instant \<Rightarrow> bool \<Rightarrow> int \<Rightarrow> nat \<Rightarrow> instant \<Rightarrow> unit go" where
  "insert_pending i email display_name digest expires_at is_admin actor grant_count now = checked_accounts
     (\<lambda>d. let a = tb_accounts d in stored_invitation_id i \<and> i \<notin> set (map vt_id (ac_invitations a))
        \<and> expires_at > 0 \<and> actor > 0 \<and> actor \<in> set (tb_users d)
        \<and> \<not> list_ex (\<lambda>v. vt_token_digest v = Some digest) (ac_invitations a)
        \<and> \<not> list_ex (\<lambda>v. vt_canonical_email v = Some email \<and> active_invitation v) (ac_invitations a))
     (\<lambda>a. ((), a \<lparr>ac_invitations := ac_invitations a @ [\<lparr>vt_id = i, vt_status = invitation_status_pending,
        vt_canonical_email = Some email, vt_display_name = Some display_name, vt_token_digest = Some digest,
        vt_expires_at = Some expires_at, vt_is_admin = Some is_admin, vt_authorized_by_user_id = Some actor,
        vt_expected_grant_count = Some (int grant_count), vt_created_at = now, vt_updated_at = now\<rparr>]\<rparr>))"

definition update_invitations :: "(invitation_row \<Rightarrow> bool) \<Rightarrow> (invitation_row \<Rightarrow> invitation_row) \<Rightarrow> int go" where
  "update_invitations p f = on_accounts (\<lambda>a. case update_where p f (ac_invitations a) of
     (n, vs) \<Rightarrow> (n, a \<lparr>ac_invitations := vs\<rparr>))"

definition redacted :: "string \<Rightarrow> instant \<Rightarrow> invitation_row \<Rightarrow> invitation_row" where
  "redacted status now v = v \<lparr>vt_status := status, vt_canonical_email := None, vt_display_name := None,
     vt_token_digest := None, vt_expires_at := None, vt_is_admin := None, vt_authorized_by_user_id := None,
     vt_expected_grant_count := None, vt_updated_at := now\<rparr>"

definition require_one_affected_row :: "string \<Rightarrow> int \<Rightarrow> unit go" where
  "require_one_affected_row operation n =
     (if n \<noteq> 1 then fail (Plain (operation @ '' affected rows'')) else ret ())"

definition load_managed_invitation :: "string \<Rightarrow> invitation_row go" where
  "load_managed_invitation i =
     bind (attempt (query_row (\<lambda>d. filter (\<lambda>v. vt_id v = i) (ac_invitations (tb_accounts d))))) (\<lambda>r. case r of
       Inl e \<Rightarrow> if e = NoRows then fail (auth_invalid ''invitation was not found'') else fail e
     | Inr v \<Rightarrow> ret v)"

definition reject_invitation_user_collision :: "string \<Rightarrow> unit go" where
  "reject_invitation_user_collision email =
     bind (query (\<lambda>d. email \<in> set (map us_email (ac_users (tb_accounts d))))) (\<lambda>exists.
     if exists then fail (auth_invalid ''user email already exists'') else ret ())"

definition active_or_fail :: "string \<Rightarrow> invitation_row \<Rightarrow> unit go" where
  "active_or_fail message v =
     (if active_invitation v then ret ()
      else if vt_status v = invitation_status_accepted \<or> vt_status v = invitation_status_cancelled
      then fail (auth_invalid message)
      else fail (Plain ''invitation has unsupported status''))"

subsection \<open>Managing invitations\<close>

definition create_invitation :: "auth_env \<Rightarrow> invitation_create \<Rightarrow> invitation_credential go" where
  "create_invitation env p0 =
     bind (pure_step (normalize_create_invitation_params p0)) (\<lambda>p.
     bind (pure_step (new_invitation_id env 0)) (\<lambda>i.
     bind (pure_step (random_token env 1 invitation_bearer_bytes)) (\<lambda>token.
     transact (
     bind (lock_enabled_admin_actor (ic_actor_user_id p)) (\<lambda>_.
     bind (reject_invitation_user_collision (ic_email p)) (\<lambda>_.
     bind (active_invitation_email_exists (ic_email p)) (\<lambda>reserved.
     if reserved then fail (auth_invalid ''an active invitation already exists for this email'')
     else bind (validate_invitation_repositories 0 (ic_repository_grants p)) (\<lambda>_.
     bind now_utc (\<lambda>now.
     let expires_at = persisted_invitation_expiry now; n = length (ic_repository_grants p) in
     bind (insert_pending i (ic_email p) (ic_display_name p) (ae_sha256 env token) expires_at (ic_is_admin p)
        (ic_actor_user_id p) n now) (\<lambda>_.
     bind (insert_invitation_repository_grants i (ic_repository_grants p)) (\<lambda>_.
     bind (record_invitation_audit ''invitation.created'' (ic_actor_user_id p) i
        (text_field ''expires_at'' (rfc3339_nano expires_at)
         @ text_field ''administrator'' (format_bool (ic_is_admin p))
         @ text_field ''repository_grant_count'' (format_int (int n)))) (\<lambda>_.
     ret \<lparr>ik_invitation_id = i, ik_token = token, ik_expires_at = expires_at\<rparr>))))))))))))"

definition reissue_row :: "string \<Rightarrow> string \<Rightarrow> instant \<Rightarrow> bool \<Rightarrow> int \<Rightarrow> nat \<Rightarrow> instant \<Rightarrow> int go" where
  "reissue_row i digest expires_at is_admin actor grant_count now = checked_accounts
     (\<lambda>d. expires_at > 0 \<and> actor > 0 \<and> actor \<in> set (tb_users d)
        \<and> \<not> list_ex (\<lambda>x. vt_id x \<noteq> i \<and> vt_token_digest x = Some digest) (ac_invitations (tb_accounts d)))
     (\<lambda>a. case update_where (\<lambda>x. vt_id x = i \<and> active_invitation x)
       (\<lambda>x. x \<lparr>vt_status := invitation_status_pending, vt_token_digest := Some digest,
          vt_expires_at := Some expires_at, vt_is_admin := Some is_admin, vt_authorized_by_user_id := Some actor,
          vt_expected_grant_count := Some (int grant_count), vt_updated_at := now\<rparr>) (ac_invitations a) of
       (m, vs) \<Rightarrow> (m, a \<lparr>ac_invitations := vs\<rparr>))"

definition reissue_invitation :: "auth_env \<Rightarrow> invitation_reissue \<Rightarrow> invitation_credential go" where
  "reissue_invitation env p0 =
     bind (pure_step (normalize_reissue_invitation_params p0)) (\<lambda>p.
     bind (pure_step (random_token env 0 invitation_bearer_bytes)) (\<lambda>token.
     let i = ir_invitation_id p; n = length (ir_repository_grants p); digest = ae_sha256 env token in
     transact (
     bind (lock_enabled_admin_actor (ir_actor_user_id p)) (\<lambda>_.
     bind (load_managed_invitation i) (\<lambda>v.
     bind (active_or_fail ''invitation cannot be reissued'' v) (\<lambda>_.
     case (vt_canonical_email v, vt_is_admin v, vt_expected_grant_count v) of
       (Some email, Some was_admin, Some expected) \<Rightarrow>
         bind (reject_invitation_user_collision email) (\<lambda>_.
         bind (validate_invitation_repositories 0 (ir_repository_grants p)) (\<lambda>_.
         bind (count_staged i) (\<lambda>actual.
         bind now_utc (\<lambda>now.
         let expires_at = persisted_invitation_expiry now in
         bind (delete_staged i) (\<lambda>_.
         bind (insert_invitation_repository_grants i (ir_repository_grants p)) (\<lambda>_.
         bind (reissue_row i digest expires_at (ir_is_admin p) (ir_actor_user_id p) n now) (\<lambda>m.
         bind (require_one_affected_row ''reissue invitation'' m) (\<lambda>_.
         bind (record_invitation_audit ''invitation.reissued'' (ir_actor_user_id p) i
            (text_field ''expires_at'' (rfc3339_nano expires_at)
             @ text_field ''administrator_before'' (format_bool was_admin)
             @ text_field ''administrator_after'' (format_bool (ir_is_admin p))
             @ text_field ''repository_grant_count_before_expected'' (format_int expected)
             @ text_field ''repository_grant_count_before_actual'' (format_int actual)
             @ text_field ''repository_grant_count_after'' (format_int (int n)))) (\<lambda>_.
         ret \<lparr>ik_invitation_id = i, ik_token = token, ik_expires_at = expires_at\<rparr>)))))))))
     | _ \<Rightarrow> fail (Plain ''active invitation row is malformed''))))))) "

definition load_surviving_invitation_repository_grants :: "string \<Rightarrow> invitation_repository_grant list go" where
  "load_surviving_invitation_repository_grants i =
     bind (query (\<lambda>d. canonical_order (map (\<lambda>g. \<lparr>ig_repository_id = vg_repository_id g, ig_role = vg_role g\<rparr>)
       (filter (\<lambda>g. vg_invitation_id g = i \<and> vg_repository_id g \<in> set (map repo_id (tb_repositories d)))
         (ac_invitation_grants (tb_accounts d)))))) (\<lambda>gs.
     if list_all (\<lambda>g. ig_repository_id g > 0 \<and> valid_for_repository (ig_role g)) gs then ret gs
     else fail (Plain ''staged invitation repository grant is malformed''))"

definition replace_invitation_link :: "auth_env \<Rightarrow> int \<Rightarrow> string \<Rightarrow> invitation_link_replacement go" where
  "replace_invitation_link env actor old =
     (if \<not> valid_invitation_id old then fail (auth_invalid ''invitation was not found'')
      else bind (pure_step (new_invitation_id env 0)) (\<lambda>i.
      bind (pure_step (random_token env 1 invitation_bearer_bytes)) (\<lambda>token.
      transact (
      bind (lock_enabled_admin_actor actor) (\<lambda>_.
      bind (load_managed_invitation old) (\<lambda>v.
      bind (active_or_fail ''invitation link cannot be replaced'' v) (\<lambda>_.
      case (vt_canonical_email v, vt_display_name v, vt_is_admin v, vt_expected_grant_count v) of
        (Some email, Some display_name, Some is_admin, Some expected) \<Rightarrow>
          if email \<noteq> normalize_email email \<or> display_name \<noteq> trim_space display_name
             \<or> validate_local_identity email display_name \<noteq> None \<or> expected < 0
          then fail (Plain ''active invitation row is malformed'')
          else bind (reject_invitation_user_collision email) (\<lambda>_.
          bind (count_staged old) (\<lambda>actual.
          bind (load_surviving_invitation_repository_grants old) (\<lambda>gs.
          bind now_utc (\<lambda>now.
          let expires_at = persisted_invitation_expiry now in
          bind (delete_staged old) (\<lambda>_.
          bind (update_invitations (\<lambda>x. vt_id x = old \<and> active_invitation x)
             (redacted invitation_status_cancelled now)) (\<lambda>m.
          bind (require_one_affected_row ''retire replaced invitation'' m) (\<lambda>_.
          bind (insert_pending i email display_name (ae_sha256 env token) expires_at is_admin actor (length gs) now) (\<lambda>_.
          bind (insert_invitation_repository_grants i gs) (\<lambda>_.
          bind (record_invitation_audit ''invitation.replaced'' actor i
             (text_field ''replaced_invitation_id'' old
              @ text_field ''expires_at'' (rfc3339_nano expires_at)
              @ text_field ''administrator'' (format_bool is_admin)
              @ text_field ''repository_grant_count_before_expected'' (format_int expected)
              @ text_field ''repository_grant_count_before_actual'' (format_int actual)
              @ text_field ''repository_grant_count_after'' (format_int (int (length gs))))) (\<lambda>_.
          ret \<lparr>il_replaced_invitation_id = old, il_invitation_id = i, il_email = email,
            il_display_name = display_name, il_is_admin = is_admin, il_repository_grants = gs,
            il_token = token, il_expires_at = expires_at\<rparr>))))))))))
      | _ \<Rightarrow> fail (Plain ''active invitation row is malformed''))))))))"

definition cancel_invitation :: "int \<Rightarrow> string \<Rightarrow> unit go" where
  "cancel_invitation actor i =
     (if \<not> valid_invitation_id i then fail (auth_invalid ''invitation was not found'')
      else transact (
      bind (lock_enabled_admin_actor actor) (\<lambda>_.
      bind (load_managed_invitation i) (\<lambda>v.
      bind (active_or_fail ''invitation cannot be cancelled'' v) (\<lambda>_.
      bind now_utc (\<lambda>now.
      bind (delete_staged i) (\<lambda>_.
      bind (record_invitation_audit ''invitation.cancelled'' actor i []) (\<lambda>_.
      bind (update_invitations (\<lambda>x. vt_id x = i \<and> active_invitation x)
        (redacted invitation_status_cancelled now)) (\<lambda>m.
      require_one_affected_row ''cancel invitation'' m)))))))))"

subsection \<open>Accepting\<close>

record acceptance_invitation =
  ai_id :: string
  ai_canonical_email :: string
  ai_display_name :: string
  ai_expires_at :: instant
  ai_is_admin :: bool
  ai_authorized_by :: "int option"
  ai_expected_grant_count :: int

definition scan_acceptance :: "invitation_row \<Rightarrow> go_error + acceptance_invitation" where
  "scan_acceptance v = (case (vt_canonical_email v, vt_display_name v, vt_expires_at v, vt_is_admin v, vt_expected_grant_count v) of
     (Some email, Some display_name, Some expires_at, Some is_admin, Some expected) \<Rightarrow>
       Inr \<lparr>ai_id = vt_id v, ai_canonical_email = email, ai_display_name = display_name, ai_expires_at = expires_at,
         ai_is_admin = is_admin, ai_authorized_by = vt_authorized_by_user_id v, ai_expected_grant_count = expected\<rparr>
   | _ \<Rightarrow> Inl (Plain ''converting NULL is unsupported''))"

definition bearer_matches :: "string \<Rightarrow> invitation_row \<Rightarrow> bool" where
  "bearer_matches digest v \<longleftrightarrow> vt_token_digest v = Some digest \<and> vt_status v = invitation_status_pending"

definition load_acceptance_invitation :: "string \<Rightarrow> acceptance_invitation go" where
  "load_acceptance_invitation digest =
     bind (attempt (query_row (\<lambda>d. filter (bearer_matches digest) (ac_invitations (tb_accounts d))))) (\<lambda>r. case r of
       Inl e \<Rightarrow> if e = NoRows then fail InvalidInvitation else fail e
     | Inr v \<Rightarrow> pure_step (scan_acceptance v))"

definition load_acceptance_repository_grants :: "string \<Rightarrow> invitation_repository_grant list go" where
  "load_acceptance_repository_grants i =
     bind (query (\<lambda>d. (canonical_order (map (\<lambda>g. \<lparr>ig_repository_id = vg_repository_id g, ig_role = vg_role g\<rparr>)
       (filter (\<lambda>g. vg_invitation_id g = i) (ac_invitation_grants (tb_accounts d)))),
       map repo_id (tb_repositories d)))) (\<lambda>(gs, repositories).
     if list_all (\<lambda>g. ig_repository_id g \<in> set repositories \<and> valid_for_repository (ig_role g)) gs then ret gs
     else fail InvalidInvitation)"

definition validate_acceptance_invitation ::
    "acceptance_invitation \<Rightarrow> instant \<Rightarrow> invitation_repository_grant list go" where
  "validate_acceptance_invitation v now = (case ai_authorized_by v of
     None \<Rightarrow> fail InvalidInvitation
   | Some authorizer \<Rightarrow>
       if \<not> valid_invitation_id (ai_id v) \<or> ai_canonical_email v \<noteq> normalize_email (ai_canonical_email v)
          \<or> ai_display_name v \<noteq> trim_space (ai_display_name v)
          \<or> validate_local_identity (ai_canonical_email v) (ai_display_name v) \<noteq> None
          \<or> ai_expires_at v \<le> now \<or> authorizer \<le> 0 \<or> ai_expected_grant_count v < 0
       then fail InvalidInvitation
       else bind (query (\<lambda>d. enabled_in (tb_accounts d) authorizer \<and> has_admin_row (tb_accounts d) authorizer)) (\<lambda>eligible.
       if \<not> eligible then fail InvalidInvitation
       else bind (query (\<lambda>d. ai_canonical_email v \<in> set (map us_email (ac_users (tb_accounts d))))) (\<lambda>collision.
       if collision then fail InvalidInvitation
       else bind (load_acceptance_repository_grants (ai_id v)) (\<lambda>gs.
       if int (length gs) \<noteq> ai_expected_grant_count v then fail InvalidInvitation else ret gs))))"

definition invitation_bearer_digest :: "auth_env \<Rightarrow> string \<Rightarrow> string option" where
  "invitation_bearer_digest env token =
     (if canonical_token invitation_bearer_bytes token then Some (ae_sha256 env token) else None)"

definition preflight_invitation_acceptance :: "string \<Rightarrow> instant \<Rightarrow> unit go" where
  "preflight_invitation_acceptance digest now =
     bind (load_acceptance_invitation digest) (\<lambda>v.
     bind (validate_acceptance_invitation v now) (\<lambda>_. ret ()))"

definition insert_accepted_repository_grants ::
    "int \<Rightarrow> int \<Rightarrow> invitation_repository_grant list \<Rightarrow> instant \<Rightarrow> unit go" where
  "insert_accepted_repository_grants i authorizer gs now =
     bind (for_each (\<lambda>g. insert_grant \<lparr>rg_repository_id = ig_repository_id g, rg_user_id = i, rg_role = ig_role g,
       rg_granted_by_user_id = Some authorizer, rg_granted_at = now\<rparr>) gs) (\<lambda>_. ret ())"

definition accepted_grant_event :: "int \<Rightarrow> int \<Rightarrow> invitation_repository_grant \<Rightarrow> audit_event" where
  "accepted_grant_event authorizer i g = map_event (Some authorizer) ''repository_grant.added'' subject_type_repository
     (format_int (ig_repository_id g)) (text_field ''actor_kind'' ''user'' @ text_field ''provenance'' ''invitation_acceptance''
       @ text_field ''role'' (ig_role g) @ text_field ''user_id'' (format_int i))"

definition record_invitation_acceptance_audits ::
    "acceptance_invitation \<Rightarrow> int \<Rightarrow> user \<Rightarrow> invitation_repository_grant list \<Rightarrow> unit go" where
  "record_invitation_acceptance_audits v authorizer u gs =
     bind (record_event (map_event None ''invitation.accepted'' subject_type_invitation (ai_id v)
       (text_field ''accepted_user_id'' (format_int (au_id u)) @ text_field ''actor_kind'' ''invitation_link''))) (\<lambda>_.
     bind (record_event (map_event None ''user.created'' subject_type_user (format_int (au_id u))
       (text_field ''actor_kind'' ''invitation_link'' @ text_field ''onboarding'' ''invitation''
        @ text_field ''sign_in'' ''password''))) (\<lambda>_.
     bind (if ai_is_admin v
           then record_event (user_audit_event ''user.roles_updated'' authorizer (au_id u)
             (text_field ''provenance'' ''invitation_acceptance'' @ text_field ''roles_after'' ''admin''
              @ text_field ''roles_before'' ''none''))
           else ret ()) (\<lambda>_.
     bind (for_each (\<lambda>g. record_event (accepted_grant_event authorizer (au_id u) g)) gs) (\<lambda>_. ret ()))))"

definition commit_invitation_acceptance :: "string \<Rightarrow> string \<Rightarrow> user go" where
  "commit_invitation_acceptance digest hash = transact (
     bind (query (\<lambda>d. int (length (filter (bearer_matches digest) (ac_invitations (tb_accounts d)))))) (\<lambda>claimed.
     if claimed = 0 then fail InvalidInvitation
     else if claimed \<noteq> 1 then fail (Plain ''claim invitation affected rows'')
     else bind now_utc (\<lambda>now.
     bind (load_acceptance_invitation digest) (\<lambda>v.
     bind (validate_acceptance_invitation v now) (\<lambda>gs.
     let authorizer = (case ai_authorized_by v of None \<Rightarrow> 0 | Some n \<Rightarrow> n) in
     bind (attempt (insert_user (ai_canonical_email v) (ai_display_name v) hash False (ai_is_admin v))) (\<lambda>r. case r of
       Inl e \<Rightarrow> if is_validation_error AuthPkg e then fail InvalidInvitation else fail e
     | Inr u \<Rightarrow>
         bind (insert_accepted_repository_grants (au_id u) authorizer gs now) (\<lambda>_.
         bind (update_invitations (\<lambda>x. vt_id x = ai_id v \<and> bearer_matches digest x)
           (redacted invitation_status_accepted now)) (\<lambda>m.
         if m = 0 then fail InvalidInvitation
         else if m \<noteq> 1 then fail (Plain ''accept invitation affected rows'')
         else bind (delete_staged (ai_id v)) (\<lambda>deleted.
         if deleted \<noteq> int (length gs) then fail InvalidInvitation
         else bind (record_invitation_acceptance_audits v authorizer u gs) (\<lambda>_.
         ret u)))))))))) "

definition accept_invitation :: "auth_env \<Rightarrow> string \<Rightarrow> string \<Rightarrow> user go" where
  "accept_invitation env token password = (case invitation_bearer_digest env token of
     None \<Rightarrow> fail InvalidInvitation
   | Some digest \<Rightarrow>
       bind now_utc (\<lambda>now.
       bind (preflight_invitation_acceptance digest now) (\<lambda>_.
       when_invalid (validate_password password) (
       bind (pure_step (hash_password (ae_argon2 env) (ae_random env) 0 password)) (\<lambda>hash.
       commit_invitation_acceptance digest hash)))))"

subsection \<open>The active invitations\<close>

datatype invitation_lifecycle = InvitationLifecyclePending | InvitationLifecycleExpired | InvitationLifecycleNeedsReplacement

record active_invitation_view =
  iv_id :: string
  iv_email :: string
  iv_display_name :: string
  iv_lifecycle :: invitation_lifecycle
  iv_expires_at :: "instant option"
  iv_is_admin :: bool
  iv_repository_grants :: "invitation_repository_grant list"
  iv_expected_grant_count :: int
  iv_actual_grant_count :: int

definition access_drift :: "active_invitation_view \<Rightarrow> bool" where
  "access_drift v \<longleftrightarrow> iv_actual_grant_count v \<noteq> iv_expected_grant_count v"

definition invitation_usable :: "active_invitation_view \<Rightarrow> bool" where
  "invitation_usable v \<longleftrightarrow> iv_lifecycle v = InvitationLifecyclePending \<and> \<not> access_drift v"

definition malformed_invitation :: go_error where
  "malformed_invitation = Plain ''active invitation row is malformed''"

definition invitation_lifecycle_of :: "invitation_row \<Rightarrow> instant \<Rightarrow> go_error + invitation_lifecycle" where
  "invitation_lifecycle_of v now =
     (if vt_status v = invitation_status_pending
      then (case vt_expires_at v of
        None \<Rightarrow> Inl malformed_invitation
      | Some t \<Rightarrow> if t \<le> 0 then Inl malformed_invitation
          else Inr (if t > now then InvitationLifecyclePending else InvitationLifecycleExpired))
      else if vt_status v = invitation_status_reissue
      then (if vt_expires_at v \<noteq> None then Inl malformed_invitation else Inr InvitationLifecycleNeedsReplacement)
      else Inl (Plain ''active invitation has unsupported status''))"

definition build_active_invitation :: "invitation_row \<Rightarrow> instant \<Rightarrow> go_error + active_invitation_view" where
  "build_active_invitation v now =
     (case (vt_canonical_email v, vt_display_name v, vt_is_admin v, vt_expected_grant_count v) of
        (Some email, Some display_name, Some is_admin, Some expected) \<Rightarrow>
          if \<not> valid_invitation_id (vt_id v) \<or> email = [] \<or> display_name = [] \<or> expected < 0
          then Inl malformed_invitation
          else (case invitation_lifecycle_of v now of
            Inl e \<Rightarrow> Inl e
          | Inr phase \<Rightarrow> Inr \<lparr>iv_id = vt_id v, iv_email = email, iv_display_name = display_name, iv_lifecycle = phase,
              iv_expires_at = (if phase = InvitationLifecycleNeedsReplacement then None else vt_expires_at v),
              iv_is_admin = is_admin, iv_repository_grants = [], iv_expected_grant_count = expected,
              iv_actual_grant_count = 0\<rparr>)
      | _ \<Rightarrow> Inl malformed_invitation)"

definition staged_of :: "accounts \<Rightarrow> string \<Rightarrow> invitation_repository_grant list" where
  "staged_of a i = canonical_order (map (\<lambda>g. \<lparr>ig_repository_id = vg_repository_id g, ig_role = vg_role g\<rparr>)
     (filter (\<lambda>g. vg_invitation_id g = i) (ac_invitation_grants a)))"

definition active_entry :: "accounts \<Rightarrow> instant \<Rightarrow> invitation_row \<Rightarrow> active_invitation_view go" where
  "active_entry a now v =
     bind (pure_step (build_active_invitation v now)) (\<lambda>x.
     let gs = staged_of a (vt_id v) in
     if list_all (\<lambda>g. ig_repository_id g > 0 \<and> valid_for_repository (ig_role g)) gs
     then ret (x \<lparr>iv_repository_grants := gs, iv_actual_grant_count := int (length gs)\<rparr>)
     else fail (Plain ''active invitation has a malformed staged repository grant''))"

definition list_active_invitations :: "active_invitation_view list go" where
  "list_active_invitations =
     bind now_utc (\<lambda>now.
     bind (query tb_accounts) (\<lambda>a.
     for_each (active_entry a now) (rev (sort_key (\<lambda>v. (vt_created_at v, vt_id v))
       (filter active_invitation (ac_invitations a))))))"

end
