(* ===== verification/AccountRequests.thy ===== *)
theory AccountRequests
  imports Directory Invitations
begin

text \<open>
  The requests of the account service in one operation: what the web server asks of it (the
  interface \<open>AuthService\<close> of \<open>internal/web/server.go\<close>) and the operations of the service beside them
  (one role at a time, password reset, reissued invitations, grants). The acting user is part of the
  parameters, as it is in the code.
\<close>

datatype account_request =
    CreateFirstAdmin user_create
  | Login string string
  | SessionByID string
  | Logout string
  | CreateUser user_create
  | SetUserAdmin int int bool
  | GrantRepositoryRole int int int role
  | RevokeRepositoryRole int int int role
  | SetUserRepositoryRoles int int int "role list"
  | DisableUser int int
  | EnableUser int int
  | ChangePassword int string string
  | ResetPassword int int string
  | VerifyCurrentPassword int string
  | IssuePasswordRecoveryToken int int
  | CompletePasswordRecovery string string
  | CreateInvitation invitation_create
  | ReissueInvitation invitation_reissue
  | ReplaceInvitationLink int string
  | CancelInvitation int string
  | AcceptInvitation string string
  | CreateCompanyOIDCSession int int int
  | HasUsers
  | GetUser int
  | GrantsForUser int
  | ListUsers
  | ListUsersDirectory string int
  | ListUserRepositoryGrants int
  | ListRepositoryGrants int
  | ListRepositoryRoleHolders int
  | ListRepositoryAccessUsers int "int list"
  | ListActiveInvitations

definition ignore :: "'a go \<Rightarrow> unit go" where
  "ignore m = bind m (\<lambda>_. ret ())"

fun perform_account :: "auth_env \<Rightarrow> account_request \<Rightarrow> unit go" where
  "perform_account env (CreateFirstAdmin p) = ignore (create_first_admin env p)"
| "perform_account env (Login email password) = ignore (login env email password)"
| "perform_account env (SessionByID i) = ignore (session_by_id i)"
| "perform_account env (Logout i) = logout i"
| "perform_account env (CreateUser p) = ignore (create_user env p)"
| "perform_account env (SetUserAdmin actor i admin) = ignore (set_user_admin actor i admin)"
| "perform_account env (GrantRepositoryRole actor repo i r) = grant_repository_role actor repo i r"
| "perform_account env (RevokeRepositoryRole actor repo i r) = revoke_repository_role actor repo i r"
| "perform_account env (SetUserRepositoryRoles actor repo i rs) = set_user_repository_roles actor repo i rs"
| "perform_account env (DisableUser actor i) = ignore (disable_user actor i)"
| "perform_account env (EnableUser actor i) = ignore (enable_user actor i)"
| "perform_account env (ChangePassword i current new) = ignore (change_password env i current new)"
| "perform_account env (ResetPassword actor i temporary) = reset_password env actor i temporary"
| "perform_account env (VerifyCurrentPassword i password) = verify_current_password env i password"
| "perform_account env (IssuePasswordRecoveryToken actor i) = ignore (issue_password_recovery_token env actor i)"
| "perform_account env (CompletePasswordRecovery token new) = complete_password_recovery env token new"
| "perform_account env (CreateInvitation p) = ignore (create_invitation env p)"
| "perform_account env (ReissueInvitation p) = ignore (reissue_invitation env p)"
| "perform_account env (ReplaceInvitationLink actor i) = ignore (replace_invitation_link env actor i)"
| "perform_account env (CancelInvitation actor i) = cancel_invitation actor i"
| "perform_account env (AcceptInvitation token password) = ignore (accept_invitation env token password)"
| "perform_account env (CreateCompanyOIDCSession i revision generation) =
     ignore (create_company_oidc_session env i revision generation)"
| "perform_account env HasUsers = ignore has_users"
| "perform_account env (GetUser i) = ignore (get_user i)"
| "perform_account env (GrantsForUser i) = ignore (grants_for_user i)"
| "perform_account env ListUsers = ignore list_users"
| "perform_account env (ListUsersDirectory search repo) = ignore (list_users_directory search repo)"
| "perform_account env (ListUserRepositoryGrants i) = ignore (list_user_repository_grants i)"
| "perform_account env (ListRepositoryGrants repo) = ignore (list_repository_grants repo)"
| "perform_account env (ListRepositoryRoleHolders repo) = ignore (list_repository_role_holders repo)"
| "perform_account env (ListRepositoryAccessUsers repo linked) = ignore (list_repository_access_users repo linked)"
| "perform_account env ListActiveInvitations = ignore list_active_invitations"

end
