(* ===== verification/Application.thy ===== *)
theory Application
  imports Materializer ThawApproval WebhookIntake AccountRequests
begin

text \<open>
  The application as \<open>internal/app/app.go\<close> wires it: which store or service stands behind each
  interface, what the web server may call, and the two background runners. \<open>outside\<close> is what
  the application is given from elsewhere: the forge, the zone database, encryption, decoding and
  hashing; a request of the account service comes with the random bytes it will draw. \<open>perform\<close> carries out one request or one tick of a runner; its result only says
  whether it failed, since what counts here is what it does to the tables.
\<close>

record outside =
  ox_forge :: forge_env
  ox_inspector_for :: "repository \<Rightarrow> string \<Rightarrow> inspector option go"
  ox_zones :: "string \<Rightarrow> zone option"
  ox_secrets :: "secret_store option"
  ox_parse_url :: "string \<Rightarrow> parsed_url option"
  ox_decode :: "string \<Rightarrow> payload option"
  ox_sha256 :: "string \<Rightarrow> string"
  ox_digest :: "string \<Rightarrow> string"
  ox_argon2 :: argon2_env

subsection \<open>Wiring\<close>

definition wired_readiness :: "outside \<Rightarrow> readiness_env" where
  "wired_readiness ox = \<lparr>re_forge = ox_forge ox, re_inspector_for = ox_inspector_for ox\<rparr>"

definition application_enforcement :: "outside \<Rightarrow> enforcement_env" where
  "application_enforcement ox = wired_enforcement (ox_forge ox) (wired_readiness ox)"

definition wired_recompute :: "outside \<Rightarrow> recompute_env" where
  "wired_recompute ox = \<lparr>rx_sync = sync_open_pull_requests (ox_forge ox),
     rx_open_by_branch = list_open_by_target_branch,
     rx_run_shared_head = run_for_shared_head wired_service, rx_publish = publish (ox_forge ox),
     rx_convergence = Some runtime_convergence,
     rx_end_materialized = Some (end_materialized_freeze (ox_zones ox))\<rparr>"

definition wired_approval :: "outside \<Rightarrow> approval_env" where
  "wired_approval ox = \<lparr>ap_forge = ox_forge ox, ap_sync = sync_open_pull_requests (ox_forge ox),
     ap_run_shared_head = run_for_shared_head wired_service, ap_publish = publish (ox_forge ox),
     ap_convergence = Some runtime_convergence, ap_digest = ox_digest ox\<rparr>"

definition wired_webhooks :: "outside \<Rightarrow> webhook_env" where
  "wired_webhooks ox = \<lparr>wh_parse_url = ox_parse_url ox,
     wh_run_shared_head = run_for_shared_head wired_service, wh_publish = publish (ox_forge ox),
     wh_convergence = Some runtime_convergence\<rparr>"

definition wired_intake :: "outside \<Rightarrow> intake_env" where
  "wired_intake ox = \<lparr>wi_decode = ox_decode ox, wi_sha256 = ox_sha256 ox, wi_secrets = ox_secrets ox,
     wi_processing = wired_webhooks ox\<rparr>"

definition schedule_materializer :: "outside \<Rightarrow> unit go" where
  "schedule_materializer ox =
     run_once (ox_zones ox) list_active_coverages (recompute_surface (wired_recompute ox))"

definition lifecycle_runner :: "outside \<Rightarrow> unit go" where
  "lifecycle_runner ox =
     run_due_lifecycle (recompute_lifecycle (wired_recompute ox)) (Some (schedule_materializer ox))"

definition reconciliation_runner :: "outside \<Rightarrow> go_error option go" where
  "reconciliation_runner ox = run_due_reconciliations (application_enforcement ox)"

definition wired_accounts :: "outside \<Rightarrow> entropy \<Rightarrow> auth_env" where
  "wired_accounts ox e = \<lparr>ae_random = e, ae_argon2 = ox_argon2 ox, ae_sha256 = ox_sha256 ox\<rparr>"

subsection \<open>Requests and ticks\<close>

text \<open>The changing methods of the interfaces the web server is given, and the ticks of the runners.\<close>

datatype command =
    VerifyStatusPosting int
  | ActivateEnforcement int
  | DeactivateEnforcement int
  | ReconcileEnforcement int
  | RecoverEnforcement int
  | CreateRepository repository_create
  | SetWebhookSecret int string
  | SetStatusToken int string
  | AddBranch int string
  | RemoveBranch int string
  | RunSetupCheck repository
  | CreateActive freeze_create
  | EndFreeze int
  | CancelFreeze int
  | CreateScheduled freeze_plan
  | EditScheduled freeze_edit
  | CancelScheduled int
  | StartScheduledNow int
  | CreateSchedule schedule_create
  | DeleteSchedule int
  | ActivateSchedule int
  | PauseSchedule int
  | AddRules rules_add
  | DeleteRule int int
  | AddWindow window_add
  | DeleteWindow int int
  | ApproveThaw thaw_request
  | ForgejoWebhook webhook_request
  | AccountRequest entropy account_request
  | LifecycleTick
  | ReconciliationTick

definition discard :: "'a go \<Rightarrow> unit go" where
  "discard m = bind m (\<lambda>_. ret ())"

fun perform :: "outside \<Rightarrow> actor \<Rightarrow> command \<Rightarrow> unit go" where
  "perform ox a (VerifyStatusPosting i) = discard (verify_status_posting (application_enforcement ox) i a)"
| "perform ox a (ActivateEnforcement i) = discard (activate_enforcement (application_enforcement ox) i a)"
| "perform ox a (DeactivateEnforcement i) = discard (deactivate_enforcement (application_enforcement ox) i a)"
| "perform ox a (ReconcileEnforcement i) = discard (reconcile_enforcement (application_enforcement ox) i a)"
| "perform ox a (RecoverEnforcement i) = discard (recover_enforcement (application_enforcement ox) i a)"
| "perform ox a (CreateRepository p) = discard (setup_create (ox_parse_url ox) p a)"
| "perform ox a (SetWebhookSecret i s) = discard (setup_webhook_secret (ox_parse_url ox) (ox_secrets ox) i s a)"
| "perform ox a (SetStatusToken i t) = discard (setup_status_token (ox_parse_url ox) (ox_secrets ox) i t a)"
| "perform ox a (AddBranch i b) = discard (setup_add_branch i b a)"
| "perform ox a (RemoveBranch i b) = setup_remove_branch i b a"
| "perform ox a (RunSetupCheck repo) = discard (run_readiness (wired_readiness ox) repo a)"
| "perform ox a (CreateActive p) = discard (recompute_create_active (wired_recompute ox) p a)"
| "perform ox a (EndFreeze i) = discard (recompute_end (wired_recompute ox) i a)"
| "perform ox a (CancelFreeze i) = discard (recompute_cancel (wired_recompute ox) i a)"
| "perform ox a (CreateScheduled p) = discard (recompute_create_scheduled p a)"
| "perform ox a (EditScheduled p) = discard (service_edit_scheduled p a)"
| "perform ox a (CancelScheduled i) = discard (service_cancel_scheduled i a)"
| "perform ox a (StartScheduledNow i) = discard (recompute_start_scheduled_now (wired_recompute ox) i a)"
| "perform ox a (CreateSchedule p) = discard (schedule_service_create (ox_zones ox) p a)"
| "perform ox a (DeleteSchedule i) = discard (schedule_service_delete i a)"
| "perform ox a (ActivateSchedule i) = discard (schedule_service_activate i a)"
| "perform ox a (PauseSchedule i) = discard (schedule_service_pause i a)"
| "perform ox a (AddRules p) = discard (schedule_service_add_rules p a)"
| "perform ox a (DeleteRule i j) = discard (schedule_service_delete_rule i j a)"
| "perform ox a (AddWindow p) = discard (schedule_service_add_window (ox_zones ox) p a)"
| "perform ox a (DeleteWindow i j) = discard (schedule_service_delete_window i j a)"
| "perform ox a (ApproveThaw p) = discard (approve_thaw_request (wired_approval ox) p a)"
| "perform ox a (ForgejoWebhook r) = discard (handle_forgejo_webhook (wired_intake ox) r)"
| "perform ox a (AccountRequest e r) = perform_account (wired_accounts ox e) r"
| "perform ox a LifecycleTick = lifecycle_runner ox"
| "perform ox a ReconciliationTick = discard (reconciliation_runner ox)"

end
