(* ===== verification/DeliveryFacts.thy ===== *)
theory DeliveryFacts
  imports WebhookIntake Footprint Samples
begin

text \<open>
  What receiving webhooks guarantees: a webhook nobody signed with the secret of the repository
  changes nothing, a delivery is recorded once, and a delivery that was processed is final.
\<close>

subsection \<open>The table\<close>

definition delivery_key :: "delivery_row \<Rightarrow> int option \<times> string" where
  "delivery_key r = (wd_repository_id r, wd_delivery_id r)"

definition deliveries_ok :: "db \<Rightarrow> bool" where
  "deliveries_ok d \<longleftrightarrow> distinct (map wd_id (tb_deliveries d))
     \<and> distinct (map delivery_key (tb_deliveries d))
     \<and> (\<forall>r \<in> set (tb_deliveries d). wd_repository_id r \<noteq> None
          \<and> (wd_processed_at r \<noteq> None \<longrightarrow> wd_processing_started_at r = None))"

text \<open>The table stays in order, no delivery is lost, and what was processed stays as it is.\<close>

definition deliveries_final :: "db \<Rightarrow> db \<Rightarrow> bool" where
  "deliveries_final d d' \<longleftrightarrow> (deliveries_ok d \<longrightarrow> deliveries_ok d'
     \<and> set (map wd_id (tb_deliveries d)) \<subseteq> set (map wd_id (tb_deliveries d'))
     \<and> (\<forall>r \<in> set (tb_deliveries d). wd_processed_at r \<noteq> None \<longrightarrow> r \<in> set (tb_deliveries d')))"

interpretation final: table_relation deliveries_final
  by unfold_locales (unfold deliveries_final_def, blast+)

lemma final_untouched: "tb_deliveries d' = tb_deliveries d \<Longrightarrow> deliveries_final d d'"
  by (simp add: deliveries_final_def deliveries_ok_def)

lemma final_update:
  assumes "\<And>r. wd_id (f r) = wd_id r" and "\<And>r. p r \<Longrightarrow> wd_processed_at (f r) \<noteq> None \<longrightarrow> wd_processing_started_at (f r) = None"
    and "\<And>r. wd_processing_started_at r = None \<Longrightarrow> wd_processed_at r \<noteq> None \<Longrightarrow> \<not> p r"
    and "distinct (map delivery_key (tb_deliveries d)) \<Longrightarrow> distinct (map delivery_key (snd (update_where p f (tb_deliveries d))))"
    and "\<And>r. wd_repository_id r \<noteq> None \<Longrightarrow> wd_repository_id (f r) \<noteq> None"
  shows "deliveries_final d (d \<lparr>tb_deliveries := snd (update_where p f (tb_deliveries d))\<rparr>)"
proof -
  have ids: "map wd_id (snd (update_where p f (tb_deliveries d))) = map wd_id (tb_deliveries d)"
    using assms(1) by (auto simp: update_where_def)
  have rows: "r \<in> set (snd (update_where p f (tb_deliveries d)))" if "r \<in> set (tb_deliveries d)" "\<not> p r" for r
    using that by (force simp: update_where_def)
  have new: "r \<in> set (tb_deliveries d) \<or> (\<exists>r' \<in> set (tb_deliveries d). r = f r' \<and> p r')"
    if "r \<in> set (snd (update_where p f (tb_deliveries d)))" for r
    using that by (auto simp: update_where_def split: if_splits)
  show ?thesis
    unfolding deliveries_final_def deliveries_ok_def
  proof (intro impI conjI ballI)
    fix r
    assume ok: "distinct (map wd_id (tb_deliveries d)) \<and> distinct (map delivery_key (tb_deliveries d))
     \<and> (\<forall>r \<in> set (tb_deliveries d). wd_repository_id r \<noteq> None
          \<and> (wd_processed_at r \<noteq> None \<longrightarrow> wd_processing_started_at r = None))"
    show "distinct (map wd_id (tb_deliveries (d \<lparr>tb_deliveries := snd (update_where p f (tb_deliveries d))\<rparr>)))"
      "distinct (map delivery_key (tb_deliveries (d \<lparr>tb_deliveries := snd (update_where p f (tb_deliveries d))\<rparr>)))"
      "set (map wd_id (tb_deliveries d)) \<subseteq> set (map wd_id (tb_deliveries (d \<lparr>tb_deliveries := snd (update_where p f (tb_deliveries d))\<rparr>)))"
      using ok ids assms(4) by (simp_all del: set_map)
    show "wd_repository_id r \<noteq> None" "wd_processed_at r \<noteq> None \<Longrightarrow> wd_processing_started_at r = None"
      if "r \<in> set (tb_deliveries (d \<lparr>tb_deliveries := snd (update_where p f (tb_deliveries d))\<rparr>))"
      using that new [of r] ok assms(2,5) by auto
    show "r \<in> set (tb_deliveries (d \<lparr>tb_deliveries := snd (update_where p f (tb_deliveries d))\<rparr>))"
      if "r \<in> set (tb_deliveries d)" "wd_processed_at r \<noteq> None"
      using that rows [of r] ok assms(3) [of r] by auto
  qed
qed

lemma final_insert:
  assumes "wd_id r = fresh_id (map wd_id (tb_deliveries d))" and "delivery_key r \<notin> delivery_key ` set (tb_deliveries d)"
    and "wd_repository_id r \<noteq> None" and "wd_processed_at r = None"
  shows "deliveries_final d (d \<lparr>tb_deliveries := tb_deliveries d @ [r]\<rparr>)"
  using assms fresh_id_new [of "map wd_id (tb_deliveries d)"] by (auto simp: deliveries_final_def deliveries_ok_def)

subsection \<open>The operations\<close>

lemma final_rows [simp]:
  "deliveries_final d (d \<lparr>tb_jobs := a\<rparr>)" "deliveries_final d (d \<lparr>tb_audit := b\<rparr>)"
  "deliveries_final d (d \<lparr>tb_pulls := c\<rparr>)" "deliveries_final d (d \<lparr>tb_results := e\<rparr>)"
  by (simp_all add: final_untouched)

lemma final_reads:
  "observes (get_delivery i)" "observes (find_delivery repo key)"
  unfolding get_delivery_def find_delivery_def Let_def by (intro looking)+

lemma final_record: "within deliveries_final (record_delivery params)"
proof -
  have insert: "within deliveries_final (insert_delivery p now)" if "validate_delivery_record p = None" for p now
    using that unfolding insert_delivery_def
    by (intro final.sql) (auto simp: Let_def list_ex_iff is_delivery_def delivery_key_def nullable_delivery_int_def
        validate_delivery_record_def split: if_splits intro!: final_insert final.refl)
  show ?thesis unfolding record_delivery_def Let_def
    by (intro final.when_invalid final.bind final.option_op final.sum_op final.attempt final.now_utc final.ret final.fail
        final.looks [OF final_reads(1)] final.looks [OF final_reads(2)] insert)
qed

lemma final_claim: "within deliveries_final (claim_for_processing i)"
  unfolding claim_for_processing_def update_deliveries_def
  by (intro final.if_op final.fail final.bind final.now_utc final.exec final.ret final.looks [OF final_reads(1)])
     (auto simp: split_beta delivery_claimable_def delivery_key_def map_update_where intro!: final_update)

lemma final_finish:
  "within deliveries_final (mark_processed i params)" "within deliveries_final (mark_processing_failed i message started)"
proof -
  have "deliveries_final d (d \<lparr>tb_deliveries := snd (update_where (claimed_at i t) (finished_delivery p now) (tb_deliveries d))\<rparr>)"
    if "delivery_constraints d (snd (update_where (claimed_at i t) (finished_delivery p now) (tb_deliveries d)))" for d i t p now
  proof (cases "deliveries_ok d")
    case True
    have some: "wd_repository_id r \<noteq> None \<Longrightarrow> wd_repository_id (finished_delivery p now r) \<noteq> None" for r
      by (auto simp: finished_delivery_def coalesce_def split: option.split)
    have "filter (\<lambda>r. wd_repository_id r \<noteq> None) (snd (update_where (claimed_at i t) (finished_delivery p now) (tb_deliveries d)))
        = snd (update_where (claimed_at i t) (finished_delivery p now) (tb_deliveries d))"
      using True some by (auto simp: deliveries_ok_def update_where_def intro!: filter_True)
    with that have "distinct (map delivery_key (snd (update_where (claimed_at i t) (finished_delivery p now) (tb_deliveries d))))"
      by (simp add: delivery_constraints_def delivery_key_def [abs_def])
    then show ?thesis using some
      by (intro final_update) (auto simp: finished_delivery_def claimed_at_def)
  qed (simp add: deliveries_final_def)
  then show "within deliveries_final (mark_processed i params)"
    unfolding mark_processed_def Let_def
    by (intro final.when_invalid final.bind final.now_utc final.sql final.if_op final.fail final.looks [OF final_reads(1)])
       (auto simp: split_beta final.refl)
  show "within deliveries_final (mark_processing_failed i message started)"
    unfolding mark_processing_failed_def update_deliveries_def Let_def
    by (intro final.if_op final.fail final.bind final.exec final.looks [OF final_reads(1)])
       (auto simp: split_beta claimed_at_def delivery_key_def map_update_where intro!: final_update)
qed

subsection \<open>Who may change anything\<close>

lemma stays_bind:
  assumes "tables (snd (m w)) = tables w" and "\<And>x w'. m w = (Inr x, w') \<Longrightarrow> tables (snd (f x w')) = tables w'"
  shows "tables (snd (bind m f w)) = tables w"
proof -
  obtain r w1 where m: "m w = (r, w1)" by (cases "m w")
  with assms show ?thesis by (cases r) (auto simp: bind_def)
qed

lemma stays_attempt:
  assumes "tables (snd (m w)) = tables w" and "\<And>r w'. m w = (r, w') \<Longrightarrow> tables (snd (f r w')) = tables w'"
  shows "tables (snd (bind (attempt m) f w)) = tables w"
proof -
  obtain r w1 where m: "m w = (r, w1)" by (cases "m w")
  with assms show ?thesis by (auto simp: bind_def attempt_def)
qed

lemma stays_looks: "observes m \<Longrightarrow> tables (snd (m w)) = tables w"
  by (simp add: observes_def)

lemma row_found: "query_row f w = (Inr x, w') \<Longrightarrow> x \<in> set (f (tables w))"
  by (auto simp: query_row_def sql_def first_row_def split: if_splits list.splits)

text \<open>The repositories a body is about: at most one, found by the remote it names.\<close>

definition addressees :: "intake_env \<Rightarrow> string \<Rightarrow> db \<Rightarrow> repository list" where
  "addressees env body d = (case parse_body env body of
     None \<Rightarrow> []
   | Some e \<Rightarrow>
       (let p = normalize_remote_params \<lparr>rm_forge = pe_forge e, rm_base_url = pe_base_url e,
              rm_owner = pe_owner e, rm_name = pe_repository_name e\<rparr> in
        filter (\<lambda>r. repo_forge r = rm_forge p \<and> repo_base_url r = rm_base_url p \<and> repo_owner r = rm_owner p
          \<and> repo_name r = rm_name p \<and> repo_active r) (tb_repositories d)))"

definition signed_with_secret :: "intake_env \<Rightarrow> (string \<Rightarrow> string) \<Rightarrow> webhook_request \<Rightarrow> db \<Rightarrow> bool" where
  "signed_with_secret env plain r d = (case rq_body r of
     WebhookBody body \<Rightarrow> list_ex (\<lambda>repo. list_ex (\<lambda>s. se_repository_id s = repo_id repo
       \<and> verify_hmac_sha256 (wi_sha256 env) (plain (se_ciphertext s)) body (webhook_signature_header r))
       (tb_webhook_secrets d)) (addressees env body d)
   | _ \<Rightarrow> False)"

text \<open>A secret store that only computes: it may fail, and otherwise gives the text for the ciphertext.\<close>

definition decrypts_to :: "(string \<Rightarrow> string) \<Rightarrow> secret_store option \<Rightarrow> bool" where
  "decrypts_to plain secrets \<longleftrightarrow> (\<forall>store. secrets = Some store \<longrightarrow> (\<forall>c w.
     tables (snd (ss_decrypt store c w)) = tables w \<and> (case fst (ss_decrypt store c w) of
       Inl _ \<Rightarrow> True | Inr text \<Rightarrow> text = plain c)))"

lemma read_secret:
  assumes "decrypts_to plain secrets"
  shows "tables (snd (setup_read_webhook_secret secrets i w)) = tables w"
    "setup_read_webhook_secret secrets i w = (Inr (Some secret), w') \<Longrightarrow>
       \<exists>s \<in> set (tb_webhook_secrets (tables w)). se_repository_id s = i \<and> secret = plain (se_ciphertext s)"
proof -
  have stored: "observes (webhook_secret_ciphertext i)"
    unfolding webhook_secret_ciphertext_def by (rule repository_reads(9))
  show "tables (snd (setup_read_webhook_secret secrets i w)) = tables w"
  proof (cases secrets)
    case (Some store)
    then show ?thesis
      using assms unfolding setup_read_webhook_secret_def Some option.case
      by (auto intro!: stays_bind stays_looks [OF stored] simp: decrypted_def ret_def decrypts_to_def split: option.split)
  qed (simp add: setup_read_webhook_secret_def fail_def)
  assume run: "setup_read_webhook_secret secrets i w = (Inr (Some secret), w')"
  then obtain store where store: "secrets = Some store"
    by (auto simp: setup_read_webhook_secret_def fail_def split: option.splits)
  from run obtain c w1 where c: "webhook_secret_ciphertext i w = (Inr c, w1)" and d: "decrypted store c w1 = (Inr (Some secret), w')"
    unfolding setup_read_webhook_secret_def store option.case by (rule bind_cases)
  then obtain cipher where some: "c = Some cipher" by (cases c) (auto simp: decrypted_def ret_def)
  from d [unfolded decrypted_def some option.case] obtain t w2 where "ss_decrypt store cipher w1 = (Inr t, w2)"
    and "ret (Some t) w2 = (Inr (Some secret), w')" by (rule bind_cases)
  then have "fst (ss_decrypt store cipher w1) = Inr secret" by (simp add: ret_def)
  then have plain: "secret = plain cipher"
    using assms [unfolded decrypts_to_def, rule_format, OF store, of cipher w1] by simp
  let ?F = "\<lambda>d. map se_ciphertext (filter (\<lambda>s. se_repository_id s = i
       \<and> list_ex (\<lambda>r. repo_id r = i \<and> repo_active r) (tb_repositories d)) (tb_webhook_secrets d))"
  have "\<not> i \<le> 0" using c by (auto simp: webhook_secret_ciphertext_def stored_ciphertext_def fail_def)
  then have "webhook_secret_ciphertext i = bind (attempt (query_row ?F)) (\<lambda>r. case r of
       Inl e \<Rightarrow> if e = NoRows then ret None else fail e
     | Inr ciphertext \<Rightarrow> ret (if ciphertext = [] then None else Some ciphertext))"
    by (simp only: webhook_secret_ciphertext_def stored_ciphertext_def if_False)
  from c [unfolded this some]
  obtain r w2 where q: "attempt (query_row ?F) w = (Inr r, w2)"
    and r: "(case r of Inl e \<Rightarrow> if e = NoRows then ret None else fail e
       | Inr ciphertext \<Rightarrow> ret (if ciphertext = [] then None else Some ciphertext)) w2 = (Inr (Some cipher), w1)"
    by (rule bind_cases)
  from r have "r = Inr cipher" by (auto simp: ret_def fail_def split: sum.splits if_splits)
  with q have "query_row ?F w = (Inr cipher, w2)" by (auto simp: attempt_def split: prod.splits)
  then have "cipher \<in> set (?F (tables w))" by (rule row_found)
  then show "\<exists>s \<in> set (tb_webhook_secrets (tables w)). se_repository_id s = i \<and> secret = plain (se_ciphertext s)"
    using plain by auto
qed

lemma addressee_found:
  assumes "parse_body env body = Some e"
    and "find_active_by_remote \<lparr>rm_forge = pe_forge e, rm_base_url = pe_base_url e, rm_owner = pe_owner e,
      rm_name = pe_repository_name e\<rparr> w = (Inr (Some repo), w')"
  shows "\<exists>r \<in> set (addressees env body (tables w)). repo_id r = repo_id repo"
proof -
  let ?p = "normalize_remote_params \<lparr>rm_forge = pe_forge e, rm_base_url = pe_base_url e, rm_owner = pe_owner e,
      rm_name = pe_repository_name e\<rparr>"
  let ?F = "repositories_where (\<lambda>r. repo_forge r = rm_forge ?p \<and> repo_base_url r = rm_base_url ?p
      \<and> repo_owner r = rm_owner ?p \<and> repo_name r = rm_name ?p \<and> repo_active r)"
  have "\<not> (rm_forge ?p = [] \<or> rm_base_url ?p = [] \<or> rm_owner ?p = [] \<or> rm_name ?p = [])"
    using assms(2) by (auto simp: find_active_by_remote_def Let_def fail_def split: if_splits)
  then have "find_active_by_remote \<lparr>rm_forge = pe_forge e, rm_base_url = pe_base_url e, rm_owner = pe_owner e,
      rm_name = pe_repository_name e\<rparr> = bind (attempt (query_row ?F)) (\<lambda>r. case r of
        Inl e \<Rightarrow> if e = NoRows then ret None else fail e | Inr repo \<Rightarrow> ret (Some repo))"
    by (simp only: find_active_by_remote_def Let_def if_False)
  from assms(2) [unfolded this] obtain r w2 where q: "attempt (query_row ?F) w = (Inr r, w2)"
    and r: "(case r of Inl e \<Rightarrow> if e = NoRows then ret None else fail e | Inr repo \<Rightarrow> ret (Some repo)) w2
      = (Inr (Some repo), w')" by (rule bind_cases)
  from r have "r = Inr repo" by (auto simp: ret_def fail_def split: sum.splits if_splits)
  with q have "query_row ?F w = (Inr repo, w2)" by (auto simp: attempt_def split: prod.splits)
  then have "repo \<in> set (?F (tables w))" by (rule row_found)
  then show ?thesis
    by (auto simp: addressees_def assms(1) Let_def repositories_where_def scan_repository_def)
qed

text \<open>The handler, up to the point where a signature has been verified.\<close>

lemma handler_stays:
  assumes "decrypts_to plain (wi_secrets env)"
    and "\<And>body repo e p secret w'. rq_body r = WebhookBody body \<Longrightarrow> parse_body env body = Some e \<Longrightarrow>
      wi_decode env body = Some p \<Longrightarrow>
      tables w' = tables w \<Longrightarrow> \<exists>x \<in> set (addressees env body (tables w)). repo_id x = repo_id repo \<Longrightarrow>
      \<exists>s \<in> set (tb_webhook_secrets (tables w)). se_repository_id s = repo_id repo \<and> secret = plain (se_ciphertext s) \<Longrightarrow>
      verify_hmac_sha256 (wi_sha256 env) secret body (webhook_signature_header r) \<Longrightarrow>
      tables (snd (record_verified env r repo body e p w')) = tables w'"
  shows "tables (snd (handle_forgejo_webhook env r w)) = tables w"
proof (cases "rq_body r")
  case (WebhookBody body)
  show ?thesis
  proof (cases "\<exists>p e. wi_decode env body = Some p \<and> parse_body env body = Some e
      \<and> \<not> (body = [] \<or> \<not> webhook_event_may_be_pull_request r)")
    case True
    then obtain p e where decoded: "wi_decode env body = Some p" "parse_body env body = Some e"
      and relevant: "\<not> (body = [] \<or> \<not> webhook_event_may_be_pull_request r)" by (elim exE conjE) (rule that)
    have eq: "handle_forgejo_webhook env r = bind (attempt (find_active_by_remote \<lparr>rm_forge = pe_forge e,
        rm_base_url = pe_base_url e, rm_owner = pe_owner e, rm_name = pe_repository_name e\<rparr>)) (\<lambda>found. case found of
             Inl _ \<Rightarrow> ret InternalServerError
           | Inr None \<Rightarrow> ret Accepted
           | Inr (Some repo) \<Rightarrow> verify_and_record env r repo body e p)"
      by (simp only: handle_forgejo_webhook_def WebhookBody webhook_body.case decoded prod.case option.case relevant if_False)
    show ?thesis
      unfolding eq
    proof (rule stays_attempt)
      fix found w1
      assume f: "find_active_by_remote \<lparr>rm_forge = pe_forge e, rm_base_url = pe_base_url e,
          rm_owner = pe_owner e, rm_name = pe_repository_name e\<rparr> w = (found, w1)"
      then have w1: "tables w1 = tables w" using observes_after [OF repository_reads(8)] by blast
      show "tables (snd ((case found of Inl _ \<Rightarrow> ret InternalServerError | Inr None \<Rightarrow> ret Accepted
           | Inr (Some repo) \<Rightarrow> verify_and_record env r repo body e p) w1)) = tables w1"
      proof (cases "\<exists>repo. found = Inr (Some repo)")
        case True
        then obtain repo where found: "found = Inr (Some repo)" by blast
        note who = addressee_found [OF decoded(2) f [unfolded found]]
        show ?thesis
          unfolding found sum.case option.case verify_and_record_def
        proof (rule stays_attempt [OF read_secret(1) [OF assms(1)]])
          fix read w2
          assume s: "setup_read_webhook_secret (wi_secrets env) (repo_id repo) w1 = (read, w2)"
          then have w2: "tables w2 = tables w1" using read_secret(1) [OF assms(1), of "repo_id repo" w1] by simp
          have "tables (snd (record_verified env r repo body e p w2)) = tables w2"
            if "read = Inr (Some secret)" "verify_hmac_sha256 (wi_sha256 env) secret body (webhook_signature_header r)" for secret
            using assms(2) [OF WebhookBody decoded(2,1) _ who _ that(2), of w2] w1 w2
              read_secret(2) [OF assms(1) s [unfolded that(1)]] by simp
          then show "tables (snd ((case read of Inl (ConfigurationError _) \<Rightarrow> ret Accepted
             | Inl _ \<Rightarrow> ret InternalServerError | Inr None \<Rightarrow> ret Accepted
             | Inr (Some secret) \<Rightarrow>
                 if \<not> verify_hmac_sha256 (wi_sha256 env) secret body (webhook_signature_header r) then ret Accepted
                 else record_verified env r repo body e p) w2)) = tables w2"
            by (auto simp: ret_def split: sum.split option.split go_error.split)
        qed
      qed (auto simp: ret_def split: sum.split option.split)
    qed (rule stays_looks [OF repository_reads(8)])
  qed (auto simp: handle_forgejo_webhook_def WebhookBody ret_def split: option.split)
qed (simp_all add: handle_forgejo_webhook_def ret_def)

text \<open>
  C6: Nobody changes anything who cannot sign. A webhook whose signature is not the MAC of its body
  under the secret of the repository it names leaves every table as it is, whatever it contains,
  whatever the headers say and whatever statement fails.
\<close>

theorem unsigned_webhook_changes_nothing:
  assumes "decrypts_to plain (wi_secrets env)" and "\<not> signed_with_secret env plain r (tables w)"
  shows "tables (snd (handle_forgejo_webhook env r w)) = tables w"
  using assms(2)
  by (intro handler_stays [OF assms(1)]) (fastforce simp: signed_with_secret_def list_ex_iff)

definition processed_before :: "intake_env \<Rightarrow> webhook_request \<Rightarrow> db \<Rightarrow> bool" where
  "processed_before env r d = (case rq_body r of
     WebhookBody body \<Rightarrow> list_all (\<lambda>repo. list_ex (\<lambda>x. wd_processed_at x \<noteq> None \<and> is_delivery (repo_id repo)
       (trim_space (webhook_delivery_id (wi_sha256 env) r (repo_id repo) body)) x) (tb_deliveries d))
       (addressees env body d)
   | _ \<Rightarrow> True)"

lemma only_delivery:
  assumes "deliveries_ok d" and "x \<in> set (tb_deliveries d)" and "y \<in> set (tb_deliveries d)"
  shows "is_delivery repo key x \<Longrightarrow> is_delivery repo key y \<Longrightarrow> x = y" "wd_id x = wd_id y \<Longrightarrow> x = y"
  using assms by (auto simp: deliveries_ok_def is_delivery_def delivery_key_def distinct_map inj_on_def)

lemma found_processed:
  assumes "deliveries_ok (tables w)" and "x \<in> set (tb_deliveries (tables w))" and "is_delivery repo key x"
    and "find_delivery repo key w = (Inr found, w')" and "trim_space key = key"
  shows "found = Some (scan_delivery x)"
proof -
  let ?F = "\<lambda>d. map scan_delivery (filter (is_delivery repo key) (tb_deliveries d))"
  have "\<not> repo \<le> 0" "key \<noteq> []" "\<not> invalid_delivery_text key 255"
    using assms(4) by (auto simp: find_delivery_def Let_def fail_def assms(5) split: if_splits)
  then have "find_delivery repo key = bind (attempt (query_row ?F)) (\<lambda>r. case r of
      Inl e \<Rightarrow> if e = NoRows then ret None else fail e | Inr x \<Rightarrow> ret (Some x))"
    by (simp only: find_delivery_def Let_def assms(5) if_False)
  from assms(4) [unfolded this] obtain r w2 where q: "attempt (query_row ?F) w = (Inr r, w2)"
    and r: "(case r of Inl e \<Rightarrow> if e = NoRows then ret None else fail e | Inr x \<Rightarrow> ret (Some x)) w2 = (Inr found, w')"
    by (rule bind_cases)
  have run: "query_row ?F w = (r, w2)" using q by (auto simp: attempt_def split: prod.splits)
  have "scan_delivery x \<in> set (?F (tables w))" using assms(2,3) by auto
  then have "r \<noteq> Inl NoRows"
    using run by (auto simp: query_row_def sql_def first_row_def filter_empty_conv split: if_splits list.splits)
  with r obtain y where y: "r = Inr y" "found = Some y" by (auto simp: ret_def fail_def split: sum.splits if_splits)
  then have "y \<in> set (?F (tables w))" using row_found [of ?F w y w2] run by simp
  then show ?thesis using only_delivery(1) [OF assms(1,2)] assms(3) y by auto
qed

lemma claim_of_processed:
  assumes "deliveries_ok (tables w)" and "x \<in> set (tb_deliveries (tables w))" and "wd_processed_at x \<noteq> None"
  shows "tables (snd (claim_and_process env (wd_id x) repo action p w)) = tables w"
proof -
  have "\<not> delivery_claimable (wd_id x) now y" if "y \<in> set (tb_deliveries (tables w))" for now y
    using only_delivery(2) [OF assms(1,2) that] assms(3) by (auto simp: delivery_claimable_def)
  then have none: "snd (update_where (delivery_claimable (wd_id x) now) f (tb_deliveries (tables w))) = tb_deliveries (tables w)"
    "fst (update_where (delivery_claimable (wd_id x) now) f (tb_deliveries (tables w))) = 0" for now f
    by (auto simp: update_where_def filter_empty_conv intro!: map_idI)
  have claim: "tables (snd (claim_for_processing (wd_id x) w)) = tables w
      \<and> (\<forall>d c. fst (claim_for_processing (wd_id x) w) = Inr (d, c) \<longrightarrow> \<not> c)"
  proof (cases "wd_id x \<le> 0")
    case False
    have updated: "tables (snd (update_deliveries (delivery_claimable (wd_id x) now) f w1)) = tables w \<and>
        (\<forall>n. fst (update_deliveries (delivery_claimable (wd_id x) now) f w1) = Inr n \<longrightarrow> n = 0)"
      if "tables w1 = tables w" for w1 :: world and now f
      using none [of now f] that by (simp add: update_deliveries_def exec_def sql_def split_beta)
    define body where "body = bind now_utc (\<lambda>now. bind (update_deliveries (delivery_claimable (wd_id x) now)
        (\<lambda>r. r \<lparr>wd_processing_started_at := Some now, wd_error := None\<rparr>)) (\<lambda>affected.
      bind (get_delivery (wd_id x)) (\<lambda>d. ret (d, affected > 0))))"
    have "claim_for_processing (wd_id x) = body" using False by (simp add: claim_for_processing_def body_def)
    moreover have "tables (snd (body w)) = tables w"
      unfolding body_def
    proof (rule stays_bind)
      fix now w1
      assume "now_utc w = (Inr now, w1)"
      then have t: "tables w1 = tables w" by (auto simp: now_utc_def)
      have kept: "tables (snd (update_deliveries (delivery_claimable (wd_id x) now) f w1)) = tables w1" for f
        using updated [OF t, of now f] t by simp
      have reads: "observes (bind (get_delivery (wd_id x)) (\<lambda>d. ret (d, affected > 0)))" for affected :: int
        by (intro observes_bind final_reads observes_basic)
      show "tables (snd (bind (update_deliveries (delivery_claimable (wd_id x) now)
          (\<lambda>r. r \<lparr>wd_processing_started_at := Some now, wd_error := None\<rparr>)) (\<lambda>affected.
          bind (get_delivery (wd_id x)) (\<lambda>d. ret (d, affected > 0))) w1)) = tables w1"
        by (rule stays_bind, rule kept, rule stays_looks, rule reads)
    qed (simp add: now_utc_def)
    moreover have "\<not> c" if run: "body w = (Inr (d, c), w')" for d c w'
    proof -
      from run [unfolded body_def] obtain now w1 where n: "now_utc w = (Inr now, w1)"
        and rest: "bind (update_deliveries (delivery_claimable (wd_id x) now)
          (\<lambda>r. r \<lparr>wd_processing_started_at := Some now, wd_error := None\<rparr>)) (\<lambda>affected.
            bind (get_delivery (wd_id x)) (\<lambda>d. ret (d, affected > 0))) w1 = (Inr (d, c), w')" by (rule bind_cases)
      from rest obtain k w2 where u: "update_deliveries (delivery_claimable (wd_id x) now)
          (\<lambda>r. r \<lparr>wd_processing_started_at := Some now, wd_error := None\<rparr>) w1 = (Inr k, w2)"
        and g: "bind (get_delivery (wd_id x)) (\<lambda>d. ret (d, k > 0)) w2 = (Inr (d, c), w')" by (rule bind_cases)
      have "tables w1 = tables w" using n by (auto simp: now_utc_def)
      then have "k = 0" using updated [of w1] u by (metis fst_conv)
      with g show ?thesis by (auto simp: ret_def elim: bind_cases)
    qed
    ultimately show ?thesis by (metis prod.collapse)
  qed (simp add: claim_for_processing_def fail_def)
  show ?thesis
    unfolding claim_and_process_def
  proof (cases "wd_id x = 0")
    case False
    have "tables (snd (bind (attempt (claim_for_processing (wd_id x))) (\<lambda>r. case r of
        Inl _ \<Rightarrow> ret InternalServerError
      | Inr (d, claimed) \<Rightarrow> if \<not> claimed then ret Accepted else process_verified_webhook env d repo action p) w)) = tables w"
      using claim by (intro stays_attempt) (auto simp: ret_def split: sum.split)
    with False show "tables (snd ((if wd_id x = 0 then ret Accepted
      else bind (attempt (claim_for_processing (wd_id x))) (\<lambda>r. case r of
        Inl _ \<Rightarrow> ret InternalServerError
      | Inr (d, claimed) \<Rightarrow> if \<not> claimed then ret Accepted else process_verified_webhook env d repo action p)) w)) = tables w"
      by simp
  qed (simp add: ret_def)
qed

lemma record_of_processed:
  assumes "deliveries_ok (tables w)" and "x \<in> set (tb_deliveries (tables w))"
    and "is_delivery (dr_repository_id params) (trim_space (dr_delivery_id params)) x"
  shows "tables (snd (record_delivery params w)) = tables w"
    "record_delivery params w = (Inr out, w') \<Longrightarrow> out = AlreadyRecorded (scan_delivery x)"
proof -
  let ?p = "normalize_delivery_record params"
  let ?search = "find_delivery (dr_repository_id ?p) (dr_delivery_id ?p)"
  have found: "found = Some (scan_delivery x)" if "?search w = (Inr found, w1)" for found w1
  proof (rule found_processed [OF assms(1,2) _ that])
    show "is_delivery (dr_repository_id ?p) (dr_delivery_id ?p) x" using assms(3) by (simp add: normalize_delivery_record_def)
    show "trim_space (dr_delivery_id ?p) = dr_delivery_id ?p" by (simp add: normalize_delivery_record_def)
  qed
  obtain s w1 where s: "?search w = (s, w1)" by (cases "?search w")
  then have w1: "tables w1 = tables w" using observes_after [OF final_reads(2)] by blast
  have run: "record_delivery params w = (case validate_delivery_record ?p of Some e \<Rightarrow> (Inl e, w)
      | None \<Rightarrow> (case s of Inl e \<Rightarrow> (Inl e, w1) | Inr _ \<Rightarrow> (Inr (AlreadyRecorded (scan_delivery x)), w1)))"
    using s found by (cases s) (auto simp: record_delivery_def Let_def when_invalid_def bind_def ret_def fail_def split: option.split)
  show "tables (snd (record_delivery params w)) = tables w"
    "record_delivery params w = (Inr out, w') \<Longrightarrow> out = AlreadyRecorded (scan_delivery x)"
    using w1 by (auto simp: run split: option.splits sum.splits)
qed

text \<open>
  C7: A delivery that was processed is not processed again. When the delivery a signed webhook
  carries was already processed for the repository it names, receiving it again leaves every table
  as it is: no verdict, no post, no claim and no event, whatever statement fails.
\<close>

theorem replayed_delivery_changes_nothing:
  assumes "decrypts_to plain (wi_secrets env)" and "deliveries_ok (tables w)"
    and "processed_before env r (tables w)"
  shows "tables (snd (handle_forgejo_webhook env r w)) = tables w"
proof (rule handler_stays [OF assms(1)])
  fix body p and e :: pull_event and repo :: repository and w' :: world
  assume body: "rq_body r = WebhookBody body" and w': "tables w' = tables w"
    and who: "\<exists>x \<in> set (addressees env body (tables w)). repo_id x = repo_id repo"
  let ?key = "webhook_delivery_id (wi_sha256 env) r (repo_id repo) body"
  from assms(3) who body obtain x where x: "x \<in> set (tb_deliveries (tables w'))" "wd_processed_at x \<noteq> None"
    and key: "is_delivery (repo_id repo) (trim_space ?key) x"
    by (fastforce simp: processed_before_def list_all_iff list_ex_iff w')
  let ?params = "\<lparr>dr_repository_id = repo_id repo, dr_delivery_id = ?key, dr_event = ''pull_request'',
      dr_action = pe_action e, dr_verified = True\<rparr>"
  have ok: "deliveries_ok (tables w')" using assms(2) w' by simp
  note recorded = record_of_processed [where params = ?params, OF ok x(1), simplified, OF key]
  show "tables (snd (record_verified env r repo body e p w')) = tables w'"
    unfolding record_verified_def
  proof (rule stays_attempt, rule recorded(1))
    fix out w2
    assume run: "record_delivery ?params w' = (out, w2)"
    then have w2: "tables w2 = tables w'" using recorded(1) by simp
    show "tables (snd ((case out of
       Inr (Recorded d) \<Rightarrow> claim_and_process env (dv_id d) (repo_id repo) (pe_action e) p
     | Inr (AlreadyRecorded d) \<Rightarrow> claim_and_process env (dv_id d) (repo_id repo) (pe_action e) p
     | Inl err \<Rightarrow> if is_validation_error WebhookPkg err
         then claim_and_process env 0 (repo_id repo) (pe_action e) p else ret InternalServerError) w2)) = tables w2"
    proof (cases out)
      case (Inr y)
      then have "out = Inr (AlreadyRecorded (scan_delivery x))" using run recorded(2) by blast
      then show ?thesis
        using claim_of_processed [of w2 x env "repo_id repo" "pe_action e" p] ok x w2 by (simp add: scan_delivery_def)
    qed (simp add: claim_and_process_def ret_def)
  qed
qed

definition known_delivery :: delivery_row where
  "known_delivery = \<lparr>wd_id = 3, wd_repository_id = Some 1, wd_delivery_id = ''d1'', wd_event = ''pull_request'',
     wd_action = Some ''opened'', wd_received_at = 1, wd_verified = True, wd_processing_started_at = None,
     wd_processed_at = Some 2, wd_error = None\<rparr>"

definition webhook_db :: db where
  "webhook_db = empty_db \<lparr>tb_repositories := [gate_repository], tb_deliveries := [known_delivery],
     tb_webhook_secrets := [\<lparr>se_repository_id = 1, se_ciphertext = ''k'', se_updated_at = 0\<rparr>]\<rparr>"

definition plain_intake :: "payload \<Rightarrow> webhook_env \<Rightarrow> intake_env" where
  "plain_intake p ports = \<lparr>wi_decode = (\<lambda>_. Some p), wi_sha256 = (\<lambda>s. s),
     wi_secrets = Some \<lparr>ss_encrypt = ret, ss_decrypt = ret\<rparr>, wi_processing = ports\<rparr>"

lemma plain_decrypts: "decrypts_to (\<lambda>c. c) (wi_secrets (plain_intake p ports))"
  by (simp add: decrypts_to_def plain_intake_def ret_def)

definition delivered_request :: webhook_request where
  "delivered_request = \<lparr>rq_header = (\<lambda>n. if n = ''X-Gitea-Delivery'' then ''d1'' else []), rq_body = WebhookBody ''{}''\<rparr>"

lemma delivered_header: "trim_space ''d1'' = ''d1''" "\<not> contains_control ''d1''"
  by (rule trim_text; simp add: is_ascii_def is_space_rune_def)
     (simp add: contains_control_def runes_ascii is_ascii_def)

lemma unsigned_webhook_changes_nothing_witness:
  "\<forall>p ports. tables (snd (handle_forgejo_webhook (plain_intake p ports) delivered_request (quiet webhook_db 5))) = webhook_db"
proof (intro allI)
  fix p :: payload and ports :: webhook_env
  have "\<not> signed_with_secret (plain_intake p ports) (\<lambda>c. c) delivered_request (tables (quiet webhook_db 5))"
    by (simp add: signed_with_secret_def delivered_request_def webhook_signature_header_def first_header_def
        verify_hmac_sha256_def gate_simps list_ex_iff)
  from unsigned_webhook_changes_nothing [OF plain_decrypts this]
  show "tables (snd (handle_forgejo_webhook (plain_intake p ports) delivered_request (quiet webhook_db 5))) = webhook_db" by (simp add: quiet_simps)
qed

lemma replayed_delivery_changes_nothing_witness:
  "\<forall>p ports. tables (snd (handle_forgejo_webhook (plain_intake p ports) delivered_request (quiet webhook_db 5))) = webhook_db"
proof (intro allI)
  fix p :: payload and ports :: webhook_env
  have id: "webhook_delivery_id f delivered_request i body = ''d1''" for f i body
    by (simp add: webhook_delivery_id_def first_header_def delivered_request_def valid_webhook_delivery_id_def
        delivered_header gate_simps Let_def)
  have who: "repo_id x = 1" if "x \<in> set (addressees env body webhook_db)" for x env body
  proof -
    have "x \<in> set (tb_repositories webhook_db)"
      using that by (cases "parse_body env body") (simp_all add: addressees_def Let_def)
    then show ?thesis by (simp add: webhook_db_def empty_db_def gate_repository_def)
  qed
  have "deliveries_ok (tables (quiet webhook_db 5))"
    by (simp add: deliveries_ok_def quiet_simps webhook_db_def empty_db_def known_delivery_def)
  moreover have "processed_before (plain_intake p ports) delivered_request (tables (quiet webhook_db 5))"
  proof -
    have row: "wd_processed_at known_delivery \<noteq> None" "is_delivery 1 (trim_space ''d1'') known_delivery"
      "known_delivery \<in> set (tb_deliveries webhook_db)" "rq_body delivered_request = WebhookBody ''{}''"
      by (simp_all add: known_delivery_def is_delivery_def delivered_header webhook_db_def delivered_request_def)
    show ?thesis
      unfolding processed_before_def quiet_simps row(4) webhook_body.case list_all_iff list_ex_iff id
      using row(1-3) who by metis
  qed
  ultimately show "tables (snd (handle_forgejo_webhook (plain_intake p ports) delivered_request (quiet webhook_db 5))) = webhook_db"
    using replayed_delivery_changes_nothing [OF plain_decrypts] by (simp add: quiet_simps)
qed

end
