(* ===== verification/Changes.thy ===== *)
theory Changes
  imports EnforcementFacts DeliveryFacts PublisherFacts ScheduleServiceFacts ThawServiceFacts
begin

text \<open>
  The vocabulary of everything the program does to its tables: each \<open>change\<close> is one table (or
  the tables of one component) moving the way its store allows. Every operation below is shown
  to be a sequence of changes, so what all changes preserve is preserved by the application.
\<close>

inductive change :: "(string \<Rightarrow> zone option) \<Rightarrow> db \<Rightarrow> db \<Rightarrow> bool" for tz where
  event: "change tz d (d \<lparr>tb_audit := tb_audit d @ [e]\<rparr>)"
| result: "change tz d (d \<lparr>tb_results := tb_results d @ [s]\<rparr>)"
| attempted: "change tz d (d \<lparr>tb_attempts := tb_attempts d @ [a]\<rparr>)"
| exception: "change tz d (d \<lparr>tb_thaws := tb_thaws d @ [t]\<rparr>)"
| check: "change tz d (d \<lparr>tb_checks := tb_checks d @ [c]\<rparr>)"
| intent: "change tz d (d \<lparr>tb_intents := upsert_intent p (tb_intents d)\<rparr>)"
| pulls: "keeps pulls_ok d (d \<lparr>tb_pulls := ps\<rparr>) \<Longrightarrow> change tz d (d \<lparr>tb_pulls := ps\<rparr>)"
| jobs: "keeps jobs_inv d (d \<lparr>tb_jobs := js\<rparr>) \<Longrightarrow> change tz d (d \<lparr>tb_jobs := js\<rparr>)"
| freezes: "keeps freezes_ok d (d \<lparr>tb_freezes := fs\<rparr>) \<Longrightarrow> freezes_evolve d (d \<lparr>tb_freezes := fs\<rparr>)
    \<Longrightarrow> activations_enforced d (d \<lparr>tb_freezes := fs\<rparr>) \<Longrightarrow> change tz d (d \<lparr>tb_freezes := fs\<rparr>)"
| deliveries: "deliveries_final d (d \<lparr>tb_deliveries := ds\<rparr>) \<Longrightarrow> change tz d (d \<lparr>tb_deliveries := ds\<rparr>)"
| schedules: "keeps (schedules_ok tz) d (d \<lparr>tb_schedules := ss, tb_rules := rs, tb_windows := ws\<rparr>)
    \<Longrightarrow> change tz d (d \<lparr>tb_schedules := ss, tb_rules := rs, tb_windows := ws\<rparr>)"
| repositories: "change tz d (d \<lparr>tb_repositories := xs, tb_branches := bs, tb_webhook_secrets := ys, tb_status_tokens := zs\<rparr>)"

abbreviation changes :: "(string \<Rightarrow> zone option) \<Rightarrow> db \<Rightarrow> db \<Rightarrow> bool" where
  "changes tz \<equiv> (change tz)\<^sup>*\<^sup>*"

interpretation evolve: table_relation "changes tz" for tz
  by unfold_locales auto

subsection \<open>The operations of the stores\<close>

lemma change_hidden:
  "d \<lparr>tb_freezes := []\<rparr> = d' \<lparr>tb_freezes := []\<rparr> \<Longrightarrow> d' = d \<lparr>tb_freezes := tb_freezes d'\<rparr>"
  "d \<lparr>tb_deliveries := []\<rparr> = d' \<lparr>tb_deliveries := []\<rparr> \<Longrightarrow> d' = d \<lparr>tb_deliveries := tb_deliveries d'\<rparr>"
  "d \<lparr>tb_pulls := []\<rparr> = d' \<lparr>tb_pulls := []\<rparr> \<Longrightarrow> d' = d \<lparr>tb_pulls := tb_pulls d'\<rparr>"
  "d \<lparr>tb_jobs := []\<rparr> = d' \<lparr>tb_jobs := []\<rparr> \<Longrightarrow> d' = d \<lparr>tb_jobs := tb_jobs d'\<rparr>"
  "d \<lparr>tb_schedules := [], tb_rules := [], tb_windows := []\<rparr> = d' \<lparr>tb_schedules := [], tb_rules := [], tb_windows := []\<rparr>
     \<Longrightarrow> d' = d \<lparr>tb_schedules := tb_schedules d', tb_rules := tb_rules d', tb_windows := tb_windows d'\<rparr>"
  for d :: db
  by (cases d; cases d'; simp)+

lemma changed_by:
  assumes "within (same hide) m" and "within G m"
    and "\<And>d d'. hide d = hide d' \<Longrightarrow> G d d' \<Longrightarrow> change tz d d'"
  shows "within (changes tz) m"
  using assms unfolding within_def same_def by blast

lemma within_both: "within R m \<Longrightarrow> within S m \<Longrightarrow> within (\<lambda>d d'. R d d' \<and> S d d') m"
  by (simp add: within_def)

lemma freezes_change:
  "freezes_only d = freezes_only d' \<Longrightarrow> keeps freezes_ok d d' \<and> freezes_evolve d d' \<and> activations_enforced d d'
     \<Longrightarrow> change tz d d'"
  using change.freezes [of d "tb_freezes d'" tz] change_hidden(1) [of d d'] by (simp add: freezes_only_def)

lemma jobs_change: "d \<lparr>tb_jobs := []\<rparr> = d' \<lparr>tb_jobs := []\<rparr> \<Longrightarrow> keeps jobs_inv d d' \<Longrightarrow> change tz d d'"
  for d :: db
  using change.jobs [of d "tb_jobs d'" tz] change_hidden(4) [of d d'] by simp

lemma pulls_change: "d \<lparr>tb_pulls := []\<rparr> = d' \<lparr>tb_pulls := []\<rparr> \<Longrightarrow> keeps pulls_ok d d' \<Longrightarrow> change tz d d'"
  for d :: db
  using change.pulls [of d "tb_pulls d'" tz] change_hidden(3) [of d d'] by simp

lemma deliveries_change:
  "d \<lparr>tb_deliveries := []\<rparr> = d' \<lparr>tb_deliveries := []\<rparr> \<Longrightarrow> deliveries_final d d' \<Longrightarrow> change tz d d'"
  for d :: db
  using change.deliveries [of d "tb_deliveries d'" tz] change_hidden(2) [of d d'] by simp

lemma schedules_change:
  "d \<lparr>tb_schedules := [], tb_rules := [], tb_windows := []\<rparr> = d' \<lparr>tb_schedules := [], tb_rules := [], tb_windows := []\<rparr>
     \<Longrightarrow> keeps (schedules_ok tz) d d' \<Longrightarrow> change tz d d'"
  for d :: db
  using change.schedules [where d = d and ss = "tb_schedules d'" and rs = "tb_rules d'" and ws = "tb_windows d'" and tz = tz] change_hidden(5) [of d d'] by simp

lemma freezes_only_operations:
  "within (same freezes_only) (mark_recomputed i)" "within (same freezes_only) (mark_repository_recomputed i)"
  "within (same freezes_only) (update_materialized_attribution ap)"
  "within (same freezes_only) (create_active cp)" "within (same freezes_only) (create_scheduled sp)"
  "within (same freezes_only) (end_freeze i)" "within (same freezes_only) (cancel_freeze i)"
  "within (same freezes_only) (cancel_scheduled i)" "within (same freezes_only) (edit_scheduled_expecting ep expected)"
  "within (same freezes_only) (activate_scheduled i)" "within (same freezes_only) (start_scheduled_now i)"
  "within (same freezes_only) (execute_planned_unfreeze i)"
proof -
  show "within (same freezes_only) (mark_recomputed i)" "within (same freezes_only) (mark_repository_recomputed i)"
    unfolding mark_recomputed_def mark_repository_recomputed_def
    by (intro same.rules same.freeze_reads same.update_freezes; simp add: same_def)+
  show "within (same freezes_only) (update_materialized_attribution ap)"
    unfolding update_materialized_attribution_def Let_def
    by (intro same.rules same.freeze_reads same.checked) (simp_all add: same_def split_beta)
qed (use store_operations in \<open>simp_all add: store_operation_def end_freeze_def cancel_freeze_def\<close>)

lemma evolve_freezes:
  "within (changes tz) (mark_recomputed i)" "within (changes tz) (mark_repository_recomputed i)"
  "within (changes tz) (update_materialized_attribution ap)"
  "within (changes tz) (create_active cp)" "within (changes tz) (create_scheduled sp)"
  "within (changes tz) (end_freeze i)" "within (changes tz) (cancel_freeze i)"
  "within (changes tz) (cancel_scheduled i)" "within (changes tz) (edit_scheduled_expecting ep expected)"
  "within (changes tz) (activate_scheduled i)" "within (changes tz) (start_scheduled_now i)"
  "within (changes tz) (execute_planned_unfreeze i)"
  by (rule changed_by, rule freezes_only_operations, rule within_both, rule freezes_ok_operations,
      rule within_both, rule life_operations, rule gate_operations, erule (1) freezes_change)+

lemma evolve_queue:
  "within (changes tz) (enqueue_reconciliation i)" "within (changes tz) (enqueue_reconciliation_failure i category)"
  "within (changes tz) (ensure_reconciliation_failure i category)" "within (changes tz) (claim_due limit)"
  "within (changes tz) (claim_repository i)" "within (changes tz) (complete_claim c)"
  "within (changes tz) (reschedule_claim c category)" "within (changes tz) (make_due_now i)"
  by (rule changed_by [where hide = "\<lambda>d. d \<lparr>tb_jobs := []\<rparr>"], rule same.queue, simp add: same_def,
      rule jobs_ok_operations, erule (1) jobs_change)+

lemma evolve_cache:
  "within (changes tz) (upsert_cached_pull pr)" "within (changes tz) (mark_absent_open_closed i b is)"
  by (rule changed_by [where hide = "\<lambda>d. d \<lparr>tb_pulls := []\<rparr>"], rule same.cache, simp add: same_def,
      rule pulls_ok_operations, erule (1) pulls_change)+

definition hide_schedules :: "db \<Rightarrow> db" where
  "hide_schedules d = d \<lparr>tb_schedules := [], tb_rules := [], tb_windows := []\<rparr>"

lemma hide_schedules_rows [simp]:
  "hide_schedules (d \<lparr>tb_schedules := a\<rparr>) = hide_schedules d" "hide_schedules (d \<lparr>tb_rules := b\<rparr>) = hide_schedules d"
  "hide_schedules (d \<lparr>tb_windows := c\<rparr>) = hide_schedules d"
  by (simp_all add: hide_schedules_def)

lemma schedule_looks [looking]:
  "observes (get_schedule i)" "observes (require_schedule_enforcement repo)" "observes (require_managed_branch repo b)"
  unfolding get_schedule_def get_schedule_for_scope_def require_schedule_enforcement_def require_managed_branch_def
  by (intro looking)+

lemma schedules_only:
  "within (same hide_schedules) (create_schedule tz sp)"
  "within (same hide_schedules) (set_schedule_active i active)" "within (same hide_schedules) (suppress_schedule i til)"
  "within (same hide_schedules) (add_rules rp)" "within (same hide_schedules) (delete_rule i j)"
  "within (same hide_schedules) (add_window tz wp)" "within (same hide_schedules) (delete_window i j)"
  unfolding create_schedule_def insert_schedule_def set_schedule_active_def suppress_schedule_def update_schedules_def
    add_rules_def delete_rule_def add_window_def insert_window_def delete_window_def Let_def
  by (intro same.rules same.sql same.exec same.looks [OF schedule_looks(1)] same.looks [OF schedule_looks(2)]
        same.looks [OF schedule_looks(3)];
      simp add: same_def split_beta split: option.split)+

lemma evolve_schedules:
  "within (changes tz) (create_schedule tz sp)"
  "within (changes tz) (set_schedule_active i active)" "within (changes tz) (suppress_schedule i til)"
  "within (changes tz) (add_rules rp)" "within (changes tz) (delete_rule i j)"
  "within (changes tz) (add_window tz wp)" "within (changes tz) (delete_window i j)"
  by (rule changed_by, rule schedules_only, rule schedules_ok_operations, rule schedules_change,
      simp add: hide_schedules_def, assumption)+

lemma within_exec:
  assumes "within R (exec f)"
  shows "R d (snd (f d))"
proof -
  have "R (tables (quiet d 0)) (tables (snd (exec f (quiet d 0))))" using assms unfolding within_def by blast
  then show ?thesis by (simp add: exec_def sql_def quiet_def split_beta)
qed

lemma schedules_ok_freezes: "schedules_ok tz (d \<lparr>tb_freezes := fs\<rparr>) = schedules_ok tz d"
  by (simp add: schedules_ok_def rules_ok_def windows_ok_def of_kind_def)

lemma evolve_delete_schedule: "within (changes tz) (delete_schedule i)"
  unfolding delete_schedule_def
proof (intro evolve.bind evolve.looks [OF schedule_looks(1)] evolve.if_op evolve.fail evolve.ret evolve.exec)
  fix d :: db
  let ?d1 = "d \<lparr>tb_schedules := snd (delete_where (\<lambda>r. sc_id r = i) (tb_schedules d)),
     tb_rules := snd (delete_where (\<lambda>r. wr_schedule_id r = i) (tb_rules d)),
     tb_windows := snd (delete_where (\<lambda>r. dw_schedule_id r = i) (tb_windows d))\<rparr>"
  let ?fs = "snd (update_where (\<lambda>r. fz_schedule_id r = Some i) (\<lambda>r. r \<lparr>fz_schedule_id := None\<rparr>) (tb_freezes d))"
  have eq: "snd (remove_schedule i d) = ?d1 \<lparr>tb_freezes := ?fs\<rparr>"
    by (simp add: remove_schedule_def split_beta)
  have "keeps (schedules_ok tz) d (snd (remove_schedule i d))" by (rule within_exec) (rule remove_schedule_keeps)
  then have "keeps (schedules_ok tz) d ?d1" unfolding eq keeps_def schedules_ok_freezes .
  then have "change tz d ?d1" by (rule change.schedules)
  moreover have "change tz ?d1 (?d1 \<lparr>tb_freezes := ?fs\<rparr>)"
  proof (rule change.freezes)
    have fs: "?fs = snd (update_where (\<lambda>r. fz_schedule_id r = Some i) (\<lambda>r. r \<lparr>fz_schedule_id := None\<rparr>) (tb_freezes ?d1))"
      by simp
    show "keeps freezes_ok ?d1 (?d1 \<lparr>tb_freezes := ?fs\<rparr>)"
      unfolding fs by (rule ok_rows) (simp_all add: freeze_row_ok_def)
    show "freezes_evolve ?d1 (?d1 \<lparr>tb_freezes := ?fs\<rparr>)"
      unfolding fs by (rule life_rows) (simp add: freeze_evolves_def)
    show "activations_enforced ?d1 (?d1 \<lparr>tb_freezes := ?fs\<rparr>)"
      unfolding fs by (rule gate_rows) simp_all
  qed
  ultimately show "changes tz d (snd (remove_schedule i d))" unfolding eq by auto
qed

lemma deliveries_only:
  "within (same (\<lambda>d. d \<lparr>tb_deliveries := []\<rparr>)) (record_delivery params)"
  "within (same (\<lambda>d. d \<lparr>tb_deliveries := []\<rparr>)) (claim_for_processing i)"
  "within (same (\<lambda>d. d \<lparr>tb_deliveries := []\<rparr>)) (mark_processed i pp)"
  "within (same (\<lambda>d. d \<lparr>tb_deliveries := []\<rparr>)) (mark_processing_failed i message started)"
  unfolding record_delivery_def insert_delivery_def claim_for_processing_def mark_processed_def
    mark_processing_failed_def update_deliveries_def Let_def
  by (intro same.rules same.sql same.exec same.looks [OF final_reads(1)] same.looks [OF final_reads(2)];
      simp add: same_def split_beta)+

lemma evolve_deliveries:
  "within (changes tz) (record_delivery params)" "within (changes tz) (claim_for_processing i)"
  "within (changes tz) (mark_processed i pp)" "within (changes tz) (mark_processing_failed i message started)"
  by (rule changed_by, rule deliveries_only, rule final_record final_claim final_finish, erule (1) deliveries_change)+

lemma one_change: "change tz d d' \<Longrightarrow> changes tz d d'"
  by (rule r_into_rtranclp)

lemma evolve_logs:
  "within (changes tz) (record_event e)" "within (changes tz) (create_result rc)"
  "within (changes tz) (record_forgejo_status_attempt p r message)" "within (changes tz) (approve_thaw ta actor)"
  "within (changes tz) (record_checks_no_tx i b results t)" "within (changes tz) (publish_forgejo_status result)"
  unfolding record_event_def create_result_def record_forgejo_status_attempt_def record_attempt_def approve_thaw_def
    record_checks_no_tx_def insert_check_def publish_forgejo_status_def publish_intent_def Let_def
    get_by_idempotency_key_def get_attempt_def get_result_def get_thaw_def require_repository_def require_thaw_enforcement_def
  by (intro evolve.rules evolve.checked one_change;
      simp add: change.event change.result change.attempted change.exception change.check change.intent Let_def)+

subsection \<open>Repositories\<close>

lemma repositories_change:
  "change tz d (d \<lparr>tb_repositories := xs\<rparr>)" "change tz d (d \<lparr>tb_branches := bs\<rparr>)"
  "change tz d (d \<lparr>tb_webhook_secrets := ys\<rparr>)" "change tz d (d \<lparr>tb_status_tokens := zs\<rparr>)"
  for d :: db
  using change.repositories [where d = d and xs = xs and bs = "tb_branches d" and ys = "tb_webhook_secrets d" and zs = "tb_status_tokens d"]
    change.repositories [where d = d and xs = "tb_repositories d" and bs = bs and ys = "tb_webhook_secrets d" and zs = "tb_status_tokens d"]
    change.repositories [where d = d and xs = "tb_repositories d" and bs = "tb_branches d" and ys = ys and zs = "tb_status_tokens d"]
    change.repositories [where d = d and xs = "tb_repositories d" and bs = "tb_branches d" and ys = "tb_webhook_secrets d" and zs = zs]
  by simp_all

lemmas evolve_repository_rows = one_change [OF repositories_change(1)] one_change [OF repositories_change(2)]
  one_change [OF repositories_change(3)] one_change [OF repositories_change(4)]

lemma evolve_set_repository: "within (changes tz) (set_repository i f)"
  by (rule evolve.set_repository_within) (rule evolve_repository_rows)

lemma evolve_statements:
  "within (changes tz) (set_enforcement_state i s)" "within (changes tz) (set_status_post_verified_at i v)"
  "within (changes tz) (set_enforcement_failure i reason t)" "within (changes tz) (clear_enforcement_failure i)"
  unfolding set_enforcement_state_def set_status_post_verified_at_def set_enforcement_failure_def
    clear_enforcement_failure_def put_enforcement_failure_def
  by (intro evolve.if_op evolve.fail evolve_set_repository)+

lemma evolve_repositories:
  "within (changes tz) (transition_enforcement_state i s s')" "within (changes tz) (set_webhook_secret_ciphertext i c)"
  "within (changes tz) (set_status_token_ciphertext i c)" "within (changes tz) (create_repository rc)"
  "within (changes tz) (add_branch i b)" "within (changes tz) (remove_branch i b)"
  "within (changes tz) (update_branch_readiness i b p st t)"
  unfolding transition_enforcement_state_def update_repositories_def
    set_webhook_secret_ciphertext_def set_status_token_ciphertext_def create_repository_def insert_repository_def
    add_branch_def remove_branch_def update_branch_readiness_def insert_branch_def Let_def
  by (intro evolve.rules evolve.sql evolve.exec evolve.looks [OF get_repository_looks] evolve.looks [OF repository_reads(6)];
      simp add: split_beta evolve_repository_rows)+

end
