(* ===== verification/Triples.thy ===== *)
theory Triples
  imports World
begin

text \<open>
  Partial correctness of operations on the tables: \<open>yields P m Q\<close> says that when \<open>m\<close> returns a
  value from tables that satisfy \<open>P\<close>, the value and the tables after it satisfy \<open>Q\<close>. Whatever fails
  is rolled back by the transaction around it, so a triple of the body of a transaction is an
  invariant of the whole. The rules compute preconditions from postconditions.
\<close>

definition yields :: "(db \<Rightarrow> bool) \<Rightarrow> 'a go \<Rightarrow> ('a \<Rightarrow> db \<Rightarrow> bool) \<Rightarrow> bool" where
  "yields P m Q \<longleftrightarrow> (\<forall>w x w'. P (tables w) \<longrightarrow> m w = (Inr x, w') \<longrightarrow> Q x (tables w'))"

named_theorems triples \<open>triples of operations\<close>

lemma yieldsD: "yields P m Q \<Longrightarrow> m w = (Inr x, w') \<Longrightarrow> P (tables w) \<Longrightarrow> Q x (tables w')"
  by (auto simp: yields_def)

lemma yields_weaken: "yields P m Q \<Longrightarrow> (\<And>d. P' d \<Longrightarrow> P d) \<Longrightarrow> yields P' m Q"
  by (auto simp: yields_def)

lemma yields_strengthen: "yields P m Q \<Longrightarrow> (\<And>x d. Q x d \<Longrightarrow> Q' x d) \<Longrightarrow> yields P m Q'"
  by (auto simp: yields_def)

lemma yields_conj: "yields P m Q \<Longrightarrow> yields P' m Q' \<Longrightarrow> yields (\<lambda>d. P d \<and> P' d) m (\<lambda>x d. Q x d \<and> Q' x d)"
  by (auto simp: yields_def)

lemma yields_bind: "(\<And>x. yields (R x) (f x) Q) \<Longrightarrow> yields P m R \<Longrightarrow> yields P (bind m f) Q"
  unfolding yields_def by (blast elim: bind_cases)

lemma yields_ret [triples]: "yields (Q x) (ret x) Q"
  by (simp add: yields_def ret_def)

lemma yields_fail [triples]: "yields P (fail e) Q"
  by (simp add: yields_def fail_def)

lemma yields_now [triples]: "yields (\<lambda>d. \<forall>t. Q t d) now_utc Q"
  by (simp add: yields_def now_utc_def)

lemma yields_sql: "(\<And>d x d'. P d \<Longrightarrow> f d = (Inr x, d') \<Longrightarrow> Q x d') \<Longrightarrow> yields P (sql f) Q"
  by (auto simp: yields_def sql_def split: if_splits prod.splits)

lemma yields_query [triples]: "yields (\<lambda>d. Q (g d) d) (query g) Q"
  unfolding query_def by (rule yields_sql) auto

lemma yields_exec [triples]: "yields (\<lambda>d. Q (fst (f d)) (snd (f d))) (exec f) Q"
  unfolding exec_def by (rule yields_sql) (auto split: prod.splits)

lemma yields_checked [triples]: "yields (\<lambda>d. ok d \<longrightarrow> Q (fst (f d)) (snd (f d))) (checked ok f) Q"
  unfolding checked_def by (rule yields_sql) (auto split: prod.splits if_splits)

lemma yields_query_row [triples]: "yields (\<lambda>d. \<forall>x \<in> set (h d). Q x d) (query_row h) Q"
  unfolding query_row_def by (rule yields_sql) (auto simp: first_row_def split: list.splits)

lemma yields_lookup [triples]:
  "yields (\<lambda>d. (\<forall>e. Q (Inl e) d) \<and> (\<forall>x \<in> set (h d). Q (Inr x) d)) (attempt (query_row h)) Q"
  by (auto simp: yields_def attempt_def query_row_def sql_def first_row_def split: if_splits list.splits)

lemma yields_attempt: "yields P m (\<lambda>x. Q (Inr x)) \<Longrightarrow> (\<And>e d. Q (Inl e) d) \<Longrightarrow> yields P (attempt m) Q"
  by (auto simp: yields_def attempt_def split: prod.splits) (metis sum.exhaust_sel)

lemma yields_when_invalid [triples]: "yields P m Q \<Longrightarrow> yields P (when_invalid e m) Q"
  by (cases e) (simp_all add: when_invalid_def yields_fail)

lemma yields_if [triples]: "(c \<Longrightarrow> yields P m Q) \<Longrightarrow> (\<not> c \<Longrightarrow> yields P' n Q) \<Longrightarrow> yields (\<lambda>d. if c then P d else P' d) (if c then m else n) Q"
  by simp

lemma yields_transact [triples]: "yields P m Q \<Longrightarrow> yields P (transact m) Q"
  by (auto simp: yields_def transact_def sql_def split: prod.splits sum.splits if_splits)
     (metis select_convs(1) surjective update_convs(6))+

lemma yields_for_each: "(\<And>x. x \<in> set xs \<Longrightarrow> yields I (f x) (\<lambda>_. I)) \<Longrightarrow> yields I (for_each f xs) (\<lambda>_. I)"
proof (induction xs)
  case Nil
  then show ?case using yields_ret [where Q = "\<lambda>_. I" and x = "[]"] by simp
next
  case (Cons x xs)
  have "yields I (f x) (\<lambda>_. I)" "yields I (for_each f xs) (\<lambda>_. I)" using Cons by simp_all
  then show ?case
    by (simp only: for_each.simps) (intro yields_bind [where R = "\<lambda>_. I"] yields_ret)
qed

text \<open>The whole of a transaction from its body, and back.\<close>

lemma triple_keeps:
  assumes "yields I m (\<lambda>_. I)"
  shows "within (keeps I) (transact m)"
  unfolding within_def keeps_def
proof (intro allI impI)
  fix w :: world
  assume I: "I (tables w)"
  obtain r w' where t: "transact m w = (r, w')" by (cases "transact m w")
  show "I (tables (snd (transact m w)))"
  proof (cases r)
    case (Inl e)
    with t have "tables w' = tables w"
      by (auto simp: transact_def sql_def split: prod.splits sum.splits if_splits)
    with I t show ?thesis by simp
  next
    case (Inr x)
    with yieldsD [OF yields_transact [OF assms]] t I show ?thesis by auto
  qed
qed

lemma yields_keeps: "within (keeps I) m \<Longrightarrow> yields I m (\<lambda>_. I)"
  unfolding yields_def keeps_def within_def by (metis snd_conv)

lemma yields_same: "within (same sel) m \<Longrightarrow> yields (\<lambda>d. P (sel d)) m (\<lambda>_ d. P (sel d))"
  unfolding yields_def same_def within_def by (metis snd_conv)

end
