(* ===== verification/AccountFacts.thy ===== *)
theory AccountFacts
  imports AccountRequests Triples
begin

text \<open>
  What holds of the accounts whatever is done to them. \<open>loss_step\<close> says what one statement may do
  to the account tables: keep them well formed, keep every user under its identifier, and leave
  closed invitations alone; an \<open>account_step\<close> takes nobody's authority on top. The locale
  \<open>account_relation\<close> carries a relation that allows such steps and new audit events through every
  operation but the two that take authority away, which its extension \<open>authority_relation\<close> adds.
\<close>

subsection \<open>Well-formed account tables\<close>

definition users_ok :: "accounts \<Rightarrow> bool" where
  "users_ok a \<longleftrightarrow> distinct (map us_id (ac_users a)) \<and> distinct (map us_email (ac_users a))
     \<and> (\<forall>u \<in> set (ac_users a). us_id u > 0)"

abbreviation user_ids :: "accounts \<Rightarrow> int set" where
  "user_ids a \<equiv> us_id ` set (ac_users a)"

definition holdings_ok :: "accounts \<Rightarrow> bool" where
  "holdings_ok a \<longleftrightarrow> distinct (map lc_user_id (ac_credentials a)) \<and> lc_user_id ` set (ac_credentials a) \<subseteq> user_ids a
     \<and> distinct (map ur_user_id (ac_roles a)) \<and> ur_user_id ` set (ac_roles a) \<subseteq> user_ids a
     \<and> (\<forall>r \<in> set (ac_roles a). ur_role r = role_admin)
     \<and> distinct (map (\<lambda>g. (rg_repository_id g, rg_user_id g, rg_role g)) (ac_grants a))
     \<and> rg_user_id ` set (ac_grants a) \<subseteq> user_ids a \<and> (\<forall>g \<in> set (ac_grants a). valid_for_repository (rg_role g))"

definition sessions_ok :: "accounts \<Rightarrow> bool" where
  "sessions_ok a \<longleftrightarrow> distinct (map sn_id (ac_sessions a)) \<and> sn_user_id ` set (ac_sessions a) \<subseteq> user_ids a
     \<and> distinct (map os_session_id (ac_oidc_sessions a))
     \<and> os_session_id ` set (ac_oidc_sessions a) \<subseteq> sn_id ` set (ac_sessions a)"

definition recoveries_ok :: "accounts \<Rightarrow> bool" where
  "recoveries_ok a \<longleftrightarrow> distinct (map pt_user_id (ac_recoveries a)) \<and> distinct (map pt_token_digest (ac_recoveries a))
     \<and> pt_user_id ` set (ac_recoveries a) \<subseteq> user_ids a"

definition invitation_shape :: "invitation_row \<Rightarrow> bool" where
  "invitation_shape v \<longleftrightarrow>
     (if vt_status v = invitation_status_pending
      then vt_canonical_email v \<noteq> None \<and> vt_display_name v \<noteq> None \<and> vt_token_digest v \<noteq> None
        \<and> opt_ex (\<lambda>t. t > 0) (vt_expires_at v) \<and> vt_is_admin v \<noteq> None \<and> opt_all (\<lambda>i. i > 0) (vt_authorized_by_user_id v)
        \<and> opt_ex (\<lambda>n. n \<ge> 0) (vt_expected_grant_count v)
      else if vt_status v = invitation_status_reissue
      then vt_canonical_email v \<noteq> None \<and> vt_display_name v \<noteq> None \<and> vt_token_digest v = None
        \<and> vt_expires_at v = None \<and> vt_is_admin v \<noteq> None \<and> vt_authorized_by_user_id v = None
        \<and> opt_ex (\<lambda>n. n \<ge> 0) (vt_expected_grant_count v)
      else (vt_status v = invitation_status_accepted \<or> vt_status v = invitation_status_cancelled)
        \<and> vt_canonical_email v = None \<and> vt_display_name v = None \<and> vt_token_digest v = None
        \<and> vt_expires_at v = None \<and> vt_is_admin v = None \<and> vt_authorized_by_user_id v = None
        \<and> vt_expected_grant_count v = None)"

definition unique_by :: "('a \<Rightarrow> 'k) \<Rightarrow> ('a \<Rightarrow> 'v option) \<Rightarrow> 'a list \<Rightarrow> bool" where
  "unique_by key val xs \<longleftrightarrow> (\<forall>x \<in> set xs. \<forall>y \<in> set xs. val x \<noteq> None \<longrightarrow> val x = val y \<longrightarrow> key x = key y)"

definition invitations_ok :: "accounts \<Rightarrow> bool" where
  "invitations_ok a \<longleftrightarrow> distinct (map vt_id (ac_invitations a)) \<and> (\<forall>v \<in> set (ac_invitations a). invitation_shape v)
     \<and> unique_by vt_id vt_token_digest (ac_invitations a) \<and> unique_by vt_id vt_canonical_email (ac_invitations a)
     \<and> distinct (ac_invitation_grants a)
     \<and> vg_invitation_id ` set (ac_invitation_grants a) \<subseteq> vt_id ` set (ac_invitations a)"

definition accounts_ok :: "accounts \<Rightarrow> bool" where
  "accounts_ok a \<longleftrightarrow> users_ok a \<and> holdings_ok a \<and> sessions_ok a \<and> recoveries_ok a \<and> invitations_ok a"

lemmas accounts_ok_defs = accounts_ok_def users_ok_def holdings_ok_def sessions_ok_def recoveries_ok_def
  invitations_ok_def

lemma accounts_okI:
  "users_ok a \<Longrightarrow> holdings_ok a \<Longrightarrow> sessions_ok a \<Longrightarrow> recoveries_ok a \<Longrightarrow> invitations_ok a \<Longrightarrow> accounts_ok a"
  by (simp add: accounts_ok_def)

subsection \<open>One statement\<close>

definition closed_invitations_stay :: "accounts \<Rightarrow> accounts \<Rightarrow> bool" where
  "closed_invitations_stay a a' \<longleftrightarrow> (\<forall>v \<in> set (ac_invitations a). \<not> active_invitation v \<longrightarrow> v \<in> set (ac_invitations a'))"

definition loss_step :: "accounts \<Rightarrow> accounts \<Rightarrow> bool" where
  "loss_step a a' \<longleftrightarrow> (accounts_ok a \<longrightarrow> accounts_ok a')
     \<and> (\<exists>new. map us_id (ac_users a') = map us_id (ac_users a) @ new) \<and> closed_invitations_stay a a'"

text \<open>Someone can sign in with a password and administer.\<close>

definition administrator :: "accounts \<Rightarrow> user_row \<Rightarrow> bool" where
  "administrator a u \<longleftrightarrow> us_disabled_at u = None \<and> has_admin_row a (us_id u) \<and> credentials_of a (us_id u) \<noteq> []"

definition admin_remains :: "accounts \<Rightarrow> bool" where
  "admin_remains a \<longleftrightarrow> list_ex (administrator a) (ac_users a)"

definition account_step :: "accounts \<Rightarrow> accounts \<Rightarrow> bool" where
  "account_step a a' \<longleftrightarrow> loss_step a a' \<and> (admin_remains a \<longrightarrow> admin_remains a')"

lemma loss_stepI:
  "(accounts_ok a \<Longrightarrow> accounts_ok a') \<Longrightarrow> map us_id (ac_users a') = map us_id (ac_users a) @ new
     \<Longrightarrow> closed_invitations_stay a a' \<Longrightarrow> loss_step a a'"
  by (auto simp: loss_step_def)

lemma admin_remains_frame:
  "ac_users a' = ac_users a \<Longrightarrow> ac_roles a' = ac_roles a \<Longrightarrow> ac_credentials a' = ac_credentials a
     \<Longrightarrow> admin_remains a' = admin_remains a"
  by (simp add: admin_remains_def administrator_def[abs_def] has_admin_row_def credentials_of_def)

lemma admin_remains_invitations [simp]: "admin_remains (a \<lparr>ac_invitations := vs\<rparr>) = admin_remains a"
  by (rule admin_remains_frame) simp_all

lemma admin_remains_mono:
  assumes "admin_remains a"
    and "\<And>u. u \<in> set (ac_users a) \<Longrightarrow> administrator a u \<Longrightarrow> \<exists>u' \<in> set (ac_users a'). administrator a' u'"
  shows "admin_remains a'"
  using assms unfolding admin_remains_def list_ex_iff by blast

lemma account_stepI:
  "(accounts_ok a \<Longrightarrow> accounts_ok a') \<Longrightarrow> map us_id (ac_users a') = map us_id (ac_users a) @ new
     \<Longrightarrow> closed_invitations_stay a a' \<Longrightarrow> (admin_remains a \<Longrightarrow> admin_remains a') \<Longrightarrow> account_step a a'"
  by (auto simp: account_step_def loss_step_def)

lemma loss_step_same_invitations:
  "(accounts_ok a \<Longrightarrow> accounts_ok a') \<Longrightarrow> map us_id (ac_users a') = map us_id (ac_users a)
     \<Longrightarrow> ac_invitations a' = ac_invitations a \<Longrightarrow> loss_step a a'"
  by (rule loss_stepI [where new = "[]"]) (simp_all add: closed_invitations_stay_def)

lemma account_step_same_invitations:
  "(accounts_ok a \<Longrightarrow> accounts_ok a') \<Longrightarrow> map us_id (ac_users a') = map us_id (ac_users a)
     \<Longrightarrow> ac_invitations a' = ac_invitations a \<Longrightarrow> (admin_remains a \<Longrightarrow> admin_remains a') \<Longrightarrow> account_step a a'"
  by (rule account_stepI [where new = "[]"]) (simp_all add: closed_invitations_stay_def)

lemma account_step_same_authority:
  "(accounts_ok a \<Longrightarrow> accounts_ok a') \<Longrightarrow> ac_users a' = ac_users a \<Longrightarrow> ac_roles a' = ac_roles a
     \<Longrightarrow> ac_credentials a' = ac_credentials a \<Longrightarrow> ac_invitations a' = ac_invitations a \<Longrightarrow> account_step a a'"
  by (rule account_step_same_invitations) (simp_all add: admin_remains_frame [of a' a])

lemma account_step_refl: "account_step a a"
  by (rule account_step_same_authority) simp_all

lemma distinct_key_update:
  "(\<And>r. p r \<Longrightarrow> key (f r) = key r) \<Longrightarrow> map key (snd (update_where p f rows)) = map key rows"
  by (simp add: update_where_def)

lemma loss_users:
  assumes "\<And>u. us_id (f u) = us_id u" "\<And>u. us_email (f u) = us_email u"
  shows "loss_step a (a \<lparr>ac_users := snd (update_where p f (ac_users a))\<rparr>)"
proof (rule loss_step_same_invitations)
  let ?us = "snd (update_where p f (ac_users a))"
  have ids: "map us_id ?us = map us_id (ac_users a)" "map us_email ?us = map us_email (ac_users a)"
    using assms by (simp_all add: distinct_key_update)
  then have set: "us_id ` set ?us = us_id ` set (ac_users a)" by (metis list.set_map)
  then have "(\<forall>u \<in> set ?us. us_id u > 0) \<longleftrightarrow> (\<forall>u \<in> set (ac_users a). us_id u > 0)" by (metis image_iff)
  with ids set show "accounts_ok a \<Longrightarrow> accounts_ok (a \<lparr>ac_users := ?us\<rparr>)"
    by (simp add: accounts_ok_defs)
  show "map us_id (ac_users (a \<lparr>ac_users := ?us\<rparr>)) = map us_id (ac_users a)" using ids by simp
qed simp

lemma step_users:
  assumes "\<And>u. us_id (f u) = us_id u" "\<And>u. us_email (f u) = us_email u"
    and "\<And>u. us_disabled_at u = None \<Longrightarrow> us_disabled_at (f u) = None"
  shows "account_step a (a \<lparr>ac_users := snd (update_where p f (ac_users a))\<rparr>)"
  unfolding account_step_def
proof (intro conjI loss_users assms impI)
  assume "admin_remains a"
  then show "admin_remains (a \<lparr>ac_users := snd (update_where p f (ac_users a))\<rparr>)"
  proof (rule admin_remains_mono)
    fix u
    assume u: "u \<in> set (ac_users a)" "administrator a u"
    let ?u = "if p u then f u else u"
    from u assms have "administrator (a \<lparr>ac_users := snd (update_where p f (ac_users a))\<rparr>) ?u"
      by (simp add: administrator_def has_admin_row_def credentials_of_def)
    moreover from u(1) have "?u \<in> set (snd (update_where p f (ac_users a)))" by (auto simp: update_where_set)
    ultimately show "\<exists>u' \<in> set (ac_users (a \<lparr>ac_users := snd (update_where p f (ac_users a))\<rparr>)).
        administrator (a \<lparr>ac_users := snd (update_where p f (ac_users a))\<rparr>) u'" by (auto intro!: bexI [of _ ?u])
  qed
qed

text \<open>The parts a statement does not touch.\<close>

lemma parts_apart:
  "users_ok (a \<lparr>ac_sessions := x1, ac_oidc_sessions := x2\<rparr>) = users_ok a"
  "holdings_ok (a \<lparr>ac_sessions := x1, ac_oidc_sessions := x2\<rparr>) = holdings_ok a"
  "recoveries_ok (a \<lparr>ac_sessions := x1, ac_oidc_sessions := x2\<rparr>) = recoveries_ok a"
  "invitations_ok (a \<lparr>ac_sessions := x1, ac_oidc_sessions := x2\<rparr>) = invitations_ok a"
  by (simp_all add: accounts_ok_defs)

lemma step_sessions: "account_step a (delete_sessions_where p a)"
proof (rule account_step_same_authority)
  assume ok: "accounts_ok a"
  let ?kept = "filter (\<lambda>o'. \<not> list_ex (\<lambda>s. p s \<and> sn_id s = os_session_id o') (ac_sessions a)) (ac_oidc_sessions a)"
  have "os_session_id o' \<in> sn_id ` set (filter (\<lambda>s. \<not> p s) (ac_sessions a))" if o': "o' \<in> set ?kept" for o'
  proof -
    from o' ok have "os_session_id o' \<in> sn_id ` set (ac_sessions a)"
      by (auto simp: accounts_ok_def sessions_ok_def)
    then obtain s where s: "s \<in> set (ac_sessions a)" "sn_id s = os_session_id o'" by auto
    with o' have "\<not> p s" by (auto simp: list_ex_iff)
    with s(1) show ?thesis unfolding s(2) [symmetric] by simp
  qed
  with ok have "sessions_ok (delete_sessions_where p a)"
    unfolding accounts_ok_def sessions_ok_def delete_sessions_where_def
    by (auto simp: distinct_map_filter)
  with ok show "accounts_ok (delete_sessions_where p a)"
    unfolding accounts_ok_def delete_sessions_where_def by (simp add: parts_apart)
qed (simp_all add: delete_sessions_where_def)

lemma step_recoveries: "account_step a (a \<lparr>ac_recoveries := filter q (ac_recoveries a)\<rparr>)"
  by (rule account_step_same_authority) (auto simp: accounts_ok_defs distinct_map_filter)

lemma step_store_recovery:
  assumes "pt_user_id t \<in> user_ids a"
    and "\<not> list_ex (\<lambda>x. pt_user_id x \<noteq> pt_user_id t \<and> pt_token_digest x = pt_token_digest t) (ac_recoveries a)"
  shows "account_step a (a \<lparr>ac_recoveries := (if pt_user_id t \<in> set (map pt_user_id (ac_recoveries a))
        then map (\<lambda>x. if pt_user_id x = pt_user_id t then t else x) (ac_recoveries a)
        else ac_recoveries a @ [t])\<rparr>)"
proof (rule account_step_same_authority)
  assume ok: "accounts_ok a"
  have "recoveries_ok (a \<lparr>ac_recoveries := (if pt_user_id t \<in> set (map pt_user_id (ac_recoveries a))
        then map (\<lambda>x. if pt_user_id x = pt_user_id t then t else x) (ac_recoveries a) else ac_recoveries a @ [t])\<rparr>)"
  proof (cases "pt_user_id t \<in> set (map pt_user_id (ac_recoveries a))")
    case True
    have "map pt_user_id (map (\<lambda>x. if pt_user_id x = pt_user_id t then t else x) (ac_recoveries a))
        = map pt_user_id (ac_recoveries a)" by simp
    moreover have "distinct (map pt_token_digest (map (\<lambda>x. if pt_user_id x = pt_user_id t then t else x) (ac_recoveries a)))"
      using ok assms(2) unfolding accounts_ok_def recoveries_ok_def
      by (auto simp: distinct_map inj_on_def list_ex_iff)
    ultimately show ?thesis using True ok assms
      by (auto simp: accounts_ok_def recoveries_ok_def simp del: map_map)
  next
    case False
    with ok assms show ?thesis by (force simp: accounts_ok_def recoveries_ok_def list_ex_iff)
  qed
  with ok show "accounts_ok (a \<lparr>ac_recoveries := (if pt_user_id t \<in> set (map pt_user_id (ac_recoveries a))
        then map (\<lambda>x. if pt_user_id x = pt_user_id t then t else x) (ac_recoveries a) else ac_recoveries a @ [t])\<rparr>)"
    by (simp add: accounts_ok_defs)
qed simp_all


lemma step_append_user:
  assumes "email \<notin> us_email ` set (ac_users a)" and "us_email u = email" and "us_id u = fresh_id (map us_id (ac_users a))"
  shows "account_step a (a \<lparr>ac_users := ac_users a @ [u]\<rparr>)"
proof (rule account_stepI [where new = "[us_id u]"])
  have "us_id u \<notin> us_id ` set (ac_users a)" "0 < us_id u"
    using assms(3) fresh_id_new [of "map us_id (ac_users a)"] by (simp_all add: image_set [symmetric] del: image_set)
  then show "accounts_ok a \<Longrightarrow> accounts_ok (a \<lparr>ac_users := ac_users a @ [u]\<rparr>)"
    using assms(1,2) by (auto simp: accounts_ok_defs)
  show "admin_remains a \<Longrightarrow> admin_remains (a \<lparr>ac_users := ac_users a @ [u]\<rparr>)"
    by (auto simp: admin_remains_def administrator_def [abs_def] has_admin_row_def credentials_of_def)
qed (simp_all add: closed_invitations_stay_def)

lemma step_append_credential:
  assumes "lc_user_id c \<in> user_ids a" and "lc_user_id c \<notin> set (map lc_user_id (ac_credentials a))"
  shows "account_step a (a \<lparr>ac_credentials := ac_credentials a @ [c]\<rparr>)"
  by (rule account_step_same_invitations) (use assms in \<open>auto simp: accounts_ok_defs admin_remains_def
    administrator_def [abs_def] has_admin_row_def credentials_of_def list_ex_iff\<close>)

lemma step_update_credentials:
  assumes "\<And>c. lc_user_id (f c) = lc_user_id c"
  shows "account_step a (a \<lparr>ac_credentials := snd (update_where p f (ac_credentials a))\<rparr>)"
proof (rule account_step_same_invitations)
  have ids: "map lc_user_id (snd (update_where p f (ac_credentials a))) = map lc_user_id (ac_credentials a)"
    using assms by (simp add: distinct_key_update)
  then have "lc_user_id ` set (snd (update_where p f (ac_credentials a))) = lc_user_id ` set (ac_credentials a)"
    by (metis list.set_map)
  with ids show "accounts_ok a \<Longrightarrow> accounts_ok (a \<lparr>ac_credentials := snd (update_where p f (ac_credentials a))\<rparr>)"
    by (simp add: accounts_ok_defs)
  have "\<exists>c' \<in> set (snd (update_where p f (ac_credentials a))). lc_user_id c' = i"
    if "c \<in> set (ac_credentials a)" "lc_user_id c = i" for c i
  proof -
    have "(if p c then f c else c) \<in> set (snd (update_where p f (ac_credentials a)))"
      using that(1) by (auto simp: update_where_set)
    moreover have "lc_user_id (if p c then f c else c) = i" using that(2) assms by simp
    ultimately show ?thesis by blast
  qed
  then show "admin_remains a \<Longrightarrow> admin_remains (a \<lparr>ac_credentials := snd (update_where p f (ac_credentials a))\<rparr>)"
    by (auto simp: admin_remains_def administrator_def [abs_def] has_admin_row_def credentials_of_def list_ex_iff
      filter_empty_conv)
qed simp_all

lemma step_append_role:
  assumes "i \<in> user_ids a" and "\<not> has_admin_row a i"
  shows "account_step a (a \<lparr>ac_roles := ac_roles a @ [\<lparr>ur_user_id = i, ur_role = role_admin, ur_created_at = t\<rparr>]\<rparr>)"
proof (rule account_step_same_invitations)
  assume ok: "accounts_ok a"
  with assms(2) have "i \<notin> ur_user_id ` set (ac_roles a)"
    by (auto simp: has_admin_row_def list_ex_iff accounts_ok_def holdings_ok_def)
  with ok assms(1) show "accounts_ok (a \<lparr>ac_roles := ac_roles a @ [\<lparr>ur_user_id = i, ur_role = role_admin, ur_created_at = t\<rparr>]\<rparr>)"
    by (auto simp: accounts_ok_defs)
next
  show "admin_remains a \<Longrightarrow> admin_remains (a \<lparr>ac_roles := ac_roles a @ [\<lparr>ur_user_id = i, ur_role = role_admin, ur_created_at = t\<rparr>]\<rparr>)"
    by (auto simp: admin_remains_def administrator_def [abs_def] has_admin_row_def credentials_of_def list_ex_iff)
qed simp_all

lemma loss_filter_roles: "loss_step a (a \<lparr>ac_roles := filter p (ac_roles a)\<rparr>)"
  by (rule loss_step_same_invitations) (auto simp: accounts_ok_defs distinct_map_filter)

lemma step_append_grant:
  assumes "rg_user_id g \<in> user_ids a" "valid_for_repository (rg_role g)"
    and "\<not> list_ex (grant_is (rg_repository_id g) (rg_user_id g) (rg_role g)) (ac_grants a)"
  shows "account_step a (a \<lparr>ac_grants := ac_grants a @ [g]\<rparr>)"
  by (rule account_step_same_authority)
    (use assms in \<open>auto simp: accounts_ok_defs list_ex_iff grant_is_def\<close>)

lemma step_filter_grants: "account_step a (a \<lparr>ac_grants := filter p (ac_grants a)\<rparr>)"
  by (rule account_step_same_authority) (auto simp: accounts_ok_defs distinct_map_filter)

lemma step_append_session:
  assumes "sn_user_id s \<in> user_ids a" and "sn_id s \<notin> set (map sn_id (ac_sessions a))"
  shows "account_step a (a \<lparr>ac_sessions := ac_sessions a @ [s]\<rparr>)"
  by (rule account_step_same_authority) (use assms in \<open>auto simp: accounts_ok_defs\<close>)

lemma step_append_oidc_session:
  assumes "os_session_id s \<notin> set (map os_session_id (ac_oidc_sessions a))" and "os_session_id s \<in> sn_id ` set (ac_sessions a)"
  shows "account_step a (a \<lparr>ac_oidc_sessions := ac_oidc_sessions a @ [s]\<rparr>)"
  by (rule account_step_same_authority) (use assms in \<open>auto simp: accounts_ok_defs\<close>)

lemma step_oidc:
  "account_step a (a \<lparr>ac_oidc_connection := c\<rparr>)" "account_step a (a \<lparr>ac_oidc_identity := i\<rparr>)"
  "account_step a (a \<lparr>ac_oidc_links := ls\<rparr>)" "account_step a (a \<lparr>ac_oidc_logins := ms\<rparr>)"
  by (rule account_step_same_authority; simp add: accounts_ok_defs)+

subsection \<open>Invitations\<close>

lemma step_filter_staged: "account_step a (a \<lparr>ac_invitation_grants := filter p (ac_invitation_grants a)\<rparr>)"
  by (rule account_step_same_authority) (auto simp: accounts_ok_defs)

lemma step_append_staged:
  assumes "vg_invitation_id g \<in> set (map vt_id (ac_invitations a))" and "g \<notin> set (ac_invitation_grants a)"
  shows "account_step a (a \<lparr>ac_invitation_grants := ac_invitation_grants a @ [g]\<rparr>)"
  by (rule account_step_same_authority) (use assms in \<open>auto simp: accounts_ok_defs\<close>)

lemma status_apart [simp]:
  "invitation_status_pending \<noteq> invitation_status_reissue" "invitation_status_reissue \<noteq> invitation_status_pending"
  "invitation_status_accepted \<noteq> invitation_status_pending" "invitation_status_accepted \<noteq> invitation_status_reissue"
  "invitation_status_cancelled \<noteq> invitation_status_pending" "invitation_status_cancelled \<noteq> invitation_status_reissue"
  by (simp_all add: invitation_status_pending_def invitation_status_reissue_def invitation_status_accepted_def
    invitation_status_cancelled_def)

lemma unique_by_update:
  assumes "unique_by key val rows" "\<And>r. p r \<Longrightarrow> key (f r) = key r" "\<And>r. p r \<Longrightarrow> val (f r) = None \<or> val (f r) = val r"
  shows "unique_by key val (snd (update_where p f rows))"
proof -
  have origin: "\<exists>r \<in> set rows. key r = key s \<and> val r = val s"
    if s: "s \<in> set (snd (update_where p f rows))" "val s \<noteq> None" for s
  proof -
    from s(1) obtain r where r: "r \<in> set rows" "s = (if p r then f r else r)" by (auto simp: update_where_set)
    then have "key r = key s" "val r = val s" using assms(2,3) [of r] s(2) by (auto split: if_splits)
    with r(1) show ?thesis by blast
  qed
  show ?thesis
    using assms(1) origin unfolding unique_by_def by metis
qed

lemma step_update_invitations:
  assumes id: "\<And>v. p v \<Longrightarrow> vt_id (f v) = vt_id v" and active: "\<And>v. p v \<Longrightarrow> active_invitation v"
    and shape: "\<And>v. p v \<Longrightarrow> invitation_shape v \<Longrightarrow> invitation_shape (f v)"
    and digest: "\<And>v. p v \<Longrightarrow> vt_token_digest (f v) = None \<or> vt_token_digest (f v) = vt_token_digest v"
    and email: "\<And>v. p v \<Longrightarrow> vt_canonical_email (f v) = None \<or> vt_canonical_email (f v) = vt_canonical_email v"
  shows "account_step a (a \<lparr>ac_invitations := snd (update_where p f (ac_invitations a))\<rparr>)"
proof (rule account_stepI [where new = "[]"])
  assume ok: "accounts_ok a"
  let ?vs = "snd (update_where p f (ac_invitations a))"
  have ids: "map vt_id ?vs = map vt_id (ac_invitations a)" using id by (simp add: distinct_key_update)
  then have "vt_id ` set ?vs = vt_id ` set (ac_invitations a)" by (metis list.set_map)
  moreover have "\<forall>v \<in> set ?vs. invitation_shape v"
    using ok shape by (auto simp: accounts_ok_def invitations_ok_def update_where_set)
  moreover have "unique_by vt_id vt_token_digest ?vs" "unique_by vt_id vt_canonical_email ?vs"
    using ok id digest email unfolding accounts_ok_def invitations_ok_def by (blast intro: unique_by_update)+
  ultimately show "accounts_ok (a \<lparr>ac_invitations := ?vs\<rparr>)"
    using ok ids by (simp add: accounts_ok_defs)
next
  show "closed_invitations_stay a (a \<lparr>ac_invitations := snd (update_where p f (ac_invitations a))\<rparr>)"
    using active by (auto simp: closed_invitations_stay_def update_where_set)
qed simp_all


lemma unique_by_snoc:
  assumes new: "\<forall>x \<in> set xs. val x \<noteq> val y" and old: "unique_by key val xs"
  shows "unique_by key val (xs @ [y])"
  unfolding unique_by_def
proof (intro ballI impI)
  fix a b
  assume "a \<in> set (xs @ [y])" "b \<in> set (xs @ [y])" and v: "val a \<noteq> None" "val a = val b"
  then consider "a = y" "b = y" | "a = y" "b \<in> set xs" | "a \<in> set xs" "b = y" | "a \<in> set xs" "b \<in> set xs"
    by auto
  then show "key a = key b"
    using new old v unfolding unique_by_def by cases fastforce+
qed

lemma step_append_pending:
  assumes "i \<notin> set (map vt_id (ac_invitations a))" "t > 0" "actor > 0"
    and "\<not> list_ex (\<lambda>v. vt_token_digest v = Some digest) (ac_invitations a)"
    and "\<not> list_ex (\<lambda>v. vt_canonical_email v = Some email \<and> active_invitation v) (ac_invitations a)"
  shows "account_step a (a \<lparr>ac_invitations := ac_invitations a @ [\<lparr>vt_id = i, vt_status = invitation_status_pending,
        vt_canonical_email = Some email, vt_display_name = Some display_name, vt_token_digest = Some digest,
        vt_expires_at = Some t, vt_is_admin = Some is_admin, vt_authorized_by_user_id = Some actor,
        vt_expected_grant_count = Some (int n), vt_created_at = now, vt_updated_at = now\<rparr>]\<rparr>)"
proof (rule account_stepI [where new = "[]"])
  assume ok: "accounts_ok a"
  have "vt_canonical_email v \<noteq> Some email" if "v \<in> set (ac_invitations a)" for v
  proof
    assume email: "vt_canonical_email v = Some email"
    from that ok have "invitation_shape v" by (simp add: accounts_ok_def invitations_ok_def)
    with email have "active_invitation v" by (auto simp: invitation_shape_def active_invitation_def split: if_splits)
    with assms(5) email that show False by (auto simp: list_ex_iff)
  qed
  moreover have "vt_token_digest v \<noteq> Some digest" if "v \<in> set (ac_invitations a)" for v
    using assms(4) that by (auto simp: list_ex_iff)
  ultimately show "accounts_ok (a \<lparr>ac_invitations := ac_invitations a @ [\<lparr>vt_id = i, vt_status = invitation_status_pending,
        vt_canonical_email = Some email, vt_display_name = Some display_name, vt_token_digest = Some digest,
        vt_expires_at = Some t, vt_is_admin = Some is_admin, vt_authorized_by_user_id = Some actor,
        vt_expected_grant_count = Some (int n), vt_created_at = now, vt_updated_at = now\<rparr>]\<rparr>)"
    using ok assms(1-3)
    by (simp add: accounts_ok_defs unique_by_snoc invitation_shape_def image_iff) blast
qed (auto simp: closed_invitations_stay_def)

lemma step_reissue:
  assumes "t > 0" "actor > 0"
    and "\<not> list_ex (\<lambda>x. vt_id x \<noteq> i \<and> vt_token_digest x = Some digest) (ac_invitations a)"
  shows "account_step a (a \<lparr>ac_invitations := snd (update_where (\<lambda>x. vt_id x = i \<and> active_invitation x)
       (\<lambda>x. x \<lparr>vt_status := invitation_status_pending, vt_token_digest := Some digest,
          vt_expires_at := Some t, vt_is_admin := Some is_admin, vt_authorized_by_user_id := Some actor,
          vt_expected_grant_count := Some (int n), vt_updated_at := now\<rparr>) (ac_invitations a))\<rparr>)"
    (is "account_step a (a \<lparr>ac_invitations := snd (update_where ?p ?f (ac_invitations a))\<rparr>)")
proof (rule account_stepI [where new = "[]"])
  assume ok: "accounts_ok a"
  let ?vs = "snd (update_where ?p ?f (ac_invitations a))"
  have ids: "map vt_id ?vs = map vt_id (ac_invitations a)" by (simp add: distinct_key_update)
  then have set: "vt_id ` set ?vs = vt_id ` set (ac_invitations a)" by (metis list.set_map)
  have "invitation_shape (?f v)" if "?p v" "invitation_shape v" for v
    using that assms(1,2) by (auto simp: invitation_shape_def active_invitation_def)
  then have shape: "\<forall>v \<in> set ?vs. invitation_shape v"
    using ok by (auto simp: accounts_ok_def invitations_ok_def update_where_set)
  have digest: "unique_by vt_id vt_token_digest ?vs"
    unfolding unique_by_def
  proof (intro ballI impI)
    fix x y
    assume xy: "x \<in> set ?vs" "y \<in> set ?vs" "vt_token_digest x \<noteq> None" "vt_token_digest x = vt_token_digest y"
    have origin: "vt_id z = i \<and> vt_token_digest z = Some digest \<or> z \<in> set (ac_invitations a)" if "z \<in> set ?vs" for z
      using that by (auto simp: update_where_set split: if_splits)
    have "unique_by vt_id vt_token_digest (ac_invitations a)" using ok by (simp add: accounts_ok_def invitations_ok_def)
    with xy origin [OF xy(1)] origin [OF xy(2)] assms(3) show "vt_id x = vt_id y"
      unfolding unique_by_def list_ex_iff by metis
  qed
  have "unique_by vt_id vt_canonical_email ?vs"
    by (rule unique_by_update) (use ok in \<open>auto simp: accounts_ok_def invitations_ok_def\<close>)
  with ok ids set shape digest show "accounts_ok (a \<lparr>ac_invitations := ?vs\<rparr>)"
    by (simp add: accounts_ok_defs)
next
  show "closed_invitations_stay a (a \<lparr>ac_invitations := snd (update_where ?p ?f (ac_invitations a))\<rparr>)"
    by (auto simp: closed_invitations_stay_def update_where_set)
qed simp_all

subsection \<open>Every operation\<close>

context table_relation
begin

lemma event_appended: "(\<And>d e. R d (d \<lparr>tb_audit := tb_audit d @ [e]\<rparr>)) \<Longrightarrow> within R (record_event e)"
  unfolding record_event_def Let_def by (intro rules checked) simp

end

locale account_relation = table_relation R for R +
  assumes account: "account_step (tb_accounts d) a \<Longrightarrow> R d (d \<lparr>tb_accounts := a\<rparr>)"
    and record_event: "within R (record_event e)"
begin

lemma on_accounts: "(\<And>a. account_step a (snd (f a))) \<Longrightarrow> within R (on_accounts f)"
  unfolding on_accounts_def by (rule exec) (simp add: split_beta account)

lemma checked_accounts: "(\<And>d. ok d \<Longrightarrow> account_step (tb_accounts d) (snd (f (tb_accounts d)))) \<Longrightarrow> within R (checked_accounts ok f)"
  unfolding checked_accounts_def by (rule checked) (simp add: split_beta account)

lemma pure_step: "within R (pure_step r)"
  by (simp add: pure_step_def sum_op ret fail)

lemmas statements = rules on_accounts checked_accounts record_event pure_step

lemma reads:
  "within R (user_by_id i)" "within R (user_by_email email)" "within R (existing_user i)" "within R user_count"
  "within R (require_enabled_admin_actor i)" "within R (lock_enabled_admin_actor i)"
  "within R (ensure_enabled_admin_remains message)" "within R (scoped_grants_for_user i)" "within R (load_grants u)"
  "within R (ensure_repository_exists i)" "within R oidc_connection" "within R (company_oidc_session_still_authorized i)"
  "within R (active_invitation_email_exists email)"
proof -
  show user: "within R (user_by_id i)" for i by (simp add: user_by_id_def query_row)
  show "within R (require_enabled_admin_actor i)" for i
    unfolding require_enabled_admin_actor_def by (intro rules user)
  then show "within R (lock_enabled_admin_actor i)"
    unfolding lock_enabled_admin_actor_def by (intro rules exec) (simp_all add: refl)
  show "within R (scoped_grants_for_user i)" for i by (simp add: scoped_grants_for_user_def query)
  then show "within R (load_grants u)" unfolding load_grants_def by (intro rules)
  show "within R (existing_user i)" unfolding existing_user_def by (intro rules user)
qed (unfold user_by_email_def user_count_def ensure_enabled_admin_remains_def ensure_repository_exists_def
    oidc_connection_def company_oidc_session_still_authorized_def active_invitation_email_exists_def; intro rules)+

lemma users:
  "within R (touch_user i t)" "within R (set_disabled_at i None t)" "within R (insert_user email name hash mc adm)"
proof -
  show "within R (touch_user i t)" "within R (set_disabled_at i None t)"
    unfolding touch_user_def set_disabled_at_def
    by (intro on_accounts, simp add: split_beta step_users)+
  have "within R (insert_user_row email name t)" for t
    unfolding insert_user_row_def Let_def
    by (intro sql) (auto intro!: account step_append_user refl)
  moreover have "within R (insert_credential_row c)" for c
    unfolding insert_credential_row_def by (intro checked_accounts) (auto intro: step_append_credential)
  moreover have "within R (insert_admin_row i t)" for i t
    unfolding insert_admin_row_def by (intro checked_accounts) (auto intro: step_append_role)
  ultimately show "within R (insert_user email name hash mc adm)"
    unfolding insert_user_def by (intro rules)
qed

lemma sessions:
  "within R (delete_user_sessions i)" "within R (delete_user_password_recovery_token i)" "within R (logout sid)"
  unfolding delete_user_sessions_def delete_user_password_recovery_token_def logout_def
  by (intro statements; simp add: step_sessions step_recoveries)+

lemma insert_session_rows:
  assumes "\<And>a. matching a \<noteq> 0 \<Longrightarrow> sn_user_id s \<in> user_ids a"
  shows "within R (insert_session_rows matching s)"
  unfolding insert_session_rows_def Let_def
  by (intro checked_accounts) (use assms in \<open>auto simp: account_step_refl intro!: step_append_session\<close>)

lemma insert_session: "within R (insert_session u hash sid csrf)"
  unfolding insert_session_def Let_def
  by (intro rules reads insert_session_rows) (auto simp: usable_credentials_def filter_empty_conv intro: rev_image_eqI)


lemma company: "within R (secure_company_oidc_on_authority_loss actor i)" "within R (remove_company_oidc_identity_for_recovery i)"
proof -
  have shut: "within R shut_company_oidc"
    unfolding shut_company_oidc_def by (intro statements) (simp_all add: step_oidc step_sessions)
  show "within R (secure_company_oidc_on_authority_loss actor i)"
    unfolding secure_company_oidc_on_authority_loss_def by (intro statements reads shut)
  show "within R (remove_company_oidc_identity_for_recovery i)"
    unfolding remove_company_oidc_identity_for_recovery_def
    by (intro statements reads shut) (simp add: step_oidc account_step_refl)
qed

lemma invalidation: "within R (invalidate_invitations_authorized_by actor i reason t)"
proof -
  have "within R (record_invitation_audit action a j kvs)" for action a j kvs
    unfolding record_invitation_audit_def by (rule record_event)
  then show ?thesis
    unfolding invalidate_invitations_authorized_by_def
    by (intro statements)
      (auto simp: split_beta authorized_pending_def active_invitation_def invitation_shape_def intro!: step_update_invitations)
qed

lemma update_credentials: "(\<And>c. lc_user_id (f c) = lc_user_id c) \<Longrightarrow> within R (update_credentials p f)"
  unfolding update_credentials_def by (intro on_accounts) (simp add: split_beta step_update_credentials)

lemma insert_grant: "within R (insert_grant g)"
  unfolding insert_grant_def by (intro checked_accounts) (auto simp: grant_row_ok_def intro!: step_append_grant)

lemma delete_grants: "within R (delete_grants repo i r)"
  unfolding delete_grants_def delete_where_def by (intro on_accounts) (simp add: step_filter_grants)

lemma account_operations:
  "within R has_users" "within R (create_first_admin env p)" "within R (create_user env p)"
  "within R (login env email password)" "within R (session_by_id sid)" "within R (verify_current_password env i password)"
  "within R (create_company_oidc_session env i revision generation)" "within R (get_user i)" "within R list_users"
  "within R (grants_for_user i)"
  "within R (enable_user actor i)" "within R (change_password env i current new)"
  "within R (reset_password env actor i temporary)" "within R (issue_password_recovery_token env actor i)"
  "within R (complete_password_recovery env token new)"
proof -
  show "within R has_users" unfolding has_users_def by (intro rules reads)
  show "within R (create_first_admin env p)"
    unfolding create_first_admin_def Let_def by (intro statements reads users insert_session)
  show "within R (create_user env p)"
    unfolding create_user_def audit_user_created_def Let_def by (intro statements reads users)
  show "within R (login env email password)"
    unfolding login_def Let_def by (intro statements reads insert_session)
  show "within R (session_by_id sid)"
    unfolding session_by_id_def Let_def by (intro statements reads sessions)
  show "within R (verify_current_password env i password)"
    unfolding verify_current_password_def by (intro statements reads)
  show "within R (create_company_oidc_session env i revision generation)"
    unfolding create_company_oidc_session_def Let_def
    by (intro statements reads insert_session_rows)
      (auto simp: oidc_login_rows_def filter_empty_conv intro: rev_image_eqI step_append_oidc_session split: if_splits)
  show "within R (get_user i)" unfolding get_user_def by (intro rules reads)
  show "within R list_users" unfolding list_users_def by (rule query)
  show "within R (grants_for_user i)" unfolding grants_for_user_def by (intro rules reads)
  show "within R (enable_user actor i)"
    unfolding enable_user_def by (intro statements reads users)
  show "within R (change_password env i current new)"
    unfolding change_password_def commit_password_change_def
    by (intro statements reads users sessions insert_session update_credentials) simp_all
  show "within R (reset_password env actor i temporary)"
    unfolding reset_password_def
    by (intro statements reads users sessions company update_credentials) simp_all
  have "within R (store_recovery t)" for t
    unfolding store_recovery_def
    by (rule checked_accounts, simp only: snd_conv, rule step_store_recovery) auto
  then show "within R (issue_password_recovery_token env actor i)"
    unfolding issue_password_recovery_token_def Let_def by (intro statements reads)
  have "within R (commit_password_recovery i digest hash)" for i digest hash
    unfolding commit_password_recovery_def delete_where_def
    by (intro statements users sessions company update_credentials) (simp_all add: step_recoveries)
  moreover have "within R (preflight_password_recovery digest t)" for digest t
    unfolding preflight_password_recovery_def by (intro rules)
  ultimately show "within R (complete_password_recovery env token new)"
    unfolding complete_password_recovery_def by (intro statements)
qed

lemma grant_operations:
  "within R (grant_repository_role actor repo i r)" "within R (revoke_repository_role actor repo i r)"
  "within R (set_user_repository_roles actor repo i rs)" "within R (list_repository_grants repo)"
  "within R (list_user_repository_grants i)" "within R (list_users_directory search repo)"
  "within R (list_repository_access_users repo linked)"
proof -
  have "within R (insert_or_ignore_grant g)" for g
    unfolding insert_or_ignore_grant_def
    by (intro checked_accounts) (auto simp: grant_row_ok_def account_step_refl intro!: step_append_grant)
  then show "within R (grant_repository_role actor repo i r)"
    unfolding grant_repository_role_def by (intro statements reads)
  show "within R (revoke_repository_role actor repo i r)"
    unfolding revoke_repository_role_def by (intro statements reads delete_grants)
  have "within R (apply_role actor repo i t current desired r)" for t current desired r
    unfolding apply_role_def by (intro statements insert_grant delete_grants)
  then show "within R (set_user_repository_roles actor repo i rs)"
    unfolding set_user_repository_roles_def by (intro statements reads)
  show "within R (list_repository_grants repo)" unfolding list_repository_grants_def by (rule query)
  show "within R (list_user_repository_grants i)"
    unfolding list_user_repository_grants_def by (intro rules reads)
  show "within R (list_users_directory search repo)"
    unfolding list_users_directory_def Let_def by (intro rules reads)
  show "within R (list_repository_access_users repo linked)"
    unfolding list_repository_access_users_def by (intro rules)
qed

lemma staging:
  "within R (insert_invitation_repository_grants j gs)" "within R (delete_staged j)" "within R (count_staged j)"
  "within R (insert_pending j email name digest t adm actor n now)"
  "within R (reissue_row j digest t adm actor n now)"
  "within R (update_invitations (\<lambda>x. p x \<and> active_invitation x) (redacted invitation_status_cancelled now))"
  "within R (update_invitations (\<lambda>x. p x \<and> bearer_matches digest x) (redacted invitation_status_accepted now))"
proof -
  have "within R (insert_staged j g)" for g
    unfolding insert_staged_def by (intro checked_accounts) (auto intro!: step_append_staged)
  then show "within R (insert_invitation_repository_grants j gs)"
    unfolding insert_invitation_repository_grants_def by (intro rules)
  show "within R (delete_staged j)" unfolding delete_staged_def delete_where_def
    by (intro on_accounts) (simp add: step_filter_staged)
  show "within R (count_staged j)" unfolding count_staged_def by (rule query)
  show "within R (insert_pending j email name digest t adm actor n now)"
    unfolding insert_pending_def Let_def by (intro checked_accounts) (auto intro!: step_append_pending)
  show "within R (reissue_row j digest t adm actor n now)"
    unfolding reissue_row_def by (intro checked_accounts) (auto simp: split_beta intro!: step_reissue)
  show "within R (update_invitations (\<lambda>x. p x \<and> active_invitation x) (redacted invitation_status_cancelled now))"
    "within R (update_invitations (\<lambda>x. p x \<and> bearer_matches digest x) (redacted invitation_status_accepted now))"
    unfolding update_invitations_def
    by (intro on_accounts, simp add: split_beta, rule step_update_invitations;
        simp add: redacted_def invitation_shape_def active_invitation_def bearer_matches_def)+
qed

lemma invitation_reads:
  "within R (load_managed_invitation j)" "within R (reject_invitation_user_collision email)"
  "within R (active_or_fail message v)" "within R (load_surviving_invitation_repository_grants j)"
  "within R (require_one_affected_row operation m)" "within R (validate_invitation_repositories previous gs)"
  "within R (load_acceptance_invitation digest)" "within R (validate_acceptance_invitation ai t)"
proof -
  show "within R (validate_invitation_repositories previous gs)"
  proof (induction gs arbitrary: previous)
    case (Cons g gs)
    show ?case unfolding validate_invitation_repositories.simps by (intro rules reads Cons)
  qed (simp add: ret)
  show "within R (load_acceptance_invitation digest)"
    unfolding load_acceptance_invitation_def by (intro statements)
  have "within R (load_acceptance_repository_grants j)" for j
    unfolding load_acceptance_repository_grants_def by (intro rules)
  then show "within R (validate_acceptance_invitation ai t)"
    unfolding validate_acceptance_invitation_def by (intro rules)
qed (unfold load_managed_invitation_def reject_invitation_user_collision_def active_or_fail_def
    load_surviving_invitation_repository_grants_def require_one_affected_row_def; intro rules)+

lemma invitation_operations:
  "within R (create_invitation env ic)" "within R (reissue_invitation env ir)"
  "within R (replace_invitation_link env actor j)" "within R (cancel_invitation actor j)"
  "within R (accept_invitation env token password)" "within R list_active_invitations"
proof -
  have audited: "within R (record_invitation_audit action a j kvs)" for action a j kvs
    unfolding record_invitation_audit_def by (rule record_event)
  show "within R (create_invitation env ic)"
    unfolding create_invitation_def Let_def by (intro statements reads invitation_reads staging audited)
  show "within R (reissue_invitation env ir)"
    unfolding reissue_invitation_def Let_def by (intro statements reads invitation_reads staging audited)
  show "within R (replace_invitation_link env actor j)"
    unfolding replace_invitation_link_def Let_def by (intro statements reads invitation_reads staging audited)
  show "within R (cancel_invitation actor j)"
    unfolding cancel_invitation_def Let_def by (intro statements reads invitation_reads staging audited)
  have "within R (insert_accepted_repository_grants i authorizer gs t)" for i authorizer gs t
    unfolding insert_accepted_repository_grants_def by (intro rules insert_grant)
  moreover have "within R (record_invitation_acceptance_audits v authorizer u gs)" for v authorizer u gs
    unfolding record_invitation_acceptance_audits_def by (intro statements)
  ultimately have "within R (commit_invitation_acceptance digest hash)" for digest hash
    unfolding commit_invitation_acceptance_def Let_def by (intro statements users invitation_reads staging)
  moreover have "within R (preflight_invitation_acceptance digest t)" for digest t
    unfolding preflight_invitation_acceptance_def by (intro rules invitation_reads)
  ultimately show "within R (accept_invitation env token password)"
    unfolding accept_invitation_def by (intro statements)
  show "within R list_active_invitations"
    unfolding list_active_invitations_def active_entry_def Let_def by (intro statements)
qed

lemma listings:
  "within R (list_users_directory search repo)" "within R (list_user_repository_grants i)"
  "within R (list_repository_grants repo)" "within R (list_repository_role_holders repo)"
  "within R (list_repository_access_users repo linked)"
proof -
  show access: "within R (list_repository_access_users repo linked)" for linked
    unfolding list_repository_access_users_def Let_def by (intro rules)
  then show "within R (list_repository_role_holders repo)" by (simp add: list_repository_role_holders_def)
qed (unfold list_users_directory_def list_user_repository_grants_def list_repository_grants_def Let_def; intro rules reads)+

end

locale authority_relation = account_relation R for R +
  assumes loss: "loss_step (tb_accounts d) a \<Longrightarrow> R d (d \<lparr>tb_accounts := a\<rparr>)"
begin

lemma on_accounts_loss: "(\<And>a. loss_step a (snd (f a))) \<Longrightarrow> within R (on_accounts f)"
  unfolding on_accounts_def by (rule exec) (simp add: split_beta loss)

lemma authority_operations:
  "within R (set_user_admin actor i admin)" "within R (disable_user actor i)"
proof -
  have "within R (on_accounts (\<lambda>a. ((), a \<lparr>ac_roles := filter p (ac_roles a)\<rparr>)))" for p
    by (intro on_accounts_loss) (simp add: loss_filter_roles)
  then show "within R (set_user_admin actor i admin)"
    unfolding set_user_admin_def Let_def
    by (intro rules checked_accounts record_event reads users invalidation company)
      (auto intro: step_append_role account_step_refl)
  have "within R (set_disabled_at i at t)" for i at t
    unfolding set_disabled_at_def by (intro on_accounts_loss) (simp add: split_beta loss_users)
  then show "within R (disable_user actor i)"
    unfolding disable_user_def by (intro statements reads users invalidation company sessions)
qed

lemma requests: "within R (perform_account env request)"
  by (cases request)
    (simp_all add: ignore_def bind ret account_operations grant_operations invitation_operations listings sessions
      authority_operations)

end

text \<open>What an account operation may do to the tables: accounts move, the trail grows, nothing else changes.\<close>

definition keeps_accounts :: "db \<Rightarrow> db \<Rightarrow> bool" where
  "keeps_accounts d d' \<longleftrightarrow> loss_step (tb_accounts d) (tb_accounts d') \<and> (\<exists>es. tb_audit d' = tb_audit d @ es)
     \<and> d' \<lparr>tb_accounts := tb_accounts d, tb_audit := tb_audit d\<rparr> = d"

lemma loss_step_refl: "loss_step a a"
  using account_step_refl [of a] by (simp add: account_step_def)

lemma loss_step_trans: "loss_step a b \<Longrightarrow> loss_step b c \<Longrightarrow> loss_step a c"
  unfolding loss_step_def closed_invitations_stay_def by auto

lemma keeps_accounts_relation: "table_relation keeps_accounts"
proof unfold_locales
  fix a b c
  assume "keeps_accounts a b" "keeps_accounts b c"
  then show "keeps_accounts a c"
    unfolding keeps_accounts_def
    by (cases a; cases b; cases c) (auto intro: loss_step_trans)
qed (auto simp: keeps_accounts_def loss_step_refl)

interpretation stepwise: authority_relation keeps_accounts
  using keeps_accounts_relation
  by (intro authority_relation.intro account_relation.intro account_relation_axioms.intro authority_relation_axioms.intro
      table_relation.event_appended) (simp_all add: keeps_accounts_def account_step_def loss_step_refl)

interpretation administered: account_relation "keeps (\<lambda>d. admin_remains (tb_accounts d))"
  by (intro account_relation.intro account_relation_axioms.intro keeps.table_relation_axioms keeps.event_appended)
    (simp_all add: keeps_def account_step_def)

end
