(* ===== verification/AccountSamples.thy ===== *)
theory AccountSamples
  imports AccountRequests Samples
begin

text \<open>
  Concrete accounts for the examples: one enabled administrator with a password, a session and an
  open recovery link, and an environment whose hash and digest are constant.
\<close>

definition sample_env :: auth_env where
  "sample_env = \<lparr>ae_random = (\<lambda>_. Some (\<lambda>_. CHR ''r'')),
     ae_argon2 = \<lparr>a2_version = 19, a2_id_key = (\<lambda>_ _ _ _ _ n. replicate (unat n) (CHR ''k''))\<rparr>,
     ae_sha256 = (\<lambda>_. ''digest'')\<rparr>"

definition sample_user :: user_row where
  "sample_user = \<lparr>us_id = 1, us_email = ''a@b'', us_display_name = ''A'', us_disabled_at = None,
     us_created_at = 0, us_updated_at = 0\<rparr>"

definition sample_session :: session_row where
  "sample_session = \<lparr>sn_id = ''s1'', sn_user_id = 1, sn_csrf_token = ''c1'', sn_expires_at = 100, sn_created_at = 0\<rparr>"

definition sample_recovery :: recovery_row where
  "sample_recovery = \<lparr>pt_user_id = 1, pt_token_digest = ''digest'', pt_expires_at = 100\<rparr>"

definition sample_accounts :: accounts where
  "sample_accounts = no_accounts \<lparr>ac_users := [sample_user],
     ac_credentials := [\<lparr>lc_user_id = 1, lc_password_hash = ''h'', lc_must_change_password = False,
       lc_created_at = 0, lc_updated_at = 0\<rparr>],
     ac_roles := [\<lparr>ur_user_id = 1, ur_role = role_admin, ur_created_at = 0\<rparr>],
     ac_sessions := [sample_session], ac_recoveries := [sample_recovery]\<rparr>"

definition sample_db :: db where
  "sample_db = empty_db \<lparr>tb_accounts := sample_accounts\<rparr>"

lemmas sample_simps = sample_db_def sample_accounts_def sample_user_def sample_session_def sample_recovery_def
  empty_db_def no_accounts_def

lemma sample_texts: "trim_space ''s1'' = ''s1''"
  by (rule trim_text) (simp_all add: is_ascii_def is_space_rune_def)

text \<open>A token as the forms carry it: the encoding of as many bytes as it should name.\<close>

definition sample_token :: string where
  "sample_token = base64_encode url_alphabet (replicate 32 (CHR 0x00))"

lemma sample_canonical: "canonical_token 32 sample_token"
  by (auto simp: canonical_token_iff sample_token_def intro!: exI [of _ "replicate 32 (CHR 0x00)"])

lemma format_one: "format_int 1 = ''1''" by code_simp

lemma sample_digest: "ae_sha256 sample_env t = ''digest''"
  by (simp add: sample_env_def)

lemma sample_hash_named:
  "\<exists>h. hash_password (ae_argon2 sample_env) (ae_random sample_env) 0 (replicate 12 (CHR ''p'')) = Inr h \<and> h \<noteq> []"
  by (simp add: hash_password_def hash_password_with_def read_random_def sample_env_def encode_password_hash_def)

text \<open>Statements and transactions in a world without failures.\<close>

lemma run_sql [run_simps]:
  "faultless w \<Longrightarrow> sql f w = (fst (f (tables w)), after w 0 1 (snd (f (tables w))))"
  by (simp add: sql_def faultless_def after_def split_beta)

lemma run_transact [run_simps]:
  "faultless w \<Longrightarrow> m (after w 0 1 (tables w)) = (Inr x, w') \<Longrightarrow> faultless w' \<Longrightarrow> transact m w = (Inr x, after w' 0 1 (tables w'))"
  by (simp add: transact_def sql_def faultless_def after_def)

end
