(* ===== verification/AuthorityFacts.thy ===== *)
theory AuthorityFacts
  imports AccountFacts AccountSamples
begin

text \<open>
  Who is in charge: an enabled administrator with a password always remains, a session is served
  only to whoever may still have it, and whoever loses the password or the account loses the
  sessions with it.
\<close>

subsection \<open>An administrator remains\<close>

abbreviation administered :: "db \<Rightarrow> bool" where
  "administered d \<equiv> admin_remains (tb_accounts d)"

lemma admin_count_iff: "admin_count a \<noteq> 0 \<longleftrightarrow> admin_remains a"
  by (auto simp: admin_count_def admin_remains_def administrator_def has_admin_row_def list_ex_iff
      filter_empty_conv concat_eq_Nil_conv)

lemma ensured: "yields (\<lambda>_. True) (ensure_enabled_admin_remains message) (\<lambda>_. administered)"
  unfolding ensure_enabled_admin_remains_def
  by (rule yields_weaken, rule yields_bind, rule yields_if, rule yields_fail [where P = "\<lambda>_. True"], rule yields_ret, rule yields_query)
    (auto simp: admin_count_iff [symmetric])

lemma administered_bind:
  "yields administered m (\<lambda>_. administered) \<Longrightarrow> (\<And>x. yields administered (f x) (\<lambda>_. administered))
     \<Longrightarrow> yields administered (bind m f) (\<lambda>_. administered)"
  by (rule yields_bind)

text \<open>A step that may take authority is harmless when the check follows it.\<close>

lemma checked_loss:
  assumes "\<And>x. yields administered (f x) (\<lambda>_. administered)"
  shows "yields administered (bind m (\<lambda>_. bind (ensure_enabled_admin_remains message) f)) (\<lambda>_. administered)"
proof (rule yields_bind [where R = "\<lambda>_ _. True"])
  show "yields (\<lambda>_. True) (bind (ensure_enabled_admin_remains message) f) (\<lambda>_. administered)" for x :: 'a
    by (rule yields_bind [where R = "\<lambda>_. administered"]) (rule assms, rule ensured)
qed (simp add: yields_def)

lemmas administered_reads = administered.reads [THEN yields_keeps]
lemmas administered_parts = administered.users [THEN yields_keeps] administered.company [THEN yields_keeps]
  administered.invalidation [THEN yields_keeps] administered.sessions [THEN yields_keeps]
  administered.record_event [THEN yields_keeps] keeps.now_utc [THEN yields_keeps] keeps.ret [THEN yields_keeps]

lemma set_user_admin_administered: "within (keeps administered) (set_user_admin actor i admin)"
  unfolding set_user_admin_def Let_def
proof (rule triple_keeps, intro administered_bind administered_reads administered_parts)
  have "within (keeps administered) (checked_accounts (\<lambda>d. j \<in> set (tb_users d)) (\<lambda>a. ((), if has_admin_row a j then a
      else a \<lparr>ac_roles := ac_roles a @ [\<lparr>ur_user_id = j, ur_role = role_admin, ur_created_at = t\<rparr>]\<rparr>)))" for j t
    by (intro administered.checked_accounts) (auto intro: step_append_role account_step_refl)
  note grant = this [THEN yields_keeps]
  show "yields administered (if admin
      then checked_accounts (\<lambda>d. au_id u \<in> set (tb_users d)) (\<lambda>a. ((), if has_admin_row a (au_id u) then a
        else a \<lparr>ac_roles := ac_roles a @ [\<lparr>ur_user_id = au_id u, ur_role = role_admin, ur_created_at = now\<rparr>]\<rparr>))
      else bind (on_accounts (\<lambda>a. ((), a \<lparr>ac_roles := filter (\<lambda>r. \<not> (ur_user_id r = au_id u \<and> ur_role r = role_admin)) (ac_roles a)\<rparr>)))
        (\<lambda>_. bind (ensure_enabled_admin_remains ''the final enabled admin with a local password must keep the admin role'') (\<lambda>_.
          if au_is_admin u
          then bind (invalidate_invitations_authorized_by actor (au_id u) invitation_revocation_admin_removed now) (\<lambda>_.
            secure_company_oidc_on_authority_loss actor (au_id u)) else ret ()))) (\<lambda>_. administered)"
    for u :: user_record and now
  proof (cases admin)
    case False
    have "yields administered (if au_is_admin u
          then bind (invalidate_invitations_authorized_by actor (au_id u) invitation_revocation_admin_removed now) (\<lambda>_.
            secure_company_oidc_on_authority_loss actor (au_id u)) else ret ()) (\<lambda>_. administered)"
      by (cases "au_is_admin u") (auto intro: administered_bind administered_parts)
    with False show ?thesis by (simp only: if_False) (rule checked_loss)
  qed (simp only: if_True grant)
  show "yields administered (if au_is_admin u \<noteq> admin then record_event e else ret ()) (\<lambda>_. administered)"
    for u :: user_record and e
    by (cases "au_is_admin u \<noteq> admin") (auto intro: administered_parts)
qed

lemma disable_user_administered: "within (keeps administered) (disable_user actor i)"
  unfolding disable_user_def
proof (rule triple_keeps, intro administered_bind administered_reads)
  show "yields administered (if user_disabled u then fail (auth_invalid ''user is already disabled'')
     else bind now_utc (\<lambda>now.
     bind (set_disabled_at (au_id u) (Some now) now) (\<lambda>_.
     bind (ensure_enabled_admin_remains ''the final enabled admin with a local password cannot be disabled'') (\<lambda>_.
     bind (invalidate_invitations_authorized_by actor (au_id u) invitation_revocation_authorizer_disabled now) (\<lambda>_.
     bind (delete_user_sessions (au_id u)) (\<lambda>_.
     bind (delete_user_password_recovery_token (au_id u)) (\<lambda>_.
     bind (secure_company_oidc_on_authority_loss actor (au_id u)) (\<lambda>_.
     bind (record_event (user_audit_event ''user.disabled'' actor (au_id u) (text_field ''enabled'' ''false''))) (\<lambda>_.
     ret ((plain_user u) \<lparr>au_disabled_at := Some now, au_updated_at := now\<rparr>)))))))))) (\<lambda>_. administered)"
    for u :: user_record
    by (cases "user_disabled u"; simp only: if_True if_False)
      (rule yields_fail, intro administered_bind checked_loss administered_parts)
qed

lemma request_administered: "within (keeps administered) (perform_account env request)"
  by (cases request)
    (simp_all add: ignore_def keeps.bind keeps.ret administered.account_operations administered.grant_operations
      administered.invitation_operations administered.listings administered.sessions set_user_admin_administered disable_user_administered)

subsection \<open>Sessions\<close>

lemma read_only:
  "observes (company_oidc_session_still_authorized i)" "observes (load_grants u)"
  unfolding company_oidc_session_still_authorized_def load_grants_def scoped_grants_for_user_def
  by (intro looking)+

lemma query_value: "query f w = (Inr x, w') \<Longrightarrow> x = f (tables w) \<and> tables w' = tables w"
  by (auto simp: query_def sql_def split: if_splits)

lemma lookup_value: "attempt (query_row f) w = (Inr (Inr x), w') \<Longrightarrow> x \<in> set (f (tables w)) \<and> tables w' = tables w
    \<and> clock w' = clock w \<and> readings w' = readings w"
  by (auto simp: attempt_def query_row_def sql_def first_row_def split: if_splits list.splits)

lemma now_value: "now_utc w = (Inr t, w') \<Longrightarrow> t = clock w (readings w) \<and> tables w' = tables w"
  by (auto simp: now_utc_def)

text \<open>What the grants of a user are in the tables now.\<close>

definition live_grants :: "accounts \<Rightarrow> int \<Rightarrow> grants" where
  "live_grants a i = new_grants (has_admin_row a i) (scoped_roles (map (\<lambda>g. (rg_repository_id g, rg_role g))
     (filter (\<lambda>g. rg_user_id g = i) (ac_grants a))))"

lemma load_grants_value:
  "load_grants u w = (Inr g, w') \<Longrightarrow> au_is_admin u = has_admin_row (tb_accounts (tables w)) (au_id u)
     \<Longrightarrow> g = live_grants (tb_accounts (tables w)) (au_id u) \<and> tables w' = tables w"
  unfolding load_grants_def scoped_grants_for_user_def live_grants_def
  by (erule bind_cases, drule query_value) (auto simp: ret_def)

text \<open>The conditions under which a session stands for its user.\<close>

definition session_stands :: "accounts \<Rightarrow> instant \<Rightarrow> session_row \<Rightarrow> user_row \<Rightarrow> bool" where
  "session_stands a now row u \<longleftrightarrow> row \<in> set (ac_sessions a) \<and> u \<in> set (ac_users a) \<and> us_id u = sn_user_id row
     \<and> us_disabled_at u = None \<and> now < sn_expires_at row \<and> sn_csrf_token row \<noteq> []
     \<and> (if list_ex (\<lambda>c. os_session_id c = sn_id row) (ac_oidc_sessions a)
        then administrator a u \<and> ac_oidc_identity a = Some (us_id u) \<and> opt_ex oc_enabled (ac_oidc_connection a)
        else True)"

lemma still_authorized_value:
  assumes "company_oidc_session_still_authorized i w = (Inr True, w')" and "distinct (map us_id (ac_users a))"
    and "a = tb_accounts (tables w)" and "u \<in> set (ac_users a)" and "us_id u = i"
  shows "administrator a u \<and> ac_oidc_identity a = Some i \<and> opt_ex oc_enabled (ac_oidc_connection a)"
proof -
  from query_value [OF assms(1) [unfolded company_oidc_session_still_authorized_def]] assms(3)
  obtain x c where "x \<in> set (ac_users a)" "us_id x = i" "us_disabled_at x = None" "has_admin_row a i"
    "c \<in> set (credentials_of a i)" "ac_oidc_identity a = Some i" "opt_ex oc_enabled (ac_oidc_connection a)"
    by (auto simp: Let_def list_ex_iff)
  moreover have "x = u" using calculation(1,2) assms(2,4,5) by (metis distinct_map inj_onD)
  ultimately show ?thesis using assms(5) by (auto simp: administrator_def)
qed

text \<open>
  C10: A session is served only while it stands: it is in the table under the identifier asked for,
  has not expired at the moment it is loaded and belongs to an enabled user; a session of company
  sign-in also needs the connection enabled and its user still the linked administrator. The grants
  that come with it are those in the tables now, and loading it changes nothing.
\<close>

theorem session_served_only_while_it_stands:
  assumes run: "session_by_id i w = (Inr (Some s), w')" and unique: "users_ok (tb_accounts (tables w))"
  shows "\<exists>row u. session_stands (tb_accounts (tables w)) (clock w (readings w)) row u \<and> sn_id row = trim_space i
    \<and> as_id s = sn_id row \<and> au_id (as_user s) = us_id u \<and> as_grants s = live_grants (tb_accounts (tables w)) (us_id u)
    \<and> tables w' = tables w"
proof -
  let ?a = "tb_accounts (tables w)" and ?i = "trim_space i"
  have named: "?i \<noteq> []" using run by (auto simp: session_by_id_def ret_def)
  from run [unfolded session_by_id_def Let_def] named obtain r w1 where
    1: "attempt (query_row (\<lambda>d. session_rows ?i (tb_accounts d))) w = (Inr r, w1)" and
    rest: "(case r of Inl e \<Rightarrow> if e = NoRows then ret None else fail e
      | Inr s \<Rightarrow> if as_csrf_token s = [] then bind (logout ?i) (\<lambda>_. ret None)
          else bind now_utc (\<lambda>now. if \<not> now < as_expires_at s then bind (logout ?i) (\<lambda>_. ret None)
          else if user_disabled (as_user s) then bind (logout ?i) (\<lambda>_. ret None)
          else bind (if as_company_oidc s then company_oidc_session_still_authorized (au_id (as_user s)) else ret True)
            (\<lambda>authorized. if \<not> authorized then bind (logout ?i) (\<lambda>_. ret None)
          else bind (load_grants (as_user s)) (\<lambda>g. ret (Some (s \<lparr>as_grants := g\<rparr>)))))) w1 = (Inr (Some s), w')"
    by (simp only: if_False) (erule bind_cases, blast)
  have gone: "bind (logout ?i) (\<lambda>_. ret None) v \<noteq> (Inr (Some s), w')" for v
    by (auto simp: ret_def elim!: bind_cases)
  from rest gone obtain s0 where r: "r = Inr s0"
    by (cases r) (auto simp: ret_def fail_def split: if_splits)
  from lookup_value [OF 1 [unfolded r]] have s0: "s0 \<in> set (session_rows ?i ?a)" and t1: "tables w1 = tables w"
    "clock w1 = clock w" "readings w1 = readings w" by auto
  from rest [unfolded r sum.case] gone obtain now w2 where csrf: "as_csrf_token s0 \<noteq> []" and
    2: "now_utc w1 = (Inr now, w2)" and
    rest2: "(if \<not> now < as_expires_at s0 then bind (logout ?i) (\<lambda>_. ret None)
          else if user_disabled (as_user s0) then bind (logout ?i) (\<lambda>_. ret None)
          else bind (if as_company_oidc s0 then company_oidc_session_still_authorized (au_id (as_user s0)) else ret True)
            (\<lambda>authorized. if \<not> authorized then bind (logout ?i) (\<lambda>_. ret None)
          else bind (load_grants (as_user s0)) (\<lambda>g. ret (Some (s0 \<lparr>as_grants := g\<rparr>))))) w2 = (Inr (Some s), w')"
    by (cases "as_csrf_token s0 = []") (simp, simp only: if_False, erule bind_cases, blast)
  from now_value [OF 2] t1 have now: "now = clock w (readings w)" and t2: "tables w2 = tables w" by auto
  from rest2 gone have live: "now < as_expires_at s0" "\<not> user_disabled (as_user s0)"
    by (auto split: if_splits)
  with rest2 obtain authorized w3 where
    3: "(if as_company_oidc s0 then company_oidc_session_still_authorized (au_id (as_user s0)) else ret True) w2 = (Inr authorized, w3)" and
    rest3: "(if \<not> authorized then bind (logout ?i) (\<lambda>_. ret None)
          else bind (load_grants (as_user s0)) (\<lambda>g. ret (Some (s0 \<lparr>as_grants := g\<rparr>)))) w3 = (Inr (Some s), w')"
    by (simp only: simp_thms if_False) (erule bind_cases, blast)
  have "observes (if as_company_oidc s0 then company_oidc_session_still_authorized (au_id (as_user s0)) else ret True)"
    by (intro looking read_only)
  from observes_after [OF this 3] t2 have t3: "tables w3 = tables w" by simp
  from rest3 gone have authorized: authorized by (auto split: if_splits)
  with rest3 obtain g w4 where 4: "load_grants (as_user s0) w3 = (Inr g, w4)" and s: "s = s0 \<lparr>as_grants := g\<rparr>" "w' = w4"
    by (simp only: simp_thms if_False) (erule bind_cases, simp add: ret_def)
  from s0 obtain row u c where row: "row \<in> set (ac_sessions ?a)" "sn_id row = ?i" and
    u: "u \<in> set (ac_users ?a)" "us_id u = sn_user_id row" and scan: "s0 = scan_session ?a row (scan_user_record ?a u c)"
    by (auto simp: session_rows_def users_where_def)
  have who: "au_id (as_user s0) = us_id u" "au_is_admin (as_user s0) = has_admin_row ?a (us_id u)"
    "user_disabled (as_user s0) = (us_disabled_at u \<noteq> None)"
    by (simp_all add: scan scan_session_def scan_user_record_def user.defs user_disabled_def)
  from load_grants_value [OF 4] t3 who have g: "g = live_grants ?a (us_id u)" "tables w4 = tables w" by simp_all
  have "administrator ?a u \<and> ac_oidc_identity ?a = Some (us_id u) \<and> opt_ex oc_enabled (ac_oidc_connection ?a)"
    if "as_company_oidc s0"
    using that 3 authorized unique u t2 who
    by (intro still_authorized_value [where w = w2 and w' = w3]) (simp_all add: users_ok_def)
  then have "session_stands ?a (clock w (readings w)) row u"
    using row u live who csrf now by (simp add: session_stands_def scan scan_session_def)
  with row s g who show ?thesis
    by (intro exI [of _ row] exI [of _ u]) (simp add: scan scan_session_def)
qed

lemma session_run:
  "\<exists>s w'. session_by_id ''s1'' (quiet sample_db 5) = (Inr (Some s), w')"
  by (simp add: session_by_id_def sample_texts session_rows_def scan_session_def users_where_def left_credentials_def
      credentials_of_def scan_user_record_def user.defs user_disabled_def load_grants_def scoped_grants_for_user_def
      sample_simps first_row_def references_def run_simps Let_def)

lemma session_served_only_while_it_stands_witness:
  "\<exists>row. sn_user_id row = 1 \<and> row \<in> set (ac_sessions sample_accounts) \<and> (5 :: instant) < sn_expires_at row"
proof -
  obtain s w' where run: "session_by_id ''s1'' (quiet sample_db 5) = (Inr (Some s), w')" using session_run by blast
  have "users_ok (tb_accounts (tables (quiet sample_db 5)))"
    by (simp add: users_ok_def sample_simps run_simps)
  from session_served_only_while_it_stands [OF run this] show ?thesis
    by (auto simp: session_stands_def run_simps sample_simps)
qed

end
