(* ===== verification/ApplicationFacts.thy ===== *)
theory ApplicationFacts
  imports Application Changes AuthorityFacts AccountSamples "HOL-Library.Sublist"
begin

text \<open>
  What holds of the tables whatever the application does. A relation that the stores respect is
  respected by every request and every tick (the locale \<open>application_tables\<close>); it is interpreted
  for the vocabulary of changes and for the evidence of enforcement, and the histories of the
  application inherit what both preserve.
\<close>

subsection \<open>From the stores to the application\<close>

lemma load_coverages_looks: "observes (load_coverages ss)"
proof (induction ss)
  case (Cons s ss)
  show ?case unfolding load_coverages.simps list_rules_def list_windows_def by (intro looking Cons)
qed (simp add: observes_basic)

lemma expanded_looks: "observes (expanded tz covs from til)"
  unfolding expanded_def by (intro looking)

lemma application_reads [looking]:
  "observes (active_for_schedule i)" "observes (list_rules i)" "observes (list_windows i)"
  "observes list_active_coverages" "observes (get_freeze i)" "observes (get_active_for_branch i b)"
  "observes list_active" "observes list_active_materialized" "observes (list_due_scheduled n)"
  "observes (list_due_planned_unfreezes n)" "observes (list_needs_recompute n)"
  "observes (active_for_pull_request pr)" "observes (require_thaw_enforcement i)"
  "observes (previous_pull_request i n)" "observes (recompute_plans i pr old)"
  unfolding active_for_schedule_def list_rules_def list_windows_def list_active_coverages_def get_freeze_def
    get_freeze_for_scope_def get_active_for_branch_def list_active_def list_active_for_scope_def row_or_none_def
    list_active_materialized_def list_due_scheduled_def list_due_planned_unfreezes_def list_needs_recompute_def
    list_schedules_def list_schedules_for_scope_def active_for_pull_request_def require_thaw_enforcement_def
    previous_pull_request_def recompute_plans_def open_for_head_def Let_def
  by (intro looking load_coverages_looks)+

text \<open>What the services that end in a convergence are given.\<close>

definition recompute_ports :: "(db \<Rightarrow> db \<Rightarrow> bool) \<Rightarrow> recompute_env \<Rightarrow> bool" where
  "recompute_ports R env \<longleftrightarrow> rx_convergence env = Some runtime_convergence
     \<and> (\<forall>i b. within R (rx_sync env i b)) \<and> (\<forall>i b. within R (rx_open_by_branch env i b))
     \<and> (\<forall>prs k. within R (rx_run_shared_head env prs k)) \<and> (\<forall>result. within R (rx_publish env result))
     \<and> (\<forall>f. rx_end_materialized env = Some f \<longrightarrow> (\<forall>i actor. within R (f i actor)))"

text \<open>What the application is given from outside, as far as it may touch the tables.\<close>

definition outside_within :: "(db \<Rightarrow> db \<Rightarrow> bool) \<Rightarrow> outside \<Rightarrow> bool" where
  "outside_within R ox \<longleftrightarrow> readiness_within R (wired_readiness ox)
     \<and> (\<forall>store. ox_secrets ox = Some store \<longrightarrow>
          (\<forall>t. within R (ss_encrypt store t)) \<and> (\<forall>c. within R (ss_decrypt store c)))"

lemma outside_parts:
  assumes "outside_within R ox"
  shows "forge_within R (ox_forge ox)" "readiness_within R (wired_readiness ox)"
    "ox_secrets ox = Some store \<Longrightarrow> within R (ss_encrypt store t)"
    "ox_secrets ox = Some store \<Longrightarrow> within R (ss_decrypt store t)"
  using assms by (auto simp: outside_within_def wired_readiness_def readiness_within_def)

locale application_tables = enforcement_tables R for R :: "db \<Rightarrow> db \<Rightarrow> bool" +
  fixes zones :: "string \<Rightarrow> zone option"
  assumes noted: "within R (record_event e)"
    and decided: "within R (create_result rc)"
    and remembered: "within R (upsert_cached_pull pr)" "within R (mark_absent_open_closed i b is)"
    and posted: "within R (publish_forgejo_status result)" "within R (record_forgejo_status_attempt p outcome m)"
    and frozen_rows: "within R (mark_recomputed i)" "within R (update_materialized_attribution ap)"
      "within R (create_active cp)" "within R (create_scheduled sp)" "within R (end_freeze i)"
      "within R (cancel_freeze i)" "within R (cancel_scheduled i)"
      "within R (edit_scheduled_expecting ep expected)" "within R (activate_scheduled i)"
      "within R (start_scheduled_now i)" "within R (execute_planned_unfreeze i)"
    and thawed_rows: "within R (approve_thaw ta actor)"
    and planned_rows: "within R (create_schedule zones cs)" "within R (set_schedule_active i active)"
      "within R (suppress_schedule i til)" "within R (add_rules rp)" "within R (delete_rule i j)"
      "within R (add_window zones wp)" "within R (delete_window i j)" "within R (delete_schedule i)"
    and delivered_rows: "within R (record_delivery dr)" "within R (claim_for_processing i)"
      "within R (mark_processed i dp)" "within R (mark_processing_failed i message started)"
    and set_up: "within R (setup_create parse rc' actor)" "within R (setup_add_branch i b actor)"
      "within R (setup_remove_branch i b actor)"
    and keyed: "(\<And>t. within R (ss_encrypt store t)) \<Longrightarrow> within R (setup_webhook_secret parse (Some store) i secret actor)"
      "(\<And>t. within R (ss_encrypt store t)) \<Longrightarrow> within R (setup_status_token parse (Some store) i token actor)"
    and inspected: "readiness_within R renv \<Longrightarrow> within R (run_readiness renv repo actor)"
begin

lemma shared_head: "within R (run_for_shared_head wired_service prs k)"
  unfolding run_for_shared_head_def create_status_def Let_def
  by (intro rules looks looking decided)

lemma failed_post: "within R (record_failed_attempt p cause t vs :: 'a go)"
  unfolding record_failed_attempt_def by (intro rules posted)

lemma publishing:
  assumes "forge_within R env"
  shows "within R (publish env result)"
proof -
  have "within R (deliver env repo token result p)" for repo token p
    unfolding deliver_def
    by (rule client_bind, rule assms)
       (simp, intro rules client_calls posted failed_post assms, simp_all add: rules failed_post)
  then show ?thesis unfolding publish_def Let_def by (intro rules looks [OF get_repository_looks] posted failed_post client_calls assms)
qed

lemma synchronised:
  assumes "forge_within R env"
  shows "within R (sync_repository env repo b)" "within R (sync_open_pull_requests env i b)"
proof -
  have "within R (cache_each env token j branch prs)" for token j branch prs
    by (induction prs) (auto intro!: rules remembered)
  then show "within R (sync_repository env repo b)" for repo
    unfolding sync_repository_def Let_def
    by (rule_tac bind, rule_tac client_calls, rule_tac assms, rule_tac if_op, rule_tac fail, rule_tac client_bind, rule_tac assms)
       (simp, intro rules remembered noted client_calls assms, simp_all add: rules)
  then show "within R (sync_open_pull_requests env i b)"
    unfolding sync_open_pull_requests_def by (intro rules looks [OF get_repository_looks])
qed

subsubsection \<open>Freezes\<close>

lemma closed:
  "within R (close_active_tx i actor FreezeEnded)" "within R (close_active_tx i actor FreezeCancelled)"
  unfolding close_active_tx_def end_freeze_def [symmetric] cancel_freeze_def [symmetric]
  by (intro rules frozen_rows noted queued)+

lemma freeze_service:
  "within R (service_create_active cp actor)" "within R (service_create_scheduled sp actor)"
  "within R (service_end i actor)" "within R (service_cancel i actor)"
  "within R (service_cancel_scheduled i actor)" "within R (service_activate_scheduled i actor)"
  "within R (service_start_scheduled_now i actor)" "within R (service_edit_scheduled ep actor)"
  "within R (service_execute_planned_unfreeze i actor)"
  unfolding service_create_active_def service_create_scheduled_def service_end_def service_cancel_def service_close_def
    service_cancel_scheduled_def service_activate_scheduled_def service_start_scheduled_now_def
    with_scheduled_freeze_audit_def service_edit_scheduled_def service_execute_planned_unfreeze_def Let_def
  by (intro rules frozen_rows noted queued closed freeze_reads)+

lemma closed_linked: "within R (close_linked_active_tx i actor)"
  unfolding close_linked_active_tx_def by (intro rules closed looks [OF application_reads(1)])

subsubsection \<open>Schedules\<close>

lemma kind_op:
  "within R m \<Longrightarrow> within R n \<Longrightarrow> (\<And>x. within R (f x))
     \<Longrightarrow> within R (case k of Weekly \<Rightarrow> m | Dated \<Rightarrow> n | OtherKind x \<Rightarrow> f x)"
  by (cases k) simp_all

lemma schedule_service:
  "within R (schedule_service_create zones cs actor)" "within R (schedule_service_delete i actor)"
  "within R (schedule_service_activate i actor)" "within R (schedule_service_pause i actor)"
  "within R (schedule_service_add_rules rp actor)" "within R (schedule_service_delete_rule i j actor)"
  "within R (schedule_service_add_window zones wp actor)" "within R (schedule_service_delete_window i j actor)"
  unfolding schedule_service_create_def schedule_service_delete_def schedule_service_activate_def
    schedule_service_pause_def schedule_service_add_rules_def schedule_service_delete_rule_def
    schedule_service_add_window_def schedule_service_delete_window_def with_schedule_audit_def
    activate_schedule_def schedule_rules_event_def
  by (intro rules kind_op planned_rows noted closed_linked looks [OF schedule_looks(1)]
      looks [OF application_reads(2)] looks [OF application_reads(3)])+

lemma suppressed: "within R (suppress_each segs closed now actor cs)"
  by (induction cs) (auto intro!: rules planned_rows noted)

lemma ended_by_hand: "within R (end_materialized_freeze tz i actor)"
  unfolding end_materialized_freeze_def Let_def
  by (intro rules closed suppressed looks [OF application_reads(4)] looks [OF expanded_looks])

subsubsection \<open>Convergence\<close>

lemma convergence_calls:
  "within R (cg_enqueue runtime_convergence i)" "within R (cg_claim runtime_convergence i)"
  "within R (cg_current runtime_convergence c)" "within R (cg_complete runtime_convergence c)"
  "within R (cg_fail runtime_convergence c category)"
  by (auto simp: runtime_convergence_def intro!: rules queued convergence_failed looks [OF service_reads(4)])

lemma recompute_calls:
  assumes "recompute_ports R env"
  shows "within R (rx_sync env i b)" "within R (rx_open_by_branch env i b)" "within R (rx_run_shared_head env prs k)"
    "within R (rx_publish env result)" "within R (fail_runtime_convergence (rx_convergence env) c e)"
    "within R (current_runtime_convergence_claim (rx_convergence env) c)"
  using assms converging by (simp_all add: recompute_ports_def)

lemma groups_recomputed:
  assumes "recompute_ports R env"
  shows "within R (recompute_groups env c gs)"
proof (induction gs)
  case (Cons g gs)
  show ?case unfolding recompute_groups.simps by (intro rules recompute_calls assms Cons)
qed (simp add: ret)

lemma converging_freeze:
  assumes "recompute_ports R env"
  shows "within R (converge_freeze env fr)"
proof -
  have claimed: "rx_convergence env = Some runtime_convergence" using assms by (simp add: recompute_ports_def)
  have "within R (recompute_branch env i b c)" for i b c
    unfolding recompute_branch_def load_freeze_repository_def
    by (intro rules recompute_calls groups_recomputed assms looks [OF get_repository_looks])
  then have "within R (converge_under env fr c)" for c
    unfolding converge_under_def mark_recomputed_if_needed_def claimed option.case
    by (intro rules recompute_calls(5) [OF assms, unfolded claimed] frozen_rows convergence_calls)
  then show ?thesis
    unfolding converge_freeze_def claimed option.case by (intro rules convergence_calls)
qed

lemma freeze_recompute:
  assumes "recompute_ports R env"
  shows "within R (recompute_create_active env cp actor)" "within R (recompute_end env i actor)"
    "within R (recompute_end_materialized env i actor)" "within R (recompute_update_attribution env ap)"
    "within R (recompute_cancel env i actor)" "within R (recompute_create_scheduled sp actor)"
    "within R (recompute_activate_scheduled env i actor)" "within R (recompute_start_scheduled_now env i actor)"
    "within R (recompute_execute_planned_unfreeze env i actor)" "within R (retry_recompute env fr)"
proof -
  have by_hand: "within R (case rx_end_materialized env of None \<Rightarrow> m | Some f \<Rightarrow> g f)"
    if "within R m" "\<And>f. (\<And>i actor. within R (f i actor)) \<Longrightarrow> within R (g f)" for m g
    using that assms by (auto simp: recompute_ports_def split: option.split)
  have converged: "within R m \<Longrightarrow> within R (converged env m)" for m
    unfolding converged_def by (intro rules converging_freeze assms)
  note gates = require_enforcement_active_def load_freeze_repository_def require_managed_freeze_branch_def
    gated_by_repository_def retry_recompute_def Let_def
  show "within R (recompute_end env i actor)"
    unfolding recompute_end_def by (rule by_hand; intro rules converged freeze_service looks [OF application_reads(5)])
  show "within R (recompute_create_active env cp actor)"
    "within R (recompute_end_materialized env i actor)" "within R (recompute_update_attribution env ap)"
    "within R (recompute_cancel env i actor)" "within R (recompute_create_scheduled sp actor)"
    "within R (recompute_activate_scheduled env i actor)" "within R (recompute_start_scheduled_now env i actor)"
    "within R (recompute_execute_planned_unfreeze env i actor)" "within R (retry_recompute env fr)"
    unfolding recompute_create_active_def recompute_end_materialized_def recompute_update_attribution_def
      recompute_cancel_def recompute_create_scheduled_def recompute_activate_scheduled_def
      recompute_start_scheduled_now_def recompute_execute_planned_unfreeze_def gates
    by (intro rules converged freeze_service frozen_rows converging_freeze assms
        looks [OF get_repository_looks] looks [OF repository_reads(5)] looks [OF application_reads(5)])+
qed

subsubsection \<open>Runners\<close>

lemma all_joined: "(\<And>x. within R (f x)) \<Longrightarrow> within R (each_joined f xs joined)"
  by (induction xs arbitrary: joined) (auto intro!: rules)

lemma joined_result: "within R (return_joined joined)"
  unfolding return_joined_def by (intro rules)

lemma carried_out:
  assumes "recompute_ports R env"
  shows "within R (carry_out (recompute_surface env) repo branch d)"
proof -
  have refusal: "within R (skip_refusal m)" if "within R m" for m :: "branch_freeze go"
    using that unfolding skip_refusal_def by (intro rules)
  show ?thesis
    unfolding carry_out_def recompute_surface_def
    by (cases "sd_action d") (auto intro!: rules refusal freeze_recompute assms)
qed

lemma materialized:
  assumes "recompute_ports R env"
  shows "within R (run_once tz list_active_coverages (recompute_surface env))"
proof -
  have "within R (reconcile_branch (recompute_surface env) now til key scheds segs)" for now til key scheds segs
    unfolding reconcile_branch_def Let_def recompute_surface_def
    by (intro rules carried_out [unfolded recompute_surface_def] assms; simp add: looks application_reads)
  moreover have "within R (fs_list_active_materialized (recompute_surface env))"
    by (simp add: recompute_surface_def looks application_reads)
  ultimately show ?thesis
    unfolding run_once_def Let_def
    by (intro rules all_joined joined_result looks [OF application_reads(4)] looks [OF expanded_looks])
qed

lemma lifecycle_run:
  assumes "recompute_ports R env" and "within R m"
  shows "within R (run_due_lifecycle (recompute_lifecycle env) (Some m))"
  unfolding run_due_lifecycle_def recompute_lifecycle_def lifecycle_store.simps listed_or_joined_def option.case
  by (intro rules all_joined joined_result freeze_recompute assms looks [OF application_reads(9)]
      looks [OF application_reads(10)] looks [OF application_reads(11)])

subsubsection \<open>Thaws\<close>

lemma thaw_service:
  "within R (service_approve ta actor)" "within R (service_approve_shared_head sa actor)"
proof -
  have "within R (approve_each ps actor)" for ps
    by (induction ps) (auto intro!: rules thawed_rows looks [OF application_reads(12)])
  then show "within R (service_approve ta actor)" "within R (service_approve_shared_head sa actor)"
    unfolding service_approve_def service_approve_shared_head_def Let_def
    by (intro rules thawed_rows noted queued looks [OF application_reads(13)])+
qed

lemma approved:
  assumes "forge_within R (ap_forge env)" and "ap_convergence env = Some runtime_convergence"
    and "\<And>i b. within R (ap_sync env i b)" and "\<And>prs k. within R (ap_run_shared_head env prs k)"
    and "\<And>result. within R (ap_publish env result)"
  shows "within R (approve_thaw_request env params actor)"
proof -
  have safe: "within R (redacting env token lead m)" if "within R m" for token lead and m :: "'z go"
    using that unfolding redacting_def by (intro rules)
  have converge: "within R (converge_approval env token cached prs c)" for token cached prs c
    unfolding converge_approval_def assms(2) option.case Let_def
    by (intro rules converging convergence_calls assms)
  have granted: "within R (grant env p actor repo token cached open_prs frozen_prs)" for p repo token cached open_prs frozen_prs
    unfolding grant_def by (intro rules thaw_service)
  have affected: "within R (approve_affected env p actor repo token cached)" for p repo token cached
    unfolding approve_affected_def Let_def assms(2) option.case
    by (intro rules safe converge granted convergence_calls looks [OF service_reads(7)] looks [OF application_reads(7)])
  have client: "within R (World.bind (redacting env token lead (fe_client_for (ap_forge env) repo token))
      (\<lambda>found. case found of None \<Rightarrow> m | Some k \<Rightarrow> f k))"
    if "within R m" "\<And>k. client_within R k \<Longrightarrow> within R (f k)" for f and m :: "thaw_outcome go" and token lead repo
  proof (rule bind_result [OF safe])
    show "within R (fe_client_for (ap_forge env) repo token)" using assms(1) by (simp add: forge_within_def)
    fix x w w'
    assume "redacting env token lead (fe_client_for (ap_forge env) repo token) w = (Inr x, w')"
    then have "fe_client_for (ap_forge env) repo token w = (Inr x, w')"
      by (auto simp: redacting_def World.bind_def attempt_def ret_def fail_def split: prod.splits sum.splits)
    then have "x = Some k \<Longrightarrow> client_within R k" for k
      using assms(1) unfolding forge_within_def by blast
    then show "within R (case x of None \<Rightarrow> m | Some k \<Rightarrow> f k)" using that by (cases x) auto
  qed
  show ?thesis
    unfolding approve_thaw_request_def Let_def fetch_current_def
    by (intro client rules safe affected remembered client_calls assms looks [OF get_repository_looks])
qed

subsubsection \<open>Webhooks\<close>

lemma webhook_processed:
  assumes "wh_convergence env = Some runtime_convergence"
    and "\<And>prs k. within R (wh_run_shared_head env prs k)" and "\<And>result. within R (wh_publish env result)"
  shows "within R (process_pull_request env body)"
proof -
  have published: "within R (recompute_and_publish env c plans)" for c plans
  proof (induction plans)
    case (Cons p plans)
    obtain prs preferred where p: "p = (prs, preferred)" by (cases p)
    show ?case
      unfolding p recompute_and_publish.simps webhook_claim_current_def assms(1) option.case
      by (intro rules convergence_calls assms Cons)
  qed (simp add: ret)
  have failing: "within R (fail_webhook_convergence env c category cause :: process_result go)" for c category cause
    unfolding fail_webhook_convergence_def assms(1) option.case by (intro rules convergence_calls)
  have "within R (process_claimed env e repo pr c)" for e repo pr c
    unfolding process_claimed_def Let_def assms(1) option.case
    by (intro rules failing published remembered convergence_calls looks [OF application_reads(14)] looks [OF application_reads(15)])
  then show ?thesis
    unfolding process_pull_request_def Let_def assms(1) option.case
    by (intro rules remembered convergence_calls looks [OF repository_reads(8)])
qed

lemma webhook_received:
  assumes "wi_processing env = ports" and "\<And>body. within R (process_pull_request ports body)"
    and "\<And>store c. wi_secrets env = Some store \<Longrightarrow> within R (ss_decrypt store c)"
  shows "within R (handle_forgejo_webhook env r)"
proof -
  have secret: "within R (setup_read_webhook_secret (wi_secrets env) i)" for i
  proof (cases "wi_secrets env")
    case (Some store)
    then show ?thesis
      unfolding setup_read_webhook_secret_def decrypted_def webhook_secret_ciphertext_def Some option.case
      by (intro rules assms(3) [OF Some] looks [OF repository_reads(9)])
  qed (simp add: setup_read_webhook_secret_def fail)
  have claimed: "within R (claim_and_process env i repo action p)" for i repo action p
    unfolding claim_and_process_def process_verified_webhook_def mark_webhook_processed_def Let_def assms(1)
    by (intro rules delivered_rows assms(2))
  have error: "within R (case z of ConfigurationError x \<Rightarrow> m | _ \<Rightarrow> n)" if "within R m" "within R n" for z and m n :: "webhook_response go"
    using that by (cases z) simp_all
  have outcome: "within R (case z of Recorded d \<Rightarrow> m d | AlreadyRecorded d \<Rightarrow> n d)"
    if "\<And>d. within R (m d)" "\<And>d. within R (n d)" for z and m n :: "delivery \<Rightarrow> webhook_response go"
    using that by (cases z) simp_all
  have recorded: "within R (record_verified env r repo body e p)" for repo body e p
    unfolding record_verified_def
    by (intro rules outcome delivered_rows claimed)
  have "within R (verify_and_record env r repo body e p)" for repo body e p
    unfolding verify_and_record_def
    by (intro rules secret recorded error)
  moreover have body: "within R (case z of WebhookBody b \<Rightarrow> m b | WebhookTooLarge \<Rightarrow> n | WebhookUnreadable \<Rightarrow> k)"
    if "\<And>b. within R (m b)" "within R n" "within R k" for z m and n k :: "webhook_response go"
    using that by (cases z) simp_all
  ultimately show ?thesis
    unfolding handle_forgejo_webhook_def by (intro rules body looks [OF repository_reads(8)])
qed

subsubsection \<open>Everything\<close>

lemma wiring:
  assumes "outside_within R ox"
  shows "recompute_ports R (wired_recompute ox)" "ports_within R (application_enforcement ox)"
  using outside_parts [OF assms] synchronised shared_head publishing ended_by_hand inspected
  by (simp_all add: recompute_ports_def wired_recompute_def looks service_reads ports_within_def
      application_enforcement_def wired_enforcement_def)

lemma discarded: "within R m \<Longrightarrow> within R (discard m)"
  unfolding discard_def by (intro rules)

theorem performed:
  assumes "outside_within R ox" and "ox_zones ox = zones" and "\<And>e r. cmd \<noteq> AccountRequest e r"
  shows "within R (perform ox a cmd)"
proof -
  note ox = outside_parts [OF assms(1)] and ports = wiring [OF assms(1)]
  have secret: "within R (setup_webhook_secret parse (ox_secrets ox) i s a)"
    "within R (setup_status_token parse (ox_secrets ox) i s a)" for parse i s
    by (cases "ox_secrets ox"; simp add: keyed ox setup_webhook_secret_def [of _ None] setup_status_token_def [of _ None] fail)+
  have approval: "within R (approve_thaw_request (wired_approval ox) p a)" for p
    by (rule approved) (simp_all add: wired_approval_def ox synchronised shared_head publishing)
  have webhook: "within R (handle_forgejo_webhook (wired_intake ox) r)" for r
    by (rule webhook_received [where ports = "wired_webhooks ox"], simp add: wired_intake_def,
        rule webhook_processed) (simp_all add: wired_webhooks_def wired_intake_def shared_head publishing ox)
  have ticks: "within R (lifecycle_runner ox)" "within R (reconciliation_runner ox)"
    by (auto simp: lifecycle_runner_def schedule_materializer_def reconciliation_runner_def
        intro!: lifecycle_run materialized run_due ports)
  note wired = discarded verify_run activate_run deactivate_run reconcile_runs ports set_up secret inspected ox
    freeze_recompute freeze_recompute(6) [OF ports(1)] freeze_service schedule_service [folded assms(2)] approval webhook ticks
  show ?thesis
  proof (cases cmd)
    case (AccountRequest e r)
    then show ?thesis using assms(3) by blast
  qed (simp_all add: wired)
qed

end

subsection \<open>The changes the application makes\<close>

lemma evolve_units:
  "within (changes tz) (mark_active i v enqueue)" "within (changes tz) (record_verification_success repo head actor)"
  "within (changes tz) (record_verification_failure repo actor)" "within (changes tz) (record_enforcement_failure repo actor f)"
  "within (changes tz) (record_enforcement_success repo actor action extra counts c)"
  "within (changes tz) (record_enforcement_deactivation repo actor counts c)"
  unfolding mark_active_def record_verification_success_def record_verification_failure_def record_enforcement_failure_def
    record_enforcement_success_def record_enforcement_deactivation_def land_in_def requeue_failure_def
  by (intro evolve.rules evolve_statements evolve_repositories(1) evolve_queue evolve_freezes(2) evolve_logs(1)
      evolve.looks [OF get_repository_looks] evolve.looks [OF repository_reads(10)] evolve.looks [OF repository_reads(11)])+

lemma evolve_setup:
  "within (changes tz) (setup_create parse params actor)" "within (changes tz) (setup_add_branch i b actor)"
  "within (changes tz) (setup_remove_branch i b actor)"
  unfolding setup_create_def setup_add_branch_def setup_remove_branch_def invalidate_ready_on_branch_scope_change_def Let_def
  by (intro evolve.rules evolve_statements evolve_repositories evolve_logs(1) evolve.looks [OF repository_reads(2)]
      evolve.looks [OF repository_reads(7)])+

lemma evolve_secrets:
  assumes "\<And>t. within (changes tz) (ss_encrypt store t)"
  shows "within (changes tz) (setup_webhook_secret parse (Some store) i secret actor)"
    "within (changes tz) (setup_status_token parse (Some store) i token actor)"
  unfolding setup_webhook_secret_def setup_status_token_def option.case
  by (intro evolve.rules evolve_statements evolve_repositories evolve_logs(1) evolve.looks [OF repository_reads(1)] assms)+

lemma evolve_readiness:
  assumes "readiness_within (changes tz) env"
  shows "within (changes tz) (run_readiness env repo actor)"
  unfolding run_readiness_def persist_run_def persist_branch_def degrade_on_failure_def load_token_def Let_def
  by (intro evolve.rules evolve.inspect_forge_within evolve_statements evolve_repositories evolve_queue evolve_logs
      assms evolve.looks [OF get_repository_looks] evolve.looks [OF service_reads(2)]
      evolve.looks [OF service_reads(3)] evolve.looks [OF repository_reads(4)] evolve.looks [OF service_reads(1)])
     (use assms in \<open>simp_all add: readiness_within_def forge_within_def\<close>)

interpretation evolving: application_tables "changes tz" tz for tz
  by unfold_locales (assumption | rule evolve_queue evolve_units evolve_logs evolve_cache evolve_freezes
      evolve_schedules evolve_delete_schedule evolve_deliveries evolve_setup evolve_secrets evolve_readiness)+

text \<open>The evidence of enforcement, in the same way: the other stores do not write repositories.\<close>

lemma other_table_keeps:
  assumes "within (same hide) m" and "\<And>d. tb_repositories (hide d) = tb_repositories d"
  shows "within (keeps repositories_ok) m"
  using assms unfolding within_def same_def keeps_def repositories_ok_def by metis

lemma ok_other_stores:
  "within (keeps repositories_ok) (create_result rc)" "within (keeps repositories_ok) (approve_thaw ta actor)"
  "within (keeps repositories_ok) (delete_schedule i)"
  "within (keeps repositories_ok) (publish_forgejo_status result)"
  "within (keeps repositories_ok) (record_forgejo_status_attempt p outcome m)"
  "within (keeps repositories_ok) (upsert_cached_pull pr)" "within (keeps repositories_ok) (mark_absent_open_closed i b is)"
  unfolding create_result_def approve_thaw_def get_thaw_def delete_schedule_def remove_schedule_def Let_def
  by (intro keeps.rules keeps.checked keeps.exec keeps.publications keeps.cache
      keeps.looks [OF service_reads(10)] keeps.looks [OF service_reads(11)]
      keeps.looks [OF application_reads(13)] keeps.looks [OF schedule_looks(1)];
      simp add: keeps_def repositories_ok_def Let_def split_beta)+

lemma ok_secrets:
  assumes "\<And>t. within (keeps repositories_ok) (ss_encrypt store t)"
  shows "within (keeps repositories_ok) (setup_webhook_secret parse (Some store) i secret actor)"
    "within (keeps repositories_ok) (setup_status_token parse (Some store) i token actor)"
  using assms by (auto intro!: ok_webhook_secret ok_status_token)

interpretation evidenced: application_tables "keeps repositories_ok" tz for tz
  by unfold_locales
    (assumption | rule ok_event ok_other_stores ok_setup ok_secrets ok_readiness
      | (rule other_table_keeps, rule freezes_only_operations, simp add: freezes_only_def)
      | (rule other_table_keeps, rule schedules_only, simp add: hide_schedules_def)
      | (rule other_table_keeps, rule deliveries_only, simp))+

subsection \<open>Histories\<close>

text \<open>
  One request or tick: by anyone, at any time, under any faults of the database. The relation does
  not say when the steps happen, so a history is any interleaving of the web server and the runners.
\<close>

definition application_step :: "outside \<Rightarrow> db \<Rightarrow> db \<Rightarrow> bool" where
  "application_step ox d d' \<longleftrightarrow> (\<exists>a cmd w. tables w = d \<and> tables (snd (perform ox a cmd w)) = d')"

lemma untouched_outside:
  assumes "outside_within (same (\<lambda>d. d)) ox"
  shows "outside_within (changes tz) ox" "outside_within (keeps repositories_ok) ox"
  using assms unfolding outside_within_def
  by (blast intro: evolve.untouched evolve.untouched_readiness keeps.untouched keeps.untouched_readiness)+

text \<open>A step is one of the account service or one of the rest, which leaves the accounts alone.\<close>

definition account_move :: "db \<Rightarrow> db \<Rightarrow> bool" where
  "account_move d d' \<longleftrightarrow> keeps_accounts d d' \<and> keeps administered d d'"

definition other_move :: "(string \<Rightarrow> zone option) \<Rightarrow> db \<Rightarrow> db \<Rightarrow> bool" where
  "other_move tz d d' \<longleftrightarrow> changes tz d d' \<and> keeps repositories_ok d d'"

lemma application_step_moves:
  assumes "outside_within (same (\<lambda>d. d)) ox" and "application_step ox d d'"
  shows "account_move d d' \<or> other_move (ox_zones ox) d d'"
proof -
  from assms(2) obtain a cmd w where w: "tables w = d" "tables (snd (perform ox a cmd w)) = d'"
    unfolding application_step_def by blast
  show ?thesis
  proof (cases "\<exists>e r. cmd = AccountRequest e r")
    case True
    then show ?thesis
      using w stepwise.requests request_administered unfolding account_move_def within_def by fastforce
  next
    case False
    note other = untouched_outside [OF assms(1)]
    have "within (changes (ox_zones ox)) (perform ox a cmd)" "within (keeps repositories_ok) (perform ox a cmd)"
      using False evolving.performed [OF other(1) refl] evidenced.performed [OF other(2) refl] by blast+
    with w show ?thesis unfolding other_move_def within_def by blast
  qed
qed

lemma change_keeps_accounts: "change tz d d' \<Longrightarrow> tb_accounts d' = tb_accounts d"
  by (induction rule: change.induct) simp_all

lemma changes_keep_accounts: "changes tz d d' \<Longrightarrow> tb_accounts d' = tb_accounts d"
  by (induction rule: rtranclp_induct) (simp_all add: change_keeps_accounts)

lemma account_move_frame:
  "account_move d d' \<Longrightarrow> \<exists>a es. d' = d \<lparr>tb_accounts := a, tb_audit := tb_audit d @ es\<rparr> \<and> loss_step (tb_accounts d) a"
  unfolding account_move_def keeps_accounts_def by (cases d; cases d') auto

definition tables_ok :: "(string \<Rightarrow> zone option) \<Rightarrow> db \<Rightarrow> bool" where
  "tables_ok tz d \<longleftrightarrow> freezes_ok d \<and> jobs_inv d \<and> pulls_ok d \<and> deliveries_ok d \<and> intents_ok d
     \<and> schedules_ok tz d \<and> repositories_ok d \<and> accounts_ok (tb_accounts d)"

lemmas table_invariants = freezes_ok_def pulls_ok_def deliveries_ok_def intents_ok_def schedules_ok_def
  rules_ok_def windows_ok_def of_kind_def

lemma change_keeps_tables:
  "change tz d d' \<Longrightarrow> freezes_ok d \<and> jobs_inv d \<and> pulls_ok d \<and> deliveries_ok d \<and> intents_ok d \<and> schedules_ok tz d
     \<Longrightarrow> freezes_ok d' \<and> jobs_inv d' \<and> pulls_ok d' \<and> deliveries_ok d' \<and> intents_ok d' \<and> schedules_ok tz d'"
proof (induction rule: change.induct)
  case (intent d p)
  then show ?case by (simp add: table_invariants upsert_intent_ok)
next
  case (freezes d fs)
  then show ?case by (simp add: keeps_def table_invariants)
next
  case (pulls d ps)
  then show ?case by (simp add: keeps_def table_invariants)
next
  case (jobs d js)
  then show ?case by (simp add: keeps_def table_invariants)
next
  case (deliveries d ds)
  then show ?case by (simp add: deliveries_final_def) (simp add: table_invariants)
next
  case (schedules d ss rs ws)
  then show ?case by (simp add: keeps_def) (simp add: table_invariants)
qed (simp_all add: table_invariants)

lemma changes_keep_tables:
  "changes tz d d' \<Longrightarrow> freezes_ok d \<and> jobs_inv d \<and> pulls_ok d \<and> deliveries_ok d \<and> intents_ok d \<and> schedules_ok tz d
     \<Longrightarrow> freezes_ok d' \<and> jobs_inv d' \<and> pulls_ok d' \<and> deliveries_ok d' \<and> intents_ok d' \<and> schedules_ok tz d'"
  by (induction rule: rtranclp_induct) (blast dest: change_keeps_tables)+

lemma application_step_keeps_tables:
  assumes "outside_within (same (\<lambda>d. d)) ox" and "application_step ox d d'" and ok: "tables_ok (ox_zones ox) d"
  shows "tables_ok (ox_zones ox) d'"
  using application_step_moves [OF assms(1,2)]
proof
  assume "account_move d d'"
  then obtain a es where d': "d' = d \<lparr>tb_accounts := a, tb_audit := tb_audit d @ es\<rparr>" and "loss_step (tb_accounts d) a"
    using account_move_frame by blast
  with ok show ?thesis
    by (simp add: loss_step_def tables_ok_def repositories_ok_def) (simp add: table_invariants)
next
  assume "other_move (ox_zones ox) d d'"
  then show ?thesis
    using ok changes_keep_tables [of "ox_zones ox" d d'] changes_keep_accounts [of "ox_zones ox" d d']
    by (simp add: other_move_def tables_ok_def keeps_def)
qed

text \<open>What is never taken back: the logs grow at their end, freezes and deliveries only move on.\<close>

definition record_kept :: "db \<Rightarrow> db \<Rightarrow> bool" where
  "record_kept d d' \<longleftrightarrow> prefix (tb_audit d) (tb_audit d') \<and> prefix (tb_results d) (tb_results d')
     \<and> prefix (tb_attempts d) (tb_attempts d') \<and> prefix (tb_thaws d) (tb_thaws d')
     \<and> prefix (tb_checks d) (tb_checks d') \<and> freezes_evolve d d' \<and> deliveries_final d d'
     \<and> prefix (map us_id (ac_users (tb_accounts d))) (map us_id (ac_users (tb_accounts d')))
     \<and> closed_invitations_stay (tb_accounts d) (tb_accounts d')"

lemma closed_invitations_trans:
  "closed_invitations_stay a b \<Longrightarrow> closed_invitations_stay b c \<Longrightarrow> closed_invitations_stay a c"
  unfolding closed_invitations_stay_def by blast

lemma record_kept_trans: "record_kept a b \<Longrightarrow> record_kept b c \<Longrightarrow> record_kept a c"
  unfolding record_kept_def by (blast intro: prefix_order.trans life.trans final.trans closed_invitations_trans)

lemma closed_invitations_refl [simp]: "closed_invitations_stay a a"
  by (simp add: closed_invitations_stay_def)

lemma freezes_same: "tb_freezes d' = tb_freezes d \<Longrightarrow> freezes_evolve d d'"
  unfolding freezes_evolve_def by (metis freeze_evolves_refl)

lemma change_keeps_record: "change tz d d' \<Longrightarrow> record_kept d d'"
  by (induction rule: change.induct) (simp_all add: record_kept_def freezes_same final_untouched)

lemma changes_keep_record: "changes tz d d' \<Longrightarrow> record_kept d d'"
proof (induction rule: rtranclp_induct)
  case base
  show ?case by (simp add: record_kept_def freezes_same final_untouched)
qed (blast intro: record_kept_trans change_keeps_record)

lemma application_step_keeps_record:
  assumes "outside_within (same (\<lambda>d. d)) ox" and "application_step ox d d'"
  shows "record_kept d d'"
  using application_step_moves [OF assms]
proof
  assume "account_move d d'"
  then obtain a es where d': "d' = d \<lparr>tb_accounts := a, tb_audit := tb_audit d @ es\<rparr>" and "loss_step (tb_accounts d) a"
    using account_move_frame by blast
  then show ?thesis
    by (auto simp: loss_step_def record_kept_def freezes_same final_untouched)
qed (use changes_keep_record in \<open>auto simp: other_move_def\<close>)

text \<open>
  C5: The tables stay well formed whatever the application does. After any history of requests and
  ticks of the runners, in any order and under any faults of the database, given a forge and a
  secret store that leave the tables alone: identifiers are unique, an active freeze has started
  and is the only kind of row its status allows, a repository has at most one queued job, a pull
  request one cached row, a delivery is recorded once and a processed one is not being processed,
  an intent is unique by commit, context and mode, every rule and window fits the kind of its
  schedule, an enforced repository has the evidence of a verified post; and of the accounts,
  sessions, credentials, roles, grants and recovery links belong to users, an open invitation has
  everything it needs and a closed one keeps nothing of whom it named.
\<close>

theorem application_keeps_tables_well_formed:
  assumes "outside_within (same (\<lambda>d. d)) ox" and "(application_step ox)\<^sup>*\<^sup>* d d'"
    and "tables_ok (ox_zones ox) d"
  shows "tables_ok (ox_zones ox) d'"
  using assms(2,3) by (induction rule: rtranclp_induct) (blast intro: application_step_keeps_tables [OF assms(1)])+

text \<open>
  C8: What was recorded is not taken back. However the application goes on, the audit events, the
  verdicts, the attempts to post, the granted thaws and the results of setup checks stay, in their
  order, at the front of their tables; every freeze is still there, its life only moved on and what
  closed it unchanged; no delivery is lost or, once processed, touched again; users keep their
  place and identifier, and an invitation once accepted or cancelled stays as it is.
\<close>

theorem application_never_rewrites_its_record:
  assumes "outside_within (same (\<lambda>d. d)) ox" and "(application_step ox)\<^sup>*\<^sup>* d d'"
  shows "record_kept d d'"
  using assms(2)
proof (induction rule: rtranclp_induct)
  case base
  show ?case by (simp add: record_kept_def freezes_same final_untouched)
qed (blast intro: record_kept_trans application_step_keeps_record [OF assms(1)])

text \<open>
  C9: Somebody stays in charge. Whatever the users, the runners and the forge do, in any order and
  under any faults of the database: if an enabled administrator with a local password exists, one
  exists after every history, so no sequence of demotions, disablings, resets, recoveries, accepted
  invitations or failed transactions locks everybody out.
\<close>

theorem application_keeps_an_administrator:
  assumes "outside_within (same (\<lambda>d. d)) ox" and "(application_step ox)\<^sup>*\<^sup>* d d'"
    and "admin_remains (tb_accounts d)"
  shows "admin_remains (tb_accounts d')"
  using assms(2,3)
proof (induction rule: rtranclp_induct)
  case (step e f)
  from application_step_moves [OF assms(1) step(2)] show ?case
    using step changes_keep_accounts [of "ox_zones ox" e f]
    by (auto simp: account_move_def keeps_def other_move_def)
qed

definition silent_outside :: outside where
  "silent_outside = \<lparr>ox_forge = silent_forge, ox_inspector_for = (\<lambda>_ _. ret None), ox_zones = (\<lambda>_. None),
     ox_secrets = None, ox_parse_url = (\<lambda>_. None), ox_decode = (\<lambda>_. None), ox_sha256 = (\<lambda>s. s),
     ox_digest = (\<lambda>s. s), ox_argon2 = ae_argon2 sample_env\<rparr>"

lemma silent_outside_untouched: "outside_within (same (\<lambda>d. d)) silent_outside"
proof -
  have "forge_within (same (\<lambda>d. d)) silent_forge"
    by (simp add: forge_within_def silent_forge_def same.ret) (simp add: ret_def)
  then show ?thesis
    by (simp add: outside_within_def silent_outside_def wired_readiness_def readiness_within_def same.ret) (simp add: ret_def)
qed

definition new_repository :: repository_create where
  "new_repository = \<lparr>rp_forge = ''forgejo'', rp_base_url = ''https://forge'', rp_owner = ''o'', rp_name = ''n'',
     rp_default_branch = ''main''\<rparr>"

definition operator :: actor where
  "operator = \<lparr>actor_user_id = None, actor_kind = ''user'', actor_role = ''admin''\<rparr>"

definition first_day :: db where
  "first_day = tables (snd (perform silent_outside operator (CreateRepository new_repository) (quiet empty_db 7)))"

lemma first_day_history: "(application_step silent_outside)\<^sup>*\<^sup>* empty_db first_day"
proof (rule r_into_rtranclp)
  have "tables (quiet empty_db 7) = empty_db" by (simp add: quiet_simps)
  then show "application_step silent_outside empty_db first_day"
    unfolding application_step_def first_day_def by blast
qed

lemma empty_tables_ok: "tables_ok tz empty_db"
  by (simp add: tables_ok_def table_invariants repositories_ok_def jobs_ok_def queued_repositories_def empty_db_def
      no_accounts_def accounts_ok_defs unique_by_def)

lemma application_keeps_tables_well_formed_witness:
  "tables_ok (ox_zones silent_outside)
     (tables (snd (perform silent_outside operator (CreateRepository new_repository) (quiet empty_db 7))))"
  using application_keeps_tables_well_formed [OF silent_outside_untouched first_day_history empty_tables_ok]
  unfolding first_day_def .

lemma application_never_rewrites_its_record_witness:
  "record_kept empty_db
     (tables (snd (perform silent_outside operator (CreateRepository new_repository) (quiet empty_db 7))))"
  using application_never_rewrites_its_record [OF silent_outside_untouched first_day_history]
  unfolding first_day_def .

lemma application_keeps_an_administrator_witness:
  "admin_remains (tb_accounts (tables (snd
     (perform silent_outside operator (AccountRequest (ae_random sample_env) (DisableUser 1 1)) (quiet sample_db 7)))))"
proof (rule application_keeps_an_administrator [OF silent_outside_untouched])
  have "tables (quiet sample_db 7) = sample_db" by (simp add: quiet_simps)
  then show "(application_step silent_outside)\<^sup>*\<^sup>* sample_db (tables (snd
     (perform silent_outside operator (AccountRequest (ae_random sample_env) (DisableUser 1 1)) (quiet sample_db 7))))"
    unfolding application_step_def by blast
  show "admin_remains (tb_accounts sample_db)"
    by (simp add: admin_remains_def administrator_def has_admin_row_def credentials_of_def sample_simps)
qed

end
