(* ===== verification/RevocationFacts.thy ===== *)
theory RevocationFacts
  imports AuthorityFacts
begin

text \<open>
  What ends an access: whoever is disabled, has the password reset or changes it loses every session
  and the recovery link, and a recovery link works once.
\<close>

subsection \<open>What an operation leaves in the tables\<close>

lemma on_accounts_value: "on_accounts f w = (Inr x, w') \<Longrightarrow>
    x = fst (f (tb_accounts (tables w))) \<and> tables w' = (tables w) \<lparr>tb_accounts := snd (f (tb_accounts (tables w)))\<rparr>
    \<and> clock w' = clock w \<and> readings w' = readings w"
  by (auto simp: on_accounts_def exec_def sql_def split: if_splits prod.splits)

lemma checked_accounts_value: "checked_accounts ok f w = (Inr x, w') \<Longrightarrow>
    ok (tables w) \<and> x = fst (f (tb_accounts (tables w))) \<and> tables w' = (tables w) \<lparr>tb_accounts := snd (f (tb_accounts (tables w)))\<rparr>
    \<and> clock w' = clock w \<and> readings w' = readings w"
  by (auto simp: checked_accounts_def checked_def sql_def split: if_splits prod.splits)

lemma record_event_accounts: "record_event e w = (Inr x, w') \<Longrightarrow> tb_accounts (tables w') = tb_accounts (tables w)"
  using same.event_appended [of tb_accounts e] unfolding within_def same_def
  by (metis (no_types, lifting) db.ext_inject db.surjective db.update_convs(12) snd_conv)

lemma existing_user_value: "existing_user i w = (Inr u, w') \<Longrightarrow> au_id u = i \<and> tables w' = tables w
    \<and> u \<in> set (users_where (\<lambda>u. us_id u = i) (tb_accounts (tables w)))"
  unfolding existing_user_def user_by_id_def
  by (erule bind_cases, rename_tac r w1, case_tac r)
    (auto simp: fail_def ret_def dest!: lookup_value split: if_splits simp: users_where_def scan_user_record_def)

subsection \<open>Losing the account or the password\<close>

definition signed_out :: "int \<Rightarrow> accounts \<Rightarrow> bool" where
  "signed_out i a \<longleftrightarrow> i \<notin> sn_user_id ` set (ac_sessions a)"

definition unrecoverable :: "int \<Rightarrow> accounts \<Rightarrow> bool" where
  "unrecoverable i a \<longleftrightarrow> i \<notin> pt_user_id ` set (ac_recoveries a)"

definition revoked :: "int \<Rightarrow> accounts \<Rightarrow> bool" where
  "revoked i a \<longleftrightarrow> signed_out i a \<and> unrecoverable i a"

text \<open>What removing more sessions, or changing company sign-in, cannot undo.\<close>

definition shrinking :: "(accounts \<Rightarrow> bool) \<Rightarrow> bool" where
  "shrinking P \<longleftrightarrow> (\<forall>a p c i ls ms. P a \<longrightarrow> P (delete_sessions_where p a) \<and> P (a \<lparr>ac_oidc_connection := c\<rparr>)
     \<and> P (a \<lparr>ac_oidc_identity := i\<rparr>) \<and> P (a \<lparr>ac_oidc_links := ls\<rparr>) \<and> P (a \<lparr>ac_oidc_logins := ms\<rparr>))"

lemma shrinkingD:
  "shrinking P \<Longrightarrow> P a \<Longrightarrow> P (delete_sessions_where p a)" "shrinking P \<Longrightarrow> P a \<Longrightarrow> P (a \<lparr>ac_oidc_connection := c\<rparr>)"
  "shrinking P \<Longrightarrow> P a \<Longrightarrow> P (a \<lparr>ac_oidc_identity := i\<rparr>)" "shrinking P \<Longrightarrow> P a \<Longrightarrow> P (a \<lparr>ac_oidc_links := ls\<rparr>)"
  "shrinking P \<Longrightarrow> P a \<Longrightarrow> P (a \<lparr>ac_oidc_logins := ms\<rparr>)"
  unfolding shrinking_def by blast+

lemma shrinking_company:
  assumes "shrinking P"
  shows "within (keeps (\<lambda>d. P (tb_accounts d))) (secure_company_oidc_on_authority_loss actor j)"
    "within (keeps (\<lambda>d. P (tb_accounts d))) (remove_company_oidc_identity_for_recovery j)"
    "within (keeps (\<lambda>d. P (tb_accounts d))) (record_event e)"
    "within (keeps (\<lambda>d. P (tb_accounts d))) (delete_user_sessions j)"
proof -
  have exec: "within (keeps (\<lambda>d. P (tb_accounts d))) (on_accounts f)" if "\<And>a. P a \<Longrightarrow> P (snd (f a))"
    for f :: "accounts \<Rightarrow> 'c \<times> accounts"
    using that unfolding on_accounts_def by (intro keeps.exec) (simp add: keeps_def split_beta)
  show event: "within (keeps (\<lambda>d. P (tb_accounts d))) (record_event e)" for e
    by (rule keeps.event_appended) (simp add: keeps_def)
  have shut: "within (keeps (\<lambda>d. P (tb_accounts d))) shut_company_oidc"
    unfolding shut_company_oidc_def by (intro keeps.rules exec) (simp_all add: shrinkingD [OF assms])
  have connection: "within (keeps (\<lambda>d. P (tb_accounts d))) oidc_connection"
    unfolding oidc_connection_def by (intro keeps.rules)
  show "within (keeps (\<lambda>d. P (tb_accounts d))) (secure_company_oidc_on_authority_loss actor j)"
    unfolding secure_company_oidc_on_authority_loss_def by (intro keeps.rules shut event connection)
  show "within (keeps (\<lambda>d. P (tb_accounts d))) (remove_company_oidc_identity_for_recovery j)"
    unfolding remove_company_oidc_identity_for_recovery_def
    by (intro keeps.rules exec shut event connection) (simp add: shrinkingD [OF assms])
  show "within (keeps (\<lambda>d. P (tb_accounts d))) (delete_user_sessions j)"
    unfolding delete_user_sessions_def by (intro exec) (simp add: shrinkingD [OF assms])
qed

lemma shrinking_states: "shrinking (signed_out i)" "shrinking (revoked i)" "shrinking (\<lambda>a. \<not> enabled_in a j)"
  "shrinking (\<lambda>a. ac_recoveries a = ts)" "shrinking (\<lambda>a. ac_credentials a = cs)"
  by (auto simp: shrinking_def signed_out_def revoked_def unrecoverable_def enabled_in_def delete_sessions_where_def)

lemma shrinking_conj: "shrinking P \<Longrightarrow> shrinking Q \<Longrightarrow> shrinking (\<lambda>a. P a \<and> Q a)"
  by (simp add: shrinking_def)

lemma kept_after: "within (keeps I) m \<Longrightarrow> m w = (r, w') \<Longrightarrow> I (tables w) \<Longrightarrow> I (tables w')"
  unfolding within_def keeps_def by (metis snd_conv)

lemma all_or_nothing_parts:
  "all_or_nothing (ret x)" "all_or_nothing (fail e)" "all_or_nothing (pure_step r)"
  "(v = None \<Longrightarrow> all_or_nothing m) \<Longrightarrow> all_or_nothing (when_invalid v m)"
  "all_or_nothing m \<Longrightarrow> all_or_nothing n \<Longrightarrow> all_or_nothing (if c then m else n)"
  "(\<And>y. all_or_nothing (f y)) \<Longrightarrow> all_or_nothing (bind (pure_step r) f)"
  by (cases v; cases r; auto simp: all_or_nothing_def ret_def fail_def pure_step_def when_invalid_def bind_def)+


lemma yields_true: "yields P m (\<lambda>_ _. True)"
  by (simp add: yields_def)

lemma yields_fact: "(c \<Longrightarrow> yields (\<lambda>_. True) m Q) \<Longrightarrow> yields (\<lambda>_. c) m Q"
  by (auto simp: yields_def)

lemma yields_branch: "(c \<Longrightarrow> yields P m Q) \<Longrightarrow> (\<not> c \<Longrightarrow> yields P n Q) \<Longrightarrow> yields P (if c then m else n) Q"
  by simp

lemma yields_skip: "(\<And>x. yields (\<lambda>_. True) (f x) Q) \<Longrightarrow> yields P (bind m f) Q"
  by (rule yields_bind [OF _ yields_true])

lemma yields_and_keep: "yields P m (\<lambda>_. I) \<Longrightarrow> (\<And>x. within (keeps I) (f x)) \<Longrightarrow> yields P (bind m f) (\<lambda>_. I)"
  by (rule yields_bind [OF yields_keeps])

lemma yields_existing_user: "(\<And>u. au_id u = i \<Longrightarrow> yields (\<lambda>_. True) (f u) Q) \<Longrightarrow> yields P (bind (existing_user i) f) Q"
  by (rule yields_bind [where R = "\<lambda>u _. au_id u = i"], rule yields_fact) (auto simp: yields_def dest: existing_user_value)

lemma yields_sign_out: "yields P (delete_user_sessions i) (\<lambda>_ d. signed_out i (tb_accounts d))"
  unfolding delete_user_sessions_def on_accounts_def
  by (rule yields_weaken, rule yields_exec) (auto simp: signed_out_def delete_sessions_where_def)

lemma yields_unrecoverable:
  "yields (\<lambda>d. signed_out i (tb_accounts d)) (delete_user_password_recovery_token i) (\<lambda>_ d. revoked i (tb_accounts d))"
  unfolding delete_user_password_recovery_token_def on_accounts_def
  by (rule yields_weaken, rule yields_exec) (auto simp: signed_out_def revoked_def unrecoverable_def)

lemma yields_revoked:
  assumes "\<And>x. yields (\<lambda>d. revoked i (tb_accounts d)) (f x) Q"
  shows "yields P (bind (delete_user_sessions i) (\<lambda>_. bind (delete_user_password_recovery_token i) f)) Q"
  by (rule yields_bind [OF _ yields_sign_out], rule yields_bind [OF _ yields_unrecoverable], rule assms)

lemma disable_user_revokes:
  "yields (\<lambda>_. True) (disable_user actor i) (\<lambda>_ d. revoked i (tb_accounts d))"
  unfolding disable_user_def
  by (rule yields_transact, rule yields_skip, rule yields_existing_user, rule yields_branch, rule yields_fail,
      rule yields_skip, rule yields_skip, rule yields_skip, rule yields_skip)
    (simp only:, intro yields_revoked yields_keeps keeps.rules shrinking_company shrinking_states)

lemma reset_password_revokes:
  "yields (\<lambda>_. True) (reset_password env actor i temporary) (\<lambda>_ d. revoked i (tb_accounts d))"
  unfolding reset_password_def
  by (rule yields_branch, rule yields_fail, rule yields_when_invalid, rule yields_skip, rule yields_transact,
      rule yields_skip, rule yields_existing_user, rule yields_branch, rule yields_fail, rule yields_skip,
      rule yields_skip, rule yields_skip)
    (simp only:, intro yields_revoked yields_keeps keeps.rules shrinking_company shrinking_states)

text \<open>After a password change the one session left is the one it returns.\<close>

definition only_session :: "int \<Rightarrow> string \<Rightarrow> accounts \<Rightarrow> bool" where
  "only_session i sid a \<longleftrightarrow> map sn_id (filter (\<lambda>r. sn_user_id r = i) (ac_sessions a)) = [sid] \<and> unrecoverable i a"

lemma insert_session_rows_only:
  "yields (\<lambda>d. revoked i (tb_accounts d)) (insert_session_rows matching \<lparr>sn_id = sid, sn_user_id = i,
      sn_csrf_token = csrf, sn_expires_at = t, sn_created_at = now\<rparr>)
    (\<lambda>n d. if n = 0 then True else only_session i sid (tb_accounts d))"
  unfolding insert_session_rows_def checked_accounts_def Let_def only_session_def
  by (rule yields_weaken, rule yields_checked)
    (auto simp: revoked_def signed_out_def unrecoverable_def filter_empty_conv image_iff)

lemma insert_session_only:
  "yields (\<lambda>d. revoked (au_id u) (tb_accounts d)) (insert_session u hash sid csrf)
     (\<lambda>s d. only_session (au_id u) (as_id s) (tb_accounts d))"
  (is "yields ?P _ _")
proof -
  have kept: "yields ?P m (\<lambda>_. ?P)" if "observes m" for m :: "'z go"
    using that unfolding yields_def observes_def by (metis snd_conv)
  have ending: "yields (\<lambda>d. if n = 0 then True else only_session (au_id u) sid (tb_accounts d))
      (if n = 0 then fail AuthenticationError else if n \<noteq> 1 then fail (Plain ''create session affected rows'')
       else ret \<lparr>as_id = sid, as_csrf_token = csrf, as_user = u, as_grants = g, as_company_oidc = False,
         as_expires_at = t, as_created_at = now\<rparr>) (\<lambda>s d. only_session (au_id u) (as_id s) (tb_accounts d))" for n :: int and g t now
    by (auto simp: yields_def ret_def fail_def split: if_splits)
  show ?thesis
    unfolding insert_session_def Let_def
    by (rule yields_bind, rule yields_bind, rule yields_bind, rule ending, rule insert_session_rows_only)
      (rule kept, intro looking read_only)+
qed

lemma change_password_leaves_one_session:
  "yields (\<lambda>_. True) (change_password env i current new) (\<lambda>s d. only_session i (as_id s) (tb_accounts d))"
proof -
  let ?Q = "\<lambda>s d. only_session i (as_id s) (tb_accounts d)"
  have session: "yields (\<lambda>d. revoked i (tb_accounts d)) (insert_session u hash sid csrf) ?Q" if "au_id u = i" for u hash sid csrf
    using insert_session_only [of u hash sid csrf] by (simp add: that)
  have noted: "yields (?Q s) (bind (record_event e) (\<lambda>_. ret s)) ?Q" for s e
    by (rule yields_bind [where R = "\<lambda>_. ?Q s"], rule yields_ret, rule yields_keeps, rule keeps.event_appended) (simp add: keeps_def)
  have commit: "yields (\<lambda>_. True) (commit_password_change u hash sid csrf) ?Q" if "au_id u = i" for u hash sid csrf
    unfolding commit_password_change_def that
    by (rule yields_transact, rule yields_skip, rule yields_skip, rule yields_branch, rule yields_fail, rule yields_branch,
        rule yields_fail, rule yields_skip, rule yields_revoked, rule yields_bind, rule noted, rule session)
      (simp add: that user.defs)
  show ?thesis
    unfolding change_password_def
    by (rule yields_when_invalid, rule yields_existing_user, rule yields_branch, rule yields_fail, rule yields_branch,
        rule yields_fail, rule yields_branch, rule yields_fail, rule yields_skip, rule yields_skip)
      (simp only: split_beta, rule commit)
qed

text \<open>
  C11: Losing the account or the password ends every access it gave: once a user is disabled or an
  administrator has reset the password, no session and no recovery link of that user is left, and
  after the user changed the password exactly the session that change returned is left.
\<close>

theorem losing_access_ends_sessions:
  "yields (\<lambda>_. True) (disable_user actor i) (\<lambda>_ d. revoked i (tb_accounts d))
   \<and> yields (\<lambda>_. True) (reset_password env actor i temporary) (\<lambda>_ d. revoked i (tb_accounts d))
   \<and> yields (\<lambda>_. True) (change_password env i current new) (\<lambda>s d. only_session i (as_id s) (tb_accounts d))"
  using disable_user_revokes reset_password_revokes change_password_leaves_one_session by blast

subsection \<open>Recovery links\<close>

definition recovered :: "int \<Rightarrow> string \<Rightarrow> string \<Rightarrow> accounts \<Rightarrow> bool" where
  "recovered i digest hash a \<longleftrightarrow> revoked i a \<and> digest \<notin> pt_token_digest ` set (ac_recoveries a)
     \<and> credentials_of a i \<noteq> []
     \<and> (\<forall>c \<in> set (credentials_of a i). lc_password_hash c = hash \<and> \<not> lc_must_change_password c)"

lemma shrinking_recovered: "shrinking (recovered i digest hash)"
  by (auto simp: shrinking_def recovered_def revoked_def signed_out_def unrecoverable_def credentials_of_def delete_sessions_where_def)

definition taken :: "int \<Rightarrow> string \<Rightarrow> accounts \<Rightarrow> bool" where
  "taken i digest a \<longleftrightarrow> unrecoverable i a \<and> digest \<notin> pt_token_digest ` set (ac_recoveries a)"

definition rekeyed :: "int \<Rightarrow> string \<Rightarrow> string \<Rightarrow> accounts \<Rightarrow> bool" where
  "rekeyed i digest hash a \<longleftrightarrow> taken i digest a \<and> credentials_of a i \<noteq> []
     \<and> (\<forall>c \<in> set (credentials_of a i). lc_password_hash c = hash \<and> \<not> lc_must_change_password c)"

lemma claimed_is_taken:
  assumes ok: "recoveries_ok a" and one: "delete_where (\<lambda>t. claimable_recovery a i digest t \<and> pt_expires_at t > now) (ac_recoveries a) = (1, ts)"
  shows "taken i digest (a \<lparr>ac_recoveries := ts\<rparr>)"
proof -
  let ?p = "\<lambda>t. claimable_recovery a i digest t \<and> pt_expires_at t > now"
  from one have ts: "ts = filter (\<lambda>t. \<not> ?p t) (ac_recoveries a)" and "filter ?p (ac_recoveries a) \<noteq> []"
    by (auto simp: delete_where_def)
  then obtain t where t: "t \<in> set (ac_recoveries a)" "?p t" by (auto simp: filter_empty_conv)
  have "x = t" if "x \<in> set (ac_recoveries a)" "pt_user_id x = i \<or> pt_token_digest x = digest" for x
    using that t ok unfolding recoveries_ok_def claimable_recovery_def distinct_map inj_on_def by metis
  with t(2) show ?thesis by (auto simp: taken_def unrecoverable_def ts)
qed

lemma commit_password_recovery_recovers:
  "yields (\<lambda>d. recoveries_ok (tb_accounts d)) (commit_password_recovery i digest hash)
     (\<lambda>_ d. recovered i digest hash (tb_accounts d))"
proof -
  have claim: "yields (\<lambda>d. recoveries_ok (tb_accounts d))
      (on_accounts (\<lambda>a. case delete_where (\<lambda>t. claimable_recovery a i digest t \<and> pt_expires_at t > now)
         (ac_recoveries a) of (n, ts) \<Rightarrow> (n, a \<lparr>ac_recoveries := ts\<rparr>)))
      (\<lambda>n d. n = 1 \<longrightarrow> taken i digest (tb_accounts d))" for now
    unfolding on_accounts_def
    by (rule yields_weaken, rule yields_exec) (auto split: prod.splits intro: claimed_is_taken)
  have rekey: "yields (\<lambda>d. taken i digest (tb_accounts d))
      (update_credentials (\<lambda>a c. lc_user_id c = i \<and> enabled_in a (lc_user_id c))
       (\<lambda>c. c \<lparr>lc_password_hash := hash, lc_must_change_password := False, lc_updated_at := now\<rparr>))
      (\<lambda>n d. n \<noteq> 0 \<longrightarrow> rekeyed i digest hash (tb_accounts d))" for now
    unfolding update_credentials_def on_accounts_def
    by (rule yields_weaken, rule yields_exec)
      (auto simp: rekeyed_def taken_def unrecoverable_def credentials_of_def update_where_def filter_empty_conv split: prod.splits if_splits intro: bexI [OF _ UnI1 [OF imageI]])
  have touch: "yields (\<lambda>d. rekeyed i digest hash (tb_accounts d)) (touch_user i now)
      (\<lambda>_ d. rekeyed i digest hash (tb_accounts d))" for now
    unfolding touch_user_def on_accounts_def
    by (rule yields_weaken, rule yields_exec)
      (auto simp: rekeyed_def taken_def unrecoverable_def credentials_of_def split: prod.splits)
  have out: "yields (\<lambda>d. rekeyed i digest hash (tb_accounts d)) (delete_user_sessions i)
      (\<lambda>_ d. recovered i digest hash (tb_accounts d))"
    unfolding delete_user_sessions_def on_accounts_def
    by (rule yields_weaken, rule yields_exec)
      (auto simp: rekeyed_def taken_def recovered_def revoked_def signed_out_def unrecoverable_def credentials_of_def delete_sessions_where_def)
  have tail: "yields (\<lambda>d. recoveries_ok (tb_accounts d)) (bind (on_accounts (\<lambda>a. case delete_where
        (\<lambda>t. claimable_recovery a i digest t \<and> pt_expires_at t > now) (ac_recoveries a) of
          (n, ts) \<Rightarrow> (n, a \<lparr>ac_recoveries := ts\<rparr>))) (\<lambda>claimed.
     if claimed = 0 then fail InvalidRecoveryToken
     else if claimed \<noteq> 1 then fail (Plain ''claim password recovery token affected rows'')
     else bind (update_credentials (\<lambda>a c. lc_user_id c = i \<and> enabled_in a (lc_user_id c))
       (\<lambda>c. c \<lparr>lc_password_hash := hash, lc_must_change_password := False, lc_updated_at := now\<rparr>)) (\<lambda>updated.
     if updated = 0 then fail InvalidRecoveryToken
     else if updated \<noteq> 1 then fail (Plain ''update recovered password affected rows'')
     else bind (touch_user i now) (\<lambda>_.
     bind (delete_user_sessions i) (\<lambda>_.
     bind (remove_company_oidc_identity_for_recovery i) (\<lambda>_.
     record_event e))))))
     (\<lambda>_ d. recovered i digest hash (tb_accounts d))" for now e
      apply (rule yields_bind [OF _ claim], rule yields_branch, rule yields_fail, rule yields_branch, rule yields_fail,
        simp only: not_not simp_thms True_implies_equals)
      apply (rule yields_bind [OF _ rekey], rule yields_branch, rule yields_fail, rule yields_branch, rule yields_fail,
        simp only: not_not simp_thms True_implies_equals not_False_eq_True)
      apply (rule yields_bind [OF _ touch], rule yields_bind [OF _ out])
      apply (intro yields_keeps keeps.rules shrinking_company shrinking_recovered)
      done
  show ?thesis
    unfolding commit_password_recovery_def
    by (rule yields_transact, rule yields_bind [where R = "\<lambda>_ d. recoveries_ok (tb_accounts d)"],
        rule yields_branch, rule yields_fail, rule yields_branch, rule yields_fail,
        rule yields_bind [where R = "\<lambda>_ d. recoveries_ok (tb_accounts d)"], rule tail)
      (auto simp: yields_def query_def sql_def now_utc_def split: if_splits)
qed
lemma spent_link_fails:
  "yields (\<lambda>d. ae_sha256 env token \<notin> pt_token_digest ` set (ac_recoveries (tb_accounts d)))
     (complete_password_recovery env token new) (\<lambda>_ _. False)" (is "yields ?P _ _")
proof (cases "password_recovery_token_digest env token")
  case (Some digest)
  then have digest: "digest = ae_sha256 env token"
    by (auto simp: password_recovery_token_digest_def split: if_splits)
  have "yields ?P (preflight_password_recovery digest now) (\<lambda>_ _. False)" for now
    unfolding preflight_password_recovery_def
  proof (rule yields_bind)
    show "yields (\<lambda>_. case r of Inl e \<Rightarrow> True | Inr i \<Rightarrow> False) (case r of Inl e \<Rightarrow> if e = NoRows then fail InvalidRecoveryToken else fail e | Inr i \<Rightarrow> ret i) (\<lambda>_ _. False)" for r
      by (cases r) (auto simp: yields_def fail_def split: if_splits)
    show "yields ?P (attempt (query_row (\<lambda>d. let a = tb_accounts d in map pt_user_id (filter
       (\<lambda>t. pt_token_digest t = digest \<and> pt_expires_at t > now \<and> enabled_in a (pt_user_id t)
          \<and> credentials_of a (pt_user_id t) \<noteq> []) (ac_recoveries a))))) (\<lambda>r _. case r of Inl e \<Rightarrow> True | Inr i \<Rightarrow> False)"
      by (rule yields_weaken [OF yields_lookup]) (auto simp: digest Let_def intro: rev_image_eqI)
  qed
  then have "yields ?P (bind (preflight_password_recovery digest now) f) (\<lambda>_ _. False)" for now and f :: "int \<Rightarrow> unit go"
    by (rule yields_bind [rotated]) (simp add: yields_def)
  then have "yields ?P (bind now_utc (\<lambda>now. bind (preflight_password_recovery digest now) (f now))) (\<lambda>_ _. False)" for f :: "instant \<Rightarrow> int \<Rightarrow> unit go"
    by (rule yields_bind) (auto simp: yields_def now_utc_def)
  then show ?thesis by (simp add: complete_password_recovery_def Some)
qed (simp add: complete_password_recovery_def yields_fail)

text \<open>
  C12: A recovery link works once and only before it expires: a recovery that succeeds was for an
  enabled user whose stored link carries the digest of the token and was still valid; afterwards
  that user has the new password and need not change it, has no session and no link, and from the
  tables this leaves nobody recovers anything with the same token.
\<close>

theorem recovery_link_works_once:
  assumes run: "complete_password_recovery env token new w = (Inr (), w')" and ok: "recoveries_ok (tb_accounts (tables w))"
  shows "(\<exists>t hash. t \<in> set (ac_recoveries (tb_accounts (tables w))) \<and> pt_token_digest t = ae_sha256 env token
      \<and> clock w (readings w) < pt_expires_at t \<and> enabled_in (tb_accounts (tables w)) (pt_user_id t)
      \<and> hash_password (ae_argon2 env) (ae_random env) 0 new = Inr hash
      \<and> recovered (pt_user_id t) (ae_sha256 env token) hash (tb_accounts (tables w')))
    \<and> yields (\<lambda>d. d = tables w') (complete_password_recovery env token again) (\<lambda>_ _. False)"
proof -
  from run obtain digest where digest: "password_recovery_token_digest env token = Some digest"
    by (cases "password_recovery_token_digest env token") (auto simp: complete_password_recovery_def fail_def)
  then have d: "digest = ae_sha256 env token" by (auto simp: password_recovery_token_digest_def split: if_splits)
  from run [unfolded complete_password_recovery_def digest option.case] obtain now w1 where
    1: "now_utc w = (Inr now, w1)" and
    rest: "bind (preflight_password_recovery digest now) (\<lambda>i. when_invalid (validate_password new) (
       bind (pure_step (hash_password (ae_argon2 env) (ae_random env) 0 new)) (\<lambda>hash.
       commit_password_recovery i digest hash))) w1 = (Inr (), w')"
    by (rule bind_cases) (blast intro: that)
  from now_value [OF 1] have now: "now = clock w (readings w)" "tables w1 = tables w" by auto
  from rest obtain i w2 where 2: "preflight_password_recovery digest now w1 = (Inr i, w2)" and
    rest2: "when_invalid (validate_password new) (bind (pure_step (hash_password (ae_argon2 env) (ae_random env) 0 new))
       (\<lambda>hash. commit_password_recovery i digest hash)) w2 = (Inr (), w')"
    by (rule bind_cases) (blast intro: that)
  from 2 [unfolded preflight_password_recovery_def] obtain r w3 where
    3: "attempt (query_row (\<lambda>d. let a = tb_accounts d in map pt_user_id (filter
       (\<lambda>t. pt_token_digest t = digest \<and> pt_expires_at t > now \<and> enabled_in a (pt_user_id t)
          \<and> credentials_of a (pt_user_id t) \<noteq> []) (ac_recoveries a)))) w1 = (Inr r, w3)" and
    4: "(case r of Inl e \<Rightarrow> if e = NoRows then fail InvalidRecoveryToken else fail e | Inr i \<Rightarrow> ret i) w3 = (Inr i, w2)"
    by (rule bind_cases) (blast intro: that)
  from 4 have r: "r = Inr i" "w2 = w3" by (cases r; auto simp: fail_def ret_def split: if_splits)+
  from lookup_value [OF 3 [unfolded r]] now obtain t where t: "t \<in> set (ac_recoveries (tb_accounts (tables w)))"
    "pt_token_digest t = digest" "clock w (readings w) < pt_expires_at t" "enabled_in (tb_accounts (tables w)) (pt_user_id t)"
    "i = pt_user_id t" and t2: "tables w2 = tables w" using r by (auto simp: Let_def)
  from rest2 obtain hash where hash: "hash_password (ae_argon2 env) (ae_random env) 0 new = Inr hash"
    and 5: "commit_password_recovery i digest hash w2 = (Inr (), w')"
    by (cases "validate_password new"; cases "hash_password (ae_argon2 env) (ae_random env) 0 new")
      (auto simp: when_invalid_def pure_step_def bind_def fail_def ret_def)
  have after_commit: "recovered i digest hash (tb_accounts (tables w'))"
    using yieldsD [OF commit_password_recovery_recovers 5] ok t2 by simp
  then have "yields (\<lambda>d. d = tables w') (complete_password_recovery env token again) (\<lambda>_ _. False)"
    by (intro yields_weaken [OF spent_link_fails]) (simp add: recovered_def d)
  with t hash after_commit d show ?thesis
    by (intro conjI exI [of _ t] exI [of _ hash]) simp_all
qed

lemma recovery_link_works_once_witness:
  "\<exists>w' hash. complete_password_recovery sample_env sample_token (replicate 12 (CHR ''p'')) (quiet sample_db 5) = (Inr (), w')
    \<and> recovered 1 ''digest'' hash (tb_accounts (tables w'))"
proof -
  obtain h where h: "hash_password (ae_argon2 sample_env) (ae_random sample_env) 0 (replicate 12 (CHR ''p'')) = Inr h"
    using sample_hash_named by blast
  have "\<exists>w'. complete_password_recovery sample_env sample_token (replicate 12 (CHR ''p'')) (quiet sample_db 5) = (Inr (), w')"
    by (simp add: complete_password_recovery_def password_recovery_token_digest_def sample_canonical
      preflight_password_recovery_def commit_password_recovery_def validate_password_def when_invalid_def h pure_step_def
      claimable_recovery_def enabled_in_def credentials_of_def update_credentials_def update_where_def delete_where_def
      touch_user_def delete_user_sessions_def delete_sessions_where_def remove_company_oidc_identity_for_recovery_def
      on_accounts_def record_event_def normalize_event_def validate_event_def subject_type_user_def text_field_def format_one sample_simps sample_digest first_row_def references_def run_simps Let_def)
  then obtain w' where run: "complete_password_recovery sample_env sample_token (replicate 12 (CHR ''p'')) (quiet sample_db 5) = (Inr (), w')"
    by blast
  have "recoveries_ok (tb_accounts (tables (quiet sample_db 5)))"
    by (simp add: recoveries_ok_def sample_simps run_simps)
  from recovery_link_works_once [OF run this] run show ?thesis
    by (auto simp: run_simps sample_simps)
qed
end
