(* ===== verification/InvitationFacts.thy ===== *)
theory InvitationFacts
  imports RevocationFacts
begin

text \<open>
  What an accepted invitation does to the accounts, exactly: the user it announced with the role and
  the grants that were staged, and nothing else; the link is spent.
\<close>

subsection \<open>The accounts after an acceptance\<close>

definition joined_user :: "string \<Rightarrow> string \<Rightarrow> user \<Rightarrow> user_row" where
  "joined_user email display_name u = \<lparr>us_id = au_id u, us_email = email, us_display_name = display_name,
     us_disabled_at = None, us_created_at = au_created_at u, us_updated_at = au_created_at u\<rparr>"

definition joined_accounts :: "accounts \<Rightarrow> string \<Rightarrow> string \<Rightarrow> string \<Rightarrow> bool \<Rightarrow> user \<Rightarrow> accounts" where
  "joined_accounts a email display_name hash is_admin u = a \<lparr>
     ac_users := ac_users a @ [joined_user email display_name u],
     ac_credentials := ac_credentials a @ [\<lparr>lc_user_id = au_id u, lc_password_hash = hash,
       lc_must_change_password = False, lc_created_at = au_created_at u, lc_updated_at = au_created_at u\<rparr>],
     ac_roles := ac_roles a @ (if is_admin
       then [\<lparr>ur_user_id = au_id u, ur_role = role_admin, ur_created_at = au_created_at u\<rparr>] else [])\<rparr>"

definition staged_grant :: "int \<Rightarrow> int \<Rightarrow> instant \<Rightarrow> invitation_repository_grant \<Rightarrow> grant_row" where
  "staged_grant i authorizer now g = \<lparr>rg_repository_id = ig_repository_id g, rg_user_id = i, rg_role = ig_role g,
     rg_granted_by_user_id = Some authorizer, rg_granted_at = now\<rparr>"

definition accepted_accounts ::
    "accounts \<Rightarrow> acceptance_invitation \<Rightarrow> string \<Rightarrow> string \<Rightarrow> user \<Rightarrow> int \<Rightarrow> instant \<Rightarrow> accounts" where
  "accepted_accounts a v digest hash u authorizer now =
     (joined_accounts a (ai_canonical_email v) (ai_display_name v) hash (ai_is_admin v) u) \<lparr>
       ac_grants := ac_grants a @ map (staged_grant (au_id u) authorizer now) (staged_of a (ai_id v)),
       ac_invitations := map (\<lambda>x. if vt_id x = ai_id v \<and> bearer_matches digest x
         then redacted invitation_status_accepted now x else x) (ac_invitations a),
       ac_invitation_grants := filter (\<lambda>g. vg_invitation_id g \<noteq> ai_id v) (ac_invitation_grants a)\<rparr>"

text \<open>Who may still let somebody in.\<close>

definition may_admit :: "accounts \<Rightarrow> acceptance_invitation \<Rightarrow> int \<Rightarrow> instant \<Rightarrow> bool" where
  "may_admit a v authorizer now \<longleftrightarrow> ai_authorized_by v = Some authorizer \<and> enabled_in a authorizer
     \<and> has_admin_row a authorizer \<and> now < ai_expires_at v
     \<and> ai_canonical_email v \<notin> us_email ` set (ac_users a)
     \<and> int (length (staged_of a (ai_id v))) = ai_expected_grant_count v"

subsection \<open>Step by step\<close>

lemma yields_stay: "observes m \<Longrightarrow> yields (\<lambda>d. tb_accounts d = a) m (\<lambda>_ d. tb_accounts d = a)"
  unfolding yields_def observes_def by (metis snd_conv)

lemma yields_accounts: "(\<And>a. P (snd (f a)) = P' a) \<Longrightarrow> yields (\<lambda>d. P' (tb_accounts d)) (on_accounts f) (\<lambda>_ d. P (tb_accounts d))"
  unfolding on_accounts_def by (rule yields_weaken, rule yields_exec) (auto split: prod.splits simp: split_beta)

lemma yields_given: "(c \<Longrightarrow> yields P m Q) \<Longrightarrow> yields (\<lambda>d. P d \<and> c) m Q"
  by (auto simp: yields_def)

lemma yields_asked: "yields (\<lambda>d. tb_accounts d = a) (query (\<lambda>d. f (tb_accounts d))) (\<lambda>x d. tb_accounts d = a \<and> x = f a)"
  by (rule yields_weaken, rule yields_query) auto

lemma insert_user_joins:
  "yields (\<lambda>d. tb_accounts d = a) (insert_user email name hash False adm)
     (\<lambda>u d. tb_accounts d = joined_accounts a email name hash adm u)"
proof -
  let ?user = "\<lambda>i now. \<lparr>us_id = i, us_email = email, us_display_name = name, us_disabled_at = None, us_created_at = now, us_updated_at = now\<rparr>"
  let ?key = "\<lambda>i now. \<lparr>lc_user_id = i, lc_password_hash = hash, lc_must_change_password = False, lc_created_at = now, lc_updated_at = now\<rparr>"
  let ?role = "\<lambda>i now. \<lparr>ur_user_id = i, ur_role = role_admin, ur_created_at = now\<rparr>"
  have row: "yields (\<lambda>d. tb_accounts d = a) (insert_user_row email name now)
      (\<lambda>i d. tb_accounts d = a \<lparr>ac_users := ac_users a @ [?user i now]\<rparr>)" for now
    unfolding insert_user_row_def by (rule yields_sql) (auto simp: Let_def split: if_splits)
  have key: "yields (\<lambda>d. tb_accounts d = b) (insert_credential_row c) (\<lambda>_ d. tb_accounts d = b \<lparr>ac_credentials := ac_credentials b @ [c]\<rparr>)"
    for b c
    unfolding insert_credential_row_def checked_accounts_def by (rule yields_weaken, rule yields_checked) auto
  have role: "yields (\<lambda>d. tb_accounts d = b) (if adm then insert_admin_row i now else ret ())
      (\<lambda>_ d. tb_accounts d = b \<lparr>ac_roles := ac_roles b @ (if adm then [?role i now] else [])\<rparr>)" for b i now
    unfolding insert_admin_row_def checked_accounts_def
    by (cases adm) (simp_all, rule yields_weaken, rule yields_checked, auto simp: yields_def ret_def)
  show ?thesis
    unfolding insert_user_def
    by (rule yields_bind [OF _ yields_stay [OF observes_basic(3)]], rule yields_bind [OF _ row], rule yields_bind [OF _ key],
        rule yields_bind [OF _ role], rule yields_weaken, rule yields_ret)
      (simp add: joined_accounts_def joined_user_def)
qed

lemma grants_inserted:
  "yields (\<lambda>d. tb_accounts d = a) (insert_accepted_repository_grants i authorizer gs now)
     (\<lambda>_ d. tb_accounts d = a \<lparr>ac_grants := ac_grants a @ map (staged_grant i authorizer now) gs\<rparr>)"
proof -
  have one: "yields (\<lambda>d. tb_accounts d = b) (insert_grant g) (\<lambda>_ d. tb_accounts d = b \<lparr>ac_grants := ac_grants b @ [g]\<rparr>)" for b g
    unfolding insert_grant_def checked_accounts_def by (rule yields_weaken, rule yields_checked) auto
  have "yields (\<lambda>d. tb_accounts d = a) (for_each (\<lambda>g. insert_grant (staged_grant i authorizer now g)) gs)
     (\<lambda>_ d. tb_accounts d = a \<lparr>ac_grants := ac_grants a @ map (staged_grant i authorizer now) gs\<rparr>)"
  proof (induction gs arbitrary: a)
    case Nil
    then show ?case by (simp add: yields_def ret_def)
  next
    case (Cons g gs)
    show ?case
      unfolding for_each.simps
      by (rule yields_bind [OF _ one], rule yields_bind [OF _ Cons.IH], rule yields_weaken, rule yields_ret) simp
  qed
  then show ?thesis
    unfolding insert_accepted_repository_grants_def staged_grant_def [symmetric]
    by (rule yields_bind [rotated]) (rule yields_ret)
qed

lemma acceptance_loaded:
  "yields (\<lambda>d. tb_accounts d = a) (load_acceptance_invitation digest)
     (\<lambda>v d. tb_accounts d = a \<and> (\<exists>x \<in> set (ac_invitations a). bearer_matches digest x \<and> scan_acceptance x = Inr v))"
  unfolding load_acceptance_invitation_def
proof (rule yields_bind)
  show "yields (\<lambda>d. tb_accounts d = a) (attempt (query_row (\<lambda>d. filter (bearer_matches digest) (ac_invitations (tb_accounts d)))))
      (\<lambda>r d. tb_accounts d = a \<and> (case r of Inl e \<Rightarrow> True | Inr x \<Rightarrow> x \<in> set (ac_invitations a) \<and> bearer_matches digest x))"
    by (rule yields_weaken, rule yields_lookup) auto
  show "yields (\<lambda>d. tb_accounts d = a \<and> (case r of Inl e \<Rightarrow> True | Inr x \<Rightarrow> x \<in> set (ac_invitations a) \<and> bearer_matches digest x))
      (case r of Inl e \<Rightarrow> if e = NoRows then fail InvalidInvitation else fail e | Inr v \<Rightarrow> pure_step (scan_acceptance v))
      (\<lambda>v d. tb_accounts d = a \<and> (\<exists>x \<in> set (ac_invitations a). bearer_matches digest x \<and> scan_acceptance x = Inr v))" for r
    by (cases r) (auto simp: yields_def fail_def pure_step_def ret_def split: if_splits sum.splits)
qed

lemma staged_loaded:
  "yields (\<lambda>d. tb_accounts d = a) (load_acceptance_repository_grants i) (\<lambda>gs d. tb_accounts d = a \<and> gs = staged_of a i)"
  unfolding load_acceptance_repository_grants_def
proof (rule yields_bind)
  show "yields (\<lambda>d. tb_accounts d = a) (query (\<lambda>d. (canonical_order (map (\<lambda>g. \<lparr>ig_repository_id = vg_repository_id g, ig_role = vg_role g\<rparr>)
       (filter (\<lambda>g. vg_invitation_id g = i) (ac_invitation_grants (tb_accounts d)))), map repo_id (tb_repositories d))))
      (\<lambda>x d. tb_accounts d = a \<and> fst x = staged_of a i)"
    by (rule yields_weaken, rule yields_query) (auto simp: staged_of_def)
  show "yields (\<lambda>d. tb_accounts d = a \<and> fst x = staged_of a i) (case x of (gs, repositories) \<Rightarrow>
      if list_all (\<lambda>g. ig_repository_id g \<in> set repositories \<and> valid_for_repository (ig_role g)) gs then ret gs
      else fail InvalidInvitation) (\<lambda>gs d. tb_accounts d = a \<and> gs = staged_of a i)" for x
    by (cases x) (simp add: yields_def ret_def fail_def)
qed

lemma acceptance_validated:
  "yields (\<lambda>d. tb_accounts d = a) (validate_acceptance_invitation v now)
     (\<lambda>gs d. tb_accounts d = a \<and> gs = staged_of a (ai_id v) \<and> (\<exists>authorizer. may_admit a v authorizer now))"
proof (cases "ai_authorized_by v")
  case (Some authorizer)
  have counted: "yields (\<lambda>d. tb_accounts d = a \<and> gs = staged_of a (ai_id v))
      (if int (length gs) \<noteq> ai_expected_grant_count v then fail InvalidInvitation else ret gs)
      (\<lambda>gs d. tb_accounts d = a \<and> gs = staged_of a (ai_id v) \<and> (\<exists>authorizer. may_admit a v authorizer now))"
    if "now < ai_expires_at v" "enabled_in a authorizer" "has_admin_row a authorizer"
      "ai_canonical_email v \<notin> us_email ` set (ac_users a)" for gs
    using that Some by (auto simp: yields_def ret_def fail_def may_admit_def)
  show ?thesis
    unfolding validate_acceptance_invitation_def Some option.case
    by (rule yields_branch, rule yields_fail, rule yields_bind [OF _ yields_asked], rule yields_given, rule yields_branch,
        rule yields_fail, rule yields_bind [OF _ yields_asked], rule yields_given, rule yields_branch, rule yields_fail,
        rule yields_bind [OF _ staged_loaded], rule counted) auto
qed (simp add: validate_acceptance_invitation_def yields_fail)

lemma sole_match:
  assumes "filter p xs = [y]"
  shows "z \<in> set xs \<Longrightarrow> p z \<Longrightarrow> z = y" "y \<in> set xs" "p y"
proof -
  have "set (filter p xs) = {y}" using assms by simp
  then show "z \<in> set xs \<Longrightarrow> p z \<Longrightarrow> z = y" "y \<in> set xs" "p y" by auto
qed

lemma audits_leave_accounts: "within (same tb_accounts) (record_invitation_acceptance_audits v authorizer u gs)"
proof -
  have event: "within (same tb_accounts) (record_event e)" for e
    by (rule same.event_appended) (simp add: same_def)
  show ?thesis
    unfolding record_invitation_acceptance_audits_def by (intro same.rules event)
qed

lemma commit_accepts:
  "yields (\<lambda>d. tb_accounts d = a) (commit_invitation_acceptance digest hash)
     (\<lambda>u d. \<exists>x v authorizer now. filter (bearer_matches digest) (ac_invitations a) = [x] \<and> scan_acceptance x = Inr v
        \<and> may_admit a v authorizer now \<and> tb_accounts d = accepted_accounts a v digest hash u authorizer now)"
  (is "yields _ _ ?Q")
proof -
  have claimed: "yields (\<lambda>d. tb_accounts d = a)
      (query (\<lambda>d. int (length (filter (bearer_matches digest) (ac_invitations (tb_accounts d))))))
      (\<lambda>n d. tb_accounts d = a \<and> n = int (length (filter (bearer_matches digest) (ac_invitations a))))"
    by (rule yields_asked)
  have audited: "yields (\<lambda>d. tb_accounts d = b) (bind (record_invitation_acceptance_audits v authorizer u gs) (\<lambda>_. ret u))
      (\<lambda>u' d. tb_accounts d = b \<and> u' = u)" for b v authorizer u gs
    by (rule yields_bind [OF _ yields_same [OF audits_leave_accounts, where P = "\<lambda>x. x = b"]], rule yields_weaken, rule yields_ret) simp
  have update: "yields (\<lambda>d. tb_accounts d = b) (update_invitations p f)
      (\<lambda>_ d. tb_accounts d = b \<lparr>ac_invitations := map (\<lambda>x. if p x then f x else x) (ac_invitations b)\<rparr>)" for b p f
    unfolding update_invitations_def on_accounts_def
    by (rule yields_weaken, rule yields_exec) (simp add: update_where_def)
  have delete: "yields (\<lambda>d. tb_accounts d = b) (delete_staged i)
      (\<lambda>_ d. tb_accounts d = b \<lparr>ac_invitation_grants := filter (\<lambda>g. vg_invitation_id g \<noteq> i) (ac_invitation_grants b)\<rparr>)" for b i
    unfolding delete_staged_def on_accounts_def
    by (rule yields_weaken, rule yields_exec) (simp add: delete_where_def)
  have joined: "yields (\<lambda>d. tb_accounts d = a) (attempt (insert_user email name hash False adm))
      (\<lambda>r d. case r of Inl e \<Rightarrow> True | Inr u \<Rightarrow> tb_accounts d = joined_accounts a email name hash adm u)" for email name adm
    by (rule yields_attempt) (simp_all add: insert_user_joins)
  have rest: "yields (\<lambda>d. case r of Inl e \<Rightarrow> True
        | Inr u \<Rightarrow> tb_accounts d = joined_accounts a (ai_canonical_email v) (ai_display_name v) hash (ai_is_admin v) u)
      (case r of Inl e \<Rightarrow> if is_validation_error AuthPkg e then fail InvalidInvitation else fail e
       | Inr u \<Rightarrow> bind (insert_accepted_repository_grants (au_id u) authorizer (staged_of a (ai_id v)) now) (\<lambda>_.
         bind (update_invitations (\<lambda>x. vt_id x = ai_id v \<and> bearer_matches digest x) (redacted invitation_status_accepted now)) (\<lambda>m.
         if m = 0 then fail InvalidInvitation
         else if m \<noteq> 1 then fail (Plain ''accept invitation affected rows'')
         else bind (delete_staged (ai_id v)) (\<lambda>deleted.
         if deleted \<noteq> int (length (staged_of a (ai_id v))) then fail InvalidInvitation
         else bind (record_invitation_acceptance_audits v authorizer u (staged_of a (ai_id v))) (\<lambda>_. ret u))))) ?Q"
    if "filter (bearer_matches digest) (ac_invitations a) = [x]" "scan_acceptance x = Inr v" "may_admit a v authorizer now"
    for r x v authorizer now
  proof (cases r)
    case (Inr u)
    have ends: "tb_accounts d = (joined_accounts a (ai_canonical_email v) (ai_display_name v) hash (ai_is_admin v) u)
        \<lparr>ac_grants := ac_grants a @ map (staged_grant (au_id u) authorizer now) (staged_of a (ai_id v)),
          ac_invitations := map (\<lambda>x. if vt_id x = ai_id v \<and> bearer_matches digest x
            then redacted invitation_status_accepted now x else x) (ac_invitations a),
          ac_invitation_grants := filter (\<lambda>g. vg_invitation_id g \<noteq> ai_id v) (ac_invitation_grants a)\<rparr> \<and> u' = u \<Longrightarrow> ?Q u' d" for u' d
      using that unfolding accepted_accounts_def by blast
    show ?thesis
      unfolding Inr sum.case
      by (rule yields_bind [OF _ grants_inserted], rule yields_bind [OF _ update], rule yields_branch, rule yields_fail,
          rule yields_branch, rule yields_fail, rule yields_bind [OF _ delete], rule yields_branch, rule yields_fail,
          rule yields_strengthen, rule audited, rule ends) (simp add: joined_accounts_def)
  qed (auto simp: yields_def fail_def split: if_splits)
  have unique: "\<exists>y. filter p xs = [y] \<and> x = y" if "\<not> int (length (filter p xs)) \<noteq> 1" "x \<in> set xs" "p x" for p x and xs :: "invitation_row list"
  proof -
    have "length (filter p xs) = Suc 0" using that(1) by simp
    then obtain y where y: "filter p xs = [y]" by (auto simp: length_Suc_conv)
    then show ?thesis using sole_match(1) [OF y that(2,3)] by simp
  qed
  have accepted: "yields (\<lambda>d. tb_accounts d = a)
      (bind (attempt (insert_user (ai_canonical_email v) (ai_display_name v) hash False (ai_is_admin v))) (\<lambda>r. case r of
        Inl e \<Rightarrow> if is_validation_error AuthPkg e then fail InvalidInvitation else fail e
      | Inr u \<Rightarrow> bind (insert_accepted_repository_grants (au_id u) (case ai_authorized_by v of None \<Rightarrow> 0 | Some n \<Rightarrow> n) gs now) (\<lambda>_.
         bind (update_invitations (\<lambda>x. vt_id x = ai_id v \<and> bearer_matches digest x) (redacted invitation_status_accepted now)) (\<lambda>m.
         if m = 0 then fail InvalidInvitation
         else if m \<noteq> 1 then fail (Plain ''accept invitation affected rows'')
         else bind (delete_staged (ai_id v)) (\<lambda>deleted.
         if deleted \<noteq> int (length gs) then fail InvalidInvitation
         else bind (record_invitation_acceptance_audits v (case ai_authorized_by v of None \<Rightarrow> 0 | Some n \<Rightarrow> n) u gs) (\<lambda>_. ret u)))))) ?Q"
    if one: "\<not> int (length (filter (bearer_matches digest) (ac_invitations a))) \<noteq> 1"
      and found: "\<exists>x \<in> set (ac_invitations a). bearer_matches digest x \<and> scan_acceptance x = Inr v"
      and valid: "gs = staged_of a (ai_id v) \<and> (\<exists>authorizer. may_admit a v authorizer now)" for v gs now
  proof -
    obtain x authorizer where x: "filter (bearer_matches digest) (ac_invitations a) = [x]" "scan_acceptance x = Inr v"
      and admit: "may_admit a v authorizer now" using found valid unique [OF one] by blast
    have authorizer: "(case ai_authorized_by v of None \<Rightarrow> 0 | Some n \<Rightarrow> n) = authorizer" using admit by (simp add: may_admit_def)
    show ?thesis
      unfolding valid [THEN conjunct1] authorizer by (rule yields_bind [OF rest [OF x admit] joined])
  qed
  show ?thesis
    unfolding commit_invitation_acceptance_def Let_def
    by (rule yields_transact, rule yields_bind [OF _ claimed], rule yields_given, rule yields_branch, rule yields_fail,
        rule yields_branch, rule yields_fail, rule yields_bind [OF _ yields_stay [OF observes_basic(3)]],
        rule yields_bind [OF _ acceptance_loaded], rule yields_given, rule yields_bind [OF _ acceptance_validated],
        rule yields_given, rule accepted) (simp, assumption+)
qed

subsection \<open>Accepting\<close>

lemma matched_is_spent:
  assumes "filter (bearer_matches digest) (ac_invitations a) = [x]" and "scan_acceptance x = Inr v"
  shows "filter (bearer_matches digest) (ac_invitations (accepted_accounts a v digest hash u authorizer now)) = []"
proof -
  have "vt_id x = ai_id v" using assms(2) by (auto simp: scan_acceptance_def split: option.splits)
  moreover have "y = x" if "y \<in> set (ac_invitations a)" "bearer_matches digest y" for y
    using that sole_match(1) [OF assms(1)] by blast
  ultimately show ?thesis
    by (auto simp: filter_empty_conv accepted_accounts_def bearer_matches_def redacted_def)
qed

lemma spent_invitation_fails:
  "yields (\<lambda>d. filter (bearer_matches (ae_sha256 env token)) (ac_invitations (tb_accounts d)) = [])
     (accept_invitation env token password) (\<lambda>_ _. False)" (is "yields ?P _ _")
proof (cases "invitation_bearer_digest env token")
  case (Some digest)
  then have digest: "digest = ae_sha256 env token" by (auto simp: invitation_bearer_digest_def split: if_splits)
  have "yields ?P (load_acceptance_invitation digest) (\<lambda>_ _. False)"
    unfolding yields_def
  proof (intro allI impI)
    fix w x w'
    assume none: "?P (tables w)" and "load_acceptance_invitation digest w = (Inr x, w')"
    from yieldsD [OF acceptance_loaded this(2) refl] show False using none by (auto simp: filter_empty_conv digest)
  qed
  then have "yields ?P (bind (load_acceptance_invitation digest) f) (\<lambda>_ _. False)" for f :: "acceptance_invitation \<Rightarrow> unit go"
    by (rule yields_bind [rotated]) (simp add: yields_def)
  then have "yields ?P (preflight_invitation_acceptance digest now) (\<lambda>_ _. False)" for now
    unfolding preflight_invitation_acceptance_def .
  then have "yields ?P (bind (preflight_invitation_acceptance digest now) f) (\<lambda>_ _. False)" for now and f :: "unit \<Rightarrow> user go"
    by (rule yields_bind [rotated]) (simp add: yields_def)
  then have "yields ?P (bind now_utc (\<lambda>now. bind (preflight_invitation_acceptance digest now) (f now))) (\<lambda>_ _. False)"
    for f :: "instant \<Rightarrow> unit \<Rightarrow> user go"
    by (rule yields_bind) (auto simp: yields_def now_utc_def)
  then show ?thesis by (simp add: accept_invitation_def Some)
qed (simp add: accept_invitation_def yields_fail)

text \<open>
  C13: An invitation lets in exactly whom it announced, once. An acceptance that succeeds was for the
  one pending invitation with the digest of the token, before it expired and while an enabled
  administrator stood behind it; the accounts after it are the accounts before it and one user with
  the announced name and address, the password, the administrator role only if staged and exactly
  the staged grants, in the name of that administrator, the staged rows gone and the invitation
  closed without what it knew; and from the tables this leaves the same token lets in nobody.
\<close>

theorem accepted_invitation_gives_what_was_staged:
  assumes run: "accept_invitation env token password w = (Inr u, w')"
  shows "(\<exists>x v authorizer now hash. x \<in> set (ac_invitations (tb_accounts (tables w)))
      \<and> bearer_matches (ae_sha256 env token) x \<and> scan_acceptance x = Inr v
      \<and> clock w (readings w) < ai_expires_at v \<and> may_admit (tb_accounts (tables w)) v authorizer now
      \<and> hash_password (ae_argon2 env) (ae_random env) 0 password = Inr hash
      \<and> tb_accounts (tables w') = accepted_accounts (tb_accounts (tables w)) v (ae_sha256 env token) hash u authorizer now)
    \<and> yields (\<lambda>d. d = tables w') (accept_invitation env token again) (\<lambda>_ _. False)"
proof -
  let ?a = "tb_accounts (tables w)"
  from run obtain digest where digest: "invitation_bearer_digest env token = Some digest"
    by (cases "invitation_bearer_digest env token") (auto simp: accept_invitation_def fail_def)
  then have d: "digest = ae_sha256 env token" by (auto simp: invitation_bearer_digest_def split: if_splits)
  from run [unfolded accept_invitation_def digest option.case] obtain now0 w1 where
    1: "now_utc w = (Inr now0, w1)" and
    rest: "bind (preflight_invitation_acceptance digest now0) (\<lambda>_. when_invalid (validate_password password) (
       bind (pure_step (hash_password (ae_argon2 env) (ae_random env) 0 password)) (\<lambda>hash.
       commit_invitation_acceptance digest hash))) w1 = (Inr u, w')"
    by (rule bind_cases) (blast intro: that)
  from now_value [OF 1] have now0: "now0 = clock w (readings w)" "tables w1 = tables w" by auto
  from rest obtain y w2 where 2: "preflight_invitation_acceptance digest now0 w1 = (Inr y, w2)" and
    rest2: "when_invalid (validate_password password) (bind (pure_step (hash_password (ae_argon2 env) (ae_random env) 0 password))
       (\<lambda>hash. commit_invitation_acceptance digest hash)) w2 = (Inr u, w')"
    by (rule bind_cases) (blast intro: that)
  have "yields (\<lambda>d. tb_accounts d = ?a) (preflight_invitation_acceptance digest now0)
      (\<lambda>_ d. tb_accounts d = ?a \<and> (\<exists>x v. x \<in> set (ac_invitations ?a) \<and> bearer_matches digest x \<and> scan_acceptance x = Inr v
         \<and> now0 < ai_expires_at v))"
    unfolding preflight_invitation_acceptance_def
    by (rule yields_bind [OF _ acceptance_loaded], rule yields_given, rule yields_bind [OF _ acceptance_validated], rule yields_weaken,
        rule yields_ret) (auto simp: may_admit_def)
  from yieldsD [OF this 2] now0 obtain x0 v0 where before: "tb_accounts (tables w2) = ?a"
    "x0 \<in> set (ac_invitations ?a)" "bearer_matches digest x0" "scan_acceptance x0 = Inr v0" "clock w (readings w) < ai_expires_at v0"
    by auto
  from rest2 obtain hash where hash: "hash_password (ae_argon2 env) (ae_random env) 0 password = Inr hash"
    and 3: "commit_invitation_acceptance digest hash w2 = (Inr u, w')"
    by (cases "validate_password password"; cases "hash_password (ae_argon2 env) (ae_random env) 0 password")
      (auto simp: when_invalid_def pure_step_def bind_def fail_def ret_def)
  from yieldsD [OF commit_accepts 3 before(1)] obtain x v authorizer now where
    x: "filter (bearer_matches digest) (ac_invitations ?a) = [x]" "scan_acceptance x = Inr v" and
    admit: "may_admit ?a v authorizer now" and final: "tb_accounts (tables w') = accepted_accounts ?a v digest hash u authorizer now"
    by blast
  have same: "x0 = x" "x \<in> set (ac_invitations ?a)" "bearer_matches digest x"
    using sole_match [OF x(1)] before(2,3) by blast+
  then have v: "v0 = v" using before(4) x(2) by simp
  have "yields (\<lambda>d. d = tables w') (accept_invitation env token again) (\<lambda>_ _. False)"
    using matched_is_spent [OF x] by (intro yields_weaken [OF spent_invitation_fails]) (simp add: final d)
  then show ?thesis
    using x(2) same v before(5) admit hash final d
    by (intro conjI exI [of _ x] exI [of _ v] exI [of _ authorizer] exI [of _ now] exI [of _ hash]) simp_all
qed

definition sample_invitation_id :: string where
  "sample_invitation_id = ''inv_'' @ base64_encode url_alphabet (replicate 16 (CHR 0x00))"

definition invited_accounts :: accounts where
  "invited_accounts = sample_accounts \<lparr>
     ac_invitations := [\<lparr>vt_id = sample_invitation_id, vt_status = invitation_status_pending,
       vt_canonical_email = Some ''c@d'', vt_display_name = Some ''C'', vt_token_digest = Some ''digest'',
       vt_expires_at = Some 100, vt_is_admin = Some False, vt_authorized_by_user_id = Some 1,
       vt_expected_grant_count = Some 1, vt_created_at = 0, vt_updated_at = 0\<rparr>],
     ac_invitation_grants := [\<lparr>vg_invitation_id = sample_invitation_id, vg_repository_id = 1, vg_role = role_viewer\<rparr>]\<rparr>"

definition invited_db :: db where
  "invited_db = empty_db \<lparr>tb_accounts := invited_accounts, tb_repositories := [gate_repository]\<rparr>"

lemma invited_texts:
  "trim_space ''c@d'' = ''c@d''" "trim_space ''C'' = ''C''"
  by (rule trim_text; simp add: is_ascii_def is_space_rune_def)+

lemma invited_checks:
  "normalize_email ''c@d'' = ''c@d''" "validate_local_identity ''c@d'' ''C'' = None" "format_int 2 = ''2''"
  "fresh_id [1] = 2"
  subgoal by (simp add: normalize_email_def invited_texts to_lower_def is_ascii_def lower_byte_def)
  subgoal by (simp add: validate_local_identity_def)
  subgoal by code_simp
  subgoal by (simp add: fresh_id_def)
  done

lemma sample_invitation_named: "sample_invitation_id \<noteq> []"
  by (simp add: sample_invitation_id_def)

lemma sample_invitation_valid: "valid_invitation_id sample_invitation_id"
proof -
  have "canonical_token 16 (base64_encode url_alphabet (replicate 16 (CHR 0x00)))"
    by (auto simp: canonical_token_iff intro!: exI [of _ "replicate 16 (CHR 0x00)"])
  then show ?thesis
    by (auto simp: valid_invitation_id_def sample_invitation_id_def invitation_id_prefix_def invitation_id_random_bytes_def
        canonical_token_def split: option.splits)
qed

lemma accepted_run:
  assumes h: "hash_password (ae_argon2 sample_env) (ae_random sample_env) 0 (replicate 12 (CHR ''p'')) = Inr h" and "h \<noteq> []"
  shows "\<exists>u w'. accept_invitation sample_env sample_token (replicate 12 (CHR ''p'')) (quiet invited_db 5) = (Inr u, w')"
  using assms(2)
  by (simp add: accept_invitation_def invitation_bearer_digest_def invitation_bearer_bytes_def sample_canonical
      preflight_invitation_acceptance_def load_acceptance_invitation_def validate_acceptance_invitation_def
      load_acceptance_repository_grants_def bearer_matches_def scan_acceptance_def pure_step_def validate_password_def
      when_invalid_def h commit_invitation_acceptance_def insert_user_def insert_user_row_def insert_credential_row_def
      insert_accepted_repository_grants_def insert_grant_def grant_row_ok_def update_invitations_def delete_staged_def
      update_where_def delete_where_def record_invitation_acceptance_audits_def accepted_grant_event_def map_event_def
      user_audit_event_def record_event_def normalize_event_def validate_event_def subject_type_user_def
      subject_type_invitation_def subject_type_repository_def text_field_def format_one invited_checks invited_texts
      sample_invitation_valid sample_invitation_named sample_digest enabled_in_def has_admin_row_def canonical_order_def checked_accounts_def
      on_accounts_def invited_db_def invited_accounts_def sample_simps gate_repository_def valid_for_repository_def role_viewer_def
      first_row_def references_def run_simps Let_def)

lemma accepted_invitation_gives_what_was_staged_witness:
  "\<exists>u w' hash now. accept_invitation sample_env sample_token (replicate 12 (CHR ''p'')) (quiet invited_db 5) = (Inr u, w')
     \<and> tb_accounts (tables w') = accepted_accounts invited_accounts \<lparr>ai_id = sample_invitation_id, ai_canonical_email = ''c@d'',
         ai_display_name = ''C'', ai_expires_at = 100, ai_is_admin = False, ai_authorized_by = Some 1,
         ai_expected_grant_count = 1\<rparr> ''digest'' hash u 1 now"
proof -
  obtain h where h: "hash_password (ae_argon2 sample_env) (ae_random sample_env) 0 (replicate 12 (CHR ''p'')) = Inr h" "h \<noteq> []"
    using sample_hash_named by blast
  obtain u w' where run: "accept_invitation sample_env sample_token (replicate 12 (CHR ''p'')) (quiet invited_db 5) = (Inr u, w')"
    using accepted_run [OF h] by blast
  from accepted_invitation_gives_what_was_staged [OF run, THEN conjunct1] obtain x v authorizer now hash where
    x: "x \<in> set (ac_invitations invited_accounts)" "scan_acceptance x = Inr v" "ai_authorized_by v = Some authorizer" and
    final: "tb_accounts (tables w') = accepted_accounts invited_accounts v ''digest'' hash u authorizer now"
    by (auto simp: quiet_simps invited_db_def sample_digest may_admit_def)
  have "v = \<lparr>ai_id = sample_invitation_id, ai_canonical_email = ''c@d'', ai_display_name = ''C'', ai_expires_at = 100,
      ai_is_admin = False, ai_authorized_by = Some 1, ai_expected_grant_count = 1\<rparr>" "authorizer = 1"
    using x by (auto simp: invited_accounts_def scan_acceptance_def)
  with run final show ?thesis by blast
qed

end
