(* ===== verification/QueueProgress.thy ===== *)
theory QueueProgress
  imports Jobs
begin

text \<open>
  Work that is due gets done: a worker that asks the queue receives the oldest due jobs, those of
  workers that died included, so a job waits only behind older ones.
\<close>

definition due :: "instant \<Rightarrow> job_row \<Rightarrow> bool" where
  "due now r \<longleftrightarrow> jr_type r = reconcile_type \<and> jr_repository_id r \<noteq> None \<and> jr_run_at r \<le> now \<and> lease_free now r"

definition age :: "job_row \<Rightarrow> instant \<times> int" where
  "age r = (jr_run_at r, jr_id r)"

text \<open>How many due jobs are older.\<close>

definition ahead :: "instant \<Rightarrow> job_row \<Rightarrow> job_row list \<Rightarrow> nat" where
  "ahead now r rows = length (filter (\<lambda>x. due now x \<and> age x < age r) rows)"

lemma in_first:
  fixes key :: "'a \<Rightarrow> 'k :: linorder"
  assumes "x \<in> set xs" and "inj_on key (set xs)" and "length (filter (\<lambda>y. key y < key x) xs) < n"
  shows "x \<in> set (take n (sort_key key xs))"
proof (rule ccontr)
  let ?ys = "sort_key key xs" and ?p = "\<lambda>y. key y < key x"
  assume out: "x \<notin> set (take n ?ys)"
  obtain i where i: "i < length ?ys" "?ys ! i = x" using assms(1) by (metis in_set_conv_nth set_sort)
  have "n \<le> i" using out i by (metis in_set_conv_nth length_take min_less_iff_conj not_le nth_take)
  have "?p y" if "y \<in> set (take n ?ys)" for y
  proof -
    obtain j where j: "j < n" "j < length ?ys" "?ys ! j = y" using \<open>y \<in> set (take n ?ys)\<close>
      by (metis in_set_conv_nth length_take min_less_iff_conj nth_take)
    have "key y \<le> key x"
      using sorted_nth_mono [OF sorted_sort_key [of key xs], of j i] j i \<open>n \<le> i\<close> by simp
    moreover have "key y \<noteq> key x"
      using assms(1,2) that out by (metis in_set_takeD inj_onD set_sort)
    ultimately show ?thesis by simp
  qed
  then have "length (take n ?ys) \<le> length (filter ?p ?ys)"
    by (metis append_take_drop_id filter_True filter_append le_add1 length_append)
  moreover have "length (filter ?p ?ys) = length (filter ?p xs)"
    by (simp add: filter_sort)
  ultimately show False using assms(3) i \<open>n \<le> i\<close> by simp
qed

subsection \<open>Claiming all candidates\<close>

definition locked :: "instant \<Rightarrow> job_row \<Rightarrow> job_row" where
  "locked now r = r \<lparr>jr_locked_at := Some now, jr_attempts := jr_attempts r + 1\<rparr>"

definition granted :: "instant \<Rightarrow> job \<Rightarrow> job" where
  "granted now c = c \<lparr>job_attempts := job_attempts c + 1, job_locked_at := Some now\<rparr>"

lemma run_claim:
  assumes "faultless w" and "r \<in> set (tb_jobs (tables w))" and "claimable c now r"
  shows "claim c now w = (Inr (Some (granted now c)), after w 0 1 ((tables w) \<lparr>tb_jobs :=
     map (\<lambda>r. if claimable c now r then locked now r else r) (tb_jobs (tables w))\<rparr>))"
proof -
  have "filter (claimable c now) (tb_jobs (tables w)) \<noteq> []" using assms(2,3) by (auto simp: filter_empty_conv)
  with assms(1) show ?thesis
    unfolding granted_def locked_def by (simp add: claim_def claim_stmt_def update_where_def run_simps)
qed

lemma run_claim_each:
  "faultless w \<Longrightarrow> distinct (map job_id cs) \<Longrightarrow> (\<And>c. c \<in> set cs \<Longrightarrow> \<exists>r \<in> set (tb_jobs (tables w)). claimable c now r)
   \<Longrightarrow> \<exists>w'. claim_each cs now w = (Inr (map (granted now) cs, None), w')
     \<and> (\<forall>c r. c \<in> set cs \<longrightarrow> r \<in> set (tb_jobs (tables w)) \<longrightarrow> claimable c now r \<longrightarrow> locked now r \<in> set (tb_jobs (tables w')))
     \<and> (\<forall>r \<in> set (tb_jobs (tables w)). (\<forall>c \<in> set cs. job_id c \<noteq> jr_id r) \<longrightarrow> r \<in> set (tb_jobs (tables w')))"
proof (induction cs arbitrary: w)
  case Nil
  then show ?case by (auto simp: run_simps)
next
  case (Cons c cs)
  obtain r where r: "r \<in> set (tb_jobs (tables w))" "claimable c now r" using Cons.prems(3) [of c] by auto
  let ?lock = "\<lambda>r. if claimable c now r then locked now r else r"
  let ?w = "after w 0 1 ((tables w) \<lparr>tb_jobs := map ?lock (tb_jobs (tables w))\<rparr>)"
  have run: "claim c now w = (Inr (Some (granted now c)), ?w)" using run_claim [OF Cons.prems(1) r] .
  have stays: "x \<in> set (tb_jobs (tables ?w))" if "x \<in> set (tb_jobs (tables w))" "jr_id x \<noteq> job_id c" for x
    using that by (auto simp: claimable_def intro: rev_image_eqI)
  have claims: "\<exists>r \<in> set (tb_jobs (tables ?w)). claimable c' now r" if "c' \<in> set cs" for c'
  proof -
    obtain x where "x \<in> set (tb_jobs (tables w))" "claimable c' now x" using Cons.prems(3) [of c'] \<open>c' \<in> set cs\<close> by auto
    moreover from this(2) have "jr_id x \<noteq> job_id c" using Cons.prems(2) that by (auto simp: claimable_def image_iff)
    ultimately show ?thesis using stays by blast
  qed
  have "faultless ?w" "distinct (map job_id cs)" using Cons.prems(1,2) by simp_all
  from Cons.IH [OF this claims] obtain w' where
    each: "claim_each cs now ?w = (Inr (map (granted now) cs, None), w')" and
    locks: "\<And>c' x. c' \<in> set cs \<Longrightarrow> x \<in> set (tb_jobs (tables ?w)) \<Longrightarrow> claimable c' now x \<Longrightarrow> locked now x \<in> set (tb_jobs (tables w'))" and
    rest: "\<And>x. x \<in> set (tb_jobs (tables ?w)) \<Longrightarrow> (\<forall>c' \<in> set cs. job_id c' \<noteq> jr_id x) \<Longrightarrow> x \<in> set (tb_jobs (tables w'))"
    by blast
  have "locked now x \<in> set (tb_jobs (tables w'))" if "c' \<in> set (c # cs)" "x \<in> set (tb_jobs (tables w))" "claimable c' now x" for c' x
  proof (cases "c' = c")
    case True
    have "locked now x \<in> set (tb_jobs (tables ?w))" using that True by (auto intro: rev_image_eqI)
    then show ?thesis
      by (rule rest) (use Cons.prems(2) that True in \<open>auto simp: claimable_def locked_def image_iff\<close>)
  next
    case False
    then have "c' \<in> set cs" "jr_id x \<noteq> job_id c" using that Cons.prems(2) by (auto simp: claimable_def image_iff)
    then show ?thesis using locks stays that by blast
  qed
  moreover have "x \<in> set (tb_jobs (tables w'))" if "x \<in> set (tb_jobs (tables w))" "\<forall>c' \<in> set (c # cs). job_id c' \<noteq> jr_id x" for x
    using rest stays that by auto
  moreover have "claim_each (c # cs) now w = (Inr (map (granted now) (c # cs), None), w')"
    using run each by (simp add: run_simps)
  ultimately show ?case by blast
qed

lemma claim_due_oldest:
  "claim_due limit = (let n = (if limit \<le> 0 \<or> limit > 100 then 25 else limit) in
     bind now_utc (\<lambda>now. bind (query (\<lambda>d. map scan_job (limit_rows n (sort_key age (filter (due now) (tb_jobs d))))))
       (\<lambda>candidates. claim_each candidates now)))"
  unfolding claim_due_def age_def [abs_def] due_def [abs_def] ..

lemma claimable_scan: "due now x \<Longrightarrow> claimable (scan_job x) now x"
  by (simp add: claimable_def due_def scan_job_def)

text \<open>
  C24: No due job starves. While the database answers, a worker that asks for work is given every
  job that is due with fewer older due jobs than it asks for, with a lease that holds; jobs whose
  worker died count as due once the lease has run out, and what waits is only behind older work.
\<close>

theorem due_work_is_claimed:
  assumes "faultless w" and "jobs_ok (tb_jobs (tables w))" and "0 < limit" and "limit \<le> 100"
    and "r \<in> set (tb_jobs (tables w))" and "due (clock w (readings w)) r"
    and "int (ahead (clock w (readings w)) r (tb_jobs (tables w))) < limit"
  shows "\<exists>cs c w'. claim_due limit w = (Inr (cs, None), w') \<and> c \<in> set cs \<and> Some (job_repository_id c) = jr_repository_id r
    \<and> job_id c = jr_id r \<and> job_generation c = jr_generation r
    \<and> current_at c (clock w (readings w)) (tb_jobs (tables w'))"
proof -
  let ?now = "clock w (readings w)" and ?rows = "tb_jobs (tables w)"
  define first where "first = take (nat limit) (sort_key age (filter (due ?now) ?rows))"
  let ?w = "after w 1 1 (tables w)"
  have ids: "inj_on jr_id (set ?rows)" using assms(2) by (simp add: jobs_ok_def distinct_map)
  have "inj_on age (set (filter (due ?now) ?rows))" using ids by (auto simp: inj_on_def age_def)
  moreover have "length (filter (\<lambda>y. age y < age r) (filter (due ?now) ?rows)) < nat limit"
    using assms(7) by (simp add: ahead_def conj_commute)
  ultimately have r: "r \<in> set first" unfolding first_def using assms(5,6) by (intro in_first) simp_all
  have rows: "x \<in> set ?rows" "due ?now x" if "x \<in> set first" for x
    using in_set_takeD [OF that [unfolded first_def]] by simp_all
  have "distinct (map jr_id (sort_key age (filter (due ?now) ?rows)))"
    using assms(2) ids by (auto simp: jobs_ok_def distinct_map intro: inj_on_subset)
  then have "distinct (map jr_id first)" unfolding first_def by (metis distinct_take take_map)
  then have "distinct (map job_id (map scan_job first))" by (simp add: comp_def scan_job_def)
  moreover have "\<exists>x \<in> set (tb_jobs (tables ?w)). claimable c ?now x" if c: "c \<in> set (map scan_job first)" for c
  proof -
    from c obtain x where x: "x \<in> set first" "c = scan_job x" by auto
    then show ?thesis using rows [OF x(1)] claimable_scan by auto
  qed
  moreover have "faultless ?w" using assms(1) by simp
  ultimately have "\<exists>w'. claim_each (map scan_job first) ?now ?w = (Inr (map (granted ?now) (map scan_job first), None), w')
    \<and> (\<forall>c x. c \<in> set (map scan_job first) \<longrightarrow> x \<in> set (tb_jobs (tables ?w)) \<longrightarrow> claimable c ?now x
        \<longrightarrow> locked ?now x \<in> set (tb_jobs (tables w')))"
    using run_claim_each [of ?w "map scan_job first" ?now] by blast
  then obtain w' where
    each: "claim_each (map scan_job first) ?now ?w = (Inr (map (granted ?now) (map scan_job first), None), w')" and
    locks: "\<And>c x. c \<in> set (map scan_job first) \<Longrightarrow> x \<in> set (tb_jobs (tables ?w)) \<Longrightarrow> claimable c ?now x
      \<Longrightarrow> locked ?now x \<in> set (tb_jobs (tables w'))" by blast
  let ?c = "granted ?now (scan_job r)"
  have run: "claim_due limit w = claim_each (map scan_job first) ?now ?w"
    using assms(1,3,4) unfolding claim_due_oldest first_def by (simp add: run_simps limit_rows_def)
  have "locked ?now r \<in> set (tb_jobs (tables w'))"
    by (rule locks [of "scan_job r"]) (use r assms(5) claimable_scan [OF assms(6)] in simp_all)
  moreover have "holds_token ?c (locked ?now r) \<and> opt_ex (\<lambda>l. l > ?now - reconciliation_lease) (jr_locked_at (locked ?now r))"
    using assms(6) by (simp add: holds_token_def granted_def locked_def scan_job_def due_def reconciliation_lease_def nanos_def)
  ultimately have "current_at ?c ?now (tb_jobs (tables w'))"
    unfolding current_at_def list_ex_iff by blast
  moreover have "?c \<in> set (map (granted ?now) (map scan_job first))" using r by simp
  moreover have "Some (job_repository_id ?c) = jr_repository_id r" "job_id ?c = jr_id r" "job_generation ?c = jr_generation r"
    using assms(6) by (auto simp: granted_def scan_job_def due_def)
  ultimately show ?thesis using run each by metis
qed

definition stale_db :: db where
  "stale_db = empty_db \<lparr>tb_jobs := [\<lparr>jr_id = 1, jr_type = reconcile_type, jr_repository_id = Some 7,
     jr_generation = 2, jr_run_at = 40, jr_locked_at = Some 20, jr_attempts = 1, jr_last_error = None\<rparr>]\<rparr>"

lemma due_work_is_claimed_witness:
  "\<exists>cs c w'. claim_due 25 (quiet stale_db (200 * nanos)) = (Inr (cs, None), w') \<and> c \<in> set cs \<and> job_repository_id c = 7"
proof -
  let ?r = "hd (tb_jobs stale_db)"
  have "\<exists>cs c w'. claim_due 25 (quiet stale_db (200 * nanos)) = (Inr (cs, None), w') \<and> c \<in> set cs
      \<and> Some (job_repository_id c) = jr_repository_id ?r \<and> job_id c = jr_id ?r \<and> job_generation c = jr_generation ?r
      \<and> current_at c (clock (quiet stale_db (200 * nanos)) (readings (quiet stale_db (200 * nanos)))) (tb_jobs (tables w'))"
    by (rule due_work_is_claimed)
      (simp_all add: stale_db_def run_simps jobs_ok_def queued_repositories_def due_def lease_free_def ahead_def
        reconciliation_lease_def nanos_def)
  then show ?thesis by (auto simp: stale_db_def)
qed

end
