(* ===== verification/QueueLeases.thy ===== *)
theory QueueLeases
  imports Jobs
begin

text \<open>
  What a lease is worth, and that a batch of claims is a run of the queue's step relation: the
  operation \<open>ClaimDue\<close> (\<open>jobs/jobs.go\<close>) stays inside the histories the theorems speak of.
\<close>

subsection \<open>A live lease keeps the others out\<close>

text \<open>
  What the rest of the program may do around a claim while no clock has passed \<open>now\<close>: claim
  anything, complete, reschedule or release any other claim, make any repository due, enqueue or
  remove the work of other repositories, and note a failure of the claim's own.
\<close>

fun undisturbing :: "job \<Rightarrow> int \<Rightarrow> instant \<Rightarrow> queue_event \<Rightarrow> bool" where
  "undisturbing c repo now (Enqueued i advance) = (i = repo \<longrightarrow> \<not> advance)"
| "undisturbing c repo now (Claimed d t) = (t \<le> now)"
| "undisturbing c repo now (Completed d) = (lease_token d \<noteq> lease_token c)"
| "undisturbing c repo now (Released d) = (lease_token d \<noteq> lease_token c)"
| "undisturbing c repo now (Rescheduled d) = (lease_token d \<noteq> lease_token c)"
| "undisturbing c repo now (MadeDue i t) = (t \<le> now)"
| "undisturbing c repo now (Removed i) = (i \<noteq> repo)"

definition leased :: "job \<Rightarrow> int \<Rightarrow> instant \<Rightarrow> job_row \<Rightarrow> bool" where
  "leased c repo now r \<longleftrightarrow> holds_token c r \<and> reconciles repo r
     \<and> opt_ex (\<lambda>l. l > now - reconciliation_lease) (jr_locked_at r)"

lemma leased_cong:
  assumes "jr_id r' = jr_id r" "jr_type r' = jr_type r" "jr_repository_id r' = jr_repository_id r"
    "jr_generation r' = jr_generation r" "jr_locked_at r' = jr_locked_at r"
  shows "leased c repo now r' = leased c repo now r"
  by (simp add: leased_def holds_token_def reconciles_def assms)

lemma leased_refuses: "leased c repo now r \<Longrightarrow> t \<le> now \<Longrightarrow> \<not> lease_free t r"
  by (auto simp: leased_def lease_free_def opt_ex_iff)

lemma leased_update:
  assumes "\<exists>r \<in> set rows. leased c repo now r"
    and "\<And>r. r \<in> set rows \<Longrightarrow> leased c repo now r \<Longrightarrow> p r \<Longrightarrow> leased c repo now (f r)"
  shows "\<exists>r \<in> set (snd (update_where p f rows)). leased c repo now r"
  using assms by (auto simp: update_where_def)

lemma leased_delete:
  assumes "\<exists>r \<in> set rows. leased c repo now r" and "\<And>r. leased c repo now r \<Longrightarrow> \<not> p r"
  shows "\<exists>r \<in> set (snd (delete_where p rows)). leased c repo now r"
  using assms by (auto simp: delete_where_def)

lemma leased_upsert:
  assumes "\<exists>r \<in> set rows. leased c repo now r" and "i = repo \<longrightarrow> \<not> advance"
  shows "\<exists>r \<in> set (upsert_stmt i advance category t rows). leased c repo now r"
proof -
  from assms(1) obtain r where r: "r \<in> set rows" "leased c repo now r" by blast
  show ?thesis
  proof (cases "reconciles i r")
    case True
    then have "i = repo" using r(2) by (simp add: leased_def reconciles_def)
    let ?f = "\<lambda>r. r \<lparr>jr_generation := jr_generation r, jr_run_at := t,
      jr_last_error := (case nullable_string category of None \<Rightarrow> jr_last_error r | Some e \<Rightarrow> Some e)\<rparr>"
    have "leased c repo now (?f r)" using r(2) by (subst leased_cong) simp_all
    moreover have "list_ex (reconciles i) rows" using r(1) True by (auto simp: list_ex_iff)
    ultimately show ?thesis using r(1) True assms(2) \<open>i = repo\<close> by (auto simp: upsert_stmt_def)
  next
    case False
    then show ?thesis using r by (auto simp: upsert_stmt_def)
  qed
qed

definition granted_for :: "int \<Rightarrow> queue \<Rightarrow> job list" where
  "granted_for i q = filter (\<lambda>g. job_id g = i) (q_granted q)"

lemma leased_step:
  assumes step: "queue_step q e q'" and kind: "undisturbing c repo now e" and ok: "jobs_ok (q_rows q)"
    and held: "\<exists>r \<in> set (q_rows q). leased c repo now r"
  shows "(\<exists>r \<in> set (q_rows q'). leased c repo now r) \<and> granted_for (job_id c) q' = granted_for (job_id c) q"
  using step
proof cases
  case (claim_ok d t affected rows)
  obtain r where r: "claimable d t r" "\<And>r'. r' \<in> set (q_rows q) \<Longrightarrow> jr_id r' = job_id d \<Longrightarrow> r' = r"
    by (rule claim_stmt_cases [OF claim_ok(3,4) ok]) blast
  have free: "\<not> claimable d t x" if "leased c repo now x" for x
    using leased_refuses [OF that] kind claim_ok(1) by (auto simp: claimable_def)
  have "job_id d \<noteq> job_id c"
  proof
    assume "job_id d = job_id c"
    with held r(2) have "leased c repo now r" by (auto simp: leased_def holds_token_def)
    with free r(1) show False by blast
  qed
  moreover have "\<exists>r \<in> set (snd (claim_stmt d t (q_rows q))). leased c repo now r"
    unfolding claim_stmt_def by (rule leased_update [OF held]) (use free in blast)
  ultimately show ?thesis using claim_ok(2,3) by (simp add: granted_for_def)
next
  case (enqueue i advance category t)
  then show ?thesis using leased_upsert [OF held] kind by (simp add: granted_for_def)
next
  case (complete d)
  have "\<exists>r \<in> set (snd (complete_stmt d (q_rows q))). leased c repo now r" unfolding complete_stmt_def
    by (rule leased_delete [OF held]) (use kind complete(1) in \<open>auto simp: leased_def holds_token_def lease_token_def\<close>)
  then show ?thesis by (simp add: complete(2) granted_for_def)
next
  case (release d)
  have "\<exists>r \<in> set (snd (release_stmt d (q_rows q))). leased c repo now r" unfolding release_stmt_def
    by (rule leased_update [OF held])
      (use kind release(1) in \<open>auto simp: leased_def holds_token_def superseded_def lease_token_def\<close>)
  then show ?thesis by (simp add: release(2) granted_for_def)
next
  case (reschedule d "next" category)
  have "\<exists>r \<in> set (snd (reschedule_stmt d next category (q_rows q))). leased c repo now r" unfolding reschedule_stmt_def
    by (rule leased_update [OF held]) (use kind reschedule(1) in \<open>auto simp: leased_def holds_token_def lease_token_def\<close>)
  then show ?thesis by (simp add: reschedule(2) granted_for_def)
next
  case (make_due i t)
  have "\<exists>r \<in> set (snd (make_due_stmt i t (q_rows q))). leased c repo now r" unfolding make_due_stmt_def
    by (rule leased_update [OF held]) (use kind make_due(1) leased_refuses in auto)
  then show ?thesis by (simp add: make_due(2) granted_for_def)
next
  case (remove i)
  have "\<exists>r \<in> set (snd (remove_stmt i (q_rows q))). leased c repo now r" unfolding remove_stmt_def
    by (rule leased_delete [OF held]) (use kind remove(1) in \<open>auto simp: leased_def reconciles_def\<close>)
  then show ?thesis by (simp add: remove(2) granted_for_def)
qed

text \<open>
  C23: A live lease is not stolen. From the moment a claim holds the lease of its row, and in every
  continuation in which no worker's clock has passed an instant at which the lease is still live,
  its own holder does not give the claim back and its repository is neither enqueued anew nor
  removed, the claim stays current at that instant and nobody else is handed a claim on the job:
  not by a worker with an old candidate or an old reading, not by an operator who makes the
  repository due, not by the end of any other claim.
\<close>

theorem live_lease_is_not_stolen:
  assumes "queue_reachable q" and "r \<in> set (q_rows q)" and "holds_token c r" and "reconciles repo r"
    and "jr_locked_at r = Some l" and "now < l + reconciliation_lease"
    and "queue_steps (undisturbing c repo now) q q'"
  shows "current_at c now (q_rows q') \<and> granted_for (job_id c) q' = granted_for (job_id c) q"
proof -
  have "queue_inv q' \<and> (\<exists>r \<in> set (q_rows q'). leased c repo now r)
      \<and> granted_for (job_id c) q' = granted_for (job_id c) q"
    using assms(7)
  proof (induction rule: queue_steps_induct)
    case refl
    have "leased c repo now r" using assms by (simp add: leased_def)
    then show ?case using assms(2) queue_inv_reachable [OF assms(1)] by blast
  next
    case (step x e y)
    from step.IH have "jobs_ok (q_rows x)" by (simp add: queue_inv_def)
    with step.IH show ?case
      using leased_step [OF step.hyps(3,2)] queue_inv_step [OF step.hyps(3)] by simp
  qed
  then show ?thesis by (auto simp: current_at_def list_ex_iff leased_def)
qed

text \<open>While the first job of two is worked on, the other is completed and the operator tries his luck.\<close>

lemma live_lease_is_not_stolen_witness:
  "current_at (hd (q_granted one_claim)) 90
     (snd (make_due_stmt 7 80 (snd (complete_stmt (hd (q_granted two_claims)) (q_rows two_claims)))))"
proof -
  let ?c = "hd (q_granted one_claim)" and ?d = "hd (q_granted two_claims)"
  let ?q1 = "two_claims \<lparr>q_rows := snd (complete_stmt ?d (q_rows two_claims))\<rparr>"
  let ?q2 = "?q1 \<lparr>q_rows := snd (make_due_stmt 7 80 (q_rows ?q1))\<rparr>"
  have "queue_step two_claims (Completed ?d) ?q1" by (rule complete)
  moreover have "undisturbing ?c 7 90 (Completed ?d)"
    by (simp add: lease_token_def two_claims_def one_claim_def second_job_def scan_job_def)
  ultimately have "queue_steps (undisturbing ?c 7 90) two_claims ?q1" by (rule queue_steps_step [OF queue_steps_refl])
  moreover have "queue_step ?q1 (MadeDue 7 80) ?q2" by (rule make_due)
  ultimately have steps: "queue_steps (undisturbing ?c 7 90) two_claims ?q2" by (rule queue_steps_step) simp
  have "current_at ?c 90 (q_rows ?q2) \<and> granted_for (job_id ?c) ?q2 = granted_for (job_id ?c) two_claims"
    by (rule live_lease_is_not_stolen [OF two_claims_reachable _ _ _ _ _ steps, of "hd (q_rows one_claim)" 20])
      (simp_all add: two_claims_def one_claim_def holds_token_def reconciles_def reconciliation_lease_def nanos_def)
  then show ?thesis by simp
qed

subsection \<open>Batches\<close>

text \<open>
  The claims of a batch, made with one reading that no lease of these jobs was taken at before, are
  a run of the queue, whatever statement fails: the claims handed out are the ones it returns.
\<close>

definition queue_of :: "job list \<Rightarrow> world \<Rightarrow> queue" where
  "queue_of granted w = \<lparr>q_rows = tb_jobs (tables w), q_granted = granted\<rparr>"

definition unread :: "instant \<Rightarrow> int set \<Rightarrow> job list \<Rightarrow> bool" where
  "unread now ids granted \<longleftrightarrow> (\<forall>g \<in> set granted. job_id g \<in> ids \<longrightarrow> job_locked_at g \<noteq> Some now)"

lemma claim_is_step:
  assumes "claim c now w = (r, w')" and "unread now {job_id c} granted"
  shows "case r of
      Inl e \<Rightarrow> queue_of granted w' = queue_of granted w
    | Inr None \<Rightarrow> queue_of granted w' = queue_of granted w
    | Inr (Some j) \<Rightarrow> j = hand_out c now \<and> queue_step (queue_of granted w) (Claimed c now) (queue_of (j # granted) w')"
proof (cases "fault w (statements w)")
  case True
  with assms(1) show ?thesis by (auto simp: claim_def bind_def exec_def sql_def queue_of_def)
next
  case False
  obtain affected rows where stmt: "claim_stmt c now (tb_jobs (tables w)) = (affected, rows)" by fastforce
  have w': "tb_jobs (tables w') = rows" and r: "r = Inr (if affected = 0 then None else Some (hand_out c now))"
    using assms(1) False stmt by (auto simp: claim_def bind_def exec_def sql_def ret_def hand_out_def split: if_splits)
  show ?thesis
  proof (cases "affected = 0")
    case True
    then have "rows = tb_jobs (tables w)"
      using stmt update_where_none [of "claimable c now"] unfolding claim_stmt_def by (metis fst_conv snd_conv)
    with True show ?thesis by (simp add: r w' queue_of_def)
  next
    case False
    have "queue_step (queue_of granted w) (Claimed c now)
        \<lparr>q_rows = rows, q_granted = hand_out c now # q_granted (queue_of granted w)\<rparr>"
      by (rule claim_ok [where affected = affected])
        (use stmt False assms(2) in \<open>auto simp: queue_of_def unread_def\<close>)
    with False show ?thesis by (simp add: r w' queue_of_def)
  qed
qed

lemma claim_each_is_run:
  assumes "claim_each cs now w = (Inr (js, e), w')" and "distinct (map job_id cs)"
    and "unread now (job_id ` set cs) granted"
  shows "queue_steps (\<lambda>_. True) (queue_of granted w) (queue_of (rev js @ granted) w')"
  using assms
proof (induction cs arbitrary: w js granted)
  case Nil
  then show ?case by (simp add: ret_def queue_of_def)
next
  case (Cons c cs)
  obtain r w1 where run: "claim c now w = (r, w1)" by fastforce
  note step = claim_is_step [OF run, of granted]
  have new: "unread now {job_id c} granted" using Cons.prems(3) by (simp add: unread_def)
  show ?case
  proof (cases r)
    case (Inl err)
    with Cons.prems(1) run have "js = []" "w' = w1" by (simp_all add: bind_def attempt_def ret_def)
    with step [OF new] Inl show ?thesis by simp
  next
    case (Inr claimed)
    with Cons.prems(1) run obtain rest where rest: "claim_each cs now w1 = (Inr (rest, e), w')"
      and js: "js = (case claimed of None \<Rightarrow> rest | Some j \<Rightarrow> j # rest)"
      by (auto simp: bind_def attempt_def ret_def split: prod.splits sum.splits)
    show ?thesis
    proof (cases claimed)
      case None
      have "queue_steps (\<lambda>_. True) (queue_of granted w1) (queue_of (rev rest @ granted) w')"
        by (rule Cons.IH [OF rest]) (use Cons.prems in \<open>auto simp: unread_def\<close>)
      with step [OF new] Inr None js show ?thesis by simp
    next
      case (Some j)
      from step [OF new] have j: "j = hand_out c now"
        and first: "queue_step (queue_of granted w) (Claimed c now) (queue_of (j # granted) w1)"
        unfolding Inr Some by auto
      have "queue_steps (\<lambda>_. True) (queue_of (j # granted) w1) (queue_of (rev rest @ j # granted) w')"
        by (rule Cons.IH [OF rest]) (use Cons.prems j in \<open>auto simp: unread_def image_iff\<close>)
      with first show ?thesis using Some js by (simp add: queue_steps_first)
    qed
  qed
qed

text \<open>\<open>ClaimDue\<close> hands out only claims of histories of the queue, all with the one reading it took.\<close>

lemma claim_due_is_run:
  assumes run: "claim_due limit w = (Inr (js, e), w')" and ok: "jobs_ok (tb_jobs (tables w))"
    and "unread (clock w (readings w)) UNIV granted"
  shows "queue_steps (\<lambda>_. True) (queue_of granted w) (queue_of (rev js @ granted) w')"
proof -
  let ?now = "clock w (readings w)"
  from run obtain now w2 cs w1 where now: "now_utc w = (Inr now, w2)"
    and cs: "query (\<lambda>d. map scan_job (limit_rows (if limit \<le> 0 \<or> limit > 100 then 25 else limit)
        (sort_key (\<lambda>r. (jr_run_at r, jr_id r)) (filter (\<lambda>r. jr_type r = reconcile_type \<and> jr_repository_id r \<noteq> None
           \<and> jr_run_at r \<le> now \<and> lease_free now r) (tb_jobs d))))) w2 = (Inr cs, w1)"
    and each: "claim_each cs now w1 = (Inr (js, e), w')"
    unfolding claim_due_def Let_def by (elim bind_cases)
  have at: "now = ?now" "tables w2 = tables w" using now by (auto simp: now_utc_def)
  have "distinct (map jr_id (sort_key k (filter p (tb_jobs (tables w)))))"
    for p and k :: "job_row \<Rightarrow> instant \<times> int"
    using ok by (auto simp: jobs_ok_def distinct_map intro: inj_on_subset)
  then have "distinct (map jr_id (take n (sort_key k (filter p (tb_jobs (tables w))))))"
    for n p and k :: "job_row \<Rightarrow> instant \<times> int"
    by (simp add: take_map [symmetric])
  then have "distinct (map job_id cs)" and w1: "tables w1 = tables w"
    using cs at(2) by (auto simp: query_def sql_def limit_rows_def comp_def scan_job_def split: if_splits)
  then have "queue_steps (\<lambda>_. True) (queue_of granted w1) (queue_of (rev js @ granted) w')"
    by (intro claim_each_is_run [OF each]) (use assms(3) at(1) in \<open>simp_all add: unread_def\<close>)
  then show ?thesis by (simp add: queue_of_def w1)
qed

end
