(* ===== verification/Spec2Isabelle.thy ===== *)
theory Spec2Isabelle
  imports Policy Expansion Decide Scope Jobs FreezeFacts StatusFacts FreezeServiceFacts ThawServiceFacts PullStore ScheduleServiceFacts
    Materializer ThawApproval WebhookIntake EnforcementFacts PublisherFacts ApplicationFacts DeliveryFacts
    InvitationFacts QueueProgress QueueLeases
begin

text \<open>
  Thawguard guards the branches of a Forgejo repository during release freezes. It keeps freezes,
  schedules and thaw exceptions in SQLite, decides for every open pull request whether it may be
  merged, and posts the verdict to the forge as a commit status that branch protection requires.
  This library models the program below \<open>src/internal\<close> that takes and publishes that
  decision, and proves what makes it a gate that can be relied on.

  THE PROGRAM AND ITS MODEL. A record, datatype or definition carries the name of the Go type or
  function it stands for, in snake case; a row of the database is a record, a table a list of rows
  in insertion order, and \<open>db\<close> the tables together.

  The world. \<open>Prelude\<close>, \<open>GoText\<close> (strings as bytes, runes, trimming), \<open>GoTime\<close>
  (civil dates), \<open>Domain\<close> (\<open>domain/domain.go\<close>) and \<open>World\<close> are the base. An operation
  of a store or service is a function \<open>'a go\<close> from a world to an error or a value and the world
  after it. Every statement sent to the database may fail, as \<open>fault\<close> says; every
  \<open>time.Now\<close> is one reading of \<open>clock\<close>; \<open>transact\<close> is begin, commit and rollback;
  \<open>LIMIT 1\<close> without an order takes the row \<open>choice\<close> picks. So a theorem about all worlds is a
  theorem about all database failures at all places. \<open>World.table_relation\<close> is the interface
  by which a relation on tables is carried through an operation: it is interpreted for tables an
  operation leaves alone (\<open>same\<close>), for invariants (\<open>keeps\<close>) and for relations that
  hold once a check has passed (\<open>guarded\<close>). \<open>Scope\<close> is the read scope of
  \<open>repositoryscope/scope.go\<close>.

  The decision. \<open>Policy\<close> (\<open>policy/evaluator.go\<close>, \<open>description.go\<close>) is the verdict
  for one pull request and its text. \<open>PullStore\<close>, \<open>ThawStore\<close>, \<open>FreezeStore\<close> and
  \<open>ResultStore\<close> are the stores it is fed from and recorded in, \<open>StatusService\<close>
  (\<open>statusresult/service.go\<close>) gathers their answers for one pull request or for all that share
  a head commit. \<open>StatusFacts\<close> states what a source must deliver as the locale
  \<open>status_sources\<close>, proves there that a green verdict is safe, and interprets it on the
  stores of the program.

  Freezes and thaws. \<open>FreezeStore\<close> and \<open>FreezeService\<close> (\<open>freeze/\<close>) hold the
  life of a freeze from scheduled over active to ended or cancelled; \<open>ThawStore\<close> and
  \<open>ThawService\<close> (\<open>thawexception/\<close>) the exceptions, \<open>ThawApproval\<close>
  (\<open>app/thaw_approval.go\<close>) the approval against what the forge says now; \<open>AuditLog\<close>
  (\<open>audit/audit.go\<close>) the trail. \<open>FreezeFacts\<close> has the life cycle, the invariant of the table and
  the enforcement gate under every fault; \<open>Accounting\<close> what a service operation owes:
  all or nothing, one audit event of its repository, and a reconciliation under a new generation;
  \<open>FreezeServiceFacts\<close> and \<open>ThawServiceFacts\<close> prove it for the services; \<open>ThawFacts\<close>
  says how far the comparison of expiries as text is from the clock (\<open>Rfc3339\<close>).

  Schedules. \<open>Intervals\<close>, \<open>Coverage\<close> and \<open>Expansion\<close> (\<open>schedule/expand.go\<close>) turn
  weekly rules and dated windows into segments of time; \<open>ScheduleStore\<close> and
  \<open>ScheduleService\<close> keep the schedules; \<open>Decide\<close> (\<open>scheduler/decide.go\<close>) says what must
  become of the freeze of a branch, and \<open>Materializer\<close> (\<open>scheduler/materialize.go\<close>,
  \<open>app/freeze_lifecycle_runner.go\<close>) carries it out through the interface
  \<open>freeze_surface\<close>. \<open>ScheduleFacts\<close> has the invariant of the tables and that what is stored
  covers exactly the described instants, \<open>ScheduleServiceFacts\<close> that a manual thaw lasts
  until the next window.

  Enforcement. \<open>RepositoryStore\<close> and \<open>RepositorySetup\<close> hold repositories, credentials
  and branches, \<open>SetupCheck\<close> the readiness checks, \<open>Enforcement\<close> and
  \<open>EnforcementRuns\<close> (\<open>app/enforcement_activation.go\<close>, \<open>enforcement_reconciliation.go\<close>,
  \<open>runtime_convergence.go\<close>, \<open>repository_reconciliation_runner.go\<close>) verification,
  activation, deactivation, reconciliation and recovery; \<open>Jobs\<close> (\<open>jobs/jobs.go\<close>) the
  queue whose leases serialise them (\<open>QueueLeases\<close>: a live lease is not stolen, and a batch of claims
  is a run of the queue's steps; \<open>QueueProgress\<close>: every due job is given out in its turn); \<open>FreezeRecompute\<close> (\<open>app/freeze_recompute.go\<close>) the freeze
  operations of the application, gated before and converged afterwards; \<open>OpenSync\<close> the
  synchronisation of open pull requests. \<open>Footprint\<close> lists what each operation may touch;
  \<open>EnforcementFacts\<close> proves by rule induction over the histories of the lifecycle that an
  enforced repository has the evidence of a verified status post.

  The forge side. \<open>Forge\<close> is the client as a parameter with the redaction of tokens,
  \<open>PublicationStore\<close> and \<open>Publisher\<close> (\<open>statuspublication/\<close>, \<open>statuspublisher/\<close>) the
  intents, attempts and the posting; \<open>DeliveryStore\<close>, \<open>WebhookProcessor\<close>,
  \<open>Signature\<close> and \<open>WebhookIntake\<close> (\<open>webhook/\<close> and the receiver in \<open>web/server.go\<close>)
  what arrives from the forge. \<open>PublisherFacts\<close> proves that a publication hides its token and
  writes exactly the intent of its result; \<open>DeliveryFacts\<close> that a processed delivery is final.

  The application. \<open>Application\<close> composes the services the way \<open>app/app.go\<close> wires them into one
  operation per request, those of the accounts among them, and per tick of a runner; \<open>Changes\<close>
  is the vocabulary of what they do to the tables. \<open>ApplicationFacts\<close> carries both through the
  whole application (locale \<open>application_tables\<close>, interpreted for the invariants and for what
  changes may happen) and states of every history of requests and ticks that the tables stay well
  formed, that the record is not rewritten and that an administrator remains.

  Accounts. \<open>Base64\<close>, \<open>Passwords\<close> (\<open>auth/password.go\<close>) and \<open>Roles\<close>
  (\<open>auth/roles.go\<close>, \<open>grants.go\<close>) are the pure part; \<open>AccountStore\<close> has the statements the
  account operations share, \<open>Accounts\<close> (\<open>auth/service.go\<close>, \<open>account.go\<close>,
  \<open>password_recovery.go\<close>, \<open>repository_grants.go\<close>, \<open>company_oidc.go\<close>), \<open>Invitations\<close>
  (\<open>auth/invitations.go\<close>, \<open>invitation_directory.go\<close>) and \<open>Directory\<close> the operations, and
  \<open>AccountRequests\<close> all of them as one. \<open>Triples\<close> are partial-correctness triples of operations.
  \<open>AccountFacts\<close> has the invariant of the account tables and the steps they may take, as the
  locales \<open>account_relation\<close> and \<open>authority_relation\<close>; \<open>AuthorityFacts\<close> that an administrator
  remains and when a session is served, \<open>RevocationFacts\<close> what ends an access, and
  \<open>InvitationFacts\<close> exactly what an accepted invitation gives.

  PARAMETERS. What is not in the repository is an argument: the forge client (\<open>forge_env\<close>), the
  inspector of a branch, the zone database (\<open>tz\<close>), encryption of secrets, JSON and URL
  decoding, SHA-256, Argon2 and the source of random bytes. HMAC and hexadecimal text are written out from their specifications. A
  theorem that relies on one of them says so: zones of constant offset where the covered instants
  are computed, and a forge whose calls leave the database alone where an invariant of the tables
  is carried through a run; each such theorem has a witness.

  FUEL AND TERMINATION. No model of a loop of the program runs on fuel. The one loop that a
  foreign value could keep going, the day loop of \<open>expandRule\<close>, is a \<open>partial_function\<close>, and
  \<open>expand_rule_terminates\<close> shows that it returns in every location where the next noon is
  later.

  NUMBERS AND TIME. Row identifiers and pull-request numbers are \<open>int\<close>: they come from SQLite and
  JSON and the code adds nothing to them. An instant is the \<open>int\<close> of its nanoseconds since 1970.
  Time columns of fixed width compare as their instants; where the code compares
  \<open>RFC3339Nano\<close> texts, the model compares the texts. Lower-casing is that of \<open>strings.ToLower\<close>
  with the mappings of Unicode 15 (\<open>GoText.to_lower\<close>), and of ASCII letters where SQLite does it.

  NOT MODELLED. The protocol of company sign-in (\<open>companyoidc/\<close>), the linking of forge accounts and connections (\<open>forgeidentity/\<close>,
  \<open>forgeconnection/\<close>) and the pages and forms of \<open>web/\<close> decide who may press the buttons, not
  what the buttons do. The HTTP client of the forge (\<open>forge/forgejo/\<close>), AES-GCM, the
  environment, the opening of the database and the start of the process are calls into the standard
  library. Cancellation of contexts, logging, the tickers of the background loops and the
  interleaving of two operations inside one transaction are left out: SQLite runs with one writer
  at a time, and the queue, where workers do interleave, has its own step relation
  (\<open>Jobs.queue_step\<close>).
\<close>

end
